(* ===== verification/Prelude.thy ===== *)
theory Prelude
  imports
    Main
    "HOL-Library.Word"
    "HOL-Library.Multiset"
    "HOL-Library.Product_Lexorder"
    "HOL-Library.List_Lexorder"
    "HOL-Library.Char_ord"
begin

text \<open>
  Shared vocabulary of the Model Router development.

  Machine integers are words of the width the C++ code uses; identities
  (\<open>EntityId<Tag>\<close>) and generations (\<open>Generation<Tag>\<close>) are 64-bit words whose
  value 0 is the invalid one.  Signed 64-bit quantities (timestamps, micro-units of
  money, ranking scores) are integers, and the places where the code guards against
  overflow keep their guards.

  The containers of the C++ standard library the code relies on are modelled here
  once: \<open>std::map\<close> and \<open>std::set\<close> as strictly ascending lists, \<open>std::lower_bound\<close>
  and \<open>std::binary_search\<close> as the halving loop, \<open>std::stable_sort\<close> as stable
  insertion, \<open>std::unique\<close> as the removal of adjacent equals.  The lemmas of this
  theory say that on sorted input these agree with plain lookup and membership; the
  components never reason about positions again.
\<close>

unbundle bit_operations_syntax

named_theorems container_simps \<open>rewrite rules of the ordered containers\<close>
named_theorems outcome_simps \<open>evaluation rules for outcome codes\<close>

type_synonym u8 = "8 word"
type_synonym u32 = "32 word"
type_synonym u64 = "64 word"
type_synonym entity_id = u64
type_synonym generation = u64
type_synonym unix_millis = int

abbreviation (input) kNoExpiry :: unix_millis where
  "kNoExpiry \<equiv> 0"

abbreviation (input) kU32Max :: u32 where
  "kU32Max \<equiv> 0xFFFFFFFF"

definition int64_min :: int where
  "int64_min = - (2 ^ 63)"

definition int64_max :: int where
  "int64_max = 2 ^ 63 - 1"

definition in_int64 :: "int \<Rightarrow> bool" where
  "in_int64 x \<longleftrightarrow> int64_min \<le> x \<and> x \<le> int64_max"

section \<open>Decimal rendering: \<open>std::to_string\<close>\<close>

fun dec_digits :: "nat \<Rightarrow> string" where
  "dec_digits n =
     (if n < 10 then [char_of (48 + n)]
      else dec_digits (n div 10) @ [char_of (48 + n mod 10)])"

declare dec_digits.simps [simp del]

definition dec_u64 :: "u64 \<Rightarrow> string" where
  "dec_u64 w = dec_digits (unat w)"

definition dec_u32 :: "u32 \<Rightarrow> string" where
  "dec_u32 w = dec_digits (unat w)"

definition dec_int :: "int \<Rightarrow> string" where
  "dec_int i = (if i < 0 then CHR ''-'' # dec_digits (nat (- i)) else dec_digits (nat i))"

definition dec_bool :: "bool \<Rightarrow> string" where
  "dec_bool b = (if b then ''1'' else ''0'')"

section \<open>Validation chains\<close>

text \<open>A sequence of \<open>if (bad) return "reason";\<close> statements: the reason of the first
  condition that holds, and the empty string when none does.\<close>

fun first_failure :: "(bool \<times> string) list \<Rightarrow> string" where
  "first_failure [] = []"
| "first_failure ((bad, reason) # checks) = (if bad then reason else first_failure checks)"

lemma first_failure_Nil_iff:
  "list_all (\<lambda>(bad, reason). reason \<noteq> []) checks \<Longrightarrow>
   first_failure checks = [] \<longleftrightarrow> list_all (\<lambda>(bad, reason). \<not> bad) checks"
  by (induction checks rule: first_failure.induct) auto

section \<open>Binary search: \<open>std::lower_bound\<close> and \<open>std::binary_search\<close>\<close>

function lower_bound_loop :: "('a \<Rightarrow> 'k::linorder) \<Rightarrow> 'k \<Rightarrow> 'a list \<Rightarrow> nat \<Rightarrow> nat \<Rightarrow> nat" where
  "lower_bound_loop f k xs first len =
     (if len = 0 then first
      else let half = len div 2; mid = first + half
           in if f (xs ! mid) < k
              then lower_bound_loop f k xs (mid + 1) (len - (half + 1))
              else lower_bound_loop f k xs first half)"
  by pat_completeness auto
termination
  by (relation "measure (\<lambda>(f, k, xs, first, len). len)") auto

declare lower_bound_loop.simps [simp del]

definition lower_bound :: "('a \<Rightarrow> 'k::linorder) \<Rightarrow> 'k \<Rightarrow> 'a list \<Rightarrow> nat" where
  "lower_bound f k xs = lower_bound_loop f k xs 0 (length xs)"

definition find_by_key :: "('a \<Rightarrow> 'k::linorder) \<Rightarrow> 'k \<Rightarrow> 'a list \<Rightarrow> 'a option" where
  "find_by_key f k xs =
     (let i = lower_bound f k xs
      in if i = length xs \<or> f (xs ! i) \<noteq> k then None else Some (xs ! i))"

definition binary_search :: "'k::linorder list \<Rightarrow> 'k \<Rightarrow> bool" where
  "binary_search xs k = (let i = lower_bound id k xs in i \<noteq> length xs \<and> \<not> k < xs ! i)"

section \<open>Sorting: \<open>std::stable_sort\<close>, \<open>std::sort\<close>, \<open>std::unique\<close>\<close>

fun insert_by :: "('a \<Rightarrow> 'a \<Rightarrow> bool) \<Rightarrow> 'a \<Rightarrow> 'a list \<Rightarrow> 'a list" where
  "insert_by lt x [] = [x]"
| "insert_by lt x (y # ys) = (if lt y x then y # insert_by lt x ys else x # y # ys)"

definition stable_sort_by :: "('a \<Rightarrow> 'a \<Rightarrow> bool) \<Rightarrow> 'a list \<Rightarrow> 'a list" where
  "stable_sort_by lt xs = foldr (insert_by lt) xs []"

fun unique_by :: "('a \<Rightarrow> 'k) \<Rightarrow> 'a list \<Rightarrow> 'a list" where
  "unique_by f [] = []"
| "unique_by f [x] = [x]"
| "unique_by f (x # y # zs) =
     (if f x = f y then unique_by f (x # zs) else x # unique_by f (y # zs))"

definition sort_ids :: "'a::linorder list \<Rightarrow> 'a list" where
  "sort_ids xs = unique_by id (sort xs)"

definition sort_unique_by :: "('a \<Rightarrow> 'k::linorder) \<Rightarrow> 'a list \<Rightarrow> 'a list" where
  "sort_unique_by f xs = unique_by f (sort_key f xs)"

section \<open>Ordered maps and sets: \<open>std::map\<close>, \<open>std::set\<close>\<close>

type_synonym ('k, 'v) omap = "('k \<times> 'v) list"

abbreviation strictly_ascending :: "'k::linorder list \<Rightarrow> bool" where
  "strictly_ascending \<equiv> sorted_wrt (<)"

definition om_ok :: "('k::linorder, 'v) omap \<Rightarrow> bool" where
  "om_ok m \<longleftrightarrow> strictly_ascending (map fst m)"

definition om_empty :: "('k::linorder, 'v) omap" where
  "om_empty = []"

fun om_find :: "('k::linorder, 'v) omap \<Rightarrow> 'k \<Rightarrow> 'v option" where
  "om_find [] k = None"
| "om_find ((a, v) # m) k = (if k = a then Some v else if k < a then None else om_find m k)"

fun om_put :: "'k::linorder \<Rightarrow> 'v \<Rightarrow> ('k, 'v) omap \<Rightarrow> ('k, 'v) omap" where
  "om_put k v [] = [(k, v)]"
| "om_put k v ((a, w) # m) =
     (if k < a then (k, v) # (a, w) # m
      else if k = a then (a, v) # m
      else (a, w) # om_put k v m)"

fun om_erase :: "'k::linorder \<Rightarrow> ('k, 'v) omap \<Rightarrow> ('k, 'v) omap" where
  "om_erase k [] = []"
| "om_erase k ((a, w) # m) = (if k = a then m else (a, w) # om_erase k m)"

definition om_map_values :: "('v \<Rightarrow> 'w) \<Rightarrow> ('k::linorder, 'v) omap \<Rightarrow> ('k, 'w) omap" where
  "om_map_values f m = map (\<lambda>(k, v). (k, f v)) m"

fun os_insert :: "'k::linorder \<Rightarrow> 'k list \<Rightarrow> 'k list" where
  "os_insert k [] = [k]"
| "os_insert k (a # s) =
     (if k < a then k # a # s else if k = a then a # s else a # os_insert k s)"

fun os_erase :: "'k::linorder \<Rightarrow> 'k list \<Rightarrow> 'k list" where
  "os_erase k [] = []"
| "os_erase k (a # s) = (if k = a then s else a # os_erase k s)"

section \<open>Lemmas on binary search\<close>

lemma lower_bound_loop_partition:
  assumes "sorted (map f xs)" and "first + len \<le> length xs"
    and "\<forall>i<first. f (xs ! i) < k"
    and "\<forall>i. first + len \<le> i \<and> i < length xs \<longrightarrow> k \<le> f (xs ! i)"
  defines "r \<equiv> lower_bound_loop f k xs first len"
  shows "r \<le> length xs \<and> (\<forall>i<r. f (xs ! i) < k) \<and> (\<forall>i. r \<le> i \<and> i < length xs \<longrightarrow> k \<le> f (xs ! i))"
  using assms(1-4) unfolding r_def
proof (induction f k xs first len rule: lower_bound_loop.induct)
  case (1 f k xs first len)
  show ?case
  proof (cases "len = 0")
    case True
    with "1.prems" show ?thesis by (simp add: lower_bound_loop.simps)
  next
    case False
    let ?mid = "first + len div 2"
    have mid: "?mid < length xs" using False "1.prems"(2) by simp
    have mono: "\<And>i j. i \<le> j \<Longrightarrow> j < length xs \<Longrightarrow> f (xs ! i) \<le> f (xs ! j)"
      using "1.prems"(1) by (auto simp: sorted_iff_nth_mono)
    show ?thesis
    proof (cases "f (xs ! ?mid) < k")
      case True
      have eq: "lower_bound_loop f k xs first len =
          lower_bound_loop f k xs (?mid + 1) (len - (len div 2 + 1))"
        using False True by (subst lower_bound_loop.simps) (simp add: Let_def)
      have below: "\<forall>i<?mid + 1. f (xs ! i) < k"
        using True mono mid by (metis Suc_eq_plus1 le_less_trans less_Suc_eq_le)
      have width: "?mid + 1 + (len - (len div 2 + 1)) = first + len" using False by simp
      show ?thesis
        unfolding eq
        by (rule "1.IH"(1) [OF False refl refl True "1.prems"(1)])
           (use below "1.prems" in \<open>simp_all only: width\<close>)
    next
      case ge: False
      have eq: "lower_bound_loop f k xs first len = lower_bound_loop f k xs first (len div 2)"
        using False ge by (subst lower_bound_loop.simps) (simp add: Let_def)
      have above: "\<forall>i. ?mid \<le> i \<and> i < length xs \<longrightarrow> k \<le> f (xs ! i)"
        using ge mono by (meson leI order.trans)
      show ?thesis
        unfolding eq
        by (rule "1.IH"(2) [OF False refl refl ge "1.prems"(1)])
           (use mid above "1.prems"(3) in simp_all)
    qed
  qed
qed

lemma lower_bound_partition:
  assumes "sorted (map f xs)"
  shows "lower_bound f k xs \<le> length xs"
    and "i < lower_bound f k xs \<Longrightarrow> f (xs ! i) < k"
    and "lower_bound f k xs \<le> i \<Longrightarrow> i < length xs \<Longrightarrow> k \<le> f (xs ! i)"
proof -
  have "lower_bound f k xs \<le> length xs \<and> (\<forall>i<lower_bound f k xs. f (xs ! i) < k) \<and>
      (\<forall>i. lower_bound f k xs \<le> i \<and> i < length xs \<longrightarrow> k \<le> f (xs ! i))"
    unfolding lower_bound_def by (rule lower_bound_loop_partition [OF assms]) auto
  then show "lower_bound f k xs \<le> length xs"
    and "i < lower_bound f k xs \<Longrightarrow> f (xs ! i) < k"
    and "lower_bound f k xs \<le> i \<Longrightarrow> i < length xs \<Longrightarrow> k \<le> f (xs ! i)"
    by blast+
qed

lemma find_by_key_Some:
  assumes "sorted (map f xs)" and "find_by_key f k xs = Some x"
  shows "x \<in> set xs \<and> f x = k"
  using assms lower_bound_partition(1) [OF assms(1), of k]
  by (auto simp: find_by_key_def Let_def split: if_splits)

lemma find_by_key_None_iff:
  assumes "sorted (map f xs)"
  shows "find_by_key f k xs = None \<longleftrightarrow> k \<notin> f ` set xs"
proof -
  let ?i = "lower_bound f k xs"
  have "k \<in> f ` set xs \<longleftrightarrow> ?i < length xs \<and> f (xs ! ?i) = k"
  proof
    assume "k \<in> f ` set xs"
    then obtain j where j: "j < length xs" "f (xs ! j) = k"
      by (auto simp: in_set_conv_nth)
    then have ij: "?i \<le> j"
      using lower_bound_partition(2) [OF assms, of j k] by (metis less_irrefl not_le)
    then have "f (xs ! ?i) \<le> k"
      using assms j by (auto simp: sorted_iff_nth_mono)
    moreover have "k \<le> f (xs ! ?i)"
      using lower_bound_partition(3) [OF assms, of k ?i] ij j by simp
    ultimately show "?i < length xs \<and> f (xs ! ?i) = k" using ij j by simp
  next
    assume "?i < length xs \<and> f (xs ! ?i) = k"
    then show "k \<in> f ` set xs" by (metis image_eqI nth_mem)
  qed
  then show ?thesis
    using lower_bound_partition(1) [OF assms, of k]
    by (auto simp: find_by_key_def Let_def)
qed

lemma binary_search_iff [container_simps]:
  assumes "sorted xs"
  shows "binary_search xs k \<longleftrightarrow> k \<in> set xs"
proof -
  let ?i = "lower_bound id k xs"
  have s: "sorted (map id xs)" using assms by simp
  have "binary_search xs k \<longleftrightarrow> find_by_key id k xs \<noteq> None"
    using lower_bound_partition(1) [OF s, of k] lower_bound_partition(3) [OF s, of k ?i]
    by (auto simp: binary_search_def find_by_key_def Let_def le_less)
  then show ?thesis using find_by_key_None_iff [OF s, of k] by simp
qed

lemma find_by_key_eq_find:
  assumes "sorted (map f xs)"
  shows "find_by_key f k xs = List.find (\<lambda>x. f x = k) xs"
proof (cases "find_by_key f k xs")
  case None
  then show ?thesis
    using find_by_key_None_iff [OF assms, of k] by (auto simp: find_None_iff2)
next
  case (Some x)
  let ?i = "lower_bound f k xs"
  from Some have "?i < length xs" "f (xs ! ?i) = k" "x = xs ! ?i"
    using lower_bound_partition(1) [OF assms, of k]
    by (auto simp: find_by_key_def Let_def split: if_splits)
  moreover have "\<forall>j<?i. f (xs ! j) \<noteq> k"
    using lower_bound_partition(2) [OF assms] by (metis less_irrefl)
  ultimately have "List.find (\<lambda>x. f x = k) xs = Some x" by (auto simp: find_Some_iff)
  with Some show ?thesis by simp
qed

lemma find_eq_hd_filter:
  "List.find P xs = (case filter P xs of [] \<Rightarrow> None | x # _ \<Rightarrow> Some x)"
  by (induction xs) auto

lemma find_sort_key: "List.find (\<lambda>x. f x = k) (sort_key f xs) = List.find (\<lambda>x. f x = k) xs"
  by (simp add: find_eq_hd_filter sort_key_stable)

lemma lex_pair_less:
  "(a, x) < (b, y) \<longleftrightarrow> (if a \<noteq> b then a < b else x < y)"
  for a :: "'a::linorder" and x :: "'b::linorder"
  by auto

section \<open>Lemmas on sorting\<close>

lemma mset_insert_by [simp]: "mset (insert_by lt x xs) = add_mset x (mset xs)"
  by (induction xs) auto

lemma set_insert_by [simp]: "set (insert_by lt x xs) = insert x (set xs)"
  by (induction xs) auto

lemma stable_sort_by_Nil [simp]: "stable_sort_by lt [] = []"
  by (simp add: stable_sort_by_def)

lemma stable_sort_by_Cons [simp]:
  "stable_sort_by lt (x # xs) = insert_by lt x (stable_sort_by lt xs)"
  by (simp add: stable_sort_by_def)

lemma mset_stable_sort_by [simp]: "mset (stable_sort_by lt xs) = mset xs"
  by (induction xs) auto

lemma set_stable_sort_by [simp]: "set (stable_sort_by lt xs) = set xs"
  by (induction xs) auto

lemma stable_sort_by_eq_Nil [simp]: "stable_sort_by lt xs = [] \<longleftrightarrow> xs = []"
  by (metis set_empty set_stable_sort_by)

lemma length_stable_sort_by [simp]: "length (stable_sort_by lt xs) = length xs"
  by (metis mset_stable_sort_by size_mset)

lemma distinct_map_mset: "mset xs = mset ys \<Longrightarrow> distinct (map f xs) \<longleftrightarrow> distinct (map f ys)"
  by (rule mset_eq_imp_distinct_iff) simp

lemma stable_sort_by_key: "stable_sort_by (\<lambda>a b. f a < f b) xs = sort_key f xs"
proof -
  have "insert_by (\<lambda>a b. f a < f b) x ys = insort_key f x ys" for x ys
    by (induction ys) auto
  then show ?thesis by (induction xs) simp_all
qed

lemma set_unique_by_image: "f ` set (unique_by f xs) = f ` set xs"
  by (induction f xs rule: unique_by.induct) auto

lemma set_unique_by_subset: "set (unique_by f xs) \<subseteq> set xs"
  by (induction f xs rule: unique_by.induct) auto

lemma hd_unique_by: "unique_by f (x # xs) = y # ys \<Longrightarrow> y = x"
  by (induction f "x # xs" arbitrary: xs rule: unique_by.induct) (auto split: if_splits)

lemma unique_by_strictly_ascending:
  fixes f :: "'a \<Rightarrow> 'k::linorder"
  shows "sorted (map f xs) \<Longrightarrow> strictly_ascending (map f (unique_by f xs))"
proof (induction f xs rule: unique_by.induct)
  case (3 f x y zs)
  show ?case
  proof (cases "f x = f y")
    case True
    with 3 show ?thesis by simp
  next
    case False
    with "3.prems" have lt: "f x < f y" and ge: "\<forall>z\<in>set zs. f y \<le> f z" by auto
    have "\<forall>z \<in> set (unique_by f (y # zs)). f x < f z"
      using set_unique_by_subset [of f "y # zs"] lt ge by (auto dest!: subsetD)
    with 3 False show ?thesis by auto
  qed
qed auto

lemma unique_by_id_on_distinct: "distinct (map f xs) \<Longrightarrow> unique_by f xs = xs"
  by (induction f xs rule: unique_by.induct) auto

lemma strictly_ascending_sorted: "strictly_ascending xs \<Longrightarrow> sorted xs"
  by (induction xs) (auto intro: less_imp_le)

lemma strictly_ascending_distinct: "strictly_ascending xs \<Longrightarrow> distinct xs"
  by (induction xs) auto

lemma sort_ids_ascending [simp]: "strictly_ascending (sort_ids xs)"
  using unique_by_strictly_ascending [of id "sort xs"] by (simp add: sort_ids_def)

lemma sorted_sort_ids [simp]: "sorted (sort_ids xs)"
  by (simp add: strictly_ascending_sorted)

lemma set_sort_ids [simp]: "set (sort_ids xs) = set xs"
  using set_unique_by_image [of id "sort xs"] by (simp add: sort_ids_def)

lemma sort_ids_eq_Nil [simp]: "sort_ids xs = [] \<longleftrightarrow> xs = []"
  by (metis set_empty set_sort_ids)

lemma sort_ids_idem: "sort_ids (sort_ids xs) = sort_ids xs"
proof -
  have "sort (sort_ids xs) = sort_ids xs" by (simp add: sorted_sort_id)
  moreover have "unique_by id (sort_ids xs) = sort_ids xs"
    by (rule unique_by_id_on_distinct)
       (simp add: strictly_ascending_distinct [OF sort_ids_ascending])
  ultimately show ?thesis by (simp add: sort_ids_def)
qed

lemma sort_ids_cong_set: "set xs = set ys \<Longrightarrow> sort_ids xs = sort_ids ys"
  by (metis set_sort_ids sort_ids_ascending strict_sorted_equal)

lemma sort_unique_by_ascending:
  "strictly_ascending (map f (sort_unique_by f xs))"
  unfolding sort_unique_by_def
  by (rule unique_by_strictly_ascending) simp

lemma sort_unique_by_sorted: "sorted (map f (sort_unique_by f xs))"
  by (rule strictly_ascending_sorted [OF sort_unique_by_ascending])

lemma set_sort_unique_by_subset: "set (sort_unique_by f xs) \<subseteq> set xs"
  using set_unique_by_subset [of f "sort_key f xs"] by (simp add: sort_unique_by_def)

lemma image_sort_unique_by: "f ` set (sort_unique_by f xs) = f ` set xs"
  using set_unique_by_image [of f "sort_key f xs"] by (simp add: sort_unique_by_def)

lemma ascending_fst_eqI:
  assumes xs: "strictly_ascending (map fst xs)" and ys: "strictly_ascending (map fst ys)"
    and set: "set xs = set ys"
  shows "xs = ys"
proof -
  have rebuild: "zs = map (\<lambda>k. (k, the (map_of zs k))) (map fst zs)"
    if "distinct (map fst zs)" for zs :: "('a \<times> 'b) list"
    using that by (auto intro!: map_idI [symmetric] simp: case_prod_beta)
  have d: "distinct (map fst xs)" "distinct (map fst ys)"
    using xs ys strictly_ascending_distinct by blast+
  have "map fst xs = map fst ys"
    using xs ys set by (metis set_map strict_sorted_equal)
  moreover have "map_of xs = map_of ys" using d set by (simp add: map_of_inject_set)
  ultimately show ?thesis using rebuild [OF d(1)] rebuild [OF d(2)] by simp
qed

section \<open>The contract of an ordered map\<close>

text \<open>
  What the router's state relies on from \<open>std::map\<close>: lookups after an insertion or an
  erasure, and iteration in ascending key order.  The laws are stated as a locale so
  that the consequences are proved once; \<open>om\<close> below shows that the list model has them.
\<close>

locale ordered_map =
  fixes ok :: "'m \<Rightarrow> bool"
    and empty :: "'m"
    and find :: "'m \<Rightarrow> 'k::linorder \<Rightarrow> 'v option"
    and put :: "'k \<Rightarrow> 'v \<Rightarrow> 'm \<Rightarrow> 'm"
    and erase :: "'k \<Rightarrow> 'm \<Rightarrow> 'm"
    and entries :: "'m \<Rightarrow> ('k \<times> 'v) list"
  assumes ok_empty: "ok empty"
    and ok_put: "ok m \<Longrightarrow> ok (put k v m)"
    and ok_erase: "ok m \<Longrightarrow> ok (erase k m)"
    and find_empty: "find empty k = None"
    and find_put: "ok m \<Longrightarrow> find (put k v m) k' = (if k' = k then Some v else find m k')"
    and find_erase: "ok m \<Longrightarrow> find (erase k m) k' = (if k' = k then None else find m k')"
    and entries_ascending: "ok m \<Longrightarrow> strictly_ascending (map fst (entries m))"
    and entries_find: "ok m \<Longrightarrow> (k, v) \<in> set (entries m) \<longleftrightarrow> find m k = Some v"
begin

lemma entries_eqI:
  assumes "ok m" and "ok m'" and "\<And>k. find m k = find m' k"
  shows "entries m = entries m'"
proof (rule ascending_fst_eqI)
  show "strictly_ascending (map fst (entries m))" "strictly_ascending (map fst (entries m'))"
    using assms entries_ascending by blast+
  show "set (entries m) = set (entries m')"
    using assms by (auto simp: entries_find)
qed

lemma find_put_same [simp]: "ok m \<Longrightarrow> find (put k v m) k = Some v"
  by (simp add: find_put)

lemma entries_put_put:
  "ok m \<Longrightarrow> entries (put k v (put k w m)) = entries (put k v m)"
  by (rule entries_eqI) (simp_all add: ok_put find_put)

lemma entries_put_commute:
  "ok m \<Longrightarrow> k \<noteq> k' \<Longrightarrow> entries (put k v (put k' w m)) = entries (put k' w (put k v m))"
  by (rule entries_eqI) (simp_all add: ok_put find_put)

lemma entries_erase_absent:
  "ok m \<Longrightarrow> find m k = None \<Longrightarrow> entries (erase k m) = entries m"
  by (rule entries_eqI) (simp_all add: ok_erase find_erase)

lemma entries_put_all:
  "ok m \<Longrightarrow> (\<forall>(k, v) \<in> set (entries (put k0 v0 m)). P k v) \<longleftrightarrow>
     P k0 v0 \<and> (\<forall>k v. k \<noteq> k0 \<longrightarrow> find m k = Some v \<longrightarrow> P k v)"
  by (auto simp: entries_find ok_put find_put split: if_splits)

end

section \<open>The list model has the contract\<close>

lemma om_find_map_of: "om_ok m \<Longrightarrow> om_find m k = map_of m k"
  by (induction m k rule: om_find.induct) (auto simp: om_ok_def dest!: map_of_SomeD
      intro!: map_of_eq_None_iff [THEN iffD2, symmetric])

lemma fst_om_put: "fst ` set (om_put k v m) = insert k (fst ` set m)"
  by (induction k v m rule: om_put.induct) auto

lemma om_ok_put: "om_ok m \<Longrightarrow> om_ok (om_put k v m)"
proof (induction k v m rule: om_put.induct)
  case (2 k v a w m)
  have keys: "x \<in> set (om_put k v m) \<Longrightarrow> fst x = k \<or> fst x \<in> fst ` set m" for x
    using fst_om_put [of k v m] by blast
  from 2 show ?case by (auto simp: om_ok_def dest!: keys)
qed (simp add: om_ok_def)

lemma set_om_erase_subset: "set (om_erase k m) \<subseteq> set m"
  by (induction k m rule: om_erase.induct) auto

lemma om_ok_erase: "om_ok m \<Longrightarrow> om_ok (om_erase k m)"
proof (induction k m rule: om_erase.induct)
  case (2 k a w m)
  with set_om_erase_subset [of k m] show ?case by (auto simp: om_ok_def)
qed simp

lemma om_find_put: "om_ok m \<Longrightarrow> om_find (om_put k v m) k' = (if k' = k then Some v else om_find m k')"
  by (induction k v m rule: om_put.induct) (auto simp: om_ok_def)

lemma om_find_None_below: "\<forall>x \<in> fst ` set m. k < x \<Longrightarrow> om_find m k = None"
  by (induction m k rule: om_find.induct) auto

lemma om_find_erase: "om_ok m \<Longrightarrow> om_find (om_erase k m) k' = (if k' = k then None else om_find m k')"
proof (induction k m rule: om_erase.induct)
  case (2 k a w m)
  then have IH: "k \<noteq> a \<Longrightarrow> om_find (om_erase k m) k' = (if k' = k then None else om_find m k')"
    by (simp add: om_ok_def)
  have above: "\<forall>x \<in> fst ` set m. a < x" using "2.prems" by (auto simp: om_ok_def)
  have "om_find m a = None" using above by (rule om_find_None_below)
  moreover have "k' < a \<Longrightarrow> om_find m k' = None"
    using above by (intro om_find_None_below) (auto intro: less_trans)
  ultimately show ?case using IH by auto
qed simp

interpretation om: ordered_map om_ok om_empty om_find om_put om_erase "\<lambda>m. m"
proof
  fix m :: "('k::linorder, 'v) omap" and k v
  assume ok: "om_ok m"
  then show "(k, v) \<in> set m \<longleftrightarrow> om_find m k = Some v"
    by (simp add: om_find_map_of om_ok_def strictly_ascending_distinct)
qed (simp_all add: om_ok_put om_ok_erase om_find_put om_find_erase om_empty_def,
     simp_all add: om_ok_def)

lemmas om_laws [container_simps] = om.ok_put om.ok_erase om.find_put om.find_erase

lemma om_find_map_values [simp]: "om_find (om_map_values f m) k = map_option f (om_find m k)"
  by (induction m k rule: om_find.induct) (auto simp: om_map_values_def)

lemma om_ok_map_values [simp]: "om_ok (om_map_values f m) \<longleftrightarrow> om_ok m"
  by (simp add: om_ok_def om_map_values_def case_prod_beta comp_def)

lemma length_om_map_values [simp]: "length (om_map_values f m) = length m"
  by (simp add: om_map_values_def)

lemma sum_om_put:
  "om_find m k = Some v \<Longrightarrow> sum_list (map (f \<circ> snd) (om_put k v' m)) + f v = sum_list (map (f \<circ> snd) m) + (f v' :: nat)"
  by (induction m k rule: om_find.induct) (auto split: if_splits)

lemma sum_om_put_new:
  "om_find m k = None \<Longrightarrow> sum_list (map (f \<circ> snd) (om_put k v m)) = sum_list (map (f \<circ> snd) m) + (f v :: nat)"
  by (induction m k rule: om_find.induct) (auto split: if_splits)

lemma length_om_put: "om_ok m \<Longrightarrow> length (om_put k v m) =
    (if om_find m k = None then Suc (length m) else length m)"
  by (induction k v m rule: om_put.induct) (auto simp: om_ok_def)

lemma set_os_insert [simp]: "set (os_insert k s) = insert k (set s)"
  by (induction k s rule: os_insert.induct) auto

lemma os_insert_ascending: "strictly_ascending s \<Longrightarrow> strictly_ascending (os_insert k s)"
  by (induction k s rule: os_insert.induct) auto

lemma set_os_erase: "strictly_ascending s \<Longrightarrow> set (os_erase k s) = set s - {k}"
  by (induction k s rule: os_erase.induct) auto

lemma os_erase_ascending: "strictly_ascending s \<Longrightarrow> strictly_ascending (os_erase k s)"
  by (induction k s rule: os_erase.induct) (auto simp: set_os_erase)

lemmas os_laws [container_simps] =
  os_insert_ascending set_os_erase os_erase_ascending

end
