(* ===== verification/Identity.thy ===== *)
theory Identity
  imports Prelude
begin

text \<open>
  Identities, generations and time: \<open>include/model_router/ids.hpp\<close>, \<open>src/ids.cpp\<close>,
  \<open>include/model_router/clock.hpp\<close> and \<open>src/clock.cpp\<close>.

  \<open>EntityId<Tag>\<close> and \<open>Generation<Tag>\<close> wrap a 64-bit word; the tag only exists at
  compile time, so both are words here.  \<open>IdAllocator\<close> is a process-wide counter; its
  compare-and-swap loop retries until it succeeds, so one call is one atomic update of
  the counter and the model is that update.
\<close>

definition valid_id :: "u64 \<Rightarrow> bool" where
  "valid_id v \<longleftrightarrow> v \<noteq> 0"

abbreviation (input) kGenerationMax :: generation where
  "kGenerationMax \<equiv> 0xFFFFFFFFFFFFFFFF"

definition generation_next :: "generation \<Rightarrow> generation" where
  "generation_next v = (if v = kGenerationMax then kGenerationMax else v + 1)"

abbreviation (input) kCeiling :: u64 where
  "kCeiling \<equiv> 0xFFFFFFFFFFFFFFFF"

text \<open>The counter \<open>g_highest_issued\<close> is the argument; a call returns the new counter and the id.\<close>

definition IdAllocator_next :: "u64 \<Rightarrow> u64 \<times> u64" where
  "IdAllocator_next observed =
     (if observed \<ge> kCeiling then (observed, kCeiling)
      else let desired = observed + 1 in (desired, desired))"

definition IdAllocator_observe :: "u64 \<Rightarrow> u64 \<Rightarrow> u64" where
  "IdAllocator_observe highest_seen observed =
     (if highest_seen > kCeiling then observed
      else if observed < highest_seen then highest_seen
      else observed)"

fun allocate_many :: "nat \<Rightarrow> u64 \<Rightarrow> u64 list" where
  "allocate_many 0 g = []"
| "allocate_many (Suc n) g = (let (g', i) = IdAllocator_next g in i # allocate_many n g')"

definition is_current :: "unix_millis \<Rightarrow> unix_millis \<Rightarrow> bool" where
  "is_current now expires_at \<longleftrightarrow> expires_at = kNoExpiry \<or> now < expires_at"

text \<open>The predicate every \<open>expired(now)\<close> member of the evidence types computes.\<close>

definition expired_at :: "unix_millis \<Rightarrow> unix_millis \<Rightarrow> bool" where
  "expired_at expires_at now \<longleftrightarrow> expires_at \<noteq> kNoExpiry \<and> now \<ge> expires_at"

lemma is_current_iff_not_expired: "is_current now e \<longleftrightarrow> \<not> expired_at e now"
  by (auto simp: is_current_def expired_at_def)

lemma unat_u64_le: "unat (v :: u64) \<le> 18446744073709551615"
proof -
  have "unat v < 2 ^ LENGTH(64)" by (rule unsigned_less)
  then show ?thesis by simp
qed

lemma u64_max: "(v :: u64) \<le> kCeiling"
  using unat_u64_le [of v] by (simp add: word_le_nat_alt)

lemma u64_ge_max [simp]: "kCeiling \<le> (v :: u64) \<longleftrightarrow> v = kCeiling"
  using u64_max [of v] by auto

lemma u64_Suc: "(v :: u64) \<noteq> kCeiling \<Longrightarrow> unat (v + 1) = unat v + 1"
proof -
  assume "v \<noteq> kCeiling"
  then have "unat v < 18446744073709551615"
    using unat_u64_le [of v] by (simp add: word_unat_eq_iff)
  then show ?thesis by (simp add: unat_word_ariths)
qed

lemma generation_next_unat:
  "unat (generation_next v) = min (unat v + 1) 18446744073709551615"
proof (cases "v = kGenerationMax")
  case False
  have "unat v < 18446744073709551615"
    using unat_u64_le [of v] False by (simp add: word_unat_eq_iff)
  then show ?thesis using False u64_Suc [OF False] by (simp add: generation_next_def)
qed (simp add: generation_next_def)

lemma generation_next_mono: "v \<le> generation_next v"
  using generation_next_unat [of v] unat_u64_le [of v]
  by (simp add: word_le_nat_alt split: split_min)

lemma allocate_many_above:
  "unat g + n < 2 ^ 64 \<Longrightarrow> i \<in> set (allocate_many n g) \<Longrightarrow> g < i"
proof (induction n arbitrary: g)
  case (Suc n)
  then have g: "g \<noteq> kCeiling" by auto
  have step: "unat (g + 1) = unat g + 1" using g by (rule u64_Suc)
  have lt: "g < g + 1" using step by (simp add: word_less_nat_alt)
  from Suc.prems g have "i = g + 1 \<or> i \<in> set (allocate_many n (g + 1))"
    by (auto simp: IdAllocator_next_def Let_def)
  then show ?case
  proof
    assume "i \<in> set (allocate_many n (g + 1))"
    then have "g + 1 < i" using Suc.prems(1) step by (intro Suc.IH) simp_all
    with lt show ?thesis by simp
  qed (use lt in simp)
qed simp

lemma allocate_many_ascending:
  "unat g + n < 2 ^ 64 \<Longrightarrow> strictly_ascending (allocate_many n g)"
proof (induction n arbitrary: g)
  case (Suc n)
  then have g: "g \<noteq> kCeiling" by auto
  have step: "unat (g + 1) = unat g + 1" using g by (rule u64_Suc)
  then have "unat (g + 1) + n < 2 ^ 64" using Suc.prems by simp
  with Suc.IH [of "g + 1"] allocate_many_above [of "g + 1" n] show ?case
    using g by (auto simp: IdAllocator_next_def Let_def)
qed simp

section \<open>Properties\<close>

text \<open>
  Until the identity space is exhausted, the identities the allocator issues are strictly
  increasing, all larger than every identity issued before (in particular never 0), and
  after a restart that observes the highest persisted identity they are larger than that one.
\<close>

theorem allocated_ids_fresh:
  assumes "unat (IdAllocator_observe seen g) + n < 2 ^ 64"
  shows "strictly_ascending (allocate_many n (IdAllocator_observe seen g)) \<and>
    (\<forall>i \<in> set (allocate_many n (IdAllocator_observe seen g)). g < i \<and> seen < i \<and> valid_id i)"
proof -
  have "g \<le> IdAllocator_observe seen g" "seen \<le> IdAllocator_observe seen g"
    using u64_max [of seen] by (auto simp: IdAllocator_observe_def)
  moreover have "IdAllocator_observe seen g < i"
    if "i \<in> set (allocate_many n (IdAllocator_observe seen g))" for i
    using allocate_many_above [OF assms that] .
  ultimately have "\<forall>i \<in> set (allocate_many n (IdAllocator_observe seen g)). g < i \<and> seen < i"
    by (blast intro: le_less_trans)
  then show ?thesis
    using allocate_many_ascending [OF assms] by (auto simp: valid_id_def)
qed

theorem allocated_ids_fresh_witness:
  "unat (IdAllocator_observe 7 5) + 3 < 2 ^ 64 \<and> allocate_many 3 (IdAllocator_observe 7 5) = [8, 9, 10] \<and>
   7 < hd (allocate_many 3 (IdAllocator_observe 7 5)) \<and> valid_id (last (allocate_many 3 (IdAllocator_observe 7 5)))"
proof -
  have h: "unat (IdAllocator_observe 7 5) + 3 < 2 ^ 64" by (simp add: IdAllocator_observe_def)
  have "allocate_many 3 (IdAllocator_observe 7 5) = [8, 9, 10]"
    by (simp add: IdAllocator_observe_def IdAllocator_next_def numeral_3_eq_3)
  with h allocated_ids_fresh [OF h] show ?thesis by simp
qed

text \<open>
  At the ceiling the allocator issues the same identity again and again: the identity space
  being exhausted is not reported, two allocations alias.
\<close>

theorem allocator_aliases_at_ceiling:
  "allocate_many (Suc n) kCeiling = replicate (Suc n) kCeiling"
  by (induction n) (simp_all add: IdAllocator_next_def)

text \<open>
  A generation never moves backwards: \<open>next()\<close> is the successor below the ceiling and stays
  at the ceiling, so a valid generation is never followed by an earlier or an unset one.
\<close>

theorem generation_next_saturates:
  "unat (generation_next v) = min (unat v + 1) (2 ^ 64 - 1) \<and> v \<le> generation_next v \<and>
   valid_id (generation_next v)"
proof -
  have "unat (generation_next v) \<noteq> 0" using generation_next_unat [of v] by simp
  then have "generation_next v \<noteq> 0" by auto
  then show ?thesis
    using generation_next_unat [of v] generation_next_mono [of v] by (simp add: valid_id_def)
qed

end
