(* ===== verification/Outcome_Codes.thy ===== *)
theory Outcome_Codes
  imports Prelude
begin

text \<open>
  Outcome codes: the enum \<open>OutcomeCode\<close> of \<open>include/model_router/outcome.hpp\<close>, its names
  and its classification predicates from \<open>src/outcome.cpp\<close>.

  \<open>OutcomeCode\<close> has the enumerators of the C++ enum in their order (\<open>kCount\<close>, which is
  only a bound, is left out); \<open>outcome_index\<close> is their numeric value, and the order of
  the codes is the numeric one.  Each predicate is the set of case labels of its switch.
\<close>

section \<open>Outcome codes\<close>

datatype (plugins only: code size) OutcomeCode =
  ACCEPTED | NO_CHANGE | ROUTED | DEFERRED | REVALIDATION_REQUIRED | REROUTE_REQUIRED |
  NO_ELIGIBLE_CANDIDATE | REJECT_STALE_ROUTER_EPOCH | REJECT_STALE_COORDINATOR_EPOCH |
  REJECT_STALE_REQUEST | REJECT_STALE_MODEL | REJECT_STALE_BACKEND |
  REJECT_STALE_BACKEND_BOOT | REJECT_STALE_ENDPOINT | REJECT_STALE_CAPABILITY |
  REJECT_STALE_POLICY | REJECT_STALE_BUDGET | REJECT_STALE_PRICE | REJECT_STALE_SLO |
  REJECT_STALE_HEALTH | REJECT_STALE_AVAILABILITY | REJECT_STALE_READINESS |
  REJECT_STALE_RESIDENCY | REJECT_STALE_CAPACITY | REJECT_STALE_COMPATIBILITY |
  REJECT_STALE_TRUST | REJECT_STALE_RESERVATION | REJECT_STALE_ARTIFACT |
  REJECT_CAPABILITY | REJECT_CONTEXT_LIMIT | REJECT_MODALITY | REJECT_STRUCTURED_OUTPUT |
  REJECT_TOOL_CALLING | REJECT_STREAMING | REJECT_QUALITY | REJECT_POLICY | REJECT_BUDGET |
  REJECT_COST | REJECT_COST_UNKNOWN | REJECT_SLO | REJECT_TRUST | REJECT_LOCALITY |
  REJECT_RESIDENCY | REJECT_COMPATIBILITY | REJECT_UNAVAILABLE | REJECT_NOT_READY |
  REJECT_UNHEALTHY | REJECT_DRAINING | REJECT_RETIRED | REJECT_CAPACITY |
  REJECT_RESERVATION | REJECT_AFFINITY | REJECT_INVALID | REJECT_CONFLICT |
  REJECT_UNKNOWN_EVIDENCE | REJECT_LIMIT | REJECT_SPOOFED | FENCED | SUPERSEDED |
  DISPATCHED | COMPLETED | FAILED | CANCELLED | SHUTTING_DOWN | INTERNAL_ERROR

primrec outcome_index :: "OutcomeCode \<Rightarrow> nat" where
  "outcome_index ACCEPTED = 0"
| "outcome_index NO_CHANGE = 1"
| "outcome_index ROUTED = 2"
| "outcome_index DEFERRED = 3"
| "outcome_index REVALIDATION_REQUIRED = 4"
| "outcome_index REROUTE_REQUIRED = 5"
| "outcome_index NO_ELIGIBLE_CANDIDATE = 6"
| "outcome_index REJECT_STALE_ROUTER_EPOCH = 7"
| "outcome_index REJECT_STALE_COORDINATOR_EPOCH = 8"
| "outcome_index REJECT_STALE_REQUEST = 9"
| "outcome_index REJECT_STALE_MODEL = 10"
| "outcome_index REJECT_STALE_BACKEND = 11"
| "outcome_index REJECT_STALE_BACKEND_BOOT = 12"
| "outcome_index REJECT_STALE_ENDPOINT = 13"
| "outcome_index REJECT_STALE_CAPABILITY = 14"
| "outcome_index REJECT_STALE_POLICY = 15"
| "outcome_index REJECT_STALE_BUDGET = 16"
| "outcome_index REJECT_STALE_PRICE = 17"
| "outcome_index REJECT_STALE_SLO = 18"
| "outcome_index REJECT_STALE_HEALTH = 19"
| "outcome_index REJECT_STALE_AVAILABILITY = 20"
| "outcome_index REJECT_STALE_READINESS = 21"
| "outcome_index REJECT_STALE_RESIDENCY = 22"
| "outcome_index REJECT_STALE_CAPACITY = 23"
| "outcome_index REJECT_STALE_COMPATIBILITY = 24"
| "outcome_index REJECT_STALE_TRUST = 25"
| "outcome_index REJECT_STALE_RESERVATION = 26"
| "outcome_index REJECT_STALE_ARTIFACT = 27"
| "outcome_index REJECT_CAPABILITY = 28"
| "outcome_index REJECT_CONTEXT_LIMIT = 29"
| "outcome_index REJECT_MODALITY = 30"
| "outcome_index REJECT_STRUCTURED_OUTPUT = 31"
| "outcome_index REJECT_TOOL_CALLING = 32"
| "outcome_index REJECT_STREAMING = 33"
| "outcome_index REJECT_QUALITY = 34"
| "outcome_index REJECT_POLICY = 35"
| "outcome_index REJECT_BUDGET = 36"
| "outcome_index REJECT_COST = 37"
| "outcome_index REJECT_COST_UNKNOWN = 38"
| "outcome_index REJECT_SLO = 39"
| "outcome_index REJECT_TRUST = 40"
| "outcome_index REJECT_LOCALITY = 41"
| "outcome_index REJECT_RESIDENCY = 42"
| "outcome_index REJECT_COMPATIBILITY = 43"
| "outcome_index REJECT_UNAVAILABLE = 44"
| "outcome_index REJECT_NOT_READY = 45"
| "outcome_index REJECT_UNHEALTHY = 46"
| "outcome_index REJECT_DRAINING = 47"
| "outcome_index REJECT_RETIRED = 48"
| "outcome_index REJECT_CAPACITY = 49"
| "outcome_index REJECT_RESERVATION = 50"
| "outcome_index REJECT_AFFINITY = 51"
| "outcome_index REJECT_INVALID = 52"
| "outcome_index REJECT_CONFLICT = 53"
| "outcome_index REJECT_UNKNOWN_EVIDENCE = 54"
| "outcome_index REJECT_LIMIT = 55"
| "outcome_index REJECT_SPOOFED = 56"
| "outcome_index FENCED = 57"
| "outcome_index SUPERSEDED = 58"
| "outcome_index DISPATCHED = 59"
| "outcome_index COMPLETED = 60"
| "outcome_index FAILED = 61"
| "outcome_index CANCELLED = 62"
| "outcome_index SHUTTING_DOWN = 63"
| "outcome_index INTERNAL_ERROR = 64"

definition kOutcomeCodes :: "OutcomeCode list" where
  "kOutcomeCodes =
    [ACCEPTED, NO_CHANGE, ROUTED, DEFERRED, REVALIDATION_REQUIRED, REROUTE_REQUIRED,
     NO_ELIGIBLE_CANDIDATE, REJECT_STALE_ROUTER_EPOCH, REJECT_STALE_COORDINATOR_EPOCH,
     REJECT_STALE_REQUEST, REJECT_STALE_MODEL, REJECT_STALE_BACKEND,
     REJECT_STALE_BACKEND_BOOT, REJECT_STALE_ENDPOINT, REJECT_STALE_CAPABILITY,
     REJECT_STALE_POLICY, REJECT_STALE_BUDGET, REJECT_STALE_PRICE, REJECT_STALE_SLO,
     REJECT_STALE_HEALTH, REJECT_STALE_AVAILABILITY, REJECT_STALE_READINESS,
     REJECT_STALE_RESIDENCY, REJECT_STALE_CAPACITY, REJECT_STALE_COMPATIBILITY,
     REJECT_STALE_TRUST, REJECT_STALE_RESERVATION, REJECT_STALE_ARTIFACT,
     REJECT_CAPABILITY, REJECT_CONTEXT_LIMIT, REJECT_MODALITY, REJECT_STRUCTURED_OUTPUT,
     REJECT_TOOL_CALLING, REJECT_STREAMING, REJECT_QUALITY, REJECT_POLICY, REJECT_BUDGET,
     REJECT_COST, REJECT_COST_UNKNOWN, REJECT_SLO, REJECT_TRUST, REJECT_LOCALITY,
     REJECT_RESIDENCY, REJECT_COMPATIBILITY, REJECT_UNAVAILABLE, REJECT_NOT_READY,
     REJECT_UNHEALTHY, REJECT_DRAINING, REJECT_RETIRED, REJECT_CAPACITY,
     REJECT_RESERVATION, REJECT_AFFINITY, REJECT_INVALID, REJECT_CONFLICT,
     REJECT_UNKNOWN_EVIDENCE, REJECT_LIMIT, REJECT_SPOOFED, FENCED, SUPERSEDED, DISPATCHED,
     COMPLETED, FAILED, CANCELLED, SHUTTING_DOWN, INTERNAL_ERROR]"

definition kOutcomeNames :: "string list" where
  "kOutcomeNames =
    [''ACCEPTED'', ''NO_CHANGE'', ''ROUTED'', ''DEFERRED'', ''REVALIDATION_REQUIRED'',
     ''REROUTE_REQUIRED'', ''NO_ELIGIBLE_CANDIDATE'', ''REJECT_STALE_ROUTER_EPOCH'',
     ''REJECT_STALE_COORDINATOR_EPOCH'', ''REJECT_STALE_REQUEST'', ''REJECT_STALE_MODEL'',
     ''REJECT_STALE_BACKEND'', ''REJECT_STALE_BACKEND_BOOT'', ''REJECT_STALE_ENDPOINT'',
     ''REJECT_STALE_CAPABILITY'', ''REJECT_STALE_POLICY'', ''REJECT_STALE_BUDGET'',
     ''REJECT_STALE_PRICE'', ''REJECT_STALE_SLO'', ''REJECT_STALE_HEALTH'',
     ''REJECT_STALE_AVAILABILITY'', ''REJECT_STALE_READINESS'', ''REJECT_STALE_RESIDENCY'',
     ''REJECT_STALE_CAPACITY'', ''REJECT_STALE_COMPATIBILITY'', ''REJECT_STALE_TRUST'',
     ''REJECT_STALE_RESERVATION'', ''REJECT_STALE_ARTIFACT'', ''REJECT_CAPABILITY'',
     ''REJECT_CONTEXT_LIMIT'', ''REJECT_MODALITY'', ''REJECT_STRUCTURED_OUTPUT'',
     ''REJECT_TOOL_CALLING'', ''REJECT_STREAMING'', ''REJECT_QUALITY'', ''REJECT_POLICY'',
     ''REJECT_BUDGET'', ''REJECT_COST'', ''REJECT_COST_UNKNOWN'', ''REJECT_SLO'',
     ''REJECT_TRUST'', ''REJECT_LOCALITY'', ''REJECT_RESIDENCY'', ''REJECT_COMPATIBILITY'',
     ''REJECT_UNAVAILABLE'', ''REJECT_NOT_READY'', ''REJECT_UNHEALTHY'',
     ''REJECT_DRAINING'', ''REJECT_RETIRED'', ''REJECT_CAPACITY'', ''REJECT_RESERVATION'',
     ''REJECT_AFFINITY'', ''REJECT_INVALID'', ''REJECT_CONFLICT'',
     ''REJECT_UNKNOWN_EVIDENCE'', ''REJECT_LIMIT'', ''REJECT_SPOOFED'', ''FENCED'',
     ''SUPERSEDED'', ''DISPATCHED'', ''COMPLETED'', ''FAILED'', ''CANCELLED'',
     ''SHUTTING_DOWN'', ''INTERNAL_ERROR'']"

definition outcome_to_string :: "OutcomeCode \<Rightarrow> string" where
  "outcome_to_string code =
     (if outcome_index code \<ge> length kOutcomeNames then ''UNKNOWN_OUTCOME''
      else kOutcomeNames ! outcome_index code)"

lemma outcome_of_index [simp]: "kOutcomeCodes ! outcome_index c = c"
  by (cases c) (simp_all add: kOutcomeCodes_def)

lemma outcome_index_inject [simp]: "outcome_index a = outcome_index b \<longleftrightarrow> a = b"
  by (metis outcome_of_index)

lemma outcome_index_bound: "outcome_index c < 65"
  by (cases c) simp_all

instantiation OutcomeCode :: linorder
begin

definition less_eq_OutcomeCode :: "OutcomeCode \<Rightarrow> OutcomeCode \<Rightarrow> bool" where
  "less_eq_OutcomeCode a b \<longleftrightarrow> outcome_index a \<le> outcome_index b"

definition less_OutcomeCode :: "OutcomeCode \<Rightarrow> OutcomeCode \<Rightarrow> bool" where
  "less_OutcomeCode a b \<longleftrightarrow> outcome_index a < outcome_index b"

instance
  by standard (auto simp: less_eq_OutcomeCode_def less_OutcomeCode_def)

end

section \<open>Classification\<close>

definition is_acceptance :: "OutcomeCode \<Rightarrow> bool" where
  "is_acceptance code \<longleftrightarrow> code \<in>
     {ACCEPTED, NO_CHANGE, ROUTED, DISPATCHED, COMPLETED}"

definition is_rejection :: "OutcomeCode \<Rightarrow> bool" where
  "is_rejection code \<longleftrightarrow> \<not> code \<in>
     {ACCEPTED, NO_CHANGE, ROUTED, DISPATCHED, COMPLETED, SUPERSEDED}"

definition requires_revalidation :: "OutcomeCode \<Rightarrow> bool" where
  "requires_revalidation code \<longleftrightarrow> code \<in>
     {REVALIDATION_REQUIRED, REROUTE_REQUIRED, REJECT_STALE_ROUTER_EPOCH,
      REJECT_STALE_COORDINATOR_EPOCH, REJECT_STALE_REQUEST, REJECT_STALE_MODEL,
      REJECT_STALE_BACKEND, REJECT_STALE_BACKEND_BOOT, REJECT_STALE_ENDPOINT,
      REJECT_STALE_CAPABILITY, REJECT_STALE_POLICY, REJECT_STALE_BUDGET,
      REJECT_STALE_PRICE, REJECT_STALE_SLO, REJECT_STALE_HEALTH, REJECT_STALE_AVAILABILITY,
      REJECT_STALE_READINESS, REJECT_STALE_RESIDENCY, REJECT_STALE_CAPACITY,
      REJECT_STALE_COMPATIBILITY, REJECT_STALE_TRUST, REJECT_STALE_RESERVATION,
      REJECT_STALE_ARTIFACT, REJECT_UNKNOWN_EVIDENCE}"

definition is_hard_rejection :: "OutcomeCode \<Rightarrow> bool" where
  "is_hard_rejection code \<longleftrightarrow>
     is_rejection code \<and> \<not> requires_revalidation code \<and>
     code \<noteq> SHUTTING_DOWN \<and> code \<noteq> INTERNAL_ERROR"

definition permits_fallback :: "OutcomeCode \<Rightarrow> bool" where
  "permits_fallback code \<longleftrightarrow> code \<in>
     {REJECT_STALE_BACKEND_BOOT, REJECT_STALE_ENDPOINT, REJECT_STALE_HEALTH,
      REJECT_STALE_AVAILABILITY, REJECT_STALE_READINESS, REJECT_STALE_CAPACITY,
      REJECT_UNAVAILABLE, REJECT_NOT_READY, REJECT_UNHEALTHY, REJECT_CAPACITY,
      REVALIDATION_REQUIRED, REROUTE_REQUIRED}"

lemmas outcome_class_defs [outcome_simps] =
  is_acceptance_def is_rejection_def requires_revalidation_def is_hard_rejection_def
  permits_fallback_def

lemma distinct_kOutcomeNames: "distinct kOutcomeNames"
  by (simp add: kOutcomeNames_def)

lemma length_kOutcomeNames: "length kOutcomeNames = 65"
  by (simp add: kOutcomeNames_def)

lemma outcome_to_string_nth: "outcome_to_string c = kOutcomeNames ! outcome_index c"
  using outcome_index_bound [of c] by (simp add: outcome_to_string_def length_kOutcomeNames)

end
