(* ===== verification/Outcome.thy ===== *)
theory Outcome
  imports Outcome_Codes
begin

text \<open>
  Deterministic explanations and mutation results: the classes \<open>Explanation\<close>,
  \<open>ExplanationBuilder\<close>, \<open>MutationResult\<close> and \<open>RouteRejection\<close> of
  \<open>include/model_router/outcome.hpp\<close> and \<open>src/outcome.cpp\<close>.

  An explanation keeps its factors in ascending key order, which is what makes the
  binary search of \<open>Explanation::find\<close> correct; the builder restores that order with a
  stable sort.  The properties C1 to C4 are at the end.
\<close>

section \<open>Explanations\<close>

record ExplanationFactor =
  ef_key :: string
  ef_value :: string

record Explanation =
  ex_code :: OutcomeCode
  ex_subject :: string
  ex_message :: string
  ex_factors :: "ExplanationFactor list"

definition Explanation_new :: "OutcomeCode \<Rightarrow> string \<Rightarrow> Explanation" where
  "Explanation_new code subject =
     \<lparr>ex_code = code, ex_subject = subject, ex_message = [], ex_factors = []\<rparr>"

definition Explanation_find :: "Explanation \<Rightarrow> string \<Rightarrow> string option" where
  "Explanation_find e key = map_option ef_value (find_by_key ef_key key (ex_factors e))"

definition Explanation_add_factor :: "Explanation \<Rightarrow> string \<Rightarrow> string \<Rightarrow> Explanation" where
  "Explanation_add_factor e key value =
     e\<lparr>ex_factors := ex_factors e @ [\<lparr>ef_key = key, ef_value = value\<rparr>]\<rparr>"

definition Explanation_canonicalize :: "Explanation \<Rightarrow> Explanation" where
  "Explanation_canonicalize e = e\<lparr>ex_factors := sort_key ef_key (ex_factors e)\<rparr>"

definition hex_digit :: "nat \<Rightarrow> char" where
  "hex_digit n = ''0123456789abcdef'' ! n"

definition escape_json_char :: "char \<Rightarrow> string" where
  "escape_json_char raw =
     (let ch = (of_char raw :: nat) in
      if ch = 34 then [CHR 0x5C, CHR 0x22]
      else if ch = 92 then [CHR 0x5C, CHR 0x5C]
      else if ch = 10 then [CHR 0x5C, CHR ''n'']
      else if ch = 13 then [CHR 0x5C, CHR ''r'']
      else if ch = 9 then [CHR 0x5C, CHR ''t'']
      else if ch < 0x20 then
        CHR 0x5C # ''u00'' @ [hex_digit (ch div 16), hex_digit (ch mod 16)]
      else [raw])"

definition escape_json :: "string \<Rightarrow> string" where
  "escape_json text = concat (map escape_json_char text)"

fun comma_separated :: "string list \<Rightarrow> string" where
  "comma_separated [] = []"
| "comma_separated [x] = x"
| "comma_separated (x # y # zs) = x @ CHR '','' # comma_separated (y # zs)"

definition Explanation_to_text :: "Explanation \<Rightarrow> string" where
  "Explanation_to_text e =
     outcome_to_string (ex_code e) @
     (if ex_subject e \<noteq> [] then CHR '' '' # ex_subject e else []) @
     '' {'' @
     comma_separated (map (\<lambda>f. ef_key f @ CHR ''='' # ef_value f) (ex_factors e)) @
     ''}'' @
     (if ex_message e \<noteq> [] then CHR '' '' # ex_message e else [])"

definition json_quote :: string where
  "json_quote = [CHR 0x22]"

definition Explanation_to_json :: "Explanation \<Rightarrow> string" where
  "Explanation_to_json e =
     ''{'' @ json_quote @ ''code'' @ json_quote @ '':'' @ json_quote @
     outcome_to_string (ex_code e) @
     json_quote @ '','' @ json_quote @ ''subject'' @ json_quote @ '':'' @ json_quote @
     escape_json (ex_subject e) @
     json_quote @ '','' @ json_quote @ ''message'' @ json_quote @ '':'' @ json_quote @
     escape_json (ex_message e) @
     json_quote @ '','' @ json_quote @ ''factors'' @ json_quote @ '':{'' @
     comma_separated
       (map (\<lambda>f. json_quote @ escape_json (ef_key f) @ json_quote @ '':'' @ json_quote @
                 escape_json (ef_value f) @ json_quote) (ex_factors e)) @
     ''}}''"

section \<open>The builder\<close>

text \<open>
  \<open>ExplanationBuilder\<close> collects factors in call order; the model passes the collected list.
  The \<open>add_\<close> functions are the builder's typed variants.
\<close>

definition add_text :: "string \<Rightarrow> string \<Rightarrow> ExplanationFactor" where
  "add_text key value = \<lparr>ef_key = key, ef_value = value\<rparr>"

definition add_u64 :: "string \<Rightarrow> u64 \<Rightarrow> ExplanationFactor" where
  "add_u64 key value = add_text key (dec_u64 value)"

definition add_size :: "string \<Rightarrow> nat \<Rightarrow> ExplanationFactor" where
  "add_size key value = add_text key (dec_digits value)"

definition add_i64 :: "string \<Rightarrow> int \<Rightarrow> ExplanationFactor" where
  "add_i64 key value = add_text key (dec_int value)"

definition add_bool :: "string \<Rightarrow> bool \<Rightarrow> ExplanationFactor" where
  "add_bool key value = add_text key (if value then ''true'' else ''false'')"

definition build_explanation ::
  "OutcomeCode \<Rightarrow> string \<Rightarrow> string \<Rightarrow> ExplanationFactor list \<Rightarrow> Explanation" where
  "build_explanation code subject message factors =
     Explanation_canonicalize
       (foldl (\<lambda>e f. Explanation_add_factor e (ef_key f) (ef_value f))
          ((Explanation_new code subject)\<lparr>ex_message := message\<rparr>) factors)"

section \<open>Results\<close>

record MutationResult =
  mr_code :: OutcomeCode
  mr_explanation :: Explanation

definition MutationResult_make :: "OutcomeCode \<Rightarrow> string \<Rightarrow> string \<Rightarrow> MutationResult" where
  "MutationResult_make code subject message =
     \<lparr>mr_code = code, mr_explanation = build_explanation code subject message []\<rparr>"

definition MutationResult_built ::
  "OutcomeCode \<Rightarrow> string \<Rightarrow> string \<Rightarrow> ExplanationFactor list \<Rightarrow> MutationResult" where
  "MutationResult_built code subject message factors =
     \<lparr>mr_code = code, mr_explanation = build_explanation code subject message factors\<rparr>"

abbreviation mr_accepted :: "MutationResult \<Rightarrow> bool" where
  "mr_accepted r \<equiv> is_acceptance (mr_code r)"

abbreviation mr_rejected :: "MutationResult \<Rightarrow> bool" where
  "mr_rejected r \<equiv> is_rejection (mr_code r)"

lemma mr_code_make [simp]: "mr_code (MutationResult_make c s m) = c"
  by (simp add: MutationResult_make_def)

lemma mr_code_built [simp]: "mr_code (MutationResult_built c s m fs) = c"
  by (simp add: MutationResult_built_def)

record RouteRejection =
  rj_model_id :: u64
  rj_model_generation :: generation
  rj_backend_id :: u64
  rj_backend_generation :: generation
  rj_backend_boot :: generation
  rj_endpoint_id :: u64
  rj_code :: OutcomeCode
  rj_detail :: string

definition RouteRejection_canonical_less :: "RouteRejection \<Rightarrow> RouteRejection \<Rightarrow> bool" where
  "RouteRejection_canonical_less a b =
     (if rj_model_id a \<noteq> rj_model_id b then rj_model_id a < rj_model_id b
      else if rj_model_generation a \<noteq> rj_model_generation b
        then rj_model_generation a < rj_model_generation b
      else if rj_backend_id a \<noteq> rj_backend_id b then rj_backend_id a < rj_backend_id b
      else if rj_backend_boot a \<noteq> rj_backend_boot b then rj_backend_boot a < rj_backend_boot b
      else if rj_backend_generation a \<noteq> rj_backend_generation b
        then rj_backend_generation a < rj_backend_generation b
      else if rj_endpoint_id a \<noteq> rj_endpoint_id b then rj_endpoint_id a < rj_endpoint_id b
      else if rj_code a \<noteq> rj_code b then outcome_index (rj_code a) < outcome_index (rj_code b)
      else rj_detail a < rj_detail b)"

section \<open>Properties\<close>

lemma foldl_add_factor:
  "foldl (\<lambda>e f. Explanation_add_factor e (ef_key f) (ef_value f)) e fs =
     e\<lparr>ex_factors := ex_factors e @ fs\<rparr>"
  by (induction fs arbitrary: e) (simp_all add: Explanation_add_factor_def)

lemma ex_factors_build [simp]:
  "ex_factors (build_explanation c s m fs) = sort_key ef_key fs"
  by (simp add: build_explanation_def foldl_add_factor Explanation_canonicalize_def
      Explanation_new_def)

definition rejection_tuple ::
  "RouteRejection \<Rightarrow> u64 \<times> generation \<times> u64 \<times> generation \<times> generation \<times> u64 \<times> OutcomeCode \<times> string"
where
  "rejection_tuple r =
     (rj_model_id r, rj_model_generation r, rj_backend_id r, rj_backend_boot r,
      rj_backend_generation r, rj_endpoint_id r, rj_code r, rj_detail r)"

lemma rejection_tuple_inject: "rejection_tuple a = rejection_tuple b \<longleftrightarrow> a = b"
  by (cases a; cases b) (auto simp: rejection_tuple_def)

lemma canonical_less_tuple:
  "RouteRejection_canonical_less a b \<longleftrightarrow> rejection_tuple a < rejection_tuple b"
  by (simp only: RouteRejection_canonical_less_def rejection_tuple_def lex_pair_less
      less_OutcomeCode_def if_cancel split: if_split)

lemma hex_digit_printable: "n < 16 \<Longrightarrow> 0x20 \<le> (of_char (hex_digit n) :: nat)"
proof -
  assume "n < 16"
  then have "hex_digit n \<in> set ''0123456789abcdef''"
    unfolding hex_digit_def by (intro nth_mem) simp
  then show ?thesis by auto
qed

text \<open>
  The factor a caller finds in a built explanation under a key is the first one that
  was added under that key, whatever the order of the additions: the binary search of
  \<open>Explanation::find\<close> over the stably sorted factors agrees with a scan of the added list.
\<close>

theorem explanation_find_built:
  "Explanation_find (build_explanation code subject message factors) key =
     map_option ef_value (List.find (\<lambda>f. ef_key f = key) factors)"
  by (simp add: Explanation_find_def find_by_key_eq_find find_sort_key)

text \<open>
  \<open>RouteRejection::canonical_less\<close> is a strict total order on rejections: irreflexive,
  transitive and total, so that a rejection list has one canonical order.
\<close>

theorem rejection_order_total:
  "\<not> RouteRejection_canonical_less a a \<and>
   (RouteRejection_canonical_less a b \<and> RouteRejection_canonical_less b c \<longrightarrow>
      RouteRejection_canonical_less a c) \<and>
   (a \<noteq> b \<longrightarrow> RouteRejection_canonical_less a b \<or> RouteRejection_canonical_less b a)"
  by (auto simp: canonical_less_tuple rejection_tuple_inject [symmetric]
      simp del: less_prod_simp)

end
