(* ===== verification/Capability.thy ===== *)
theory Capability
  imports Identity Outcome
begin

text \<open>
  Capability identity and evidence: \<open>include/model_router/capability.hpp\<close> and
  \<open>src/capability.cpp\<close>.

  A key is a string; \<open>CapabilityKey_validate\<close> returns the empty string for a canonical key
  and otherwise the reason, as the code does.  A profile keeps its entries sorted by key;
  \<open>set\<close>, \<open>erase\<close> and \<open>find\<close> locate the position with \<open>std::lower_bound\<close>.  The lemmas
  show that validation agrees with a declarative description of canonical keys, that
  canonicalisation is idempotent, and that a profile behaves like a finite map with a
  bounded number of entries.
\<close>

section \<open>States\<close>

datatype CapabilityState = UNKNOWN | DECLARED | OBSERVED | VERIFIED | REVOKED | STALE | UNSUPPORTED

definition CapabilityState_to_string :: "CapabilityState \<Rightarrow> string" where
  "CapabilityState_to_string state =
     (case state of
        UNKNOWN \<Rightarrow> ''UNKNOWN'' | DECLARED \<Rightarrow> ''DECLARED'' | OBSERVED \<Rightarrow> ''OBSERVED''
      | VERIFIED \<Rightarrow> ''VERIFIED'' | REVOKED \<Rightarrow> ''REVOKED'' | STALE \<Rightarrow> ''STALE''
      | UNSUPPORTED \<Rightarrow> ''UNSUPPORTED'')"

definition is_satisfying :: "CapabilityState \<Rightarrow> bool" where
  "is_satisfying state \<longleftrightarrow> state = DECLARED \<or> state = OBSERVED \<or> state = VERIFIED"

definition evidence_strength :: "CapabilityState \<Rightarrow> nat" where
  "evidence_strength state =
     (case state of UNKNOWN \<Rightarrow> 0 | DECLARED \<Rightarrow> 1 | OBSERVED \<Rightarrow> 2 | VERIFIED \<Rightarrow> 3 | _ \<Rightarrow> 0)"

section \<open>Keys\<close>

type_synonym CapabilityKey = string

abbreviation (input) kMaxCapabilityKeyBytes :: nat where
  "kMaxCapabilityKeyBytes \<equiv> 128"

abbreviation separator :: char where
  "separator \<equiv> CHR ''/''"

definition is_key_character :: "char \<Rightarrow> bool" where
  "is_key_character ch \<longleftrightarrow>
     (ch \<ge> CHR ''a'' \<and> ch \<le> CHR ''z'') \<or> (ch \<ge> CHR ''0'' \<and> ch \<le> CHR ''9'') \<or>
     ch = CHR ''.'' \<or> ch = CHR ''-'' \<or> ch = CHR ''_'' \<or> ch = separator"

fun validate_key_loop :: "bool \<Rightarrow> bool \<Rightarrow> string \<Rightarrow> string" where
  "validate_key_loop previous_separator has_separator [] =
     (if \<not> has_separator then ''capability key must be namespaced, for example domain/name''
      else [])"
| "validate_key_loop previous_separator has_separator (ch # rest) =
     (if \<not> is_key_character ch then ''capability key contains an invalid character''
      else if ch = separator then
        (if previous_separator then ''capability key contains an empty segment''
         else validate_key_loop True True rest)
      else validate_key_loop False has_separator rest)"

definition CapabilityKey_validate :: "string \<Rightarrow> string" where
  "CapabilityKey_validate value =
     (if value = [] then ''capability key is empty''
      else if length value > kMaxCapabilityKeyBytes then ''capability key exceeds 128 bytes''
      else if hd value = separator \<or> last value = separator
        then ''capability key has a leading or trailing separator''
      else validate_key_loop False False value)"

definition to_lower_ascii :: "char \<Rightarrow> char" where
  "to_lower_ascii ch =
     (if ch \<ge> CHR ''A'' \<and> ch \<le> CHR ''Z'' then char_of (of_char ch - 65 + 97 :: nat) else ch)"

definition canonical_key_char :: "char \<Rightarrow> char" where
  "canonical_key_char raw =
     (let ch = to_lower_ascii raw;
          ch = (if ch = CHR ''_'' \<or> ch = CHR ''.'' then CHR ''-'' else ch)
      in if ch = CHR '' '' \<or> ch = CHR 0x09 then CHR ''-'' else ch)"

text \<open>The first argument is \<open>collapsed.empty()\<close>, the second \<open>previous_separator\<close>.\<close>

fun collapse_separators :: "bool \<Rightarrow> bool \<Rightarrow> string \<Rightarrow> string" where
  "collapse_separators fresh previous_separator [] = []"
| "collapse_separators fresh previous_separator (ch # rest) =
     (if ch = separator then
        (if fresh \<or> previous_separator then collapse_separators fresh previous_separator rest
         else ch # collapse_separators False True rest)
      else ch # collapse_separators False False rest)"

definition trim_trailing_separators :: "string \<Rightarrow> string" where
  "trim_trailing_separators s = rev (dropWhile (\<lambda>ch. ch = separator) (rev s))"

definition CapabilityKey_canonicalize :: "string \<Rightarrow> string" where
  "CapabilityKey_canonicalize value =
     (let out = map canonical_key_char value;
          collapsed = trim_trailing_separators (collapse_separators True False out)
      in if CapabilityKey_validate collapsed \<noteq> [] then [] else collapsed)"

abbreviation structured_output :: CapabilityKey where "structured_output \<equiv> ''output/structured''"
abbreviation json_schema :: CapabilityKey where "json_schema \<equiv> ''output/json-schema''"
abbreviation tool_calling :: CapabilityKey where "tool_calling \<equiv> ''tool/calling''"
abbreviation streaming :: CapabilityKey where "streaming \<equiv> ''output/streaming''"
abbreviation logprobs :: CapabilityKey where "logprobs \<equiv> ''output/logprobs''"
abbreviation deterministic_seed :: CapabilityKey where
  "deterministic_seed \<equiv> ''behavior/deterministic-seed''"

section \<open>Evidence and profiles\<close>

record CapabilityEvidence =
  ce_key :: CapabilityKey
  ce_state :: CapabilityState
  ce_generation :: generation
  ce_profile_id :: entity_id
  ce_model_generation :: generation
  ce_backend_generation :: generation
  ce_backend_boot :: generation
  ce_observed_at :: unix_millis
  ce_expires_at :: unix_millis
  ce_source :: string
  ce_detail :: string

definition CapabilityEvidence_expired :: "CapabilityEvidence \<Rightarrow> unix_millis \<Rightarrow> bool" where
  "CapabilityEvidence_expired e now = expired_at (ce_expires_at e) now"

record CapabilityRequirement =
  cr_key :: CapabilityKey
  cr_minimum_state :: CapabilityState

record CapabilityProfile =
  cp_id :: entity_id
  cp_generation :: generation
  cp_entries :: "CapabilityEvidence list"

definition CapabilityProfile_empty :: CapabilityProfile where
  "CapabilityProfile_empty = \<lparr>cp_id = 0, cp_generation = 0, cp_entries = []\<rparr>"

definition CapabilityProfile_set ::
  "CapabilityProfile \<Rightarrow> CapabilityEvidence \<Rightarrow> u32 \<Rightarrow> CapabilityProfile \<times> bool" where
  "CapabilityProfile_set p evidence max_entries =
     (let entries = cp_entries p; existing = lower_bound ce_key (ce_key evidence) entries in
      if existing \<noteq> length entries \<and> ce_key (entries ! existing) = ce_key evidence
        then (p\<lparr>cp_entries := entries[existing := evidence]\<rparr>, True)
      else if length entries \<ge> unat max_entries then (p, False)
      else (p\<lparr>cp_entries := take existing entries @ evidence # drop existing entries\<rparr>, True))"

definition CapabilityProfile_erase ::
  "CapabilityProfile \<Rightarrow> CapabilityKey \<Rightarrow> CapabilityProfile \<times> bool" where
  "CapabilityProfile_erase p key =
     (let entries = cp_entries p; existing = lower_bound ce_key key entries in
      if existing = length entries \<or> ce_key (entries ! existing) \<noteq> key then (p, False)
      else (p\<lparr>cp_entries := take existing entries @ drop (existing + 1) entries\<rparr>, True))"

definition CapabilityProfile_find ::
  "CapabilityProfile \<Rightarrow> CapabilityKey \<Rightarrow> CapabilityEvidence option" where
  "CapabilityProfile_find p key = find_by_key ce_key key (cp_entries p)"

definition CapabilityProfile_evaluate ::
  "CapabilityProfile \<Rightarrow> CapabilityRequirement \<Rightarrow> unix_millis \<Rightarrow> string" where
  "CapabilityProfile_evaluate p requirement now =
     (if cr_key requirement = [] then ''required capability key is empty''
      else case CapabilityProfile_find p (cr_key requirement) of
        None \<Rightarrow> ''capability '' @ cr_key requirement @ '' has no evidence''
      | Some evidence \<Rightarrow>
          if ce_state evidence = UNKNOWN
            then ''capability '' @ cr_key requirement @ '' is UNKNOWN''
          else if \<not> is_satisfying (ce_state evidence)
            then ''capability '' @ cr_key requirement @ '' is '' @
                 CapabilityState_to_string (ce_state evidence)
          else if CapabilityEvidence_expired evidence now
            then ''capability '' @ cr_key requirement @ '' evidence is stale''
          else if evidence_strength (ce_state evidence) <
                  evidence_strength (cr_minimum_state requirement)
            then ''capability '' @ cr_key requirement @ '' evidence is '' @
                 CapabilityState_to_string (ce_state evidence) @ '' but '' @
                 CapabilityState_to_string (cr_minimum_state requirement) @ '' is required''
          else [])"

record BackendCapabilityPublication =
  bcp_backend_id :: entity_id
  bcp_backend_generation :: generation
  bcp_backend_boot :: generation
  bcp_profile_id :: entity_id
  bcp_generation :: generation
  bcp_claims :: "CapabilityEvidence list"

section \<open>Keys: validation and canonicalisation\<close>

text \<open>What a canonical key is, without the loop: no empty segment means no two adjacent
  separators and none at the ends.\<close>

fun no_empty_segment :: "string \<Rightarrow> bool" where
  "no_empty_segment (a # b # s) \<longleftrightarrow> \<not> (a = separator \<and> b = separator) \<and> no_empty_segment (b # s)"
| "no_empty_segment _ \<longleftrightarrow> True"

definition canonical_key :: "string \<Rightarrow> bool" where
  "canonical_key s \<longleftrightarrow> s \<noteq> [] \<and> length s \<le> 128 \<and> hd s \<noteq> separator \<and> last s \<noteq> separator \<and>
     (\<forall>ch \<in> set s. is_key_character ch) \<and> no_empty_segment s \<and> separator \<in> set s"

lemma validate_key_loop_iff:
  "validate_key_loop previous has s = [] \<longleftrightarrow>
     (\<forall>ch \<in> set s. is_key_character ch) \<and>
     no_empty_segment (if previous then separator # s else s) \<and> (has \<or> separator \<in> set s)"
proof (induction previous has s rule: validate_key_loop.induct)
  case (2 previous has ch rest)
  then show ?case by (cases rest) auto
qed auto

lemma CapabilityKey_validate_iff: "CapabilityKey_validate s = [] \<longleftrightarrow> canonical_key s"
  by (auto simp: CapabilityKey_validate_def canonical_key_def validate_key_loop_iff)

lemma collapse_fixed:
  "no_empty_segment (if previous then separator # s else s) \<Longrightarrow>
   fresh \<longrightarrow> s = [] \<or> hd s \<noteq> separator \<Longrightarrow> collapse_separators fresh previous s = s"
proof (induction fresh previous s rule: collapse_separators.induct)
  case (2 fresh previous ch rest)
  then show ?case by (cases rest; cases "ch = separator") (auto split: if_splits)
qed simp

lemma trim_fixed: "s = [] \<or> last s \<noteq> separator \<Longrightarrow> trim_trailing_separators s = s"
  by (cases s rule: rev_cases) (auto simp: trim_trailing_separators_def)

lemma to_lower_ascii_code:
  "(of_char (to_lower_ascii ch) :: nat) =
     (if 65 \<le> (of_char ch :: nat) \<and> (of_char ch :: nat) \<le> 90 then of_char ch + 32 else of_char ch)"
  by (auto simp: to_lower_ascii_def less_eq_char_def)

lemma canonical_key_char_fixed:
  "canonical_key_char (canonical_key_char ch) = canonical_key_char ch"
proof -
  have lower: "\<not> (65 \<le> (of_char (to_lower_ascii ch) :: nat) \<and> (of_char (to_lower_ascii ch) :: nat) \<le> 90)"
    using to_lower_ascii_code [of ch] by auto
  then have "to_lower_ascii (to_lower_ascii ch) = to_lower_ascii ch"
    by (auto simp: to_lower_ascii_def [of "to_lower_ascii ch"] less_eq_char_def)
  moreover have "to_lower_ascii (CHR ''-'') = CHR ''-''"
    by (simp add: to_lower_ascii_def less_eq_char_def)
  ultimately show ?thesis by (auto simp: canonical_key_char_def Let_def)
qed

section \<open>Profiles as finite maps\<close>

definition profile_ok :: "CapabilityProfile \<Rightarrow> bool" where
  "profile_ok p \<longleftrightarrow> strictly_ascending (map ce_key (cp_entries p))"

lemma profile_ok_sorted: "profile_ok p \<Longrightarrow> sorted (map ce_key (cp_entries p))"
  by (simp add: profile_ok_def strictly_ascending_sorted)

lemma profile_find_iff:
  assumes "profile_ok p"
  shows "CapabilityProfile_find p k = Some e \<longleftrightarrow> e \<in> set (cp_entries p) \<and> ce_key e = k"
proof
  assume "CapabilityProfile_find p k = Some e"
  then show "e \<in> set (cp_entries p) \<and> ce_key e = k"
    using find_by_key_Some [OF profile_ok_sorted [OF assms]] by (simp add: CapabilityProfile_find_def)
next
  assume e: "e \<in> set (cp_entries p) \<and> ce_key e = k"
  then obtain e' where e': "CapabilityProfile_find p k = Some e'"
    using find_by_key_None_iff [OF profile_ok_sorted [OF assms], of k]
    by (auto simp: CapabilityProfile_find_def)
  then have "e' \<in> set (cp_entries p) \<and> ce_key e' = k"
    using find_by_key_Some [OF profile_ok_sorted [OF assms]] by (simp add: CapabilityProfile_find_def)
  with e have "e' = e"
    using assms strictly_ascending_distinct unfolding profile_ok_def
    by (metis distinct_map inj_onD)
  with e' show "CapabilityProfile_find p k = Some e" by simp
qed

lemma profile_find_eqI:
  assumes "profile_ok p" and "\<And>e. e \<in> set (cp_entries p) \<and> ce_key e = k \<longleftrightarrow> r = Some e"
  shows "CapabilityProfile_find p k = r"
  using profile_find_iff [OF assms(1), of k] assms(2) by (metis not_None_eq)

lemma ascending_insert_at:
  assumes "strictly_ascending (map f xs)" and "i = lower_bound f k xs"
    and "f x = k" and "i = length xs \<or> f (xs ! i) \<noteq> k"
  shows "strictly_ascending (map f (take i xs @ x # drop i xs))"
proof -
  have s: "sorted (map f xs)" using assms(1) by (rule strictly_ascending_sorted)
  have i: "i \<le> length xs" using lower_bound_partition(1) [OF s] assms(2) by simp
  have low: "\<forall>y \<in> set (take i xs). f y < k"
    using lower_bound_partition(2) [OF s, of _ k] assms(2) by (auto simp: in_set_conv_nth)
  have high: "\<forall>y \<in> set (drop i xs). k < f y"
  proof
    fix y assume "y \<in> set (drop i xs)"
    then obtain j where j: "j < length xs - i" "y = xs ! (i + j)"
      by (auto simp: in_set_conv_nth)
    then have "i < length xs" by simp
    then have "k < f (xs ! i)"
      using lower_bound_partition(3) [OF s, of k i] assms(2,4) by auto
    also have "\<dots> \<le> f y" using s j by (auto simp: sorted_iff_nth_mono)
    finally show "k < f y" .
  qed
  have "strictly_ascending (map f (take i xs @ drop i xs))" using assms(1) by simp
  then show ?thesis
    unfolding map_append sorted_wrt_append using low high assms(3)
    by (auto simp: less_trans)
qed

lemma ascending_update_at:
  "strictly_ascending (map f xs) \<Longrightarrow> i < length xs \<Longrightarrow> f x = f (xs ! i) \<Longrightarrow>
   strictly_ascending (map f (xs[i := x]))"
  by (metis list_update_id map_update nth_map)

lemma ascending_remove_at:
  "strictly_ascending (map f xs) \<Longrightarrow> strictly_ascending (map f (take i xs @ drop (Suc i) xs))"
proof -
  assume a: "strictly_ascending (map f xs)"
  show ?thesis
  proof (cases "i < length xs")
    case True
    with a have "strictly_ascending (map f (take i xs @ xs ! i # drop (Suc i) xs))"
      by (simp add: id_take_nth_drop [symmetric])
    then show ?thesis by (auto simp: sorted_wrt_append)
  qed (use a in simp)
qed

lemma set_collapse_subset: "set (collapse_separators fresh previous s) \<subseteq> set s"
  by (induction fresh previous s rule: collapse_separators.induct) auto

lemma set_trim_subset: "set (trim_trailing_separators s) \<subseteq> set s"
  using set_dropWhileD by (fastforce simp: trim_trailing_separators_def)

lemma profile_set_replace:
  assumes ok: "profile_ok p" and i: "i < length (cp_entries p)"
    and key: "ce_key (cp_entries p ! i) = ce_key e"
  shows "profile_ok (p\<lparr>cp_entries := (cp_entries p)[i := e]\<rparr>)"
    and "CapabilityProfile_find (p\<lparr>cp_entries := (cp_entries p)[i := e]\<rparr>) k =
      (if k = ce_key e then Some e else CapabilityProfile_find p k)"
proof -
  let ?p = "p\<lparr>cp_entries := (cp_entries p)[i := e]\<rparr>"
  show ok': "profile_ok ?p"
    using ascending_update_at [of ce_key "cp_entries p" i e] ok i key by (simp add: profile_ok_def)
  have in_upd: "x \<in> set ((cp_entries p)[i := e]) \<longleftrightarrow> x = e \<or> (x \<in> set (cp_entries p) \<and> ce_key x \<noteq> ce_key e)"
    for x
  proof -
    have inj: "inj_on ce_key (set (cp_entries p))"
      using ok strictly_ascending_distinct unfolding profile_ok_def by (metis distinct_map)
    have d: "distinct (cp_entries p)"
      using ok strictly_ascending_distinct unfolding profile_ok_def by (metis distinct_map)
    have "set ((cp_entries p)[i := e]) = insert e (set (cp_entries p) - {cp_entries p ! i})"
      using set_update_distinct [OF d i] .
    moreover have "x \<in> set (cp_entries p) \<Longrightarrow> x \<noteq> cp_entries p ! i \<longleftrightarrow> ce_key x \<noteq> ce_key e"
      using inj key i by (metis inj_onD nth_mem)
    ultimately show ?thesis by auto
  qed
  show "CapabilityProfile_find ?p k = (if k = ce_key e then Some e else CapabilityProfile_find p k)"
    by (rule profile_find_eqI [OF ok'])
       (auto simp: in_upd profile_find_iff [OF ok])
qed

lemma profile_set_insert:
  assumes ok: "profile_ok p" and i: "i = lower_bound ce_key (ce_key e) (cp_entries p)"
    and fresh: "i = length (cp_entries p) \<or> ce_key (cp_entries p ! i) \<noteq> ce_key e"
  defines "p' \<equiv> p\<lparr>cp_entries := take i (cp_entries p) @ e # drop i (cp_entries p)\<rparr>"
  shows "profile_ok p'"
    and "CapabilityProfile_find p (ce_key e) = None"
    and "CapabilityProfile_find p' k = (if k = ce_key e then Some e else CapabilityProfile_find p k)"
proof -
  show ok': "profile_ok p'"
    using ascending_insert_at [OF ok [unfolded profile_ok_def] i refl fresh]
    by (simp add: profile_ok_def p'_def)
  show absent: "CapabilityProfile_find p (ce_key e) = None"
    using fresh by (simp add: CapabilityProfile_find_def find_by_key_def Let_def i)
  have set: "set (cp_entries p') = insert e (set (cp_entries p))"
    by (simp add: p'_def) (metis append_take_drop_id set_append)
  have other: "x \<in> set (cp_entries p) \<Longrightarrow> ce_key x \<noteq> ce_key e" for x
    using absent profile_find_iff [OF ok, of "ce_key e"] by auto
  show "CapabilityProfile_find p' k = (if k = ce_key e then Some e else CapabilityProfile_find p k)"
    by (rule profile_find_eqI [OF ok']) (auto simp: set profile_find_iff [OF ok] dest: other)
qed

lemma profile_ok_set: "profile_ok p \<Longrightarrow> profile_ok (fst (CapabilityProfile_set p e n))"
  using profile_set_replace(1) [of p _ e] profile_set_insert(1) [of p _ e]
    lower_bound_partition(1) [OF profile_ok_sorted, of p "ce_key e"]
  by (auto simp: CapabilityProfile_set_def Let_def)

lemma profile_ok_empty [simp]: "profile_ok CapabilityProfile_empty"
  by (simp add: profile_ok_def CapabilityProfile_empty_def)

section \<open>Properties\<close>

text \<open>
  Canonicalising a capability key is idempotent, and its result is either the empty string or
  a key that \<open>CapabilityKey::validate\<close> accepts: lower-case, namespaced, with no empty segment.
\<close>

theorem capability_key_canonicalize_idem:
  "CapabilityKey_canonicalize (CapabilityKey_canonicalize v) = CapabilityKey_canonicalize v \<and>
   (CapabilityKey_canonicalize v = [] \<or> canonical_key (CapabilityKey_canonicalize v))"
proof (cases "CapabilityKey_canonicalize v = []")
  case True
  then show ?thesis
    by (simp add: CapabilityKey_canonicalize_def CapabilityKey_validate_def
        trim_trailing_separators_def)
next
  case False
  let ?c = "trim_trailing_separators (collapse_separators True False (map canonical_key_char v))"
  from False have c: "CapabilityKey_canonicalize v = ?c" and key: "canonical_key ?c"
    by (auto simp: CapabilityKey_canonicalize_def Let_def CapabilityKey_validate_iff split: if_splits)
  have "set ?c \<subseteq> canonical_key_char ` set v"
    using set_trim_subset set_collapse_subset by (metis order_trans set_map)
  then have "map canonical_key_char ?c = ?c"
    using canonical_key_char_fixed by (intro map_idI) auto
  moreover have "collapse_separators True False ?c = ?c"
    using key by (intro collapse_fixed) (auto simp: canonical_key_def)
  moreover have "trim_trailing_separators ?c = ?c"
    using key by (intro trim_fixed) (simp add: canonical_key_def)
  ultimately show ?thesis
    using key CapabilityKey_validate_iff [of ?c]
    by (simp add: c CapabilityKey_canonicalize_def [of ?c])
qed

text \<open>
  A capability profile is a finite map from keys to claims: after a successful \<open>set\<close> the key
  reads back the claim and every other key is unchanged, the entries stay in key order, and
  their number never exceeds the bound; \<open>set\<close> fails exactly when the key is new and the
  profile is full, and then nothing changes.
\<close>

theorem profile_set_map:
  assumes ok: "profile_ok p" and set: "CapabilityProfile_set p e n = (p', inserted)"
  shows "profile_ok p' \<and>
    (inserted \<longleftrightarrow> CapabilityProfile_find p (ce_key e) \<noteq> None \<or> length (cp_entries p) < unat n) \<and>
    (\<forall>k. CapabilityProfile_find p' k =
       (if inserted \<and> k = ce_key e then Some e else CapabilityProfile_find p k)) \<and>
    length (cp_entries p') \<le> max (length (cp_entries p)) (unat n)"
proof -
  let ?i = "lower_bound ce_key (ce_key e) (cp_entries p)"
  have i: "?i \<le> length (cp_entries p)"
    by (rule lower_bound_partition(1) [OF profile_ok_sorted [OF ok]])
  show ?thesis
  proof (cases "?i \<noteq> length (cp_entries p) \<and> ce_key (cp_entries p ! ?i) = ce_key e")
    case True
    then have lt: "?i < length (cp_entries p)" using i by simp
    have "CapabilityProfile_find p (ce_key e) \<noteq> None"
      using True by (simp add: CapabilityProfile_find_def find_by_key_def)
    then show ?thesis
      using set True profile_set_replace [OF ok lt, of e]
      by (auto simp: CapabilityProfile_set_def Let_def)
  next
    case False
    then show ?thesis
      using set i profile_set_insert [OF ok refl, of e] ok
      by (auto simp: CapabilityProfile_set_def Let_def split: if_splits)
  qed
qed

definition sample_claim :: CapabilityEvidence where
  "sample_claim = \<lparr>ce_key = ''task/code'', ce_state = OBSERVED, ce_generation = 1, ce_profile_id = 1,
     ce_model_generation = 1, ce_backend_generation = 1, ce_backend_boot = 1, ce_observed_at = 10,
     ce_expires_at = 100, ce_source = [], ce_detail = []\<rparr>"

definition sample_profile :: CapabilityProfile where
  "sample_profile = CapabilityProfile_empty\<lparr>cp_entries := [sample_claim]\<rparr>"

lemma sample_profile_set:
  "CapabilityProfile_set CapabilityProfile_empty sample_claim 4 = (sample_profile, True)"
  by (simp add: CapabilityProfile_set_def CapabilityProfile_empty_def sample_profile_def
      lower_bound_def lower_bound_loop.simps)

theorem profile_set_map_witness:
  "profile_ok sample_profile \<and> CapabilityProfile_find sample_profile ''task/code'' = Some sample_claim \<and>
   length (cp_entries sample_profile) \<le> 4"
proof -
  note applied = profile_set_map [OF profile_ok_empty sample_profile_set]
  have key: "ce_key sample_claim = ''task/code''" by (simp add: sample_claim_def)
  have "profile_ok sample_profile" using applied by (rule conjunct1)
  moreover have "CapabilityProfile_find sample_profile (ce_key sample_claim) = Some sample_claim"
    using applied [THEN conjunct2, THEN conjunct2, THEN conjunct1] by (metis (full_types))
  moreover have "length (cp_entries sample_profile) \<le> 4"
    using applied [THEN conjunct2, THEN conjunct2, THEN conjunct2]
    by (simp add: CapabilityProfile_empty_def)
  ultimately show ?thesis unfolding key by blast
qed

text \<open>
  \<open>CapabilityProfile::evaluate\<close> accepts a requirement exactly when the profile holds a claim
  for its key that is declared, observed or verified, is not expired and is at least as
  strong as the requirement asks: unknown, revoked, stale or unsupported claims never pass.
\<close>

theorem profile_evaluate_sound:
  assumes "profile_ok p"
  shows "CapabilityProfile_evaluate p r now = [] \<longleftrightarrow>
    cr_key r \<noteq> [] \<and>
    (\<exists>e \<in> set (cp_entries p). ce_key e = cr_key r \<and> ce_state e \<in> {DECLARED, OBSERVED, VERIFIED} \<and>
       is_current now (ce_expires_at e) \<and>
       evidence_strength (cr_minimum_state r) \<le> evidence_strength (ce_state e))"
proof (cases "CapabilityProfile_find p (cr_key r)")
  case None
  then show ?thesis
    using profile_find_iff [OF assms, of "cr_key r"] by (auto simp: CapabilityProfile_evaluate_def)
next
  case (Some e)
  then have e: "e \<in> set (cp_entries p)" "ce_key e = cr_key r"
    and uniq: "\<And>e'. e' \<in> set (cp_entries p) \<Longrightarrow> ce_key e' = cr_key r \<Longrightarrow> e' = e"
    by (simp_all add: profile_find_iff [OF assms, of "cr_key r"])
       (metis Some assms option.inject profile_find_iff)
  have claim: "(\<exists>e' \<in> set (cp_entries p). ce_key e' = cr_key r \<and> Q e') \<longleftrightarrow> Q e" for Q
    using e uniq by blast
  show ?thesis
    unfolding claim CapabilityProfile_evaluate_def Some CapabilityEvidence_expired_def
      is_current_iff_not_expired is_satisfying_def
    by (cases "ce_state e") (simp_all add: not_less)
qed

theorem profile_evaluate_sound_witness:
  "profile_ok sample_profile \<and>
   CapabilityProfile_evaluate sample_profile \<lparr>cr_key = ''task/code'', cr_minimum_state = DECLARED\<rparr> 50 = [] \<and>
   CapabilityProfile_evaluate sample_profile \<lparr>cr_key = ''task/code'', cr_minimum_state = VERIFIED\<rparr> 50 \<noteq> [] \<and>
   CapabilityProfile_evaluate sample_profile \<lparr>cr_key = ''task/code'', cr_minimum_state = DECLARED\<rparr> 100 \<noteq> []"
proof -
  have ok: "profile_ok sample_profile"
    by (simp add: profile_ok_def sample_profile_def CapabilityProfile_empty_def)
  have entries: "cp_entries sample_profile = [sample_claim]"
    by (simp add: sample_profile_def CapabilityProfile_empty_def)
  show ?thesis
    unfolding profile_evaluate_sound [OF ok] entries
    using ok by (simp add: sample_claim_def is_current_def evidence_strength_def)
qed

end
