(* ===== verification/Limits.thy ===== *)
theory Limits
  imports Prelude
begin

text \<open>
  Resource limits: \<open>include/model_router/limits.hpp\<close> and \<open>src/limits.cpp\<close>.  Every field of
  \<open>ResourceLimits\<close> is a field of the record; \<open>ResourceLimits_validate\<close> reports the first
  violated relation, as \<open>add_failure\<close> does by writing its message only once.
\<close>

record ResourceLimits =
  max_models :: u32
  max_providers :: u32
  max_backends :: u32
  max_backend_incarnations :: u32
  max_endpoints :: u32
  max_model_bindings_per_backend :: u32
  max_capability_entries_per_model :: u32
  max_capability_entries_per_backend :: u32
  max_capability_entries :: u32
  max_candidates_per_request :: u32
  max_ranked_candidates :: u32
  max_fallback_candidates :: u32
  max_explanation_factors :: u32
  max_rejection_records :: u32
  max_route_requests :: u32
  max_route_decisions :: u32
  max_route_history :: u32
  max_dispatch_records :: u32
  max_requirement_entries :: u32
  max_allowlist_entries :: u32
  max_policy_records :: u32
  max_budget_records :: u32
  max_slo_records :: u32
  max_cost_records :: u32
  max_compatibility_records :: u32
  max_trust_records :: u32
  max_tenants :: u32
  max_namespaces :: u32
  max_tenant_policy_bindings :: u32
  max_connections :: u32
  max_session_threads :: u32
  max_send_queue_frames :: u32
  max_outstanding_correlations :: u32
  max_frame_payload_bytes :: u32
  max_payload_bytes :: u32
  max_frame_bytes :: u32
  max_string_bytes :: u32
  max_collection_entries :: u32
  max_metadata_entries :: u32
  max_metadata_key_bytes :: u32
  max_metadata_value_bytes :: u32
  max_persistence_bytes :: u64
  max_persistence_records :: u32
  max_temporary_files :: u32

definition default_resource_limits :: ResourceLimits where
  "default_resource_limits =
     \<lparr>max_models = 8192,
       max_providers = 1024,
       max_backends = 16384,
       max_backend_incarnations = 65536,
       max_endpoints = 16384,
       max_model_bindings_per_backend = 256,
       max_capability_entries_per_model = 256,
       max_capability_entries_per_backend = 256,
       max_capability_entries = 1048576,
       max_candidates_per_request = 100000,
       max_ranked_candidates = 4096,
       max_fallback_candidates = 64,
       max_explanation_factors = 512,
       max_rejection_records = 100000,
       max_route_requests = 1000000,
       max_route_decisions = 1000000,
       max_route_history = 1000000,
       max_dispatch_records = 1000000,
       max_requirement_entries = 256,
       max_allowlist_entries = 4096,
       max_policy_records = 1024,
       max_budget_records = 1024,
       max_slo_records = 1024,
       max_cost_records = 65536,
       max_compatibility_records = 4096,
       max_trust_records = 4096,
       max_tenants = 4096,
       max_namespaces = 8192,
       max_tenant_policy_bindings = 4096,
       max_connections = 256,
       max_session_threads = 512,
       max_send_queue_frames = 4096,
       max_outstanding_correlations = 4096,
       max_frame_payload_bytes = 4194304,
       max_payload_bytes = 4194304,
       max_frame_bytes = 8388608,
       max_string_bytes = 4096,
       max_collection_entries = 100000,
       max_metadata_entries = 256,
       max_metadata_key_bytes = 128,
       max_metadata_value_bytes = 2048,
       max_persistence_bytes = 1073741824,
       max_persistence_records = 4000000,
       max_temporary_files = 256\<rparr>"

definition add_failure :: "string \<Rightarrow> nat \<Rightarrow> string \<Rightarrow> nat \<Rightarrow> string" where
  "add_failure name value relation bound =
     name @ ''='' @ dec_digits value @ '' violates '' @ relation @ ''='' @ dec_digits bound"

definition ResourceLimits_validate :: "ResourceLimits \<Rightarrow> string" where
  "ResourceLimits_validate l = first_failure
     [(max_models l = 0,
         add_failure ''max_models'' (unat (max_models l)) ''minimum'' 1),
      (max_backends l = 0,
         add_failure ''max_backends'' (unat (max_backends l)) ''minimum'' 1),
      (max_candidates_per_request l = 0,
         add_failure ''max_candidates_per_request'' (unat (max_candidates_per_request l)) ''minimum'' 1),
      (max_ranked_candidates l = 0,
         add_failure ''max_ranked_candidates'' (unat (max_ranked_candidates l)) ''minimum'' 1),
      (max_ranked_candidates l > max_candidates_per_request l,
         add_failure ''max_ranked_candidates'' (unat (max_ranked_candidates l)) ''max_candidates_per_request'' (unat (max_candidates_per_request l))),
      (max_fallback_candidates l > max_ranked_candidates l,
         add_failure ''max_fallback_candidates'' (unat (max_fallback_candidates l)) ''max_ranked_candidates'' (unat (max_ranked_candidates l))),
      (max_explanation_factors l = 0,
         add_failure ''max_explanation_factors'' (unat (max_explanation_factors l)) ''minimum'' 1),
      (max_rejection_records l < max_candidates_per_request l,
         add_failure ''max_rejection_records'' (unat (max_rejection_records l)) ''max_candidates_per_request'' (unat (max_candidates_per_request l))),
      (max_frame_payload_bytes l = 0,
         add_failure ''max_frame_payload_bytes'' (unat (max_frame_payload_bytes l)) ''minimum'' 1),
      (max_frame_bytes l < max_frame_payload_bytes l,
         add_failure ''max_frame_bytes'' (unat (max_frame_bytes l)) ''max_frame_payload_bytes'' (unat (max_frame_payload_bytes l))),
      (max_payload_bytes l = 0,
         add_failure ''max_payload_bytes'' (unat (max_payload_bytes l)) ''minimum'' 1),
      (max_string_bytes l = 0,
         add_failure ''max_string_bytes'' (unat (max_string_bytes l)) ''minimum'' 1),
      (max_collection_entries l = 0,
         add_failure ''max_collection_entries'' (unat (max_collection_entries l)) ''minimum'' 1),
      (max_metadata_entries l > max_collection_entries l,
         add_failure ''max_metadata_entries'' (unat (max_metadata_entries l)) ''max_collection_entries'' (unat (max_collection_entries l))),
      (max_persistence_bytes l = 0,
         add_failure ''max_persistence_bytes'' (unat (max_persistence_bytes l)) ''minimum'' 1),
      (max_persistence_records l = 0,
         add_failure ''max_persistence_records'' (unat (max_persistence_records l)) ''minimum'' 1),
      (max_send_queue_frames l = 0,
         add_failure ''max_send_queue_frames'' (unat (max_send_queue_frames l)) ''minimum'' 1),
      (max_session_threads l = 0,
         add_failure ''max_session_threads'' (unat (max_session_threads l)) ''minimum'' 1),
      (max_connections l = 0,
         add_failure ''max_connections'' (unat (max_connections l)) ''minimum'' 1),
      (max_route_history l = 0,
         add_failure ''max_route_history'' (unat (max_route_history l)) ''minimum'' 1),
      (max_requirement_entries l = 0,
         add_failure ''max_requirement_entries'' (unat (max_requirement_entries l)) ''minimum'' 1),
      (max_model_bindings_per_backend l = 0,
         add_failure ''max_model_bindings_per_backend'' (unat (max_model_bindings_per_backend l)) ''minimum'' 1),
      (max_backend_incarnations l < max_backends l,
         add_failure ''max_backend_incarnations'' (unat (max_backend_incarnations l)) ''max_backends'' (unat (max_backends l)))]"

lemma add_failure_nonempty [simp]: "name \<noteq> [] \<Longrightarrow> add_failure name v r b \<noteq> []"
  by (simp add: add_failure_def)

lemma limits_valid_bounds:
  assumes "ResourceLimits_validate l = []"
  shows "max_candidates_per_request l \<noteq> 0"
    and "max_ranked_candidates l \<noteq> 0"
    and "max_ranked_candidates l \<le> max_candidates_per_request l"
    and "max_fallback_candidates l \<le> max_ranked_candidates l"
    and "max_candidates_per_request l \<le> max_rejection_records l"
    and "max_backends l \<noteq> 0"
    and "max_models l \<noteq> 0"
    and "max_route_history l \<noteq> 0"
    and "max_backends l \<le> max_backend_incarnations l"
  using assms unfolding ResourceLimits_validate_def
  by (simp_all add: first_failure_Nil_iff not_less del: first_failure.simps)

text \<open>The default limits are coherent: \<open>default_resource_limits().validate()\<close> reports nothing.\<close>

lemma default_limits_valid: "ResourceLimits_validate default_resource_limits = []"
  by (simp add: ResourceLimits_validate_def default_resource_limits_def first_failure_Nil_iff
      del: first_failure.simps)

end
