(* ===== verification/Evidence.thy ===== *)
theory Evidence
  imports Capability
begin

text \<open>
  External evidence: \<open>include/model_router/evidence.hpp\<close> and \<open>src/evidence.cpp\<close>.

  Every enumeration is a datatype with the source's enumerators (the sentinel \<open>kCount\<close> is not
  a value any code constructs), every struct is a record.  The class template
  \<open>BackendEvidence<State, Generation>\<close> is one record with the state as a parameter.  A policy
  snapshot is canonicalised list by list; \<open>policy_canonical\<close> is the invariant the binary
  searches of the policy evaluation rely on.
\<close>

section \<open>Trust and locality\<close>

datatype TrustDomain = UNKNOWN | PUBLIC_REMOTE | TRUSTED_REMOTE | PRIVATE_NETWORK | LOCAL

definition TrustDomain_to_string :: "TrustDomain \<Rightarrow> string" where
  "TrustDomain_to_string x =
     (case x of
        TrustDomain.UNKNOWN \<Rightarrow> ''UNKNOWN''
      | TrustDomain.PUBLIC_REMOTE \<Rightarrow> ''PUBLIC_REMOTE''
      | TrustDomain.TRUSTED_REMOTE \<Rightarrow> ''TRUSTED_REMOTE''
      | TrustDomain.PRIVATE_NETWORK \<Rightarrow> ''PRIVATE_NETWORK''
      | TrustDomain.LOCAL \<Rightarrow> ''LOCAL'')"

definition trust_rank :: "TrustDomain \<Rightarrow> nat" where
  "trust_rank domain =
     (case domain of
        TrustDomain.UNKNOWN \<Rightarrow> 0 | PUBLIC_REMOTE \<Rightarrow> 1 | TRUSTED_REMOTE \<Rightarrow> 2
      | PRIVATE_NETWORK \<Rightarrow> 3 | LOCAL \<Rightarrow> 4)"

record TrustEvidence =
  te_profile_id :: entity_id
  te_generation :: generation
  te_backend_id :: entity_id
  te_domain :: TrustDomain
  te_observed_at :: unix_millis
  te_expires_at :: unix_millis
  te_source :: string

definition TrustEvidence_current :: "TrustEvidence \<Rightarrow> unix_millis \<Rightarrow> bool" where
  "TrustEvidence_current e now \<longleftrightarrow>
     valid_id (te_generation e) \<and> te_domain e \<noteq> TrustDomain.UNKNOWN \<and> \<not> expired_at (te_expires_at e) now"

type_synonym LocalityKey = string

abbreviation (input) kMaxLocalityKeyBytes :: nat where
  "kMaxLocalityKeyBytes \<equiv> 128"

definition is_locality_character :: "char \<Rightarrow> bool" where
  "is_locality_character ch \<longleftrightarrow>
     (ch \<ge> CHR ''a'' \<and> ch \<le> CHR ''z'') \<or> (ch \<ge> CHR ''A'' \<and> ch \<le> CHR ''Z'') \<or>
     (ch \<ge> CHR ''0'' \<and> ch \<le> CHR ''9'') \<or>
     ch = CHR ''.'' \<or> ch = CHR ''-'' \<or> ch = CHR ''_'' \<or> ch = separator"

fun validate_locality_loop :: "bool \<Rightarrow> string \<Rightarrow> string" where
  "validate_locality_loop previous_separator [] = []"
| "validate_locality_loop previous_separator (ch # rest) =
     (if \<not> is_locality_character ch then ''locality key contains an invalid character''
      else if ch = separator then
        (if previous_separator then ''locality key contains an empty segment''
         else validate_locality_loop True rest)
      else validate_locality_loop False rest)"

definition LocalityKey_validate :: "string \<Rightarrow> string" where
  "LocalityKey_validate value =
     (if value = [] then ''locality key is empty''
      else if length value > kMaxLocalityKeyBytes then ''locality key exceeds 128 bytes''
      else if hd value = separator \<or> last value = separator
        then ''locality key has a leading or trailing separator''
      else validate_locality_loop False value)"

definition canonical_locality_char :: "char \<Rightarrow> char" where
  "canonical_locality_char raw =
     (let ch = to_lower_ascii raw in if ch = CHR ''_'' then CHR ''-'' else ch)"

definition LocalityKey_canonicalize :: "string \<Rightarrow> string" where
  "LocalityKey_canonicalize value =
     (let out = map canonical_locality_char value;
          collapsed = trim_trailing_separators (collapse_separators True False out)
      in if LocalityKey_validate collapsed \<noteq> [] then [] else collapsed)"

section \<open>Health, availability, readiness, residency, capacity\<close>

datatype HealthState = UNKNOWN | HEALTHY | DEGRADED | UNHEALTHY | DRAINING | RETIRED

definition HealthState_to_string :: "HealthState \<Rightarrow> string" where
  "HealthState_to_string x =
     (case x of
        HealthState.UNKNOWN \<Rightarrow> ''UNKNOWN''
      | HealthState.HEALTHY \<Rightarrow> ''HEALTHY''
      | HealthState.DEGRADED \<Rightarrow> ''DEGRADED''
      | HealthState.UNHEALTHY \<Rightarrow> ''UNHEALTHY''
      | HealthState.DRAINING \<Rightarrow> ''DRAINING''
      | HealthState.RETIRED \<Rightarrow> ''RETIRED'')"

datatype AvailabilityState = UNKNOWN | AVAILABLE | UNAVAILABLE

definition AvailabilityState_to_string :: "AvailabilityState \<Rightarrow> string" where
  "AvailabilityState_to_string x =
     (case x of
        AvailabilityState.UNKNOWN \<Rightarrow> ''UNKNOWN''
      | AvailabilityState.AVAILABLE \<Rightarrow> ''AVAILABLE''
      | AvailabilityState.UNAVAILABLE \<Rightarrow> ''UNAVAILABLE'')"

datatype ReadinessState = UNKNOWN | READY | WARMING | NOT_READY

definition ReadinessState_to_string :: "ReadinessState \<Rightarrow> string" where
  "ReadinessState_to_string x =
     (case x of
        ReadinessState.UNKNOWN \<Rightarrow> ''UNKNOWN''
      | ReadinessState.READY \<Rightarrow> ''READY''
      | ReadinessState.WARMING \<Rightarrow> ''WARMING''
      | ReadinessState.NOT_READY \<Rightarrow> ''NOT_READY'')"

datatype ResidencyState = UNKNOWN | RESIDENT | LOADING | NOT_RESIDENT | EVICTING

definition ResidencyState_to_string :: "ResidencyState \<Rightarrow> string" where
  "ResidencyState_to_string x =
     (case x of
        ResidencyState.UNKNOWN \<Rightarrow> ''UNKNOWN''
      | ResidencyState.RESIDENT \<Rightarrow> ''RESIDENT''
      | ResidencyState.LOADING \<Rightarrow> ''LOADING''
      | ResidencyState.NOT_RESIDENT \<Rightarrow> ''NOT_RESIDENT''
      | ResidencyState.EVICTING \<Rightarrow> ''EVICTING'')"

datatype CapacityState = UNKNOWN | AVAILABLE | SATURATED

definition CapacityState_to_string :: "CapacityState \<Rightarrow> string" where
  "CapacityState_to_string x =
     (case x of
        CapacityState.UNKNOWN \<Rightarrow> ''UNKNOWN''
      | CapacityState.AVAILABLE \<Rightarrow> ''AVAILABLE''
      | CapacityState.SATURATED \<Rightarrow> ''SATURATED'')"

record 'state BackendEvidence =
  be_state :: 'state
  be_generation :: generation
  be_backend_id :: entity_id
  be_backend_generation :: generation
  be_backend_boot :: generation
  be_endpoint_generation :: generation
  be_observed_at :: unix_millis
  be_expires_at :: unix_millis
  be_source :: string
  be_detail :: string

type_synonym HealthEvidence = "HealthState BackendEvidence"
type_synonym AvailabilityEvidence = "AvailabilityState BackendEvidence"
type_synonym ReadinessEvidence = "ReadinessState BackendEvidence"
type_synonym ResidencyEvidence = "ResidencyState BackendEvidence"
type_synonym CapacityEvidence = "CapacityState BackendEvidence"

definition BackendEvidence_default :: "'state \<Rightarrow> 'state BackendEvidence" where
  "BackendEvidence_default s =
     \<lparr>be_state = s, be_generation = 0, be_backend_id = 0, be_backend_generation = 0,
      be_backend_boot = 0, be_endpoint_generation = 0, be_observed_at = 0,
      be_expires_at = kNoExpiry, be_source = [], be_detail = []\<rparr>"

definition BackendEvidence_expired :: "'state BackendEvidence \<Rightarrow> unix_millis \<Rightarrow> bool" where
  "BackendEvidence_expired e now = expired_at (be_expires_at e) now"

definition BackendEvidence_current :: "'state BackendEvidence \<Rightarrow> unix_millis \<Rightarrow> bool" where
  "BackendEvidence_current e now \<longleftrightarrow>
     valid_id (be_generation e) \<and> valid_id (be_backend_boot e) \<and> \<not> BackendEvidence_expired e now"

abbreviation (input) kUnknownCount :: u32 where
  "kUnknownCount \<equiv> kU32Max"

record CapacityDetail =
  cd_generation :: generation
  cd_backend_id :: entity_id
  cd_backend_boot :: generation
  cd_available_slots :: u32
  cd_total_slots :: u32
  cd_queue_depth :: u32
  cd_max_queue_depth :: u32
  cd_observed_at :: unix_millis
  cd_expires_at :: unix_millis

definition CapacityDetail_default :: CapacityDetail where
  "CapacityDetail_default =
     \<lparr>cd_generation = 0, cd_backend_id = 0, cd_backend_boot = 0,
      cd_available_slots = kUnknownCount, cd_total_slots = kUnknownCount,
      cd_queue_depth = kUnknownCount, cd_max_queue_depth = kUnknownCount,
      cd_observed_at = 0, cd_expires_at = kNoExpiry\<rparr>"

definition CapacityDetail_known :: "CapacityDetail \<Rightarrow> bool" where
  "CapacityDetail_known d \<longleftrightarrow> cd_available_slots d \<noteq> kUnknownCount"

record ReservationEvidence =
  re_reservation_id :: entity_id
  re_generation :: generation
  re_backend_id :: entity_id
  re_backend_boot :: generation
  re_request_id :: entity_id
  re_expires_at :: unix_millis

definition ReservationEvidence_default :: ReservationEvidence where
  "ReservationEvidence_default =
     \<lparr>re_reservation_id = 0, re_generation = 0, re_backend_id = 0, re_backend_boot = 0,
      re_request_id = 0, re_expires_at = kNoExpiry\<rparr>"

definition ReservationEvidence_current :: "ReservationEvidence \<Rightarrow> unix_millis \<Rightarrow> bool" where
  "ReservationEvidence_current e now \<longleftrightarrow>
     valid_id (re_reservation_id e) \<and> valid_id (re_generation e) \<and> valid_id (re_backend_boot e) \<and>
     \<not> expired_at (re_expires_at e) now"

section \<open>Latency\<close>

abbreviation (input) kUnknownLatencyMicros :: u32 where
  "kUnknownLatencyMicros \<equiv> kU32Max"

record LatencyEvidence =
  le_health_generation :: generation
  le_backend_id :: entity_id
  le_backend_boot :: generation
  le_dispatch_micros :: u32
  le_time_to_first_token_micros :: u32
  le_completed_micros :: u32
  le_tail_micros :: u32
  le_queue_micros :: u32
  le_warm_start_penalty_micros :: u32
  le_cold_start_penalty_micros :: u32
  le_sample_count :: u32
  le_observed_at :: unix_millis
  le_expires_at :: unix_millis
  le_source :: string

definition LatencyEvidence_default :: LatencyEvidence where
  "LatencyEvidence_default =
     \<lparr>le_health_generation = 0, le_backend_id = 0, le_backend_boot = 0,
      le_dispatch_micros = kUnknownLatencyMicros,
      le_time_to_first_token_micros = kUnknownLatencyMicros,
      le_completed_micros = kUnknownLatencyMicros, le_tail_micros = kUnknownLatencyMicros,
      le_queue_micros = kUnknownLatencyMicros,
      le_warm_start_penalty_micros = kUnknownLatencyMicros,
      le_cold_start_penalty_micros = kUnknownLatencyMicros, le_sample_count = 0,
      le_observed_at = 0, le_expires_at = kNoExpiry, le_source = []\<rparr>"

definition LatencyEvidence_has_observation :: "LatencyEvidence \<Rightarrow> bool" where
  "LatencyEvidence_has_observation e \<longleftrightarrow> le_sample_count e > 0"

definition LatencyEvidence_expired :: "LatencyEvidence \<Rightarrow> unix_millis \<Rightarrow> bool" where
  "LatencyEvidence_expired e now = expired_at (le_expires_at e) now"

section \<open>Cost, budget, service level, compatibility\<close>

record CostUnit =
  cu_currency :: string
  cu_basis :: string

definition CostUnit_default :: CostUnit where
  "CostUnit_default = \<lparr>cu_currency = [], cu_basis = []\<rparr>"

definition CostUnit_valid :: "CostUnit \<Rightarrow> bool" where
  "CostUnit_valid u \<longleftrightarrow> cu_currency u \<noteq> [] \<and> cu_basis u \<noteq> []"

definition compatible_with :: "CostUnit \<Rightarrow> CostUnit \<Rightarrow> bool" where
  "compatible_with u other \<longleftrightarrow>
     CostUnit_valid u \<and> CostUnit_valid other \<and>
     cu_currency u = cu_currency other \<and> cu_basis u = cu_basis other"

record Money =
  mo_micros :: int
  mo_unit :: CostUnit

definition Money_default :: Money where
  "Money_default = \<lparr>mo_micros = 0, mo_unit = CostUnit_default\<rparr>"

datatype CostKnownness = UNKNOWN | ESTIMATED | QUOTED | CONTRACTED

definition CostKnownness_to_string :: "CostKnownness \<Rightarrow> string" where
  "CostKnownness_to_string x =
     (case x of
        CostKnownness.UNKNOWN \<Rightarrow> ''UNKNOWN''
      | CostKnownness.ESTIMATED \<Rightarrow> ''ESTIMATED''
      | CostKnownness.QUOTED \<Rightarrow> ''QUOTED''
      | CostKnownness.CONTRACTED \<Rightarrow> ''CONTRACTED'')"

record CostEvidence =
  co_evidence_id :: entity_id
  co_price_generation :: generation
  co_backend_id :: entity_id
  co_model_id :: entity_id
  co_unit :: CostUnit
  co_input_micros_per_unit :: int
  co_output_micros_per_unit :: int
  co_request_minimum_micros :: int
  co_cache_read_micros_per_unit :: int
  co_cache_write_micros_per_unit :: int
  co_estimated_total_micros :: int
  co_knownness :: CostKnownness
  co_effective_at :: unix_millis
  co_expires_at :: unix_millis
  co_source :: string

definition CostEvidence_default :: CostEvidence where
  "CostEvidence_default =
     \<lparr>co_evidence_id = 0, co_price_generation = 0, co_backend_id = 0, co_model_id = 0,
      co_unit = CostUnit_default, co_input_micros_per_unit = 0, co_output_micros_per_unit = 0,
      co_request_minimum_micros = 0, co_cache_read_micros_per_unit = 0,
      co_cache_write_micros_per_unit = 0, co_estimated_total_micros = 0,
      co_knownness = CostKnownness.UNKNOWN, co_effective_at = 0, co_expires_at = kNoExpiry,
      co_source = []\<rparr>"

definition CostEvidence_known :: "CostEvidence \<Rightarrow> bool" where
  "CostEvidence_known e \<longleftrightarrow> co_knownness e \<noteq> CostKnownness.UNKNOWN"

definition CostEvidence_current :: "CostEvidence \<Rightarrow> unix_millis \<Rightarrow> bool" where
  "CostEvidence_current e now \<longleftrightarrow>
     CostEvidence_known e \<and> valid_id (co_price_generation e) \<and> CostUnit_valid (co_unit e) \<and>
     \<not> expired_at (co_expires_at e) now"

datatype BudgetVerdict = UNKNOWN | ALLOWED | DENIED

definition BudgetVerdict_to_string :: "BudgetVerdict \<Rightarrow> string" where
  "BudgetVerdict_to_string x =
     (case x of
        BudgetVerdict.UNKNOWN \<Rightarrow> ''UNKNOWN''
      | BudgetVerdict.ALLOWED \<Rightarrow> ''ALLOWED''
      | BudgetVerdict.DENIED \<Rightarrow> ''DENIED'')"

record BudgetSnapshot =
  bs_budget_id :: entity_id
  bs_generation :: generation
  bs_verdict :: BudgetVerdict
  bs_unit :: CostUnit
  bs_limit_micros :: int
  bs_consumed_micros :: int
  bs_remaining_micros :: int
  bs_observed_at :: unix_millis
  bs_expires_at :: unix_millis

definition BudgetSnapshot_default :: BudgetSnapshot where
  "BudgetSnapshot_default =
     \<lparr>bs_budget_id = 0, bs_generation = 0, bs_verdict = BudgetVerdict.UNKNOWN,
      bs_unit = CostUnit_default, bs_limit_micros = 0, bs_consumed_micros = 0,
      bs_remaining_micros = 0, bs_observed_at = 0, bs_expires_at = kNoExpiry\<rparr>"

definition BudgetSnapshot_expired :: "BudgetSnapshot \<Rightarrow> unix_millis \<Rightarrow> bool" where
  "BudgetSnapshot_expired b now = expired_at (bs_expires_at b) now"

definition BudgetSnapshot_current :: "BudgetSnapshot \<Rightarrow> unix_millis \<Rightarrow> bool" where
  "BudgetSnapshot_current b now \<longleftrightarrow>
     valid_id (bs_generation b) \<and> bs_verdict b \<noteq> BudgetVerdict.UNKNOWN \<and>
     \<not> BudgetSnapshot_expired b now"

datatype SloVerdict = UNKNOWN | FEASIBLE | INFEASIBLE

definition SloVerdict_to_string :: "SloVerdict \<Rightarrow> string" where
  "SloVerdict_to_string x =
     (case x of
        SloVerdict.UNKNOWN \<Rightarrow> ''UNKNOWN''
      | SloVerdict.FEASIBLE \<Rightarrow> ''FEASIBLE''
      | SloVerdict.INFEASIBLE \<Rightarrow> ''INFEASIBLE'')"

abbreviation (input) kUnspecified :: u32 where
  "kUnspecified \<equiv> kU32Max"

record SloEvidence =
  sl_slo_id :: entity_id
  sl_generation :: generation
  sl_verdict :: SloVerdict
  sl_latency_target_micros :: u32
  sl_tail_latency_target_micros :: u32
  sl_deadline_micros :: u32
  sl_availability_class :: u32
  sl_throughput_class :: u32
  sl_quality_floor :: u32
  sl_observed_at :: unix_millis
  sl_expires_at :: unix_millis
  sl_source :: string

definition SloEvidence_default :: SloEvidence where
  "SloEvidence_default =
     \<lparr>sl_slo_id = 0, sl_generation = 0, sl_verdict = SloVerdict.UNKNOWN,
      sl_latency_target_micros = kUnspecified, sl_tail_latency_target_micros = kUnspecified,
      sl_deadline_micros = kUnspecified, sl_availability_class = 0, sl_throughput_class = 0,
      sl_quality_floor = 0, sl_observed_at = 0, sl_expires_at = kNoExpiry, sl_source = []\<rparr>"

definition SloEvidence_expired :: "SloEvidence \<Rightarrow> unix_millis \<Rightarrow> bool" where
  "SloEvidence_expired e now = expired_at (sl_expires_at e) now"

definition SloEvidence_current :: "SloEvidence \<Rightarrow> unix_millis \<Rightarrow> bool" where
  "SloEvidence_current e now \<longleftrightarrow>
     valid_id (sl_generation e) \<and> sl_verdict e \<noteq> SloVerdict.UNKNOWN \<and> \<not> SloEvidence_expired e now"

datatype CompatibilityVerdict = UNKNOWN | COMPATIBLE | INCOMPATIBLE

definition CompatibilityVerdict_to_string :: "CompatibilityVerdict \<Rightarrow> string" where
  "CompatibilityVerdict_to_string x =
     (case x of
        CompatibilityVerdict.UNKNOWN \<Rightarrow> ''UNKNOWN''
      | CompatibilityVerdict.COMPATIBLE \<Rightarrow> ''COMPATIBLE''
      | CompatibilityVerdict.INCOMPATIBLE \<Rightarrow> ''INCOMPATIBLE'')"

record CompatibilityEvidence =
  cm_profile_id :: entity_id
  cm_generation :: generation
  cm_backend_id :: entity_id
  cm_verdict :: CompatibilityVerdict
  cm_protocol :: string
  cm_protocol_version :: u32
  cm_structured_output :: bool
  cm_tool_calling :: bool
  cm_streaming :: bool
  cm_max_context_tokens :: u32
  cm_observed_at :: unix_millis
  cm_expires_at :: unix_millis
  cm_source :: string

definition CompatibilityEvidence_default :: CompatibilityEvidence where
  "CompatibilityEvidence_default =
     \<lparr>cm_profile_id = 0, cm_generation = 0, cm_backend_id = 0,
      cm_verdict = CompatibilityVerdict.UNKNOWN, cm_protocol = [], cm_protocol_version = 0,
      cm_structured_output = False, cm_tool_calling = False, cm_streaming = False,
      cm_max_context_tokens = 0, cm_observed_at = 0, cm_expires_at = kNoExpiry, cm_source = []\<rparr>"

definition CompatibilityEvidence_current :: "CompatibilityEvidence \<Rightarrow> unix_millis \<Rightarrow> bool" where
  "CompatibilityEvidence_current e now \<longleftrightarrow>
     valid_id (cm_generation e) \<and> cm_verdict e = COMPATIBLE \<and> \<not> expired_at (cm_expires_at e) now"

type_synonym QualityClass = u32

abbreviation (input) kUnclassifiedQuality :: QualityClass where
  "kUnclassifiedQuality \<equiv> 0"

section \<open>Policy snapshots\<close>

datatype FallbackPolicy = FORBIDDEN | EXPLICIT_ONLY | PERMITTED

definition FallbackPolicy_to_string :: "FallbackPolicy \<Rightarrow> string" where
  "FallbackPolicy_to_string x =
     (case x of
        FallbackPolicy.FORBIDDEN \<Rightarrow> ''FORBIDDEN''
      | FallbackPolicy.EXPLICIT_ONLY \<Rightarrow> ''EXPLICIT_ONLY''
      | FallbackPolicy.PERMITTED \<Rightarrow> ''PERMITTED'')"

record PolicySnapshot =
  ps_policy_id :: entity_id
  ps_generation :: generation
  ps_allowed_models :: "entity_id list"
  ps_denied_models :: "entity_id list"
  ps_allowed_providers :: "entity_id list"
  ps_denied_providers :: "entity_id list"
  ps_allowed_backends :: "entity_id list"
  ps_denied_backends :: "entity_id list"
  ps_preferred_model_families :: "entity_id list"
  ps_denied_model_families :: "entity_id list"
  ps_allowed_localities :: "LocalityKey list"
  ps_denied_localities :: "LocalityKey list"
  ps_bound_tenants :: "entity_id list"
  ps_minimum_trust :: TrustDomain
  ps_minimum_capability_evidence :: CapabilityState
  ps_quality_floor :: QualityClass
  ps_maximum_request_cost :: Money
  ps_maximum_latency_micros :: u32
  ps_local_only :: bool
  ps_deny_public_remote :: bool
  ps_allow_unlisted_models :: bool
  ps_allow_unlisted_providers :: bool
  ps_allow_unlisted_backends :: bool
  ps_fallback_policy :: FallbackPolicy
  ps_fallback_permitted_outcomes :: "OutcomeCode list"
  ps_max_fallback_depth :: u32
  ps_max_provider_concentration_ppm :: u32
  ps_observed_at :: unix_millis
  ps_expires_at :: unix_millis

definition PolicySnapshot_default :: PolicySnapshot where
  "PolicySnapshot_default =
     \<lparr>ps_policy_id = 0, ps_generation = 0, ps_allowed_models = [], ps_denied_models = [],
      ps_allowed_providers = [], ps_denied_providers = [], ps_allowed_backends = [],
      ps_denied_backends = [], ps_preferred_model_families = [], ps_denied_model_families = [],
      ps_allowed_localities = [], ps_denied_localities = [], ps_bound_tenants = [],
      ps_minimum_trust = TrustDomain.UNKNOWN,
      ps_minimum_capability_evidence = CapabilityState.UNKNOWN,
      ps_quality_floor = kUnclassifiedQuality, ps_maximum_request_cost = Money_default,
      ps_maximum_latency_micros = kUnspecified, ps_local_only = False,
      ps_deny_public_remote = False, ps_allow_unlisted_models = True,
      ps_allow_unlisted_providers = True, ps_allow_unlisted_backends = True,
      ps_fallback_policy = EXPLICIT_ONLY, ps_fallback_permitted_outcomes = [],
      ps_max_fallback_depth = 1, ps_max_provider_concentration_ppm = 0,
      ps_observed_at = 0, ps_expires_at = kNoExpiry\<rparr>"

definition PolicySnapshot_current :: "PolicySnapshot \<Rightarrow> unix_millis \<Rightarrow> bool" where
  "PolicySnapshot_current p now \<longleftrightarrow> valid_id (ps_generation p) \<and> \<not> expired_at (ps_expires_at p) now"

definition PolicySnapshot_canonicalize :: "PolicySnapshot \<Rightarrow> PolicySnapshot" where
  "PolicySnapshot_canonicalize p =
     p\<lparr>ps_allowed_models := sort_ids (ps_allowed_models p),
       ps_denied_models := sort_ids (ps_denied_models p),
       ps_allowed_providers := sort_ids (ps_allowed_providers p),
       ps_denied_providers := sort_ids (ps_denied_providers p),
       ps_allowed_backends := sort_ids (ps_allowed_backends p),
       ps_denied_backends := sort_ids (ps_denied_backends p),
       ps_preferred_model_families := sort_ids (ps_preferred_model_families p),
       ps_denied_model_families := sort_ids (ps_denied_model_families p),
       ps_bound_tenants := sort_ids (ps_bound_tenants p),
       ps_allowed_localities := sort_ids (ps_allowed_localities p),
       ps_denied_localities := sort_ids (ps_denied_localities p),
       ps_fallback_permitted_outcomes := sort_ids (ps_fallback_permitted_outcomes p)\<rparr>"

definition PolicySnapshot_validate :: "PolicySnapshot \<Rightarrow> string" where
  "PolicySnapshot_validate p =
     (if \<not> valid_id (ps_generation p) then ''policy generation is not valid''
      else if ps_minimum_trust p \<noteq> TrustDomain.UNKNOWN \<and> trust_rank (ps_minimum_trust p) = 0
        then ''policy minimum trust domain is not a known domain''
      else if mo_micros (ps_maximum_request_cost p) < 0
        then ''policy maximum request cost is negative''
      else if mo_micros (ps_maximum_request_cost p) > 0 \<and>
              \<not> CostUnit_valid (mo_unit (ps_maximum_request_cost p))
        then ''policy maximum request cost has no unit identity''
      else if \<not> list_all valid_id (ps_allowed_models p)
        then ''policy allowlist contains the invalid model identity''
      else if \<not> list_all valid_id (ps_denied_models p)
        then ''policy denylist contains the invalid model identity''
      else if ps_max_provider_concentration_ppm p > 10000
        then ''policy max provider concentration exceeds 10000 parts per 10000''
      else if ps_fallback_policy p = FORBIDDEN \<and> ps_max_fallback_depth p \<noteq> 0
        then ''policy forbids fallback but permits a nonzero fallback depth''
      else [])"

section \<open>Locality keys\<close>

lemma validate_locality_loop_iff:
  "validate_locality_loop previous s = [] \<longleftrightarrow>
     (\<forall>ch \<in> set s. is_locality_character ch) \<and>
     no_empty_segment (if previous then separator # s else s)"
proof (induction previous s rule: validate_locality_loop.induct)
  case (2 previous ch rest)
  then show ?case by (cases rest) auto
qed auto

lemma LocalityKey_validate_iff:
  "LocalityKey_validate s = [] \<longleftrightarrow> s \<noteq> [] \<and> length s \<le> 128 \<and> hd s \<noteq> separator \<and> last s \<noteq> separator \<and>
     (\<forall>ch \<in> set s. is_locality_character ch) \<and> no_empty_segment s"
  by (auto simp: LocalityKey_validate_def validate_locality_loop_iff)

section \<open>Canonical policies\<close>

definition policy_canonical :: "PolicySnapshot \<Rightarrow> bool" where
  "policy_canonical p \<longleftrightarrow>
     strictly_ascending (ps_allowed_models p) \<and> strictly_ascending (ps_denied_models p) \<and>
     strictly_ascending (ps_allowed_providers p) \<and> strictly_ascending (ps_denied_providers p) \<and>
     strictly_ascending (ps_allowed_backends p) \<and> strictly_ascending (ps_denied_backends p) \<and>
     strictly_ascending (ps_preferred_model_families p) \<and>
     strictly_ascending (ps_denied_model_families p) \<and>
     strictly_ascending (ps_allowed_localities p) \<and> strictly_ascending (ps_denied_localities p) \<and>
     strictly_ascending (ps_bound_tenants p) \<and>
     strictly_ascending (ps_fallback_permitted_outcomes p)"

lemma policy_canonicalize_canonical [simp]: "policy_canonical (PolicySnapshot_canonicalize p)"
  by (simp add: policy_canonical_def PolicySnapshot_canonicalize_def)

lemma policy_canonicalize_idem [simp]:
  "PolicySnapshot_canonicalize (PolicySnapshot_canonicalize p) = PolicySnapshot_canonicalize p"
  by (simp add: PolicySnapshot_canonicalize_def sort_ids_idem)

end
