(* ===== verification/Sha256.thy ===== *)
theory Sha256
  imports Prelude
begin

text \<open>
  The SHA-256 digest of \<open>src/detail/sha256.cpp\<close>, with the words and bytes at their widths.

  \<open>Sha256\<close> is a streaming hasher: \<open>update\<close> buffers up to 63 bytes and compresses full
  blocks.  The buffer array together with \<open>buffer_size_\<close> is the list of the bytes it holds.
  The lemmas show that splitting the input over several calls of \<open>update\<close> does not matter and
  that \<open>finish\<close> computes the compression of the padded message.
\<close>

definition kRoundConstants :: "u32 list" where
  "kRoundConstants = concat
     [[0x428a2f98, 0x71374491, 0xb5c0fbcf, 0xe9b5dba5],
      [0x3956c25b, 0x59f111f1, 0x923f82a4, 0xab1c5ed5],
      [0xd807aa98, 0x12835b01, 0x243185be, 0x550c7dc3],
      [0x72be5d74, 0x80deb1fe, 0x9bdc06a7, 0xc19bf174],
      [0xe49b69c1, 0xefbe4786, 0x0fc19dc6, 0x240ca1cc],
      [0x2de92c6f, 0x4a7484aa, 0x5cb0a9dc, 0x76f988da],
      [0x983e5152, 0xa831c66d, 0xb00327c8, 0xbf597fc7],
      [0xc6e00bf3, 0xd5a79147, 0x06ca6351, 0x14292967],
      [0x27b70a85, 0x2e1b2138, 0x4d2c6dfc, 0x53380d13],
      [0x650a7354, 0x766a0abb, 0x81c2c92e, 0x92722c85],
      [0xa2bfe8a1, 0xa81a664b, 0xc24b8b70, 0xc76c51a3],
      [0xd192e819, 0xd6990624, 0xf40e3585, 0x106aa070],
      [0x19a4c116, 0x1e376c08, 0x2748774c, 0x34b0bcb5],
      [0x391c0cb3, 0x4ed8aa4a, 0x5b9cca4f, 0x682e6ff3],
      [0x748f82ee, 0x78a5636f, 0x84c87814, 0x8cc70208],
      [0x90befffa, 0xa4506ceb, 0xbef9a3f7, 0xc67178f2]]"

definition rotr :: "u32 \<Rightarrow> nat \<Rightarrow> u32" where
  "rotr value bits = (drop_bit bits value) OR (push_bit (32 - bits) value)"

record Sha256 =
  sh_state :: "u32 list"
  sh_total_bytes :: u64
  sh_buffer :: "u8 list"

definition Sha256_init :: Sha256 where
  "Sha256_init =
     \<lparr>sh_state = [0x6a09e667, 0xbb67ae85, 0x3c6ef372, 0xa54ff53a,
                  0x510e527f, 0x9b05688c, 0x1f83d9ab, 0x5be0cd19],
      sh_total_bytes = 0, sh_buffer = []\<rparr>"

definition block_word :: "u8 list \<Rightarrow> nat \<Rightarrow> u32" where
  "block_word block index =
     (let base = index * 4 in
      push_bit 24 (ucast (block ! base)) OR push_bit 16 (ucast (block ! (base + 1))) OR
      push_bit 8 (ucast (block ! (base + 2))) OR ucast (block ! (base + 3)))"

definition schedule_step :: "nat \<Rightarrow> u32 list \<Rightarrow> u32 list" where
  "schedule_step index schedule =
     (let s0 = rotr (schedule ! (index - 15)) 7 XOR rotr (schedule ! (index - 15)) 18 XOR
               drop_bit 3 (schedule ! (index - 15));
          s1 = rotr (schedule ! (index - 2)) 17 XOR rotr (schedule ! (index - 2)) 19 XOR
               drop_bit 10 (schedule ! (index - 2))
      in schedule @ [schedule ! (index - 16) + s0 + schedule ! (index - 7) + s1])"

definition message_schedule :: "u8 list \<Rightarrow> u32 list" where
  "message_schedule block = fold schedule_step [16..<64] (map (block_word block) [0..<16])"

type_synonym working_vars = "u32 \<times> u32 \<times> u32 \<times> u32 \<times> u32 \<times> u32 \<times> u32 \<times> u32"

fun sha_round :: "u32 list \<Rightarrow> nat \<Rightarrow> working_vars \<Rightarrow> working_vars" where
  "sha_round schedule index (a, b, c, d, e, f, g, h) =
     (let s1 = rotr e 6 XOR rotr e 11 XOR rotr e 25;
          ch = (e AND f) XOR (NOT e AND g);
          temp1 = h + s1 + ch + kRoundConstants ! index + schedule ! index;
          s0 = rotr a 2 XOR rotr a 13 XOR rotr a 22;
          maj = (a AND b) XOR (a AND c) XOR (b AND c);
          temp2 = s0 + maj
      in (temp1 + temp2, a, b, c, d + temp1, e, f, g))"

definition transform :: "u32 list \<Rightarrow> u8 list \<Rightarrow> u32 list" where
  "transform state block =
     (let (a, b, c, d, e, f, g, h) =
            fold (sha_round (message_schedule block)) [0..<64]
              (state ! 0, state ! 1, state ! 2, state ! 3, state ! 4, state ! 5, state ! 6, state ! 7)
      in [state ! 0 + a, state ! 1 + b, state ! 2 + c, state ! 3 + d,
          state ! 4 + e, state ! 5 + f, state ! 6 + g, state ! 7 + h])"

text \<open>The \<open>while (offset + 64 <= size)\<close> loop, on the bytes from \<open>offset\<close> on.\<close>

function absorb_blocks :: "u32 list \<Rightarrow> u8 list \<Rightarrow> u32 list \<times> u8 list" where
  "absorb_blocks state bytes =
     (if 64 \<le> length bytes then absorb_blocks (transform state (take 64 bytes)) (drop 64 bytes)
      else (state, bytes))"
  by pat_completeness auto
termination
  by (relation "measure (\<lambda>(state, bytes). length bytes)") auto

declare absorb_blocks.simps [simp del]

definition Sha256_update :: "Sha256 \<Rightarrow> u8 list \<Rightarrow> Sha256" where
  "Sha256_update s bytes =
     (if bytes = [] then s
      else
        let size = length bytes;
            s = s\<lparr>sh_total_bytes := sh_total_bytes s + of_nat size\<rparr>;
            (s, offset) =
              (if sh_buffer s \<noteq> [] then
                 let needed = 64 - length (sh_buffer s);
                     taken = (if size < needed then size else needed);
                     filled = sh_buffer s @ take taken bytes
                 in if length filled = 64
                    then (s\<lparr>sh_state := transform (sh_state s) filled, sh_buffer := []\<rparr>, taken)
                    else (s\<lparr>sh_buffer := filled\<rparr>, taken)
               else (s, 0));
            (state, rest) = absorb_blocks (sh_state s) (drop offset bytes);
            s = s\<lparr>sh_state := state\<rparr>
        in if rest \<noteq> [] then s\<lparr>sh_buffer := rest\<rparr> else s)"

definition big_endian_64 :: "u64 \<Rightarrow> u8 list" where
  "big_endian_64 v = map (\<lambda>index. ucast (drop_bit ((7 - index) * 8) v)) [0..<8]"

definition big_endian_32 :: "u32 \<Rightarrow> u8 list" where
  "big_endian_32 v = [ucast (drop_bit 24 v), ucast (drop_bit 16 v), ucast (drop_bit 8 v), ucast v]"

definition Sha256_finish :: "Sha256 \<Rightarrow> u8 list" where
  "Sha256_finish s =
     (let bit_length = sh_total_bytes s * 8;
          buffered = length (sh_buffer s);
          pad_length = (if buffered < 56 then 56 - buffered else 120 - buffered);
          s = Sha256_update s (take pad_length (0x80 # replicate 71 0));
          s = Sha256_update s (big_endian_64 bit_length)
      in concat (map (\<lambda>index. big_endian_32 (sh_state s ! index)) [0..<8]))"

definition sha256 :: "string \<Rightarrow> u8 list" where
  "sha256 text = Sha256_finish (Sha256_update Sha256_init (map (\<lambda>ch. of_char ch) text))"

definition byte_hex :: "u8 \<Rightarrow> string" where
  "byte_hex b =
     [''0123456789abcdef'' ! unat (drop_bit 4 b), ''0123456789abcdef'' ! unat (b AND 0x0F)]"

definition to_hex :: "u8 list \<Rightarrow> string" where
  "to_hex digest = concat (map byte_hex digest)"

section \<open>Streaming\<close>

lemma absorb_short: "length bytes < 64 \<Longrightarrow> absorb_blocks st bytes = (st, bytes)"
  by (simp add: absorb_blocks.simps)

lemma absorb_full: "64 \<le> length bytes \<Longrightarrow>
    absorb_blocks st bytes = absorb_blocks (transform st (take 64 bytes)) (drop 64 bytes)"
  by (subst absorb_blocks.simps) simp

lemma absorb_rest_short: "length (snd (absorb_blocks st bytes)) < 64"
  by (induction st bytes rule: absorb_blocks.induct) (simp add: absorb_blocks.simps)

lemma absorb_rest_mod: "length (snd (absorb_blocks st bytes)) = length bytes mod 64"
proof (induction st bytes rule: absorb_blocks.induct)
  case (1 st bytes)
  show ?case
  proof (cases "64 \<le> length bytes")
    case True
    with 1 show ?thesis by (simp add: absorb_full le_mod_geq)
  qed (simp add: absorb_short)
qed

lemma absorb_append:
  "absorb_blocks st (a @ b) =
     (let (st', rest) = absorb_blocks st a in absorb_blocks st' (rest @ b))"
proof (induction st a rule: absorb_blocks.induct)
  case (1 st a)
  show ?case
  proof (cases "64 \<le> length a")
    case True
    then have "absorb_blocks st (a @ b) =
        absorb_blocks (transform st (take 64 a)) (drop 64 a @ b)"
      by (subst absorb_full) simp_all
    with 1 [OF True] True show ?thesis by (simp add: absorb_full)
  qed (simp add: absorb_short)
qed

text \<open>The hasher after absorbing a message: its state is determined by the message alone.\<close>

definition absorbed :: "u8 list \<Rightarrow> Sha256" where
  "absorbed m =
     \<lparr>sh_state = fst (absorb_blocks (sh_state Sha256_init) m),
      sh_total_bytes = of_nat (length m),
      sh_buffer = snd (absorb_blocks (sh_state Sha256_init) m)\<rparr>"

lemma absorbed_Nil: "absorbed [] = Sha256_init"
  by (simp add: absorbed_def absorb_short Sha256_init_def)

lemma update_shape:
  assumes short: "length (sh_buffer s) < 64"
  shows "Sha256_update s bytes =
    (let r = absorb_blocks (sh_state s) (sh_buffer s @ bytes)
     in s\<lparr>sh_state := fst r, sh_total_bytes := sh_total_bytes s + of_nat (length bytes), sh_buffer := snd r\<rparr>)"
proof (cases "bytes = []")
  case True
  then show ?thesis using short by (cases s) (simp add: Sha256_update_def absorb_short)
next
  case nonempty: False
  show ?thesis
  proof (cases "sh_buffer s = []")
    case True
    then show ?thesis using nonempty
      by (cases s) (simp add: Sha256_update_def Let_def case_prod_beta)
  next
    case False
    show ?thesis
    proof (cases "length bytes < 64 - length (sh_buffer s)")
      case True
      then show ?thesis using nonempty False short
        by (cases s) (simp add: Sha256_update_def Let_def absorb_short)
    next
      case big: False
      let ?n = "64 - length (sh_buffer s)"
      have "absorb_blocks (sh_state s) (sh_buffer s @ bytes) =
          absorb_blocks (transform (sh_state s) (sh_buffer s @ take ?n bytes)) (drop ?n bytes)"
        using big short by (subst absorb_full) simp_all
      then show ?thesis using nonempty False big short
        by (cases s) (simp add: Sha256_update_def Let_def case_prod_beta min_def)
    qed
  qed
qed

lemma update_absorbed: "Sha256_update (absorbed m) bytes = absorbed (m @ bytes)"
proof -
  have "length (sh_buffer (absorbed m)) < 64" by (simp add: absorbed_def absorb_rest_short)
  then show ?thesis
    by (simp add: update_shape Let_def) (simp add: absorbed_def absorb_append [of _ m bytes] case_prod_beta)
qed

text \<open>The padding of FIPS 180-4: a one bit, zeros up to 56 modulo 64 bytes, the bit length.\<close>

definition sha_padding :: "nat \<Rightarrow> u8 list" where
  "sha_padding n =
     0x80 # replicate ((55 + 64 - n mod 64) mod 64) 0 @ big_endian_64 (of_nat n * 8)"

lemma pad_zero_count: "b < 64 \<Longrightarrow> (119 - b) mod 64 = (if b < 56 then 55 - b else 119 - b :: nat)"
proof (cases "b < 56")
  case True
  then have "119 - b = 64 + (55 - b)" by simp
  with True show ?thesis by (simp only: mod_add_self1) simp
qed simp

lemma length_sha_padding: "(n + length (sha_padding n)) mod 64 = 0"
proof -
  have len: "length (sha_padding n) = 9 + (119 - n mod 64) mod 64"
    by (simp add: sha_padding_def big_endian_64_def)
  have "n mod 64 < 64" by simp
  from pad_zero_count [OF this] have "n mod 64 + length (sha_padding n) \<in> {64, 128}"
    unfolding len by (auto split: if_splits)
  then have "(n mod 64 + length (sha_padding n)) mod 64 = 0" by auto
  then show ?thesis by (simp add: mod_add_left_eq)
qed

lemma pad_prefix:
  assumes "b < 64"
  shows "take (if b < 56 then 56 - b else 120 - b) (0x80 # replicate 71 0) =
    (0x80 :: u8) # replicate ((55 + 64 - b) mod 64) 0"
proof (cases "b < 56")
  case True
  then have "(55 + 64 - b) mod 64 = 55 - b" using pad_zero_count [OF assms] by simp
  with True show ?thesis by (simp add: take_Cons' min_def)
next
  case False
  then have "(55 + 64 - b) mod 64 = 119 - b" using pad_zero_count [OF assms] by simp
  with False assms show ?thesis by (simp add: take_Cons' min_def)
qed

lemma length_transform: "length (transform st block) = 8"
  by (simp only: transform_def Let_def case_prod_beta list.size)

lemma absorb_blocks_length: "length st = 8 \<Longrightarrow> length (fst (absorb_blocks st bytes)) = 8"
proof (induction st bytes rule: absorb_blocks.induct)
  case (1 st bytes)
  show ?case
  proof (cases "64 \<le> length bytes")
    case True
    have "length (fst (absorb_blocks (transform st (take 64 bytes)) (drop 64 bytes))) = 8"
      by (rule "1.IH" [OF True length_transform])
    then show ?thesis by (simp only: absorb_full [OF True])
  qed (use "1.prems" in \<open>simp add: absorb_short\<close>)
qed

text \<open>
  The digest of a text is the compression of its padded bytes, whole blocks only: the streaming
  hasher with its partial buffer computes what the standard defines on the padded message,
  and splitting the input into several \<open>update\<close> calls gives the same digest.
\<close>

theorem sha256_of_padded_message:
  "Sha256_finish (Sha256_update (Sha256_update Sha256_init a) b) =
     (let m = a @ b; (st, rest) = absorb_blocks (sh_state Sha256_init) (m @ sha_padding (length m))
      in if rest = [] then concat (map big_endian_32 st) else [])"
proof -
  let ?m = "a @ b"
  let ?p = "0x80 # replicate ((55 + 64 - length ?m mod 64) mod 64) 0"
  have buffered: "length (sh_buffer (absorbed ?m)) = length ?m mod 64"
    by (simp add: absorbed_def absorb_rest_mod)
  have "length ?m mod 64 < 64" by simp
  note pad = pad_prefix [OF this]
  let ?st = "fst (absorb_blocks (sh_state Sha256_init) (?m @ sha_padding (length ?m)))"
  have "length ?st = 8" by (rule absorb_blocks_length) (simp add: Sha256_init_def)
  then have states: "map (\<lambda>index. big_endian_32 (?st ! index)) [0..<8] = map big_endian_32 ?st"
    by (simp add: list_eq_iff_nth_eq)
  have rest: "snd (absorb_blocks (sh_state Sha256_init) (?m @ sha_padding (length ?m))) = []"
    using absorb_rest_mod [of "sh_state Sha256_init" "?m @ sha_padding (length ?m)"]
      length_sha_padding [of "length ?m"] by (simp add: add.assoc)
  have "Sha256_finish (absorbed ?m) = concat (map (\<lambda>index. big_endian_32 (?st ! index)) [0..<8])"
    unfolding Sha256_finish_def Let_def buffered pad update_absorbed
    by (simp add: absorbed_def sha_padding_def)
  then show ?thesis
    unfolding absorbed_Nil [symmetric] update_absorbed
    using states rest by (simp add: case_prod_beta absorbed_Nil Let_def)
qed

end
