(* ===== verification/Catalog.thy ===== *)
theory Catalog
  imports Evidence
begin

text \<open>
  Model, backend, endpoint and provider descriptors: \<open>include/model_router/catalog.hpp\<close> and
  \<open>src/catalog.cpp\<close>.  A backend keeps its model bindings sorted by model identity, which
  \<open>BackendDescriptor_validate\<close> checks and \<open>find_binding\<close> relies on.
\<close>

datatype Provenance = REAL | SYNTHETIC | UNSUPPORTED

definition Provenance_to_string :: "Provenance \<Rightarrow> string" where
  "Provenance_to_string x =
     (case x of
        Provenance.REAL \<Rightarrow> ''REAL''
      | Provenance.SYNTHETIC \<Rightarrow> ''SYNTHETIC''
      | Provenance.UNSUPPORTED \<Rightarrow> ''UNSUPPORTED'')"

datatype Modality = NONE | TEXT | IMAGE | AUDIO | VIDEO | EMBEDDING

definition Modality_to_string :: "Modality \<Rightarrow> string" where
  "Modality_to_string x =
     (case x of
        Modality.NONE \<Rightarrow> ''NONE''
      | Modality.TEXT \<Rightarrow> ''TEXT''
      | Modality.IMAGE \<Rightarrow> ''IMAGE''
      | Modality.AUDIO \<Rightarrow> ''AUDIO''
      | Modality.VIDEO \<Rightarrow> ''VIDEO''
      | Modality.EMBEDDING \<Rightarrow> ''EMBEDDING'')"

definition modality_bits :: "Modality \<Rightarrow> u32" where
  "modality_bits m =
     (case m of NONE \<Rightarrow> 0 | TEXT \<Rightarrow> 1 | IMAGE \<Rightarrow> 2 | AUDIO \<Rightarrow> 4 | VIDEO \<Rightarrow> 8 | EMBEDDING \<Rightarrow> 16)"

text \<open>A \<open>ModalitySet\<close> is its bit mask.\<close>

type_synonym ModalitySet = u32

definition modality_contains :: "ModalitySet \<Rightarrow> Modality \<Rightarrow> bool" where
  "modality_contains s m \<longleftrightarrow> s AND modality_bits m \<noteq> 0"

definition modality_empty :: "ModalitySet \<Rightarrow> bool" where
  "modality_empty s \<longleftrightarrow> s = 0"

definition modality_add :: "ModalitySet \<Rightarrow> Modality \<Rightarrow> ModalitySet" where
  "modality_add s m = s OR modality_bits m"

definition modality_remove :: "ModalitySet \<Rightarrow> Modality \<Rightarrow> ModalitySet" where
  "modality_remove s m = s AND NOT (modality_bits m)"

definition modality_covers :: "ModalitySet \<Rightarrow> ModalitySet \<Rightarrow> bool" where
  "modality_covers s other \<longleftrightarrow> s AND other = other"

datatype ModelLifecycle = UNKNOWN | CURRENT | DEPRECATED | RETIRED

definition ModelLifecycle_to_string :: "ModelLifecycle \<Rightarrow> string" where
  "ModelLifecycle_to_string x =
     (case x of
        ModelLifecycle.UNKNOWN \<Rightarrow> ''UNKNOWN''
      | ModelLifecycle.CURRENT \<Rightarrow> ''CURRENT''
      | ModelLifecycle.DEPRECATED \<Rightarrow> ''DEPRECATED''
      | ModelLifecycle.RETIRED \<Rightarrow> ''RETIRED'')"

section \<open>Models\<close>

record ModelDescriptor =
  md_model_id :: entity_id
  md_model_generation :: generation
  md_model_version_id :: entity_id
  md_artifact_generation :: generation
  md_family_id :: entity_id
  md_context_limit_tokens :: u32
  md_max_output_tokens :: u32
  md_input_modalities :: ModalitySet
  md_output_modalities :: ModalitySet
  md_quality_class :: QualityClass
  md_lifecycle :: ModelLifecycle
  md_capability_profile_id :: entity_id
  md_capability_generation :: generation
  md_capabilities :: CapabilityProfile
  md_provenance :: Provenance
  md_registered_at :: unix_millis
  md_expires_at :: unix_millis
  md_display_name :: string

definition ModelDescriptor_retired :: "ModelDescriptor \<Rightarrow> bool" where
  "ModelDescriptor_retired m \<longleftrightarrow> md_lifecycle m = ModelLifecycle.RETIRED"

definition ModelDescriptor_current :: "ModelDescriptor \<Rightarrow> unix_millis \<Rightarrow> bool" where
  "ModelDescriptor_current m now \<longleftrightarrow>
     valid_id (md_model_generation m) \<and> valid_id (md_artifact_generation m) \<and>
     md_lifecycle m = ModelLifecycle.CURRENT \<and> \<not> expired_at (md_expires_at m) now"

definition ModelDescriptor_validate :: "ModelDescriptor \<Rightarrow> string" where
  "ModelDescriptor_validate m =
     (if \<not> valid_id (md_model_id m) then ''model identity is not valid''
      else if \<not> valid_id (md_model_generation m) then ''model generation is not valid''
      else if \<not> valid_id (md_artifact_generation m) then ''artifact generation is not valid''
      else if md_context_limit_tokens m = 0 then ''model context limit is zero''
      else if md_max_output_tokens m > md_context_limit_tokens m
        then ''model max output tokens exceed the context limit''
      else if modality_empty (md_input_modalities m) then ''model declares no input modality''
      else if modality_empty (md_output_modalities m) then ''model declares no output modality''
      else if valid_id (md_capability_profile_id m) \<noteq> valid_id (md_capability_generation m)
        then ''model capability profile identity and generation disagree''
      else [])"

section \<open>Backends\<close>

record ModelBinding =
  mb_model_id :: entity_id
  mb_model_generation :: generation
  mb_artifact_generation :: generation
  mb_context_limit_tokens :: u32
  mb_quality_class :: QualityClass
  mb_cost :: CostEvidence
  mb_bound_at :: unix_millis

record EndpointDescriptor =
  ed_endpoint_id :: entity_id
  ed_endpoint_generation :: generation
  ed_backend_id :: entity_id
  ed_backend_boot :: generation
  ed_reference :: string
  ed_protocol :: string
  ed_protocol_version :: u32

definition EndpointDescriptor_validate :: "EndpointDescriptor \<Rightarrow> string" where
  "EndpointDescriptor_validate e =
     (if \<not> valid_id (ed_endpoint_id e) then ''endpoint identity is not valid''
      else if \<not> valid_id (ed_endpoint_generation e) then ''endpoint generation is not valid''
      else if \<not> valid_id (ed_backend_id e) then ''endpoint backend identity is not valid''
      else if \<not> valid_id (ed_backend_boot e) then ''endpoint backend boot identity is not valid''
      else if ed_reference e = [] then ''endpoint reference is empty''
      else [])"

record BackendDescriptor =
  bd_backend_id :: entity_id
  bd_backend_generation :: generation
  bd_backend_boot :: generation
  bd_backend_registration_generation :: generation
  bd_provider_id :: entity_id
  bd_provider_generation :: generation
  bd_endpoint :: EndpointDescriptor
  bd_trust_profile_id :: entity_id
  bd_trust_generation :: generation
  bd_trust_domain :: TrustDomain
  bd_locality :: LocalityKey
  bd_network_distance :: u32
  bd_capability_profile_id :: entity_id
  bd_capability_generation :: generation
  bd_capabilities :: CapabilityProfile
  bd_compatibility_profile_id :: entity_id
  bd_compatibility_generation :: generation
  bd_model_bindings :: "ModelBinding list"
  bd_health :: HealthEvidence
  bd_availability :: AvailabilityEvidence
  bd_readiness :: ReadinessEvidence
  bd_residency :: ResidencyEvidence
  bd_capacity :: CapacityEvidence
  bd_capacity_detail :: CapacityDetail
  bd_latency :: LatencyEvidence
  bd_reliability_ppm :: u32
  bd_offline_capable :: bool
  bd_provenance :: Provenance
  bd_registered_at :: unix_millis
  bd_expires_at :: unix_millis

definition BackendDescriptor_retired :: "BackendDescriptor \<Rightarrow> bool" where
  "BackendDescriptor_retired b \<longleftrightarrow> be_state (bd_health b) = HealthState.RETIRED"

definition BackendDescriptor_draining :: "BackendDescriptor \<Rightarrow> bool" where
  "BackendDescriptor_draining b \<longleftrightarrow> be_state (bd_health b) = DRAINING"

definition find_binding :: "BackendDescriptor \<Rightarrow> entity_id \<Rightarrow> ModelBinding option" where
  "find_binding b model_id = find_by_key mb_model_id model_id (bd_model_bindings b)"

definition BackendDescriptor_canonicalize :: "BackendDescriptor \<Rightarrow> BackendDescriptor" where
  "BackendDescriptor_canonicalize b =
     b\<lparr>bd_model_bindings := sort_unique_by mb_model_id (bd_model_bindings b)\<rparr>"

text \<open>The loop over the bindings; the first argument is \<open>previous\<close> once \<open>first\<close> is false.\<close>

fun validate_bindings :: "entity_id option \<Rightarrow> ModelBinding list \<Rightarrow> string" where
  "validate_bindings previous [] = []"
| "validate_bindings previous (binding # rest) =
     (if \<not> valid_id (mb_model_id binding)
        then ''backend model binding has an invalid model identity''
      else if \<not> valid_id (mb_model_generation binding)
        then ''backend model binding has an invalid model generation''
      else if \<not> valid_id (mb_artifact_generation binding)
        then ''backend model binding has an invalid artifact generation''
      else if (case previous of None \<Rightarrow> False | Some p \<Rightarrow> \<not> p < mb_model_id binding)
        then ''backend model bindings are not in canonical order or contain duplicates''
      else validate_bindings (Some (mb_model_id binding)) rest)"

definition BackendDescriptor_validate :: "BackendDescriptor \<Rightarrow> string" where
  "BackendDescriptor_validate b =
     (if \<not> valid_id (bd_backend_id b) then ''backend identity is not valid''
      else if \<not> valid_id (bd_backend_generation b) then ''backend generation is not valid''
      else if \<not> valid_id (bd_backend_boot b) then ''backend boot identity is not valid''
      else if \<not> valid_id (bd_backend_registration_generation b)
        then ''backend registration generation is not valid''
      else if \<not> valid_id (bd_provider_id b) then ''backend provider identity is not valid''
      else if \<not> valid_id (bd_provider_generation b) then ''backend provider generation is not valid''
      else if EndpointDescriptor_validate (bd_endpoint b) \<noteq> []
        then EndpointDescriptor_validate (bd_endpoint b)
      else if ed_backend_id (bd_endpoint b) \<noteq> bd_backend_id b
        then ''backend endpoint belongs to a different backend identity''
      else if ed_backend_boot (bd_endpoint b) \<noteq> bd_backend_boot b
        then ''backend endpoint belongs to a different backend incarnation''
      else if valid_id (bd_capability_generation b) \<and> \<not> valid_id (bd_capability_profile_id b)
        then ''backend capability generation exists without a profile identity''
      else if valid_id (bd_compatibility_generation b) \<and> \<not> valid_id (bd_compatibility_profile_id b)
        then ''backend compatibility generation exists without a profile identity''
      else if bd_model_bindings b = [] then ''backend declares no model binding''
      else validate_bindings None (bd_model_bindings b))"

record ProviderDescriptor =
  pd_provider_id :: entity_id
  pd_generation :: generation
  pd_display_name :: string
  pd_default_trust_domain :: TrustDomain
  pd_third_party :: bool

section \<open>Bindings as a finite map\<close>

definition bindings_ok :: "BackendDescriptor \<Rightarrow> bool" where
  "bindings_ok b \<longleftrightarrow> strictly_ascending (map mb_model_id (bd_model_bindings b))"

lemma bindings_ok_canonicalize [simp]: "bindings_ok (BackendDescriptor_canonicalize b)"
  by (simp add: bindings_ok_def BackendDescriptor_canonicalize_def sort_unique_by_ascending)

lemma validate_bindings_iff:
  "validate_bindings previous bs = [] \<longleftrightarrow>
     (\<forall>b \<in> set bs. valid_id (mb_model_id b) \<and> valid_id (mb_model_generation b) \<and>
        valid_id (mb_artifact_generation b)) \<and>
     strictly_ascending (case previous of None \<Rightarrow> map mb_model_id bs | Some p \<Rightarrow> p # map mb_model_id bs)"
proof (induction previous bs rule: validate_bindings.induct)
  case (2 previous binding rest)
  then show ?case by (cases previous) auto
qed (auto split: option.splits)

lemma EndpointDescriptor_validate_iff:
  "EndpointDescriptor_validate e = [] \<longleftrightarrow>
     valid_id (ed_endpoint_id e) \<and> valid_id (ed_endpoint_generation e) \<and> valid_id (ed_backend_id e) \<and>
     valid_id (ed_backend_boot e) \<and> ed_reference e \<noteq> []"
  by (simp add: EndpointDescriptor_validate_def)

lemma BackendDescriptor_validate_iff:
  "BackendDescriptor_validate b = [] \<longleftrightarrow>
     valid_id (bd_backend_id b) \<and> valid_id (bd_backend_generation b) \<and> valid_id (bd_backend_boot b) \<and>
     valid_id (bd_backend_registration_generation b) \<and> valid_id (bd_provider_id b) \<and>
     valid_id (bd_provider_generation b) \<and> EndpointDescriptor_validate (bd_endpoint b) = [] \<and>
     ed_backend_id (bd_endpoint b) = bd_backend_id b \<and> ed_backend_boot (bd_endpoint b) = bd_backend_boot b \<and>
     (valid_id (bd_capability_generation b) \<longrightarrow> valid_id (bd_capability_profile_id b)) \<and>
     (valid_id (bd_compatibility_generation b) \<longrightarrow> valid_id (bd_compatibility_profile_id b)) \<and>
     bd_model_bindings b \<noteq> [] \<and>
     (\<forall>m \<in> set (bd_model_bindings b). valid_id (mb_model_id m) \<and> valid_id (mb_model_generation m) \<and>
        valid_id (mb_artifact_generation m)) \<and>
     bindings_ok b"
  by (simp add: BackendDescriptor_validate_def validate_bindings_iff bindings_ok_def)

lemma find_binding_iff:
  assumes "bindings_ok b"
  shows "find_binding b i = Some m \<longleftrightarrow> m \<in> set (bd_model_bindings b) \<and> mb_model_id m = i"
proof -
  have s: "sorted (map mb_model_id (bd_model_bindings b))"
    and d: "distinct (map mb_model_id (bd_model_bindings b))"
    using assms strictly_ascending_sorted strictly_ascending_distinct
    unfolding bindings_ok_def by blast+
  have "find_binding b i = Some m \<Longrightarrow> m \<in> set (bd_model_bindings b) \<and> mb_model_id m = i" for m
    using find_by_key_Some [OF s] by (simp add: find_binding_def)
  moreover have "m \<in> set (bd_model_bindings b) \<Longrightarrow> mb_model_id m = i \<Longrightarrow> find_binding b i \<noteq> None" for m
    using find_by_key_None_iff [OF s, of i] by (auto simp: find_binding_def)
  ultimately show ?thesis
    using d by (metis distinct_map inj_onD option.exhaust)
qed

lemma find_binding_id: "bindings_ok b \<Longrightarrow> find_binding b i = Some m \<Longrightarrow> mb_model_id m = i"
  by (simp add: find_binding_iff)

lemma modality_covers_bits:
  "modality_covers s other \<longleftrightarrow> (\<forall>n. bit other n \<longrightarrow> bit s n)"
proof
  assume "modality_covers s other"
  then have "bit (s AND other) n = bit other n" for n by (simp add: modality_covers_def)
  then show "\<forall>n. bit other n \<longrightarrow> bit s n" unfolding bit_and_iff by blast
next
  assume "\<forall>n. bit other n \<longrightarrow> bit s n"
  then show "modality_covers s other"
    unfolding modality_covers_def by (intro bit_eqI) (auto simp: bit_and_iff)
qed

end
