(* ===== verification/Request.thy ===== *)
theory Request
  imports Catalog Limits Sha256
begin

text \<open>
  Route requests and normalised requirements: \<open>include/model_router/request.hpp\<close> and
  \<open>src/request.cpp\<close>, with the failure classification used by fallback governance.
\<close>

section \<open>Requirements\<close>

record RetryReroutePolicy =
  rp_allow_retry :: bool
  rp_allow_reroute :: bool
  rp_allow_model_switch :: bool
  rp_allow_provider_switch :: bool
  rp_max_attempts :: u32
  rp_max_fallbacks :: u32

definition RetryReroutePolicy_default :: RetryReroutePolicy where
  "RetryReroutePolicy_default =
     \<lparr>rp_allow_retry = True, rp_allow_reroute = True, rp_allow_model_switch = True,
      rp_allow_provider_switch = True, rp_max_attempts = 2, rp_max_fallbacks = 2\<rparr>"

record Stickiness =
  st_prefer_same_model_family :: bool
  st_prefer_same_provider :: bool
  st_prefer_same_backend :: bool
  st_prefer_context_locality :: bool
  st_sticky_family :: entity_id
  st_sticky_provider :: entity_id
  st_sticky_backend :: entity_id

definition Stickiness_default :: Stickiness where
  "Stickiness_default =
     \<lparr>st_prefer_same_model_family = False, st_prefer_same_provider = False,
      st_prefer_same_backend = False, st_prefer_context_locality = False,
      st_sticky_family = 0, st_sticky_provider = 0, st_sticky_backend = 0\<rparr>"

record RouteRequirements =
  rr_required_capabilities :: "CapabilityRequirement list"
  rr_preferred_capabilities :: "CapabilityKey list"
  rr_minimum_capability_evidence :: CapabilityState
  rr_min_context_tokens :: u32
  rr_max_output_tokens :: u32
  rr_required_input_modalities :: ModalitySet
  rr_required_output_modalities :: ModalitySet
  rr_require_structured_output :: bool
  rr_require_json_schema :: bool
  rr_require_tool_calling :: bool
  rr_require_streaming :: bool
  rr_require_logprobs :: bool
  rr_require_deterministic_seed :: bool
  rr_quality_floor :: QualityClass
  rr_model_allowlist :: "entity_id list"
  rr_model_denylist :: "entity_id list"
  rr_family_allowlist :: "entity_id list"
  rr_family_denylist :: "entity_id list"
  rr_provider_allowlist :: "entity_id list"
  rr_provider_denylist :: "entity_id list"
  rr_backend_allowlist :: "entity_id list"
  rr_backend_denylist :: "entity_id list"
  rr_local_only :: bool
  rr_offline_only :: bool
  rr_remote_allowed :: bool
  rr_required_localities :: "LocalityKey list"
  rr_denied_localities :: "LocalityKey list"
  rr_minimum_trust :: TrustDomain
  rr_require_known_cost :: bool
  rr_enforce_cost_ceiling :: bool
  rr_maximum_cost :: Money
  rr_max_latency_micros :: u32
  rr_deadline_micros :: u32
  rr_require_slo :: bool
  rr_require_available :: bool
  rr_require_healthy :: bool
  rr_require_ready :: bool
  rr_require_resident :: bool
  rr_require_capacity :: bool
  rr_require_reservation :: bool
  rr_require_known_latency :: bool
  rr_require_known_compatibility :: bool
  rr_required_protocol :: string
  rr_required_protocol_version :: u32
  rr_affinity_model :: entity_id
  rr_affinity_provider :: entity_id
  rr_affinity_backend :: entity_id
  rr_stickiness :: Stickiness
  rr_allow_fallbacks :: bool
  rr_fallback_policy :: FallbackPolicy
  rr_retry_policy :: RetryReroutePolicy

definition RouteRequirements_default :: RouteRequirements where
  "RouteRequirements_default =
     \<lparr>rr_required_capabilities = [],
      rr_preferred_capabilities = [],
      rr_minimum_capability_evidence = DECLARED,
      rr_min_context_tokens = 0,
      rr_max_output_tokens = 0,
      rr_required_input_modalities = 0,
      rr_required_output_modalities = 0,
      rr_require_structured_output = False,
      rr_require_json_schema = False,
      rr_require_tool_calling = False,
      rr_require_streaming = False,
      rr_require_logprobs = False,
      rr_require_deterministic_seed = False,
      rr_quality_floor = kUnclassifiedQuality,
      rr_model_allowlist = [],
      rr_model_denylist = [],
      rr_family_allowlist = [],
      rr_family_denylist = [],
      rr_provider_allowlist = [],
      rr_provider_denylist = [],
      rr_backend_allowlist = [],
      rr_backend_denylist = [],
      rr_local_only = False,
      rr_offline_only = False,
      rr_remote_allowed = True,
      rr_required_localities = [],
      rr_denied_localities = [],
      rr_minimum_trust = TrustDomain.UNKNOWN,
      rr_require_known_cost = False,
      rr_enforce_cost_ceiling = False,
      rr_maximum_cost = Money_default,
      rr_max_latency_micros = kUnspecified,
      rr_deadline_micros = kUnspecified,
      rr_require_slo = False,
      rr_require_available = True,
      rr_require_healthy = True,
      rr_require_ready = True,
      rr_require_resident = False,
      rr_require_capacity = False,
      rr_require_reservation = False,
      rr_require_known_latency = False,
      rr_require_known_compatibility = False,
      rr_required_protocol = [],
      rr_required_protocol_version = 0,
      rr_affinity_model = 0,
      rr_affinity_provider = 0,
      rr_affinity_backend = 0,
      rr_stickiness = Stickiness_default,
      rr_allow_fallbacks = True,
      rr_fallback_policy = EXPLICIT_ONLY,
      rr_retry_policy = RetryReroutePolicy_default\<rparr>"

definition check_id_list :: "entity_id list \<Rightarrow> string \<Rightarrow> string" where
  "check_id_list ids name =
     (if list_all valid_id ids then [] else name @ '' contains the invalid identity'')"

fun validate_required_capabilities :: "CapabilityRequirement list \<Rightarrow> string" where
  "validate_required_capabilities [] = []"
| "validate_required_capabilities (requirement # rest) =
     (let key_error = CapabilityKey_validate (cr_key requirement) in
      if key_error \<noteq> [] then ''required capability: '' @ key_error
      else if cr_minimum_state requirement = CapabilityState.UNKNOWN
        then ''required capability '' @ cr_key requirement @
             '' declares UNKNOWN as its minimum evidence state''
      else if \<not> is_satisfying (cr_minimum_state requirement)
        then ''required capability '' @ cr_key requirement @
             '' declares a non-satisfying minimum evidence state''
      else validate_required_capabilities rest)"

text \<open>A loop that returns the first element's error behind a label.\<close>

fun validate_each :: "('a \<Rightarrow> string) \<Rightarrow> string \<Rightarrow> 'a list \<Rightarrow> string" where
  "validate_each check label [] = []"
| "validate_each check label (x # xs) =
     (if check x \<noteq> [] then label @ check x else validate_each check label xs)"

definition exceeds :: "'a list \<Rightarrow> u32 \<Rightarrow> bool" where
  "exceeds xs limit \<longleftrightarrow> length xs > unat limit"

definition validate_sizes :: "RouteRequirements \<Rightarrow> ResourceLimits \<Rightarrow> string" where
  "validate_sizes r limits =
     (if exceeds (rr_required_capabilities r) (max_requirement_entries limits)
        then ''required capability count exceeds the configured limit''
      else if exceeds (rr_preferred_capabilities r) (max_requirement_entries limits)
        then ''preferred capability count exceeds the configured limit''
      else if exceeds (rr_model_allowlist r) (max_allowlist_entries limits) \<or>
              exceeds (rr_model_denylist r) (max_allowlist_entries limits) \<or>
              exceeds (rr_provider_allowlist r) (max_allowlist_entries limits) \<or>
              exceeds (rr_provider_denylist r) (max_allowlist_entries limits) \<or>
              exceeds (rr_backend_allowlist r) (max_allowlist_entries limits) \<or>
              exceeds (rr_backend_denylist r) (max_allowlist_entries limits)
        then ''identity allowlist or denylist exceeds the configured limit''
      else if exceeds (rr_required_localities r) (max_allowlist_entries limits) \<or>
              exceeds (rr_denied_localities r) (max_allowlist_entries limits)
        then ''locality list exceeds the configured limit''
      else [])"

definition validate_shape :: "RouteRequirements \<Rightarrow> ResourceLimits \<Rightarrow> string" where
  "validate_shape r limits =
     (if rr_minimum_capability_evidence r = CapabilityState.UNKNOWN \<or>
         \<not> is_satisfying (rr_minimum_capability_evidence r)
        then ''minimum capability evidence state is not a satisfying state''
      else if rr_max_output_tokens r > 0 \<and> rr_min_context_tokens r > 0 \<and>
              rr_max_output_tokens r > rr_min_context_tokens r
        then ''max output tokens exceed the minimum context length''
      else if modality_empty (rr_required_input_modalities r) \<and>
              modality_empty (rr_required_output_modalities r) \<and> rr_required_capabilities r = []
        then ''request declares no input, output, or capability requirement''
      else if \<not> rr_remote_allowed r \<and> \<not> rr_local_only r \<and> \<not> rr_offline_only r
        then ''request forbids remote placement without permitting local placement''
      else if rr_local_only r \<and> rr_denied_localities r \<noteq> []
        then ''request is local-only but also denies specific localities''
      else if rr_enforce_cost_ceiling r \<and> mo_micros (rr_maximum_cost r) \<le> 0
        then ''cost ceiling is enforced but no positive ceiling is set''
      else if rr_enforce_cost_ceiling r \<and> \<not> CostUnit_valid (mo_unit (rr_maximum_cost r))
        then ''cost ceiling has no unit identity''
      else if rr_minimum_trust r \<noteq> TrustDomain.UNKNOWN \<and> trust_rank (rr_minimum_trust r) = 0
        then ''minimum trust domain is not a known domain''
      else if rp_max_fallbacks (rr_retry_policy r) > max_fallback_candidates limits
        then ''requested fallback count exceeds the configured limit''
      else if \<not> rr_allow_fallbacks r \<and> rp_max_fallbacks (rr_retry_policy r) \<noteq> 0
        then ''fallbacks are disabled but a nonzero fallback count is requested''
      else [])"

text \<open>The first error of a list of checks made one after the other.\<close>

fun first_error :: "string list \<Rightarrow> string" where
  "first_error [] = []"
| "first_error (e # es) = (if e \<noteq> [] then e else first_error es)"

definition RouteRequirements_validate :: "RouteRequirements \<Rightarrow> ResourceLimits \<Rightarrow> string" where
  "RouteRequirements_validate r limits = first_error
     [validate_sizes r limits,
      validate_required_capabilities (rr_required_capabilities r),
      validate_each CapabilityKey_validate ''preferred capability: '' (rr_preferred_capabilities r),
      validate_shape r limits,
      check_id_list (rr_model_allowlist r) ''model allowlist'',
      check_id_list (rr_model_denylist r) ''model denylist'',
      check_id_list (rr_provider_allowlist r) ''provider allowlist'',
      check_id_list (rr_provider_denylist r) ''provider denylist'',
      check_id_list (rr_backend_allowlist r) ''backend allowlist'',
      check_id_list (rr_backend_denylist r) ''backend denylist'',
      validate_each LocalityKey_validate ''required locality: '' (rr_required_localities r),
      validate_each LocalityKey_validate ''denied locality: '' (rr_denied_localities r)]"

definition RouteRequirements_canonicalize :: "RouteRequirements \<Rightarrow> RouteRequirements" where
  "RouteRequirements_canonicalize r =
     r\<lparr>rr_required_capabilities := sort_unique_by cr_key (rr_required_capabilities r),
       rr_preferred_capabilities := sort_ids (rr_preferred_capabilities r),
       rr_model_allowlist := sort_ids (rr_model_allowlist r),
       rr_model_denylist := sort_ids (rr_model_denylist r),
       rr_family_allowlist := sort_ids (rr_family_allowlist r),
       rr_family_denylist := sort_ids (rr_family_denylist r),
       rr_provider_allowlist := sort_ids (rr_provider_allowlist r),
       rr_provider_denylist := sort_ids (rr_provider_denylist r),
       rr_backend_allowlist := sort_ids (rr_backend_allowlist r),
       rr_backend_denylist := sort_ids (rr_backend_denylist r),
       rr_required_localities := sort_ids (rr_required_localities r),
       rr_denied_localities := sort_ids (rr_denied_localities r)\<rparr>"

definition comma_terminated :: "string list \<Rightarrow> string" where
  "comma_terminated xs = concat (map (\<lambda>x. x @ '','') xs)"

definition id_list :: "entity_id list \<Rightarrow> string" where
  "id_list ids = comma_terminated (map dec_u64 ids)"

definition capability_list :: "CapabilityRequirement list \<Rightarrow> string" where
  "capability_list rs =
     comma_terminated (map (\<lambda>r. cr_key r @ ''@'' @ CapabilityState_to_string (cr_minimum_state r)) rs)"

definition requirements_canonical_text :: "RouteRequirements \<Rightarrow> string" where
  "requirements_canonical_text r = concat
     [''cap='', capability_list (rr_required_capabilities r),
      '';pref='', comma_terminated (rr_preferred_capabilities r),
      '';minstate='', CapabilityState_to_string (rr_minimum_capability_evidence r),
      '';ctx='', dec_u32 (rr_min_context_tokens r), '';out='', dec_u32 (rr_max_output_tokens r),
      '';inmod='', dec_u32 (rr_required_input_modalities r),
      '';outmod='', dec_u32 (rr_required_output_modalities r),
      '';flags='', dec_bool (rr_require_structured_output r), dec_bool (rr_require_json_schema r),
      dec_bool (rr_require_tool_calling r), dec_bool (rr_require_streaming r),
      dec_bool (rr_require_logprobs r), dec_bool (rr_require_deterministic_seed r),
      '';quality='', dec_u32 (rr_quality_floor r),
      '';ma='', id_list (rr_model_allowlist r), '';md='', id_list (rr_model_denylist r),
      '';fa='', id_list (rr_family_allowlist r), '';fd='', id_list (rr_family_denylist r),
      '';pa='', id_list (rr_provider_allowlist r), '';pd='', id_list (rr_provider_denylist r),
      '';ba='', id_list (rr_backend_allowlist r), '';bd='', id_list (rr_backend_denylist r),
      '';place='', dec_bool (rr_local_only r), dec_bool (rr_offline_only r),
      dec_bool (rr_remote_allowed r),
      '';loc='', comma_terminated (rr_required_localities r),
      '';denyloc='', comma_terminated (rr_denied_localities r),
      '';trust='', TrustDomain_to_string (rr_minimum_trust r),
      '';cost='', dec_bool (rr_require_known_cost r), dec_bool (rr_enforce_cost_ceiling r),
      cu_currency (mo_unit (rr_maximum_cost r)), ''/'', cu_basis (mo_unit (rr_maximum_cost r)), ''/'',
      dec_int (mo_micros (rr_maximum_cost r)),
      '';lat='', dec_u32 (rr_max_latency_micros r), '';deadline='', dec_u32 (rr_deadline_micros r),
      '';slo='', dec_bool (rr_require_slo r),
      '';live='', dec_bool (rr_require_available r), dec_bool (rr_require_healthy r),
      dec_bool (rr_require_ready r), dec_bool (rr_require_resident r),
      dec_bool (rr_require_capacity r), dec_bool (rr_require_reservation r),
      dec_bool (rr_require_known_latency r), dec_bool (rr_require_known_compatibility r),
      '';proto='', rr_required_protocol r, ''/'', dec_u32 (rr_required_protocol_version r),
      '';aff='', dec_u64 (rr_affinity_model r), ''/'', dec_u64 (rr_affinity_provider r), ''/'',
      dec_u64 (rr_affinity_backend r),
      '';stick='', dec_bool (st_prefer_same_model_family (rr_stickiness r)),
      dec_bool (st_prefer_same_provider (rr_stickiness r)),
      dec_bool (st_prefer_same_backend (rr_stickiness r)),
      dec_bool (st_prefer_context_locality (rr_stickiness r)),
      dec_u64 (st_sticky_family (rr_stickiness r)), ''/'',
      dec_u64 (st_sticky_provider (rr_stickiness r)), ''/'',
      dec_u64 (st_sticky_backend (rr_stickiness r)),
      '';fb='', dec_bool (rr_allow_fallbacks r), FallbackPolicy_to_string (rr_fallback_policy r),
      dec_bool (rp_allow_retry (rr_retry_policy r)), dec_bool (rp_allow_reroute (rr_retry_policy r)),
      dec_bool (rp_allow_model_switch (rr_retry_policy r)),
      dec_bool (rp_allow_provider_switch (rr_retry_policy r)),
      dec_u32 (rp_max_attempts (rr_retry_policy r)), dec_u32 (rp_max_fallbacks (rr_retry_policy r))]"

definition RouteRequirements_digest :: "RouteRequirements \<Rightarrow> string" where
  "RouteRequirements_digest r = to_hex (sha256 (requirements_canonical_text r))"

section \<open>Requests\<close>

record CallerAuthority =
  ca_agent_runtime_id :: u64
  ca_agent_run_id :: u64
  ca_action_id :: u64
  ca_action_generation :: u64
  ca_attempt_generation :: u64
  ca_work_id :: u64
  ca_work_generation :: u64

definition CallerAuthority_default :: CallerAuthority where
  "CallerAuthority_default =
     \<lparr>ca_agent_runtime_id = 0, ca_agent_run_id = 0, ca_action_id = 0, ca_action_generation = 0,
      ca_attempt_generation = 0, ca_work_id = 0, ca_work_generation = 0\<rparr>"

record RouteRequest =
  rq_request_id :: entity_id
  rq_request_generation :: generation
  rq_requirements :: RouteRequirements
  rq_caller :: CallerAuthority
  rq_tenant :: entity_id
  rq_name_space :: entity_id
  rq_policy_id :: entity_id
  rq_policy_generation :: generation
  rq_budget_id :: entity_id
  rq_budget_generation :: generation
  rq_slo_id :: entity_id
  rq_slo_generation :: generation
  rq_correlation_id :: entity_id
  rq_estimated_input_tokens :: u32
  rq_estimated_output_tokens :: u32
  rq_created_at :: unix_millis
  rq_expires_at :: unix_millis

definition RouteRequest_expired :: "RouteRequest \<Rightarrow> unix_millis \<Rightarrow> bool" where
  "RouteRequest_expired r now = expired_at (rq_expires_at r) now"

definition RouteRequest_validate :: "RouteRequest \<Rightarrow> ResourceLimits \<Rightarrow> string" where
  "RouteRequest_validate r limits =
     (if \<not> valid_id (rq_request_id r) then ''route request identity is not valid''
      else if \<not> valid_id (rq_request_generation r) then ''route request generation is not valid''
      else if \<not> valid_id (rq_policy_id r) \<or> \<not> valid_id (rq_policy_generation r)
        then ''route request has no valid policy identity and generation''
      else if valid_id (rq_budget_id r) \<noteq> valid_id (rq_budget_generation r)
        then ''route request budget identity and generation disagree''
      else if valid_id (rq_slo_id r) \<noteq> valid_id (rq_slo_generation r)
        then ''route request SLO identity and generation disagree''
      else if \<not> valid_id (rq_tenant r) then ''route request has no valid tenant identity''
      else if rr_require_slo (rq_requirements r) \<and>
              (\<not> valid_id (rq_slo_id r) \<or> \<not> valid_id (rq_slo_generation r))
        then ''SLO is required but no valid SLO identity and generation are set''
      else if rq_expires_at r \<noteq> kNoExpiry \<and> rq_expires_at r < rq_created_at r
        then ''route request expires before it was created''
      else RouteRequirements_validate (rq_requirements r) limits)"

definition request_canonical_text :: "RouteRequest \<Rightarrow> string" where
  "request_canonical_text r = concat
     [dec_u64 (rq_request_id r), ''/'', dec_u64 (rq_request_generation r), ''|'',
      dec_u64 (rq_tenant r), ''/'', dec_u64 (rq_name_space r), ''|'',
      dec_u64 (rq_policy_id r), ''/'', dec_u64 (rq_policy_generation r), ''|'',
      dec_u64 (rq_budget_id r), ''/'', dec_u64 (rq_budget_generation r), ''|'',
      dec_u64 (rq_slo_id r), ''/'', dec_u64 (rq_slo_generation r), ''|'',
      dec_u64 (ca_agent_runtime_id (rq_caller r)), ''/'', dec_u64 (ca_agent_run_id (rq_caller r)), ''/'',
      dec_u64 (ca_action_id (rq_caller r)), ''/'', dec_u64 (ca_action_generation (rq_caller r)), ''/'',
      dec_u64 (ca_attempt_generation (rq_caller r)), ''|'',
      dec_u32 (rq_estimated_input_tokens r), ''/'', dec_u32 (rq_estimated_output_tokens r), ''|'',
      RouteRequirements_digest (rq_requirements r)]"

definition RouteRequest_digest :: "RouteRequest \<Rightarrow> string" where
  "RouteRequest_digest r = to_hex (sha256 (request_canonical_text r))"

section \<open>Failure classes\<close>

datatype FailureClass = TRANSIENT_BACKEND_FAILURE | BACKEND_UNAVAILABLE | BACKEND_RESTARTED | MODEL_UNAVAILABLE | STALE_ROUTE | POLICY_CHANGED | BUDGET_CHANGED | PRICE_CHANGED | SLO_CHANGED | CAPACITY_CHANGED | COMPATIBILITY_CHANGED | PERMANENT_REJECTION | CALLER_CANCELLED | UNKNOWN

definition FailureClass_to_string :: "FailureClass \<Rightarrow> string" where
  "FailureClass_to_string x =
     (case x of
        FailureClass.TRANSIENT_BACKEND_FAILURE \<Rightarrow> ''TRANSIENT_BACKEND_FAILURE''
      | FailureClass.BACKEND_UNAVAILABLE \<Rightarrow> ''BACKEND_UNAVAILABLE''
      | FailureClass.BACKEND_RESTARTED \<Rightarrow> ''BACKEND_RESTARTED''
      | FailureClass.MODEL_UNAVAILABLE \<Rightarrow> ''MODEL_UNAVAILABLE''
      | FailureClass.STALE_ROUTE \<Rightarrow> ''STALE_ROUTE''
      | FailureClass.POLICY_CHANGED \<Rightarrow> ''POLICY_CHANGED''
      | FailureClass.BUDGET_CHANGED \<Rightarrow> ''BUDGET_CHANGED''
      | FailureClass.PRICE_CHANGED \<Rightarrow> ''PRICE_CHANGED''
      | FailureClass.SLO_CHANGED \<Rightarrow> ''SLO_CHANGED''
      | FailureClass.CAPACITY_CHANGED \<Rightarrow> ''CAPACITY_CHANGED''
      | FailureClass.COMPATIBILITY_CHANGED \<Rightarrow> ''COMPATIBILITY_CHANGED''
      | FailureClass.PERMANENT_REJECTION \<Rightarrow> ''PERMANENT_REJECTION''
      | FailureClass.CALLER_CANCELLED \<Rightarrow> ''CALLER_CANCELLED''
      | FailureClass.UNKNOWN \<Rightarrow> ''UNKNOWN'')"

definition classify_failure :: "OutcomeCode \<Rightarrow> FailureClass" where
  "classify_failure code =
     (if code \<in> {REJECT_UNAVAILABLE, REJECT_UNHEALTHY, REJECT_NOT_READY} then BACKEND_UNAVAILABLE
      else if code = REJECT_STALE_BACKEND_BOOT then BACKEND_RESTARTED
      else if code \<in> {REJECT_RETIRED, REJECT_STALE_MODEL, REJECT_STALE_ARTIFACT}
        then MODEL_UNAVAILABLE
      else if code \<in> {REJECT_STALE_ROUTER_EPOCH, REJECT_STALE_COORDINATOR_EPOCH,
                      REJECT_STALE_REQUEST, REVALIDATION_REQUIRED, REJECT_STALE_BACKEND,
                      REJECT_STALE_ENDPOINT} then STALE_ROUTE
      else if code \<in> {REJECT_POLICY, REJECT_STALE_POLICY, REJECT_TRUST, REJECT_STALE_TRUST}
        then POLICY_CHANGED
      else if code \<in> {REJECT_BUDGET, REJECT_STALE_BUDGET} then BUDGET_CHANGED
      else if code \<in> {REJECT_COST, REJECT_COST_UNKNOWN, REJECT_STALE_PRICE} then PRICE_CHANGED
      else if code \<in> {REJECT_SLO, REJECT_STALE_SLO} then SLO_CHANGED
      else if code \<in> {REJECT_CAPACITY, REJECT_STALE_CAPACITY} then CAPACITY_CHANGED
      else if code \<in> {REJECT_COMPATIBILITY, REJECT_STALE_COMPATIBILITY}
        then COMPATIBILITY_CHANGED
      else if code = CANCELLED then CALLER_CANCELLED
      else if code \<in> {REJECT_CAPABILITY, REJECT_STALE_CAPABILITY, REJECT_CONTEXT_LIMIT,
                      REJECT_MODALITY, REJECT_QUALITY, REJECT_INVALID, REJECT_CONFLICT,
                      REJECT_LOCALITY, REJECT_RESIDENCY, REJECT_SPOOFED}
        then PERMANENT_REJECTION
      else if code \<in> {REJECT_STALE_HEALTH, REJECT_STALE_AVAILABILITY, REJECT_STALE_READINESS,
                      REJECT_STALE_RESIDENCY} then TRANSIENT_BACKEND_FAILURE
      else FailureClass.UNKNOWN)"

definition is_permanent :: "FailureClass \<Rightarrow> bool" where
  "is_permanent failure \<longleftrightarrow>
     failure = PERMANENT_REJECTION \<or> failure = CALLER_CANCELLED \<or> failure = MODEL_UNAVAILABLE"

section \<open>Lemmas\<close>

lemma first_error_Nil_iff: "first_error es = [] \<longleftrightarrow> (\<forall>e \<in> set es. e = [])"
  by (induction es) auto

lemma validate_each_Nil_iff: "validate_each check label xs = [] \<longleftrightarrow> (\<forall>x \<in> set xs. check x = [])"
  by (induction xs) auto

lemma check_id_list_Nil_iff: "check_id_list ids name = [] \<longleftrightarrow> (\<forall>i \<in> set ids. valid_id i)"
  by (simp add: check_id_list_def list_all_iff)

lemma validate_required_capabilities_Nil_iff:
  "validate_required_capabilities rs = [] \<longleftrightarrow>
     (\<forall>r \<in> set rs. canonical_key (cr_key r) \<and> is_satisfying (cr_minimum_state r))"
proof (induction rs)
  case (Cons r rs)
  then show ?case
    by (cases "cr_minimum_state r")
       (auto simp: Let_def CapabilityKey_validate_iff [symmetric] is_satisfying_def)
qed simp

definition requirements_canonical :: "RouteRequirements \<Rightarrow> bool" where
  "requirements_canonical r \<longleftrightarrow>
     strictly_ascending (map cr_key (rr_required_capabilities r)) \<and>
     strictly_ascending (rr_preferred_capabilities r) \<and>
     strictly_ascending (rr_model_allowlist r) \<and> strictly_ascending (rr_model_denylist r) \<and>
     strictly_ascending (rr_family_allowlist r) \<and> strictly_ascending (rr_family_denylist r) \<and>
     strictly_ascending (rr_provider_allowlist r) \<and> strictly_ascending (rr_provider_denylist r) \<and>
     strictly_ascending (rr_backend_allowlist r) \<and> strictly_ascending (rr_backend_denylist r) \<and>
     strictly_ascending (rr_required_localities r) \<and> strictly_ascending (rr_denied_localities r)"

lemma requirements_canonicalize_canonical [simp]:
  "requirements_canonical (RouteRequirements_canonicalize r)"
  by (simp add: requirements_canonical_def RouteRequirements_canonicalize_def
      sort_unique_by_ascending)

end
