(* ===== verification/Candidate.thy ===== *)
theory Candidate
  imports Request
begin

text \<open>
  Route candidates and the ranking order: \<open>include/model_router/candidate.hpp\<close> and
  \<open>src/candidate.cpp\<close>.

  \<open>candidate_ranks_before\<close> is the single definition of \<open>better\<close>.  The locale \<open>ranking_order\<close>
  states what the router relies on - a strict order that decides between any two different
  keys - and derives that sorting by it does not depend on the order of discovery; it is
  interpreted on the code's comparison.
\<close>

section \<open>Keys\<close>

datatype CandidateKey = CandidateKey
  (ck_model_id: entity_id) (ck_model_generation: generation) (ck_artifact_generation: generation)
  (ck_backend_id: entity_id) (ck_backend_generation: generation) (ck_backend_boot: generation)
  (ck_endpoint_id: entity_id) (ck_endpoint_generation: generation)

definition key_tuple ::
  "CandidateKey \<Rightarrow> u64 \<times> u64 \<times> u64 \<times> u64 \<times> u64 \<times> u64 \<times> u64 \<times> u64"
where
  "key_tuple k =
     (ck_model_id k, ck_model_generation k, ck_artifact_generation k, ck_backend_id k,
      ck_backend_generation k, ck_backend_boot k, ck_endpoint_id k, ck_endpoint_generation k)"

lemma key_tuple_inject [simp]: "key_tuple a = key_tuple b \<longleftrightarrow> a = b"
  by (cases a; cases b) (auto simp: key_tuple_def)

text \<open>The defaulted \<open>operator<=>\<close> compares the fields in declaration order.\<close>

instantiation CandidateKey :: linorder
begin

definition less_eq_CandidateKey :: "CandidateKey \<Rightarrow> CandidateKey \<Rightarrow> bool" where
  "less_eq_CandidateKey a b \<longleftrightarrow> key_tuple a \<le> key_tuple b"

definition less_CandidateKey :: "CandidateKey \<Rightarrow> CandidateKey \<Rightarrow> bool" where
  "less_CandidateKey a b \<longleftrightarrow> key_tuple a < key_tuple b"

instance
proof
  fix x y z :: CandidateKey
  show "(x < y) = (x \<le> y \<and> \<not> y \<le> x)"
    unfolding less_eq_CandidateKey_def less_CandidateKey_def by (rule less_le_not_le)
  show "x \<le> x" unfolding less_eq_CandidateKey_def by (rule order_refl)
  show "x \<le> y \<Longrightarrow> y \<le> z \<Longrightarrow> x \<le> z" unfolding less_eq_CandidateKey_def by (rule order_trans)
  show "x \<le> y \<Longrightarrow> y \<le> x \<Longrightarrow> x = y"
    unfolding less_eq_CandidateKey_def using key_tuple_inject antisym by blast
  show "x \<le> y \<or> y \<le> x" unfolding less_eq_CandidateKey_def by (rule linear)
qed

end

definition CandidateKey_complete :: "CandidateKey \<Rightarrow> bool" where
  "CandidateKey_complete k \<longleftrightarrow>
     valid_id (ck_model_id k) \<and> valid_id (ck_model_generation k) \<and>
     valid_id (ck_artifact_generation k) \<and> valid_id (ck_backend_id k) \<and>
     valid_id (ck_backend_generation k) \<and> valid_id (ck_backend_boot k) \<and>
     valid_id (ck_endpoint_id k) \<and> valid_id (ck_endpoint_generation k)"

definition CandidateKey_default :: CandidateKey where
  "CandidateKey_default = CandidateKey 0 0 0 0 0 0 0 0"

definition CandidateKey_to_string :: "CandidateKey \<Rightarrow> string" where
  "CandidateKey_to_string k = concat
     [''model='', dec_u64 (ck_model_id k), ''@'', dec_u64 (ck_model_generation k),
      ''.artifact='', dec_u64 (ck_artifact_generation k),
      '' backend='', dec_u64 (ck_backend_id k), ''@'', dec_u64 (ck_backend_generation k),
      ''.boot='', dec_u64 (ck_backend_boot k),
      '' endpoint='', dec_u64 (ck_endpoint_id k), ''@'', dec_u64 (ck_endpoint_generation k)]"

definition CandidateKey_digest :: "CandidateKey \<Rightarrow> string" where
  "CandidateKey_digest k = to_hex (sha256 (CandidateKey_to_string k))"

section \<open>Factors and weights\<close>

datatype (plugins only: code size) RankingFactor =
    CAPABILITY_FIT | PREFERRED_CAPABILITY_COVERAGE | QUALITY_CLASS | COST_TOTAL
  | LATENCY | TAIL_LATENCY | QUEUE_DELAY | WARMTH
  | RESIDENCY | LOCALITY | NETWORK_DISTANCE | PROVIDER_AVAILABILITY
  | BACKEND_HEALTH | BACKEND_READINESS | CAPACITY_HEADROOM | RESERVATION_CONFIDENCE
  | SLO_HEADROOM | CONTEXT_HEADROOM | TRUST_PREFERENCE | POLICY_PREFERENCE
  | MODEL_AFFINITY | CACHE_AFFINITY | HISTORICAL_RELIABILITY | FAILURE_DOMAIN_DIVERSITY
  | DATA_MOVEMENT_COST | BACKEND_STARTUP_COST | ROUTE_SWITCH_PENALTY | CONTINUITY_STICKINESS
  | CALLER_PREFERENCE

primrec factor_index :: "RankingFactor \<Rightarrow> nat" where
  "factor_index CAPABILITY_FIT = 0"
| "factor_index PREFERRED_CAPABILITY_COVERAGE = 1"
| "factor_index QUALITY_CLASS = 2"
| "factor_index COST_TOTAL = 3"
| "factor_index LATENCY = 4"
| "factor_index TAIL_LATENCY = 5"
| "factor_index QUEUE_DELAY = 6"
| "factor_index WARMTH = 7"
| "factor_index RESIDENCY = 8"
| "factor_index LOCALITY = 9"
| "factor_index NETWORK_DISTANCE = 10"
| "factor_index PROVIDER_AVAILABILITY = 11"
| "factor_index BACKEND_HEALTH = 12"
| "factor_index BACKEND_READINESS = 13"
| "factor_index CAPACITY_HEADROOM = 14"
| "factor_index RESERVATION_CONFIDENCE = 15"
| "factor_index SLO_HEADROOM = 16"
| "factor_index CONTEXT_HEADROOM = 17"
| "factor_index TRUST_PREFERENCE = 18"
| "factor_index POLICY_PREFERENCE = 19"
| "factor_index MODEL_AFFINITY = 20"
| "factor_index CACHE_AFFINITY = 21"
| "factor_index HISTORICAL_RELIABILITY = 22"
| "factor_index FAILURE_DOMAIN_DIVERSITY = 23"
| "factor_index DATA_MOVEMENT_COST = 24"
| "factor_index BACKEND_STARTUP_COST = 25"
| "factor_index ROUTE_SWITCH_PENALTY = 26"
| "factor_index CONTINUITY_STICKINESS = 27"
| "factor_index CALLER_PREFERENCE = 28"

definition kFactorNames :: "string list" where
  "kFactorNames =
     [''capability_fit'', ''preferred_capability_coverage'', ''quality_class'', ''cost_total'',
      ''latency'', ''tail_latency'', ''queue_delay'', ''warmth'',
      ''residency'', ''locality'', ''network_distance'', ''provider_availability'',
      ''backend_health'', ''backend_readiness'', ''capacity_headroom'', ''reservation_confidence'',
      ''slo_headroom'', ''context_headroom'', ''trust_preference'', ''policy_preference'',
      ''model_affinity'', ''cache_affinity'', ''historical_reliability'', ''failure_domain_diversity'',
      ''data_movement_cost'', ''backend_startup_cost'', ''route_switch_penalty'', ''continuity_stickiness'',
      ''caller_preference'']"

definition RankingFactor_to_string :: "RankingFactor \<Rightarrow> string" where
  "RankingFactor_to_string factor = kFactorNames ! factor_index factor"

definition canonical_factor_order :: "RankingFactor list" where
  "canonical_factor_order =
     [CAPABILITY_FIT, PREFERRED_CAPABILITY_COVERAGE, QUALITY_CLASS, COST_TOTAL,
      LATENCY, TAIL_LATENCY, QUEUE_DELAY, WARMTH,
      RESIDENCY, LOCALITY, NETWORK_DISTANCE, PROVIDER_AVAILABILITY,
      BACKEND_HEALTH, BACKEND_READINESS, CAPACITY_HEADROOM, RESERVATION_CONFIDENCE,
      SLO_HEADROOM, CONTEXT_HEADROOM, TRUST_PREFERENCE, POLICY_PREFERENCE,
      MODEL_AFFINITY, CACHE_AFFINITY, HISTORICAL_RELIABILITY, FAILURE_DOMAIN_DIVERSITY,
      DATA_MOVEMENT_COST, BACKEND_STARTUP_COST, ROUTE_SWITCH_PENALTY, CONTINUITY_STICKINESS,
      CALLER_PREFERENCE]"

abbreviation (input) kFactorScale :: int where
  "kFactorScale \<equiv> 1000000"

record FactorValue =
  fv_factor :: RankingFactor
  fv_known :: bool
  fv_normalized :: int
  fv_raw :: int
  fv_weight_ppm :: int
  fv_contribution :: int
  fv_evidence_generation :: u64
  fv_source :: string

record RankingWeights =
  capability_fit_ppm :: int
  preferred_capability_coverage_ppm :: int
  quality_class_ppm :: int
  cost_total_ppm :: int
  latency_ppm :: int
  tail_latency_ppm :: int
  queue_delay_ppm :: int
  warmth_ppm :: int
  residency_ppm :: int
  locality_ppm :: int
  network_distance_ppm :: int
  provider_availability_ppm :: int
  backend_health_ppm :: int
  backend_readiness_ppm :: int
  capacity_headroom_ppm :: int
  reservation_confidence_ppm :: int
  slo_headroom_ppm :: int
  context_headroom_ppm :: int
  trust_preference_ppm :: int
  policy_preference_ppm :: int
  model_affinity_ppm :: int
  cache_affinity_ppm :: int
  historical_reliability_ppm :: int
  failure_domain_diversity_ppm :: int
  data_movement_cost_ppm :: int
  backend_startup_cost_ppm :: int
  route_switch_penalty_ppm :: int
  continuity_stickiness_ppm :: int
  caller_preference_ppm :: int

definition RankingWeights_default :: RankingWeights where
  "RankingWeights_default =
     \<lparr>capability_fit_ppm = 300000,
      preferred_capability_coverage_ppm = 40000,
      quality_class_ppm = 120000,
      cost_total_ppm = 150000,
      latency_ppm = 80000,
      tail_latency_ppm = 40000,
      queue_delay_ppm = 30000,
      warmth_ppm = 60000,
      residency_ppm = 40000,
      locality_ppm = 40000,
      network_distance_ppm = 20000,
      provider_availability_ppm = 60000,
      backend_health_ppm = 100000,
      backend_readiness_ppm = 80000,
      capacity_headroom_ppm = 50000,
      reservation_confidence_ppm = 30000,
      slo_headroom_ppm = 70000,
      context_headroom_ppm = 20000,
      trust_preference_ppm = 60000,
      policy_preference_ppm = 60000,
      model_affinity_ppm = 50000,
      cache_affinity_ppm = 30000,
      historical_reliability_ppm = 40000,
      failure_domain_diversity_ppm = 20000,
      data_movement_cost_ppm = 20000,
      backend_startup_cost_ppm = 20000,
      route_switch_penalty_ppm = 30000,
      continuity_stickiness_ppm = 50000,
      caller_preference_ppm = 100000\<rparr>"

primrec weight :: "RankingWeights \<Rightarrow> RankingFactor \<Rightarrow> int" where
  "weight w CAPABILITY_FIT = capability_fit_ppm w"
| "weight w PREFERRED_CAPABILITY_COVERAGE = preferred_capability_coverage_ppm w"
| "weight w QUALITY_CLASS = quality_class_ppm w"
| "weight w COST_TOTAL = cost_total_ppm w"
| "weight w LATENCY = latency_ppm w"
| "weight w TAIL_LATENCY = tail_latency_ppm w"
| "weight w QUEUE_DELAY = queue_delay_ppm w"
| "weight w WARMTH = warmth_ppm w"
| "weight w RESIDENCY = residency_ppm w"
| "weight w LOCALITY = locality_ppm w"
| "weight w NETWORK_DISTANCE = network_distance_ppm w"
| "weight w PROVIDER_AVAILABILITY = provider_availability_ppm w"
| "weight w BACKEND_HEALTH = backend_health_ppm w"
| "weight w BACKEND_READINESS = backend_readiness_ppm w"
| "weight w CAPACITY_HEADROOM = capacity_headroom_ppm w"
| "weight w RESERVATION_CONFIDENCE = reservation_confidence_ppm w"
| "weight w SLO_HEADROOM = slo_headroom_ppm w"
| "weight w CONTEXT_HEADROOM = context_headroom_ppm w"
| "weight w TRUST_PREFERENCE = trust_preference_ppm w"
| "weight w POLICY_PREFERENCE = policy_preference_ppm w"
| "weight w MODEL_AFFINITY = model_affinity_ppm w"
| "weight w CACHE_AFFINITY = cache_affinity_ppm w"
| "weight w HISTORICAL_RELIABILITY = historical_reliability_ppm w"
| "weight w FAILURE_DOMAIN_DIVERSITY = failure_domain_diversity_ppm w"
| "weight w DATA_MOVEMENT_COST = data_movement_cost_ppm w"
| "weight w BACKEND_STARTUP_COST = backend_startup_cost_ppm w"
| "weight w ROUTE_SWITCH_PENALTY = route_switch_penalty_ppm w"
| "weight w CONTINUITY_STICKINESS = continuity_stickiness_ppm w"
| "weight w CALLER_PREFERENCE = caller_preference_ppm w"

definition RankingWeights_validate :: "RankingWeights \<Rightarrow> string" where
  "RankingWeights_validate w = validate_each
     (\<lambda>factor.
        if weight w factor < 0
          then ''ranking weight '' @ RankingFactor_to_string factor @ '' is negative''
        else if weight w factor > 10000000
          then ''ranking weight '' @ RankingFactor_to_string factor @
               '' exceeds 10000000 parts per 10000''
        else []) [] canonical_factor_order"

record RankingScales =
  cost_reference_micros :: int
  latency_reference_micros :: int
  tail_latency_reference_micros :: int
  queue_reference_micros :: int
  context_reference_tokens :: int
  network_distance_reference :: int
  startup_cost_reference_micros :: int
  quality_reference :: int

definition RankingScales_default :: RankingScales where
  "RankingScales_default =
     \<lparr>cost_reference_micros = 1000000,
      latency_reference_micros = 5000000,
      tail_latency_reference_micros = 20000000,
      queue_reference_micros = 1000000,
      context_reference_tokens = 1000000,
      network_distance_reference = 100000,
      startup_cost_reference_micros = 10000000,
      quality_reference = 1000\<rparr>"

definition RankingScales_validate :: "RankingScales \<Rightarrow> string" where
  "RankingScales_validate s =
     (if cost_reference_micros s \<le> 0 \<or> latency_reference_micros s \<le> 0 \<or>
         tail_latency_reference_micros s \<le> 0 \<or> queue_reference_micros s \<le> 0 \<or>
         context_reference_tokens s \<le> 0 \<or> network_distance_reference s \<le> 0 \<or>
         startup_cost_reference_micros s \<le> 0 \<or> quality_reference s \<le> 0
      then ''every ranking reference scale must be positive'' else [])"

section \<open>Candidates\<close>

record RouteCandidate =
  rc_key :: CandidateKey
  rc_model :: ModelDescriptor
  rc_backend :: BackendDescriptor
  rc_endpoint :: EndpointDescriptor
  rc_context_limit_tokens :: u32
  rc_quality_class :: QualityClass
  rc_required_capabilities_satisfied :: u32
  rc_required_capabilities_total :: u32
  rc_preferred_capabilities_satisfied :: u32
  rc_preferred_capabilities_total :: u32
  rc_discovery_source :: string

record RankedCandidate =
  rk_key :: CandidateKey
  rk_score :: int
  rk_factors :: "FactorValue list"
  rk_rank :: u32

definition fully_known :: "RankedCandidate \<Rightarrow> bool" where
  "fully_known c = list_all fv_known (rk_factors c)"

definition RankedCandidate_find :: "RankedCandidate \<Rightarrow> RankingFactor \<Rightarrow> FactorValue option" where
  "RankedCandidate_find c factor =
     find_by_key (\<lambda>v. factor_index (fv_factor v)) (factor_index factor) (rk_factors c)"

text \<open>The loop over the factor sequences; \<open>None\<close> when the common prefix does not decide.\<close>

fun compare_factors :: "FactorValue list \<Rightarrow> FactorValue list \<Rightarrow> bool option" where
  "compare_factors (left # ls) (right # rs) =
     (if fv_factor left \<noteq> fv_factor right
        then Some (factor_index (fv_factor left) < factor_index (fv_factor right))
      else if fv_contribution left \<noteq> fv_contribution right
        then Some (fv_contribution left > fv_contribution right)
      else if fv_normalized left \<noteq> fv_normalized right
        then Some (fv_normalized left > fv_normalized right)
      else if fv_known left \<noteq> fv_known right then Some (fv_known left)
      else compare_factors ls rs)"
| "compare_factors _ _ = None"

definition candidate_ranks_before :: "RankedCandidate \<Rightarrow> RankedCandidate \<Rightarrow> bool" where
  "candidate_ranks_before lhs rhs =
     (if rk_score lhs \<noteq> rk_score rhs then rk_score lhs > rk_score rhs
      else case compare_factors (rk_factors lhs) (rk_factors rhs) of
        Some verdict \<Rightarrow> verdict
      | None \<Rightarrow>
          if length (rk_factors lhs) \<noteq> length (rk_factors rhs)
            then length (rk_factors lhs) > length (rk_factors rhs)
          else rk_key lhs < rk_key rhs)"

section \<open>The interface of a ranking order\<close>

definition ranked_by :: "('a \<Rightarrow> 'a \<Rightarrow> bool) \<Rightarrow> 'a list \<Rightarrow> bool" where
  "ranked_by before = sorted_wrt (\<lambda>a b. \<not> before b a)"

locale ranking_order =
  fixes before :: "'a \<Rightarrow> 'a \<Rightarrow> bool"
    and ident :: "'a \<Rightarrow> 'k"
  assumes irrefl: "\<not> before a a"
    and trans: "before a b \<Longrightarrow> before b c \<Longrightarrow> before a c"
    and total: "ident a \<noteq> ident b \<Longrightarrow> before a b \<or> before b a"
    and weak: "before a b \<Longrightarrow> before a c \<or> before c b"
begin

lemma asym: "before a b \<Longrightarrow> \<not> before b a"
  using irrefl trans by blast

lemma not_before_trans: "\<not> before b a \<Longrightarrow> \<not> before c b \<Longrightarrow> \<not> before c a"
  using weak by blast

lemma ranked_insert: "ranked_by before xs \<Longrightarrow> ranked_by before (insert_by before x xs)"
proof (induction xs)
  case (Cons y ys)
  show ?case
  proof (cases "before y x")
    case True
    with Cons show ?thesis by (auto simp: ranked_by_def asym)
  next
    case False
    with Cons.prems show ?thesis by (auto simp: ranked_by_def dest: not_before_trans)
  qed
qed (simp add: ranked_by_def)

lemma ranked_sort: "ranked_by before (stable_sort_by before xs)"
  by (induction xs) (simp_all add: ranked_insert, simp add: ranked_by_def)

lemma ranked_strict:
  "ranked_by before xs \<Longrightarrow> distinct (map ident xs) \<Longrightarrow> sorted_wrt before xs"
proof (induction xs)
  case (Cons x xs)
  then show ?case by (auto simp: ranked_by_def) (metis image_eqI total)
qed simp

lemma strict_unique:
  "sorted_wrt before xs \<Longrightarrow> sorted_wrt before ys \<Longrightarrow> mset xs = mset ys \<Longrightarrow> xs = ys"
proof (induction xs arbitrary: ys)
  case (Cons x xs)
  then obtain y ys' where ys: "ys = y # ys'" by (cases ys) auto
  have "x = y"
  proof (rule ccontr)
    assume "x \<noteq> y"
    moreover from Cons.prems(3) ys have "x \<in> set ys" "y \<in> set (x # xs)"
      by (metis list.set_intros(1) mset_eq_setD)+
    ultimately have "x \<in> set ys'" "y \<in> set xs" using ys by auto
    with Cons.prems ys have "before y x" "before x y" by auto
    then show False using asym by blast
  qed
  with Cons ys show ?case by auto
qed simp

lemma sort_order_independent:
  assumes "distinct (map ident xs)" and "mset xs = mset ys"
  shows "stable_sort_by before xs = stable_sort_by before ys"
proof (rule strict_unique)
  have d: "distinct (map ident zs)" if "mset zs = mset xs" for zs
    using assms(1) distinct_map_mset [OF that] by blast
  show "sorted_wrt before (stable_sort_by before xs)"
    by (rule ranked_strict [OF ranked_sort]) (simp add: d)
  show "sorted_wrt before (stable_sort_by before ys)"
    by (rule ranked_strict [OF ranked_sort]) (simp add: d assms(2))
  show "mset (stable_sort_by before xs) = mset (stable_sort_by before ys)"
    using assms(2) by simp
qed

lemma hd_best:
  "xs \<noteq> [] \<Longrightarrow> x \<in> set xs \<Longrightarrow> \<not> before x (hd (stable_sort_by before xs))"
proof -
  assume "xs \<noteq> []" "x \<in> set xs"
  then obtain y ys where s: "stable_sort_by before xs = y # ys" "x \<in> set (y # ys)"
    by (metis list.exhaust list.set_intros(1) set_stable_sort_by set_empty)
  then show ?thesis using ranked_sort [of xs] irrefl by (auto simp: ranked_by_def)
qed

end

section \<open>The code's comparison is a ranking order\<close>

lemma factor_index_inject [simp]: "factor_index a = factor_index b \<longleftrightarrow> a = b"
  by (cases a; cases b; simp)

definition factor_tuple :: "FactorValue \<Rightarrow> nat \<times> nat \<times> int \<times> int \<times> bool" where
  "factor_tuple v =
     (0, factor_index (fv_factor v), - fv_contribution v, - fv_normalized v, \<not> fv_known v)"

definition factor_end :: "nat \<times> nat \<times> int \<times> int \<times> bool" where
  "factor_end = (1, 0, 0, 0, False)"

definition rank_tuple ::
  "RankedCandidate \<Rightarrow> int \<times> (nat \<times> nat \<times> int \<times> int \<times> bool) list \<times> CandidateKey" where
  "rank_tuple c = (- rk_score c, map factor_tuple (rk_factors c) @ [factor_end], rk_key c)"

lemma factor_tuple_less_end [simp]:
  "factor_tuple v < factor_end" "\<not> factor_end < factor_tuple v" "factor_tuple v \<noteq> factor_end"
  "factor_end \<noteq> factor_tuple v"
  by (simp_all add: factor_tuple_def factor_end_def)

lemma factor_tuple_less:
  "factor_tuple a < factor_tuple b \<longleftrightarrow>
     (if fv_factor a \<noteq> fv_factor b then factor_index (fv_factor a) < factor_index (fv_factor b)
      else if fv_contribution a \<noteq> fv_contribution b then fv_contribution a > fv_contribution b
      else if fv_normalized a \<noteq> fv_normalized b then fv_normalized a > fv_normalized b
      else fv_known a \<and> \<not> fv_known b)"
  by (simp only: factor_tuple_def lex_pair_less) simp

lemma factor_tuple_eq:
  "factor_tuple a = factor_tuple b \<longleftrightarrow>
     fv_factor a = fv_factor b \<and> fv_contribution a = fv_contribution b \<and>
     fv_normalized a = fv_normalized b \<and> fv_known a = fv_known b"
  by (auto simp: factor_tuple_def)

lemma compare_factors_eq:
  "map factor_tuple ls = map factor_tuple rs \<longleftrightarrow> compare_factors ls rs = None \<and> length ls = length rs"
  by (induction ls rs rule: compare_factors.induct) (auto simp: factor_tuple_eq)

lemma compare_factors_tuple:
  "map factor_tuple ls @ [factor_end] < map factor_tuple rs @ [factor_end] \<longleftrightarrow>
     (case compare_factors ls rs of Some v \<Rightarrow> v | None \<Rightarrow> length ls > length rs)"
proof (induction ls rs rule: list_induct2')
  case (4 l ls r rs)
  show ?case
  proof (cases "factor_tuple l = factor_tuple r")
    case True
    with 4 show ?thesis by (simp add: factor_tuple_eq factor_tuple_less cong: option.case_cong)
  next
    case False
    then show ?thesis by (auto simp: factor_tuple_less factor_tuple_eq)
  qed
qed simp_all

lemma ranks_before_tuple: "candidate_ranks_before a b \<longleftrightarrow> rank_tuple a < rank_tuple b"
proof -
  have "rank_tuple a < rank_tuple b \<longleftrightarrow>
      (if rk_score a \<noteq> rk_score b then rk_score a > rk_score b
       else if map factor_tuple (rk_factors a) \<noteq> map factor_tuple (rk_factors b)
         then map factor_tuple (rk_factors a) @ [factor_end] < map factor_tuple (rk_factors b) @ [factor_end]
       else rk_key a < rk_key b)"
    unfolding rank_tuple_def lex_pair_less by simp
  then show ?thesis
    unfolding candidate_ranks_before_def compare_factors_tuple compare_factors_eq
    by (simp split: option.splits)
qed

interpretation ranking: ranking_order candidate_ranks_before rk_key
proof
  fix a b c
  show "\<not> candidate_ranks_before a a" by (simp add: ranks_before_tuple)
  show "candidate_ranks_before a b \<Longrightarrow> candidate_ranks_before b c \<Longrightarrow> candidate_ranks_before a c"
    unfolding ranks_before_tuple by (rule less_trans)
  show "candidate_ranks_before a b \<or> candidate_ranks_before b a" if "rk_key a \<noteq> rk_key b"
  proof -
    have "rank_tuple a \<noteq> rank_tuple b" using that by (simp add: rank_tuple_def)
    then show ?thesis unfolding ranks_before_tuple by (rule neqE) blast+
  qed
  show "candidate_ranks_before a c \<or> candidate_ranks_before c b" if "candidate_ranks_before a b"
    using that unfolding ranks_before_tuple by (metis leI less_le_trans)
qed

lemma set_canonical_factor_order: "factor \<in> set canonical_factor_order"
  by (cases factor) (simp_all add: canonical_factor_order_def)

lemma weights_valid_bounds:
  "RankingWeights_validate w = [] \<Longrightarrow> 0 \<le> weight w factor \<and> weight w factor \<le> 10000000"
  using set_canonical_factor_order [of factor]
  by (auto simp: RankingWeights_validate_def validate_each_Nil_iff split: if_splits)

section \<open>Properties\<close>

text \<open>
  \<open>candidate_ranks_before\<close> is a strict weak order that decides between any two candidates
  with different keys.  Sorting by it is therefore well defined and independent of the
  order in which the candidates were discovered.
\<close>

theorem ranking_order_independent:
  assumes "distinct (map rk_key cs)" and "mset cs = mset ds"
  shows "stable_sort_by candidate_ranks_before cs = stable_sort_by candidate_ranks_before ds \<and>
    sorted_wrt candidate_ranks_before (stable_sort_by candidate_ranks_before cs)"
proof -
  have "distinct (map rk_key (stable_sort_by candidate_ranks_before cs))"
    using assms(1) distinct_map_mset [OF mset_stable_sort_by] by blast
  then show ?thesis
    using ranking.sort_order_independent [OF assms] ranking.ranked_strict [OF ranking.ranked_sort]
    by blast
qed

definition sample_ranked :: "entity_id \<Rightarrow> int \<Rightarrow> RankedCandidate" where
  "sample_ranked i score =
     \<lparr>rk_key = CandidateKey i 1 1 1 1 1 1 1, rk_score = score, rk_factors = [], rk_rank = 0\<rparr>"

theorem ranking_order_independent_witness:
  "stable_sort_by candidate_ranks_before [sample_ranked 1 5, sample_ranked 2 9] =
     [sample_ranked 2 9, sample_ranked 1 5] \<and>
   stable_sort_by candidate_ranks_before [sample_ranked 2 9, sample_ranked 1 5] =
     [sample_ranked 2 9, sample_ranked 1 5]"
proof -
  have "stable_sort_by candidate_ranks_before [sample_ranked 1 5, sample_ranked 2 9] =
      stable_sort_by candidate_ranks_before [sample_ranked 2 9, sample_ranked 1 5]"
    using ranking_order_independent
      [of "[sample_ranked 1 5, sample_ranked 2 9]" "[sample_ranked 2 9, sample_ranked 1 5]"]
    by (simp add: sample_ranked_def)
  moreover have "stable_sort_by candidate_ranks_before [sample_ranked 2 9, sample_ranked 1 5] =
      [sample_ranked 2 9, sample_ranked 1 5]"
    by (simp add: sample_ranked_def candidate_ranks_before_def)
  ultimately show ?thesis by simp
qed

end
