(* ===== verification/Authority.thy ===== *)
theory Authority
  imports Identity Outcome Sha256
begin

text \<open>
  Route authority: \<open>include/model_router/authority.hpp\<close> and \<open>src/authority.cpp\<close>.

  A route decision binds the generation of every fact it was derived from.
  \<open>compare_authority\<close> compares two bindings on the components of a mask; the sequence of
  \<open>if (has(c)) record(...)\<close> statements is the table \<open>compared_fields\<close>, in source order.  The
  lemmas say exactly when the comparison accepts and which code it reports otherwise.
\<close>

section \<open>Components and masks\<close>

datatype (plugins only: code size) AuthorityComponent =
    NONE
  | ROUTER_EPOCH | COORDINATOR_EPOCH | REQUEST | MODEL | ARTIFACT | PROVIDER
  | BACKEND | BACKEND_BOOT | ENDPOINT | CAPABILITY | POLICY | BUDGET
  | PRICE | SLO | COMPATIBILITY | TRUST | HEALTH | AVAILABILITY
  | READINESS | RESIDENCY | CAPACITY | RESERVATION | TENANCY | DISPATCH

primrec component_index :: "AuthorityComponent \<Rightarrow> nat" where
  "component_index NONE = 0"
| "component_index ROUTER_EPOCH = 0"
| "component_index COORDINATOR_EPOCH = 1"
| "component_index REQUEST = 2"
| "component_index MODEL = 3"
| "component_index ARTIFACT = 4"
| "component_index PROVIDER = 5"
| "component_index BACKEND = 6"
| "component_index BACKEND_BOOT = 7"
| "component_index ENDPOINT = 8"
| "component_index CAPABILITY = 9"
| "component_index POLICY = 10"
| "component_index BUDGET = 11"
| "component_index PRICE = 12"
| "component_index SLO = 13"
| "component_index COMPATIBILITY = 14"
| "component_index TRUST = 15"
| "component_index HEALTH = 16"
| "component_index AVAILABILITY = 17"
| "component_index READINESS = 18"
| "component_index RESIDENCY = 19"
| "component_index CAPACITY = 20"
| "component_index RESERVATION = 21"
| "component_index TENANCY = 22"
| "component_index DISPATCH = 23"

text \<open>The enumerator's value: 0 for \<open>NONE\<close>, otherwise one bit.\<close>

definition component_bits :: "AuthorityComponent \<Rightarrow> u32" where
  "component_bits c = (if c = NONE then 0 else push_bit (component_index c) 1)"

definition kComponentNames :: "string list" where
  "kComponentNames =
     [''router_epoch'', ''coordinator_epoch'', ''request'', ''model'', ''artifact'', ''provider'',
      ''backend'', ''backend_boot'', ''endpoint'', ''capability'', ''policy'', ''budget'',
      ''price'', ''slo'', ''compatibility'', ''trust'', ''health'', ''availability'',
      ''readiness'', ''residency'', ''capacity'', ''reservation'', ''tenancy'', ''dispatch'']"

definition AuthorityComponent_to_string :: "AuthorityComponent \<Rightarrow> string" where
  "AuthorityComponent_to_string c = (if c = NONE then ''none'' else kComponentNames ! component_index c)"

type_synonym AuthorityMask = u32

definition mask_contains :: "AuthorityMask \<Rightarrow> AuthorityComponent \<Rightarrow> bool" where
  "mask_contains m c \<longleftrightarrow> m AND component_bits c \<noteq> 0"

definition mask_add :: "AuthorityMask \<Rightarrow> AuthorityComponent \<Rightarrow> AuthorityMask" where
  "mask_add m c = m OR component_bits c"

definition mask_remove :: "AuthorityMask \<Rightarrow> AuthorityComponent \<Rightarrow> AuthorityMask" where
  "mask_remove m c = m AND NOT (component_bits c)"

definition mask_all :: AuthorityMask where
  "mask_all = push_bit 24 1 - 1"

section \<open>Bindings\<close>

record RouteAuthority =
  ra_router_id :: entity_id
  ra_router_epoch :: generation
  ra_coordinator_epoch :: generation
  ra_request_id :: entity_id
  ra_request_generation :: generation
  ra_decision_id :: entity_id
  ra_decision_generation :: generation
  ra_model_id :: entity_id
  ra_model_generation :: generation
  ra_artifact_generation :: generation
  ra_provider_id :: entity_id
  ra_provider_generation :: generation
  ra_backend_id :: entity_id
  ra_backend_generation :: generation
  ra_backend_boot :: generation
  ra_backend_registration_generation :: generation
  ra_endpoint_id :: entity_id
  ra_endpoint_generation :: generation
  ra_capability_profile_id :: entity_id
  ra_capability_generation :: generation
  ra_policy_id :: entity_id
  ra_policy_generation :: generation
  ra_budget_id :: entity_id
  ra_budget_generation :: generation
  ra_cost_evidence_id :: entity_id
  ra_price_generation :: generation
  ra_slo_id :: entity_id
  ra_slo_generation :: generation
  ra_compatibility_profile_id :: entity_id
  ra_compatibility_generation :: generation
  ra_trust_profile_id :: entity_id
  ra_trust_generation :: generation
  ra_health_generation :: generation
  ra_availability_generation :: generation
  ra_readiness_generation :: generation
  ra_residency_generation :: generation
  ra_capacity_generation :: generation
  ra_reservation_id :: entity_id
  ra_reservation_generation :: generation
  ra_tenant :: entity_id
  ra_name_space :: entity_id
  ra_dispatch_generation :: generation
  ra_issued_at :: unix_millis
  ra_expires_at :: unix_millis

definition RouteAuthority_default :: RouteAuthority where
  "RouteAuthority_default =
     \<lparr>ra_router_id = 0,
      ra_router_epoch = 0,
      ra_coordinator_epoch = 0,
      ra_request_id = 0,
      ra_request_generation = 0,
      ra_decision_id = 0,
      ra_decision_generation = 0,
      ra_model_id = 0,
      ra_model_generation = 0,
      ra_artifact_generation = 0,
      ra_provider_id = 0,
      ra_provider_generation = 0,
      ra_backend_id = 0,
      ra_backend_generation = 0,
      ra_backend_boot = 0,
      ra_backend_registration_generation = 0,
      ra_endpoint_id = 0,
      ra_endpoint_generation = 0,
      ra_capability_profile_id = 0,
      ra_capability_generation = 0,
      ra_policy_id = 0,
      ra_policy_generation = 0,
      ra_budget_id = 0,
      ra_budget_generation = 0,
      ra_cost_evidence_id = 0,
      ra_price_generation = 0,
      ra_slo_id = 0,
      ra_slo_generation = 0,
      ra_compatibility_profile_id = 0,
      ra_compatibility_generation = 0,
      ra_trust_profile_id = 0,
      ra_trust_generation = 0,
      ra_health_generation = 0,
      ra_availability_generation = 0,
      ra_readiness_generation = 0,
      ra_residency_generation = 0,
      ra_capacity_generation = 0,
      ra_reservation_id = 0,
      ra_reservation_generation = 0,
      ra_tenant = 0,
      ra_name_space = 0,
      ra_dispatch_generation = 0,
      ra_issued_at = 0,
      ra_expires_at = 0\<rparr>"

definition RouteAuthority_expired :: "RouteAuthority \<Rightarrow> unix_millis \<Rightarrow> bool" where
  "RouteAuthority_expired a now = expired_at (ra_expires_at a) now"

definition required_mask :: "RouteAuthority \<Rightarrow> AuthorityMask" where
  "required_mask a =
     foldl mask_add 0
       ([ROUTER_EPOCH, COORDINATOR_EPOCH, REQUEST, MODEL, ARTIFACT,
         BACKEND, BACKEND_BOOT, ENDPOINT, CAPABILITY, POLICY,
         TRUST, HEALTH, AVAILABILITY, READINESS, TENANCY] @
        (if valid_id (ra_provider_id a) \<or> valid_id (ra_provider_generation a) then [PROVIDER] else []) @
        (if valid_id (ra_budget_generation a) then [BUDGET] else []) @
        (if valid_id (ra_price_generation a) then [PRICE] else []) @
        (if valid_id (ra_slo_generation a) then [SLO] else []) @
        (if valid_id (ra_compatibility_generation a) then [COMPATIBILITY] else []) @
        (if valid_id (ra_residency_generation a) then [RESIDENCY] else []) @
        (if valid_id (ra_capacity_generation a) then [CAPACITY] else []) @
        (if valid_id (ra_reservation_id a) \<or> valid_id (ra_reservation_generation a) then [RESERVATION] else []) @
        (if valid_id (ra_dispatch_generation a) then [DISPATCH] else []))"

record AuthorityDifference =
  ad_component :: AuthorityComponent
  ad_bound :: u64
  ad_current :: u64
  ad_code :: OutcomeCode

definition AuthorityDifference_canonical_less ::
  "AuthorityDifference \<Rightarrow> AuthorityDifference \<Rightarrow> bool" where
  "AuthorityDifference_canonical_less d other =
     (if ad_component d \<noteq> ad_component other
        then component_bits (ad_component d) < component_bits (ad_component other)
      else if ad_bound d \<noteq> ad_bound other then ad_bound d < ad_bound other
      else ad_current d < ad_current other)"

record AuthorityComparison =
  ac_code :: OutcomeCode
  ac_differences :: "AuthorityDifference list"

definition AuthorityComparison_current :: "AuthorityComparison \<Rightarrow> bool" where
  "AuthorityComparison_current c \<longleftrightarrow> ac_differences c = []"

section \<open>Comparison\<close>

definition record_difference ::
  "AuthorityComponent \<Rightarrow> u64 \<Rightarrow> u64 \<Rightarrow> OutcomeCode \<Rightarrow> AuthorityDifference list" where
  "record_difference component bound current code =
     (if bound = current then []
      else [\<lparr>ad_component = component, ad_bound = bound, ad_current = current, ad_code = code\<rparr>])"

definition compared_fields ::
  "(AuthorityComponent \<times> (RouteAuthority \<Rightarrow> u64) \<times> OutcomeCode) list" where
  "compared_fields =
     [(ROUTER_EPOCH, ra_router_epoch, REJECT_STALE_ROUTER_EPOCH),
      (COORDINATOR_EPOCH, ra_coordinator_epoch, REJECT_STALE_COORDINATOR_EPOCH),
      (REQUEST, ra_request_id, REJECT_STALE_REQUEST),
      (REQUEST, ra_request_generation, REJECT_STALE_REQUEST),
      (MODEL, ra_model_id, REJECT_STALE_MODEL),
      (MODEL, ra_model_generation, REJECT_STALE_MODEL),
      (ARTIFACT, ra_artifact_generation, REJECT_STALE_ARTIFACT),
      (PROVIDER, ra_provider_id, REJECT_STALE_BACKEND),
      (PROVIDER, ra_provider_generation, REJECT_STALE_BACKEND),
      (BACKEND, ra_backend_id, REJECT_STALE_BACKEND),
      (BACKEND, ra_backend_generation, REJECT_STALE_BACKEND),
      (BACKEND, ra_backend_registration_generation, REJECT_STALE_BACKEND),
      (BACKEND_BOOT, ra_backend_boot, REJECT_STALE_BACKEND_BOOT),
      (ENDPOINT, ra_endpoint_id, REJECT_STALE_ENDPOINT),
      (ENDPOINT, ra_endpoint_generation, REJECT_STALE_ENDPOINT),
      (CAPABILITY, ra_capability_profile_id, REJECT_STALE_CAPABILITY),
      (CAPABILITY, ra_capability_generation, REJECT_STALE_CAPABILITY),
      (POLICY, ra_policy_id, REJECT_STALE_POLICY),
      (POLICY, ra_policy_generation, REJECT_STALE_POLICY),
      (BUDGET, ra_budget_id, REJECT_STALE_BUDGET),
      (BUDGET, ra_budget_generation, REJECT_STALE_BUDGET),
      (PRICE, ra_cost_evidence_id, REJECT_STALE_PRICE),
      (PRICE, ra_price_generation, REJECT_STALE_PRICE),
      (SLO, ra_slo_id, REJECT_STALE_SLO),
      (SLO, ra_slo_generation, REJECT_STALE_SLO),
      (COMPATIBILITY, ra_compatibility_profile_id, REJECT_STALE_COMPATIBILITY),
      (COMPATIBILITY, ra_compatibility_generation, REJECT_STALE_COMPATIBILITY),
      (TRUST, ra_trust_profile_id, REJECT_STALE_TRUST),
      (TRUST, ra_trust_generation, REJECT_STALE_TRUST),
      (HEALTH, ra_health_generation, REJECT_STALE_HEALTH),
      (AVAILABILITY, ra_availability_generation, REJECT_STALE_AVAILABILITY),
      (READINESS, ra_readiness_generation, REJECT_STALE_READINESS),
      (RESIDENCY, ra_residency_generation, REJECT_STALE_RESIDENCY),
      (CAPACITY, ra_capacity_generation, REJECT_STALE_CAPACITY),
      (RESERVATION, ra_reservation_id, REJECT_STALE_RESERVATION),
      (RESERVATION, ra_reservation_generation, REJECT_STALE_RESERVATION),
      (TENANCY, ra_tenant, REJECT_CONFLICT),
      (TENANCY, ra_name_space, REJECT_CONFLICT),
      (DISPATCH, ra_dispatch_generation, REJECT_STALE_REQUEST)]"

definition compare_authority ::
  "RouteAuthority \<Rightarrow> RouteAuthority \<Rightarrow> AuthorityMask \<Rightarrow> AuthorityComparison" where
  "compare_authority bound current required =
     (let differences =
            concat (map (\<lambda>(component, field, code).
              if mask_contains required component
              then record_difference component (field bound) (field current) code
              else []) compared_fields)
      in if differences = [] then \<lparr>ac_code = ACCEPTED, ac_differences = []\<rparr>
         else let sorted = stable_sort_by AuthorityDifference_canonical_less differences
              in \<lparr>ac_code = ad_code (hd sorted), ac_differences = sorted\<rparr>)"

definition authority_canonical_text :: "RouteAuthority \<Rightarrow> string" where
  "authority_canonical_text a = concat (map (\<lambda>v. dec_u64 v @ '','')
     [ra_router_id a, ra_router_epoch a, ra_coordinator_epoch a,
      ra_request_id a, ra_request_generation a, ra_decision_id a,
      ra_decision_generation a, ra_model_id a, ra_model_generation a,
      ra_artifact_generation a, ra_provider_id a, ra_provider_generation a,
      ra_backend_id a, ra_backend_generation a, ra_backend_boot a,
      ra_backend_registration_generation a, ra_endpoint_id a, ra_endpoint_generation a,
      ra_capability_profile_id a, ra_capability_generation a, ra_policy_id a,
      ra_policy_generation a, ra_budget_id a, ra_budget_generation a,
      ra_cost_evidence_id a, ra_price_generation a, ra_slo_id a,
      ra_slo_generation a, ra_compatibility_profile_id a, ra_compatibility_generation a,
      ra_trust_profile_id a, ra_trust_generation a, ra_health_generation a,
      ra_availability_generation a, ra_readiness_generation a, ra_residency_generation a,
      ra_capacity_generation a, ra_reservation_id a, ra_reservation_generation a,
      ra_tenant a, ra_name_space a, ra_dispatch_generation a])"

definition authority_digest :: "RouteAuthority \<Rightarrow> string" where
  "authority_digest a = to_hex (sha256 (authority_canonical_text a))"

datatype Currentness = CURRENT | STALE | REVALIDATION_REQUIRED | RECONSTRUCTED

definition Currentness_to_string :: "Currentness \<Rightarrow> string" where
  "Currentness_to_string c =
     (case c of
        Currentness.CURRENT \<Rightarrow> ''CURRENT'' | Currentness.STALE \<Rightarrow> ''STALE''
      | Currentness.REVALIDATION_REQUIRED \<Rightarrow> ''REVALIDATION_REQUIRED''
      | RECONSTRUCTED \<Rightarrow> ''RECONSTRUCTED'')"

section \<open>Masks as sets of components\<close>

lemma component_index_inject:
  "a \<noteq> NONE \<Longrightarrow> b \<noteq> NONE \<Longrightarrow> component_index a = component_index b \<longleftrightarrow> a = b"
  by (cases a; cases b; simp)

lemma component_index_bound: "component_index c < 24"
  by (cases c) simp_all

lemma bit_component: "bit (component_bits c) n \<longleftrightarrow> c \<noteq> NONE \<and> n = component_index c"
  using component_index_bound [of c]
  by (auto simp: component_bits_def bit_exp_iff possible_bit_def)

lemma mask_contains_bit: "mask_contains m c \<longleftrightarrow> c \<noteq> NONE \<and> bit m (component_index c)"
proof
  assume "mask_contains m c"
  then obtain n where "bit (m AND component_bits c) n"
    unfolding mask_contains_def by (metis bit_0_eq bit_eqI bot_apply bot_bool_def)
  then show "c \<noteq> NONE \<and> bit m (component_index c)" by (auto simp: bit_and_iff bit_component)
next
  assume "c \<noteq> NONE \<and> bit m (component_index c)"
  then have "bit (m AND component_bits c) (component_index c)"
    by (simp add: bit_and_iff bit_component)
  then show "mask_contains m c" unfolding mask_contains_def by (metis bit_0_eq bot_apply bot_bool_def)
qed

lemma mask_contains_add:
  "mask_contains (mask_add m d) c \<longleftrightarrow> c \<noteq> NONE \<and> (c = d \<or> mask_contains m c)"
proof (cases "c = NONE \<or> d = NONE")
  case True
  then show ?thesis by (auto simp: mask_contains_bit mask_add_def bit_or_iff bit_component)
next
  case False
  then have "component_index c = component_index d \<longleftrightarrow> c = d" by (simp add: component_index_inject)
  with False show ?thesis by (auto simp: mask_contains_bit mask_add_def bit_or_iff bit_component)
qed

lemma mask_contains_NONE [simp]: "\<not> mask_contains m NONE"
  by (simp add: mask_contains_bit)

lemma mask_contains_foldl:
  "mask_contains (foldl mask_add m ds) c \<longleftrightarrow> c \<noteq> NONE \<and> (c \<in> set ds \<or> mask_contains m c)"
proof (cases "c = NONE")
  case False
  then show ?thesis by (induction ds arbitrary: m) (auto simp: mask_contains_add)
qed simp

lemma mask_contains_zero [simp]: "\<not> mask_contains 0 c"
  by (simp add: mask_contains_def)

text \<open>The components every route depends on, whatever it is bound to.\<close>

definition always_required :: "AuthorityComponent set" where
  "always_required =
     {ROUTER_EPOCH, COORDINATOR_EPOCH, REQUEST, MODEL, ARTIFACT, BACKEND, BACKEND_BOOT, ENDPOINT,
      CAPABILITY, POLICY, TRUST, HEALTH, AVAILABILITY, READINESS, TENANCY}"

lemma required_mask_always: "c \<in> always_required \<Longrightarrow> mask_contains (required_mask a) c"
  unfolding required_mask_def mask_contains_foldl by (auto simp: always_required_def)

section \<open>Comparison: when it accepts and what it reports\<close>

definition field_differs ::
  "RouteAuthority \<Rightarrow> RouteAuthority \<Rightarrow> AuthorityMask \<Rightarrow>
   AuthorityComponent \<times> (RouteAuthority \<Rightarrow> u64) \<times> OutcomeCode \<Rightarrow> bool" where
  "field_differs a b m entry =
     (case entry of (c, field, code) \<Rightarrow> mask_contains m c \<and> field a \<noteq> field b)"

definition difference_key :: "AuthorityDifference \<Rightarrow> u32 \<times> u64 \<times> u64" where
  "difference_key d = (component_bits (ad_component d), ad_bound d, ad_current d)"

lemma component_bits_inject: "component_bits a = component_bits b \<longleftrightarrow> a = b"
proof
  assume eq: "component_bits a = component_bits b"
  have "bit (component_bits a) n = bit (component_bits b) n" for n using eq by simp
  then show "a = b" unfolding bit_component using component_index_inject by blast
qed simp

lemma difference_less_key:
  "AuthorityDifference_canonical_less = (\<lambda>a b. difference_key a < difference_key b)"
  by (intro ext) (simp only: AuthorityDifference_canonical_less_def difference_key_def
      lex_pair_less component_bits_inject)

lemma set_compare_differences:
  "set (ac_differences (compare_authority a b m)) =
     {\<lparr>ad_component = c, ad_bound = field a, ad_current = field b, ad_code = code\<rparr> |
        c field code. (c, field, code) \<in> set compared_fields \<and> field_differs a b m (c, field, code)}"
  by (auto simp: compare_authority_def Let_def record_difference_def field_differs_def
      split: if_splits prod.splits)

lemma compared_fields_component: "(c, field, code) \<in> set compared_fields \<Longrightarrow> c \<noteq> NONE"
  by (auto simp: compared_fields_def)

lemma compared_fields_code_not_accepted:
  "(c, field, code) \<in> set compared_fields \<Longrightarrow> code \<noteq> ACCEPTED"
  by (auto simp: compared_fields_def)

lemma compare_code:
  "ac_code (compare_authority a b m) =
     (case ac_differences (compare_authority a b m) of [] \<Rightarrow> ACCEPTED | d # ds \<Rightarrow> ad_code d)"
  by (auto simp: compare_authority_def Let_def split: list.splits)

lemma compare_sorted: "sorted (map difference_key (ac_differences (compare_authority a b m)))"
  by (simp add: compare_authority_def Let_def difference_less_key stable_sort_by_key)

lemma compare_current_iff:
  "AuthorityComparison_current (compare_authority a b m) \<longleftrightarrow>
     (\<forall>entry \<in> set compared_fields. \<not> field_differs a b m entry)"
proof -
  have "ac_differences (compare_authority a b m) = [] \<longleftrightarrow>
      set (ac_differences (compare_authority a b m)) = {}" by simp
  then show ?thesis
    unfolding AuthorityComparison_current_def set_compare_differences by fastforce
qed

lemma compare_accepted_iff:
  "ac_code (compare_authority a b m) = ACCEPTED \<longleftrightarrow>
     AuthorityComparison_current (compare_authority a b m)"
proof (cases "ac_differences (compare_authority a b m)")
  case Nil
  then show ?thesis by (simp add: compare_code AuthorityComparison_current_def)
next
  case (Cons d ds)
  then have "d \<in> set (ac_differences (compare_authority a b m))" by simp
  then have "ad_code d \<noteq> ACCEPTED"
    unfolding set_compare_differences using compared_fields_code_not_accepted by auto
  then show ?thesis using Cons by (simp add: compare_code AuthorityComparison_current_def)
qed

lemma compare_refl: "AuthorityComparison_current (compare_authority a a m)"
  by (auto simp: compare_current_iff field_differs_def)

section \<open>Properties\<close>

text \<open>
  (C37) \<open>compare_authority\<close> accepts exactly when every compared field of every component in the
  mask is equal in both bindings.  Otherwise the code it reports belongs to a field that
  differs, and no field of a lower component differs: the reported reason does not depend on
  the order in which the differences were found.
\<close>

theorem compare_authority_exact:
  "(ac_code (compare_authority a b m) = ACCEPTED \<longleftrightarrow>
      (\<forall>(c, field, code) \<in> set compared_fields. mask_contains m c \<longrightarrow> field a = field b)) \<and>
   (ac_code (compare_authority a b m) \<noteq> ACCEPTED \<longrightarrow>
      (\<exists>(c, field, code) \<in> set compared_fields.
         mask_contains m c \<and> field a \<noteq> field b \<and> ac_code (compare_authority a b m) = code \<and>
         (\<forall>(c', field', code') \<in> set compared_fields.
            mask_contains m c' \<and> field' a \<noteq> field' b \<longrightarrow> component_bits c \<le> component_bits c')))"
proof (intro conjI impI)
  show "ac_code (compare_authority a b m) = ACCEPTED \<longleftrightarrow>
      (\<forall>(c, field, code) \<in> set compared_fields. mask_contains m c \<longrightarrow> field a = field b)"
    unfolding compare_accepted_iff compare_current_iff field_differs_def by (auto split: prod.splits)
next
  let ?ds = "ac_differences (compare_authority a b m)"
  assume "ac_code (compare_authority a b m) \<noteq> ACCEPTED"
  then obtain d ds where ds: "?ds = d # ds"
    by (cases ?ds) (simp_all add: compare_code)
  then have "d \<in> set ?ds" by simp
  then obtain c field code where d: "d = \<lparr>ad_component = c, ad_bound = field a, ad_current = field b, ad_code = code\<rparr>"
    "(c, field, code) \<in> set compared_fields" "field_differs a b m (c, field, code)"
    unfolding set_compare_differences by blast
  have least: "component_bits c \<le> component_bits c'"
    if "(c', field', code') \<in> set compared_fields" "mask_contains m c'" "field' a \<noteq> field' b"
    for c' field' code'
  proof -
    let ?e = "\<lparr>ad_component = c', ad_bound = field' a, ad_current = field' b, ad_code = code'\<rparr>"
    have "?e \<in> set ?ds"
      unfolding set_compare_differences field_differs_def using that by blast
    then have "difference_key d \<le> difference_key ?e"
      using compare_sorted [of a b m] ds by auto
    then show ?thesis using d(1) by (auto simp: difference_key_def)
  qed
  have "ac_code (compare_authority a b m) = code" using ds d(1) by (simp add: compare_code)
  then show "\<exists>(c, field, code) \<in> set compared_fields.
      mask_contains m c \<and> field a \<noteq> field b \<and> ac_code (compare_authority a b m) = code \<and>
      (\<forall>(c', field', code') \<in> set compared_fields.
         mask_contains m c' \<and> field' a \<noteq> field' b \<longrightarrow> component_bits c \<le> component_bits c')"
    using d(2,3) least by (intro bexI [of _ "(c, field, code)"]) (auto simp: field_differs_def)
qed

lemma mask_all_contains: "c \<noteq> NONE \<Longrightarrow> mask_contains mask_all c"
  by (cases c) (simp_all add: mask_contains_def mask_all_def component_bits_def)

definition sample_drifted :: RouteAuthority where
  "sample_drifted = RouteAuthority_default\<lparr>ra_health_generation := 1\<rparr>"

theorem compare_authority_exact_witness:
  "ac_code (compare_authority RouteAuthority_default RouteAuthority_default mask_all) = ACCEPTED \<and>
   ac_code (compare_authority RouteAuthority_default sample_drifted mask_all) \<noteq> ACCEPTED"
proof
  show "ac_code (compare_authority RouteAuthority_default RouteAuthority_default mask_all) = ACCEPTED"
    using compare_authority_exact [of RouteAuthority_default RouteAuthority_default mask_all] by auto
next
  have "(HEALTH, ra_health_generation, REJECT_STALE_HEALTH) \<in> set compared_fields"
    by (simp add: compared_fields_def)
  moreover have "ra_health_generation RouteAuthority_default \<noteq> ra_health_generation sample_drifted"
    by (simp add: sample_drifted_def RouteAuthority_default_def)
  ultimately show "ac_code (compare_authority RouteAuthority_default sample_drifted mask_all) \<noteq> ACCEPTED"
    using compare_authority_exact [of RouteAuthority_default sample_drifted mask_all]
      mask_all_contains [of HEALTH] by fastforce
qed

end
