(* ===== verification/Policy.thy ===== *)
theory Policy
  imports Candidate
begin

text \<open>
  Declarative policy evaluation: \<open>include/model_router/policy.hpp\<close> and \<open>src/policy.cpp\<close>.

  A function of the form \<open>if (c1) return reject(code1, ...); if (c2) return ...\<close> is the list of
  its guarded rejections in source order, and \<open>first_reject\<close> picks the first one that applies;
  an \<open>if\<close> around several rejections distributes its condition over them.  The main lemma
  describes the candidates a policy admits without binary searches or ordering.
\<close>

section \<open>Guarded rejections\<close>

type_synonym rejection = "OutcomeCode \<times> string"
type_synonym guarded_rejection = "bool \<times> OutcomeCode \<times> string"

fun first_reject :: "guarded_rejection list \<Rightarrow> rejection option" where
  "first_reject [] = None"
| "first_reject ((guard, code, detail) # rest) =
     (if guard then Some (code, detail) else first_reject rest)"

lemma first_reject_None_iff: "first_reject gs = None \<longleftrightarrow> list_all (\<lambda>g. \<not> fst g) gs"
  by (induction gs rule: first_reject.induct) auto

lemma first_reject_append:
  "first_reject (gs @ hs) = (case first_reject gs of None \<Rightarrow> first_reject hs | Some r \<Rightarrow> Some r)"
  by (induction gs rule: first_reject.induct) auto

lemma first_reject_Some_mem:
  "first_reject gs = Some r \<Longrightarrow> (True, r) \<in> set gs"
  by (induction gs rule: first_reject.induct) (auto split: if_splits)

section \<open>Verdicts\<close>

record PolicyVerdict =
  pv_code :: OutcomeCode
  pv_detail :: string
  pv_preference :: int

definition PolicyVerdict_default :: PolicyVerdict where
  "PolicyVerdict_default = \<lparr>pv_code = ACCEPTED, pv_detail = [], pv_preference = 0\<rparr>"

abbreviation (input) kPreferenceScale :: int where
  "kPreferenceScale \<equiv> kFactorScale"

definition policy_allowed :: "PolicyVerdict \<Rightarrow> bool" where
  "policy_allowed v \<longleftrightarrow> pv_code v = ACCEPTED"

definition policy_reject :: "OutcomeCode \<Rightarrow> string \<Rightarrow> PolicyVerdict" where
  "policy_reject code detail = PolicyVerdict_default\<lparr>pv_code := code, pv_detail := detail\<rparr>"

section \<open>Requests\<close>

definition request_policy_checks ::
  "PolicySnapshot \<Rightarrow> RouteRequest \<Rightarrow> unix_millis \<Rightarrow> guarded_rejection list" where
  "request_policy_checks policy request now =
     [(\<not> valid_id (ps_generation policy),
         REJECT_STALE_POLICY, ''policy generation is not valid''),
      (\<not> PolicySnapshot_current policy now, REJECT_STALE_POLICY, ''policy evidence is stale''),
      (valid_id (ps_policy_id policy) \<and> ps_policy_id policy \<noteq> rq_policy_id request,
         REJECT_STALE_POLICY,
         ''request names a different policy identity than the current snapshot''),
      (ps_generation policy \<noteq> rq_policy_generation request,
         REJECT_STALE_POLICY, ''request policy generation is not the current policy generation''),
      (ps_bound_tenants policy \<noteq> [] \<and> \<not> binary_search (ps_bound_tenants policy) (rq_tenant request),
         REJECT_CONFLICT, ''tenant is not bound to the current policy snapshot'')]"

definition evaluate_request ::
  "PolicySnapshot \<Rightarrow> RouteRequest \<Rightarrow> unix_millis \<Rightarrow> PolicyVerdict" where
  "evaluate_request policy request now =
     (case first_reject (request_policy_checks policy request now) of
        Some (code, detail) \<Rightarrow> policy_reject code detail
      | None \<Rightarrow> PolicyVerdict_default)"

section \<open>Candidates\<close>

definition denial_checks :: "PolicySnapshot \<Rightarrow> RouteCandidate \<Rightarrow> guarded_rejection list" where
  "denial_checks policy candidate =
     [(binary_search (ps_denied_models policy) (ck_model_id (rc_key candidate)),
         REJECT_POLICY, ''policy denies the model identity''),
      (valid_id (md_family_id (rc_model candidate)) \<and>
         binary_search (ps_denied_model_families policy) (md_family_id (rc_model candidate)),
         REJECT_POLICY, ''policy denies the model family''),
      (binary_search (ps_denied_providers policy) (bd_provider_id (rc_backend candidate)),
         REJECT_POLICY, ''policy denies the provider''),
      (binary_search (ps_denied_backends policy) (ck_backend_id (rc_key candidate)),
         REJECT_POLICY, ''policy denies the backend''),
      (bd_locality (rc_backend candidate) \<noteq> [] \<and>
         binary_search (ps_denied_localities policy) (bd_locality (rc_backend candidate)),
         REJECT_LOCALITY, ''policy denies the deployment locality'')]"

definition allowlist_checks :: "PolicySnapshot \<Rightarrow> RouteCandidate \<Rightarrow> guarded_rejection list" where
  "allowlist_checks policy candidate =
     [(ps_allowed_models policy \<noteq> [] \<and>
         \<not> binary_search (ps_allowed_models policy) (ck_model_id (rc_key candidate)),
         REJECT_POLICY, ''model is not in the policy allowlist''),
      (ps_allowed_models policy = [] \<and> \<not> ps_allow_unlisted_models policy,
         REJECT_POLICY, ''policy denies models that are not explicitly listed''),
      (ps_allowed_providers policy \<noteq> [] \<and>
         \<not> binary_search (ps_allowed_providers policy) (bd_provider_id (rc_backend candidate)),
         REJECT_POLICY, ''provider is not in the policy allowlist''),
      (ps_allowed_providers policy = [] \<and> \<not> ps_allow_unlisted_providers policy,
         REJECT_POLICY, ''policy denies providers that are not explicitly listed''),
      (ps_allowed_backends policy \<noteq> [] \<and>
         \<not> binary_search (ps_allowed_backends policy) (ck_backend_id (rc_key candidate)),
         REJECT_POLICY, ''backend is not in the policy allowlist''),
      (ps_allowed_backends policy = [] \<and> \<not> ps_allow_unlisted_backends policy,
         REJECT_POLICY, ''policy denies backends that are not explicitly listed''),
      (ps_allowed_localities policy \<noteq> [] \<and>
         (bd_locality (rc_backend candidate) = [] \<or>
          \<not> binary_search (ps_allowed_localities policy) (bd_locality (rc_backend candidate))),
         REJECT_LOCALITY, ''locality is not in the policy allowlist'')]"

definition placement_checks :: "PolicySnapshot \<Rightarrow> RouteCandidate \<Rightarrow> guarded_rejection list" where
  "placement_checks policy candidate =
     (let domain = bd_trust_domain (rc_backend candidate) in
      [(ps_local_only policy \<and> domain \<noteq> LOCAL, REJECT_LOCALITY, ''policy is local-only''),
       (ps_deny_public_remote policy \<and> domain = PUBLIC_REMOTE,
          REJECT_TRUST, ''policy denies public remote placement''),
       (ps_minimum_trust policy \<noteq> TrustDomain.UNKNOWN \<and> domain = TrustDomain.UNKNOWN,
          REJECT_UNKNOWN_EVIDENCE, ''policy sets a trust floor but candidate trust is UNKNOWN''),
       (ps_minimum_trust policy \<noteq> TrustDomain.UNKNOWN \<and>
          trust_rank domain < trust_rank (ps_minimum_trust policy),
          REJECT_TRUST, ''candidate trust domain is below the policy floor'')])"

text \<open>The price the cost ceiling is applied to: the binding of the candidate's model, else the
  first binding, else no price at all.\<close>

definition policy_cost :: "RouteCandidate \<Rightarrow> CostEvidence" where
  "policy_cost candidate =
     (case find_binding (rc_backend candidate) (ck_model_id (rc_key candidate)) of
        Some binding \<Rightarrow> mb_cost binding
      | None \<Rightarrow>
          (case bd_model_bindings (rc_backend candidate) of
             [] \<Rightarrow> CostEvidence_default
           | binding # _ \<Rightarrow> mb_cost binding))"

definition weak_capability_evidence :: "PolicySnapshot \<Rightarrow> CapabilityEvidence \<Rightarrow> bool" where
  "weak_capability_evidence policy evidence \<longleftrightarrow>
     is_satisfying (ce_state evidence) \<and>
     evidence_strength (ce_state evidence) < evidence_strength (ps_minimum_capability_evidence policy)"

definition ceiling_checks :: "PolicySnapshot \<Rightarrow> RouteCandidate \<Rightarrow> guarded_rejection list" where
  "ceiling_checks policy candidate =
     (let cost = policy_cost candidate; latency = bd_latency (rc_backend candidate) in
      [(ps_quality_floor policy \<noteq> kUnclassifiedQuality \<and>
          rc_quality_class candidate = kUnclassifiedQuality,
          REJECT_UNKNOWN_EVIDENCE,
          ''policy sets a quality floor but candidate quality is unclassified''),
       (ps_quality_floor policy \<noteq> kUnclassifiedQuality \<and>
          rc_quality_class candidate < ps_quality_floor policy,
          REJECT_QUALITY, ''candidate quality is below the policy floor''),
       (ps_minimum_capability_evidence policy \<noteq> CapabilityState.UNKNOWN \<and>
          list_ex (weak_capability_evidence policy) (cp_entries (md_capabilities (rc_model candidate))),
          REJECT_CAPABILITY, ''capability evidence is weaker than the policy minimum''),
       (mo_micros (ps_maximum_request_cost policy) > 0 \<and> \<not> CostEvidence_known cost,
          REJECT_UNKNOWN_EVIDENCE, ''policy sets a cost ceiling but candidate price is UNKNOWN''),
       (mo_micros (ps_maximum_request_cost policy) > 0 \<and>
          \<not> compatible_with (co_unit cost) (mo_unit (ps_maximum_request_cost policy)),
          REJECT_COST,
          ''candidate price unit is not compatible with the policy cost ceiling unit''),
       (mo_micros (ps_maximum_request_cost policy) > 0 \<and>
          co_estimated_total_micros cost > mo_micros (ps_maximum_request_cost policy),
          REJECT_COST, ''candidate cost exceeds the policy ceiling''),
       (ps_maximum_latency_micros policy \<noteq> kUnspecified \<and>
          le_dispatch_micros latency = kUnknownLatencyMicros,
          REJECT_UNKNOWN_EVIDENCE,
          ''policy sets a latency ceiling but candidate latency is UNKNOWN''),
       (ps_maximum_latency_micros policy \<noteq> kUnspecified \<and>
          le_dispatch_micros latency > ps_maximum_latency_micros policy,
          REJECT_SLO, ''candidate latency exceeds the policy ceiling'')])"

definition policy_preference :: "PolicySnapshot \<Rightarrow> RouteCandidate \<Rightarrow> int" where
  "policy_preference policy candidate =
     (let domain = bd_trust_domain (rc_backend candidate);
          preference =
            (if valid_id (md_family_id (rc_model candidate)) \<and>
                binary_search (ps_preferred_model_families policy) (md_family_id (rc_model candidate))
             then kPreferenceScale div 2 else 0);
          preference =
            (if domain \<noteq> TrustDomain.UNKNOWN
             then preference + int (trust_rank domain) * 100000 else preference)
      in min preference kPreferenceScale)"

definition candidate_policy_checks ::
  "PolicySnapshot \<Rightarrow> RouteCandidate \<Rightarrow> unix_millis \<Rightarrow> guarded_rejection list" where
  "candidate_policy_checks policy candidate now =
     (\<not> valid_id (ps_generation policy) \<or> \<not> PolicySnapshot_current policy now,
        REJECT_STALE_POLICY, ''policy evidence is not current'') #
     denial_checks policy candidate @ allowlist_checks policy candidate @
     placement_checks policy candidate @ ceiling_checks policy candidate"

definition evaluate_candidate ::
  "PolicySnapshot \<Rightarrow> RouteRequest \<Rightarrow> RouteCandidate \<Rightarrow> unix_millis \<Rightarrow> PolicyVerdict" where
  "evaluate_candidate policy request candidate now =
     (case first_reject (candidate_policy_checks policy candidate now) of
        Some (code, detail) \<Rightarrow> policy_reject code detail
      | None \<Rightarrow> PolicyVerdict_default\<lparr>pv_preference := policy_preference policy candidate\<rparr>)"

section \<open>Fallback governance\<close>

definition fallback_permitted ::
  "PolicySnapshot \<Rightarrow> RouteRequirements \<Rightarrow> OutcomeCode \<Rightarrow> bool" where
  "fallback_permitted policy requirements trigger \<longleftrightarrow>
     rr_allow_fallbacks requirements \<and> rp_max_fallbacks (rr_retry_policy requirements) \<noteq> 0 \<and>
     (case ps_fallback_policy policy of
        FORBIDDEN \<Rightarrow> False
      | PERMITTED \<Rightarrow> True
      | EXPLICIT_ONLY \<Rightarrow> trigger \<in> set (ps_fallback_permitted_outcomes policy)) \<and>
     \<not> is_permanent (classify_failure trigger)"

section \<open>What a policy admits\<close>

definition listed :: "'a list \<Rightarrow> bool \<Rightarrow> 'a \<Rightarrow> bool" where
  "listed allowed unlisted x \<longleftrightarrow> (if allowed = [] then unlisted else x \<in> set allowed)"

definition policy_identity_admits :: "PolicySnapshot \<Rightarrow> RouteCandidate \<Rightarrow> bool" where
  "policy_identity_admits p c \<longleftrightarrow>
     ck_model_id (rc_key c) \<notin> set (ps_denied_models p) \<and>
     (valid_id (md_family_id (rc_model c)) \<longrightarrow> md_family_id (rc_model c) \<notin> set (ps_denied_model_families p)) \<and>
     bd_provider_id (rc_backend c) \<notin> set (ps_denied_providers p) \<and>
     ck_backend_id (rc_key c) \<notin> set (ps_denied_backends p) \<and>
     listed (ps_allowed_models p) (ps_allow_unlisted_models p) (ck_model_id (rc_key c)) \<and>
     listed (ps_allowed_providers p) (ps_allow_unlisted_providers p) (bd_provider_id (rc_backend c)) \<and>
     listed (ps_allowed_backends p) (ps_allow_unlisted_backends p) (ck_backend_id (rc_key c))"

definition policy_placement_admits :: "PolicySnapshot \<Rightarrow> RouteCandidate \<Rightarrow> bool" where
  "policy_placement_admits p c \<longleftrightarrow>
     (let locality = bd_locality (rc_backend c); domain = bd_trust_domain (rc_backend c) in
      (locality \<noteq> [] \<longrightarrow> locality \<notin> set (ps_denied_localities p)) \<and>
      (ps_allowed_localities p \<noteq> [] \<longrightarrow> locality \<noteq> [] \<and> locality \<in> set (ps_allowed_localities p)) \<and>
      (ps_local_only p \<longrightarrow> domain = LOCAL) \<and>
      (ps_deny_public_remote p \<longrightarrow> domain \<noteq> PUBLIC_REMOTE) \<and>
      (ps_minimum_trust p \<noteq> TrustDomain.UNKNOWN \<longrightarrow>
         domain \<noteq> TrustDomain.UNKNOWN \<and> trust_rank (ps_minimum_trust p) \<le> trust_rank domain))"

definition policy_evidence_admits :: "PolicySnapshot \<Rightarrow> RouteCandidate \<Rightarrow> bool" where
  "policy_evidence_admits p c \<longleftrightarrow>
     (let cost = policy_cost c; ceiling = ps_maximum_request_cost p;
          dispatch = le_dispatch_micros (bd_latency (rc_backend c)) in
      (ps_quality_floor p \<noteq> kUnclassifiedQuality \<longrightarrow>
         rc_quality_class c \<noteq> kUnclassifiedQuality \<and> ps_quality_floor p \<le> rc_quality_class c) \<and>
      (ps_minimum_capability_evidence p \<noteq> CapabilityState.UNKNOWN \<longrightarrow>
         (\<forall>e \<in> set (cp_entries (md_capabilities (rc_model c))). is_satisfying (ce_state e) \<longrightarrow>
            evidence_strength (ps_minimum_capability_evidence p) \<le> evidence_strength (ce_state e))) \<and>
      (mo_micros ceiling > 0 \<longrightarrow>
         CostEvidence_known cost \<and> compatible_with (co_unit cost) (mo_unit ceiling) \<and>
         co_estimated_total_micros cost \<le> mo_micros ceiling) \<and>
      (ps_maximum_latency_micros p \<noteq> kUnspecified \<longrightarrow>
         dispatch \<noteq> kUnknownLatencyMicros \<and> dispatch \<le> ps_maximum_latency_micros p))"

lemma binary_search_canonical:
  "strictly_ascending xs \<Longrightarrow> binary_search xs k \<longleftrightarrow> k \<in> set xs"
  by (simp add: binary_search_iff strictly_ascending_sorted)

lemma first_reject_append_None:
  "first_reject (gs @ hs) = None \<longleftrightarrow> first_reject gs = None \<and> first_reject hs = None"
  by (simp add: first_reject_None_iff)

lemma listed_iff: "(allowed = [] \<or> x \<in> set allowed) \<and> (allowed = [] \<longrightarrow> unlisted) \<longleftrightarrow> listed allowed unlisted x"
  by (auto simp: listed_def)

lemma denial_admit:
  assumes "policy_canonical p"
  shows "first_reject (denial_checks p c) = None \<longleftrightarrow>
    ck_model_id (rc_key c) \<notin> set (ps_denied_models p) \<and>
    (valid_id (md_family_id (rc_model c)) \<longrightarrow> md_family_id (rc_model c) \<notin> set (ps_denied_model_families p)) \<and>
    bd_provider_id (rc_backend c) \<notin> set (ps_denied_providers p) \<and>
    ck_backend_id (rc_key c) \<notin> set (ps_denied_backends p) \<and>
    (bd_locality (rc_backend c) \<noteq> [] \<longrightarrow> bd_locality (rc_backend c) \<notin> set (ps_denied_localities p))"
  using assms unfolding policy_canonical_def
  by (simp add: first_reject_None_iff denial_checks_def binary_search_canonical)

lemma allowlist_admit:
  assumes "policy_canonical p"
  shows "first_reject (allowlist_checks p c) = None \<longleftrightarrow>
    listed (ps_allowed_models p) (ps_allow_unlisted_models p) (ck_model_id (rc_key c)) \<and>
    listed (ps_allowed_providers p) (ps_allow_unlisted_providers p) (bd_provider_id (rc_backend c)) \<and>
    listed (ps_allowed_backends p) (ps_allow_unlisted_backends p) (ck_backend_id (rc_key c)) \<and>
    (ps_allowed_localities p \<noteq> [] \<longrightarrow>
       bd_locality (rc_backend c) \<noteq> [] \<and> bd_locality (rc_backend c) \<in> set (ps_allowed_localities p))"
  using assms unfolding policy_canonical_def listed_iff [symmetric]
  by (simp add: first_reject_None_iff allowlist_checks_def binary_search_canonical)

lemma placement_admit:
  "first_reject (placement_checks p c) = None \<longleftrightarrow>
     (ps_local_only p \<longrightarrow> bd_trust_domain (rc_backend c) = LOCAL) \<and>
     (ps_deny_public_remote p \<longrightarrow> bd_trust_domain (rc_backend c) \<noteq> PUBLIC_REMOTE) \<and>
     (ps_minimum_trust p \<noteq> TrustDomain.UNKNOWN \<longrightarrow> bd_trust_domain (rc_backend c) \<noteq> TrustDomain.UNKNOWN \<and>
        trust_rank (ps_minimum_trust p) \<le> trust_rank (bd_trust_domain (rc_backend c)))"
  by (auto simp: first_reject_None_iff placement_checks_def Let_def not_less)

lemma denial_allowlist_admit:
  assumes "policy_canonical p"
  shows "first_reject (denial_checks p c @ allowlist_checks p c @ placement_checks p c) = None \<longleftrightarrow>
    policy_identity_admits p c \<and> policy_placement_admits p c"
  unfolding first_reject_append_None denial_admit [OF assms] allowlist_admit [OF assms]
    placement_admit policy_identity_admits_def policy_placement_admits_def Let_def
  by (simp only: conj_ac)

lemma weak_evidence_none:
  "(\<forall>e \<in> set es. is_satisfying (ce_state e) \<longrightarrow>
      \<not> evidence_strength (ce_state e) < evidence_strength (ps_minimum_capability_evidence p)) \<longleftrightarrow>
   \<not> list_ex (weak_capability_evidence p) es"
  by (auto simp: list_ex_iff weak_capability_evidence_def)

lemma ceiling_admit:
  "first_reject (ceiling_checks p c) = None \<longleftrightarrow> policy_evidence_admits p c"
  unfolding first_reject_None_iff ceiling_checks_def policy_evidence_admits_def Let_def
    not_less [symmetric] weak_evidence_none
  by (simp only: list.pred_inject fst_conv simp_thms) argo

lemma candidate_checks_admit:
  assumes "policy_canonical p"
  shows "first_reject (candidate_policy_checks p c now) = None \<longleftrightarrow>
    PolicySnapshot_current p now \<and> policy_identity_admits p c \<and> policy_placement_admits p c \<and>
    policy_evidence_admits p c"
proof -
  have "first_reject (candidate_policy_checks p c now) = None \<longleftrightarrow>
      PolicySnapshot_current p now \<and>
      first_reject (denial_checks p c @ allowlist_checks p c @ placement_checks p c) = None \<and>
      first_reject (ceiling_checks p c) = None"
    by (auto simp: candidate_policy_checks_def first_reject_append PolicySnapshot_current_def
        split: option.splits)
  then show ?thesis by (simp add: denial_allowlist_admit [OF assms] ceiling_admit)
qed

text \<open>No rejection of the policy reports the accepting code.\<close>

lemma policy_codes_reject:
  "first_reject (candidate_policy_checks p c now) = Some (code, detail) \<Longrightarrow> code \<noteq> ACCEPTED"
  by (drule first_reject_Some_mem)
     (auto simp: candidate_policy_checks_def denial_checks_def allowlist_checks_def
       placement_checks_def ceiling_checks_def Let_def)

lemma evaluate_candidate_allowed_iff:
  "policy_allowed (evaluate_candidate p r c now) \<longleftrightarrow>
     first_reject (candidate_policy_checks p c now) = None"
  using policy_codes_reject [of p c now]
  by (auto simp: evaluate_candidate_def policy_allowed_def policy_reject_def PolicyVerdict_default_def
      split: option.splits)

lemma policy_preference_bounds: "0 \<le> policy_preference p c \<and> policy_preference p c \<le> kPreferenceScale"
  by (simp add: policy_preference_def Let_def)

lemma evaluate_candidate_preference:
  "0 \<le> pv_preference (evaluate_candidate p r c now) \<and>
   pv_preference (evaluate_candidate p r c now) \<le> kPreferenceScale"
  using policy_preference_bounds [of p c]
  by (auto simp: evaluate_candidate_def policy_reject_def PolicyVerdict_default_def
      split: option.splits)

section \<open>Properties\<close>


text \<open>
  A fallback is never permitted when the request disables fallbacks, when the policy forbids
  them, or after a permanent failure; under an explicit-only policy it is permitted only for
  an outcome the policy lists.
\<close>

theorem fallback_permitted_sound:
  assumes "fallback_permitted policy requirements trigger"
  shows "rr_allow_fallbacks requirements \<and> ps_fallback_policy policy \<noteq> FORBIDDEN \<and>
    classify_failure trigger \<notin> {PERMANENT_REJECTION, CALLER_CANCELLED, MODEL_UNAVAILABLE} \<and>
    (ps_fallback_policy policy = EXPLICIT_ONLY \<longrightarrow>
       trigger \<in> set (ps_fallback_permitted_outcomes policy))"
  using assms
  by (cases "ps_fallback_policy policy") (auto simp: fallback_permitted_def is_permanent_def)

theorem fallback_permitted_sound_witness:
  "REJECT_UNAVAILABLE \<in>
     set (ps_fallback_permitted_outcomes (PolicySnapshot_default\<lparr>ps_fallback_permitted_outcomes := [REJECT_UNAVAILABLE]\<rparr>)) \<and>
   rr_allow_fallbacks RouteRequirements_default"
proof -
  have "fallback_permitted (PolicySnapshot_default\<lparr>ps_fallback_permitted_outcomes := [REJECT_UNAVAILABLE]\<rparr>)
      RouteRequirements_default REJECT_UNAVAILABLE"
    by (simp add: fallback_permitted_def PolicySnapshot_default_def RouteRequirements_default_def
        RetryReroutePolicy_default_def is_permanent_def classify_failure_def)
  from fallback_permitted_sound [OF this] show ?thesis
    by (simp add: PolicySnapshot_default_def)
qed

end
