(* ===== verification/Eligibility.thy ===== *)
theory Eligibility
  imports Policy
begin

text \<open>
  Hard eligibility: \<open>src/eligibility.hpp\<close> and \<open>src/eligibility.cpp\<close>.

  \<open>evaluate_hard_eligibility\<close> runs every hard predicate in a fixed order and returns the first
  failure.  Its sections are the check groups below, in source order; the group names follow
  the comments of the source.  The lemmas describe each group by what it requires and the
  main property puts them together: a candidate is eligible exactly when every requirement
  is met by known, current evidence.
\<close>

section \<open>Inputs and verdicts\<close>

record CandidateEvidence =
  cv_cost :: CostEvidence
  cv_compatibility :: CompatibilityEvidence
  cv_trust :: TrustEvidence
  cv_slo :: SloEvidence
  cv_slo_verdict :: SloVerdict
  cv_slo_verdict_known :: bool
  cv_reservation :: ReservationEvidence
  cv_reservation_present :: bool

text \<open>A pointer of \<open>EligibilityInput\<close> that may be null is an option.\<close>

record EligibilityInput =
  ei_request :: "RouteRequest option"
  ei_candidate :: "RouteCandidate option"
  ei_policy :: "PolicySnapshot option"
  ei_budget :: "BudgetSnapshot option"
  ei_evidence :: "CandidateEvidence option"
  ei_now :: unix_millis

record EligibilityVerdict =
  ev_code :: OutcomeCode
  ev_detail :: string

definition eligible :: "EligibilityVerdict \<Rightarrow> bool" where
  "eligible v \<longleftrightarrow> ev_code v = ACCEPTED"

definition eligibility_ok :: EligibilityVerdict where
  "eligibility_ok = \<lparr>ev_code = ACCEPTED, ev_detail = []\<rparr>"

definition eligibility_fail :: "rejection \<Rightarrow> EligibilityVerdict" where
  "eligibility_fail r = \<lparr>ev_code = fst r, ev_detail = snd r\<rparr>"

section \<open>Model lifecycle and backend incarnation\<close>

definition model_checks :: "RouteCandidate \<Rightarrow> unix_millis \<Rightarrow> guarded_rejection list" where
  "model_checks candidate now =
     (let key = rc_key candidate; model = rc_model candidate;
          binding = find_binding (rc_backend candidate) (ck_model_id key) in
      [(\<not> CandidateKey_complete key, REJECT_INVALID, ''candidate identity is incomplete''),
       (md_lifecycle model = ModelLifecycle.RETIRED, REJECT_RETIRED, ''model generation is retired''),
       (\<not> ModelDescriptor_current model now,
          REJECT_STALE_MODEL, ''model generation is not the current lifecycle state''),
       (\<not> valid_id (ck_model_generation key) \<or> \<not> valid_id (ck_artifact_generation key),
          REJECT_STALE_ARTIFACT, ''model or artifact generation is not valid''),
       (ck_model_generation key \<noteq> md_model_generation model \<or>
          ck_artifact_generation key \<noteq> md_artifact_generation model,
          REJECT_STALE_MODEL, ''candidate identity does not match the current model generation''),
       (binding = None, REJECT_STALE_MODEL, ''backend no longer binds this model''),
       (case binding of
          None \<Rightarrow> False
        | Some b \<Rightarrow> mb_model_generation b \<noteq> ck_model_generation key \<or>
                   mb_artifact_generation b \<noteq> ck_artifact_generation key,
          REJECT_STALE_MODEL, ''backend binding is not for the current model generation'')])"

definition incarnation_checks :: "RouteCandidate \<Rightarrow> guarded_rejection list" where
  "incarnation_checks candidate =
     (let key = rc_key candidate; backend = rc_backend candidate; endpoint = rc_endpoint candidate in
      [(bd_backend_boot backend \<noteq> ck_backend_boot key \<or>
          bd_backend_generation backend \<noteq> ck_backend_generation key,
          REJECT_STALE_BACKEND_BOOT,
          ''candidate identity does not match the current backend incarnation''),
       (BackendDescriptor_retired backend, REJECT_RETIRED, ''backend is retired''),
       (BackendDescriptor_draining backend, REJECT_DRAINING, ''backend is draining''),
       (ed_endpoint_generation endpoint \<noteq> ck_endpoint_generation key \<or>
          ed_endpoint_id endpoint \<noteq> ck_endpoint_id key,
          REJECT_STALE_ENDPOINT,
          ''endpoint generation is not the current endpoint generation'')])"

section \<open>Availability, health, readiness, residency, capacity\<close>

text \<open>
  The five blocks have one shape: the evidence must be known, unexpired, from the candidate's
  boot, and in the wanted state.
\<close>

definition live_checks ::
  "bool \<Rightarrow> 'state BackendEvidence \<Rightarrow> 'state \<Rightarrow> 'state \<Rightarrow> generation \<Rightarrow> unix_millis \<Rightarrow>
   string \<Rightarrow> rejection \<Rightarrow> rejection \<Rightarrow> guarded_rejection list"
where
  "live_checks required evidence unknown wanted boot now what stale failed =
     [(required \<and> (\<not> valid_id (be_generation evidence) \<or> be_state evidence = unknown),
         REJECT_UNKNOWN_EVIDENCE, what @ '' is UNKNOWN''),
      (required \<and> BackendEvidence_expired evidence now, stale),
      (required \<and> be_backend_boot evidence \<noteq> boot,
         REJECT_STALE_BACKEND_BOOT, what @ '' evidence belongs to a different incarnation''),
      (required \<and> be_state evidence \<noteq> wanted, failed)]"

definition live_state_checks ::
  "RouteRequirements \<Rightarrow> RouteCandidate \<Rightarrow> unix_millis \<Rightarrow> guarded_rejection list" where
  "live_state_checks requirements candidate now =
     (let backend = rc_backend candidate; boot = ck_backend_boot (rc_key candidate) in
      live_checks (rr_require_available requirements) (bd_availability backend)
        AvailabilityState.UNKNOWN AvailabilityState.AVAILABLE boot now ''backend availability''
        (REJECT_STALE_AVAILABILITY, ''backend availability evidence is stale'')
        (REJECT_UNAVAILABLE, ''backend is not available'') @
      live_checks (rr_require_healthy requirements) (bd_health backend)
        HealthState.UNKNOWN HEALTHY boot now ''backend health''
        (REJECT_STALE_HEALTH, ''backend health evidence is stale'')
        (REJECT_UNHEALTHY, ''backend is not healthy'') @
      live_checks (rr_require_ready requirements) (bd_readiness backend)
        ReadinessState.UNKNOWN READY boot now ''backend readiness''
        (REJECT_STALE_READINESS, ''backend readiness evidence is stale'')
        (REJECT_NOT_READY, ''backend is not ready'') @
      live_checks (rr_require_resident requirements) (bd_residency backend)
        ResidencyState.UNKNOWN RESIDENT boot now ''model residency''
        (REJECT_STALE_RESIDENCY, ''model residency evidence is stale'')
        (REJECT_RESIDENCY, ''model is not resident'') @
      live_checks (rr_require_capacity requirements) (bd_capacity backend)
        CapacityState.UNKNOWN CapacityState.AVAILABLE boot now ''backend capacity''
        (REJECT_STALE_CAPACITY, ''backend capacity evidence is stale'')
        (REJECT_CAPACITY, ''backend capacity is saturated''))"

definition reservation_checks ::
  "RouteRequirements \<Rightarrow> RouteCandidate \<Rightarrow> CandidateEvidence \<Rightarrow> unix_millis \<Rightarrow> guarded_rejection list"
where
  "reservation_checks requirements candidate evidence now =
     (let required = rr_require_reservation requirements; r = cv_reservation evidence in
      [(required \<and> \<not> cv_reservation_present evidence,
          REJECT_RESERVATION, ''a current reservation is required but absent''),
       (required \<and> \<not> ReservationEvidence_current r now,
          REJECT_STALE_RESERVATION, ''reservation is stale or expired''),
       (required \<and> (re_backend_id r \<noteq> ck_backend_id (rc_key candidate) \<or>
                    re_backend_boot r \<noteq> ck_backend_boot (rc_key candidate)),
          REJECT_RESERVATION, ''reservation is not bound to this backend incarnation'')])"

section \<open>Capabilities, modalities, shape\<close>

definition capability_satisfies ::
  "CapabilityEvidence option \<Rightarrow> CapabilityState \<Rightarrow> unix_millis \<Rightarrow> bool" where
  "capability_satisfies evidence minimum now \<longleftrightarrow>
     (case evidence of
        None \<Rightarrow> False
      | Some e \<Rightarrow> is_satisfying (ce_state e) \<and> \<not> CapabilityEvidence_expired e now \<and>
                 evidence_strength minimum \<le> evidence_strength (ce_state e))"

text \<open>The reason given for one unsatisfied requirement.\<close>

definition capability_failure ::
  "CapabilityRequirement \<Rightarrow> CapabilityEvidence option \<Rightarrow> CapabilityEvidence option \<Rightarrow>
   unix_millis \<Rightarrow> rejection" where
  "capability_failure requirement model_evidence backend_evidence now =
     (case (case model_evidence of Some e \<Rightarrow> Some e | None \<Rightarrow> backend_evidence) of
        None \<Rightarrow> (REJECT_CAPABILITY, ''capability '' @ cr_key requirement @ '' has no evidence'')
      | Some present \<Rightarrow>
          if ce_state present = CapabilityState.UNKNOWN
            then (REJECT_UNKNOWN_EVIDENCE, ''capability '' @ cr_key requirement @ '' is UNKNOWN'')
          else if \<not> is_satisfying (ce_state present)
            then (REJECT_CAPABILITY, ''capability '' @ cr_key requirement @ '' is '' @
                  CapabilityState_to_string (ce_state present))
          else if CapabilityEvidence_expired present now
            then (REJECT_CAPABILITY, ''capability '' @ cr_key requirement @ '' evidence is stale'')
          else (REJECT_CAPABILITY, ''capability '' @ cr_key requirement @
                '' evidence is weaker than the required minimum evidence state''))"

definition check_capabilities ::
  "RouteRequest \<Rightarrow> RouteCandidate \<Rightarrow> unix_millis \<Rightarrow> guarded_rejection list" where
  "check_capabilities request candidate now =
     map (\<lambda>requirement.
       let model_evidence = CapabilityProfile_find (md_capabilities (rc_model candidate)) (cr_key requirement);
           backend_evidence = CapabilityProfile_find (bd_capabilities (rc_backend candidate)) (cr_key requirement)
       in (\<not> capability_satisfies model_evidence (cr_minimum_state requirement) now \<and>
           \<not> capability_satisfies backend_evidence (cr_minimum_state requirement) now,
           capability_failure requirement model_evidence backend_evidence now))
       (rr_required_capabilities (rq_requirements request))"

definition check_modalities :: "RouteRequest \<Rightarrow> RouteCandidate \<Rightarrow> guarded_rejection list" where
  "check_modalities request candidate =
     [(\<not> modality_covers (md_input_modalities (rc_model candidate))
           (rr_required_input_modalities (rq_requirements request)),
         REJECT_MODALITY, ''model does not support a required input modality''),
      (\<not> modality_covers (md_output_modalities (rc_model candidate))
           (rr_required_output_modalities (rq_requirements request)),
         REJECT_MODALITY, ''model does not support a required output modality'')]"

definition has_capability :: "CapabilityProfile \<Rightarrow> CapabilityKey \<Rightarrow> unix_millis \<Rightarrow> bool" where
  "has_capability profile key now \<longleftrightarrow>
     (case CapabilityProfile_find profile key of
        None \<Rightarrow> False
      | Some found \<Rightarrow> is_satisfying (ce_state found) \<and> \<not> CapabilityEvidence_expired found now)"

definition check_shape ::
  "RouteRequest \<Rightarrow> RouteCandidate \<Rightarrow> CandidateEvidence \<Rightarrow> unix_millis \<Rightarrow> guarded_rejection list" where
  "check_shape request candidate evidence now =
     (let requirements = rq_requirements request; profile = md_capabilities (rc_model candidate);
          compatibility = cv_compatibility evidence in
      [(rr_require_structured_output requirements \<and> \<not> has_capability profile structured_output now,
          REJECT_STRUCTURED_OUTPUT, ''structured output is required but not proven''),
       (rr_require_json_schema requirements \<and> \<not> has_capability profile json_schema now,
          REJECT_STRUCTURED_OUTPUT, ''JSON schema output is required but not proven''),
       (rr_require_tool_calling requirements \<and> \<not> has_capability profile tool_calling now,
          REJECT_TOOL_CALLING, ''tool calling is required but not proven''),
       (rr_require_streaming requirements \<and> \<not> has_capability profile streaming now,
          REJECT_STREAMING, ''streaming is required but not proven''),
       (rr_require_logprobs requirements \<and> \<not> has_capability profile logprobs now,
          REJECT_CAPABILITY, ''logprobs are required but not proven''),
       (rr_require_deterministic_seed requirements \<and> \<not> has_capability profile deterministic_seed now,
          REJECT_CAPABILITY, ''deterministic seeding is required but not proven''),
       (rr_required_protocol requirements \<noteq> [] \<and> \<not> CompatibilityEvidence_current compatibility now,
          REJECT_UNKNOWN_EVIDENCE, ''protocol compatibility is required but UNKNOWN or stale''),
       (rr_required_protocol requirements \<noteq> [] \<and>
          (cm_protocol compatibility \<noteq> rr_required_protocol requirements \<or>
           (rr_required_protocol_version requirements \<noteq> 0 \<and>
            cm_protocol_version compatibility \<noteq> rr_required_protocol_version requirements)),
          REJECT_COMPATIBILITY, ''protocol identity or version is not compatible'')])"

definition limit_checks :: "RouteRequirements \<Rightarrow> RouteCandidate \<Rightarrow> guarded_rejection list" where
  "limit_checks requirements candidate =
     [(rr_min_context_tokens requirements > rc_context_limit_tokens candidate,
         REJECT_CONTEXT_LIMIT, ''context limit is insufficient''),
      (rr_max_output_tokens requirements > md_max_output_tokens (rc_model candidate),
         REJECT_CONTEXT_LIMIT, ''maximum output length exceeds the model limit''),
      (rr_quality_floor requirements \<noteq> kUnclassifiedQuality \<and>
         rc_quality_class candidate = kUnclassifiedQuality,
         REJECT_UNKNOWN_EVIDENCE,
         ''a quality floor is required but candidate quality is unclassified''),
      (rr_quality_floor requirements \<noteq> kUnclassifiedQuality \<and>
         rc_quality_class candidate < rr_quality_floor requirements,
         REJECT_QUALITY, ''candidate quality is below the required floor'')]"

section \<open>Identity filters, placement, trust\<close>

definition identity_filter ::
  "entity_id list \<Rightarrow> entity_id list \<Rightarrow> entity_id \<Rightarrow> string \<Rightarrow> guarded_rejection list" where
  "identity_filter allow deny value what =
     [(allow \<noteq> [] \<and> \<not> binary_search allow value,
         REJECT_AFFINITY, what @ '' is not in the request allowlist''),
      (binary_search deny value, REJECT_AFFINITY, what @ '' is in the request denylist'')]"

definition identity_checks :: "RouteRequirements \<Rightarrow> RouteCandidate \<Rightarrow> guarded_rejection list" where
  "identity_checks requirements candidate =
     identity_filter (rr_model_allowlist requirements) (rr_model_denylist requirements)
       (ck_model_id (rc_key candidate)) ''model'' @
     identity_filter (rr_family_allowlist requirements) (rr_family_denylist requirements)
       (md_family_id (rc_model candidate)) ''model family'' @
     identity_filter (rr_provider_allowlist requirements) (rr_provider_denylist requirements)
       (bd_provider_id (rc_backend candidate)) ''provider'' @
     identity_filter (rr_backend_allowlist requirements) (rr_backend_denylist requirements)
       (ck_backend_id (rc_key candidate)) ''backend''"

definition locality_checks :: "RouteRequirements \<Rightarrow> RouteCandidate \<Rightarrow> guarded_rejection list" where
  "locality_checks requirements candidate =
     (let backend = rc_backend candidate; domain = bd_trust_domain backend;
          locality = bd_locality backend in
      [(rr_local_only requirements \<and> domain \<noteq> LOCAL, REJECT_LOCALITY, ''request is local-only''),
       (\<not> rr_remote_allowed requirements \<and> domain \<noteq> LOCAL,
          REJECT_LOCALITY, ''request forbids remote placement''),
       (rr_offline_only requirements \<and> \<not> bd_offline_capable backend,
          REJECT_LOCALITY, ''request is offline-only''),
       (rr_required_localities requirements \<noteq> [] \<and>
          (locality = [] \<or> \<not> binary_search (rr_required_localities requirements) locality),
          REJECT_RESIDENCY, ''backend locality is not an allowed locality''),
       (locality \<noteq> [] \<and> binary_search (rr_denied_localities requirements) locality,
          REJECT_RESIDENCY, ''backend locality is denied''),
       (rr_minimum_trust requirements \<noteq> TrustDomain.UNKNOWN \<and> domain = TrustDomain.UNKNOWN,
          REJECT_UNKNOWN_EVIDENCE, ''a trust floor is required but candidate trust is UNKNOWN''),
       (rr_minimum_trust requirements \<noteq> TrustDomain.UNKNOWN \<and>
          trust_rank domain < trust_rank (rr_minimum_trust requirements),
          REJECT_TRUST, ''candidate trust domain is below the required floor'')])"

section \<open>Policy, budget, cost, service level, latency, compatibility\<close>

definition policy_checks ::
  "PolicySnapshot \<Rightarrow> RouteRequest \<Rightarrow> RouteCandidate \<Rightarrow> unix_millis \<Rightarrow> guarded_rejection list" where
  "policy_checks policy request candidate now =
     (let verdict = evaluate_candidate policy request candidate now in
      [(\<not> policy_allowed verdict,
          pv_code verdict,
          if pv_detail verdict = [] then ''policy denied the candidate'' else pv_detail verdict)])"

definition budget_checks ::
  "BudgetSnapshot option \<Rightarrow> RouteRequest \<Rightarrow> unix_millis \<Rightarrow> guarded_rejection list" where
  "budget_checks budget_option request now =
     (case budget_option of
        None \<Rightarrow> []
      | Some budget \<Rightarrow>
          if \<not> valid_id (rq_budget_id request) then []
          else
            [(\<not> valid_id (bs_generation budget) \<or> bs_verdict budget = BudgetVerdict.UNKNOWN,
                REJECT_UNKNOWN_EVIDENCE, ''budget verdict is UNKNOWN''),
             (BudgetSnapshot_expired budget now, REJECT_STALE_BUDGET, ''budget evidence is stale''),
             (valid_id (bs_budget_id budget) \<and> bs_budget_id budget \<noteq> rq_budget_id request,
                REJECT_STALE_BUDGET, ''budget identity does not match the request''),
             (bs_generation budget \<noteq> rq_budget_generation request,
                REJECT_STALE_BUDGET, ''budget generation is not the request budget generation''),
             (bs_verdict budget = DENIED, REJECT_BUDGET, ''budget verdict denies the request'')])"

definition cost_checks ::
  "RouteRequirements \<Rightarrow> CandidateEvidence \<Rightarrow> unix_millis \<Rightarrow> guarded_rejection list" where
  "cost_checks requirements evidence now =
     (let cost = cv_cost evidence;
          needed = rr_require_known_cost requirements \<or> rr_enforce_cost_ceiling requirements in
      [(needed \<and> \<not> CostEvidence_known cost,
          REJECT_COST_UNKNOWN, ''cost evidence is UNKNOWN and the request requires a known cost''),
       (needed \<and> \<not> CostEvidence_current cost now,
          REJECT_STALE_PRICE, ''cost evidence is stale or has no unit identity''),
       (rr_enforce_cost_ceiling requirements \<and>
          \<not> compatible_with (co_unit cost) (mo_unit (rr_maximum_cost requirements)),
          REJECT_COST, ''candidate cost unit is not compatible with the request ceiling unit''),
       (rr_enforce_cost_ceiling requirements \<and>
          co_estimated_total_micros cost > mo_micros (rr_maximum_cost requirements),
          REJECT_COST, ''estimated request cost exceeds the ceiling'')])"

definition slo_checks ::
  "RouteRequest \<Rightarrow> CandidateEvidence \<Rightarrow> unix_millis \<Rightarrow> guarded_rejection list" where
  "slo_checks request evidence now =
     (if \<not> rr_require_slo (rq_requirements request) then []
      else
        let slo = cv_slo evidence in
        [(\<not> valid_id (sl_generation slo) \<or> sl_verdict slo = SloVerdict.UNKNOWN,
            REJECT_UNKNOWN_EVIDENCE, ''SLO verdict is UNKNOWN''),
         (SloEvidence_expired slo now, REJECT_STALE_SLO, ''SLO evidence is stale''),
         (valid_id (sl_slo_id slo) \<and> sl_slo_id slo \<noteq> rq_slo_id request,
            REJECT_STALE_SLO, ''SLO identity does not match the request''),
         (sl_generation slo \<noteq> rq_slo_generation request,
            REJECT_STALE_SLO, ''SLO generation is not the request SLO generation''),
         (sl_verdict slo = INFEASIBLE, REJECT_SLO, ''SLO is infeasible for this candidate''),
         (\<not> cv_slo_verdict_known evidence,
            REJECT_UNKNOWN_EVIDENCE, ''per-candidate SLO feasibility is UNKNOWN''),
         (cv_slo_verdict evidence = INFEASIBLE,
            REJECT_SLO, ''per-candidate SLO feasibility is infeasible''),
         (cv_slo_verdict evidence = SloVerdict.UNKNOWN,
            REJECT_UNKNOWN_EVIDENCE, ''per-candidate SLO feasibility is UNKNOWN'')])"

definition latency_checks ::
  "RouteRequirements \<Rightarrow> RouteCandidate \<Rightarrow> unix_millis \<Rightarrow> guarded_rejection list" where
  "latency_checks requirements candidate now =
     (let latency = bd_latency (rc_backend candidate) in
      [(rr_require_known_latency requirements \<and> le_dispatch_micros latency = kUnknownLatencyMicros,
          REJECT_UNKNOWN_EVIDENCE, ''latency evidence is required but UNKNOWN''),
       (rr_max_latency_micros requirements \<noteq> kUnspecified \<and>
          le_dispatch_micros latency = kUnknownLatencyMicros,
          REJECT_UNKNOWN_EVIDENCE, ''a latency ceiling is required but latency is UNKNOWN''),
       (rr_max_latency_micros requirements \<noteq> kUnspecified \<and> LatencyEvidence_expired latency now,
          REJECT_UNKNOWN_EVIDENCE, ''latency evidence is stale''),
       (rr_max_latency_micros requirements \<noteq> kUnspecified \<and>
          le_dispatch_micros latency > rr_max_latency_micros requirements,
          REJECT_SLO, ''observed latency exceeds the request ceiling'')])"

definition compatibility_checks ::
  "RouteRequirements \<Rightarrow> CandidateEvidence \<Rightarrow> unix_millis \<Rightarrow> guarded_rejection list" where
  "compatibility_checks requirements evidence now =
     (let compatibility = cv_compatibility evidence in
      [(rr_require_known_compatibility requirements \<and> \<not> CompatibilityEvidence_current compatibility now,
          REJECT_UNKNOWN_EVIDENCE, ''compatibility evidence is required but UNKNOWN or stale''),
       (rr_required_protocol requirements = [] \<and> valid_id (cm_generation compatibility) \<and>
          cm_verdict compatibility = INCOMPATIBLE,
          REJECT_COMPATIBILITY, ''compatibility evidence is incompatible'')])"

section \<open>The evaluation\<close>

definition hard_checks ::
  "RouteRequest \<Rightarrow> RouteCandidate \<Rightarrow> PolicySnapshot \<Rightarrow> BudgetSnapshot option \<Rightarrow> CandidateEvidence \<Rightarrow>
   unix_millis \<Rightarrow> guarded_rejection list"
where
  "hard_checks request candidate policy budget evidence now =
     (let requirements = rq_requirements request in
      model_checks candidate now @ incarnation_checks candidate @
      live_state_checks requirements candidate now @
      reservation_checks requirements candidate evidence now @
      check_capabilities request candidate now @ check_modalities request candidate @
      check_shape request candidate evidence now @ limit_checks requirements candidate @
      identity_checks requirements candidate @ locality_checks requirements candidate @
      policy_checks policy request candidate now @ budget_checks budget request now @
      cost_checks requirements evidence now @ slo_checks request evidence now @
      latency_checks requirements candidate now @ compatibility_checks requirements evidence now)"

definition evaluate_hard_eligibility :: "EligibilityInput \<Rightarrow> EligibilityVerdict" where
  "evaluate_hard_eligibility input =
     (case (ei_request input, ei_candidate input, ei_policy input, ei_evidence input) of
        (Some request, Some candidate, Some policy, Some evidence) \<Rightarrow>
          (case first_reject (hard_checks request candidate policy (ei_budget input) evidence (ei_now input)) of
             None \<Rightarrow> eligibility_ok
           | Some r \<Rightarrow> eligibility_fail r)
      | _ \<Rightarrow> eligibility_fail (REJECT_INVALID, ''eligibility input is incomplete''))"

section \<open>What eligibility means\<close>

text \<open>The candidate names exactly the current model generation, binding, incarnation and endpoint.\<close>

definition identity_current :: "RouteCandidate \<Rightarrow> unix_millis \<Rightarrow> bool" where
  "identity_current c now \<longleftrightarrow>
     (let k = rc_key c; m = rc_model c; b = rc_backend c; e = rc_endpoint c in
      CandidateKey_complete k \<and> ModelDescriptor_current m now \<and>
      md_model_generation m = ck_model_generation k \<and>
      md_artifact_generation m = ck_artifact_generation k \<and>
      (\<exists>binding. find_binding b (ck_model_id k) = Some binding \<and>
         mb_model_generation binding = ck_model_generation k \<and>
         mb_artifact_generation binding = ck_artifact_generation k) \<and>
      bd_backend_boot b = ck_backend_boot k \<and> bd_backend_generation b = ck_backend_generation k \<and>
      \<not> BackendDescriptor_retired b \<and> \<not> BackendDescriptor_draining b \<and>
      ed_endpoint_generation e = ck_endpoint_generation k \<and> ed_endpoint_id e = ck_endpoint_id k)"

text \<open>A live fact is proven when its evidence is issued, unexpired, from this boot, and positive.\<close>

definition proven :: "'state BackendEvidence \<Rightarrow> 'state \<Rightarrow> generation \<Rightarrow> unix_millis \<Rightarrow> bool" where
  "proven e wanted boot now \<longleftrightarrow>
     valid_id (be_generation e) \<and> \<not> BackendEvidence_expired e now \<and> be_backend_boot e = boot \<and>
     be_state e = wanted"

definition live_state_proven ::
  "RouteRequirements \<Rightarrow> RouteCandidate \<Rightarrow> CandidateEvidence \<Rightarrow> unix_millis \<Rightarrow> bool" where
  "live_state_proven r c ev now \<longleftrightarrow>
     (let b = rc_backend c; boot = ck_backend_boot (rc_key c) in
      (rr_require_available r \<longrightarrow> proven (bd_availability b) AvailabilityState.AVAILABLE boot now) \<and>
      (rr_require_healthy r \<longrightarrow> proven (bd_health b) HEALTHY boot now) \<and>
      (rr_require_ready r \<longrightarrow> proven (bd_readiness b) READY boot now) \<and>
      (rr_require_resident r \<longrightarrow> proven (bd_residency b) RESIDENT boot now) \<and>
      (rr_require_capacity r \<longrightarrow> proven (bd_capacity b) CapacityState.AVAILABLE boot now) \<and>
      (rr_require_reservation r \<longrightarrow>
         cv_reservation_present ev \<and> ReservationEvidence_current (cv_reservation ev) now \<and>
         re_backend_id (cv_reservation ev) = ck_backend_id (rc_key c) \<and>
         re_backend_boot (cv_reservation ev) = boot))"

definition capability_proven ::
  "RouteRequest \<Rightarrow> RouteCandidate \<Rightarrow> CandidateEvidence \<Rightarrow> unix_millis \<Rightarrow> bool" where
  "capability_proven rq c ev now \<longleftrightarrow>
     (let r = rq_requirements rq; profile = md_capabilities (rc_model c); cm = cv_compatibility ev in
      (\<forall>q \<in> set (rr_required_capabilities r).
         capability_satisfies (CapabilityProfile_find profile (cr_key q)) (cr_minimum_state q) now \<or>
         capability_satisfies (CapabilityProfile_find (bd_capabilities (rc_backend c)) (cr_key q))
           (cr_minimum_state q) now) \<and>
      modality_covers (md_input_modalities (rc_model c)) (rr_required_input_modalities r) \<and>
      modality_covers (md_output_modalities (rc_model c)) (rr_required_output_modalities r) \<and>
      (rr_require_structured_output r \<longrightarrow> has_capability profile structured_output now) \<and>
      (rr_require_json_schema r \<longrightarrow> has_capability profile json_schema now) \<and>
      (rr_require_tool_calling r \<longrightarrow> has_capability profile tool_calling now) \<and>
      (rr_require_streaming r \<longrightarrow> has_capability profile streaming now) \<and>
      (rr_require_logprobs r \<longrightarrow> has_capability profile logprobs now) \<and>
      (rr_require_deterministic_seed r \<longrightarrow> has_capability profile deterministic_seed now) \<and>
      (rr_required_protocol r \<noteq> [] \<longrightarrow>
         CompatibilityEvidence_current cm now \<and> cm_protocol cm = rr_required_protocol r \<and>
         (rr_required_protocol_version r = 0 \<or>
          cm_protocol_version cm = rr_required_protocol_version r)) \<and>
      rr_min_context_tokens r \<le> rc_context_limit_tokens c \<and>
      rr_max_output_tokens r \<le> md_max_output_tokens (rc_model c) \<and>
      (rr_quality_floor r \<noteq> kUnclassifiedQuality \<longrightarrow>
         rc_quality_class c \<noteq> kUnclassifiedQuality \<and> rr_quality_floor r \<le> rc_quality_class c))"

definition filter_admits :: "entity_id list \<Rightarrow> entity_id list \<Rightarrow> entity_id \<Rightarrow> bool" where
  "filter_admits allow deny x \<longleftrightarrow> (allow = [] \<or> x \<in> set allow) \<and> x \<notin> set deny"

definition placement_admitted :: "RouteRequirements \<Rightarrow> RouteCandidate \<Rightarrow> bool" where
  "placement_admitted r c \<longleftrightarrow>
     (let b = rc_backend c; domain = bd_trust_domain b; locality = bd_locality b in
      filter_admits (rr_model_allowlist r) (rr_model_denylist r) (ck_model_id (rc_key c)) \<and>
      filter_admits (rr_family_allowlist r) (rr_family_denylist r) (md_family_id (rc_model c)) \<and>
      filter_admits (rr_provider_allowlist r) (rr_provider_denylist r) (bd_provider_id b) \<and>
      filter_admits (rr_backend_allowlist r) (rr_backend_denylist r) (ck_backend_id (rc_key c)) \<and>
      (rr_local_only r \<longrightarrow> domain = LOCAL) \<and> (\<not> rr_remote_allowed r \<longrightarrow> domain = LOCAL) \<and>
      (rr_offline_only r \<longrightarrow> bd_offline_capable b) \<and>
      (rr_required_localities r \<noteq> [] \<longrightarrow> locality \<noteq> [] \<and> locality \<in> set (rr_required_localities r)) \<and>
      (locality \<noteq> [] \<longrightarrow> locality \<notin> set (rr_denied_localities r)) \<and>
      (rr_minimum_trust r \<noteq> TrustDomain.UNKNOWN \<longrightarrow>
         domain \<noteq> TrustDomain.UNKNOWN \<and> trust_rank (rr_minimum_trust r) \<le> trust_rank domain))"

definition budget_admits :: "BudgetSnapshot option \<Rightarrow> RouteRequest \<Rightarrow> unix_millis \<Rightarrow> bool" where
  "budget_admits budget rq now \<longleftrightarrow>
     (\<forall>b. budget = Some b \<and> valid_id (rq_budget_id rq) \<longrightarrow>
        BudgetSnapshot_current b now \<and> bs_verdict b = ALLOWED \<and>
        bs_generation b = rq_budget_generation rq \<and>
        (valid_id (bs_budget_id b) \<longrightarrow> bs_budget_id b = rq_budget_id rq))"

definition economics_admit ::
  "RouteRequest \<Rightarrow> RouteCandidate \<Rightarrow> CandidateEvidence \<Rightarrow> unix_millis \<Rightarrow> bool" where
  "economics_admit rq c ev now \<longleftrightarrow>
     (let r = rq_requirements rq; cost = cv_cost ev; latency = bd_latency (rc_backend c);
          slo = cv_slo ev; cm = cv_compatibility ev in
      (rr_require_known_cost r \<or> rr_enforce_cost_ceiling r \<longrightarrow> CostEvidence_current cost now) \<and>
      (rr_enforce_cost_ceiling r \<longrightarrow>
         compatible_with (co_unit cost) (mo_unit (rr_maximum_cost r)) \<and>
         co_estimated_total_micros cost \<le> mo_micros (rr_maximum_cost r)) \<and>
      (rr_require_slo r \<longrightarrow>
         SloEvidence_current slo now \<and> sl_verdict slo = FEASIBLE \<and>
         (valid_id (sl_slo_id slo) \<longrightarrow> sl_slo_id slo = rq_slo_id rq) \<and>
         sl_generation slo = rq_slo_generation rq \<and>
         cv_slo_verdict_known ev \<and> cv_slo_verdict ev = FEASIBLE) \<and>
      (rr_require_known_latency r \<longrightarrow> le_dispatch_micros latency \<noteq> kUnknownLatencyMicros) \<and>
      (rr_max_latency_micros r \<noteq> kUnspecified \<longrightarrow>
         le_dispatch_micros latency \<noteq> kUnknownLatencyMicros \<and>
         \<not> LatencyEvidence_expired latency now \<and>
         le_dispatch_micros latency \<le> rr_max_latency_micros r) \<and>
      (rr_require_known_compatibility r \<longrightarrow> CompatibilityEvidence_current cm now) \<and>
      (rr_required_protocol r = [] \<and> valid_id (cm_generation cm) \<longrightarrow> cm_verdict cm \<noteq> INCOMPATIBLE))"

section \<open>Each group requires what it says\<close>

named_theorems group_simps \<open>unfolding of the check groups\<close>

lemmas none_unfold [group_simps] =
  first_reject_None_iff list.pred_inject list_all_append fst_conv Let_def not_less

lemma model_incarnation_None:
  "first_reject (model_checks c now @ incarnation_checks c) = None \<longleftrightarrow> identity_current c now"
proof (cases "find_binding (rc_backend c) (ck_model_id (rc_key c))")
  case None
  then show ?thesis
    by (simp add: model_checks_def identity_current_def group_simps)
next
  case (Some binding)
  then show ?thesis
    by (auto simp: model_checks_def incarnation_checks_def identity_current_def group_simps
        CandidateKey_complete_def ModelDescriptor_current_def)
qed

lemma live_checks_None:
  assumes "wanted \<noteq> unknown"
  shows "first_reject (live_checks required e unknown wanted boot now what stale failed) = None \<longleftrightarrow>
    (required \<longrightarrow> proven e wanted boot now)"
  using assms by (auto simp: live_checks_def proven_def group_simps)

lemma live_state_None:
  "first_reject (live_state_checks r c now @ reservation_checks r c ev now) = None \<longleftrightarrow>
     live_state_proven r c ev now"
  unfolding live_state_checks_def live_state_proven_def reservation_checks_def Let_def
    first_reject_append_None
  by (simp add: live_checks_None)

lemma capability_None:
  "first_reject (check_capabilities rq c now @ check_modalities rq c @ check_shape rq c ev now @
     limit_checks (rq_requirements rq) c) = None \<longleftrightarrow> capability_proven rq c ev now"
proof -
  have "first_reject (check_capabilities rq c now) = None \<longleftrightarrow>
      (\<forall>q \<in> set (rr_required_capabilities (rq_requirements rq)).
         capability_satisfies (CapabilityProfile_find (md_capabilities (rc_model c)) (cr_key q))
           (cr_minimum_state q) now \<or>
         capability_satisfies (CapabilityProfile_find (bd_capabilities (rc_backend c)) (cr_key q))
           (cr_minimum_state q) now)"
    by (auto simp: check_capabilities_def first_reject_None_iff list_all_iff Let_def)
  moreover have "first_reject (check_modalities rq c @ check_shape rq c ev now @
      limit_checks (rq_requirements rq) c) = None \<longleftrightarrow>
      (let r = rq_requirements rq; profile = md_capabilities (rc_model c); cm = cv_compatibility ev in
       modality_covers (md_input_modalities (rc_model c)) (rr_required_input_modalities r) \<and>
       modality_covers (md_output_modalities (rc_model c)) (rr_required_output_modalities r) \<and>
       (rr_require_structured_output r \<longrightarrow> has_capability profile structured_output now) \<and>
       (rr_require_json_schema r \<longrightarrow> has_capability profile json_schema now) \<and>
       (rr_require_tool_calling r \<longrightarrow> has_capability profile tool_calling now) \<and>
       (rr_require_streaming r \<longrightarrow> has_capability profile streaming now) \<and>
       (rr_require_logprobs r \<longrightarrow> has_capability profile logprobs now) \<and>
       (rr_require_deterministic_seed r \<longrightarrow> has_capability profile deterministic_seed now) \<and>
       (rr_required_protocol r \<noteq> [] \<longrightarrow>
          CompatibilityEvidence_current cm now \<and> cm_protocol cm = rr_required_protocol r \<and>
          (rr_required_protocol_version r = 0 \<or>
           cm_protocol_version cm = rr_required_protocol_version r)) \<and>
       rr_min_context_tokens r \<le> rc_context_limit_tokens c \<and>
       rr_max_output_tokens r \<le> md_max_output_tokens (rc_model c) \<and>
       (rr_quality_floor r \<noteq> kUnclassifiedQuality \<longrightarrow>
          rc_quality_class c \<noteq> kUnclassifiedQuality \<and> rr_quality_floor r \<le> rc_quality_class c))"
    unfolding check_modalities_def check_shape_def limit_checks_def Let_def first_reject_None_iff
      append.simps
    by (simp only: list.pred_inject fst_conv not_less [symmetric] simp_thms) argo
  ultimately show ?thesis
    unfolding capability_proven_def first_reject_append_None [of "check_capabilities rq c now"] Let_def
    by (simp only: simp_thms)
qed

lemma identity_filter_None:
  assumes "strictly_ascending allow" and "strictly_ascending deny"
  shows "first_reject (identity_filter allow deny x what) = None \<longleftrightarrow> filter_admits allow deny x"
  using assms
  by (auto simp: identity_filter_def filter_admits_def group_simps binary_search_canonical)

lemma placement_None:
  assumes "requirements_canonical r"
  shows "first_reject (identity_checks r c @ locality_checks r c) = None \<longleftrightarrow> placement_admitted r c"
proof -
  have loc: "first_reject (locality_checks r c) = None \<longleftrightarrow>
      (let b = rc_backend c; domain = bd_trust_domain b; locality = bd_locality b in
       (rr_local_only r \<longrightarrow> domain = LOCAL) \<and> (\<not> rr_remote_allowed r \<longrightarrow> domain = LOCAL) \<and>
       (rr_offline_only r \<longrightarrow> bd_offline_capable b) \<and>
       (rr_required_localities r \<noteq> [] \<longrightarrow> locality \<noteq> [] \<and> locality \<in> set (rr_required_localities r)) \<and>
       (locality \<noteq> [] \<longrightarrow> locality \<notin> set (rr_denied_localities r)) \<and>
       (rr_minimum_trust r \<noteq> TrustDomain.UNKNOWN \<longrightarrow>
          domain \<noteq> TrustDomain.UNKNOWN \<and> trust_rank (rr_minimum_trust r) \<le> trust_rank domain))"
    using assms unfolding requirements_canonical_def locality_checks_def Let_def
    by (simp only: first_reject_None_iff list.pred_inject fst_conv not_less [symmetric] simp_thms
        binary_search_canonical) argo
  have "first_reject (identity_checks r c) = None \<longleftrightarrow>
      filter_admits (rr_model_allowlist r) (rr_model_denylist r) (ck_model_id (rc_key c)) \<and>
      filter_admits (rr_family_allowlist r) (rr_family_denylist r) (md_family_id (rc_model c)) \<and>
      filter_admits (rr_provider_allowlist r) (rr_provider_denylist r) (bd_provider_id (rc_backend c)) \<and>
      filter_admits (rr_backend_allowlist r) (rr_backend_denylist r) (ck_backend_id (rc_key c))"
    using assms unfolding requirements_canonical_def identity_checks_def
    by (simp add: first_reject_append_None identity_filter_None)
  with loc show ?thesis
    unfolding first_reject_append_None placement_admitted_def Let_def by (simp only: conj_assoc)
qed

lemma budget_None: "first_reject (budget_checks budget rq now) = None \<longleftrightarrow> budget_admits budget rq now"
proof (cases budget)
  case (Some b)
  then show ?thesis
    by (cases "bs_verdict b")
       (auto simp: budget_checks_def budget_admits_def BudgetSnapshot_current_def group_simps)
qed (simp add: budget_checks_def budget_admits_def)

lemma slo_None:
  "first_reject (slo_checks rq ev now) = None \<longleftrightarrow>
     (rr_require_slo (rq_requirements rq) \<longrightarrow>
        SloEvidence_current (cv_slo ev) now \<and> sl_verdict (cv_slo ev) = FEASIBLE \<and>
        (valid_id (sl_slo_id (cv_slo ev)) \<longrightarrow> sl_slo_id (cv_slo ev) = rq_slo_id rq) \<and>
        sl_generation (cv_slo ev) = rq_slo_generation rq \<and>
        cv_slo_verdict_known ev \<and> cv_slo_verdict ev = FEASIBLE)"
  by (cases "sl_verdict (cv_slo ev)"; cases "cv_slo_verdict ev")
     (auto simp: slo_checks_def SloEvidence_current_def group_simps)

lemma economics_None:
  "first_reject (cost_checks (rq_requirements rq) ev now @ slo_checks rq ev now @
     latency_checks (rq_requirements rq) c now @
     compatibility_checks (rq_requirements rq) ev now) = None \<longleftrightarrow> economics_admit rq c ev now"
proof -
  have known: "CostEvidence_current e now \<Longrightarrow> CostEvidence_known e" for e
    by (simp add: CostEvidence_current_def)
  have "first_reject (cost_checks (rq_requirements rq) ev now) = None \<longleftrightarrow>
      (rr_require_known_cost (rq_requirements rq) \<or> rr_enforce_cost_ceiling (rq_requirements rq) \<longrightarrow>
         CostEvidence_current (cv_cost ev) now) \<and>
      (rr_enforce_cost_ceiling (rq_requirements rq) \<longrightarrow>
         compatible_with (co_unit (cv_cost ev)) (mo_unit (rr_maximum_cost (rq_requirements rq))) \<and>
         co_estimated_total_micros (cv_cost ev) \<le> mo_micros (rr_maximum_cost (rq_requirements rq)))"
    using known [of "cv_cost ev"] by (auto simp: cost_checks_def group_simps)
  moreover have "first_reject (latency_checks (rq_requirements rq) c now @
      compatibility_checks (rq_requirements rq) ev now) = None \<longleftrightarrow>
      (let r = rq_requirements rq; latency = bd_latency (rc_backend c); cm = cv_compatibility ev in
       (rr_require_known_latency r \<longrightarrow> le_dispatch_micros latency \<noteq> kUnknownLatencyMicros) \<and>
       (rr_max_latency_micros r \<noteq> kUnspecified \<longrightarrow>
          le_dispatch_micros latency \<noteq> kUnknownLatencyMicros \<and>
          \<not> LatencyEvidence_expired latency now \<and>
          le_dispatch_micros latency \<le> rr_max_latency_micros r) \<and>
       (rr_require_known_compatibility r \<longrightarrow> CompatibilityEvidence_current cm now) \<and>
       (rr_required_protocol r = [] \<and> valid_id (cm_generation cm) \<longrightarrow> cm_verdict cm \<noteq> INCOMPATIBLE))"
    unfolding latency_checks_def compatibility_checks_def Let_def first_reject_None_iff append.simps
    by (simp only: list.pred_inject fst_conv not_less [symmetric] simp_thms) argo
  ultimately show ?thesis
    unfolding economics_admit_def Let_def first_reject_append_None slo_None by argo
qed

definition hard_eligible ::
  "RouteRequest \<Rightarrow> RouteCandidate \<Rightarrow> PolicySnapshot \<Rightarrow> BudgetSnapshot option \<Rightarrow> CandidateEvidence \<Rightarrow>
   unix_millis \<Rightarrow> bool"
where
  "hard_eligible rq c p budget ev now \<longleftrightarrow>
     identity_current c now \<and> live_state_proven (rq_requirements rq) c ev now \<and>
     capability_proven rq c ev now \<and> placement_admitted (rq_requirements rq) c \<and>
     policy_allowed (evaluate_candidate p rq c now) \<and> budget_admits budget rq now \<and>
     economics_admit rq c ev now"

lemma policy_checks_None:
  "first_reject (policy_checks p rq c now) = None \<longleftrightarrow> policy_allowed (evaluate_candidate p rq c now)"
  by (simp add: policy_checks_def Let_def)

lemma hard_checks_None:
  assumes "requirements_canonical (rq_requirements rq)"
  shows "first_reject (hard_checks rq c p budget ev now) = None \<longleftrightarrow> hard_eligible rq c p budget ev now"
proof -
  let ?r = "rq_requirements rq"
  have "first_reject (hard_checks rq c p budget ev now) = None \<longleftrightarrow>
      first_reject (model_checks c now @ incarnation_checks c) = None \<and>
      first_reject (live_state_checks ?r c now @ reservation_checks ?r c ev now) = None \<and>
      first_reject (check_capabilities rq c now @ check_modalities rq c @ check_shape rq c ev now @
        limit_checks ?r c) = None \<and>
      first_reject (identity_checks ?r c @ locality_checks ?r c) = None \<and>
      first_reject (policy_checks p rq c now) = None \<and>
      first_reject (budget_checks budget rq now) = None \<and>
      first_reject (cost_checks ?r ev now @ slo_checks rq ev now @ latency_checks ?r c now @
        compatibility_checks ?r ev now) = None"
    unfolding hard_checks_def Let_def first_reject_append_None by (simp only: conj_assoc)
  then show ?thesis
    by (simp only: model_incarnation_None live_state_None capability_None placement_None [OF assms]
        policy_checks_None budget_None economics_None hard_eligible_def)
qed

lemma hard_check_codes:
  "(True, code, detail) \<in> set (hard_checks rq c p budget ev now) \<Longrightarrow> code \<noteq> ACCEPTED"
  unfolding hard_checks_def Let_def set_append
  by (elim UnE)
     (auto simp: model_checks_def incarnation_checks_def live_state_checks_def live_checks_def
       reservation_checks_def check_capabilities_def capability_failure_def check_modalities_def
       check_shape_def limit_checks_def identity_checks_def identity_filter_def locality_checks_def
       policy_checks_def policy_allowed_def budget_checks_def cost_checks_def slo_checks_def
       latency_checks_def compatibility_checks_def Let_def split: if_splits option.splits)

lemma evaluate_eligible_iff:
  "eligible (evaluate_hard_eligibility input) \<longleftrightarrow>
     (\<exists>rq c p ev. ei_request input = Some rq \<and> ei_candidate input = Some c \<and>
        ei_policy input = Some p \<and> ei_evidence input = Some ev \<and>
        first_reject (hard_checks rq c p (ei_budget input) ev (ei_now input)) = None)"
proof -
  have "first_reject (hard_checks rq c p b ev now) \<noteq> Some (ACCEPTED, detail)" for rq c p b ev now detail
    using hard_check_codes first_reject_Some_mem by blast
  then show ?thesis
    by (auto simp: evaluate_hard_eligibility_def eligible_def eligibility_ok_def eligibility_fail_def
        split: option.splits)
qed

section \<open>Sample data\<close>

text \<open>A healthy local backend serving one model, and a request for it; the witnesses use them.\<close>

definition sample_live :: "'state \<Rightarrow> 'state BackendEvidence" where
  "sample_live s = (BackendEvidence_default s)\<lparr>be_generation := 1, be_backend_id := 7, be_backend_boot := 1\<rparr>"

definition sample_model :: ModelDescriptor where
  "sample_model =
     \<lparr>md_model_id = 3, md_model_generation = 1, md_model_version_id = 1, md_artifact_generation = 1,
      md_family_id = 0, md_context_limit_tokens = 8192, md_max_output_tokens = 1024,
      md_input_modalities = 1, md_output_modalities = 1, md_quality_class = 5,
      md_lifecycle = ModelLifecycle.CURRENT, md_capability_profile_id = 0,
      md_capability_generation = 0, md_capabilities = CapabilityProfile_empty,
      md_provenance = SYNTHETIC, md_registered_at = 0, md_expires_at = 0, md_display_name = []\<rparr>"

definition sample_binding :: ModelBinding where
  "sample_binding =
     \<lparr>mb_model_id = 3, mb_model_generation = 1, mb_artifact_generation = 1,
      mb_context_limit_tokens = 0, mb_quality_class = 0, mb_cost = CostEvidence_default,
      mb_bound_at = 0\<rparr>"

definition sample_endpoint :: EndpointDescriptor where
  "sample_endpoint =
     \<lparr>ed_endpoint_id = 9, ed_endpoint_generation = 1, ed_backend_id = 7, ed_backend_boot = 1,
      ed_reference = ''local'', ed_protocol = [], ed_protocol_version = 0\<rparr>"

definition sample_backend :: BackendDescriptor where
  "sample_backend =
     \<lparr>bd_backend_id = 7, bd_backend_generation = 1, bd_backend_boot = 1,
      bd_backend_registration_generation = 1, bd_provider_id = 2, bd_provider_generation = 1,
      bd_endpoint = sample_endpoint, bd_trust_profile_id = 1, bd_trust_generation = 1,
      bd_trust_domain = LOCAL, bd_locality = [], bd_network_distance = 0,
      bd_capability_profile_id = 1, bd_capability_generation = 1,
      bd_capabilities = CapabilityProfile_empty, bd_compatibility_profile_id = 0,
      bd_compatibility_generation = 0, bd_model_bindings = [sample_binding],
      bd_health = sample_live HEALTHY, bd_availability = sample_live AvailabilityState.AVAILABLE,
      bd_readiness = sample_live READY, bd_residency = sample_live RESIDENT,
      bd_capacity = sample_live CapacityState.AVAILABLE, bd_capacity_detail = CapacityDetail_default,
      bd_latency = LatencyEvidence_default, bd_reliability_ppm = 0, bd_offline_capable = True,
      bd_provenance = SYNTHETIC, bd_registered_at = 0, bd_expires_at = 0\<rparr>"

definition sample_request :: RouteRequest where
  "sample_request =
     \<lparr>rq_request_id = 21, rq_request_generation = 1,
      rq_requirements = RouteRequirements_default\<lparr>rr_required_input_modalities := 1\<rparr>,
      rq_caller = CallerAuthority_default, rq_tenant = 4, rq_name_space = 0, rq_policy_id = 5,
      rq_policy_generation = 1, rq_budget_id = 0, rq_budget_generation = 0, rq_slo_id = 0,
      rq_slo_generation = 0, rq_correlation_id = 0, rq_estimated_input_tokens = 0,
      rq_estimated_output_tokens = 0, rq_created_at = 0, rq_expires_at = 0\<rparr>"

definition sample_policy :: PolicySnapshot where
  "sample_policy = PolicySnapshot_default\<lparr>ps_policy_id := 5, ps_generation := 1\<rparr>"

definition sample_candidate :: RouteCandidate where
  "sample_candidate =
     \<lparr>rc_key = CandidateKey 3 1 1 7 1 1 9 1, rc_model = sample_model, rc_backend = sample_backend,
      rc_endpoint = sample_endpoint, rc_context_limit_tokens = 8192, rc_quality_class = 5,
      rc_required_capabilities_satisfied = 0, rc_required_capabilities_total = 0,
      rc_preferred_capabilities_satisfied = 0, rc_preferred_capabilities_total = 0,
      rc_discovery_source = []\<rparr>"

definition sample_evidence :: CandidateEvidence where
  "sample_evidence =
     \<lparr>cv_cost = CostEvidence_default, cv_compatibility = CompatibilityEvidence_default,
      cv_trust = \<lparr>te_profile_id = 1, te_generation = 1, te_backend_id = 7, te_domain = LOCAL,
                  te_observed_at = 0, te_expires_at = 0, te_source = []\<rparr>,
      cv_slo = SloEvidence_default, cv_slo_verdict = SloVerdict.UNKNOWN,
      cv_slo_verdict_known = False, cv_reservation = ReservationEvidence_default,
      cv_reservation_present = False\<rparr>"

lemmas sample_defs = sample_live_def BackendEvidence_default_def sample_model_def sample_binding_def
  sample_endpoint_def sample_backend_def sample_request_def sample_policy_def sample_candidate_def
  sample_evidence_def

lemma sample_policy_canonical: "policy_canonical sample_policy"
  by (simp add: policy_canonical_def sample_policy_def PolicySnapshot_default_def)

lemma sample_requirements_canonical: "requirements_canonical (rq_requirements sample_request)"
  by (simp add: requirements_canonical_def sample_request_def RouteRequirements_default_def)

lemma sample_policy_admits:
  "PolicySnapshot_current sample_policy 50 \<and> policy_identity_admits sample_policy sample_candidate \<and>
   policy_placement_admits sample_policy sample_candidate \<and>
   policy_evidence_admits sample_policy sample_candidate"
  by (simp add: policy_identity_admits_def policy_placement_admits_def policy_evidence_admits_def
      listed_def sample_policy_def PolicySnapshot_default_def PolicySnapshot_current_def
      valid_id_def expired_at_def Money_default_def Let_def)

lemma sample_identity: "identity_current sample_candidate 50"
  by (simp add: identity_current_def sample_defs CandidateKey_complete_def valid_id_def
      ModelDescriptor_current_def expired_at_def find_binding_def find_by_key_def lower_bound_def
      lower_bound_loop.simps BackendDescriptor_retired_def BackendDescriptor_draining_def)

lemma sample_live_state:
  "live_state_proven (rq_requirements sample_request) sample_candidate sample_evidence 50"
  by (simp add: live_state_proven_def proven_def sample_defs RouteRequirements_default_def
      valid_id_def BackendEvidence_expired_def expired_at_def)

lemma sample_eligible:
  "hard_eligible sample_request sample_candidate sample_policy None sample_evidence 50"
proof -
  have "capability_proven sample_request sample_candidate sample_evidence 50"
    by (simp add: capability_proven_def sample_defs RouteRequirements_default_def modality_covers_def)
  moreover have "placement_admitted (rq_requirements sample_request) sample_candidate"
    by (simp add: placement_admitted_def sample_defs RouteRequirements_default_def filter_admits_def)
  moreover have "budget_admits None sample_request 50" by (simp add: budget_admits_def)
  moreover have "economics_admit sample_request sample_candidate sample_evidence 50"
    by (simp add: economics_admit_def sample_defs RouteRequirements_default_def
        CompatibilityEvidence_default_def)
  ultimately show ?thesis
    unfolding hard_eligible_def evaluate_candidate_allowed_iff
      candidate_checks_admit [OF sample_policy_canonical]
    using sample_identity sample_live_state sample_policy_admits by blast
qed

section \<open>Properties\<close>

text \<open>
  (C10) Hard eligibility is exact: for canonical requirements, the evaluation accepts a candidate if
  and only if the candidate names the current model, binding, incarnation and endpoint, every
  required live fact is proven by unexpired evidence of this very boot, every required
  capability is proven, the filters, placement and policy admit it, and budget, cost, service
  level, latency and compatibility requirements are met.
\<close>

theorem eligibility_exact:
  assumes "requirements_canonical (rq_requirements rq)"
  shows "eligible (evaluate_hard_eligibility
      \<lparr>ei_request = Some rq, ei_candidate = Some c, ei_policy = Some p, ei_budget = budget,
       ei_evidence = Some ev, ei_now = now\<rparr>) \<longleftrightarrow> hard_eligible rq c p budget ev now"
  by (simp add: evaluate_eligible_iff hard_checks_None [OF assms])

theorem eligibility_exact_witness:
  "requirements_canonical (rq_requirements sample_request) \<and>
   eligible (evaluate_hard_eligibility
      \<lparr>ei_request = Some sample_request, ei_candidate = Some sample_candidate,
       ei_policy = Some sample_policy, ei_budget = None, ei_evidence = Some sample_evidence,
       ei_now = 50\<rparr>)"
  using eligibility_exact [OF sample_requirements_canonical] sample_eligible
    sample_requirements_canonical by blast

text \<open>
  (C13) Unknown evidence never passes: whatever the request requires of availability, health,
  readiness, residency or capacity, an accepted candidate has evidence for it with a valid
  generation, from its own boot, not expired and in the positive state.
\<close>

theorem eligible_live_state_known:
  assumes "eligible (evaluate_hard_eligibility
      \<lparr>ei_request = Some rq, ei_candidate = Some c, ei_policy = Some p, ei_budget = budget,
       ei_evidence = Some ev, ei_now = now\<rparr>)"
  shows "live_state_proven (rq_requirements rq) c ev now"
  using assms
  unfolding evaluate_eligible_iff hard_checks_def Let_def live_state_None [symmetric]
    first_reject_append_None by simp

theorem eligible_live_state_known_witness:
  "live_state_proven (rq_requirements sample_request) sample_candidate sample_evidence 50"
  by (rule eligible_live_state_known [where p = sample_policy and budget = None])
     (simp add: evaluate_eligible_iff hard_checks_None [OF sample_requirements_canonical] sample_eligible)


end
