(* ===== verification/Ranking.thy ===== *)
theory Ranking
  imports Eligibility
begin

text \<open>
  Deterministic factor construction: \<open>src/ranking.hpp\<close> and \<open>src/ranking.cpp\<close>.

  Scores are 64-bit signed integers in the code; the model computes in the integers with the
  saturation guards written out, and the bounds proved here show that a score built from
  validated weights stays far inside the 64-bit range.  Every one of the 29 \<open>push\<close> statements
  is one \<open>factor_entry\<close>: known with a value, or unknown with contribution zero.
\<close>

section \<open>Integer helpers\<close>

text \<open>C++ division of signed integers truncates towards zero.\<close>

definition tdiv :: "int \<Rightarrow> int \<Rightarrow> int" where
  "tdiv a b = sgn a * sgn b * (\<bar>a\<bar> div \<bar>b\<bar>)"

abbreviation (input) kScale :: int where
  "kScale \<equiv> kFactorScale"

definition saturating_add :: "int \<Rightarrow> int \<Rightarrow> int" where
  "saturating_add lhs rhs =
     (if rhs > 0 \<and> lhs > int64_max - rhs then int64_max
      else if rhs < 0 \<and> lhs < int64_min - rhs then int64_min
      else lhs + rhs)"

definition mul_div :: "int \<Rightarrow> int \<Rightarrow> int \<Rightarrow> int" where
  "mul_div value numerator denominator =
     (if denominator \<le> 0 then 0
      else if value = 0 \<or> numerator = 0 then 0
      else if value > 0 \<and> numerator > 0 \<and> value > tdiv int64_max numerator then int64_max
      else if value > 0 \<and> numerator < 0 \<and> numerator < tdiv int64_min value then int64_min
      else tdiv (value * numerator) denominator)"

definition clamp :: "int \<Rightarrow> int \<Rightarrow> int \<Rightarrow> int" where
  "clamp v lo hi = (if v < lo then lo else if hi < v then hi else v)"

definition unknown :: "RankingFactor \<Rightarrow> int \<Rightarrow> FactorValue" where
  "unknown factor w =
     \<lparr>fv_factor = factor, fv_known = False, fv_normalized = 0, fv_raw = 0, fv_weight_ppm = w,
      fv_contribution = 0, fv_evidence_generation = 0, fv_source = []\<rparr>"

definition known_value :: "RankingFactor \<Rightarrow> int \<Rightarrow> int \<Rightarrow> int \<Rightarrow> FactorValue" where
  "known_value factor raw normalized w =
     (let n = clamp normalized 0 kScale in
      \<lparr>fv_factor = factor, fv_known = True, fv_normalized = n, fv_raw = raw, fv_weight_ppm = w,
       fv_contribution = mul_div n w kScale, fv_evidence_generation = 0, fv_source = []\<rparr>)"

definition reference :: "int \<Rightarrow> int" where
  "reference value = (if value > 0 then value else 1)"

definition normalize_higher_better :: "int \<Rightarrow> int \<Rightarrow> int" where
  "normalize_higher_better raw ref =
     (if raw \<le> 0 then 0 else clamp (mul_div raw kScale (reference ref)) 0 kScale)"

definition normalize_lower_better :: "int \<Rightarrow> int \<Rightarrow> int" where
  "normalize_lower_better raw ref =
     (if raw \<le> 0 then kScale
      else let cost = mul_div raw kScale (reference ref)
           in if cost \<ge> kScale then 0 else kScale - cost)"

section \<open>Factors\<close>

record RankingContext =
  rx_request :: RouteRequest
  rx_evidence :: CandidateEvidence
  rx_policy_verdict :: "PolicyVerdict option"
  rx_weights :: RankingWeights
  rx_scales :: RankingScales
  rx_now :: unix_millis
  rx_continuity_backend :: entity_id
  rx_has_continuity_backend :: bool
  rx_diversity_reference_provider :: entity_id
  rx_has_diversity_reference :: bool

text \<open>One \<open>push\<close>: the known value with its evidence generation and source, or the unknown one.\<close>

definition factor_entry ::
  "RankingWeights \<Rightarrow> RankingFactor \<Rightarrow> bool \<Rightarrow> int \<Rightarrow> int \<Rightarrow> u64 \<Rightarrow> string \<Rightarrow> FactorValue" where
  "factor_entry weights factor is_known raw normalized evidence_generation source =
     (if is_known
      then (known_value factor raw normalized (weight weights factor))
             \<lparr>fv_evidence_generation := evidence_generation, fv_source := source\<rparr>
      else unknown factor (weight weights factor))"

definition readiness_index :: "ReadinessState \<Rightarrow> int" where
  "readiness_index s =
     (case s of ReadinessState.UNKNOWN \<Rightarrow> 0 | READY \<Rightarrow> 1 | WARMING \<Rightarrow> 2 | NOT_READY \<Rightarrow> 3)"

definition residency_index :: "ResidencyState \<Rightarrow> int" where
  "residency_index s =
     (case s of ResidencyState.UNKNOWN \<Rightarrow> 0 | RESIDENT \<Rightarrow> 1 | LOADING \<Rightarrow> 2 | NOT_RESIDENT \<Rightarrow> 3
              | EVICTING \<Rightarrow> 4)"

definition availability_index :: "AvailabilityState \<Rightarrow> int" where
  "availability_index s =
     (case s of AvailabilityState.UNKNOWN \<Rightarrow> 0 | AvailabilityState.AVAILABLE \<Rightarrow> 1 | UNAVAILABLE \<Rightarrow> 2)"

definition health_index :: "HealthState \<Rightarrow> int" where
  "health_index s =
     (case s of HealthState.UNKNOWN \<Rightarrow> 0 | HEALTHY \<Rightarrow> 1 | DEGRADED \<Rightarrow> 2 | UNHEALTHY \<Rightarrow> 3
              | DRAINING \<Rightarrow> 4 | HealthState.RETIRED \<Rightarrow> 5)"

definition live_known :: "'state BackendEvidence \<Rightarrow> 'state \<Rightarrow> unix_millis \<Rightarrow> bool" where
  "live_known e unknown_state now \<longleftrightarrow>
     valid_id (be_generation e) \<and> \<not> BackendEvidence_expired e now \<and> be_state e \<noteq> unknown_state"

definition coverage :: "u32 \<Rightarrow> u32 \<Rightarrow> int" where
  "coverage satisfied required = mul_div (uint satisfied) kScale (uint required)"

definition latency_known :: "LatencyEvidence \<Rightarrow> unix_millis \<Rightarrow> u32 \<Rightarrow> bool" where
  "latency_known latency now micros \<longleftrightarrow>
     \<not> LatencyEvidence_expired latency now \<and> micros \<noteq> kUnknownLatencyMicros"

definition readiness_score :: "ReadinessState \<Rightarrow> int" where
  "readiness_score s = (case s of READY \<Rightarrow> kScale | WARMING \<Rightarrow> kScale div 2 | _ \<Rightarrow> 0)"

definition warmth_score :: "BackendDescriptor \<Rightarrow> RankingScales \<Rightarrow> unix_millis \<Rightarrow> int" where
  "warmth_score b scales now =
     (let normalized = readiness_score (be_state (bd_readiness b));
          penalty = le_cold_start_penalty_micros (bd_latency b)
      in if latency_known (bd_latency b) now penalty
         then normalized - mul_div (uint penalty) kScale (reference (startup_cost_reference_micros scales))
         else normalized)"

definition binary_score :: "bool \<Rightarrow> int" where
  "binary_score matches = (if matches then kScale else 0)"

text \<open>A list of (requested, matched) preferences: how many were asked for and how many hold.\<close>

definition requested_count :: "(bool \<times> bool) list \<Rightarrow> int" where
  "requested_count ps = int (length (filter fst ps))"

definition matched_count :: "(bool \<times> bool) list \<Rightarrow> int" where
  "matched_count ps = int (length (filter (\<lambda>(requested, matches). requested \<and> matches) ps))"

definition stickiness_preferences :: "RouteRequest \<Rightarrow> RouteCandidate \<Rightarrow> (bool \<times> bool) list" where
  "stickiness_preferences request candidate =
     (let s = rr_stickiness (rq_requirements request) in
      [(st_prefer_same_model_family s,
          valid_id (st_sticky_family s) \<and> st_sticky_family s = md_family_id (rc_model candidate)),
       (st_prefer_same_provider s,
          valid_id (st_sticky_provider s) \<and> st_sticky_provider s = bd_provider_id (rc_backend candidate)),
       (st_prefer_same_backend s,
          valid_id (st_sticky_backend s) \<and> st_sticky_backend s = ck_backend_id (rc_key candidate)),
       (st_prefer_context_locality s, bd_trust_domain (rc_backend candidate) = LOCAL)])"

definition caller_preferences :: "RouteRequest \<Rightarrow> RouteCandidate \<Rightarrow> (bool \<times> bool) list" where
  "caller_preferences request candidate =
     (let r = rq_requirements request in
      [(valid_id (rr_affinity_model r), rr_affinity_model r = ck_model_id (rc_key candidate)),
       (valid_id (rr_affinity_provider r), rr_affinity_provider r = bd_provider_id (rc_backend candidate)),
       (valid_id (rr_affinity_backend r), rr_affinity_backend r = ck_backend_id (rc_key candidate))])"

definition evidence_factors :: "RouteCandidate \<Rightarrow> RankingContext \<Rightarrow> FactorValue list" where
  "evidence_factors candidate context =
     (let entry = factor_entry (rx_weights context); scales = rx_scales context;
          now = rx_now context; b = rc_backend candidate; latency = bd_latency b;
          cost = cv_cost (rx_evidence context) in
      [entry CAPABILITY_FIT (rc_required_capabilities_total candidate > 0)
         (uint (rc_required_capabilities_satisfied candidate))
         (coverage (rc_required_capabilities_satisfied candidate) (rc_required_capabilities_total candidate)) 0 [],
       entry PREFERRED_CAPABILITY_COVERAGE (rc_preferred_capabilities_total candidate > 0)
         (uint (rc_preferred_capabilities_satisfied candidate))
         (coverage (rc_preferred_capabilities_satisfied candidate) (rc_preferred_capabilities_total candidate)) 0 [],
       entry QUALITY_CLASS (rc_quality_class candidate \<noteq> kUnclassifiedQuality)
         (uint (rc_quality_class candidate))
         (normalize_higher_better (uint (rc_quality_class candidate)) (quality_reference scales)) 0 [],
       entry COST_TOTAL
         (CostEvidence_known cost \<and> CostEvidence_current cost now \<and> compatible_with (co_unit cost) (co_unit cost))
         (co_estimated_total_micros cost)
         (normalize_lower_better (co_estimated_total_micros cost) (cost_reference_micros scales))
         (co_price_generation cost) (co_source cost),
       entry LATENCY (latency_known latency now (le_dispatch_micros latency))
         (uint (le_dispatch_micros latency))
         (normalize_lower_better (uint (le_dispatch_micros latency)) (latency_reference_micros scales))
         (le_health_generation latency) [],
       entry TAIL_LATENCY (latency_known latency now (le_tail_micros latency))
         (uint (le_tail_micros latency))
         (normalize_lower_better (uint (le_tail_micros latency)) (tail_latency_reference_micros scales)) 0 [],
       entry QUEUE_DELAY (latency_known latency now (le_queue_micros latency))
         (uint (le_queue_micros latency))
         (normalize_lower_better (uint (le_queue_micros latency)) (queue_reference_micros scales)) 0 [],
       entry WARMTH (live_known (bd_readiness b) ReadinessState.UNKNOWN now)
         (readiness_index (be_state (bd_readiness b))) (warmth_score b scales now)
         (be_generation (bd_readiness b)) [],
       entry RESIDENCY (live_known (bd_residency b) ResidencyState.UNKNOWN now)
         (residency_index (be_state (bd_residency b)))
         (case be_state (bd_residency b) of RESIDENT \<Rightarrow> kScale | LOADING \<Rightarrow> kScale div 2 | _ \<Rightarrow> 0)
         (be_generation (bd_residency b)) []])"

definition placement_factors :: "RouteCandidate \<Rightarrow> RankingContext \<Rightarrow> FactorValue list" where
  "placement_factors candidate context =
     (let entry = factor_entry (rx_weights context); scales = rx_scales context;
          now = rx_now context; b = rc_backend candidate; rank = int (trust_rank (bd_trust_domain b));
          detail = bd_capacity_detail b; evidence = rx_evidence context in
      [entry LOCALITY (bd_trust_domain b \<noteq> TrustDomain.UNKNOWN) rank (mul_div rank kScale 4) 0 [],
       entry NETWORK_DISTANCE (bd_network_distance b \<noteq> 0) (uint (bd_network_distance b))
         (normalize_lower_better (uint (bd_network_distance b)) (network_distance_reference scales)) 0 [],
       entry PROVIDER_AVAILABILITY (live_known (bd_availability b) AvailabilityState.UNKNOWN now)
         (availability_index (be_state (bd_availability b)))
         (binary_score (be_state (bd_availability b) = AvailabilityState.AVAILABLE))
         (be_generation (bd_availability b)) [],
       entry BACKEND_HEALTH (live_known (bd_health b) HealthState.UNKNOWN now)
         (health_index (be_state (bd_health b)))
         (case be_state (bd_health b) of HEALTHY \<Rightarrow> kScale | DEGRADED \<Rightarrow> kScale div 2 | _ \<Rightarrow> 0)
         (be_generation (bd_health b)) [],
       entry BACKEND_READINESS (live_known (bd_readiness b) ReadinessState.UNKNOWN now)
         (readiness_index (be_state (bd_readiness b))) (readiness_score (be_state (bd_readiness b)))
         (be_generation (bd_readiness b)) [],
       entry CAPACITY_HEADROOM
         (CapacityDetail_known detail \<and> cd_total_slots detail \<noteq> kUnknownCount \<and> cd_total_slots detail > 0)
         (uint (cd_available_slots detail))
         (mul_div (uint (cd_available_slots detail)) kScale (uint (cd_total_slots detail)))
         (be_generation (bd_capacity b)) [],
       entry RESERVATION_CONFIDENCE
         (cv_reservation_present evidence \<and> ReservationEvidence_current (cv_reservation evidence) now)
         1 kScale 0 []])"

text \<open>The latency target of the service level, or the request's own ceiling.\<close>

definition slo_target :: "RankingContext \<Rightarrow> u32" where
  "slo_target context =
     (let slo = cv_slo (rx_evidence context) in
      if sl_latency_target_micros slo \<noteq> kUnspecified then sl_latency_target_micros slo
      else rr_max_latency_micros (rq_requirements (rx_request context)))"

definition preference_factors :: "RouteCandidate \<Rightarrow> RankingContext \<Rightarrow> FactorValue list" where
  "preference_factors candidate context =
     (let entry = factor_entry (rx_weights context); scales = rx_scales context;
          now = rx_now context; b = rc_backend candidate; latency = bd_latency b;
          request = rx_request context; r = rq_requirements request; target = slo_target context;
          rank = int (trust_rank (bd_trust_domain b));
          headroom = uint (rc_context_limit_tokens candidate) - uint (rr_min_context_tokens r);
          continuity = rx_continuity_backend context = ck_backend_id (rc_key candidate);
          different = rx_diversity_reference_provider context \<noteq> bd_provider_id b;
          local = (bd_trust_domain b = LOCAL);
          movement = (if local then 0 else uint (bd_network_distance b));
          sticky = stickiness_preferences request candidate;
          caller = caller_preferences request candidate in
      [entry SLO_HEADROOM
         (target \<noteq> kUnspecified \<and> target > 0 \<and> latency_known latency now (le_dispatch_micros latency))
         (uint (le_dispatch_micros latency))
         (normalize_lower_better (uint (le_dispatch_micros latency)) (uint target)) 0 [],
       entry CONTEXT_HEADROOM
         (rr_min_context_tokens r > 0 \<and> rc_context_limit_tokens candidate \<ge> rr_min_context_tokens r)
         headroom (normalize_higher_better headroom (context_reference_tokens scales)) 0 [],
       entry TRUST_PREFERENCE (bd_trust_domain b \<noteq> TrustDomain.UNKNOWN) rank (mul_div rank kScale 4)
         (bd_trust_generation b) [],
       entry POLICY_PREFERENCE (rx_policy_verdict context \<noteq> None)
         (case rx_policy_verdict context of Some v \<Rightarrow> pv_preference v | None \<Rightarrow> 0)
         (case rx_policy_verdict context of Some v \<Rightarrow> pv_preference v | None \<Rightarrow> 0)
         (rq_policy_generation request) [],
       entry MODEL_AFFINITY (valid_id (rr_affinity_model r))
         (if rr_affinity_model r = ck_model_id (rc_key candidate) then 1 else 0)
         (binary_score (rr_affinity_model r = ck_model_id (rc_key candidate))) 0 [],
       entry CACHE_AFFINITY (rx_has_continuity_backend context) (if continuity then 1 else 0)
         (binary_score continuity) 0 [],
       entry HISTORICAL_RELIABILITY (bd_reliability_ppm b \<noteq> 0) (uint (bd_reliability_ppm b))
         (mul_div (uint (bd_reliability_ppm b)) kScale 10000) 0 [],
       entry FAILURE_DOMAIN_DIVERSITY (rx_has_diversity_reference context) (if different then 1 else 0)
         (binary_score different) 0 [],
       entry DATA_MOVEMENT_COST (local \<or> bd_network_distance b \<noteq> 0) movement
         (normalize_lower_better movement (network_distance_reference scales)) 0 [],
       entry BACKEND_STARTUP_COST (latency_known latency now (le_cold_start_penalty_micros latency))
         (uint (le_cold_start_penalty_micros latency))
         (normalize_lower_better (uint (le_cold_start_penalty_micros latency))
            (startup_cost_reference_micros scales)) 0 [],
       entry ROUTE_SWITCH_PENALTY (rx_has_continuity_backend context) (if continuity then 0 else 1)
         (binary_score continuity) 0 [],
       entry CONTINUITY_STICKINESS (requested_count sticky > 0) (matched_count sticky)
         (mul_div (matched_count sticky) kScale (requested_count sticky)) 0 [],
       entry CALLER_PREFERENCE (requested_count caller > 0) (matched_count caller)
         (mul_div (matched_count caller) kScale (requested_count caller)) 0 []])"

definition build_factors :: "RouteCandidate \<Rightarrow> RankingContext \<Rightarrow> FactorValue list \<times> int" where
  "build_factors candidate context =
     (let factors = sort_key (\<lambda>v. factor_index (fv_factor v))
            (evidence_factors candidate context @ placement_factors candidate context @
             preference_factors candidate context);
          score = foldl (\<lambda>score v. saturating_add score (fv_contribution v)) 0 factors
      in (factors, score))"

section \<open>Arithmetic lemmas\<close>

lemma tdiv_nonneg: "0 \<le> a \<Longrightarrow> 0 < b \<Longrightarrow> tdiv a b = a div b"
  by (cases "a = 0") (simp_all add: tdiv_def)

lemma le_div_iff_mult_le: "0 < n \<Longrightarrow> v \<le> m div n \<longleftrightarrow> v * n \<le> m" for m :: int
proof
  assume n: "0 < n" and "v \<le> m div n"
  then have "v * n \<le> m div n * n" by (simp add: mult_right_mono)
  also have "\<dots> \<le> m" using n by (simp add: div_mult_mod_eq minus_mod_eq_div_mult [symmetric])
  finally show "v * n \<le> m" .
next
  assume n: "0 < n" and "v * n \<le> m"
  then have "v * n div n \<le> m div n" by (rule_tac zdiv_mono1)
  then show "v \<le> m div n" using n by simp
qed

lemma mul_div_nonneg:
  assumes "0 \<le> v" and "0 \<le> n" and "0 < d"
  shows "mul_div v n d = (if v * n \<le> int64_max then v * n div d else int64_max)"
proof (cases "v = 0 \<or> n = 0")
  case True
  then show ?thesis using assms by (auto simp: mul_div_def int64_max_def)
next
  case False
  then have pos: "0 < v" "0 < n" using assms by auto
  have "v > tdiv int64_max n \<longleftrightarrow> v * n > int64_max"
  proof -
    have "tdiv int64_max n = int64_max div n" using pos by (simp add: tdiv_nonneg int64_max_def)
    moreover have "v \<le> int64_max div n \<longleftrightarrow> v * n \<le> int64_max"
      using pos(2) by (rule le_div_iff_mult_le)
    ultimately show ?thesis by (simp only: not_le [symmetric])
  qed
  then show ?thesis using assms pos by (auto simp: mul_div_def tdiv_nonneg)
qed

lemma mul_div_ge_0: "0 \<le> v \<Longrightarrow> 0 \<le> n \<Longrightarrow> 0 < d \<Longrightarrow> 0 \<le> mul_div v n d"
  by (simp add: mul_div_nonneg int64_max_def pos_imp_zdiv_nonneg_iff)

lemma mul_div_mono:
  assumes "0 \<le> v" and "v \<le> v'" and "0 \<le> n" and "0 < d"
  shows "mul_div v n d \<le> mul_div v' n d"
proof -
  have prod: "v * n \<le> v' * n" using assms by (simp add: mult_right_mono)
  have "v * n div d \<le> int64_max" if "v * n \<le> int64_max"
  proof -
    have "v * n div d \<le> v * n div 1" using assms by (intro zdiv_mono2) simp_all
    then show ?thesis using that by simp
  qed
  then show ?thesis
    using prod assms by (auto simp: mul_div_nonneg intro: zdiv_mono1)
qed

lemma clamp_bounds: "0 \<le> clamp v 0 kScale \<and> clamp v 0 kScale \<le> kScale"
  by (simp add: clamp_def)

lemma reference_pos: "0 < reference v"
  by (simp add: reference_def)

lemma normalize_higher_bounds: "0 \<le> normalize_higher_better raw ref \<and> normalize_higher_better raw ref \<le> kScale"
  by (simp add: normalize_higher_better_def clamp_def)

lemma normalize_lower_bounds: "0 \<le> normalize_lower_better raw ref \<and> normalize_lower_better raw ref \<le> kScale"
  using mul_div_ge_0 [of raw kScale "reference ref"] reference_pos [of ref]
  by (simp add: normalize_lower_better_def Let_def)

section \<open>Factor lemmas\<close>

text \<open>What every factor satisfies, whatever evidence it was computed from.\<close>

definition factor_ok :: "RankingWeights \<Rightarrow> FactorValue \<Rightarrow> bool" where
  "factor_ok w v \<longleftrightarrow>
     0 \<le> fv_normalized v \<and> fv_normalized v \<le> kScale \<and>
     fv_weight_ppm v = weight w (fv_factor v) \<and>
     0 \<le> fv_contribution v \<and> fv_contribution v \<le> weight w (fv_factor v) \<and>
     fv_contribution v = fv_normalized v * weight w (fv_factor v) div kScale \<and>
     (\<not> fv_known v \<longrightarrow> fv_normalized v = 0 \<and> fv_contribution v = 0)"

lemma contribution_bounds:
  assumes "0 \<le> n" and "n \<le> kScale" and "0 \<le> w" and "w \<le> 10000000"
  shows "mul_div n w kScale = n * w div kScale \<and> 0 \<le> n * w div kScale \<and> n * w div kScale \<le> w"
proof -
  have "n * w \<le> kScale * w" using assms by (simp add: mult_right_mono)
  moreover from this have "n * w \<le> 10000000000000" using assms by simp
  moreover have "kScale * w div kScale = w" by simp
  ultimately show ?thesis
    using assms zdiv_mono1 [of "n * w" "kScale * w" kScale]
    by (simp add: mul_div_nonneg int64_max_def pos_imp_zdiv_nonneg_iff)
qed

lemma factor_entry_ok:
  assumes "RankingWeights_validate w = []"
  shows "factor_ok w (factor_entry w f k raw n g src)"
proof -
  have bounds: "0 \<le> weight w f" "weight w f \<le> 10000000"
    using weights_valid_bounds [OF assms] by blast+
  show ?thesis
    using contribution_bounds [of "clamp n 0 kScale" "weight w f"] clamp_bounds [of n] bounds
    by (auto simp: factor_ok_def factor_entry_def known_value_def unknown_def Let_def)
qed

lemma fv_factor_entry [simp]: "fv_factor (factor_entry w f k raw n g src) = f"
  by (simp add: factor_entry_def known_value_def unknown_def Let_def)

lemma unsorted_factor_order:
  "map fv_factor (evidence_factors c x @ placement_factors c x @ preference_factors c x) =
     canonical_factor_order"
  by (simp add: evidence_factors_def placement_factors_def preference_factors_def Let_def
      canonical_factor_order_def)

lemma build_factors_list:
  "fst (build_factors c x) = evidence_factors c x @ placement_factors c x @ preference_factors c x"
proof -
  have "sorted (map factor_index canonical_factor_order)"
    by (simp add: canonical_factor_order_def)
  then have "sorted (map (\<lambda>v. factor_index (fv_factor v))
      (evidence_factors c x @ placement_factors c x @ preference_factors c x))"
    unfolding unsorted_factor_order [of c x, symmetric] by (simp add: comp_def)
  then show ?thesis
    by (simp only: build_factors_def Let_def fst_conv sorted_sort_id sort_key_id_if_sorted)
qed

lemma build_factors_ok:
  assumes "RankingWeights_validate (rx_weights x) = []" and "v \<in> set (fst (build_factors c x))"
  shows "factor_ok (rx_weights x) v"
  using assms(2) unfolding build_factors_list
  by (auto simp: evidence_factors_def placement_factors_def preference_factors_def Let_def
      intro: factor_entry_ok [OF assms(1)])

lemma saturating_sum:
  assumes "\<forall>v \<in> set vs. 0 \<le> g v \<and> g v \<le> 10000000" and "0 \<le> acc"
    and "acc + int (length vs) * 10000000 \<le> int64_max"
  shows "foldl (\<lambda>score v. saturating_add score (g v)) acc vs = acc + sum_list (map g vs) \<and>
    sum_list (map g vs) \<le> int (length vs) * 10000000 \<and> 0 \<le> sum_list (map g vs)"
  using assms
proof (induction vs arbitrary: acc)
  case (Cons v vs)
  have step: "saturating_add acc (g v) = acc + g v"
  proof -
    have "acc + g v \<le> int64_max" using Cons.prems by (simp add: algebra_simps)
    then show ?thesis using Cons.prems by (simp add: saturating_add_def)
  qed
  have "acc + g v + int (length vs) * 10000000 \<le> int64_max"
    using Cons.prems by (simp add: algebra_simps)
  then show ?case
    using Cons.IH [of "acc + g v"] Cons.prems step by (simp add: algebra_simps)
qed simp

section \<open>Properties\<close>

text \<open>
  (C38) Ranking is total and bounded.  With validated weights the factor vector lists all factors in
  canonical order, each normalised into the factor scale with a contribution between 0 and its
  weight; a factor whose evidence is missing contributes exactly 0; and the score is the exact
  sum of the contributions, at most 29 times the largest permitted weight, so the saturating
  addition never saturates.
\<close>

theorem ranking_bounded:
  assumes "RankingWeights_validate (rx_weights x) = []"
  shows "map fv_factor (fst (build_factors c x)) = canonical_factor_order \<and>
    list_all (factor_ok (rx_weights x)) (fst (build_factors c x)) \<and>
    snd (build_factors c x) = sum_list (map fv_contribution (fst (build_factors c x))) \<and>
    0 \<le> snd (build_factors c x) \<and> snd (build_factors c x) \<le> 290000000"
proof -
  let ?vs = "fst (build_factors c x)"
  have order: "map fv_factor ?vs = canonical_factor_order"
    unfolding build_factors_list by (rule unsorted_factor_order)
  have ok: "\<forall>v \<in> set ?vs. factor_ok (rx_weights x) v"
    using build_factors_ok [OF assms] by blast
  then have contributions: "\<forall>v \<in> set ?vs. 0 \<le> fv_contribution v \<and> fv_contribution v \<le> 10000000"
    unfolding factor_ok_def using weights_valid_bounds [OF assms] order_trans by blast
  have "length ?vs = length canonical_factor_order" using order by (metis length_map)
  then have len: "length ?vs = 29" by (simp add: canonical_factor_order_def)
  have "snd (build_factors c x) = foldl (\<lambda>score v. saturating_add score (fv_contribution v)) 0 ?vs"
    by (simp add: build_factors_def Let_def)
  then show ?thesis
    using saturating_sum [OF contributions, of 0] ok order len
    by (simp add: list_all_iff int64_max_def)
qed

text \<open>
  Normalisation is monotone: more of a better-is-higher quantity never lowers its factor and
  more of a better-is-lower quantity (price, latency, distance) never raises it, for every
  reference scale.
\<close>

theorem normalization_monotone:
  assumes "raw \<le> raw'"
  shows "normalize_higher_better raw ref \<le> normalize_higher_better raw' ref \<and>
    normalize_lower_better raw' ref \<le> normalize_lower_better raw ref"
proof (cases "raw \<le> 0")
  case True
  then show ?thesis
    using normalize_higher_bounds [of raw' ref] normalize_lower_bounds [of raw' ref]
    by (simp add: normalize_higher_better_def [of raw] normalize_lower_better_def [of raw])
next
  case False
  then have "mul_div raw kScale (reference ref) \<le> mul_div raw' kScale (reference ref)"
    using assms reference_pos [of ref] by (intro mul_div_mono) simp_all
  then show ?thesis
    using assms False
    by (simp add: normalize_higher_better_def normalize_lower_better_def clamp_def Let_def)
qed

theorem normalization_monotone_witness:
  "(5::int) \<le> 9 \<and> normalize_lower_better 9 100 \<le> normalize_lower_better 5 100 \<and>
   normalize_lower_better 5 100 = 950000"
  using normalization_monotone [of 5 9 100]
  by (simp add: normalize_lower_better_def mul_div_nonneg reference_def int64_max_def)

definition sample_context :: RankingContext where
  "sample_context =
     \<lparr>rx_request = sample_request, rx_evidence = sample_evidence, rx_policy_verdict = None,
      rx_weights = RankingWeights_default, rx_scales = RankingScales_default, rx_now = 50,
      rx_continuity_backend = 0, rx_has_continuity_backend = False,
      rx_diversity_reference_provider = 0, rx_has_diversity_reference = False\<rparr>"

lemma default_weights_valid: "RankingWeights_validate RankingWeights_default = []"
  by (simp add: RankingWeights_validate_def canonical_factor_order_def RankingWeights_default_def)

theorem ranking_bounded_witness:
  "RankingWeights_validate (rx_weights sample_context) = [] \<and>
   0 \<le> snd (build_factors sample_candidate sample_context) \<and>
   snd (build_factors sample_candidate sample_context) \<le> 290000000"
proof -
  have valid: "RankingWeights_validate (rx_weights sample_context) = []"
    by (simp add: sample_context_def default_weights_valid)
  from ranking_bounded [OF valid] valid show ?thesis by blast
qed

end
