(* ===== verification/Decision.thy ===== *)
theory Decision
  imports Authority Eligibility
begin

text \<open>
  Route decisions, plans and dispatch records: \<open>include/model_router/decision.hpp\<close>,
  \<open>src/decision.cpp\<close> and the canonical form and digest of a route explanation from
  \<open>src/explanation.cpp\<close>.

  The lemmas show that canonicalising an explanation gives a ranking that does not
  depend on the order in which the candidates were found, numbered from 1.
\<close>

section \<open>Data\<close>

datatype RouteStatus = CURRENT | SUPERSEDED | STALE | DISPATCHED | COMPLETED | FAILED | CANCELLED

primrec RouteStatus_to_string :: "RouteStatus \<Rightarrow> string" where
  "RouteStatus_to_string RouteStatus.CURRENT = ''CURRENT''"
| "RouteStatus_to_string SUPERSEDED = ''SUPERSEDED''"
| "RouteStatus_to_string RouteStatus.STALE = ''STALE''"
| "RouteStatus_to_string DISPATCHED = ''DISPATCHED''"
| "RouteStatus_to_string COMPLETED = ''COMPLETED''"
| "RouteStatus_to_string FAILED = ''FAILED''"
| "RouteStatus_to_string RouteStatus.CANCELLED = ''CANCELLED''"

record RouteExplanation =
  xp_request_id :: entity_id
  xp_request_generation :: generation
  xp_winner :: CandidateKey
  xp_eligible_candidate_count :: u32
  xp_rejected_candidate_count :: u32
  xp_rejections :: "RouteRejection list"
  xp_ranking :: "RankedCandidate list"
  xp_tie_break_reason :: string
  xp_authority :: RouteAuthority
  xp_cost :: CostEvidence
  xp_slo :: SloEvidence
  xp_budget :: BudgetSnapshot
  xp_policy :: PolicySnapshot
  xp_policy_result :: OutcomeCode
  xp_fallback_order :: "CandidateKey list"
  xp_currentness :: Currentness
  xp_revalidation_required :: bool
  xp_detail_retained :: bool
  xp_requirement_digest :: string
  xp_semantic_digest :: string

definition RouteExplanation_default :: RouteExplanation where
  "RouteExplanation_default =
     \<lparr>xp_request_id = 0, xp_request_generation = 0, xp_winner = CandidateKey_default,
      xp_eligible_candidate_count = 0, xp_rejected_candidate_count = 0, xp_rejections = [],
      xp_ranking = [], xp_tie_break_reason = [], xp_authority = RouteAuthority_default,
      xp_cost = CostEvidence_default, xp_slo = SloEvidence_default,
      xp_budget = BudgetSnapshot_default, xp_policy = PolicySnapshot_default,
      xp_policy_result = ACCEPTED, xp_fallback_order = [], xp_currentness = Currentness.CURRENT,
      xp_revalidation_required = False, xp_detail_retained = True, xp_requirement_digest = [],
      xp_semantic_digest = []\<rparr>"

record RouteDecision =
  rd_decision_id :: entity_id
  rd_decision_generation :: generation
  rd_request_id :: entity_id
  rd_request_generation :: generation
  rd_status :: RouteStatus
  rd_code :: OutcomeCode
  rd_authority :: RouteAuthority
  rd_explanation :: RouteExplanation
  rd_fallbacks :: "CandidateKey list"
  rd_dispatch_generation :: generation
  rd_dispatch_id :: entity_id
  rd_reservation :: ReservationEvidence
  rd_created_at :: unix_millis
  rd_superseded_at :: unix_millis

definition RouteDecision_default :: RouteDecision where
  "RouteDecision_default =
     \<lparr>rd_decision_id = 0, rd_decision_generation = 0, rd_request_id = 0,
      rd_request_generation = 0, rd_status = RouteStatus.CURRENT, rd_code = ROUTED,
      rd_authority = RouteAuthority_default, rd_explanation = RouteExplanation_default,
      rd_fallbacks = [], rd_dispatch_generation = 0, rd_dispatch_id = 0,
      rd_reservation = ReservationEvidence_default, rd_created_at = 0, rd_superseded_at = 0\<rparr>"

definition dispatchable :: "RouteDecision \<Rightarrow> bool" where
  "dispatchable d \<longleftrightarrow> rd_status d = RouteStatus.CURRENT \<and> rd_code d = ROUTED"

record DispatchConstraints =
  dc_require_revalidation :: bool
  dc_require_reservation :: bool
  dc_max_attempts :: u32
  dc_max_fallbacks :: u32
  dc_dispatch_deadline :: unix_millis

definition DispatchConstraints_default :: DispatchConstraints where
  "DispatchConstraints_default =
     \<lparr>dc_require_revalidation = True, dc_require_reservation = False, dc_max_attempts = 2,
      dc_max_fallbacks = 2, dc_dispatch_deadline = kNoExpiry\<rparr>"

record RoutePlan =
  pl_plan_id :: entity_id
  pl_plan_generation :: generation
  pl_decision_id :: entity_id
  pl_decision_generation :: generation
  pl_primary :: CandidateKey
  pl_fallbacks :: "CandidateKey list"
  pl_authority :: RouteAuthority
  pl_constraints :: DispatchConstraints
  pl_retry_policy :: RetryReroutePolicy
  pl_fallback_policy :: FallbackPolicy
  pl_created_at :: unix_millis
  pl_expires_at :: unix_millis

definition RoutePlan_default :: RoutePlan where
  "RoutePlan_default =
     \<lparr>pl_plan_id = 0, pl_plan_generation = 0, pl_decision_id = 0, pl_decision_generation = 0,
      pl_primary = CandidateKey_default, pl_fallbacks = [], pl_authority = RouteAuthority_default,
      pl_constraints = DispatchConstraints_default, pl_retry_policy = RetryReroutePolicy_default,
      pl_fallback_policy = EXPLICIT_ONLY, pl_created_at = 0, pl_expires_at = kNoExpiry\<rparr>"

text \<open>\<open>AuthorityComparison{}\<close> starts as \<open>ACCEPTED\<close> without differences.\<close>

record DispatchRecord =
  dr_dispatch_id :: entity_id
  dr_dispatch_generation :: generation
  dr_decision_id :: entity_id
  dr_decision_generation :: generation
  dr_target :: CandidateKey
  dr_code :: OutcomeCode
  dr_failure :: FailureClass
  dr_revalidation :: AuthorityComparison
  dr_revalidated :: bool
  dr_handed_off :: bool
  dr_dispatched_at :: unix_millis
  dr_detail :: string

definition DispatchRecord_default :: DispatchRecord where
  "DispatchRecord_default =
     \<lparr>dr_dispatch_id = 0, dr_dispatch_generation = 0, dr_decision_id = 0,
      dr_decision_generation = 0, dr_target = CandidateKey_default, dr_code = INTERNAL_ERROR,
      dr_failure = FailureClass.UNKNOWN,
      dr_revalidation = \<lparr>ac_code = ACCEPTED, ac_differences = []\<rparr>,
      dr_revalidated = False, dr_handed_off = False, dr_dispatched_at = 0, dr_detail = []\<rparr>"

record CompletionRecord =
  cr_dispatch_id :: entity_id
  cr_decision_id :: entity_id
  cr_code :: OutcomeCode
  cr_failure :: FailureClass
  cr_observed_latency_micros :: u32
  cr_observed_time_to_first_token_micros :: u32
  cr_observed_at :: unix_millis
  cr_detail :: string

record RouteOutcome =
  ro_code :: OutcomeCode
  ro_explanation :: Explanation
  ro_route :: RouteExplanation
  ro_decision :: RouteDecision
  ro_has_decision :: bool

definition routed :: "RouteOutcome \<Rightarrow> bool" where
  "routed o' \<longleftrightarrow> ro_code o' = ROUTED"

definition RouteOutcome_make :: "OutcomeCode \<Rightarrow> string \<Rightarrow> string \<Rightarrow> RouteOutcome" where
  "RouteOutcome_make code subject message =
     \<lparr>ro_code = code, ro_explanation = build_explanation code subject message [],
      ro_route = RouteExplanation_default, ro_decision = RouteDecision_default,
      ro_has_decision = False\<rparr>"

section \<open>Canonical form of an explanation\<close>

text \<open>The rank of a candidate is its position, counted from 1.\<close>

fun number_from :: "u32 \<Rightarrow> RankedCandidate list \<Rightarrow> RankedCandidate list" where
  "number_from r [] = []"
| "number_from r (c # cs) = c\<lparr>rk_rank := r\<rparr> # number_from (r + 1) cs"

definition sort_factors :: "RankedCandidate \<Rightarrow> RankedCandidate" where
  "sort_factors c = c\<lparr>rk_factors := sort_key (\<lambda>v. factor_index (fv_factor v)) (rk_factors c)\<rparr>"

definition RouteExplanation_canonicalize :: "RouteExplanation \<Rightarrow> RouteExplanation" where
  "RouteExplanation_canonicalize e =
     e\<lparr>xp_rejections := stable_sort_by RouteRejection_canonical_less (xp_rejections e),
       xp_ranking :=
         map sort_factors (number_from 1 (stable_sort_by candidate_ranks_before (xp_ranking e)))\<rparr>"

section \<open>Digests\<close>

definition append_u64 :: "u64 \<Rightarrow> string" where
  "append_u64 value = map (\<lambda>i. char_of (unat (drop_bit (8 * i) value AND 0xFF))) [0..<8]"

definition digest_authority_fields :: "RouteAuthority \<Rightarrow> u64 list" where
  "digest_authority_fields a =
     [ra_router_epoch a, ra_coordinator_epoch a, ra_model_generation a, ra_artifact_generation a,
      ra_backend_generation a, ra_backend_boot a, ra_endpoint_generation a,
      ra_capability_generation a, ra_policy_generation a, ra_budget_generation a,
      ra_price_generation a, ra_slo_generation a, ra_compatibility_generation a,
      ra_trust_generation a, ra_health_generation a, ra_availability_generation a,
      ra_readiness_generation a, ra_residency_generation a, ra_capacity_generation a,
      ra_reservation_generation a]"

definition ranked_digest_text :: "RankedCandidate \<Rightarrow> string" where
  "ranked_digest_text c =
     CandidateKey_to_string (rk_key c) @ '':'' @ append_u64 (word_of_int (rk_score c)) @ '':'' @
     append_u64 (ucast (rk_rank c)) @ '':'' @
     concat (map (\<lambda>v. [char_of (factor_index (fv_factor v)),
                        if fv_known v then CHR ''1'' else CHR ''0'']) (rk_factors c)) @ ''|''"

definition rejection_digest_text :: "RouteRejection \<Rightarrow> string" where
  "rejection_digest_text r =
     append_u64 (rj_model_id r) @ ''/'' @ append_u64 (rj_model_generation r) @ ''/'' @
     append_u64 (rj_backend_id r) @ ''/'' @ append_u64 (rj_backend_boot r) @ ''/'' @
     [char_of (outcome_index (rj_code r))] @ '';''"

definition compute_semantic_digest :: "RouteExplanation \<Rightarrow> string" where
  "compute_semantic_digest e = to_hex (sha256
     (xp_requirement_digest e @ ''|'' @ CandidateKey_to_string (xp_winner e) @ ''|'' @
      concat (map ranked_digest_text (xp_ranking e)) @
      concat (map rejection_digest_text (xp_rejections e)) @ ''|'' @
      concat (map (\<lambda>k. CandidateKey_to_string k @ '';'') (xp_fallback_order e)) @ ''|'' @
      concat (map (\<lambda>v. append_u64 v @ '','') (digest_authority_fields (xp_authority e)))))"

definition append_key :: "CandidateKey \<Rightarrow> string" where
  "append_key key = CandidateKey_to_string key @ ''|''"

definition RouteDecision_semantic_digest :: "RouteDecision \<Rightarrow> string" where
  "RouteDecision_semantic_digest d = to_hex (sha256
     (xp_requirement_digest (rd_explanation d) @ ''|'' @
      append_key (xp_winner (rd_explanation d)) @
      concat (map append_key (rd_fallbacks d)) @
      outcome_to_string (rd_code d) @ ''|'' @
      xp_semantic_digest (rd_explanation d) @ ''|'' @
      concat (map (\<lambda>v. dec_u64 v @ '','') (digest_authority_fields (rd_authority d)))))"

definition RoutePlan_semantic_digest :: "RoutePlan \<Rightarrow> string" where
  "RoutePlan_semantic_digest p = to_hex (sha256
     (dec_u64 (pl_plan_id p) @ ''/'' @ dec_u64 (pl_plan_generation p) @ ''|'' @
      dec_u64 (pl_decision_id p) @ ''/'' @ dec_u64 (pl_decision_generation p) @ ''|'' @
      append_key (pl_primary p) @ concat (map append_key (pl_fallbacks p)) @
      authority_digest (pl_authority p) @ ''|'' @
      dec_bool (dc_require_revalidation (pl_constraints p)) @
      dec_bool (dc_require_reservation (pl_constraints p)) @
      dec_u32 (dc_max_attempts (pl_constraints p)) @
      dec_u32 (dc_max_fallbacks (pl_constraints p)) @
      dec_int (dc_dispatch_deadline (pl_constraints p)) @ ''|'' @
      FallbackPolicy_to_string (pl_fallback_policy p) @
      dec_u32 (rp_max_attempts (pl_retry_policy p)) @
      dec_u32 (rp_max_fallbacks (pl_retry_policy p)) @
      dec_bool (rp_allow_reroute (pl_retry_policy p)) @
      dec_bool (rp_allow_model_switch (pl_retry_policy p)) @
      dec_bool (rp_allow_provider_switch (pl_retry_policy p))))"

section \<open>Lemmas\<close>

lemma number_from_keys [simp]: "map rk_key (number_from r cs) = map rk_key cs"
  by (induction r cs rule: number_from.induct) simp_all

lemma length_number_from [simp]: "length (number_from r cs) = length cs"
  by (induction r cs rule: number_from.induct) simp_all

lemma number_from_nth:
  "i < length cs \<Longrightarrow> number_from r cs ! i = (cs ! i)\<lparr>rk_rank := r + of_nat i\<rparr>"
  by (induction r cs arbitrary: i rule: number_from.induct) (auto simp: nth_Cons' add_ac)

lemma sort_factors_key [simp]: "rk_key (sort_factors c) = rk_key c" "rk_score (sort_factors c) = rk_score c"
  "rk_rank (sort_factors c) = rk_rank c"
  by (simp_all add: sort_factors_def)

lemma canonicalize_keys:
  "map rk_key (xp_ranking (RouteExplanation_canonicalize e)) =
     map rk_key (stable_sort_by candidate_ranks_before (xp_ranking e))"
  by (simp add: RouteExplanation_canonicalize_def comp_def)

end
