(* ===== verification/Backend_Index.thy ===== *)
theory Backend_Index
  imports Prelude
begin

text \<open>
  Derived indexes: \<open>std::map<K, std::set<BackendId>>\<close> as \<open>CanonicalState\<close> keeps them for
  models, providers and trust ranks.  The interface \<open>derived_index\<close> says what an index
  promises, namely that it represents a relation between keys and members and that there is
  only one index per relation; the router's incremental maintenance is proved against that
  interface, and \<open>backend_index\<close> below shows that the map operations of the code have it.
\<close>

section \<open>The operations\<close>

definition idx_insert :: "'k::linorder \<Rightarrow> 'b::linorder \<Rightarrow> ('k, 'b list) omap \<Rightarrow> ('k, 'b list) omap" where
  "idx_insert k b idx =
     om_put k (os_insert b (case om_find idx k of None \<Rightarrow> [] | Some members \<Rightarrow> members)) idx"

definition idx_erase :: "'k::linorder \<Rightarrow> 'b::linorder \<Rightarrow> ('k, 'b list) omap \<Rightarrow> ('k, 'b list) omap" where
  "idx_erase k b idx =
     (case om_find idx k of
        None \<Rightarrow> idx
      | Some members \<Rightarrow>
          let remaining = os_erase b members in
          if remaining = [] then om_erase k idx else om_put k remaining idx)"

fun idx_entry :: "'b::linorder list option \<Rightarrow> 'b set \<Rightarrow> bool" where
  "idx_entry None S \<longleftrightarrow> S = {}"
| "idx_entry (Some members) S \<longleftrightarrow> members \<noteq> [] \<and> strictly_ascending members \<and> set members = S"

definition idx_represents :: "('k::linorder, 'b::linorder list) omap \<Rightarrow> ('k \<Rightarrow> 'b set) \<Rightarrow> bool" where
  "idx_represents idx R \<longleftrightarrow> om_ok idx \<and> (\<forall>k. idx_entry (om_find idx k) (R k))"

section \<open>The interface\<close>

locale derived_index =
  fixes empty :: 'i
    and add :: "'k \<Rightarrow> 'b \<Rightarrow> 'i \<Rightarrow> 'i"
    and remove :: "'k \<Rightarrow> 'b \<Rightarrow> 'i \<Rightarrow> 'i"
    and represents :: "'i \<Rightarrow> ('k \<Rightarrow> 'b set) \<Rightarrow> bool"
  assumes represents_empty: "represents empty (\<lambda>_. {})"
    and represents_add: "represents i R \<Longrightarrow> represents (add k b i) (R(k := insert b (R k)))"
    and represents_remove: "represents i R \<Longrightarrow> represents (remove k b i) (R(k := R k - {b}))"
    and represents_unique: "represents i R \<Longrightarrow> represents j R \<Longrightarrow> i = j"
begin

lemma represents_add_all:
  "represents i R \<Longrightarrow>
   represents (foldl (\<lambda>i k. add k b i) i ks) (\<lambda>k. if k \<in> set ks then insert b (R k) else R k)"
proof (induction ks arbitrary: i R)
  case (Cons k ks)
  have "(\<lambda>k'. if k' \<in> set ks then insert b ((R(k := insert b (R k))) k')
           else (R(k := insert b (R k))) k') =
        (\<lambda>k'. if k' \<in> set (k # ks) then insert b (R k') else R k')"
    by (rule ext) auto
  then show ?case using Cons.IH [OF represents_add [OF Cons.prems, of k b]] by simp
qed simp

lemma represents_remove_all:
  "represents i R \<Longrightarrow>
   represents (foldl (\<lambda>i k. remove k b i) i ks) (\<lambda>k. if k \<in> set ks then R k - {b} else R k)"
proof (induction ks arbitrary: i R)
  case (Cons k ks)
  have "(\<lambda>k'. if k' \<in> set ks then (R(k := R k - {b})) k' - {b} else (R(k := R k - {b})) k') =
        (\<lambda>k'. if k' \<in> set (k # ks) then R k' - {b} else R k')"
    by (rule ext) auto
  then show ?case using Cons.IH [OF represents_remove [OF Cons.prems, of k b]] by simp
qed simp

text \<open>Building the index of a list of members, each with the keys it is filed under.\<close>

lemma represents_build:
  "represents i R \<Longrightarrow>
   represents (foldl (\<lambda>i (b, ks). foldl (\<lambda>i k. add k b i) i ks) i members)
     (\<lambda>k. R k \<union> {b. \<exists>ks. (b, ks) \<in> set members \<and> k \<in> set ks})"
proof (induction members arbitrary: i R)
  case (Cons m members)
  obtain b ks where m: "m = (b, ks)" by (cases m)
  have "(\<lambda>k. (if k \<in> set ks then insert b (R k) else R k) \<union>
              {b. \<exists>ks. (b, ks) \<in> set members \<and> k \<in> set ks}) =
        (\<lambda>k. R k \<union> {b. \<exists>ks. (b, ks) \<in> set (m # members) \<and> k \<in> set ks})"
    unfolding m by (rule ext) auto
  then show ?case using Cons.IH [OF represents_add_all [OF Cons.prems, of b ks]] by (simp add: m)
qed simp

end

section \<open>The map operations have it\<close>

lemma idx_represents_ok: "idx_represents idx R \<Longrightarrow> om_ok idx"
  by (simp add: idx_represents_def)

lemma idx_represents_entry: "idx_represents idx R \<Longrightarrow> idx_entry (om_find idx k) (R k)"
  by (simp add: idx_represents_def)

lemma idx_represents_add:
  assumes "idx_represents idx R"
  shows "idx_represents (idx_insert k b idx) (R(k := insert b (R k)))"
proof -
  note ok = idx_represents_ok [OF assms]
  let ?old = "case om_find idx k of None \<Rightarrow> [] | Some members \<Rightarrow> members"
  have "strictly_ascending ?old" "set ?old = R k"
    using idx_represents_entry [OF assms, of k] by (cases "om_find idx k"; simp)+
  then have "idx_entry (Some (os_insert b ?old)) (insert b (R k))"
    using os_insert_ascending by (auto simp flip: set_empty)
  then show ?thesis
    using idx_represents_entry [OF assms] om_ok_put [OF ok]
    by (simp add: idx_represents_def idx_insert_def om_find_put [OF ok])
qed

lemma idx_represents_remove:
  assumes "idx_represents idx R"
  shows "idx_represents (idx_erase k b idx) (R(k := R k - {b}))"
proof (cases "om_find idx k")
  case None
  then have "R k = {}" using idx_represents_entry [OF assms, of k] by simp
  then have "R(k := R k - {b}) = R" by (simp add: fun_upd_idem)
  then show ?thesis using assms None by (simp add: idx_erase_def)
next
  case (Some members)
  note ok = idx_represents_ok [OF assms]
  have "strictly_ascending members" "set members = R k"
    using idx_represents_entry [OF assms, of k] Some by simp_all
  then have rest: "strictly_ascending (os_erase b members)" "set (os_erase b members) = R k - {b}"
    by (simp_all add: os_erase_ascending set_os_erase)
  show ?thesis
  proof (cases "os_erase b members = []")
    case True
    then show ?thesis
      using idx_represents_entry [OF assms] om_ok_erase [OF ok] rest
      by (simp add: idx_represents_def om_find_erase [OF ok] idx_erase_def Some)
  next
    case False
    then show ?thesis
      using idx_represents_entry [OF assms] om_ok_put [OF ok] rest
      by (simp add: idx_represents_def om_find_put [OF ok] idx_erase_def Some Let_def)
  qed
qed

lemma idx_entry_unique: "idx_entry a S \<Longrightarrow> idx_entry b S \<Longrightarrow> a = b"
  by (cases a; cases b) (auto dest: strict_sorted_equal)

lemma idx_represents_unique:
  assumes "idx_represents i R" and "idx_represents j R"
  shows "i = j"
  using assms by (intro om.entries_eqI) (auto simp: idx_represents_def intro: idx_entry_unique)

interpretation backend_index: derived_index om_empty idx_insert idx_erase idx_represents
proof
  show "idx_represents om_empty (\<lambda>_. {})"
    by (simp add: idx_represents_def om.ok_empty om.find_empty)
qed (fact idx_represents_add idx_represents_remove idx_represents_unique)+

end
