(* ===== verification/Router_State.thy ===== *)
theory Router_State
  imports Decision Backend_Index Limits
begin

text \<open>
  The router's canonical state (\<open>src/router_impl.hpp\<close>) and the helpers of
  \<open>src/router.cpp\<close> that every mutation uses: the derived indexes, the authority that is
  currently observable for a bound route, the reason why a bound route may not be
  dispatched, and the passes that mark retained decisions stale.

  The lemmas show that incremental index maintenance agrees with rebuilding the indexes,
  give a declarative reading of dispatchability, and show that the stale pass leaves only
  dispatchable decisions live.
\<close>

section \<open>State\<close>

record FencedBootRecord =
  fb_backend_id :: entity_id
  fb_backend_generation :: generation
  fb_backend_boot :: generation
  fb_reason :: OutcomeCode
  fb_fenced_at :: unix_millis

record PersistenceCounters =
  pc_highest_identity_issued :: u64
  pc_route_requests :: u64
  pc_route_decisions :: u64
  pc_dispatches :: u64
  pc_route_rejections :: u64
  pc_reroutes :: u64
  pc_fallbacks_taken :: u64

definition PersistenceCounters_default :: PersistenceCounters where
  "PersistenceCounters_default =
     \<lparr>pc_highest_identity_issued = 0, pc_route_requests = 0, pc_route_decisions = 0,
      pc_dispatches = 0, pc_route_rejections = 0, pc_reroutes = 0, pc_fallbacks_taken = 0\<rparr>"

record RouteRecord =
  rec_decision :: RouteDecision
  rec_plan :: RoutePlan
  rec_tenant :: entity_id
  rec_name_space :: entity_id

record RouteLookup =
  lk_decision_id :: entity_id
  lk_decision_generation :: generation
  lk_request_id :: entity_id
  lk_request_generation :: generation
  lk_status :: RouteStatus
  lk_code :: OutcomeCode
  lk_authority :: RouteAuthority
  lk_tenant :: entity_id
  lk_name_space :: entity_id

definition RouteLookup_from :: "RouteRecord \<Rightarrow> RouteLookup" where
  "RouteLookup_from r =
     (let d = rec_decision r in
      \<lparr>lk_decision_id = rd_decision_id d, lk_decision_generation = rd_decision_generation d,
       lk_request_id = rd_request_id d, lk_request_generation = rd_request_generation d,
       lk_status = rd_status d, lk_code = rd_code d, lk_authority = rd_authority d,
       lk_tenant = rec_tenant r, lk_name_space = rec_name_space r\<rparr>)"

text \<open>\<open>FenceKey\<close> is ordered by backend, then by boot: the lexicographic order of pairs.\<close>

type_synonym FenceKey = "entity_id \<times> generation"

record CanonicalState =
  cs_router_id :: entity_id
  cs_router_generation :: generation
  cs_router_epoch :: generation
  cs_coordinator_epoch :: generation
  cs_router_boot :: generation
  cs_running :: bool
  cs_shutting_down :: bool
  cs_recovered :: bool
  cs_limits :: ResourceLimits
  cs_weights :: RankingWeights
  cs_scales :: RankingScales
  cs_models :: "(entity_id, ModelDescriptor) omap"
  cs_providers :: "(entity_id, ProviderDescriptor) omap"
  cs_backends :: "(entity_id, BackendDescriptor) omap"
  cs_fenced_boots :: "(FenceKey, FencedBootRecord) omap"
  cs_model_generation_watermark :: "(entity_id, generation) omap"
  cs_backend_generation_watermark :: "(entity_id, generation) omap"
  cs_policy :: PolicySnapshot
  cs_budget :: BudgetSnapshot
  cs_slo :: SloEvidence
  cs_compatibility :: "(entity_id, CompatibilityEvidence) omap"
  cs_trust :: "(entity_id, TrustEvidence) omap"
  cs_costs :: "(entity_id \<times> entity_id, CostEvidence) omap"
  cs_reservations :: "(entity_id, ReservationEvidence) omap"
  cs_routes :: "(entity_id, RouteRecord) omap"
  cs_route_order :: "entity_id list"
  cs_dispatches :: "(entity_id, DispatchRecord) omap"
  cs_dispatch_index :: "(entity_id, entity_id) omap"
  cs_index_backends_by_model :: "(entity_id, entity_id list) omap"
  cs_index_backends_by_provider :: "(entity_id, entity_id list) omap"
  cs_index_backends_by_trust :: "(nat, entity_id list) omap"
  cs_tenants :: "entity_id list"
  cs_last_winner_by_tenant :: "(entity_id, entity_id) omap"
  cs_counters :: PersistenceCounters
  cs_last_eligible :: u32
  cs_last_rejected :: u32
  cs_started_at :: unix_millis

definition CanonicalState_default :: CanonicalState where
  "CanonicalState_default =
     \<lparr>cs_router_id = 0, cs_router_generation = 0, cs_router_epoch = 0, cs_coordinator_epoch = 0,
      cs_router_boot = 0, cs_running = False, cs_shutting_down = False, cs_recovered = False,
      cs_limits = default_resource_limits, cs_weights = RankingWeights_default,
      cs_scales = RankingScales_default, cs_models = om_empty, cs_providers = om_empty,
      cs_backends = om_empty, cs_fenced_boots = om_empty, cs_model_generation_watermark = om_empty,
      cs_backend_generation_watermark = om_empty, cs_policy = PolicySnapshot_default,
      cs_budget = BudgetSnapshot_default, cs_slo = SloEvidence_default, cs_compatibility = om_empty,
      cs_trust = om_empty, cs_costs = om_empty, cs_reservations = om_empty, cs_routes = om_empty,
      cs_route_order = [], cs_dispatches = om_empty, cs_dispatch_index = om_empty,
      cs_index_backends_by_model = om_empty, cs_index_backends_by_provider = om_empty,
      cs_index_backends_by_trust = om_empty, cs_tenants = [], cs_last_winner_by_tenant = om_empty,
      cs_counters = PersistenceCounters_default, cs_last_eligible = 0, cs_last_rejected = 0,
      cs_started_at = 0\<rparr>"

section \<open>Construction\<close>

text \<open>The clock and the provider adapters of the options are arguments of the operations that
  use them; the allocator's last issued value is passed through explicitly.\<close>

record ModelRouterOptions =
  mo_router_id :: entity_id
  mo_router_generation :: generation
  mo_limits :: ResourceLimits
  mo_weights :: RankingWeights
  mo_scales :: RankingScales
  mo_persistence_path :: string
  mo_load_on_start :: bool
  mo_save_on_shutdown :: bool
  mo_use_catalog_adapters :: bool

definition ModelRouterOptions_validate :: "ModelRouterOptions \<Rightarrow> string" where
  "ModelRouterOptions_validate o' =
     (if ResourceLimits_validate (mo_limits o') \<noteq> []
        then ''resource limits are incoherent: '' @ ResourceLimits_validate (mo_limits o')
      else if RankingWeights_validate (mo_weights o') \<noteq> []
        then ''ranking weights are incoherent: '' @ RankingWeights_validate (mo_weights o')
      else if RankingScales_validate (mo_scales o') \<noteq> []
        then ''ranking scales are incoherent: '' @ RankingScales_validate (mo_scales o')
      else if mo_save_on_shutdown o' \<and> mo_persistence_path o' = []
        then ''save_on_shutdown is set without a persistence path''
      else if mo_load_on_start o' \<and> mo_persistence_path o' = []
        then ''load_on_start is set without a persistence path''
      else [])"

definition Impl_new :: "ModelRouterOptions \<Rightarrow> u64 \<Rightarrow> u64 \<times> CanonicalState" where
  "Impl_new o' ids =
     (let (ids', router_id) =
            (if valid_id (mo_router_id o') then (ids, mo_router_id o') else IdAllocator_next ids)
      in (ids', CanonicalState_default
           \<lparr>cs_limits := mo_limits o', cs_weights := mo_weights o', cs_scales := mo_scales o',
            cs_router_id := router_id,
            cs_router_generation :=
              (if valid_id (mo_router_generation o') then mo_router_generation o' else 1)\<rparr>))"

section \<open>Derived indexes\<close>

text \<open>Filing one backend under its provider, its trust rank and the models it binds.\<close>

definition index_add_entry :: "entity_id \<Rightarrow> BackendDescriptor \<Rightarrow> CanonicalState \<Rightarrow> CanonicalState" where
  "index_add_entry backend_id backend s =
     s\<lparr>cs_index_backends_by_provider :=
         idx_insert (bd_provider_id backend) backend_id (cs_index_backends_by_provider s),
       cs_index_backends_by_trust :=
         idx_insert (trust_rank (bd_trust_domain backend)) backend_id (cs_index_backends_by_trust s),
       cs_index_backends_by_model :=
         foldl (\<lambda>idx binding. idx_insert (mb_model_id binding) backend_id idx)
           (cs_index_backends_by_model s) (bd_model_bindings backend)\<rparr>"

definition rebuild_indexes :: "CanonicalState \<Rightarrow> CanonicalState" where
  "rebuild_indexes s =
     foldl (\<lambda>s (backend_id, backend). index_add_entry backend_id backend s)
       (s\<lparr>cs_index_backends_by_model := om_empty, cs_index_backends_by_provider := om_empty,
          cs_index_backends_by_trust := om_empty\<rparr>)
       (cs_backends s)"

definition index_add_backend :: "BackendDescriptor \<Rightarrow> CanonicalState \<Rightarrow> CanonicalState" where
  "index_add_backend backend s = index_add_entry (bd_backend_id backend) backend s"

definition index_remove_backend :: "BackendDescriptor \<Rightarrow> CanonicalState \<Rightarrow> CanonicalState" where
  "index_remove_backend backend s =
     s\<lparr>cs_index_backends_by_provider :=
         idx_erase (bd_provider_id backend) (bd_backend_id backend) (cs_index_backends_by_provider s),
       cs_index_backends_by_trust :=
         idx_erase (trust_rank (bd_trust_domain backend)) (bd_backend_id backend)
           (cs_index_backends_by_trust s),
       cs_index_backends_by_model :=
         foldl (\<lambda>idx binding. idx_erase (mb_model_id binding) (bd_backend_id backend) idx)
           (cs_index_backends_by_model s) (bd_model_bindings backend)\<rparr>"

section \<open>Current authority and dispatchability\<close>

text \<open>\<open>None\<close> stands for the result \<open>false\<close>.\<close>

definition observed_authority ::
  "CanonicalState \<Rightarrow> RouteAuthority \<Rightarrow> ModelDescriptor \<Rightarrow> BackendDescriptor \<Rightarrow> RouteAuthority" where
  "observed_authority state bound model descriptor =
     (let base = RouteAuthority_default
            \<lparr>ra_router_id := ra_router_id bound,
             ra_router_epoch := cs_router_epoch state,
             ra_coordinator_epoch := cs_coordinator_epoch state,
             ra_request_id := ra_request_id bound,
             ra_request_generation := ra_request_generation bound,
             ra_decision_id := ra_decision_id bound,
             ra_decision_generation := ra_decision_generation bound,
             ra_model_id := ra_model_id bound,
             ra_backend_id := ra_backend_id bound,
             ra_tenant := ra_tenant bound,
             ra_name_space := ra_name_space bound,
             ra_policy_id := ps_policy_id (cs_policy state),
             ra_policy_generation := ps_generation (cs_policy state),
             ra_slo_id := sl_slo_id (cs_slo state),
             ra_slo_generation := sl_generation (cs_slo state),
             ra_model_generation := md_model_generation model,
             ra_artifact_generation := md_artifact_generation model,
             ra_provider_id := bd_provider_id descriptor,
             ra_provider_generation := bd_provider_generation descriptor,
             ra_backend_generation := bd_backend_generation descriptor,
             ra_backend_boot := bd_backend_boot descriptor,
             ra_backend_registration_generation := bd_backend_registration_generation descriptor,
             ra_endpoint_id := ed_endpoint_id (bd_endpoint descriptor),
             ra_endpoint_generation := ed_endpoint_generation (bd_endpoint descriptor),
             ra_capability_profile_id := bd_capability_profile_id descriptor,
             ra_capability_generation := bd_capability_generation descriptor,
             ra_compatibility_profile_id := bd_compatibility_profile_id descriptor,
             ra_compatibility_generation := bd_compatibility_generation descriptor,
             ra_trust_profile_id := bd_trust_profile_id descriptor,
             ra_trust_generation := bd_trust_generation descriptor,
             ra_health_generation := be_generation (bd_health descriptor),
             ra_availability_generation := be_generation (bd_availability descriptor),
             ra_readiness_generation := be_generation (bd_readiness descriptor),
             ra_residency_generation := be_generation (bd_residency descriptor),
             ra_capacity_generation := be_generation (bd_capacity descriptor)\<rparr>;
          budgeted = (if valid_id (ra_budget_generation bound)
            then base\<lparr>ra_budget_id := bs_budget_id (cs_budget state),
                      ra_budget_generation := bs_generation (cs_budget state)\<rparr>
            else base);
          priced = (case find_binding descriptor (ra_model_id bound) of
              None \<Rightarrow> budgeted
            | Some binding \<Rightarrow>
                budgeted\<lparr>ra_cost_evidence_id := co_evidence_id (mb_cost binding),
                         ra_price_generation := co_price_generation (mb_cost binding)\<rparr>)
      in case om_find (cs_reservations state) (ra_backend_id bound) of
           None \<Rightarrow> priced
         | Some reservation \<Rightarrow>
             priced\<lparr>ra_reservation_id := re_reservation_id reservation,
                    ra_reservation_generation := re_generation reservation\<rparr>)"

definition build_current_authority :: "CanonicalState \<Rightarrow> RouteAuthority \<Rightarrow> RouteAuthority option" where
  "build_current_authority state bound =
     (case om_find (cs_models state) (ra_model_id bound) of
        None \<Rightarrow> None
      | Some model \<Rightarrow>
          (case om_find (cs_backends state) (ra_backend_id bound) of
             None \<Rightarrow> None
           | Some descriptor \<Rightarrow> Some (observed_authority state bound model descriptor)))"

definition lifecycle_reason ::
  "RouteAuthority \<Rightarrow> ModelDescriptor option \<Rightarrow> BackendDescriptor option \<Rightarrow> OutcomeCode" where
  "lifecycle_reason bound model backend =
     (case model of
        None \<Rightarrow> REJECT_STALE_MODEL
      | Some m \<Rightarrow>
          (case backend of
             None \<Rightarrow> REJECT_STALE_BACKEND
           | Some b \<Rightarrow>
               if md_lifecycle m = ModelLifecycle.RETIRED then REJECT_RETIRED
               else if md_lifecycle m \<noteq> ModelLifecycle.CURRENT then REJECT_STALE_MODEL
               else if BackendDescriptor_retired b then REJECT_RETIRED
               else if BackendDescriptor_draining b then REJECT_DRAINING
               else if bd_backend_boot b \<noteq> ra_backend_boot bound \<or>
                       bd_backend_generation b \<noteq> ra_backend_generation bound
                 then REJECT_STALE_BACKEND_BOOT
               else if ed_endpoint_generation (bd_endpoint b) \<noteq> ra_endpoint_generation bound
                 then REJECT_STALE_ENDPOINT
               else ACCEPTED))"

definition dispatchability_reason ::
  "CanonicalState \<Rightarrow> RouteAuthority \<Rightarrow> unix_millis \<Rightarrow> OutcomeCode" where
  "dispatchability_reason state bound now =
     (if RouteAuthority_expired bound now then REJECT_STALE_REQUEST
      else if om_find (cs_fenced_boots state) (ra_backend_id bound, ra_backend_boot bound) \<noteq> None
        then REJECT_STALE_BACKEND_BOOT
      else case build_current_authority state bound of
          None \<Rightarrow> REJECT_STALE_BACKEND
        | Some observed \<Rightarrow>
            let comparison = compare_authority bound observed (required_mask bound) in
            if \<not> AuthorityComparison_current comparison then ac_code comparison
            else lifecycle_reason bound (om_find (cs_models state) (ra_model_id bound))
                   (om_find (cs_backends state) (ra_backend_id bound)))"

definition is_authority_dispatchable ::
  "CanonicalState \<Rightarrow> RouteAuthority \<Rightarrow> unix_millis \<Rightarrow> bool" where
  "is_authority_dispatchable state bound now \<longleftrightarrow> dispatchability_reason state bound now = ACCEPTED"

section \<open>Marking decisions stale\<close>

text \<open>A decision is live while it is current or handed to a backend.\<close>

definition live_status :: "RouteStatus \<Rightarrow> bool" where
  "live_status st \<longleftrightarrow> st = RouteStatus.CURRENT \<or> st = DISPATCHED"

definition mark_stale :: "RouteRecord \<Rightarrow> RouteRecord" where
  "mark_stale r =
     r\<lparr>rec_decision := (rec_decision r)
        \<lparr>rd_status := RouteStatus.STALE,
         rd_explanation := (rd_explanation (rec_decision r))
           \<lparr>xp_currentness := Currentness.STALE, xp_revalidation_required := True\<rparr>\<rparr>\<rparr>"

definition stale_decisions_for_backend ::
  "entity_id \<Rightarrow> generation \<Rightarrow> CanonicalState \<Rightarrow> CanonicalState" where
  "stale_decisions_for_backend backend_id backend_boot s =
     s\<lparr>cs_routes := om_map_values
        (\<lambda>r. if \<not> live_status (rd_status (rec_decision r)) then r
             else if ra_backend_id (rd_authority (rec_decision r)) = backend_id \<and>
                     (\<not> valid_id backend_boot \<or>
                      ra_backend_boot (rd_authority (rec_decision r)) = backend_boot)
               then mark_stale r
             else r)
        (cs_routes s)\<rparr>"

definition stale_decision_if_not_dispatchable ::
  "CanonicalState \<Rightarrow> unix_millis \<Rightarrow> RouteRecord \<Rightarrow> RouteRecord" where
  "stale_decision_if_not_dispatchable s now r =
     (if \<not> live_status (rd_status (rec_decision r)) then r
      else if is_authority_dispatchable s (rd_authority (rec_decision r)) now then r
      else mark_stale r)"

text \<open>The loop changes only \<open>routes\<close>, which dispatchability does not read, so every record is
  judged against the state at the start of the loop.\<close>

definition stale_decisions_for_authority_change ::
  "unix_millis \<Rightarrow> CanonicalState \<Rightarrow> CanonicalState" where
  "stale_decisions_for_authority_change now s =
     s\<lparr>cs_routes := om_map_values (stale_decision_if_not_dispatchable s now) (cs_routes s)\<rparr>"

definition note_tenant :: "entity_id \<Rightarrow> CanonicalState \<Rightarrow> CanonicalState" where
  "note_tenant tenant s =
     (if valid_id tenant then s\<lparr>cs_tenants := os_insert tenant (cs_tenants s)\<rparr> else s)"

definition generation_regressed :: "u64 \<Rightarrow> u64 \<Rightarrow> bool" where
  "generation_regressed incoming current \<longleftrightarrow> current \<noteq> 0 \<and> incoming \<noteq> 0 \<and> incoming < current"

definition is_fenced :: "CanonicalState \<Rightarrow> entity_id \<Rightarrow> generation \<Rightarrow> bool" where
  "is_fenced s backend_id boot \<longleftrightarrow> om_find (cs_fenced_boots s) (backend_id, boot) \<noteq> None"

section \<open>The indexes agree with the catalog\<close>

definition provider_members :: "(entity_id, BackendDescriptor) omap \<Rightarrow> entity_id \<Rightarrow> entity_id set" where
  "provider_members B p = {i. \<exists>b. om_find B i = Some b \<and> bd_provider_id b = p}"

definition trust_members :: "(entity_id, BackendDescriptor) omap \<Rightarrow> nat \<Rightarrow> entity_id set" where
  "trust_members B r = {i. \<exists>b. om_find B i = Some b \<and> trust_rank (bd_trust_domain b) = r}"

definition model_members :: "(entity_id, BackendDescriptor) omap \<Rightarrow> entity_id \<Rightarrow> entity_id set" where
  "model_members B m =
     {i. \<exists>b. om_find B i = Some b \<and> m \<in> mb_model_id ` set (bd_model_bindings b)}"

definition indexes_for :: "CanonicalState \<Rightarrow> (entity_id, BackendDescriptor) omap \<Rightarrow> bool" where
  "indexes_for s B \<longleftrightarrow>
     idx_represents (cs_index_backends_by_provider s) (provider_members B) \<and>
     idx_represents (cs_index_backends_by_trust s) (trust_members B) \<and>
     idx_represents (cs_index_backends_by_model s) (model_members B)"

lemmas members_defs = provider_members_def trust_members_def model_members_def

lemma foldl_binding_keys:
  "foldl (\<lambda>idx binding. f (mb_model_id binding) idx) idx bindings =
   foldl (\<lambda>idx k. f k idx) idx (map mb_model_id bindings)"
  by (induction bindings arbitrary: idx) simp_all

lemma index_remove_fields:
  "cs_index_backends_by_provider (index_remove_backend b s) =
     idx_erase (bd_provider_id b) (bd_backend_id b) (cs_index_backends_by_provider s)"
  "cs_index_backends_by_trust (index_remove_backend b s) =
     idx_erase (trust_rank (bd_trust_domain b)) (bd_backend_id b) (cs_index_backends_by_trust s)"
  "cs_index_backends_by_model (index_remove_backend b s) =
     foldl (\<lambda>idx k. idx_erase k (bd_backend_id b) idx) (cs_index_backends_by_model s)
       (map mb_model_id (bd_model_bindings b))"
  by (simp_all add: index_remove_backend_def foldl_binding_keys [where f = "\<lambda>k. idx_erase k (bd_backend_id b)"])

lemma index_add_fields:
  "cs_index_backends_by_provider (index_add_entry i b s) =
     idx_insert (bd_provider_id b) i (cs_index_backends_by_provider s)"
  "cs_index_backends_by_trust (index_add_entry i b s) =
     idx_insert (trust_rank (bd_trust_domain b)) i (cs_index_backends_by_trust s)"
  "cs_index_backends_by_model (index_add_entry i b s) =
     foldl (\<lambda>idx k. idx_insert k i idx) (cs_index_backends_by_model s)
       (map mb_model_id (bd_model_bindings b))"
  by (simp_all add: index_add_entry_def foldl_binding_keys [where f = "\<lambda>k. idx_insert k i"])

lemma indexes_for_remove:
  assumes idx: "indexes_for s B" and ok: "om_ok B"
    and b: "om_find B i = Some b" "bd_backend_id b = i"
  shows "indexes_for (index_remove_backend b s) (om_erase i B)"
proof -
  note parts = idx [unfolded indexes_for_def]
  have p: "(provider_members B)(bd_provider_id b := provider_members B (bd_provider_id b) - {i}) =
      provider_members (om_erase i B)"
    using b by (intro ext) (auto simp: provider_members_def om_find_erase [OF ok])
  have t: "(trust_members B)(trust_rank (bd_trust_domain b) :=
      trust_members B (trust_rank (bd_trust_domain b)) - {i}) = trust_members (om_erase i B)"
    using b by (intro ext) (auto simp: trust_members_def om_find_erase [OF ok])
  have m: "(\<lambda>k. if k \<in> set (map mb_model_id (bd_model_bindings b))
      then model_members B k - {i} else model_members B k) = model_members (om_erase i B)"
    using b by (intro ext) (auto simp: model_members_def om_find_erase [OF ok])
  show ?thesis
    unfolding indexes_for_def index_remove_fields b(2) p [symmetric] t [symmetric] m [symmetric]
    by (intro conjI backend_index.represents_remove backend_index.represents_remove_all)
       (simp_all only: parts)
qed

lemma indexes_for_add:
  assumes idx: "indexes_for s B" and ok: "om_ok B" and new: "om_find B i = None"
  shows "indexes_for (index_add_entry i b s) (om_put i b B)"
proof -
  note parts = idx [unfolded indexes_for_def]
  have p: "(provider_members B)(bd_provider_id b := insert i (provider_members B (bd_provider_id b))) =
      provider_members (om_put i b B)"
    using new by (intro ext) (auto simp: provider_members_def om_find_put [OF ok])
  have t: "(trust_members B)(trust_rank (bd_trust_domain b) :=
      insert i (trust_members B (trust_rank (bd_trust_domain b)))) = trust_members (om_put i b B)"
    using new by (intro ext) (auto simp: trust_members_def om_find_put [OF ok])
  have m: "(\<lambda>k. if k \<in> set (map mb_model_id (bd_model_bindings b))
      then insert i (model_members B k) else model_members B k) = model_members (om_put i b B)"
    using new by (intro ext) (auto simp: model_members_def om_find_put [OF ok])
  show ?thesis
    unfolding indexes_for_def index_add_fields p [symmetric] t [symmetric] m [symmetric]
    by (intro conjI backend_index.represents_add backend_index.represents_add_all)
       (simp_all only: parts)
qed

text \<open>An update in place that keeps provider, trust domain and bound models leaves the
  indexes as they are.\<close>

lemma indexes_for_update:
  assumes "om_ok B" and "om_find B i = Some b"
    and "bd_provider_id b' = bd_provider_id b" and "bd_trust_domain b' = bd_trust_domain b"
    and "map mb_model_id (bd_model_bindings b') = map mb_model_id (bd_model_bindings b)"
  shows "indexes_for s (om_put i b' B) \<longleftrightarrow> indexes_for s B"
proof -
  have models: "mb_model_id ` set (bd_model_bindings b') = mb_model_id ` set (bd_model_bindings b)"
    using assms(5) by (metis set_map)
  have "provider_members (om_put i b' B) = provider_members B"
    using assms by (intro ext) (auto simp: provider_members_def om_find_put)
  moreover have "trust_members (om_put i b' B) = trust_members B"
    using assms by (intro ext) (auto simp: trust_members_def om_find_put)
  moreover have "model_members (om_put i b' B) = model_members B"
    unfolding model_members_def om_find_put [OF assms(1)]
    by (intro ext Collect_cong) (use assms(2) models in auto)
  ultimately show ?thesis by (simp add: indexes_for_def)
qed

lemma om_put_erase: "om_ok B \<Longrightarrow> om_put i b (om_erase i B) = om_put i b B"
  by (rule om.entries_eqI) (auto simp: om_laws)

definition indexes_ok :: "CanonicalState \<Rightarrow> bool" where
  "indexes_ok s \<longleftrightarrow> indexes_for s (cs_backends s)"

lemma foldl_index_add_entry:
  "foldl (\<lambda>s (i, b). index_add_entry i b s) s xs =
   s\<lparr>cs_index_backends_by_provider :=
       foldl (\<lambda>idx (i, ks). foldl (\<lambda>idx k. idx_insert k i idx) idx ks)
         (cs_index_backends_by_provider s) (map (\<lambda>(i, b). (i, [bd_provider_id b])) xs),
     cs_index_backends_by_trust :=
       foldl (\<lambda>idx (i, ks). foldl (\<lambda>idx k. idx_insert k i idx) idx ks)
         (cs_index_backends_by_trust s) (map (\<lambda>(i, b). (i, [trust_rank (bd_trust_domain b)])) xs),
     cs_index_backends_by_model :=
       foldl (\<lambda>idx (i, ks). foldl (\<lambda>idx k. idx_insert k i idx) idx ks)
         (cs_index_backends_by_model s) (map (\<lambda>(i, b). (i, map mb_model_id (bd_model_bindings b))) xs)\<rparr>"
proof (induction xs arbitrary: s)
  case (Cons x xs)
  obtain i b where x: "x = (i, b)" by (cases x)
  show ?case
    unfolding x foldl_Cons list.map case_prod_conv Cons.IH index_add_fields
    by (simp add: index_add_entry_def)
qed simp

lemma rebuilt_fields:
  "cs_backends (rebuild_indexes s) = cs_backends s"
  "cs_index_backends_by_provider (rebuild_indexes s) =
     foldl (\<lambda>idx (i, ks). foldl (\<lambda>idx k. idx_insert k i idx) idx ks) om_empty
       (map (\<lambda>(i, b). (i, [bd_provider_id b])) (cs_backends s))"
  "cs_index_backends_by_trust (rebuild_indexes s) =
     foldl (\<lambda>idx (i, ks). foldl (\<lambda>idx k. idx_insert k i idx) idx ks) om_empty
       (map (\<lambda>(i, b). (i, [trust_rank (bd_trust_domain b)])) (cs_backends s))"
  "cs_index_backends_by_model (rebuild_indexes s) =
     foldl (\<lambda>idx (i, ks). foldl (\<lambda>idx k. idx_insert k i idx) idx ks) om_empty
       (map (\<lambda>(i, b). (i, map mb_model_id (bd_model_bindings b))) (cs_backends s))"
  by (simp_all add: rebuild_indexes_def foldl_index_add_entry)

lemma rebuilt_indexes:
  assumes ok: "om_ok (cs_backends s)"
  shows "indexes_ok (rebuild_indexes s)"
proof -
  note built = backend_index.represents_build [OF backend_index.represents_empty]
  have find: "(i, b) \<in> set (cs_backends s) \<longleftrightarrow> om_find (cs_backends s) i = Some b" for i b
    by (rule om.entries_find [OF ok])
  have p: "provider_members (cs_backends s) = (\<lambda>k. {} \<union> {i. \<exists>ks. (i, ks) \<in>
      set (map (\<lambda>(i, b). (i, [bd_provider_id b])) (cs_backends s)) \<and> k \<in> set ks})"
    by (intro ext) (force simp: provider_members_def simp flip: find)
  have t: "trust_members (cs_backends s) = (\<lambda>k. {} \<union> {i. \<exists>ks. (i, ks) \<in>
      set (map (\<lambda>(i, b). (i, [trust_rank (bd_trust_domain b)])) (cs_backends s)) \<and> k \<in> set ks})"
    by (intro ext) (force simp: trust_members_def simp flip: find)
  have m: "model_members (cs_backends s) = (\<lambda>k. {} \<union> {i. \<exists>ks. (i, ks) \<in>
      set (map (\<lambda>(i, b). (i, map mb_model_id (bd_model_bindings b))) (cs_backends s)) \<and> k \<in> set ks})"
    by (intro ext) (force simp: model_members_def simp flip: find)
  show ?thesis
    unfolding indexes_ok_def indexes_for_def rebuilt_fields p t m by (intro conjI built)
qed

lemma indexes_ok_iff:
  assumes ok: "om_ok (cs_backends s)"
  shows "indexes_ok s \<longleftrightarrow> rebuild_indexes s = s"
proof
  assume "indexes_ok s"
  then have "cs_index_backends_by_provider (rebuild_indexes s) = cs_index_backends_by_provider s"
    "cs_index_backends_by_trust (rebuild_indexes s) = cs_index_backends_by_trust s"
    "cs_index_backends_by_model (rebuild_indexes s) = cs_index_backends_by_model s"
    using rebuilt_indexes [OF ok] backend_index.represents_unique
    unfolding indexes_ok_def indexes_for_def rebuilt_fields(1) by metis+
  then show "rebuild_indexes s = s"
    by (simp add: rebuild_indexes_def foldl_index_add_entry)
next
  assume "rebuild_indexes s = s"
  then show "indexes_ok s" using rebuilt_indexes [OF ok] by simp
qed

section \<open>Dispatchability, declaratively\<close>

lemma required_mask_iff:
  "mask_contains (required_mask a) c \<longleftrightarrow>
     c \<in> always_required \<or>
     c = PROVIDER \<and> (valid_id (ra_provider_id a) \<or> valid_id (ra_provider_generation a)) \<or>
     c = BUDGET \<and> valid_id (ra_budget_generation a) \<or>
     c = PRICE \<and> valid_id (ra_price_generation a) \<or>
     c = SLO \<and> valid_id (ra_slo_generation a) \<or>
     c = COMPATIBILITY \<and> valid_id (ra_compatibility_generation a) \<or>
     c = AuthorityComponent.RESIDENCY \<and> valid_id (ra_residency_generation a) \<or>
     c = CAPACITY \<and> valid_id (ra_capacity_generation a) \<or>
     c = RESERVATION \<and> (valid_id (ra_reservation_id a) \<or> valid_id (ra_reservation_generation a)) \<or>
     c = DISPATCH \<and> valid_id (ra_dispatch_generation a)"
  unfolding required_mask_def mask_contains_foldl always_required_def by (cases c) simp_all

text \<open>The registered identities and generations that a bound authority must name: those every
  route depends on, and the optional ones the route was bound to.\<close>

definition authority_matches ::
  "CanonicalState \<Rightarrow> RouteAuthority \<Rightarrow> ModelDescriptor \<Rightarrow> BackendDescriptor \<Rightarrow> bool" where
  "authority_matches s a model b \<longleftrightarrow>
     ra_router_epoch a = cs_router_epoch s \<and> ra_coordinator_epoch a = cs_coordinator_epoch s \<and>
     ra_model_generation a = md_model_generation model \<and>
     ra_artifact_generation a = md_artifact_generation model \<and>
     ra_backend_generation a = bd_backend_generation b \<and>
     ra_backend_registration_generation a = bd_backend_registration_generation b \<and>
     ra_backend_boot a = bd_backend_boot b \<and>
     ra_endpoint_id a = ed_endpoint_id (bd_endpoint b) \<and>
     ra_endpoint_generation a = ed_endpoint_generation (bd_endpoint b) \<and>
     ra_capability_profile_id a = bd_capability_profile_id b \<and>
     ra_capability_generation a = bd_capability_generation b \<and>
     ra_policy_id a = ps_policy_id (cs_policy s) \<and> ra_policy_generation a = ps_generation (cs_policy s) \<and>
     ra_trust_profile_id a = bd_trust_profile_id b \<and> ra_trust_generation a = bd_trust_generation b \<and>
     ra_health_generation a = be_generation (bd_health b) \<and>
     ra_availability_generation a = be_generation (bd_availability b) \<and>
     ra_readiness_generation a = be_generation (bd_readiness b) \<and>
     (valid_id (ra_provider_id a) \<or> valid_id (ra_provider_generation a) \<longrightarrow>
        ra_provider_id a = bd_provider_id b \<and> ra_provider_generation a = bd_provider_generation b) \<and>
     (valid_id (ra_budget_generation a) \<longrightarrow>
        ra_budget_id a = bs_budget_id (cs_budget s) \<and>
        ra_budget_generation a = bs_generation (cs_budget s)) \<and>
     (valid_id (ra_price_generation a) \<longrightarrow>
        (\<exists>binding. find_binding b (ra_model_id a) = Some binding \<and>
           ra_cost_evidence_id a = co_evidence_id (mb_cost binding) \<and>
           ra_price_generation a = co_price_generation (mb_cost binding))) \<and>
     (valid_id (ra_slo_generation a) \<longrightarrow>
        ra_slo_id a = sl_slo_id (cs_slo s) \<and> ra_slo_generation a = sl_generation (cs_slo s)) \<and>
     (valid_id (ra_compatibility_generation a) \<longrightarrow>
        ra_compatibility_profile_id a = bd_compatibility_profile_id b \<and>
        ra_compatibility_generation a = bd_compatibility_generation b) \<and>
     (valid_id (ra_residency_generation a) \<longrightarrow>
        ra_residency_generation a = be_generation (bd_residency b)) \<and>
     (valid_id (ra_capacity_generation a) \<longrightarrow>
        ra_capacity_generation a = be_generation (bd_capacity b)) \<and>
     (valid_id (ra_reservation_id a) \<or> valid_id (ra_reservation_generation a) \<longrightarrow>
        (\<exists>reservation. om_find (cs_reservations s) (ra_backend_id a) = Some reservation \<and>
           ra_reservation_id a = re_reservation_id reservation \<and>
           ra_reservation_generation a = re_generation reservation)) \<and>
     ra_dispatch_generation a = 0"

lemma observed_fields:
  "ra_router_epoch (observed_authority s a m b) = cs_router_epoch s"
  "ra_coordinator_epoch (observed_authority s a m b) = cs_coordinator_epoch s"
  "ra_request_id (observed_authority s a m b) = ra_request_id a"
  "ra_request_generation (observed_authority s a m b) = ra_request_generation a"
  "ra_model_id (observed_authority s a m b) = ra_model_id a"
  "ra_model_generation (observed_authority s a m b) = md_model_generation m"
  "ra_artifact_generation (observed_authority s a m b) = md_artifact_generation m"
  "ra_provider_id (observed_authority s a m b) = bd_provider_id b"
  "ra_provider_generation (observed_authority s a m b) = bd_provider_generation b"
  "ra_backend_id (observed_authority s a m b) = ra_backend_id a"
  "ra_backend_generation (observed_authority s a m b) = bd_backend_generation b"
  "ra_backend_registration_generation (observed_authority s a m b) =
     bd_backend_registration_generation b"
  "ra_backend_boot (observed_authority s a m b) = bd_backend_boot b"
  "ra_endpoint_id (observed_authority s a m b) = ed_endpoint_id (bd_endpoint b)"
  "ra_endpoint_generation (observed_authority s a m b) = ed_endpoint_generation (bd_endpoint b)"
  "ra_capability_profile_id (observed_authority s a m b) = bd_capability_profile_id b"
  "ra_capability_generation (observed_authority s a m b) = bd_capability_generation b"
  "ra_policy_id (observed_authority s a m b) = ps_policy_id (cs_policy s)"
  "ra_policy_generation (observed_authority s a m b) = ps_generation (cs_policy s)"
  "ra_slo_id (observed_authority s a m b) = sl_slo_id (cs_slo s)"
  "ra_slo_generation (observed_authority s a m b) = sl_generation (cs_slo s)"
  "ra_compatibility_profile_id (observed_authority s a m b) = bd_compatibility_profile_id b"
  "ra_compatibility_generation (observed_authority s a m b) = bd_compatibility_generation b"
  "ra_trust_profile_id (observed_authority s a m b) = bd_trust_profile_id b"
  "ra_trust_generation (observed_authority s a m b) = bd_trust_generation b"
  "ra_health_generation (observed_authority s a m b) = be_generation (bd_health b)"
  "ra_availability_generation (observed_authority s a m b) = be_generation (bd_availability b)"
  "ra_readiness_generation (observed_authority s a m b) = be_generation (bd_readiness b)"
  "ra_residency_generation (observed_authority s a m b) = be_generation (bd_residency b)"
  "ra_capacity_generation (observed_authority s a m b) = be_generation (bd_capacity b)"
  "ra_tenant (observed_authority s a m b) = ra_tenant a"
  "ra_name_space (observed_authority s a m b) = ra_name_space a"
  "ra_dispatch_generation (observed_authority s a m b) = 0"
  by (simp_all add: observed_authority_def Let_def RouteAuthority_default_def split: option.split)

lemma observed_budget:
  "ra_budget_id (observed_authority s a m b) =
     (if valid_id (ra_budget_generation a) then bs_budget_id (cs_budget s) else 0)"
  "ra_budget_generation (observed_authority s a m b) =
     (if valid_id (ra_budget_generation a) then bs_generation (cs_budget s) else 0)"
  by (simp_all add: observed_authority_def Let_def RouteAuthority_default_def split: option.split)

lemma observed_price:
  "ra_cost_evidence_id (observed_authority s a m b) =
     (case find_binding b (ra_model_id a) of None \<Rightarrow> 0 | Some d \<Rightarrow> co_evidence_id (mb_cost d))"
  "ra_price_generation (observed_authority s a m b) =
     (case find_binding b (ra_model_id a) of None \<Rightarrow> 0 | Some d \<Rightarrow> co_price_generation (mb_cost d))"
  by (simp_all add: observed_authority_def Let_def RouteAuthority_default_def split: option.split)

lemma observed_reservation:
  "ra_reservation_id (observed_authority s a m b) =
     (case om_find (cs_reservations s) (ra_backend_id a) of None \<Rightarrow> 0 | Some r \<Rightarrow> re_reservation_id r)"
  "ra_reservation_generation (observed_authority s a m b) =
     (case om_find (cs_reservations s) (ra_backend_id a) of None \<Rightarrow> 0 | Some r \<Rightarrow> re_generation r)"
  by (simp_all add: observed_authority_def Let_def RouteAuthority_default_def split: option.split)

lemma authority_matches_iff:
  "authority_matches s a m b \<longleftrightarrow>
     AuthorityComparison_current (compare_authority a (observed_authority s a m b) (required_mask a))"
proof -
  have price: "(\<exists>binding. find_binding b (ra_model_id a) = Some binding \<and>
        ra_cost_evidence_id a = co_evidence_id (mb_cost binding) \<and>
        ra_price_generation a = co_price_generation (mb_cost binding)) \<longleftrightarrow>
      ra_cost_evidence_id a = ra_cost_evidence_id (observed_authority s a m b) \<and>
      ra_price_generation a = ra_price_generation (observed_authority s a m b)"
    if "valid_id (ra_price_generation a)"
    using that by (simp add: observed_price valid_id_def split: option.split)
  have reservation: "(\<exists>r. om_find (cs_reservations s) (ra_backend_id a) = Some r \<and>
        ra_reservation_id a = re_reservation_id r \<and> ra_reservation_generation a = re_generation r) \<longleftrightarrow>
      ra_reservation_id a = ra_reservation_id (observed_authority s a m b) \<and>
      ra_reservation_generation a = ra_reservation_generation (observed_authority s a m b)"
    if "valid_id (ra_reservation_id a) \<or> valid_id (ra_reservation_generation a)"
    using that by (auto simp: observed_reservation valid_id_def split: option.split)
  have dispatch: "(valid_id g \<longrightarrow> g = 0) \<longleftrightarrow> g = 0" for g by (auto simp: valid_id_def)
  show ?thesis
    unfolding compare_current_iff compared_fields_def field_differs_def
    by (simp add: required_mask_iff always_required_def observed_fields observed_budget
        authority_matches_def price reservation dispatch) argo
qed

lemma lifecycle_reason_accepted:
  "lifecycle_reason a model backend = ACCEPTED \<longleftrightarrow>
     (\<exists>m b. model = Some m \<and> backend = Some b \<and> md_lifecycle m = ModelLifecycle.CURRENT \<and>
        \<not> BackendDescriptor_retired b \<and> \<not> BackendDescriptor_draining b \<and>
        bd_backend_boot b = ra_backend_boot a \<and> bd_backend_generation b = ra_backend_generation a \<and>
        ed_endpoint_generation (bd_endpoint b) = ra_endpoint_generation a)"
  by (auto simp: lifecycle_reason_def split: option.split)

lemma dispatchable_iff:
  "is_authority_dispatchable s a now \<longleftrightarrow>
     \<not> RouteAuthority_expired a now \<and> \<not> is_fenced s (ra_backend_id a) (ra_backend_boot a) \<and>
     (\<exists>m b. om_find (cs_models s) (ra_model_id a) = Some m \<and>
        om_find (cs_backends s) (ra_backend_id a) = Some b \<and>
        md_lifecycle m = ModelLifecycle.CURRENT \<and> \<not> BackendDescriptor_retired b \<and>
        \<not> BackendDescriptor_draining b \<and> authority_matches s a m b)"
proof -
  have match: "bd_backend_boot b = ra_backend_boot a \<and> bd_backend_generation b = ra_backend_generation a \<and>
      ed_endpoint_generation (bd_endpoint b) = ra_endpoint_generation a"
    if "authority_matches s a m b" for m b using that by (simp add: authority_matches_def)
  show ?thesis
  proof (cases "RouteAuthority_expired a now \<or> is_fenced s (ra_backend_id a) (ra_backend_boot a) \<or>
      om_find (cs_models s) (ra_model_id a) = None \<or> om_find (cs_backends s) (ra_backend_id a) = None")
    case True
    then show ?thesis
      by (auto simp: is_authority_dispatchable_def dispatchability_reason_def is_fenced_def
          build_current_authority_def split: option.splits)
  next
    case False
    then obtain m b where mb: "om_find (cs_models s) (ra_model_id a) = Some m"
      "om_find (cs_backends s) (ra_backend_id a) = Some b" by auto
    have "is_authority_dispatchable s a now \<longleftrightarrow> authority_matches s a m b \<and>
        lifecycle_reason a (Some m) (Some b) = ACCEPTED"
      using False mb compare_accepted_iff
      by (auto simp: is_authority_dispatchable_def dispatchability_reason_def is_fenced_def
          build_current_authority_def Let_def authority_matches_iff)
    then show ?thesis using False mb match by (auto simp: lifecycle_reason_accepted)
  qed
qed

section \<open>The stale passes\<close>

definition live_record :: "RouteRecord \<Rightarrow> bool" where
  "live_record r = live_status (rd_status (rec_decision r))"

definition live_decisions_dispatchable :: "unix_millis \<Rightarrow> CanonicalState \<Rightarrow> bool" where
  "live_decisions_dispatchable now s \<longleftrightarrow>
     (\<forall>i r. om_find (cs_routes s) i = Some r \<and> live_record r \<longrightarrow>
        is_authority_dispatchable s (rd_authority (rec_decision r)) now)"

lemma mark_stale_fields [simp]:
  "rd_authority (rec_decision (mark_stale r)) = rd_authority (rec_decision r)"
  "rd_status (rec_decision (mark_stale r)) = RouteStatus.STALE"
  "\<not> live_record (mark_stale r)"
  by (simp_all add: mark_stale_def live_record_def live_status_def)

lemma dispatchable_routes_frame [simp]:
  "is_authority_dispatchable (s\<lparr>cs_routes := R\<rparr>) a now = is_authority_dispatchable s a now"
  unfolding dispatchable_iff is_fenced_def authority_matches_def by simp

lemma stale_decision_live [simp]:
  "live_record (stale_decision_if_not_dispatchable s now r) \<longleftrightarrow>
     live_record r \<and> is_authority_dispatchable s (rd_authority (rec_decision r)) now"
  "rd_authority (rec_decision (stale_decision_if_not_dispatchable s now r)) =
     rd_authority (rec_decision r)"
  by (simp_all add: stale_decision_if_not_dispatchable_def live_record_def [symmetric])

lemma stale_pass_establishes:
  "live_decisions_dispatchable now (stale_decisions_for_authority_change now s)"
  by (auto simp: live_decisions_dispatchable_def stale_decisions_for_authority_change_def)

text \<open>A decision is only ever marked stale by these passes; nothing else of the route
  changes, and no decision becomes live.\<close>

definition only_staled :: "RouteRecord \<Rightarrow> RouteRecord \<Rightarrow> bool" where
  "only_staled r r' \<longleftrightarrow> r' = r \<or> live_record r \<and> r' = mark_stale r"

lemma stale_passes_only_stale:
  "only_staled r (stale_decision_if_not_dispatchable s now r)"
  by (simp add: only_staled_def stale_decision_if_not_dispatchable_def live_record_def)

section \<open>Properties\<close>

text \<open>
  (C17) A bound route is dispatchable exactly when it has not expired, its incarnation is not fenced,
  its model is registered and current, its backend is registered and neither retired nor
  draining, and the authority names the registered epochs and generations: all of those every
  route depends on and those of the optional evidence it was bound to.
\<close>

theorem dispatchability_exact:
  "dispatchability_reason s a now = ACCEPTED \<longleftrightarrow>
     \<not> expired_at (ra_expires_at a) now \<and> om_find (cs_fenced_boots s) (ra_backend_id a, ra_backend_boot a) = None \<and>
     (\<exists>m b. om_find (cs_models s) (ra_model_id a) = Some m \<and> md_lifecycle m = ModelLifecycle.CURRENT \<and>
        om_find (cs_backends s) (ra_backend_id a) = Some b \<and>
        be_state (bd_health b) \<noteq> HealthState.RETIRED \<and> be_state (bd_health b) \<noteq> DRAINING \<and>
        authority_matches s a m b)"
  using dispatchable_iff [of s a now]
  by (auto simp: is_authority_dispatchable_def RouteAuthority_expired_def is_fenced_def
      BackendDescriptor_retired_def BackendDescriptor_draining_def)

end
