(* ===== verification/Mutation_Contract.thy ===== *)
theory Mutation_Contract
  imports Router_State
begin

text \<open>
  What every mutation of the catalog promises.  \<open>state_ok\<close> is the invariant of the canonical
  state; \<open>catalog_step\<close> says how a mutation may change it.  The interfaces
  \<open>catalog_mutation\<close> and \<open>authority_mutation\<close> carry the consequences for whole runs of
  operations; the operations themselves are shown to have them in the theory that defines them.
\<close>

type_synonym mutation = "MutationResult \<times> CanonicalState"

section \<open>Chains of early returns\<close>

text \<open>\<open>attempt\<close> answers with the first refusal whose guard holds and leaves the state alone;
  otherwise the mutation is performed.\<close>

definition attempt ::
  "string \<Rightarrow> guarded_rejection list \<Rightarrow> CanonicalState \<Rightarrow> mutation \<Rightarrow> mutation" where
  "attempt subject refusals s accepted =
     (case first_reject refusals of
        Some (code, message) \<Rightarrow> (MutationResult_make code subject message, s)
      | None \<Rightarrow> accepted)"

definition refuse :: "OutcomeCode \<Rightarrow> string \<Rightarrow> string \<Rightarrow> CanonicalState \<Rightarrow> mutation" where
  "refuse code subject message s = (MutationResult_make code subject message, s)"

definition accept :: "string \<Rightarrow> ExplanationFactor list \<Rightarrow> CanonicalState \<Rightarrow> mutation" where
  "accept subject factors s = (MutationResult_built ACCEPTED subject [] factors, s)"

section \<open>The state invariant\<close>

definition maps_ok :: "CanonicalState \<Rightarrow> bool" where
  "maps_ok s \<longleftrightarrow>
     om_ok (cs_models s) \<and> om_ok (cs_providers s) \<and> om_ok (cs_backends s) \<and>
     om_ok (cs_fenced_boots s) \<and> om_ok (cs_model_generation_watermark s) \<and>
     om_ok (cs_backend_generation_watermark s) \<and> om_ok (cs_compatibility s) \<and>
     om_ok (cs_trust s) \<and> om_ok (cs_costs s) \<and> om_ok (cs_routes s)"

text \<open>Every descriptor is stored under its own identity, and the watermark of a registered
  model or backend is the generation it is registered with.\<close>

definition models_ok :: "CanonicalState \<Rightarrow> bool" where
  "models_ok s \<longleftrightarrow>
     (\<forall>i m. om_find (cs_models s) i = Some m \<longrightarrow>
        md_model_id m = i \<and>
        om_find (cs_model_generation_watermark s) i = Some (md_model_generation m))"

definition backends_ok :: "CanonicalState \<Rightarrow> bool" where
  "backends_ok s \<longleftrightarrow>
     (\<forall>i b. om_find (cs_backends s) i = Some b \<longrightarrow>
        bd_backend_id b = i \<and> bindings_ok b \<and>
        om_find (cs_backend_generation_watermark s) i = Some (bd_backend_generation b))"

definition bounds_ok :: "CanonicalState \<Rightarrow> bool" where
  "bounds_ok s \<longleftrightarrow>
     length (cs_models s) \<le> unat (max_models (cs_limits s)) \<and>
     length (cs_providers s) \<le> unat (max_providers (cs_limits s)) \<and>
     length (cs_backends s) \<le> unat (max_backends (cs_limits s))"

definition catalog_ok :: "CanonicalState \<Rightarrow> bool" where
  "catalog_ok s \<longleftrightarrow> maps_ok s \<and> models_ok s \<and> backends_ok s \<and> bounds_ok s \<and> indexes_ok s"

text \<open>No live decision is bound to a fenced incarnation.\<close>

definition fences_ok :: "CanonicalState \<Rightarrow> bool" where
  "fences_ok s \<longleftrightarrow>
     (\<forall>i r. om_find (cs_routes s) i = Some r \<and> live_record r \<longrightarrow>
        \<not> is_fenced s (ra_backend_id (rd_authority (rec_decision r)))
                      (ra_backend_boot (rd_authority (rec_decision r))))"

definition state_ok :: "CanonicalState \<Rightarrow> bool" where
  "state_ok s \<longleftrightarrow> catalog_ok s \<and> fences_ok s"

lemma dispatchable_fences_ok: "live_decisions_dispatchable now s \<Longrightarrow> fences_ok s"
  unfolding live_decisions_dispatchable_def fences_ok_def dispatchable_iff by blast

section \<open>How a mutation may change the state\<close>

definition watermark_le :: "(entity_id, generation) omap \<Rightarrow> (entity_id, generation) omap \<Rightarrow> bool" where
  "watermark_le m m' \<longleftrightarrow>
     (\<forall>i g. om_find m i = Some g \<longrightarrow> (\<exists>g'. om_find m' i = Some g' \<and> g \<le> g'))"

definition same_identity :: "CanonicalState \<Rightarrow> CanonicalState \<Rightarrow> bool" where
  "same_identity s s' \<longleftrightarrow>
     cs_router_id s' = cs_router_id s \<and> cs_router_generation s' = cs_router_generation s \<and>
     cs_router_epoch s' = cs_router_epoch s \<and> cs_coordinator_epoch s' = cs_coordinator_epoch s \<and>
     cs_router_boot s' = cs_router_boot s \<and> cs_running s' = cs_running s \<and>
     cs_shutting_down s' = cs_shutting_down s \<and> cs_limits s' = cs_limits s \<and>
     cs_weights s' = cs_weights s \<and> cs_scales s' = cs_scales s \<and>
     cs_route_order s' = cs_route_order s \<and> cs_dispatches s' = cs_dispatches s \<and>
     cs_dispatch_index s' = cs_dispatch_index s \<and> cs_reservations s' = cs_reservations s"

definition catalog_step :: "CanonicalState \<Rightarrow> CanonicalState \<Rightarrow> bool" where
  "catalog_step s s' \<longleftrightarrow>
     same_identity s s' \<and>
     (\<forall>i. rel_option only_staled (om_find (cs_routes s) i) (om_find (cs_routes s') i)) \<and>
     (\<forall>i boot. is_fenced s i boot \<longrightarrow> is_fenced s' i boot) \<and>
     watermark_le (cs_model_generation_watermark s) (cs_model_generation_watermark s') \<and>
     watermark_le (cs_backend_generation_watermark s) (cs_backend_generation_watermark s')"

lemma only_staled_refl [simp]: "only_staled r r"
  by (simp add: only_staled_def)

lemma only_staled_trans: "only_staled a b \<Longrightarrow> only_staled b c \<Longrightarrow> only_staled a c"
  by (auto simp: only_staled_def)

lemma watermark_le_refl [simp]: "watermark_le m m"
  by (simp add: watermark_le_def)

lemma watermark_le_trans: "watermark_le a b \<Longrightarrow> watermark_le b c \<Longrightarrow> watermark_le a c"
  unfolding watermark_le_def by (meson order_trans)

lemma catalog_step_refl [simp]: "catalog_step s s"
  by (simp add: catalog_step_def same_identity_def option.rel_refl)

lemma catalog_step_trans: "catalog_step a b \<Longrightarrow> catalog_step b c \<Longrightarrow> catalog_step a c"
proof -
  assume ab: "catalog_step a b" and bc: "catalog_step b c"
  have "rel_option only_staled (om_find (cs_routes a) i) (om_find (cs_routes c) i)" for i
    using ab bc unfolding catalog_step_def
    by (metis (no_types, lifting) only_staled_trans option.rel_sel option.rel_transp transpE transpI)
  with ab bc show ?thesis
    unfolding catalog_step_def same_identity_def by (auto intro: watermark_le_trans)
qed

section \<open>The interface\<close>

fun run_all ::
  "(unix_millis \<Rightarrow> 'a \<Rightarrow> CanonicalState \<Rightarrow> mutation) \<Rightarrow> (unix_millis \<times> 'a) list \<Rightarrow>
   CanonicalState \<Rightarrow> CanonicalState" where
  "run_all operate [] s = s"
| "run_all operate ((now, x) # xs) s = run_all operate xs (snd (operate now x s))"

locale catalog_mutation =
  fixes operate :: "unix_millis \<Rightarrow> 'a \<Rightarrow> CanonicalState \<Rightarrow> MutationResult \<times> CanonicalState"
  assumes refusal_unchanged:
      "\<not> mr_accepted (fst (operate now x s)) \<Longrightarrow> snd (operate now x s) = s"
    and keeps_state_ok: "state_ok s \<Longrightarrow> state_ok (snd (operate now x s))"
    and makes_catalog_step: "state_ok s \<Longrightarrow> catalog_step s (snd (operate now x s))"
begin

lemma run_keeps_state_ok: "state_ok s \<Longrightarrow> state_ok (run_all operate xs s)"
proof (induction xs arbitrary: s)
  case (Cons x xs)
  then show ?case using keeps_state_ok by (cases x) simp
qed simp

lemma run_catalog_step: "state_ok s \<Longrightarrow> catalog_step s (run_all operate xs s)"
proof (induction xs arbitrary: s)
  case (Cons x xs)
  obtain now a where x: "x = (now, a)" by (cases x)
  have "catalog_step s (snd (operate now a s))" by (rule makes_catalog_step [OF Cons.prems])
  moreover have "catalog_step (snd (operate now a s)) (run_all operate xs (snd (operate now a s)))"
    by (rule Cons.IH [OF keeps_state_ok [OF Cons.prems]])
  ultimately show ?case by (simp add: x catalog_step_trans)
qed simp

lemma run_keeps_fence: "state_ok s \<Longrightarrow> is_fenced s i boot \<Longrightarrow> is_fenced (run_all operate xs s) i boot"
  using run_catalog_step unfolding catalog_step_def by blast

lemma run_never_revives:
  assumes "state_ok s" and "om_find (cs_routes s) i = Some r"
    and "om_find (cs_routes (run_all operate xs s)) i = Some r'" and "live_record r'"
  shows "live_record r \<and> rd_authority (rec_decision r') = rd_authority (rec_decision r)"
proof -
  have "rel_option only_staled (om_find (cs_routes s) i) (om_find (cs_routes (run_all operate xs s)) i)"
    using run_catalog_step [OF assms(1)] unfolding catalog_step_def by blast
  then show ?thesis using assms(2-4) by (auto simp: only_staled_def)
qed

end

locale authority_mutation = catalog_mutation +
  assumes settles:
    "state_ok s \<Longrightarrow> mr_code (fst (operate now x s)) = ACCEPTED \<Longrightarrow>
     live_decisions_dispatchable now (snd (operate now x s))"
begin

lemma accepted_run_settles:
  "state_ok s \<Longrightarrow> mr_code (fst (operate now x (run_all operate xs s))) = ACCEPTED \<Longrightarrow>
   live_decisions_dispatchable now (run_all operate (xs @ [(now, x)]) s)"
proof (induction xs arbitrary: s)
  case Nil
  then show ?case by (simp add: settles)
next
  case (Cons y xs)
  then show ?case using keeps_state_ok by (cases y) simp
qed

end

section \<open>How the operations are shown to have it\<close>

definition safe :: "CanonicalState \<Rightarrow> mutation \<Rightarrow> bool" where
  "safe s m \<longleftrightarrow>
     (\<not> mr_accepted (fst m) \<longrightarrow> snd m = s) \<and>
     (state_ok s \<longrightarrow> state_ok (snd m) \<and> catalog_step s (snd m))"

definition settled :: "unix_millis \<Rightarrow> mutation \<Rightarrow> bool" where
  "settled now m \<longleftrightarrow> (mr_code (fst m) = ACCEPTED \<longrightarrow> live_decisions_dispatchable now (snd m))"

lemma catalog_mutationI: "(\<And>now x s. safe s (operate now x s)) \<Longrightarrow> catalog_mutation operate"
  unfolding safe_def by unfold_locales blast+

lemma authority_mutationI:
  "(\<And>now x s. safe s (operate now x s)) \<Longrightarrow>
   (\<And>now x s. state_ok s \<Longrightarrow> settled now (operate now x s)) \<Longrightarrow> authority_mutation operate"
  unfolding settled_def
  by (intro authority_mutation.intro catalog_mutationI authority_mutation_axioms.intro) blast+

lemma safe_refuse: "safe s (refuse code subject message s)"
  by (simp add: safe_def refuse_def)

lemma settled_refuse: "code \<noteq> ACCEPTED \<Longrightarrow> settled now (refuse code subject message s)"
  by (simp add: settled_def refuse_def)

lemma attempt_cases:
  obtains (refused) g code message where "(g, code, message) \<in> set refusals" and "g"
      and "attempt subject refusals s m = refuse code subject message s"
  | (performed) "first_reject refusals = None" and "attempt subject refusals s m = m"
proof (cases "first_reject refusals")
  case None
  then show ?thesis using performed by (simp add: attempt_def)
next
  case (Some r)
  obtain code message where r: "r = (code, message)" by (cases r)
  show ?thesis
    using refused [of True code message] Some first_reject_Some_mem [of refusals r]
    by (simp add: attempt_def refuse_def r)
qed

lemma safe_attempt:
  assumes "list_all (\<lambda>g. \<not> fst g) refusals \<Longrightarrow> safe s m"
  shows "safe s (attempt subject refusals s m)"
  by (cases rule: attempt_cases [of refusals subject s m])
     (use assms in \<open>auto simp: safe_refuse first_reject_None_iff\<close>)

lemma settled_attempt:
  assumes "settled now m" and "list_all (\<lambda>g. fst (snd g) \<noteq> ACCEPTED) refusals"
  shows "settled now (attempt subject refusals s m)"
  by (cases rule: attempt_cases [of refusals subject s m])
     (use assms in \<open>auto simp: settled_refuse list_all_iff\<close>)

lemma attempt_accepted:
  assumes "mr_code (fst (attempt subject refusals s m)) = ACCEPTED"
    and "list_all (\<lambda>g. fst (snd g) \<noteq> ACCEPTED) refusals"
  shows "list_all (\<lambda>g. \<not> fst g) refusals \<and> mr_code (fst m) = ACCEPTED"
  by (cases rule: attempt_cases [of refusals subject s m])
     (use assms in \<open>auto simp: refuse_def MutationResult_make_def list_all_iff first_reject_None_iff\<close>)

lemma attempt_performed: "list_all (\<lambda>g. \<not> fst g) refusals \<Longrightarrow> attempt subject refusals s m = m"
  using first_reject_None_iff [of refusals] by (simp add: attempt_def)

section \<open>The stale passes keep the invariant\<close>

lemma catalog_ok_routes:
  "om_ok R \<Longrightarrow> catalog_ok s \<Longrightarrow> catalog_ok (s\<lparr>cs_routes := R\<rparr>)"
  by (simp add: catalog_ok_def maps_ok_def models_ok_def backends_ok_def bounds_ok_def indexes_ok_def
      indexes_for_def)

lemma catalog_step_routes:
  assumes "\<And>r. only_staled r (f r)"
  shows "catalog_step s (s\<lparr>cs_routes := om_map_values f (cs_routes s)\<rparr>)"
proof -
  have "rel_option only_staled x (map_option f x)" for x using assms by (cases x) simp_all
  then show ?thesis by (simp add: catalog_step_def same_identity_def is_fenced_def)
qed

lemma stale_pass_ok:
  assumes "catalog_ok s"
  shows "state_ok (stale_decisions_for_authority_change now s)"
proof -
  have "om_ok (om_map_values (stale_decision_if_not_dispatchable s now) (cs_routes s))"
    using assms by (simp add: catalog_ok_def maps_ok_def)
  then have "catalog_ok (stale_decisions_for_authority_change now s)"
    unfolding stale_decisions_for_authority_change_def using assms by (rule catalog_ok_routes)
  then show ?thesis
    using dispatchable_fences_ok [OF stale_pass_establishes] by (simp add: state_ok_def)
qed

lemma stale_pass_step: "catalog_step s (stale_decisions_for_authority_change now s)"
  unfolding stale_decisions_for_authority_change_def
  by (rule catalog_step_routes) (rule stale_passes_only_stale)

lemma stale_backend_ok: "catalog_ok s \<Longrightarrow> catalog_ok (stale_decisions_for_backend i boot s)"
  unfolding stale_decisions_for_backend_def
  by (rule catalog_ok_routes) (simp_all add: catalog_ok_def maps_ok_def)

lemma stale_backend_step: "catalog_step s (stale_decisions_for_backend i boot s)"
  unfolding stale_decisions_for_backend_def
  by (rule catalog_step_routes) (simp add: only_staled_def live_record_def)

text \<open>An accepted mutation that ends with the stale pass needs to keep the catalog invariant
  and to be a catalog step; the rest follows.\<close>

lemma safe_accept_pass:
  assumes "state_ok s \<Longrightarrow> catalog_ok s'" and "state_ok s \<Longrightarrow> catalog_step s s'"
  shows "safe s (accept subject factors (stale_decisions_for_authority_change now s'))"
  using assms stale_pass_ok stale_pass_step catalog_step_trans
  by (auto simp: safe_def accept_def MutationResult_built_def is_acceptance_def)

lemma settled_accept_pass:
  "settled now (accept subject factors (stale_decisions_for_authority_change now s))"
  by (simp add: settled_def accept_def stale_pass_establishes)

lemma safe_accept:
  assumes "state_ok s \<Longrightarrow> state_ok s'" and "state_ok s \<Longrightarrow> catalog_step s s'"
  shows "safe s (accept subject factors s')"
  using assms by (simp add: safe_def accept_def MutationResult_built_def is_acceptance_def)

end
