(* ===== verification/Router_Samples.thy ===== *)
theory Router_Samples
  imports Mutation_Contract
begin

text \<open>
  A concrete router state, used by the witnesses: one model, one healthy local backend that
  binds it, a policy, and one current decision that routes a request of tenant 4 to them.
\<close>

definition sample_authority :: RouteAuthority where
  "sample_authority = RouteAuthority_default
     \<lparr>ra_router_epoch := 1, ra_coordinator_epoch := 1, ra_request_id := 21,
      ra_request_generation := 1, ra_decision_id := 40, ra_decision_generation := 1,
      ra_model_id := 3, ra_model_generation := 1, ra_artifact_generation := 1, ra_provider_id := 2,
      ra_provider_generation := 1, ra_backend_id := 7, ra_backend_generation := 1,
      ra_backend_boot := 1, ra_backend_registration_generation := 1, ra_endpoint_id := 9,
      ra_endpoint_generation := 1, ra_capability_profile_id := 1, ra_capability_generation := 1,
      ra_policy_id := 5, ra_policy_generation := 1, ra_trust_profile_id := 1,
      ra_trust_generation := 1, ra_health_generation := 1, ra_availability_generation := 1,
      ra_readiness_generation := 1, ra_residency_generation := 1, ra_capacity_generation := 1,
      ra_tenant := 4\<rparr>"

definition sample_decision :: RouteDecision where
  "sample_decision = RouteDecision_default
     \<lparr>rd_decision_id := 40, rd_decision_generation := 1, rd_request_id := 21,
      rd_request_generation := 1, rd_authority := sample_authority\<rparr>"

definition sample_plan :: RoutePlan where
  "sample_plan = RoutePlan_default
     \<lparr>pl_plan_id := 41, pl_plan_generation := 1, pl_decision_id := 40, pl_decision_generation := 1,
      pl_primary := CandidateKey 3 1 1 7 1 1 9 1, pl_authority := sample_authority\<rparr>"

definition sample_record :: RouteRecord where
  "sample_record =
     \<lparr>rec_decision = sample_decision, rec_plan = sample_plan, rec_tenant = 4, rec_name_space = 0\<rparr>"

definition sample_state_with :: "BackendDescriptor \<Rightarrow> CanonicalState" where
  "sample_state_with b = CanonicalState_default
     \<lparr>cs_router_epoch := 1, cs_coordinator_epoch := 1, cs_router_boot := 1, cs_running := True,
      cs_models := [(3, sample_model)], cs_model_generation_watermark := [(3, 1)],
      cs_backends := [(7, b)], cs_backend_generation_watermark := [(7, bd_backend_generation b)],
      cs_policy := sample_policy, cs_routes := [(40, sample_record)], cs_route_order := [40],
      cs_index_backends_by_provider := [(2, [7])], cs_index_backends_by_trust := [(trust_rank LOCAL, [7])],
      cs_index_backends_by_model := [(3, [7])]\<rparr>"

definition sample_state :: CanonicalState where
  "sample_state = sample_state_with sample_backend"

lemmas sample_state_defs = sample_state_def sample_state_with_def CanonicalState_default_def
  sample_record_def sample_decision_def sample_authority_def RouteDecision_default_def
  RouteAuthority_default_def

lemma sample_indexes:
  assumes "bd_provider_id b = 2" "bd_trust_domain b = LOCAL" "bd_model_bindings b = [sample_binding]"
  shows "indexes_ok (sample_state_with b)"
proof -
  have "rebuild_indexes (sample_state_with b) = sample_state_with b"
    using assms by (simp add: rebuild_indexes_def sample_state_with_def index_add_entry_def idx_insert_def
        om_empty_def sample_binding_def)
  moreover have "om_ok (cs_backends (sample_state_with b))"
    by (simp add: sample_state_with_def om_ok_def)
  ultimately show ?thesis by (simp add: indexes_ok_iff)
qed

lemma sample_state_with_ok:
  assumes "bd_backend_id b = 7" "bd_provider_id b = 2" "bd_trust_domain b = LOCAL"
    "bd_model_bindings b = [sample_binding]"
  shows "state_ok (sample_state_with b)"
proof -
  have "maps_ok (sample_state_with b)"
    by (simp add: sample_state_with_def CanonicalState_default_def maps_ok_def om_ok_def om_empty_def)
  moreover have "models_ok (sample_state_with b)"
    by (simp add: sample_state_with_def models_ok_def sample_model_def)
  moreover have "backends_ok (sample_state_with b)"
    using assms by (simp add: sample_state_with_def backends_ok_def bindings_ok_def)
  moreover have "bounds_ok (sample_state_with b)"
    by (simp add: sample_state_with_def CanonicalState_default_def bounds_ok_def
        default_resource_limits_def om_empty_def)
  moreover have "fences_ok (sample_state_with b)"
    by (simp add: sample_state_with_def CanonicalState_default_def fences_ok_def is_fenced_def
        om_empty_def)
  ultimately show ?thesis using sample_indexes [OF assms(2-4)] by (simp add: state_ok_def catalog_ok_def)
qed

lemma sample_state_ok: "state_ok sample_state"
  unfolding sample_state_def by (rule sample_state_with_ok) (simp_all add: sample_backend_def)

lemma sample_dispatchable: "is_authority_dispatchable sample_state sample_authority 50"
  by (simp add: dispatchable_iff authority_matches_def is_fenced_def sample_state_defs sample_defs
      om_empty_def RouteAuthority_expired_def expired_at_def BackendDescriptor_retired_def
      BackendDescriptor_draining_def valid_id_def PolicySnapshot_default_def)

lemma sample_live_dispatchable: "live_decisions_dispatchable 50 sample_state"
  using sample_dispatchable
  by (auto simp: live_decisions_dispatchable_def sample_state_def sample_state_with_def
      sample_record_def sample_decision_def split: if_splits)

end
