(* ===== verification/Router_Catalog.thy ===== *)
theory Router_Catalog
  imports Router_Samples
begin

text \<open>
  Catalog mutation and dynamic evidence: the operations of \<open>ModelRouter::Impl\<close> in
  \<open>src/router.cpp\<close> that change the canonical state other than by routing.

  Every operation is written with \<open>attempt\<close>: its chain of early returns as a list of guarded
  refusals, then the mutation.  The time an operation reads from the clock is its argument
  \<open>now\<close>.  The operations are shown to have the contract of \<open>Mutation_Contract\<close>: a refusal
  changes nothing, the state invariant is kept, fences and watermarks only grow, retained
  decisions are at most marked stale, and, for the operations that change authority, every
  decision that is still live afterwards is dispatchable.
\<close>

text \<open>A mutation through a reference to a registered backend.\<close>

definition put_backend :: "entity_id \<Rightarrow> BackendDescriptor \<Rightarrow> CanonicalState \<Rightarrow> CanonicalState" where
  "put_backend i b s = s\<lparr>cs_backends := om_put i b (cs_backends s)\<rparr>"

section \<open>Models, providers and backends\<close>

definition register_model :: "ModelDescriptor \<Rightarrow> CanonicalState \<Rightarrow> mutation" where
  "register_model model s =
     attempt ''register_model''
       [(ModelDescriptor_validate model \<noteq> [], REJECT_INVALID, ModelDescriptor_validate model),
        (cs_shutting_down s, SHUTTING_DOWN, ''router is shutting down''),
        (length (cs_models s) \<ge> unat (max_models (cs_limits s)) \<and>
           om_find (cs_models s) (md_model_id model) = None,
         REJECT_LIMIT, ''model limit reached''),
        (case om_find (cs_model_generation_watermark s) (md_model_id model) of
           None \<Rightarrow> False | Some watermark \<Rightarrow> generation_regressed (md_model_generation model) watermark,
         REJECT_STALE_MODEL, ''model generation regressed below the observed watermark''),
        (case om_find (cs_models s) (md_model_id model) of
           None \<Rightarrow> False
         | Some existing \<Rightarrow>
             md_model_generation existing = md_model_generation model \<and>
             md_artifact_generation existing = md_artifact_generation model \<and>
             md_lifecycle existing = md_lifecycle model,
         NO_CHANGE, ''model generation is already registered'')]
       s
       (accept ''register_model''
          [add_u64 ''model_id'' (md_model_id model),
           add_u64 ''model_generation'' (md_model_generation model),
           add_u64 ''artifact_generation'' (md_artifact_generation model)]
          (s\<lparr>cs_model_generation_watermark :=
               om_put (md_model_id model) (md_model_generation model) (cs_model_generation_watermark s),
             cs_models := om_put (md_model_id model) model (cs_models s)\<rparr>))"

definition register_provider :: "ProviderDescriptor \<Rightarrow> CanonicalState \<Rightarrow> mutation" where
  "register_provider provider s =
     (let existing = om_find (cs_providers s) (pd_provider_id provider) in
      attempt ''register_provider''
        [(\<not> valid_id (pd_provider_id provider), REJECT_INVALID, ''provider identity is invalid''),
         (\<not> valid_id (pd_generation provider), REJECT_INVALID, ''provider generation is invalid''),
         (cs_shutting_down s, SHUTTING_DOWN, ''router is shutting down''),
         (length (cs_providers s) \<ge> unat (max_providers (cs_limits s)) \<and> existing = None,
          REJECT_LIMIT, ''provider limit reached''),
         (case existing of
            None \<Rightarrow> False
          | Some e \<Rightarrow> pd_generation e = pd_generation provider \<and>
                      pd_display_name e = pd_display_name provider,
          NO_CHANGE, ''provider generation is already registered''),
         (case existing of
            None \<Rightarrow> False | Some e \<Rightarrow> generation_regressed (pd_generation provider) (pd_generation e),
          REJECT_STALE_BACKEND, ''provider generation regressed'')]
        s
        (accept ''register_provider'' []
           (s\<lparr>cs_providers := om_put (pd_provider_id provider) provider (cs_providers s)\<rparr>)))"

text \<open>Replacing a registration: drop the old one from the indexes, store and file the new one.\<close>

definition replace_backend :: "BackendDescriptor \<Rightarrow> CanonicalState \<Rightarrow> CanonicalState" where
  "replace_backend backend s =
     (let unfiled = (case om_find (cs_backends s) (bd_backend_id backend) of
            None \<Rightarrow> s | Some replaced \<Rightarrow> index_remove_backend replaced s)
      in index_add_backend backend (put_backend (bd_backend_id backend) backend unfiled))"

definition register_backend :: "unix_millis \<Rightarrow> BackendDescriptor \<Rightarrow> CanonicalState \<Rightarrow> mutation" where
  "register_backend now descriptor s =
     (let backend = BackendDescriptor_canonicalize descriptor; i = bd_backend_id backend in
      attempt ''register_backend''
        [(BackendDescriptor_validate backend \<noteq> [], REJECT_INVALID, BackendDescriptor_validate backend),
         (cs_shutting_down s, SHUTTING_DOWN, ''router is shutting down''),
         (is_fenced s i (bd_backend_boot backend), REJECT_STALE_BACKEND_BOOT,
          ''backend incarnation is fenced and can never become authoritative again''),
         (length (cs_backends s) \<ge> unat (max_backends (cs_limits s)) \<and> om_find (cs_backends s) i = None,
          REJECT_LIMIT, ''backend limit reached''),
         (case om_find (cs_backend_generation_watermark s) i of
            None \<Rightarrow> False
          | Some watermark \<Rightarrow> generation_regressed (bd_backend_generation backend) watermark,
          REJECT_STALE_BACKEND, ''backend generation regressed below the observed watermark''),
         (case om_find (cs_backends s) i of
            None \<Rightarrow> False
          | Some existing \<Rightarrow> bd_backend_registration_generation backend
                              \<le> bd_backend_registration_generation existing,
          REJECT_STALE_BACKEND, ''registration generation did not advance'')]
        s
        (accept ''register_backend''
           [add_u64 ''backend_id'' i,
            add_u64 ''backend_generation'' (bd_backend_generation backend),
            add_u64 ''backend_boot'' (bd_backend_boot backend),
            add_u64 ''registration_generation'' (bd_backend_registration_generation backend),
            add_text ''provenance'' (Provenance_to_string (bd_provenance backend))]
           (stale_decisions_for_authority_change now (replace_backend backend
              (s\<lparr>cs_backend_generation_watermark :=
                   om_put i (bd_backend_generation backend) (cs_backend_generation_watermark s)\<rparr>)))))"

text \<open>Taking a registration out of the catalog and out of the indexes.\<close>

definition drop_backend :: "entity_id \<Rightarrow> BackendDescriptor \<Rightarrow> CanonicalState \<Rightarrow> CanonicalState" where
  "drop_backend i backend s =
     (index_remove_backend backend s)\<lparr>cs_backends := om_erase i (cs_backends s)\<rparr>"

definition put_fence :: "FencedBootRecord \<Rightarrow> CanonicalState \<Rightarrow> CanonicalState" where
  "put_fence f s =
     s\<lparr>cs_fenced_boots := om_put (fb_backend_id f, fb_backend_boot f) f (cs_fenced_boots s)\<rparr>"

definition unregister_backend ::
  "unix_millis \<Rightarrow> entity_id \<times> generation \<Rightarrow> CanonicalState \<Rightarrow> mutation" where
  "unregister_backend now arg s =
     (case arg of (backend_id, generation) \<Rightarrow>
        if cs_shutting_down s
          then refuse SHUTTING_DOWN ''unregister_backend'' ''router is shutting down'' s
        else case om_find (cs_backends s) backend_id of
            None \<Rightarrow> refuse NO_CHANGE ''unregister_backend'' ''backend is not registered'' s
          | Some existing \<Rightarrow>
              if valid_id generation \<and> bd_backend_generation existing \<noteq> generation
                then refuse REJECT_STALE_BACKEND ''unregister_backend''
                       ''backend generation does not match the current registration'' s
              else
                let retired_boot = bd_backend_boot existing;
                    fence_record = \<lparr>fb_backend_id = backend_id,
                      fb_backend_generation = bd_backend_generation existing,
                      fb_backend_boot = retired_boot, fb_reason = FENCED, fb_fenced_at = now\<rparr>
                in accept ''unregister_backend'' [add_u64 ''backend_id'' backend_id]
                     (stale_decisions_for_authority_change now
                       (stale_decisions_for_backend backend_id retired_boot
                         (drop_backend backend_id existing (put_fence fence_record s)))))"

text \<open>The loop over the claims: an error, or the profile with every claim bound to this
  publication.\<close>

fun bind_claims ::
  "BackendCapabilityPublication \<Rightarrow> generation \<Rightarrow> u32 \<Rightarrow> CapabilityEvidence list \<Rightarrow>
   CapabilityProfile \<Rightarrow> rejection + CapabilityProfile" where
  "bind_claims p backend_generation limit [] profile = Inr profile"
| "bind_claims p backend_generation limit (claim # claims) profile =
     (if CapabilityKey_validate (ce_key claim) \<noteq> []
        then Inl (REJECT_INVALID, CapabilityKey_validate (ce_key claim))
      else case CapabilityProfile_set profile
             (claim\<lparr>ce_profile_id := bcp_profile_id p, ce_generation := bcp_generation p,
                    ce_backend_boot := bcp_backend_boot p,
                    ce_backend_generation := backend_generation\<rparr>) limit of
          (extended, True) \<Rightarrow> bind_claims p backend_generation limit claims extended
        | (unchanged, False) \<Rightarrow> Inl (REJECT_LIMIT, ''capability entry limit reached''))"

definition publish_capabilities ::
  "unix_millis \<Rightarrow> BackendCapabilityPublication \<Rightarrow> CanonicalState \<Rightarrow> mutation" where
  "publish_capabilities now p s =
     (let subject = ''publish_capabilities''; i = bcp_backend_id p in
      attempt subject
        [(\<not> valid_id i \<or> \<not> valid_id (bcp_backend_boot p), REJECT_INVALID,
          ''publication has no valid backend identity or incarnation''),
         (\<not> valid_id (bcp_generation p), REJECT_INVALID,
          ''publication has no valid capability generation''),
         (cs_shutting_down s, SHUTTING_DOWN, ''router is shutting down''),
         (is_fenced s i (bcp_backend_boot p), REJECT_STALE_BACKEND_BOOT,
          ''publication belongs to a fenced backend incarnation'')]
        s
        (case om_find (cs_backends s) i of
           None \<Rightarrow> refuse REJECT_STALE_BACKEND subject ''backend is not registered'' s
         | Some backend \<Rightarrow>
             attempt subject
               [(bd_backend_boot backend \<noteq> bcp_backend_boot p, REJECT_STALE_BACKEND_BOOT,
                 ''publication belongs to a different backend incarnation''),
                (valid_id (bcp_backend_generation p) \<and>
                   bcp_backend_generation p \<noteq> bd_backend_generation backend, REJECT_STALE_BACKEND,
                 ''publication backend generation is not current''),
                (generation_regressed (bcp_generation p) (bd_capability_generation backend),
                 REJECT_STALE_CAPABILITY, ''capability generation regressed''),
                (length (bcp_claims p) > unat (max_capability_entries_per_backend (cs_limits s)),
                 REJECT_LIMIT, ''capability publication exceeds the configured limit'')]
               s
               (case bind_claims p (bd_backend_generation backend)
                       (max_capability_entries_per_backend (cs_limits s)) (bcp_claims p)
                       \<lparr>cp_id = bcp_profile_id p, cp_generation = bcp_generation p, cp_entries = []\<rparr> of
                  Inl (code, message) \<Rightarrow> refuse code subject message s
                | Inr profile \<Rightarrow>
                    attempt subject
                      [(valid_id (bd_capability_generation backend) \<and>
                          bcp_generation p = bd_capability_generation backend \<and>
                          cp_entries profile = cp_entries (bd_capabilities backend), NO_CHANGE,
                        ''capability generation is already current''),
                       (valid_id (bd_capability_generation backend) \<and>
                          bcp_generation p = bd_capability_generation backend, REJECT_CONFLICT,
                        ''capability claims changed without advancing the capability generation'')]
                      s
                      (accept subject
                         [add_u64 ''backend_id'' i, add_u64 ''backend_boot'' (bcp_backend_boot p),
                          add_u64 ''capability_generation'' (bcp_generation p),
                          add_size ''claims'' (length (bcp_claims p))]
                         (stale_decisions_for_authority_change now
                           (put_backend i
                             (backend\<lparr>bd_capabilities := profile,
                                bd_capability_profile_id := bcp_profile_id p,
                                bd_capability_generation := bcp_generation p\<rparr>) s))))))"

definition retire_model :: "unix_millis \<Rightarrow> entity_id \<times> generation \<Rightarrow> CanonicalState \<Rightarrow> mutation" where
  "retire_model now arg s =
     (case arg of (model_id, generation) \<Rightarrow>
        if cs_shutting_down s then refuse SHUTTING_DOWN ''retire_model'' ''router is shutting down'' s
        else case om_find (cs_models s) model_id of
            None \<Rightarrow> refuse REJECT_STALE_MODEL ''retire_model'' ''model is not registered'' s
          | Some existing \<Rightarrow>
              if valid_id generation \<and> md_model_generation existing \<noteq> generation
                then refuse REJECT_STALE_MODEL ''retire_model''
                       ''model generation is not the registered generation'' s
              else if md_lifecycle existing = ModelLifecycle.RETIRED
                then refuse NO_CHANGE ''retire_model'' ''model is already retired'' s
              else accept ''retire_model''
                     [add_u64 ''model_id'' model_id,
                      add_u64 ''model_generation'' (md_model_generation existing)]
                     (stale_decisions_for_authority_change now
                       (s\<lparr>cs_models := om_put model_id
                            (existing\<lparr>md_lifecycle := ModelLifecycle.RETIRED\<rparr>) (cs_models s)\<rparr>)))"

definition fence_backend_boot ::
  "unix_millis \<Rightarrow> entity_id \<times> generation \<times> generation \<times> OutcomeCode \<Rightarrow> CanonicalState \<Rightarrow> mutation" where
  "fence_backend_boot now arg s =
     (case arg of (backend_id, generation, backend_boot, reason) \<Rightarrow>
        attempt ''fence_backend_boot''
          [(\<not> valid_id backend_id \<or> \<not> valid_id backend_boot, REJECT_INVALID,
            ''backend identity or incarnation is invalid''),
           (is_fenced s backend_id backend_boot, NO_CHANGE,
            ''backend incarnation is already fenced''),
           (length (cs_fenced_boots s) \<ge> unat (max_backend_incarnations (cs_limits s)), REJECT_LIMIT,
            ''fenced incarnation limit reached'')]
          s
          (let retired = (case om_find (cs_backends s) backend_id of
                 None \<Rightarrow> None
               | Some existing \<Rightarrow>
                   if bd_backend_boot existing = backend_boot \<and>
                      (\<not> valid_id generation \<or> bd_backend_generation existing = generation)
                   then Some existing else None);
               fence_record = \<lparr>fb_backend_id = backend_id,
                 fb_backend_generation =
                   (case retired of None \<Rightarrow> generation | Some e \<Rightarrow> bd_backend_generation e),
                 fb_backend_boot = backend_boot, fb_reason = reason, fb_fenced_at = now\<rparr>;
               dropped = (case retired of None \<Rightarrow> s | Some e \<Rightarrow> drop_backend backend_id e s)
           in accept ''fence_backend_boot''
                [add_u64 ''backend_id'' backend_id, add_u64 ''backend_boot'' backend_boot,
                 add_text ''reason'' (outcome_to_string reason)]
                (stale_decisions_for_authority_change now
                  (stale_decisions_for_backend backend_id backend_boot
                    (put_fence fence_record dropped)))))"

section \<open>Dynamic evidence\<close>

text \<open>\<open>get\<close> and \<open>put\<close> select the field of the backend that holds evidence of this kind.\<close>

definition apply_evidence ::
  "(BackendDescriptor \<Rightarrow> 'state BackendEvidence) \<Rightarrow>
   ('state BackendEvidence \<Rightarrow> BackendDescriptor \<Rightarrow> BackendDescriptor) \<Rightarrow> string \<Rightarrow> OutcomeCode \<Rightarrow>
   unix_millis \<Rightarrow> 'state BackendEvidence \<Rightarrow> CanonicalState \<Rightarrow> mutation" where
  "apply_evidence get put subject stale_code now evidence s =
     attempt subject
       [(\<not> valid_id (be_backend_id evidence) \<or> \<not> valid_id (be_backend_boot evidence), REJECT_INVALID,
         ''evidence has no valid backend identity or incarnation''),
        (\<not> valid_id (be_generation evidence), REJECT_INVALID, ''evidence has no valid generation''),
        (cs_shutting_down s, SHUTTING_DOWN, ''router is shutting down''),
        (is_fenced s (be_backend_id evidence) (be_backend_boot evidence), REJECT_STALE_BACKEND_BOOT,
         ''evidence belongs to a fenced backend incarnation'')]
       s
       (case om_find (cs_backends s) (be_backend_id evidence) of
          None \<Rightarrow> refuse REJECT_STALE_BACKEND subject ''backend is not registered'' s
        | Some backend \<Rightarrow>
            attempt subject
              [(bd_backend_boot backend \<noteq> be_backend_boot evidence, REJECT_STALE_BACKEND_BOOT,
                ''evidence belongs to a different backend incarnation''),
               (valid_id (be_backend_generation evidence) \<and>
                  be_backend_generation evidence \<noteq> bd_backend_generation backend, REJECT_STALE_BACKEND,
                ''evidence backend generation is not current''),
               (generation_regressed (be_generation evidence) (be_generation (get backend)), stale_code,
                ''evidence generation regressed''),
               (valid_id (be_generation (get backend)) \<and>
                  be_generation evidence = be_generation (get backend) \<and>
                  be_state (get backend) = be_state evidence \<and>
                  be_expires_at (get backend) = be_expires_at evidence, NO_CHANGE,
                ''evidence generation is already current''),
               (valid_id (be_generation (get backend)) \<and>
                  be_generation evidence = be_generation (get backend), REJECT_CONFLICT,
                ''evidence state changed without advancing its generation'')]
              s
              (accept subject
                 [add_u64 ''backend_id'' (bd_backend_id backend),
                  add_u64 ''backend_boot'' (bd_backend_boot backend),
                  add_u64 ''generation'' (be_generation evidence)]
                 (stale_decisions_for_authority_change now
                   (put_backend (be_backend_id evidence) (put evidence backend) s))))"

definition update_health :: "unix_millis \<Rightarrow> HealthEvidence \<Rightarrow> CanonicalState \<Rightarrow> mutation" where
  "update_health = apply_evidence bd_health (\<lambda>e. bd_health_update (\<lambda>_. e)) ''update_health''
     REJECT_STALE_HEALTH"

definition update_availability ::
  "unix_millis \<Rightarrow> AvailabilityEvidence \<Rightarrow> CanonicalState \<Rightarrow> mutation" where
  "update_availability = apply_evidence bd_availability (\<lambda>e. bd_availability_update (\<lambda>_. e))
     ''update_availability'' REJECT_STALE_AVAILABILITY"

definition update_readiness :: "unix_millis \<Rightarrow> ReadinessEvidence \<Rightarrow> CanonicalState \<Rightarrow> mutation" where
  "update_readiness = apply_evidence bd_readiness (\<lambda>e. bd_readiness_update (\<lambda>_. e))
     ''update_readiness'' REJECT_STALE_READINESS"

definition update_residency :: "unix_millis \<Rightarrow> ResidencyEvidence \<Rightarrow> CanonicalState \<Rightarrow> mutation" where
  "update_residency = apply_evidence bd_residency (\<lambda>e. bd_residency_update (\<lambda>_. e))
     ''update_residency'' REJECT_STALE_RESIDENCY"

definition update_capacity ::
  "unix_millis \<Rightarrow> CapacityEvidence \<times> CapacityDetail \<Rightarrow> CanonicalState \<Rightarrow> mutation" where
  "update_capacity now arg s =
     (case arg of (evidence, detail) \<Rightarrow>
        attempt ''update_capacity''
          [(valid_id (cd_backend_id detail) \<and> cd_backend_id detail \<noteq> be_backend_id evidence,
            REJECT_CONFLICT, ''capacity detail belongs to a different backend''),
           (valid_id (cd_backend_boot detail) \<and> cd_backend_boot detail \<noteq> be_backend_boot evidence,
            REJECT_CONFLICT, ''capacity detail belongs to a different backend incarnation'')]
          s
          (case apply_evidence bd_capacity (\<lambda>e. bd_capacity_update (\<lambda>_. e)) ''update_capacity''
                  REJECT_STALE_CAPACITY now evidence s of
             (result, updated) \<Rightarrow>
               if \<not> mr_accepted result then (result, updated)
               else case om_find (cs_backends updated) (cd_backend_id detail) of
                   None \<Rightarrow> (result, updated)
                 | Some existing \<Rightarrow>
                     (result, put_backend (cd_backend_id detail)
                        (existing\<lparr>bd_capacity_detail :=
                           detail\<lparr>cd_generation := be_generation (bd_capacity existing)\<rparr>\<rparr>) updated)))"

definition update_latency :: "unix_millis \<Rightarrow> LatencyEvidence \<Rightarrow> CanonicalState \<Rightarrow> mutation" where
  "update_latency now evidence s =
     (let subject = ''update_latency''; i = le_backend_id evidence in
      attempt subject
        [(\<not> valid_id i \<or> \<not> valid_id (le_backend_boot evidence), REJECT_INVALID,
          ''latency evidence has no valid backend identity or incarnation''),
         (cs_shutting_down s, SHUTTING_DOWN, ''router is shutting down''),
         (is_fenced s i (le_backend_boot evidence), REJECT_STALE_BACKEND_BOOT,
          ''latency evidence belongs to a fenced backend incarnation'')]
        s
        (case om_find (cs_backends s) i of
           None \<Rightarrow> refuse REJECT_STALE_BACKEND subject ''backend is not registered'' s
         | Some backend \<Rightarrow>
             attempt subject
               [(bd_backend_boot backend \<noteq> le_backend_boot evidence, REJECT_STALE_BACKEND_BOOT,
                 ''latency evidence belongs to a different backend incarnation''),
                (generation_regressed (le_health_generation evidence)
                   (le_health_generation (bd_latency backend)), REJECT_STALE_HEALTH,
                 ''latency evidence generation regressed'')]
               s
               (accept subject
                  [add_u64 ''backend_id'' (bd_backend_id backend),
                   add_u64 ''backend_boot'' (bd_backend_boot backend)]
                  (stale_decisions_for_authority_change now
                    (put_backend i (backend\<lparr>bd_latency := evidence\<rparr>) s)))))"

section \<open>Policy, budget, objectives, compatibility, trust and cost\<close>

definition set_policy :: "unix_millis \<Rightarrow> PolicySnapshot \<Rightarrow> CanonicalState \<Rightarrow> mutation" where
  "set_policy now snapshot s =
     (let policy = PolicySnapshot_canonicalize snapshot; current = cs_policy s in
      attempt ''set_policy''
        [(PolicySnapshot_validate policy \<noteq> [], REJECT_INVALID, PolicySnapshot_validate policy),
         (cs_shutting_down s, SHUTTING_DOWN, ''router is shutting down''),
         (valid_id (ps_generation current) \<and>
            generation_regressed (ps_generation policy) (ps_generation current),
          REJECT_STALE_POLICY, ''policy generation regressed''),
         (valid_id (ps_generation current) \<and> ps_generation policy = ps_generation current \<and>
            ps_policy_id current \<noteq> ps_policy_id policy,
          REJECT_CONFLICT, ''policy identity changed without advancing the policy generation'')]
        s
        (accept ''set_policy''
           [add_u64 ''policy_id'' (ps_policy_id policy),
            add_u64 ''policy_generation'' (ps_generation policy)]
           (stale_decisions_for_authority_change now (s\<lparr>cs_policy := policy\<rparr>))))"

definition set_budget :: "unix_millis \<Rightarrow> BudgetSnapshot \<Rightarrow> CanonicalState \<Rightarrow> mutation" where
  "set_budget now budget s =
     attempt ''set_budget''
       [(\<not> valid_id (bs_generation budget), REJECT_INVALID, ''budget generation is invalid''),
        (cs_shutting_down s, SHUTTING_DOWN, ''router is shutting down''),
        (valid_id (bs_generation (cs_budget s)) \<and>
           generation_regressed (bs_generation budget) (bs_generation (cs_budget s)),
         REJECT_STALE_BUDGET, ''budget generation regressed'')]
       s
       (accept ''set_budget''
          [add_u64 ''budget_id'' (bs_budget_id budget),
           add_u64 ''budget_generation'' (bs_generation budget),
           add_text ''verdict'' (BudgetVerdict_to_string (bs_verdict budget))]
          (stale_decisions_for_authority_change now (s\<lparr>cs_budget := budget\<rparr>)))"

definition set_slo :: "unix_millis \<Rightarrow> SloEvidence \<Rightarrow> CanonicalState \<Rightarrow> mutation" where
  "set_slo now slo s =
     attempt ''set_slo''
       [(\<not> valid_id (sl_generation slo), REJECT_INVALID, ''SLO generation is invalid''),
        (cs_shutting_down s, SHUTTING_DOWN, ''router is shutting down''),
        (valid_id (sl_generation (cs_slo s)) \<and>
           generation_regressed (sl_generation slo) (sl_generation (cs_slo s)),
         REJECT_STALE_SLO, ''SLO generation regressed'')]
       s
       (accept ''set_slo''
          [add_u64 ''slo_id'' (sl_slo_id slo), add_u64 ''slo_generation'' (sl_generation slo),
           add_text ''verdict'' (SloVerdict_to_string (sl_verdict slo))]
          (stale_decisions_for_authority_change now (s\<lparr>cs_slo := slo\<rparr>)))"

definition set_compatibility :: "unix_millis \<Rightarrow> CompatibilityEvidence \<Rightarrow> CanonicalState \<Rightarrow> mutation" where
  "set_compatibility now evidence s =
     attempt ''set_compatibility''
       [(\<not> valid_id (cm_backend_id evidence) \<or> \<not> valid_id (cm_generation evidence), REJECT_INVALID,
         ''compatibility evidence has no valid backend identity or generation''),
        (cs_shutting_down s, SHUTTING_DOWN, ''router is shutting down''),
        (case om_find (cs_compatibility s) (cm_backend_id evidence) of
           None \<Rightarrow> False
         | Some existing \<Rightarrow> generation_regressed (cm_generation evidence) (cm_generation existing),
         REJECT_STALE_COMPATIBILITY, ''compatibility generation regressed'')]
       s
       (accept ''set_compatibility'' []
          (stale_decisions_for_authority_change now
            (s\<lparr>cs_compatibility := om_put (cm_backend_id evidence) evidence (cs_compatibility s)\<rparr>)))"

definition retrust_backend :: "TrustEvidence \<Rightarrow> BackendDescriptor \<Rightarrow> CanonicalState \<Rightarrow> CanonicalState" where
  "retrust_backend evidence backend s =
     (let backend' = backend\<lparr>bd_trust_profile_id := te_profile_id evidence,
                             bd_trust_generation := te_generation evidence,
                             bd_trust_domain := te_domain evidence\<rparr>
      in index_add_backend backend'
           (put_backend (te_backend_id evidence) backend' (index_remove_backend backend s)))"

definition set_trust :: "unix_millis \<Rightarrow> TrustEvidence \<Rightarrow> CanonicalState \<Rightarrow> mutation" where
  "set_trust now evidence s =
     (let i = te_backend_id evidence; existing = om_find (cs_trust s) i in
      attempt ''set_trust''
        [(\<not> valid_id (te_profile_id evidence) \<or> \<not> valid_id (te_generation evidence) \<or> \<not> valid_id i,
          REJECT_INVALID,
          ''trust evidence has no valid profile identity, generation, or backend identity''),
         (cs_shutting_down s, SHUTTING_DOWN, ''router is shutting down''),
         (case existing of
            None \<Rightarrow> False | Some e \<Rightarrow> generation_regressed (te_generation evidence) (te_generation e),
          REJECT_STALE_TRUST, ''trust generation regressed''),
         (case existing of
            None \<Rightarrow> False
          | Some e \<Rightarrow> te_generation evidence = te_generation e \<and> te_domain e = te_domain evidence,
          NO_CHANGE, ''trust generation is already current'')]
        s
        (let stored = s\<lparr>cs_trust := om_put i evidence (cs_trust s)\<rparr>;
             filed = (case om_find (cs_backends s) i of
                None \<Rightarrow> stored | Some backend \<Rightarrow> retrust_backend evidence backend stored)
         in accept ''set_trust''
              [add_u64 ''backend_id'' i, add_u64 ''trust_profile_id'' (te_profile_id evidence),
               add_u64 ''trust_generation'' (te_generation evidence),
               add_text ''domain'' (TrustDomain_to_string (te_domain evidence))]
              (stale_decisions_for_authority_change now filed)))"

text \<open>The binding is reached through the iterator of \<open>std::lower_bound\<close> and updated in place.\<close>

definition set_cost :: "unix_millis \<Rightarrow> CostEvidence \<Rightarrow> CanonicalState \<Rightarrow> mutation" where
  "set_cost now evidence s =
     (let subject = ''set_cost''; i = co_backend_id evidence; model_id = co_model_id evidence in
      attempt subject
        [(\<not> valid_id (co_price_generation evidence) \<or> \<not> valid_id i \<or> \<not> valid_id model_id,
          REJECT_INVALID,
          ''cost evidence has no valid price generation, backend identity, or model identity''),
         (co_knownness evidence \<noteq> CostKnownness.UNKNOWN \<and> \<not> CostUnit_valid (co_unit evidence),
          REJECT_INVALID, ''known cost evidence has no cost unit identity''),
         (co_estimated_total_micros evidence < 0, REJECT_INVALID,
          ''cost evidence has a negative estimated total''),
         (cs_shutting_down s, SHUTTING_DOWN, ''router is shutting down'')]
        s
        (case om_find (cs_backends s) i of
           None \<Rightarrow> refuse REJECT_STALE_BACKEND subject ''backend is not registered'' s
         | Some backend \<Rightarrow>
             (let bindings = bd_model_bindings backend;
                  position = lower_bound mb_model_id model_id bindings;
                  binding = bindings ! position in
              if position = length bindings \<or> mb_model_id binding \<noteq> model_id
                then refuse REJECT_STALE_MODEL subject
                       ''backend does not bind the model the cost evidence refers to'' s
              else
                attempt subject
                  [(generation_regressed (co_price_generation evidence)
                      (co_price_generation (mb_cost binding)), REJECT_STALE_PRICE,
                    ''price generation regressed''),
                   (valid_id (co_price_generation (mb_cost binding)) \<and>
                      co_price_generation evidence = co_price_generation (mb_cost binding) \<and>
                      co_knownness (mb_cost binding) = co_knownness evidence \<and>
                      co_estimated_total_micros (mb_cost binding) = co_estimated_total_micros evidence \<and>
                      co_unit (mb_cost binding) = co_unit evidence, NO_CHANGE,
                    ''price generation is already current'')]
                  s
                  (accept subject
                     [add_u64 ''backend_id'' i, add_u64 ''model_id'' model_id,
                      add_u64 ''price_generation'' (co_price_generation evidence),
                      add_text ''knownness'' (CostKnownness_to_string (co_knownness evidence)),
                      add_text ''currency'' (cu_currency (co_unit evidence)),
                      add_text ''basis'' (cu_basis (co_unit evidence)),
                      add_i64 ''estimated_total_micros'' (co_estimated_total_micros evidence)]
                     (stale_decisions_for_authority_change now
                       ((put_backend i
                           (backend\<lparr>bd_model_bindings :=
                              bindings[position := binding\<lparr>mb_cost := evidence\<rparr>]\<rparr>) s)
                        \<lparr>cs_costs := om_put (i, model_id) evidence (cs_costs s)\<rparr>))))))"

section \<open>State updates keep the invariant\<close>

lemmas catalog_ok_defs =
  catalog_ok_def maps_ok_def models_ok_def backends_ok_def bounds_ok_def indexes_ok_def indexes_for_def

lemma state_ok_catalog: "state_ok s \<Longrightarrow> catalog_ok s"
  by (simp add: state_ok_def)

lemma catalog_ok_maps:
  assumes "catalog_ok s"
  shows "om_ok (cs_models s)" "om_ok (cs_providers s)" "om_ok (cs_backends s)"
    "om_ok (cs_fenced_boots s)" "om_ok (cs_model_generation_watermark s)"
    "om_ok (cs_backend_generation_watermark s)" "om_ok (cs_compatibility s)" "om_ok (cs_trust s)"
    "om_ok (cs_costs s)" "om_ok (cs_routes s)"
  using assms by (simp_all add: catalog_ok_def maps_ok_def)

lemma catalog_ok_backend:
  "catalog_ok s \<Longrightarrow> om_find (cs_backends s) i = Some b \<Longrightarrow>
   bd_backend_id b = i \<and> bindings_ok b \<and>
   om_find (cs_backend_generation_watermark s) i = Some (bd_backend_generation b)"
  by (simp add: catalog_ok_def backends_ok_def)

definition same_registration :: "BackendDescriptor \<Rightarrow> BackendDescriptor \<Rightarrow> bool" where
  "same_registration b b' \<longleftrightarrow>
     bd_backend_id b' = bd_backend_id b \<and> bd_backend_generation b' = bd_backend_generation b \<and>
     bd_provider_id b' = bd_provider_id b \<and> bd_trust_domain b' = bd_trust_domain b \<and>
     map mb_model_id (bd_model_bindings b') = map mb_model_id (bd_model_bindings b)"

lemma length_om_put_known: "om_ok m \<Longrightarrow> om_find m k = Some v \<Longrightarrow> length (om_put k w m) = length m"
  by (simp add: length_om_put)

lemma put_backend_ok:
  assumes ok: "catalog_ok s" and b: "om_find (cs_backends s) i = Some b" "same_registration b b'"
  shows "catalog_ok (put_backend i b' s)"
proof -
  note maps = catalog_ok_maps [OF ok]
  have keys: "map mb_model_id (bd_model_bindings b') = map mb_model_id (bd_model_bindings b)"
    using b(2) by (simp add: same_registration_def)
  have "indexes_for (put_backend i b' s) (cs_backends (put_backend i b' s))"
    using indexes_for_update [OF maps(3) b(1), of b' s] b(2) ok
    by (simp add: same_registration_def put_backend_def catalog_ok_def indexes_ok_def indexes_for_def)
  moreover have "bd_backend_id b' = i \<and> bindings_ok b' \<and>
      om_find (cs_backend_generation_watermark s) i = Some (bd_backend_generation b')"
    using catalog_ok_backend [OF ok b(1)] b(2) keys
    by (simp add: same_registration_def bindings_ok_def)
  ultimately show ?thesis
    using ok maps by (simp add: catalog_ok_def maps_ok_def models_ok_def backends_ok_def bounds_ok_def
        indexes_ok_def put_backend_def om_laws length_om_put_known [OF maps(3) b(1)])
qed

lemma catalog_stepI:
  assumes "same_identity s s'" and "cs_routes s' = cs_routes s"
    and "\<And>i boot. is_fenced s i boot \<Longrightarrow> is_fenced s' i boot"
    and "watermark_le (cs_model_generation_watermark s) (cs_model_generation_watermark s')"
    and "watermark_le (cs_backend_generation_watermark s) (cs_backend_generation_watermark s')"
  shows "catalog_step s s'"
  using assms by (simp add: catalog_step_def option.rel_refl)

lemma put_backend_step: "catalog_step s (put_backend i b s)"
  by (rule catalog_stepI) (simp_all add: put_backend_def same_identity_def is_fenced_def)

lemma index_remove_frame:
  "cs_backends (index_remove_backend b s) = cs_backends s"
  "same_identity s (index_remove_backend b s)"
  "cs_routes (index_remove_backend b s) = cs_routes s"
  "cs_fenced_boots (index_remove_backend b s) = cs_fenced_boots s"
  "cs_model_generation_watermark (index_remove_backend b s) = cs_model_generation_watermark s"
  "cs_backend_generation_watermark (index_remove_backend b s) = cs_backend_generation_watermark s"
  "maps_ok (index_remove_backend b s) = maps_ok s"
  "models_ok (index_remove_backend b s) = models_ok s"
  "backends_ok (index_remove_backend b s) = backends_ok s"
  "bounds_ok (index_remove_backend b s) = bounds_ok s"
  by (simp_all add: index_remove_backend_def same_identity_def maps_ok_def models_ok_def
      backends_ok_def bounds_ok_def)

lemma index_add_frame:
  "cs_backends (index_add_backend b s) = cs_backends s"
  "same_identity s (index_add_backend b s)"
  "cs_routes (index_add_backend b s) = cs_routes s"
  "cs_fenced_boots (index_add_backend b s) = cs_fenced_boots s"
  "cs_model_generation_watermark (index_add_backend b s) = cs_model_generation_watermark s"
  "cs_backend_generation_watermark (index_add_backend b s) = cs_backend_generation_watermark s"
  "maps_ok (index_add_backend b s) = maps_ok s"
  "models_ok (index_add_backend b s) = models_ok s"
  "backends_ok (index_add_backend b s) = backends_ok s"
  "bounds_ok (index_add_backend b s) = bounds_ok s"
  by (simp_all add: index_add_backend_def index_add_entry_def same_identity_def maps_ok_def
      models_ok_def backends_ok_def bounds_ok_def)

lemma indexes_for_frame:
  "indexes_for (put_backend i b s) B = indexes_for s B"
  "indexes_for (s\<lparr>cs_backends := X\<rparr>) B = indexes_for s B"
  "indexes_for (s\<lparr>cs_backend_generation_watermark := W\<rparr>) B = indexes_for s B"
  "indexes_for (s\<lparr>cs_trust := T\<rparr>) B = indexes_for s B"
  "indexes_for (s\<lparr>cs_fenced_boots := F\<rparr>) B = indexes_for s B"
  by (simp_all add: indexes_for_def put_backend_def)

lemma refile_indexes:
  assumes "indexes_for s B" and "om_ok B" and "om_find B i = Some old" and "bd_backend_id old = i"
    and "bd_backend_id b = i"
  shows "indexes_for (index_add_backend b (put_backend i b (index_remove_backend old s))) (om_put i b B)"
proof -
  have "indexes_for (put_backend i b (index_remove_backend old s)) (om_erase i B)"
    using indexes_for_remove [OF assms(1-4)] by (simp add: indexes_for_frame)
  then have "indexes_for (index_add_entry i b (put_backend i b (index_remove_backend old s)))
      (om_put i b (om_erase i B))"
    by (rule indexes_for_add) (simp_all add: assms om_laws)
  then show ?thesis using assms by (simp add: index_add_backend_def om_put_erase)
qed

lemma file_indexes:
  assumes "indexes_for s B" and "om_ok B" and "om_find B i = None" and "bd_backend_id b = i"
  shows "indexes_for (index_add_backend b (put_backend i b s)) (om_put i b B)"
  using indexes_for_add [of "put_backend i b s" B i b] assms
  by (simp add: indexes_for_frame index_add_backend_def)

definition put_generation :: "BackendDescriptor \<Rightarrow> CanonicalState \<Rightarrow> CanonicalState" where
  "put_generation b s = s\<lparr>cs_backend_generation_watermark :=
     om_put (bd_backend_id b) (bd_backend_generation b) (cs_backend_generation_watermark s)\<rparr>"

lemma replace_backend_indexes:
  assumes "catalog_ok s"
  shows "indexes_ok (replace_backend b (put_generation b s))"
proof (cases "om_find (cs_backends s) (bd_backend_id b)")
  case None
  have "indexes_for (put_generation b s) (cs_backends s)"
    using assms by (simp add: catalog_ok_def indexes_ok_def put_generation_def indexes_for_frame)
  from file_indexes [OF this catalog_ok_maps(3) [OF assms] None refl] None
  show ?thesis
    by (simp add: replace_backend_def indexes_ok_def put_generation_def index_add_frame put_backend_def)
next
  case (Some old)
  have "indexes_for (put_generation b s) (cs_backends s)"
    using assms by (simp add: catalog_ok_def indexes_ok_def put_generation_def indexes_for_frame)
  from refile_indexes [OF this catalog_ok_maps(3) [OF assms] Some
      catalog_ok_backend [OF assms Some, THEN conjunct1] refl] Some
  show ?thesis
    by (simp add: replace_backend_def indexes_ok_def put_generation_def index_add_frame put_backend_def
        index_remove_frame)
qed

lemma replace_backend_frame:
  "cs_backends (replace_backend b s) = om_put (bd_backend_id b) b (cs_backends s)"
  "same_identity s (replace_backend b s)"
  "cs_routes (replace_backend b s) = cs_routes s"
  "cs_fenced_boots (replace_backend b s) = cs_fenced_boots s"
  "cs_models (replace_backend b s) = cs_models s"
  "cs_providers (replace_backend b s) = cs_providers s"
  "cs_compatibility (replace_backend b s) = cs_compatibility s"
  "cs_trust (replace_backend b s) = cs_trust s"
  "cs_costs (replace_backend b s) = cs_costs s"
  "cs_model_generation_watermark (replace_backend b s) = cs_model_generation_watermark s"
  "cs_backend_generation_watermark (replace_backend b s) = cs_backend_generation_watermark s"
  "cs_limits (replace_backend b s) = cs_limits s"
  by (simp_all add: replace_backend_def put_backend_def index_add_backend_def index_add_entry_def
      index_remove_backend_def same_identity_def split: option.split)

lemma register_update_ok:
  assumes ok: "catalog_ok s" and bindings: "bindings_ok b"
    and room: "\<not> (length (cs_backends s) \<ge> unat (max_backends (cs_limits s)) \<and>
      om_find (cs_backends s) (bd_backend_id b) = None)"
  shows "catalog_ok (replace_backend b (put_generation b s))"
proof -
  note maps = catalog_ok_maps [OF ok]
  let ?s = "replace_backend b (put_generation b s)"
  have frame: "cs_backends (put_generation b s) = cs_backends s"
    "cs_models (put_generation b s) = cs_models s" "cs_providers (put_generation b s) = cs_providers s"
    "cs_limits (put_generation b s) = cs_limits s"
    "cs_model_generation_watermark (put_generation b s) = cs_model_generation_watermark s"
    by (simp_all add: put_generation_def)
  have "maps_ok ?s"
    using maps by (simp add: maps_ok_def replace_backend_frame put_generation_def om_laws)
  moreover have "models_ok ?s"
    using ok by (simp add: models_ok_def replace_backend_frame frame catalog_ok_def)
  moreover have "backends_ok ?s"
    using ok maps bindings
    by (auto simp: backends_ok_def replace_backend_frame catalog_ok_def put_generation_def om_laws)
  moreover have "bounds_ok ?s"
    using ok room by (auto simp: bounds_ok_def replace_backend_frame frame catalog_ok_def
        length_om_put [OF maps(3)])
  ultimately show ?thesis using replace_backend_indexes [OF ok] by (simp add: catalog_ok_def)
qed

lemma generation_not_regressed: "\<not> generation_regressed incoming current \<Longrightarrow> valid_id incoming \<Longrightarrow> current \<le> incoming"
  by (auto simp: generation_regressed_def valid_id_def)

lemma newer_generation_iff:
  "(old::generation) < new \<longleftrightarrow>
     valid_id new \<and> \<not> generation_regressed new old \<and> \<not> (valid_id old \<and> new = old)"
proof (cases "old = 0 \<or> new = 0")
  case True
  then show ?thesis by (auto simp: generation_regressed_def valid_id_def word_neq_0_conv)
next
  case False
  then show ?thesis using linorder_less_linear [of old new]
    by (auto simp: generation_regressed_def valid_id_def)
qed

lemma watermark_le_put:
  assumes "om_ok m" and "\<And>w. om_find m i = Some w \<Longrightarrow> w \<le> g"
  shows "watermark_le m (om_put i g m)"
  using assms by (auto simp: watermark_le_def om_laws)

lemma register_update_step:
  assumes "catalog_ok s" and "\<And>w. om_find (cs_backend_generation_watermark s) (bd_backend_id b) = Some w
      \<Longrightarrow> w \<le> bd_backend_generation b"
  shows "catalog_step s (replace_backend b (put_generation b s))"
proof (rule catalog_stepI)
  show "same_identity s (replace_backend b (put_generation b s))"
    using replace_backend_frame(2) [of "put_generation b s" b]
    by (simp add: same_identity_def put_generation_def)
  show "watermark_le (cs_backend_generation_watermark s)
      (cs_backend_generation_watermark (replace_backend b (put_generation b s)))"
    using watermark_le_put [OF catalog_ok_maps(6) [OF assms(1)]] assms(2)
    by (simp add: replace_backend_frame put_generation_def)
qed (simp_all add: replace_backend_frame put_generation_def is_fenced_def)

lemma length_om_erase: "length (om_erase k m) \<le> length m"
  by (induction k m rule: om_erase.induct) auto

lemma drop_backend_frame:
  "cs_backends (drop_backend i b s) = om_erase i (cs_backends s)"
  "same_identity s (drop_backend i b s)"
  "cs_routes (drop_backend i b s) = cs_routes s"
  "cs_fenced_boots (drop_backend i b s) = cs_fenced_boots s"
  "cs_models (drop_backend i b s) = cs_models s"
  "cs_providers (drop_backend i b s) = cs_providers s"
  "cs_compatibility (drop_backend i b s) = cs_compatibility s"
  "cs_trust (drop_backend i b s) = cs_trust s"
  "cs_costs (drop_backend i b s) = cs_costs s"
  "cs_model_generation_watermark (drop_backend i b s) = cs_model_generation_watermark s"
  "cs_backend_generation_watermark (drop_backend i b s) = cs_backend_generation_watermark s"
  "cs_limits (drop_backend i b s) = cs_limits s"
  by (simp_all add: drop_backend_def index_remove_backend_def same_identity_def)

lemma drop_backend_ok:
  assumes ok: "catalog_ok s" and b: "om_find (cs_backends s) i = Some b"
  shows "catalog_ok (drop_backend i b s)"
proof -
  note maps = catalog_ok_maps [OF ok]
  have "indexes_for (index_remove_backend b s) (om_erase i (cs_backends s))"
    by (rule indexes_for_remove)
       (use ok b maps catalog_ok_backend [OF ok b] in \<open>simp_all add: catalog_ok_def indexes_ok_def\<close>)
  then have "indexes_ok (drop_backend i b s)"
    by (simp add: indexes_ok_def drop_backend_def indexes_for_frame)
  then show ?thesis
    using ok maps length_om_erase [of i "cs_backends s"]
    by (auto simp: catalog_ok_def maps_ok_def models_ok_def backends_ok_def bounds_ok_def
        drop_backend_frame om_laws)
qed

lemma drop_backend_step: "catalog_step s (drop_backend i b s)"
  by (rule catalog_stepI) (simp_all add: drop_backend_frame is_fenced_def)

lemma put_fence_ok: "catalog_ok s \<Longrightarrow> catalog_ok (put_fence f s)"
  by (simp add: catalog_ok_defs put_fence_def om_laws)

lemma put_fence_step: "catalog_ok s \<Longrightarrow> catalog_step s (put_fence f s)"
  by (rule catalog_stepI)
     (auto simp: put_fence_def same_identity_def is_fenced_def catalog_ok_maps om_laws)

lemma retrust_ok:
  assumes ok: "catalog_ok s" and b: "om_find (cs_backends s) (te_backend_id e) = Some b"
  shows "catalog_ok (retrust_backend e b s)" and "catalog_step s (retrust_backend e b s)"
proof -
  note maps = catalog_ok_maps [OF ok]
  define b' where "b' = b\<lparr>bd_trust_profile_id := te_profile_id e, bd_trust_generation := te_generation e,
    bd_trust_domain := te_domain e\<rparr>"
  have b': "bd_backend_id b' = te_backend_id e" "bindings_ok b'"
    "om_find (cs_backend_generation_watermark s) (te_backend_id e) = Some (bd_backend_generation b')"
    using catalog_ok_backend [OF ok b] by (simp_all add: b'_def bindings_ok_def)
  have eq: "retrust_backend e b s =
      index_add_backend b' (put_backend (te_backend_id e) b' (index_remove_backend b s))"
    by (simp add: retrust_backend_def b'_def Let_def)
  have "indexes_for (retrust_backend e b s) (om_put (te_backend_id e) b' (cs_backends s))"
    unfolding eq
    by (rule refile_indexes) (use ok b b' maps catalog_ok_backend [OF ok b] in
        \<open>simp_all add: catalog_ok_def indexes_ok_def\<close>)
  then have "indexes_ok (retrust_backend e b s)"
    by (simp add: indexes_ok_def eq index_add_frame put_backend_def index_remove_frame)
  moreover have "maps_ok (retrust_backend e b s) \<and> models_ok (retrust_backend e b s) \<and>
      backends_ok (retrust_backend e b s) \<and> bounds_ok (retrust_backend e b s)"
    using ok maps b' unfolding eq index_add_frame
    by (auto simp: put_backend_def index_remove_backend_def maps_ok_def models_ok_def backends_ok_def
        bounds_ok_def catalog_ok_def om_laws length_om_put_known [OF maps(3) b])
  ultimately show "catalog_ok (retrust_backend e b s)" by (simp add: catalog_ok_def)
  show "catalog_step s (retrust_backend e b s)"
    unfolding eq
    by (rule catalog_stepI)
       (simp_all add: index_add_backend_def index_add_entry_def put_backend_def index_remove_backend_def
          same_identity_def is_fenced_def)
qed

section \<open>The operations have the contract\<close>

lemma safe_register_model: "safe s (register_model model s)"
  unfolding register_model_def
proof (intro safe_attempt safe_accept, goal_cases)
  case 1
  let ?s = "s\<lparr>cs_model_generation_watermark :=
      om_put (md_model_id model) (md_model_generation model) (cs_model_generation_watermark s),
    cs_models := om_put (md_model_id model) model (cs_models s)\<rparr>"
  have ok: "catalog_ok s" and fences: "fences_ok s" using 1(2) by (simp_all add: state_ok_def)
  have "catalog_ok ?s"
    using ok 1(1) by (auto simp: catalog_ok_defs om_laws length_om_put)
  moreover have "fences_ok ?s" using fences by (simp add: fences_ok_def is_fenced_def)
  ultimately show ?case by (simp add: state_ok_def)
next
  case 2
  have ok: "catalog_ok s" using 2(2) by (simp add: state_ok_def)
  have "valid_id (md_model_generation model)"
    using 2(1) by (auto simp: ModelDescriptor_validate_def split: if_splits)
  then have "w \<le> md_model_generation model"
    if "om_find (cs_model_generation_watermark s) (md_model_id model) = Some w" for w
    using 2(1) that generation_not_regressed by simp
  then show ?case
    by (intro catalog_stepI watermark_le_put)
       (simp_all add: same_identity_def is_fenced_def catalog_ok_maps [OF ok] watermark_le_put)
qed

lemma safe_register_provider: "safe s (register_provider provider s)"
  unfolding register_provider_def Let_def
proof (intro safe_attempt safe_accept, goal_cases)
  case 1
  then show ?case
    by (auto simp: state_ok_def catalog_ok_defs fences_ok_def is_fenced_def om_laws length_om_put)
next
  case 2
  show ?case by (rule catalog_stepI) (simp_all add: same_identity_def is_fenced_def)
qed

lemma safe_register_backend: "safe s (register_backend now b s)"
  unfolding register_backend_def Let_def put_generation_def [symmetric]
proof (intro safe_attempt safe_accept_pass, goal_cases)
  case 1
  then show ?case
    by (intro register_update_ok) (simp_all add: state_ok_def)
next
  case 2
  let ?b = "BackendDescriptor_canonicalize b"
  have "valid_id (bd_backend_generation ?b)"
    using 2(1) by (simp add: BackendDescriptor_validate_iff)
  then have "w \<le> bd_backend_generation ?b"
    if "om_find (cs_backend_generation_watermark s) (bd_backend_id ?b) = Some w" for w
    using 2(1) that generation_not_regressed by simp
  then show ?case by (intro register_update_step) (use 2 in \<open>simp_all add: state_ok_def\<close>)
qed

lemma settled_register_backend: "settled now (register_backend now b s)"
  unfolding register_backend_def Let_def
  by (intro settled_attempt settled_accept_pass) simp

text \<open>The common tail of the two operations that retire an incarnation.\<close>

lemma fencing_ok:
  assumes "catalog_ok s"
  shows "catalog_ok (stale_decisions_for_backend i boot (put_fence f s))"
    and "catalog_step s (stale_decisions_for_backend i boot (put_fence f s))"
  using stale_backend_ok [OF put_fence_ok [OF assms]] put_fence_step [OF assms] stale_backend_step
    catalog_step_trans by blast+

lemma drop_put_fence: "drop_backend i b (put_fence f s) = put_fence f (drop_backend i b s)"
  by (simp add: drop_backend_def put_fence_def index_remove_backend_def)

lemma safe_unregister_backend: "safe s (unregister_backend now arg s)"
proof -
  obtain i g where arg: "arg = (i, g)" by (cases arg)
  show ?thesis
    unfolding arg unregister_backend_def Let_def prod.case drop_put_fence
    using drop_backend_ok drop_backend_step fencing_ok catalog_step_trans state_ok_catalog
    by (auto intro!: safe_refuse safe_accept_pass split: option.split) blast+
qed

lemma settled_unregister_backend: "settled now (unregister_backend now arg s)"
  by (auto simp: unregister_backend_def Let_def split: prod.split option.split
      intro!: settled_refuse settled_accept_pass)

lemma safe_fence_backend_boot: "safe s (fence_backend_boot now arg s)"
proof -
  obtain i g boot reason where arg: "arg = (i, g, boot, reason)" by (cases arg)
  show ?thesis
    unfolding arg fence_backend_boot_def Let_def prod.case
  proof (intro safe_attempt safe_accept_pass, goal_cases)
    case 1
    show ?case
      by (rule fencing_ok(1)) (use 1 in \<open>auto simp: state_ok_def drop_backend_ok split: option.splits if_splits\<close>)
  next
    case 2
    define retired where "retired = (case om_find (cs_backends s) i of None \<Rightarrow> None
      | Some existing \<Rightarrow> if bd_backend_boot existing = boot \<and>
          (\<not> valid_id g \<or> bd_backend_generation existing = g) then Some existing else None)"
    have "catalog_ok (case retired of None \<Rightarrow> s | Some e \<Rightarrow> drop_backend i e s)"
      and "catalog_step s (case retired of None \<Rightarrow> s | Some e \<Rightarrow> drop_backend i e s)"
      using 2 by (auto simp: retired_def state_ok_def drop_backend_ok drop_backend_step
          split: option.splits if_splits)
    then show ?case
      unfolding retired_def [symmetric] using fencing_ok(2) catalog_step_trans by blast
  qed
qed

lemma settled_fence_backend_boot: "settled now (fence_backend_boot now arg s)"
  unfolding fence_backend_boot_def Let_def
  by (auto split: prod.split intro!: settled_attempt settled_accept_pass)

lemma bind_claims_error: "bind_claims p g n claims profile = Inl (code, message) \<Longrightarrow> code \<noteq> ACCEPTED"
  by (induction p g n claims profile rule: bind_claims.induct)
     (auto split: if_splits prod.splits bool.splits)

lemma safe_publish_capabilities: "safe s (publish_capabilities now p s)"
  unfolding publish_capabilities_def Let_def
  by (intro safe_attempt)
     (auto simp: same_registration_def split: option.split sum.split
       intro!: safe_attempt safe_refuse safe_accept_pass put_backend_ok put_backend_step
       dest: state_ok_catalog)

lemma settled_publish_capabilities: "settled now (publish_capabilities now p s)"
  unfolding publish_capabilities_def Let_def
  by (intro settled_attempt)
     (auto split: option.split sum.split dest: bind_claims_error
       intro!: settled_attempt settled_refuse settled_accept_pass)

lemma retire_update_ok:
  assumes "catalog_ok s" and "om_find (cs_models s) i = Some m"
  shows "catalog_ok (s\<lparr>cs_models := om_put i (m\<lparr>md_lifecycle := ModelLifecycle.RETIRED\<rparr>) (cs_models s)\<rparr>)"
  using assms by (auto simp: catalog_ok_defs om_laws length_om_put)

lemma safe_retire_model: "safe s (retire_model now arg s)"
  unfolding retire_model_def
  by (auto split: prod.split option.split
      intro!: safe_refuse safe_accept_pass retire_update_ok catalog_stepI dest: state_ok_catalog
      simp: same_identity_def is_fenced_def)

lemma settled_retire_model: "settled now (retire_model now arg s)"
  unfolding retire_model_def
  by (auto split: prod.split option.split intro!: settled_refuse settled_accept_pass)

lemma safe_apply_evidence:
  assumes "\<And>e b. same_registration b (put e b)"
  shows "safe s (apply_evidence get put subject stale_code now e s)"
  unfolding apply_evidence_def
  by (intro safe_attempt)
     (auto simp: assms split: option.split dest: state_ok_catalog
       intro!: safe_attempt safe_refuse safe_accept_pass put_backend_ok put_backend_step)

lemma settled_apply_evidence:
  "stale_code \<noteq> ACCEPTED \<Longrightarrow> settled now (apply_evidence get put subject stale_code now e s)"
  unfolding apply_evidence_def
  by (intro settled_attempt)
     (auto split: option.split intro!: settled_attempt settled_refuse settled_accept_pass)

lemmas update_defs = update_health_def update_availability_def update_readiness_def update_residency_def

lemma safe_updates:
  "safe s (update_health now h s)" "safe s (update_availability now a s)"
  "safe s (update_readiness now r s)" "safe s (update_residency now d s)"
  unfolding update_defs by (intro safe_apply_evidence, simp add: same_registration_def)+

lemma settled_updates:
  "settled now (update_health now h s)" "settled now (update_availability now a s)"
  "settled now (update_readiness now r s)" "settled now (update_residency now d s)"
  unfolding update_defs by (intro settled_apply_evidence, simp)+

text \<open>The capacity detail is not part of a route's authority: writing it keeps the invariant and
  what is dispatchable.\<close>

lemma dispatchable_detail_frame:
  assumes "om_ok (cs_backends s)" and "om_find (cs_backends s) i = Some b"
  shows "is_authority_dispatchable (put_backend i (b\<lparr>bd_capacity_detail := d\<rparr>) s) a now =
    is_authority_dispatchable s a now"
  using assms
  by (auto simp: dispatchable_iff put_backend_def is_fenced_def authority_matches_def om_laws
      BackendDescriptor_retired_def BackendDescriptor_draining_def find_binding_def)

lemma live_decisions_detail_frame:
  assumes "om_ok (cs_backends s)" and "om_find (cs_backends s) i = Some b"
  shows "live_decisions_dispatchable now (put_backend i (b\<lparr>bd_capacity_detail := d\<rparr>) s) =
    live_decisions_dispatchable now s"
  unfolding live_decisions_dispatchable_def dispatchable_detail_frame [OF assms]
  by (simp add: put_backend_def)

lemma fences_ok_put_backend: "fences_ok (put_backend i b s) = fences_ok s"
  by (simp add: fences_ok_def put_backend_def is_fenced_def)

abbreviation (input) apply_capacity ::
  "unix_millis \<Rightarrow> CapacityEvidence \<Rightarrow> CanonicalState \<Rightarrow> mutation" where
  "apply_capacity \<equiv> apply_evidence bd_capacity (\<lambda>e. bd_capacity_update (\<lambda>_. e)) ''update_capacity''
     REJECT_STALE_CAPACITY"

lemma safe_apply_capacity: "safe s (apply_capacity now e s)"
  by (rule safe_apply_evidence) (simp add: same_registration_def)

lemma settled_apply_capacity: "settled now (apply_capacity now e s)"
  by (rule settled_apply_evidence) simp

lemma put_detail:
  assumes "om_find (cs_backends s) i = Some b"
  shows "state_ok s \<Longrightarrow> state_ok (put_backend i (b\<lparr>bd_capacity_detail := d\<rparr>) s)"
    and "state_ok s \<Longrightarrow> live_decisions_dispatchable now s \<Longrightarrow>
      live_decisions_dispatchable now (put_backend i (b\<lparr>bd_capacity_detail := d\<rparr>) s)"
  using put_backend_ok [OF _ assms] live_decisions_detail_frame [OF _ assms]
  by (simp_all add: state_ok_def fences_ok_put_backend same_registration_def catalog_ok_maps)

lemma safe_update_capacity: "safe s (update_capacity now arg s)"
proof -
  obtain e d where arg: "arg = (e, d)" by (cases arg)
  obtain result updated where applied: "apply_capacity now e s = (result, updated)"
    by (cases "apply_capacity now e s")
  have "safe s (result, updated)" using safe_apply_capacity [of s now e] applied by simp
  then show ?thesis
    unfolding arg update_capacity_def prod.case applied
    by (intro safe_attempt)
       (auto simp: safe_def put_detail split: option.split
         intro: catalog_step_trans [OF _ put_backend_step])
qed

lemma settled_update_capacity:
  assumes "state_ok s" shows "settled now (update_capacity now arg s)"
proof -
  obtain e d where arg: "arg = (e, d)" by (cases arg)
  obtain result updated where applied: "apply_capacity now e s = (result, updated)"
    by (cases "apply_capacity now e s")
  have "state_ok updated" "settled now (result, updated)"
    using safe_apply_capacity [of s now e] settled_apply_capacity [of now e s] applied assms
    by (simp_all add: safe_def)
  then show ?thesis
    unfolding arg update_capacity_def prod.case applied
    by (intro settled_attempt) (auto simp: settled_def put_detail split: option.split)
qed

lemma safe_update_latency: "safe s (update_latency now e s)"
  unfolding update_latency_def Let_def
  by (intro safe_attempt)
     (auto simp: same_registration_def split: option.split dest: state_ok_catalog
       intro!: safe_attempt safe_refuse safe_accept_pass put_backend_ok put_backend_step)

lemma settled_update_latency: "settled now (update_latency now e s)"
  unfolding update_latency_def Let_def
  by (intro settled_attempt)
     (auto split: option.split intro!: settled_attempt settled_refuse settled_accept_pass)

lemma safe_setters:
  "safe s (set_policy now p s)" "safe s (set_budget now g s)" "safe s (set_slo now l s)"
  "safe s (set_compatibility now c s)"
  unfolding set_policy_def set_budget_def set_slo_def set_compatibility_def Let_def
  by (intro safe_attempt safe_accept_pass catalog_stepI;
      simp add: state_ok_def catalog_ok_defs same_identity_def is_fenced_def om_laws)+

lemma settled_setters:
  "settled now (set_policy now p s)" "settled now (set_budget now g s)" "settled now (set_slo now l s)"
  "settled now (set_compatibility now c s)"
  unfolding set_policy_def set_budget_def set_slo_def set_compatibility_def Let_def
  by (intro settled_attempt settled_accept_pass; simp)+

lemma safe_set_trust: "safe s (set_trust now e s)"
proof -
  let ?s = "s\<lparr>cs_trust := om_put (te_backend_id e) e (cs_trust s)\<rparr>"
  have ok: "state_ok s \<Longrightarrow> catalog_ok ?s" by (simp add: state_ok_def catalog_ok_defs om_laws)
  have step: "catalog_step s ?s" by (rule catalog_stepI) (simp_all add: same_identity_def is_fenced_def)
  show ?thesis
    unfolding set_trust_def Let_def
    using ok step retrust_ok [of ?s e] catalog_step_trans [OF step]
    by (intro safe_attempt safe_accept_pass) (auto split: option.split)
qed

lemma settled_set_trust: "settled now (set_trust now e s)"
  unfolding set_trust_def Let_def by (intro settled_attempt settled_accept_pass) simp

lemma rebind_same_registration:
  "position < length (bd_model_bindings b) \<Longrightarrow>
   same_registration b (b\<lparr>bd_model_bindings := (bd_model_bindings b)
     [position := (bd_model_bindings b ! position)\<lparr>mb_cost := c\<rparr>]\<rparr>)"
  by (simp add: same_registration_def map_update list_update_same_conv)

lemma price_update_ok:
  assumes "catalog_ok s" and "om_find (cs_backends s) i = Some b"
    and "lower_bound mb_model_id m (bd_model_bindings b) \<noteq> length (bd_model_bindings b)"
  shows "catalog_ok ((put_backend i (b\<lparr>bd_model_bindings := (bd_model_bindings b)
      [lower_bound mb_model_id m (bd_model_bindings b) :=
        (bd_model_bindings b ! lower_bound mb_model_id m (bd_model_bindings b))\<lparr>mb_cost := c\<rparr>]\<rparr>) s)
      \<lparr>cs_costs := om_put (i, m) c (cs_costs s)\<rparr>)"
proof -
  have "sorted (map mb_model_id (bd_model_bindings b))"
    using catalog_ok_backend [OF assms(1,2)] by (simp add: bindings_ok_def strictly_ascending_sorted)
  from lower_bound_partition(1) [OF this, of m] assms(3)
  have "lower_bound mb_model_id m (bd_model_bindings b) < length (bd_model_bindings b)" by simp
  from put_backend_ok [OF assms(1,2) rebind_same_registration [OF this, of c]]
  show ?thesis using catalog_ok_maps [OF assms(1)] by (simp add: catalog_ok_defs om_laws)
qed

lemma price_update_step:
  "catalog_step s ((put_backend i b s)\<lparr>cs_costs := om_put k c (cs_costs s)\<rparr>)"
  by (rule catalog_stepI) (simp_all add: put_backend_def same_identity_def is_fenced_def)

lemma safe_set_cost: "safe s (set_cost now e s)"
  unfolding set_cost_def Let_def
  by (intro safe_attempt)
     (auto split: option.split dest: state_ok_catalog
       intro!: safe_attempt safe_refuse safe_accept_pass price_update_ok price_update_step)

lemma settled_set_cost: "settled now (set_cost now e s)"
  unfolding set_cost_def Let_def
  by (intro settled_attempt)
     (auto split: option.split intro!: settled_attempt settled_refuse settled_accept_pass)

section \<open>Interpretations\<close>

interpretation register_backend: authority_mutation register_backend
  by (intro authority_mutationI safe_register_backend settled_register_backend)

interpretation unregister_backend: authority_mutation unregister_backend
  by (intro authority_mutationI safe_unregister_backend settled_unregister_backend)

interpretation publish_capabilities: authority_mutation publish_capabilities
  by (intro authority_mutationI safe_publish_capabilities settled_publish_capabilities)

interpretation retire_model: authority_mutation retire_model
  by (intro authority_mutationI safe_retire_model settled_retire_model)

interpretation fence_backend_boot: authority_mutation fence_backend_boot
  by (intro authority_mutationI safe_fence_backend_boot settled_fence_backend_boot)

text \<open>The two operations that do not run the stale pass have only the first contract.\<close>

interpretation register_model: catalog_mutation "\<lambda>_. register_model"
  by (intro catalog_mutationI safe_register_model)

interpretation register_provider: catalog_mutation "\<lambda>_. register_provider"
  by (intro catalog_mutationI safe_register_provider)

section \<open>Sequences of operations\<close>

datatype authority_command =
    RegisterBackend BackendDescriptor
  | UnregisterBackend entity_id generation
  | PublishCapabilities BackendCapabilityPublication
  | RetireModel entity_id generation
  | FenceBackendBoot entity_id generation generation OutcomeCode
  | UpdateHealth HealthEvidence
  | UpdateAvailability AvailabilityEvidence
  | UpdateReadiness ReadinessEvidence
  | UpdateResidency ResidencyEvidence
  | UpdateCapacity CapacityEvidence CapacityDetail
  | UpdateLatency LatencyEvidence
  | SetPolicy PolicySnapshot
  | SetBudget BudgetSnapshot
  | SetSlo SloEvidence
  | SetCompatibility CompatibilityEvidence
  | SetTrust TrustEvidence
  | SetCost CostEvidence

primrec execute_authority :: "unix_millis \<Rightarrow> authority_command \<Rightarrow> CanonicalState \<Rightarrow> mutation" where
  "execute_authority now (RegisterBackend b) = register_backend now b"
| "execute_authority now (UnregisterBackend i g) = unregister_backend now (i, g)"
| "execute_authority now (PublishCapabilities p) = publish_capabilities now p"
| "execute_authority now (RetireModel i g) = retire_model now (i, g)"
| "execute_authority now (FenceBackendBoot i g boot reason) = fence_backend_boot now (i, g, boot, reason)"
| "execute_authority now (UpdateHealth e) = update_health now e"
| "execute_authority now (UpdateAvailability e) = update_availability now e"
| "execute_authority now (UpdateReadiness e) = update_readiness now e"
| "execute_authority now (UpdateResidency e) = update_residency now e"
| "execute_authority now (UpdateCapacity e d) = update_capacity now (e, d)"
| "execute_authority now (UpdateLatency e) = update_latency now e"
| "execute_authority now (SetPolicy p) = set_policy now p"
| "execute_authority now (SetBudget b) = set_budget now b"
| "execute_authority now (SetSlo l) = set_slo now l"
| "execute_authority now (SetCompatibility c) = set_compatibility now c"
| "execute_authority now (SetTrust t) = set_trust now t"
| "execute_authority now (SetCost c) = set_cost now c"

datatype catalog_command =
    RegisterModel ModelDescriptor
  | RegisterProvider ProviderDescriptor
  | Authority authority_command

primrec execute :: "unix_millis \<Rightarrow> catalog_command \<Rightarrow> CanonicalState \<Rightarrow> mutation" where
  "execute now (RegisterModel m) = register_model m"
| "execute now (RegisterProvider p) = register_provider p"
| "execute now (Authority c) = execute_authority now c"

lemmas safe_operations =
  safe_register_backend safe_unregister_backend safe_publish_capabilities safe_retire_model
  safe_fence_backend_boot safe_updates safe_update_capacity safe_update_latency safe_setters
  safe_set_trust safe_set_cost

lemmas settled_operations =
  settled_register_backend settled_unregister_backend settled_publish_capabilities
  settled_retire_model settled_fence_backend_boot settled_updates settled_update_capacity
  settled_update_latency settled_setters settled_set_trust settled_set_cost

interpretation authority_ops: authority_mutation execute_authority
proof (rule authority_mutationI)
  fix now c s
  show "safe s (execute_authority now c s)" by (cases c) (simp_all add: safe_operations)
  show "settled now (execute_authority now c s)" if "state_ok s"
    using that by (cases c) (simp_all add: settled_operations)
qed

interpretation catalog_ops: catalog_mutation execute
proof (rule catalog_mutationI)
  fix now c s
  have "safe s (execute_authority now a s)" for a by (cases a) (simp_all add: safe_operations)
  then show "safe s (execute now c s)"
    by (cases c) (simp_all add: safe_register_model safe_register_provider)
qed

section \<open>Properties\<close>

lemma length_om_empty: "length om_empty = 0"
  by (simp add: om_empty_def)

lemma initial_state_ok: "state_ok (snd (Impl_new options ids))"
proof -
  have "provider_members om_empty = (\<lambda>_. {})" "trust_members om_empty = (\<lambda>_. {})"
    "model_members om_empty = (\<lambda>_. {})"
    by (simp_all add: fun_eq_iff members_defs om.find_empty)
  then show ?thesis
    by (auto simp: Impl_new_def Let_def CanonicalState_default_def state_ok_def catalog_ok_defs
        fences_ok_def om.ok_empty om.find_empty length_om_empty backend_index.represents_empty
        split: prod.split)
qed

text \<open>
  (C14) Whatever sequence of catalog operations a newly constructed router performs, accepted or
  refused, at whatever times: every descriptor is stored under its own identity and counted by
  the limits, the watermark of a registered model or backend is its generation, no live decision
  is bound to a fenced incarnation, and the incrementally maintained indexes are exactly what
  rebuilding them from the catalog would give.
\<close>

theorem catalog_invariant:
  defines "final options ids commands \<equiv> run_all execute commands (snd (Impl_new options ids))"
  shows "state_ok (final options ids commands) \<and>
    rebuild_indexes (final options ids commands) = final options ids commands"
proof -
  have "state_ok (final options ids commands)"
    unfolding final_def by (rule catalog_ops.run_keeps_state_ok) (rule initial_state_ok)
  moreover from this have "catalog_ok (final options ids commands)" by (simp add: state_ok_def)
  ultimately show ?thesis
    using indexes_ok_iff [OF catalog_ok_maps(3)] by (simp add: catalog_ok_def)
qed


text \<open>
  (C36) A refused catalog operation leaves the whole state as it was.
\<close>

theorem refused_operation_unchanged:
  assumes "\<not> mr_accepted (fst (execute now c s))"
  shows "snd (execute now c s) = s"
  using assms by (rule catalog_ops.refusal_unchanged)


text \<open>
  Generations never regress.  After a backend has been registered with some generation, no later
  registration of the same backend with a smaller one is accepted, whatever happens in between;
  the same holds for models.
\<close>

theorem generations_never_regress:
  assumes "state_ok s"
  defines "later commands \<equiv> run_all execute commands s"
  shows "(om_find (cs_backends s) i = Some old \<and> bd_backend_id b = i \<and>
       bd_backend_generation b < bd_backend_generation old \<longrightarrow>
       \<not> mr_accepted (fst (register_backend now b (later commands)))) \<and>
    (om_find (cs_models s) j = Some m \<and> md_model_id m' = j \<and>
       md_model_generation m' < md_model_generation m \<longrightarrow>
       \<not> mr_accepted (fst (register_model m' (later commands))))"
proof (intro conjI impI)
  have step: "catalog_step s (later commands)"
    unfolding later_def by (rule catalog_ops.run_catalog_step [OF assms(1)])
  have ok: "catalog_ok s" using assms(1) by (simp add: state_ok_def)
  show "\<not> mr_accepted (fst (register_backend now b (later commands)))"
    if b: "om_find (cs_backends s) i = Some old \<and> bd_backend_id b = i \<and>
       bd_backend_generation b < bd_backend_generation old"
  proof -
    obtain w where "om_find (cs_backend_generation_watermark (later commands)) i = Some w"
      "bd_backend_generation old \<le> w"
      using step catalog_ok_backend [OF ok] b unfolding catalog_step_def watermark_le_def by meson
    then show ?thesis
      using b by (auto simp: register_backend_def Let_def attempt_def MutationResult_make_def
          is_acceptance_def BackendDescriptor_canonicalize_def generation_regressed_def
          BackendDescriptor_validate_iff valid_id_def)
  qed
  show "\<not> mr_accepted (fst (register_model m' (later commands)))"
    if m: "om_find (cs_models s) j = Some m \<and> md_model_id m' = j \<and>
       md_model_generation m' < md_model_generation m"
  proof -
    have "om_find (cs_model_generation_watermark s) j = Some (md_model_generation m)"
      using ok m by (simp add: catalog_ok_def models_ok_def)
    then obtain w where "om_find (cs_model_generation_watermark (later commands)) j = Some w"
      "md_model_generation m \<le> w"
      using step unfolding catalog_step_def watermark_le_def by meson
    then show ?thesis
      using m by (auto simp: register_model_def attempt_def MutationResult_make_def is_acceptance_def
          generation_regressed_def ModelDescriptor_validate_def valid_id_def)
  qed
qed

text \<open>The evidence that \<open>apply_evidence\<close> takes over for a registered backend.\<close>

definition evidence_admissible ::
  "(BackendDescriptor \<Rightarrow> 'state BackendEvidence) \<Rightarrow> CanonicalState \<Rightarrow> 'state BackendEvidence \<Rightarrow>
   BackendDescriptor \<Rightarrow> bool" where
  "evidence_admissible get s e b \<longleftrightarrow>
     om_find (cs_backends s) (be_backend_id e) = Some b \<and> \<not> cs_shutting_down s \<and>
     valid_id (be_backend_id e) \<and> valid_id (be_backend_boot e) \<and>
     \<not> is_fenced s (be_backend_id e) (be_backend_boot e) \<and>
     be_backend_boot e = bd_backend_boot b \<and> be_backend_generation e \<in> {0, bd_backend_generation b} \<and>
     be_generation (get b) < be_generation e"

text \<open>
  Dynamic evidence is accepted exactly when it comes from the registered, unfenced incarnation of
  its backend and its generation is newer than the one on record; then it replaces that evidence
  and every decision it invalidates is marked stale.  Evidence of another boot, another backend
  generation or an old generation never reaches the catalog.
\<close>

theorem evidence_accepted_exact:
  assumes "stale_code \<noteq> ACCEPTED"
  shows "(mr_code (fst (apply_evidence get put subject stale_code now e s)) = ACCEPTED \<longleftrightarrow>
      (\<exists>b. evidence_admissible get s e b)) \<and>
    (\<forall>b. evidence_admissible get s e b \<longrightarrow>
      snd (apply_evidence get put subject stale_code now e s) =
        stale_decisions_for_authority_change now (put_backend (be_backend_id e) (put e b) s))"
proof (cases "om_find (cs_backends s) (be_backend_id e)")
  case None
  then show ?thesis
    by (auto simp: apply_evidence_def attempt_def refuse_def MutationResult_make_def evidence_admissible_def)
next
  case (Some b)
  have newer: "be_generation (get b) < be_generation e \<longleftrightarrow>
      valid_id (be_generation e) \<and> \<not> generation_regressed (be_generation e) (be_generation (get b)) \<and>
      \<not> (valid_id (be_generation (get b)) \<and> be_generation e = be_generation (get b))"
    by (rule newer_generation_iff)
  have admitted: "evidence_admissible get s e b"
    if "mr_code (fst (apply_evidence get put subject stale_code now e s)) = ACCEPTED"
    using that assms Some unfolding apply_evidence_def
    by (auto dest!: attempt_accepted simp: evidence_admissible_def newer valid_id_def)
  have performed: "apply_evidence get put subject stale_code now e s =
      accept subject [add_u64 ''backend_id'' (bd_backend_id b), add_u64 ''backend_boot'' (bd_backend_boot b),
        add_u64 ''generation'' (be_generation e)]
        (stale_decisions_for_authority_change now (put_backend (be_backend_id e) (put e b) s))"
    if "evidence_admissible get s e b"
    using that Some
    by (auto simp: apply_evidence_def attempt_def evidence_admissible_def newer valid_id_def)
  have unique: "b' = b" if "evidence_admissible get s e b'" for b'
    using that Some by (simp add: evidence_admissible_def)
  show ?thesis
  proof (intro conjI iffI allI impI)
    show "\<exists>b. evidence_admissible get s e b"
      if "mr_code (fst (apply_evidence get put subject stale_code now e s)) = ACCEPTED"
      using admitted [OF that] ..
    show "mr_code (fst (apply_evidence get put subject stale_code now e s)) = ACCEPTED"
      if "\<exists>b. evidence_admissible get s e b"
    proof -
      from that unique have "evidence_admissible get s e b" by blast
      then show ?thesis by (simp add: performed accept_def MutationResult_built_def)
    qed
    show "snd (apply_evidence get put subject stale_code now e s) =
        stale_decisions_for_authority_change now (put_backend (be_backend_id e) (put e b') s)"
      if "evidence_admissible get s e b'" for b'
      using performed unique that by (simp add: accept_def)
  qed
qed

section \<open>Witnesses\<close>

theorem evidence_accepted_exact_witness:
  "mr_code (fst (update_health 50 ((sample_live DEGRADED)\<lparr>be_generation := 2\<rparr>) sample_state)) = ACCEPTED \<and>
   mr_code (fst (update_health 50 (sample_live DEGRADED) sample_state)) \<noteq> ACCEPTED"
proof -
  have "evidence_admissible bd_health sample_state ((sample_live DEGRADED)\<lparr>be_generation := 2\<rparr>) sample_backend"
    by (simp add: evidence_admissible_def sample_state_defs sample_backend_def sample_live_def
        BackendEvidence_default_def valid_id_def is_fenced_def om_empty_def)
  moreover have "\<not> evidence_admissible bd_health sample_state (sample_live DEGRADED) b" for b
    by (auto simp: evidence_admissible_def sample_state_defs sample_backend_def sample_live_def
        BackendEvidence_default_def)
  ultimately show ?thesis
    using evidence_accepted_exact [of REJECT_STALE_HEALTH bd_health]
    unfolding update_health_def by (meson OutcomeCode.distinct)
qed

definition sample_budget :: BudgetSnapshot where
  "sample_budget = BudgetSnapshot_default\<lparr>bs_generation := 1\<rparr>"

lemma sample_budget_accepted:
  "mr_code (fst (execute_authority 50 (SetBudget sample_budget) sample_state)) = ACCEPTED"
  by (simp add: set_budget_def sample_budget_def attempt_def accept_def MutationResult_built_def
      valid_id_def sample_state_defs BudgetSnapshot_default_def)


theorem refused_operation_unchanged_witness:
  "\<not> mr_accepted (fst (execute 50 (Authority (SetBudget BudgetSnapshot_default)) sample_state)) \<and>
   snd (execute 50 (Authority (SetBudget BudgetSnapshot_default)) sample_state) = sample_state"
proof -
  have "\<not> mr_accepted (fst (execute 50 (Authority (SetBudget BudgetSnapshot_default)) sample_state))"
    by (simp add: set_budget_def attempt_def MutationResult_make_def valid_id_def
        BudgetSnapshot_default_def is_acceptance_def)
  with refused_operation_unchanged [OF this] show ?thesis by blast
qed

definition sample_fenced_state :: CanonicalState where
  "sample_fenced_state = put_fence \<lparr>fb_backend_id = 7, fb_backend_generation = 1, fb_backend_boot = 9,
     fb_reason = FENCED, fb_fenced_at = 0\<rparr> sample_state"

lemma sample_fenced: "state_ok sample_fenced_state" "is_fenced sample_fenced_state 7 9"
proof -
  have "catalog_ok sample_fenced_state"
    unfolding sample_fenced_state_def using sample_state_ok by (intro put_fence_ok) (simp add: state_ok_def)
  moreover have "fences_ok sample_fenced_state"
    by (auto simp: fences_ok_def is_fenced_def sample_fenced_state_def put_fence_def sample_state_defs
        om_empty_def split: if_splits)
  ultimately show "state_ok sample_fenced_state" by (simp add: state_ok_def)
  show "is_fenced sample_fenced_state 7 9"
    by (simp add: sample_fenced_state_def put_fence_def is_fenced_def sample_state_defs om_empty_def)
qed


definition sample_aged_state :: CanonicalState where
  "sample_aged_state = sample_state_with (sample_backend\<lparr>bd_backend_generation := 5\<rparr>)"

lemma sample_aged_ok: "state_ok sample_aged_state"
  unfolding sample_aged_state_def by (rule sample_state_with_ok) (simp_all add: sample_backend_def)

theorem generations_never_regress_witness:
  "state_ok sample_aged_state \<and>
   om_find (cs_backends sample_aged_state) 7 = Some (sample_backend\<lparr>bd_backend_generation := 5\<rparr>) \<and>
   bd_backend_generation sample_backend < 5 \<and>
   \<not> mr_accepted (fst (register_backend 70 sample_backend
      (run_all execute [(60, Authority (UnregisterBackend 7 5))] sample_aged_state)))"
proof -
  have old: "om_find (cs_backends sample_aged_state) 7 = Some (sample_backend\<lparr>bd_backend_generation := 5\<rparr>)"
    by (simp add: sample_aged_state_def sample_state_with_def)
  have gen: "bd_backend_id sample_backend = 7" "bd_backend_generation sample_backend < 5"
    by (simp_all add: sample_backend_def)
  show ?thesis
    using generations_never_regress [OF sample_aged_ok, of 7 "sample_backend\<lparr>bd_backend_generation := 5\<rparr>" sample_backend 70
        "[(60, Authority (UnregisterBackend 7 5))]"] old gen sample_aged_ok
    by simp
qed

section \<open>Where the contract of an authority change does not hold\<close>

text \<open>
  \<open>register_model\<close> replaces a model without running the stale pass: the decision bound to the
  replaced generation stays current although it can no longer be dispatched.
\<close>

theorem register_model_leaves_stale_decision:
  "live_decisions_dispatchable 50 sample_state \<and>
   mr_code (fst (register_model (sample_model\<lparr>md_model_generation := 2\<rparr>) sample_state)) = ACCEPTED \<and>
   \<not> live_decisions_dispatchable 50
       (snd (register_model (sample_model\<lparr>md_model_generation := 2\<rparr>) sample_state))"
proof -
  let ?m = "sample_model\<lparr>md_model_generation := 2\<rparr>"
  let ?s = "snd (register_model ?m sample_state)"
  have performed: "register_model ?m sample_state = accept ''register_model''
      [add_u64 ''model_id'' 3, add_u64 ''model_generation'' 2, add_u64 ''artifact_generation'' 1]
      (sample_state\<lparr>cs_model_generation_watermark := [(3, 2)], cs_models := [(3, ?m)]\<rparr>)"
    by (simp add: register_model_def attempt_def sample_state_defs sample_model_def
        ModelDescriptor_validate_def valid_id_def modality_empty_def default_resource_limits_def
        generation_regressed_def)
  have found: "om_find (cs_routes ?s) 40 = Some sample_record" "live_record sample_record"
    "rd_authority (rec_decision sample_record) = sample_authority"
    unfolding performed
    by (simp_all add: accept_def live_record_def live_status_def sample_state_defs)
  have "\<not> is_authority_dispatchable ?s sample_authority 50"
    unfolding performed
    by (simp add: accept_def dispatchable_iff authority_matches_def sample_authority_def)
  then have "\<not> live_decisions_dispatchable 50 ?s"
    using found unfolding live_decisions_dispatchable_def by metis
  moreover have "mr_code (fst (register_model ?m sample_state)) = ACCEPTED"
    unfolding performed by (simp add: accept_def MutationResult_built_def)
  ultimately show ?thesis using sample_live_dispatchable by blast
qed

text \<open>
  \<open>fence_backend_boot\<close> with a generation that is not the registered one fences the incarnation
  but leaves the backend that runs it registered.
\<close>

theorem fence_keeps_mismatched_registration:
  "mr_code (fst (fence_backend_boot 50 (7, 2, 1, FENCED) sample_state)) = ACCEPTED \<and>
   is_fenced (snd (fence_backend_boot 50 (7, 2, 1, FENCED) sample_state)) 7 1 \<and>
   om_find (cs_backends (snd (fence_backend_boot 50 (7, 2, 1, FENCED) sample_state))) 7 =
     Some sample_backend \<and> bd_backend_boot sample_backend = 1"
  by (simp add: fence_backend_boot_def attempt_def accept_def is_fenced_def put_fence_def
      stale_decisions_for_backend_def stale_decisions_for_authority_change_def sample_state_defs
      sample_backend_def valid_id_def om_empty_def default_resource_limits_def
      MutationResult_built_def Let_def)

end
