(* ===== verification/Adapters.thy ===== *)
theory Adapters
  imports Router_State
begin

text \<open>
  The adapters a router is configured with: \<open>include/model_router/providers.hpp\<close>, and the
  evidence a routing pass gathers through them, \<open>resolve_candidate\<close> of
  \<open>src/router_route.cpp\<close>.

  An adapter is code outside the repository.  It is an argument of the definitions, a function
  of what the router hands to it; an adapter that is not configured is \<open>None\<close>.
\<close>

section \<open>Evidence results\<close>

record 'a EvidenceResult =
  er_code :: OutcomeCode
  er_value :: 'a
  er_has_value :: bool
  er_detail :: string

definition er_ok :: "'a EvidenceResult \<Rightarrow> bool" where
  "er_ok r \<longleftrightarrow> er_has_value r \<and> (er_code r = ACCEPTED \<or> er_code r = NO_CHANGE)"

definition er_accepted :: "'a \<Rightarrow> 'a EvidenceResult" where
  "er_accepted v = \<lparr>er_code = ACCEPTED, er_value = v, er_has_value = True, er_detail = []\<rparr>"

definition er_unavailable :: "'a \<Rightarrow> OutcomeCode \<Rightarrow> string \<Rightarrow> 'a EvidenceResult" where
  "er_unavailable dflt code detail =
     \<lparr>er_code = code, er_value = dflt, er_has_value = False, er_detail = detail\<rparr>"

record DiscoveryContext =
  dx_router_id :: entity_id
  dx_router_epoch :: generation
  dx_coordinator_epoch :: generation
  dx_tenant :: entity_id
  dx_name_space :: entity_id
  dx_now :: unix_millis
  dx_limits :: ResourceLimits

section \<open>The provider set\<close>

record ProviderSet =
  pr_candidates :: "(RouteRequest \<Rightarrow> DiscoveryContext \<Rightarrow> RouteCandidate list EvidenceResult) option"
  pr_policy :: "(entity_id \<Rightarrow> generation \<Rightarrow> DiscoveryContext \<Rightarrow> PolicySnapshot EvidenceResult) option"
  pr_budget :: "(entity_id \<Rightarrow> generation \<Rightarrow> RouteRequest \<Rightarrow> DiscoveryContext \<Rightarrow>
                 BudgetSnapshot EvidenceResult) option"
  pr_cost :: "(RouteCandidate \<Rightarrow> RouteRequest \<Rightarrow> DiscoveryContext \<Rightarrow> CostEvidence EvidenceResult) option"
  pr_slo :: "((entity_id \<Rightarrow> generation \<Rightarrow> RouteRequest \<Rightarrow> DiscoveryContext \<Rightarrow> SloEvidence EvidenceResult) \<times>
              (RouteCandidate \<Rightarrow> SloEvidence \<Rightarrow> RouteRequest \<Rightarrow> DiscoveryContext \<Rightarrow>
               SloVerdict EvidenceResult)) option"
  pr_compatibility :: "(RouteCandidate \<Rightarrow> RouteRequest \<Rightarrow> DiscoveryContext \<Rightarrow>
                        CompatibilityEvidence EvidenceResult) option"
  pr_trust :: "(RouteCandidate \<Rightarrow> DiscoveryContext \<Rightarrow> TrustEvidence EvidenceResult) option"
  pr_reservation :: "(RouteCandidate \<Rightarrow> RouteRequest \<Rightarrow> DiscoveryContext \<Rightarrow>
                      ReservationEvidence EvidenceResult) option"
  pr_dispatcher :: "(RouteDecision \<Rightarrow> RoutePlan \<Rightarrow> DiscoveryContext \<Rightarrow> DispatchRecord) option"

definition ProviderSet_default :: ProviderSet where
  "ProviderSet_default =
     \<lparr>pr_candidates = None, pr_policy = None, pr_budget = None, pr_cost = None, pr_slo = None,
      pr_compatibility = None, pr_trust = None, pr_reservation = None, pr_dispatcher = None\<rparr>"

section \<open>Evidence for one candidate\<close>

record EvidenceSnapshot =
  es_compatibility :: "(entity_id, CompatibilityEvidence) omap"
  es_trust :: "(entity_id, TrustEvidence) omap"
  es_reservations :: "(entity_id, ReservationEvidence) omap"
  es_slo :: SloEvidence

definition EvidenceSnapshot_capture :: "CanonicalState \<Rightarrow> EvidenceSnapshot" where
  "EvidenceSnapshot_capture s =
     \<lparr>es_compatibility = cs_compatibility s, es_trust = cs_trust s,
      es_reservations = cs_reservations s, es_slo = cs_slo s\<rparr>"

definition derive_slo_feasibility :: "RouteCandidate \<Rightarrow> SloEvidence \<Rightarrow> unix_millis \<Rightarrow> SloVerdict" where
  "derive_slo_feasibility candidate slo now =
     (let target = sl_latency_target_micros slo; latency = bd_latency (rc_backend candidate) in
      if target = kUnspecified \<or> target = 0 then SloVerdict.UNKNOWN
      else if LatencyEvidence_expired latency now \<or> le_dispatch_micros latency = kUnknownLatencyMicros
        then SloVerdict.UNKNOWN
      else if le_dispatch_micros latency \<le> target then FEASIBLE else INFEASIBLE)"

definition TrustEvidence_default :: TrustEvidence where
  "TrustEvidence_default =
     \<lparr>te_profile_id = 0, te_generation = 0, te_backend_id = 0, te_domain = TrustDomain.UNKNOWN,
      te_observed_at = 0, te_expires_at = kNoExpiry, te_source = []\<rparr>"

text \<open>What an adapter answers, and the default value when the answer is not usable.\<close>

definition usable :: "'a \<Rightarrow> 'a EvidenceResult \<Rightarrow> 'a" where
  "usable dflt r = (if er_ok r then er_value r else dflt)"

definition resolve_cost ::
  "ProviderSet \<Rightarrow> RouteRequest \<Rightarrow> DiscoveryContext \<Rightarrow> RouteCandidate \<Rightarrow> CostEvidence" where
  "resolve_cost providers request context candidate =
     (let cost = (case pr_cost providers of
            Some fetch \<Rightarrow> usable CostEvidence_default (fetch candidate request context)
          | None \<Rightarrow>
              (case find_binding (rc_backend candidate) (ck_model_id (rc_key candidate)) of
                 Some binding \<Rightarrow> mb_cost binding | None \<Rightarrow> CostEvidence_default))
      in if \<not> valid_id (co_backend_id cost)
         then cost\<lparr>co_backend_id := ck_backend_id (rc_key candidate),
                   co_model_id := ck_model_id (rc_key candidate)\<rparr>
         else cost)"

definition resolve_compatibility ::
  "ProviderSet \<Rightarrow> RouteRequest \<Rightarrow> DiscoveryContext \<Rightarrow> EvidenceSnapshot \<Rightarrow> RouteCandidate \<Rightarrow>
   CompatibilityEvidence" where
  "resolve_compatibility providers request context snapshot candidate =
     (case pr_compatibility providers of
        Some fetch \<Rightarrow> usable CompatibilityEvidence_default (fetch candidate request context)
      | None \<Rightarrow>
          (case om_find (es_compatibility snapshot) (ck_backend_id (rc_key candidate)) of
             Some found \<Rightarrow> found | None \<Rightarrow> CompatibilityEvidence_default))"

definition resolve_trust :: "ProviderSet \<Rightarrow> DiscoveryContext \<Rightarrow> RouteCandidate \<Rightarrow> TrustEvidence" where
  "resolve_trust providers context candidate =
     (case pr_trust providers of
        Some fetch \<Rightarrow> usable TrustEvidence_default (fetch candidate context)
      | None \<Rightarrow>
          TrustEvidence_default
            \<lparr>te_profile_id := bd_trust_profile_id (rc_backend candidate),
             te_generation := bd_trust_generation (rc_backend candidate),
             te_backend_id := ck_backend_id (rc_key candidate),
             te_domain := bd_trust_domain (rc_backend candidate)\<rparr>)"

definition resolve_slo ::
  "ProviderSet \<Rightarrow> RouteRequest \<Rightarrow> DiscoveryContext \<Rightarrow> EvidenceSnapshot \<Rightarrow> SloEvidence" where
  "resolve_slo providers request context snapshot =
     (case pr_slo providers of
        Some (fetch, feasibility) \<Rightarrow>
          if valid_id (rq_slo_id request)
          then usable SloEvidence_default
                 (fetch (rq_slo_id request) (rq_slo_generation request) request context)
          else es_slo snapshot
      | None \<Rightarrow> es_slo snapshot)"

text \<open>The verdict with its \<open>known\<close> flag.\<close>

definition resolve_slo_verdict ::
  "ProviderSet \<Rightarrow> RouteRequest \<Rightarrow> DiscoveryContext \<Rightarrow> SloEvidence \<Rightarrow> RouteCandidate \<Rightarrow> SloVerdict \<times> bool" where
  "resolve_slo_verdict providers request context slo candidate =
     (case pr_slo providers of
        Some (fetch, feasibility) \<Rightarrow>
          let r = feasibility candidate slo request context in
          (usable SloVerdict.UNKNOWN r, er_ok r)
      | None \<Rightarrow>
          let derived = derive_slo_feasibility candidate slo (dx_now context) in
          (derived, derived \<noteq> SloVerdict.UNKNOWN))"

text \<open>The reservation with its \<open>present\<close> flag.\<close>

definition resolve_reservation ::
  "ProviderSet \<Rightarrow> RouteRequest \<Rightarrow> DiscoveryContext \<Rightarrow> EvidenceSnapshot \<Rightarrow> RouteCandidate \<Rightarrow>
   ReservationEvidence \<times> bool" where
  "resolve_reservation providers request context snapshot candidate =
     (case pr_reservation providers of
        Some reserve \<Rightarrow>
          let r = reserve candidate request context in (usable ReservationEvidence_default r, er_ok r)
      | None \<Rightarrow>
          (case om_find (es_reservations snapshot) (ck_backend_id (rc_key candidate)) of
             Some found \<Rightarrow> (found, True) | None \<Rightarrow> (ReservationEvidence_default, False)))"

definition resolve_candidate ::
  "ProviderSet \<Rightarrow> RouteRequest \<Rightarrow> DiscoveryContext \<Rightarrow> EvidenceSnapshot \<Rightarrow> RouteCandidate \<Rightarrow>
   CandidateEvidence" where
  "resolve_candidate providers request context snapshot candidate =
     (let slo = resolve_slo providers request context snapshot;
          (verdict, known) = resolve_slo_verdict providers request context slo candidate;
          (reservation, present) = resolve_reservation providers request context snapshot candidate
      in \<lparr>cv_cost = resolve_cost providers request context candidate,
          cv_compatibility = resolve_compatibility providers request context snapshot candidate,
          cv_trust = resolve_trust providers context candidate,
          cv_slo = slo, cv_slo_verdict = verdict, cv_slo_verdict_known = known,
          cv_reservation = reservation, cv_reservation_present = present\<rparr>)"

section \<open>Candidates from the catalog\<close>

definition build_candidate_from_catalog ::
  "CanonicalState \<Rightarrow> entity_id \<Rightarrow> entity_id \<Rightarrow> RouteCandidate option" where
  "build_candidate_from_catalog s model_id backend_id =
     (case (om_find (cs_models s) model_id, om_find (cs_backends s) backend_id) of
        (Some model, Some backend) \<Rightarrow>
          (case find_binding backend model_id of
             None \<Rightarrow> None
           | Some binding \<Rightarrow> Some
               \<lparr>rc_key = CandidateKey (md_model_id model) (md_model_generation model)
                  (md_artifact_generation model) (bd_backend_id backend)
                  (bd_backend_generation backend) (bd_backend_boot backend)
                  (ed_endpoint_id (bd_endpoint backend))
                  (ed_endpoint_generation (bd_endpoint backend)),
                rc_model = model, rc_backend = backend, rc_endpoint = bd_endpoint backend,
                rc_context_limit_tokens =
                  (if mb_context_limit_tokens binding \<noteq> 0 then mb_context_limit_tokens binding
                   else md_context_limit_tokens model),
                rc_quality_class =
                  (if mb_quality_class binding \<noteq> kUnclassifiedQuality then mb_quality_class binding
                   else md_quality_class model),
                rc_required_capabilities_satisfied = 0, rc_required_capabilities_total = 0,
                rc_preferred_capabilities_satisfied = 0, rc_preferred_capabilities_total = 0,
                rc_discovery_source = ''catalog''\<rparr>)
      | _ \<Rightarrow> None)"

text \<open>Without a candidate provider every backend filed under a registered model is a candidate;
  the \<open>continue\<close> statements of the two loops are the \<open>None\<close> cases above.\<close>

definition discover ::
  "ProviderSet \<Rightarrow> CanonicalState \<Rightarrow> RouteRequest \<Rightarrow> DiscoveryContext \<Rightarrow> RouteCandidate list" where
  "discover providers s request context =
     (case pr_candidates providers of
        Some find_candidates \<Rightarrow> usable [] (find_candidates request context)
      | None \<Rightarrow>
          concat (map (\<lambda>(model_id, backend_ids).
                         List.map_filter (build_candidate_from_catalog s model_id) backend_ids)
                    (cs_index_backends_by_model s)))"

end
