(* ===== verification/Router_Route.thy ===== *)
theory Router_Route
  imports Router_Catalog Adapters Ranking
begin

text \<open>
  The routing pipeline: \<open>src/router_route.cpp\<close>.

  The pipeline holds no lock across an adapter call, so the canonical state may change between
  its stages.  The stages are therefore separate definitions: \<open>route_pass\<close> reads the state it
  was admitted under, the state at discovery and the state at authority binding, and ends with a
  refusal or a draft; \<open>commit_route\<close> runs under the lock on whatever the state is then.
  \<open>route\<close> is their composition when nothing intervenes.  What is proved of \<open>commit_route\<close> holds
  for every intervening change.

  \<open>std::sort\<close> on the candidates is modelled by a stable sort; it matters only for candidates a
  provider returns twice under one key.
\<close>

section \<open>Admission\<close>

definition and_then :: "'e + 'a \<Rightarrow> ('a \<Rightarrow> 'e + 'b) \<Rightarrow> 'e + 'b" where
  "and_then m f = (case m of Inl e \<Rightarrow> Inl e | Inr x \<Rightarrow> f x)"

definition route_refusal :: "OutcomeCode \<Rightarrow> string \<Rightarrow> RouteOutcome + 'a" where
  "route_refusal code message = Inl (RouteOutcome_make code ''route'' message)"

definition normalize_request :: "unix_millis \<Rightarrow> RouteRequest \<Rightarrow> u64 \<Rightarrow> RouteRequest \<times> u64" where
  "normalize_request now request ids =
     (let canonical = request\<lparr>rq_requirements := RouteRequirements_canonicalize (rq_requirements request)\<rparr>;
          (ids', i) = (if valid_id (rq_request_id request) then (ids, rq_request_id request)
                       else IdAllocator_next ids)
      in (canonical
            \<lparr>rq_request_id := i,
             rq_request_generation :=
               (if valid_id (rq_request_generation request) then rq_request_generation request else 1),
             rq_created_at := (if rq_created_at request = 0 then now else rq_created_at request)\<rparr>,
          ids'))"

text \<open>What the pass captures under its first shared lock.\<close>

record PassView =
  vw_request :: RouteRequest
  vw_now :: unix_millis
  vw_limits :: ResourceLimits
  vw_context :: DiscoveryContext
  vw_policy :: PolicySnapshot
  vw_policy_code :: OutcomeCode
  vw_budget :: BudgetSnapshot
  vw_slo :: SloEvidence
  vw_epoch :: generation
  vw_coordinator_epoch :: generation
  vw_router_id :: entity_id
  vw_continuity :: entity_id
  vw_has_continuity :: bool
  vw_weights :: RankingWeights
  vw_scales :: RankingScales
  vw_snapshot :: EvidenceSnapshot

definition make_context :: "CanonicalState \<Rightarrow> entity_id \<Rightarrow> entity_id \<Rightarrow> unix_millis \<Rightarrow> DiscoveryContext" where
  "make_context s tenant name_space now =
     \<lparr>dx_router_id = cs_router_id s, dx_router_epoch = cs_router_epoch s,
      dx_coordinator_epoch = cs_coordinator_epoch s, dx_tenant = tenant, dx_name_space = name_space,
      dx_now = now, dx_limits = cs_limits s\<rparr>"

definition capture_view :: "CanonicalState \<Rightarrow> unix_millis \<Rightarrow> RouteRequest \<Rightarrow> RouteOutcome + PassView" where
  "capture_view s now request =
     (if cs_shutting_down s
        then route_refusal SHUTTING_DOWN ''router is shutting down and cannot admit a route request''
      else if \<not> cs_running s then route_refusal REJECT_INVALID ''router is not running''
      else
        let continuity = om_find (cs_last_winner_by_tenant s) (rq_tenant request) in
        Inr \<lparr>vw_request = request, vw_now = now, vw_limits = cs_limits s,
             vw_context = make_context s (rq_tenant request) (rq_name_space request) now,
             vw_policy = cs_policy s, vw_policy_code = ACCEPTED, vw_budget = cs_budget s,
             vw_slo = cs_slo s, vw_epoch = cs_router_epoch s,
             vw_coordinator_epoch = cs_coordinator_epoch s, vw_router_id = cs_router_id s,
             vw_continuity = (case continuity of None \<Rightarrow> 0 | Some b \<Rightarrow> b),
             vw_has_continuity = (continuity \<noteq> None), vw_weights = cs_weights s,
             vw_scales = cs_scales s, vw_snapshot = EvidenceSnapshot_capture s\<rparr>)"

definition admit_request :: "PassView \<Rightarrow> RouteOutcome + PassView" where
  "admit_request v =
     (if RouteRequest_validate (vw_request v) (vw_limits v) \<noteq> []
        then route_refusal REJECT_INVALID (RouteRequest_validate (vw_request v) (vw_limits v))
      else if RouteRequest_expired (vw_request v) (vw_now v)
        then route_refusal REJECT_STALE_REQUEST ''route request has expired''
      else Inr v)"

definition detail_or :: "string \<Rightarrow> string \<Rightarrow> string" where
  "detail_or detail fallback = (if detail = [] then fallback else detail)"

definition admit_policy :: "ProviderSet \<Rightarrow> PassView \<Rightarrow> RouteOutcome + PassView" where
  "admit_policy providers v =
     and_then
       (case pr_policy providers of
          None \<Rightarrow> Inr (vw_policy v)
        | Some fetch \<Rightarrow>
            let r = fetch (rq_policy_id (vw_request v)) (rq_policy_generation (vw_request v)) (vw_context v) in
            if \<not> er_ok r then route_refusal (er_code r) (detail_or (er_detail r) ''policy evidence is unavailable'')
            else Inr (er_value r))
       (\<lambda>fetched.
          let policy = PolicySnapshot_canonicalize fetched;
              verdict = evaluate_request policy (vw_request v) (vw_now v) in
          if \<not> valid_id (ps_generation policy)
            then route_refusal REJECT_STALE_POLICY ''no current policy evidence is available''
          else if \<not> policy_allowed verdict then route_refusal (pv_code verdict) (pv_detail verdict)
          else Inr (v\<lparr>vw_policy := policy, vw_policy_code := pv_code verdict\<rparr>))"

definition admit_budget :: "ProviderSet \<Rightarrow> PassView \<Rightarrow> RouteOutcome + PassView" where
  "admit_budget providers v =
     (if \<not> valid_id (rq_budget_id (vw_request v)) then Inr v
      else and_then
        (case pr_budget providers of
           None \<Rightarrow> Inr (vw_budget v)
         | Some fetch \<Rightarrow>
             let r = fetch (rq_budget_id (vw_request v)) (rq_budget_generation (vw_request v))
                       (vw_request v) (vw_context v) in
             if \<not> er_ok r then route_refusal (er_code r) (detail_or (er_detail r) ''budget evidence is unavailable'')
             else Inr (er_value r))
        (\<lambda>budget.
           if \<not> valid_id (bs_generation budget) \<or> bs_verdict budget = BudgetVerdict.UNKNOWN
             then route_refusal REJECT_UNKNOWN_EVIDENCE ''budget evidence is UNKNOWN''
           else if bs_generation budget \<noteq> rq_budget_generation (vw_request v)
             then route_refusal REJECT_STALE_BUDGET
                    ''budget generation is not the request budget generation''
           else if bs_verdict budget = DENIED
             then route_refusal REJECT_BUDGET ''budget verdict denies the request''
           else Inr (v\<lparr>vw_budget := budget\<rparr>)))"

definition admit_slo :: "ProviderSet \<Rightarrow> PassView \<Rightarrow> RouteOutcome + PassView" where
  "admit_slo providers v =
     (if \<not> rr_require_slo (rq_requirements (vw_request v)) then Inr v
      else and_then
        (case pr_slo providers of
           None \<Rightarrow> Inr (vw_slo v)
         | Some (fetch, feasibility) \<Rightarrow>
             let r = fetch (rq_slo_id (vw_request v)) (rq_slo_generation (vw_request v))
                       (vw_request v) (vw_context v) in
             if \<not> er_ok r then route_refusal (er_code r) (detail_or (er_detail r) ''SLO evidence is unavailable'')
             else Inr (er_value r))
        (\<lambda>slo.
           if \<not> valid_id (sl_generation slo) \<or> sl_verdict slo = SloVerdict.UNKNOWN
             then route_refusal REJECT_UNKNOWN_EVIDENCE ''SLO evidence is UNKNOWN''
           else if sl_generation slo \<noteq> rq_slo_generation (vw_request v)
             then route_refusal REJECT_STALE_SLO ''SLO generation is not the request SLO generation''
           else if sl_verdict slo = INFEASIBLE
             then route_refusal REJECT_SLO ''SLO verdict is infeasible''
           else Inr (v\<lparr>vw_slo := slo\<rparr>)))"

definition admit :: "ProviderSet \<Rightarrow> CanonicalState \<Rightarrow> unix_millis \<Rightarrow> RouteRequest \<Rightarrow> RouteOutcome + PassView" where
  "admit providers s now request =
     and_then (and_then (and_then (and_then (capture_view s now request)
       admit_request) (admit_policy providers)) (admit_budget providers)) (admit_slo providers)"

section \<open>Eligibility and ranking\<close>

definition capability_present :: "CapabilityEvidence option \<Rightarrow> unix_millis \<Rightarrow> bool" where
  "capability_present evidence now \<longleftrightarrow>
     (case evidence of
        None \<Rightarrow> False | Some e \<Rightarrow> is_satisfying (ce_state e) \<and> \<not> CapabilityEvidence_expired e now)"

definition with_capability_counts :: "RouteRequest \<Rightarrow> unix_millis \<Rightarrow> RouteCandidate \<Rightarrow> RouteCandidate" where
  "with_capability_counts request now c =
     (let required = rr_required_capabilities (rq_requirements request);
          preferred = rr_preferred_capabilities (rq_requirements request);
          model = md_capabilities (rc_model c); backend = bd_capabilities (rc_backend c) in
      c\<lparr>rc_required_capabilities_total := of_nat (length required),
        rc_required_capabilities_satisfied := of_nat (length (filter (\<lambda>r.
          capability_satisfies (CapabilityProfile_find model (cr_key r)) (cr_minimum_state r) now \<or>
          capability_satisfies (CapabilityProfile_find backend (cr_key r)) (cr_minimum_state r) now)
          required)),
        rc_preferred_capabilities_total := of_nat (length preferred),
        rc_preferred_capabilities_satisfied := of_nat (length (filter (\<lambda>key.
          capability_present (CapabilityProfile_find model key) now \<or>
          capability_present (CapabilityProfile_find backend key) now)
          preferred))\<rparr>)"

definition rejection_of :: "CandidateKey \<Rightarrow> EligibilityVerdict \<Rightarrow> RouteRejection" where
  "rejection_of key verdict =
     \<lparr>rj_model_id = ck_model_id key, rj_model_generation = ck_model_generation key,
      rj_backend_id = ck_backend_id key, rj_backend_generation = ck_backend_generation key,
      rj_backend_boot = ck_backend_boot key, rj_endpoint_id = ck_endpoint_id key,
      rj_code = ev_code verdict, rj_detail = ev_detail verdict\<rparr>"

definition candidate_verdict ::
  "PassView \<Rightarrow> RouteCandidate \<Rightarrow> CandidateEvidence \<Rightarrow> EligibilityVerdict" where
  "candidate_verdict v resolved evidence = evaluate_hard_eligibility
     \<lparr>ei_request = Some (vw_request v), ei_candidate = Some resolved, ei_policy = Some (vw_policy v),
      ei_budget = Some (vw_budget v), ei_evidence = Some evidence, ei_now = vw_now v\<rparr>"

definition ranking_context :: "PassView \<Rightarrow> RouteCandidate \<Rightarrow> CandidateEvidence \<Rightarrow> RankingContext" where
  "ranking_context v resolved evidence =
     \<lparr>rx_request = vw_request v, rx_evidence = evidence,
      rx_policy_verdict = Some (evaluate_candidate (vw_policy v) (vw_request v) resolved (vw_now v)),
      rx_weights = vw_weights v, rx_scales = vw_scales v, rx_now = vw_now v,
      rx_continuity_backend = vw_continuity v, rx_has_continuity_backend = vw_has_continuity v,
      rx_diversity_reference_provider = 0, rx_has_diversity_reference = False\<rparr>"

text \<open>One iteration of the loop over the candidates.\<close>

definition assess_candidate ::
  "ProviderSet \<Rightarrow> PassView \<Rightarrow> RouteCandidate \<Rightarrow> RouteRejection + RankedCandidate" where
  "assess_candidate providers v candidate =
     (let evidence = resolve_candidate providers (vw_request v) (vw_context v) (vw_snapshot v) candidate;
          resolved = with_capability_counts (vw_request v) (vw_now v) candidate;
          verdict = candidate_verdict v resolved evidence in
      if \<not> eligible verdict then Inl (rejection_of (rc_key resolved) verdict)
      else
        let (factors, score) = build_factors resolved (ranking_context v resolved evidence) in
        Inr \<lparr>rk_key = rc_key resolved, rk_score = score, rk_factors = factors, rk_rank = 0\<rparr>)"

definition lefts :: "('a + 'b) list \<Rightarrow> 'a list" where
  "lefts xs = concat (map (\<lambda>x. case x of Inl a \<Rightarrow> [a] | Inr b \<Rightarrow> []) xs)"

definition rights :: "('a + 'b) list \<Rightarrow> 'b list" where
  "rights xs = concat (map (\<lambda>x. case x of Inl a \<Rightarrow> [] | Inr b \<Rightarrow> [b]) xs)"

definition canonical_candidates :: "RouteCandidate list \<Rightarrow> RouteCandidate list" where
  "canonical_candidates = sort_unique_by rc_key"

definition base_explanation :: "PassView \<Rightarrow> RouteExplanation" where
  "base_explanation v = RouteExplanation_default
     \<lparr>xp_request_id := rq_request_id (vw_request v),
      xp_request_generation := rq_request_generation (vw_request v),
      xp_policy := vw_policy v, xp_budget := vw_budget v, xp_slo := vw_slo v,
      xp_requirement_digest := RouteRequirements_digest (rq_requirements (vw_request v)),
      xp_policy_result := vw_policy_code v\<rparr>"

definition ranked_explanation ::
  "PassView \<Rightarrow> RankedCandidate list \<Rightarrow> RouteRejection list \<Rightarrow> RouteExplanation" where
  "ranked_explanation v ranked rejections =
     (base_explanation v)
       \<lparr>xp_eligible_candidate_count := of_nat (length ranked),
        xp_rejected_candidate_count := of_nat (length rejections),
        xp_rejections := rejections,
        xp_ranking := number_from 1 (stable_sort_by candidate_ranks_before ranked)\<rparr>"

section \<open>Authority binding and fallbacks\<close>

definition bind_authority ::
  "ProviderSet \<Rightarrow> PassView \<Rightarrow> CanonicalState \<Rightarrow> RouteCandidate list \<Rightarrow> CandidateKey \<Rightarrow>
   RouteAuthority \<times> CostEvidence" where
  "bind_authority providers v s candidates winner =
     (let request = vw_request v;
          base = RouteAuthority_default
            \<lparr>ra_router_id := vw_router_id v, ra_router_epoch := vw_epoch v,
             ra_coordinator_epoch := vw_coordinator_epoch v,
             ra_request_id := rq_request_id request,
             ra_request_generation := rq_request_generation request,
             ra_model_id := ck_model_id winner, ra_model_generation := ck_model_generation winner,
             ra_artifact_generation := ck_artifact_generation winner,
             ra_backend_id := ck_backend_id winner,
             ra_backend_generation := ck_backend_generation winner,
             ra_backend_boot := ck_backend_boot winner, ra_endpoint_id := ck_endpoint_id winner,
             ra_endpoint_generation := ck_endpoint_generation winner,
             ra_tenant := rq_tenant request, ra_name_space := rq_name_space request,
             ra_issued_at := vw_now v, ra_expires_at := rq_expires_at request\<rparr>;
          registered = (case om_find (cs_backends s) (ck_backend_id winner) of
              None \<Rightarrow> base
            | Some b \<Rightarrow> base
                \<lparr>ra_provider_id := bd_provider_id b, ra_provider_generation := bd_provider_generation b,
                 ra_backend_registration_generation := bd_backend_registration_generation b,
                 ra_capability_profile_id := bd_capability_profile_id b,
                 ra_capability_generation := bd_capability_generation b,
                 ra_compatibility_profile_id := bd_compatibility_profile_id b,
                 ra_compatibility_generation := bd_compatibility_generation b,
                 ra_trust_profile_id := bd_trust_profile_id b,
                 ra_trust_generation := bd_trust_generation b,
                 ra_health_generation := be_generation (bd_health b),
                 ra_availability_generation := be_generation (bd_availability b),
                 ra_readiness_generation := be_generation (bd_readiness b),
                 ra_residency_generation := be_generation (bd_residency b),
                 ra_capacity_generation := be_generation (bd_capacity b)\<rparr>);
          governed = registered
            \<lparr>ra_policy_id := ps_policy_id (vw_policy v), ra_policy_generation := ps_generation (vw_policy v),
             ra_slo_id := sl_slo_id (vw_slo v), ra_slo_generation := sl_generation (vw_slo v)\<rparr>;
          budgeted = (if valid_id (rq_budget_id request)
            then governed\<lparr>ra_budget_id := rq_budget_id request,
                          ra_budget_generation := bs_generation (vw_budget v)\<rparr>
            else governed)
      in case find_by_key rc_key winner candidates of
           None \<Rightarrow> (budgeted, CostEvidence_default)
         | Some candidate \<Rightarrow>
             let evidence = resolve_candidate providers request (vw_context v) (vw_snapshot v) candidate;
                 priced = budgeted\<lparr>ra_cost_evidence_id := co_evidence_id (cv_cost evidence),
                                   ra_price_generation := co_price_generation (cv_cost evidence)\<rparr>
             in (if cv_reservation_present evidence
                 then priced\<lparr>ra_reservation_id := re_reservation_id (cv_reservation evidence),
                             ra_reservation_generation := re_generation (cv_reservation evidence)\<rparr>
                 else priced, cv_cost evidence))"

definition permitted_fallbacks :: "PassView \<Rightarrow> u32" where
  "permitted_fallbacks v =
     (if ps_fallback_policy (vw_policy v) = FORBIDDEN then 0
      else min (min (rp_max_fallbacks (rr_retry_policy (rq_requirements (vw_request v))))
                    (max_fallback_candidates (vw_limits v)))
               (ps_max_fallback_depth (vw_policy v)))"

definition fallback_order :: "u32 \<Rightarrow> RankedCandidate list \<Rightarrow> CandidateKey list" where
  "fallback_order permitted ranking =
     (if permitted > 0
      then map rk_key (take (unat permitted)
             (stable_sort_by (\<lambda>lhs rhs.
                ck_backend_id (rk_key lhs) \<noteq> ck_backend_id (rk_key (hd ranking)) \<and>
                ck_backend_id (rk_key rhs) = ck_backend_id (rk_key (hd ranking)))
              (tl ranking)))
      else [])"

definition tie_break :: "RankedCandidate list \<Rightarrow> string" where
  "tie_break ranking =
     (if length ranking > 1 \<and> rk_score (ranking ! 0) = rk_score (ranking ! 1)
      then ''canonical factor sequence then canonical candidate identity''
      else ''higher integer score'')"

section \<open>The pass\<close>

record RouteDraft =
  df_view :: PassView
  df_winner :: RankedCandidate
  df_explanation :: RouteExplanation
  df_permitted :: u32

datatype route_result = Refused RouteOutcome | NoCandidate RouteOutcome | Drafted RouteDraft

definition draft_route ::
  "ProviderSet \<Rightarrow> PassView \<Rightarrow> CanonicalState \<Rightarrow> RouteCandidate list \<Rightarrow> RouteExplanation \<Rightarrow> RouteDraft" where
  "draft_route providers v s candidates explanation =
     (let ranking = xp_ranking explanation; winner = hd ranking;
          (authority, cost) = bind_authority providers v s candidates (rk_key winner)
      in \<lparr>df_view = v, df_winner = winner,
          df_explanation = explanation
            \<lparr>xp_cost := cost, xp_winner := rk_key winner, xp_authority := authority,
             xp_currentness := Currentness.CURRENT, xp_revalidation_required := False,
             xp_tie_break_reason := tie_break ranking,
             xp_fallback_order := fallback_order (permitted_fallbacks v) ranking\<rparr>,
          df_permitted = permitted_fallbacks v\<rparr>)"

definition route_pass ::
  "ProviderSet \<Rightarrow> unix_millis \<Rightarrow> RouteRequest \<Rightarrow> CanonicalState \<Rightarrow> CanonicalState \<Rightarrow> CanonicalState \<Rightarrow>
   route_result" where
  "route_pass providers now request admission_state discovery_state binding_state =
     (case admit providers admission_state now request of
        Inl outcome \<Rightarrow> Refused outcome
      | Inr v \<Rightarrow>
          let discovered = discover providers discovery_state (vw_request v) (vw_context v) in
          if length discovered > unat (max_candidates_per_request (vw_limits v))
            then Refused (RouteOutcome_make REJECT_LIMIT ''route''
                   ''candidate discovery exceeded the configured limit'')
          else
            let candidates = canonical_candidates discovered;
                assessed = map (assess_candidate providers v) candidates;
                ranked = rights assessed;
                rejections = take (unat (max_rejection_records (vw_limits v))) (lefts assessed);
                explanation = ranked_explanation v ranked rejections in
            if length ranked > unat (max_ranked_candidates (vw_limits v))
              then Refused (RouteOutcome_make REJECT_LIMIT ''route''
                     ''eligible candidate count exceeds the configured ranking limit'')
            else if ranked = []
              then NoCandidate ((RouteOutcome_make NO_ELIGIBLE_CANDIDATE ''route''
                     ''no candidate satisfies every current hard requirement'')
                     \<lparr>ro_route := explanation\<lparr>xp_eligible_candidate_count := 0\<rparr>\<rparr>)
            else Drafted (draft_route providers v binding_state candidates explanation))"

section \<open>Commit\<close>

text \<open>The loop that drops the oldest retained decisions.\<close>

fun evict_history ::
  "nat \<Rightarrow> entity_id list \<Rightarrow> (entity_id, RouteRecord) omap \<Rightarrow>
   entity_id list \<times> (entity_id, RouteRecord) omap" where
  "evict_history limit [] routes = ([], routes)"
| "evict_history limit (victim # order) routes =
     (if length (victim # order) \<ge> limit then evict_history limit order (om_erase victim routes)
      else (victim # order, routes))"

definition evict_routes :: "CanonicalState \<Rightarrow> CanonicalState" where
  "evict_routes s =
     (let (order, routes) =
            evict_history (unat (max_route_history (cs_limits s))) (cs_route_order s) (cs_routes s)
      in s\<lparr>cs_route_order := order, cs_routes := routes\<rparr>)"

text \<open>The comparison at commit; a bound identity that no longer exists gives a comparison
  without differences.\<close>

definition commit_comparison :: "CanonicalState \<Rightarrow> RouteAuthority \<Rightarrow> AuthorityComparison" where
  "commit_comparison s authority =
     (case build_current_authority s authority of
        Some observed \<Rightarrow> compare_authority authority observed (required_mask authority)
      | None \<Rightarrow> \<lparr>ac_code = REJECT_STALE_BACKEND, ac_differences = []\<rparr>)"

definition make_plan ::
  "unix_millis \<Rightarrow> RouteRequest \<Rightarrow> PolicySnapshot \<Rightarrow> u32 \<Rightarrow> RouteAuthority \<Rightarrow> CandidateKey \<Rightarrow>
   entity_id \<Rightarrow> RouteDecision \<Rightarrow> RoutePlan" where
  "make_plan now request policy permitted authority primary plan_id decision =
     RoutePlan_default
       \<lparr>pl_plan_id := plan_id, pl_plan_generation := 1,
        pl_decision_id := rd_decision_id decision,
        pl_decision_generation := rd_decision_generation decision,
        pl_primary := primary, pl_fallbacks := rd_fallbacks decision, pl_authority := authority,
        pl_constraints := DispatchConstraints_default
          \<lparr>dc_require_revalidation := True,
           dc_require_reservation := rr_require_reservation (rq_requirements request),
           dc_max_attempts := rp_max_attempts (rr_retry_policy (rq_requirements request)),
           dc_max_fallbacks := permitted\<rparr>,
        pl_retry_policy := rr_retry_policy (rq_requirements request),
        pl_fallback_policy := ps_fallback_policy policy, pl_created_at := now,
        pl_expires_at := rq_expires_at request\<rparr>"

definition new_decision :: "unix_millis \<Rightarrow> RouteRequest \<Rightarrow> RouteExplanation \<Rightarrow> RouteDecision" where
  "new_decision now request explanation = RouteDecision_default
     \<lparr>rd_request_id := rq_request_id request, rd_request_generation := rq_request_generation request,
      rd_status := RouteStatus.CURRENT, rd_code := ROUTED, rd_authority := xp_authority explanation,
      rd_fallbacks := xp_fallback_order explanation, rd_created_at := now,
      rd_explanation := explanation\<rparr>"

text \<open>The decision with its identity, judged against the state, and with its digest.\<close>

definition seal_decision :: "CanonicalState \<Rightarrow> entity_id \<Rightarrow> RouteDecision \<Rightarrow> RouteDecision" where
  "seal_decision s decision_id decision =
     (let authority = (rd_authority decision)
            \<lparr>ra_decision_id := decision_id, ra_decision_generation := 1\<rparr>;
          bound = (rd_explanation decision)\<lparr>xp_authority := authority\<rparr>;
          current = AuthorityComparison_current (commit_comparison s authority);
          judged = (if current then bound
            else bound\<lparr>xp_currentness := Currentness.STALE, xp_revalidation_required := True\<rparr>)
      in decision
           \<lparr>rd_decision_id := decision_id, rd_decision_generation := 1, rd_authority := authority,
            rd_status := (if current then rd_status decision else RouteStatus.STALE),
            rd_explanation := judged\<lparr>xp_semantic_digest := compute_semantic_digest judged\<rparr>\<rparr>)"

definition om_emplace :: "'k::linorder \<Rightarrow> 'v \<Rightarrow> ('k, 'v) omap \<Rightarrow> ('k, 'v) omap" where
  "om_emplace k v m = (if om_find m k = None then om_put k v m else m)"

text \<open>Insertion of a sealed decision and the re-check of the inserted record; the flag is
  \<open>committed_current\<close>.\<close>

definition insert_record ::
  "unix_millis \<Rightarrow> entity_id \<Rightarrow> RouteRecord \<Rightarrow> CanonicalState \<Rightarrow> bool \<times> CanonicalState" where
  "insert_record now decision_id r s =
     (let inserted = s\<lparr>cs_routes := om_emplace decision_id r (cs_routes s),
                       cs_route_order := cs_route_order s @ [decision_id]\<rparr>
      in case om_find (cs_routes inserted) decision_id of
           None \<Rightarrow> (rd_status (rec_decision r) = RouteStatus.CURRENT, inserted)
         | Some found \<Rightarrow>
             let checked = stale_decision_if_not_dispatchable inserted now found in
             (rd_status (rec_decision r) = RouteStatus.CURRENT \<and>
              rd_status (rec_decision checked) = RouteStatus.CURRENT,
              inserted\<lparr>cs_routes := om_put decision_id checked (cs_routes inserted)\<rparr>))"

definition insert_decision ::
  "unix_millis \<Rightarrow> RouteRequest \<Rightarrow> PolicySnapshot \<Rightarrow> u32 \<Rightarrow> CandidateKey \<Rightarrow> RouteExplanation \<Rightarrow> u64 \<Rightarrow>
   CanonicalState \<Rightarrow> RouteDecision \<times> bool \<times> u64 \<times> CanonicalState" where
  "insert_decision now request policy permitted primary explanation ids s =
     (let (ids1, decision_id) = IdAllocator_next ids;
          decision = seal_decision s decision_id (new_decision now request explanation);
          (ids2, plan_id) = IdAllocator_next ids1;
          r = \<lparr>rec_decision = decision,
               rec_plan = make_plan now request policy permitted (xp_authority explanation) primary
                 plan_id decision,
               rec_tenant = rq_tenant request, rec_name_space = rq_name_space request\<rparr>;
          (current, s') = insert_record now decision_id r s
      in (decision, current, ids2, s'))"

definition count_route :: "RouteDraft \<Rightarrow> CanonicalState \<Rightarrow> CanonicalState" where
  "count_route d s =
     note_tenant (rq_tenant (vw_request (df_view d)))
       (s\<lparr>cs_counters := (cs_counters s)
             \<lparr>pc_route_requests := pc_route_requests (cs_counters s) + 1,
              pc_route_decisions := pc_route_decisions (cs_counters s) + 1\<rparr>,
           cs_last_eligible := xp_eligible_candidate_count (df_explanation d),
           cs_last_rejected := xp_rejected_candidate_count (df_explanation d),
           cs_last_winner_by_tenant := om_put (rq_tenant (vw_request (df_view d)))
             (ck_backend_id (rk_key (df_winner d))) (cs_last_winner_by_tenant s)\<rparr>)"

definition route_outcome :: "RouteDraft \<Rightarrow> RouteDecision \<Rightarrow> bool \<Rightarrow> RouteOutcome" where
  "route_outcome d decision committed_current =
     (let code = (if committed_current then ROUTED else OutcomeCode.REVALIDATION_REQUIRED);
          key = rk_key (df_winner d) in
      \<lparr>ro_code = code,
       ro_explanation = build_explanation code ''route''
         (if committed_current then ''route decision committed''
          else ''route decision committed stale: authority advanced during the pass'')
         [add_u64 ''decision_id'' (rd_decision_id decision),
          add_u64 ''eligible'' (ucast (xp_eligible_candidate_count (df_explanation d))),
          add_u64 ''rejected'' (ucast (xp_rejected_candidate_count (df_explanation d))),
          add_u64 ''model_id'' (ck_model_id key), add_u64 ''backend_id'' (ck_backend_id key),
          add_u64 ''backend_boot'' (ck_backend_boot key),
          add_u64 ''score'' (word_of_int (rk_score (df_winner d))),
          add_bool ''committed_current'' committed_current,
          add_text ''authority_digest'' (authority_digest (rd_authority decision))],
       ro_route = rd_explanation decision, ro_decision = decision, ro_has_decision = True\<rparr>)"

definition commit_route :: "RouteDraft \<Rightarrow> u64 \<Rightarrow> CanonicalState \<Rightarrow> RouteOutcome \<times> u64 \<times> CanonicalState" where
  "commit_route d ids s =
     (let v = df_view d in
      if cs_shutting_down s
        then (RouteOutcome_make SHUTTING_DOWN ''route''
                ''router began shutting down before the route could be committed'', ids, s)
      else if cs_router_epoch s \<noteq> vw_epoch v \<or> cs_coordinator_epoch s \<noteq> vw_coordinator_epoch v
        then (RouteOutcome_make REJECT_STALE_ROUTER_EPOCH ''route''
                ''router epoch advanced before the route could be committed'', ids, s)
      else
        let evicted = (if length (cs_routes s) \<ge> unat (max_route_history (cs_limits s))
                       then evict_routes s else s);
            (decision, committed_current, ids', inserted) =
              insert_decision (vw_now v) (vw_request v) (vw_policy v) (df_permitted d)
                (rk_key (df_winner d)) (df_explanation d) ids evicted
        in (route_outcome d decision committed_current, ids', count_route d inserted))"

definition count_no_candidate :: "RouteRequest \<Rightarrow> RouteOutcome \<Rightarrow> CanonicalState \<Rightarrow> CanonicalState" where
  "count_no_candidate request outcome s =
     note_tenant (rq_tenant request)
       (s\<lparr>cs_counters := (cs_counters s)
             \<lparr>pc_route_requests := pc_route_requests (cs_counters s) + 1,
              pc_route_rejections := pc_route_rejections (cs_counters s) + 1\<rparr>,
           cs_last_eligible := 0,
           cs_last_rejected := xp_rejected_candidate_count (ro_route outcome)\<rparr>)"

definition route ::
  "ProviderSet \<Rightarrow> unix_millis \<Rightarrow> RouteRequest \<Rightarrow> u64 \<Rightarrow> CanonicalState \<Rightarrow>
   RouteOutcome \<times> u64 \<times> CanonicalState" where
  "route providers now request ids s =
     (case normalize_request now request ids of
        (normalized, ids') \<Rightarrow>
          (case route_pass providers now normalized s s s of
             Refused outcome \<Rightarrow> (outcome, ids', s)
           | NoCandidate outcome \<Rightarrow> (outcome, ids', count_no_candidate normalized outcome s)
           | Drafted d \<Rightarrow> commit_route d ids' s))"

end
