(* ===== verification/Route_Selection.thy ===== *)
theory Route_Selection
  imports Router_Route
begin

text \<open>
  What a routing pass selects.  A drafted route names an eligible candidate that no other
  eligible candidate ranks before; the selection does not depend on the order in which
  candidates were discovered; the fallback set is the ranking without the winner, candidates of
  other backends first, cut at the permitted number.
\<close>

section \<open>Shape of a pass\<close>

lemma lefts_mem [simp]: "x \<in> set (lefts xs) \<longleftrightarrow> Inl x \<in> set xs"
  by (force simp: lefts_def split: sum.splits)

lemma rights_mem [simp]: "y \<in> set (rights xs) \<longleftrightarrow> Inr y \<in> set xs"
  by (force simp: rights_def split: sum.splits)

lemma lefts_rights_length: "length (lefts xs) + length (rights xs) = length xs"
  by (induction xs) (auto simp: lefts_def rights_def split: sum.splits)

lemma and_then_Inr: "and_then m f = Inr y \<longleftrightarrow> (\<exists>x. m = Inr x \<and> f x = Inr y)"
  by (simp add: and_then_def split: sum.split)

lemma capture_view_fields:
  "capture_view s now request = Inr v \<Longrightarrow>
   cs_running s \<and> \<not> cs_shutting_down s \<and> vw_request v = request \<and> vw_now v = now \<and>
   vw_limits v = cs_limits s \<and> vw_epoch v = cs_router_epoch s \<and>
   vw_coordinator_epoch v = cs_coordinator_epoch s"
  by (auto simp: capture_view_def route_refusal_def Let_def split: if_splits)

text \<open>The admission stages after the capture change only the policy, budget and service level
  evidence of the view.\<close>

definition same_pass :: "PassView \<Rightarrow> PassView \<Rightarrow> bool" where
  "same_pass v w \<longleftrightarrow>
     vw_request w = vw_request v \<and> vw_now w = vw_now v \<and> vw_limits w = vw_limits v \<and>
     vw_context w = vw_context v \<and> vw_epoch w = vw_epoch v \<and>
     vw_coordinator_epoch w = vw_coordinator_epoch v \<and> vw_snapshot w = vw_snapshot v"

lemma admission_same_pass:
  "admit_request v = Inr w \<Longrightarrow> same_pass v w \<and> RouteRequest_validate (vw_request v) (vw_limits v) = []"
  "admit_policy providers v = Inr w \<Longrightarrow> same_pass v w \<and> valid_id (ps_generation (vw_policy w))"
  "admit_budget providers v = Inr w \<Longrightarrow> same_pass v w \<and> vw_policy w = vw_policy v"
  "admit_slo providers v = Inr w \<Longrightarrow> same_pass v w \<and> vw_policy w = vw_policy v"
  by (auto simp: admit_request_def admit_policy_def admit_budget_def admit_slo_def route_refusal_def
      and_then_Inr same_pass_def Let_def split: if_splits)

lemma admit_fields:
  assumes "admit providers s now request = Inr v"
  shows "cs_running s \<and> \<not> cs_shutting_down s \<and> vw_request v = request \<and> vw_now v = now \<and>
    vw_limits v = cs_limits s \<and> vw_epoch v = cs_router_epoch s \<and>
    vw_coordinator_epoch v = cs_coordinator_epoch s \<and>
    RouteRequest_validate request (cs_limits s) = [] \<and> valid_id (ps_generation (vw_policy v))"
proof -
  obtain v1 v2 v3 v4 where
    v: "capture_view s now request = Inr v1" "admit_request v1 = Inr v2"
       "admit_policy providers v2 = Inr v3" "admit_budget providers v3 = Inr v4"
       "admit_slo providers v4 = Inr v"
    using assms unfolding admit_def and_then_Inr by blast
  show ?thesis
    using capture_view_fields [OF v(1)] admission_same_pass(1) [OF v(2)] admission_same_pass(2) [OF v(3)]
      admission_same_pass(3) [OF v(4)] admission_same_pass(4) [OF v(5)]
    by (simp add: same_pass_def)
qed

text \<open>The ranking of a pass, before the numbering.\<close>

definition pass_candidates :: "ProviderSet \<Rightarrow> PassView \<Rightarrow> CanonicalState \<Rightarrow> RouteCandidate list" where
  "pass_candidates providers v s =
     canonical_candidates (discover providers s (vw_request v) (vw_context v))"

definition pass_ranked :: "ProviderSet \<Rightarrow> PassView \<Rightarrow> CanonicalState \<Rightarrow> RankedCandidate list" where
  "pass_ranked providers v s = rights (map (assess_candidate providers v) (pass_candidates providers v s))"

definition pass_ranking :: "ProviderSet \<Rightarrow> PassView \<Rightarrow> CanonicalState \<Rightarrow> RankedCandidate list" where
  "pass_ranking providers v s =
     number_from 1 (stable_sort_by candidate_ranks_before (pass_ranked providers v s))"

lemma number_from_Nil [simp]: "number_from i cs = [] \<longleftrightarrow> cs = []"
  by (cases cs) simp_all

lemma pass_ranking_Nil: "pass_ranking providers v s = [] \<longleftrightarrow> pass_ranked providers v s = []"
  by (simp add: pass_ranking_def)

lemma draft_fields [simp]:
  "df_view (draft_route providers v s cs e) = v"
  "df_winner (draft_route providers v s cs e) = hd (xp_ranking e)"
  "df_permitted (draft_route providers v s cs e) = permitted_fallbacks v"
  "xp_ranking (df_explanation (draft_route providers v s cs e)) = xp_ranking e"
  "xp_winner (df_explanation (draft_route providers v s cs e)) = rk_key (hd (xp_ranking e))"
  "xp_fallback_order (df_explanation (draft_route providers v s cs e)) =
     fallback_order (permitted_fallbacks v) (xp_ranking e)"
  "xp_authority (df_explanation (draft_route providers v s cs e)) =
     fst (bind_authority providers v s cs (rk_key (hd (xp_ranking e))))"
  by (simp_all add: draft_route_def Let_def split: prod.split)

lemma route_pass_Drafted:
  assumes "route_pass providers now request s1 s2 s3 = Drafted d"
  shows "admit providers s1 now request = Inr (df_view d) \<and>
    pass_ranked providers (df_view d) s2 \<noteq> [] \<and>
    length (discover providers s2 request (vw_context (df_view d)))
      \<le> unat (max_candidates_per_request (cs_limits s1)) \<and>
    length (pass_ranked providers (df_view d) s2) \<le> unat (max_ranked_candidates (cs_limits s1)) \<and>
    xp_ranking (df_explanation d) = pass_ranking providers (df_view d) s2 \<and>
    df_winner d = hd (pass_ranking providers (df_view d) s2) \<and>
    df_permitted d = permitted_fallbacks (df_view d) \<and>
    xp_winner (df_explanation d) = rk_key (df_winner d) \<and>
    xp_fallback_order (df_explanation d) =
      fallback_order (df_permitted d) (pass_ranking providers (df_view d) s2) \<and>
    xp_authority (df_explanation d) =
      fst (bind_authority providers (df_view d) s3 (pass_candidates providers (df_view d) s2)
        (rk_key (df_winner d)))"
proof -
  obtain v where v: "admit providers s1 now request = Inr v"
    using assms by (cases "admit providers s1 now request") (simp_all add: route_pass_def)
  note f = admit_fields [OF v]
  show ?thesis
    using assms f
    by (auto simp: route_pass_def v Let_def pass_ranked_def pass_ranking_def pass_candidates_def
        ranked_explanation_def split: if_splits)
qed

section \<open>Candidates and their assessment\<close>

lemma assess_Inr:
  assumes "assess_candidate providers v c = Inr r"
  shows "rk_key r = rc_key c \<and>
    eligible (candidate_verdict v (with_capability_counts (vw_request v) (vw_now v) c)
      (resolve_candidate providers (vw_request v) (vw_context v) (vw_snapshot v) c))"
  using assms
  by (auto simp: assess_candidate_def Let_def with_capability_counts_def split: if_splits prod.splits)

lemma pass_ranked_keys_distinct: "distinct (map rk_key (pass_ranked providers v s))"
proof -
  have asc: "strictly_ascending (map rc_key (pass_candidates providers v s))"
    unfolding pass_candidates_def canonical_candidates_def by (rule sort_unique_by_ascending)
  have "map rk_key (rights (map (assess_candidate providers v) cs)) =
      map rc_key (filter (\<lambda>c. \<exists>r. assess_candidate providers v c = Inr r) cs)" for cs
    by (induction cs) (auto simp: rights_def assess_Inr split: sum.splits)
  then show ?thesis
    using strictly_ascending_distinct [OF asc] by (simp add: pass_ranked_def distinct_map_filter)
qed

lemma ranks_before_rank [simp]:
  "candidate_ranks_before (a\<lparr>rk_rank := i\<rparr>) b = candidate_ranks_before a b"
  "candidate_ranks_before a (b\<lparr>rk_rank := i\<rparr>) = candidate_ranks_before a b"
  unfolding ranks_before_tuple by (simp_all add: rank_tuple_def)

lemma pass_ranking_hd:
  assumes "pass_ranked providers v s \<noteq> []"
  shows "\<exists>r \<in> set (pass_ranked providers v s).
    hd (pass_ranking providers v s) = r\<lparr>rk_rank := 1\<rparr> \<and>
    (\<forall>r' \<in> set (pass_ranked providers v s). \<not> candidate_ranks_before r' r)"
proof -
  let ?sorted = "stable_sort_by candidate_ranks_before (pass_ranked providers v s)"
  obtain r rs where r: "?sorted = r # rs" using assms by (metis list.exhaust stable_sort_by_eq_Nil)
  then have "r \<in> set (pass_ranked providers v s)" by (metis list.set_intros(1) set_stable_sort_by)
  moreover have "\<not> candidate_ranks_before r' r" if "r' \<in> set (pass_ranked providers v s)" for r'
    using ranking.hd_best [OF assms that] by (simp add: r)
  ultimately show ?thesis by (auto simp: pass_ranking_def r)
qed

lemma sort_unique_by_permutation:
  assumes "mset xs = mset ys" and "inj_on f (set xs)"
  shows "sort_unique_by f xs = sort_unique_by f ys"
proof -
  have "sort_key f xs = sort_key f ys"
    by (rule sort_key_inj_key_eq) (use assms in simp_all)
  then show ?thesis by (simp add: sort_unique_by_def)
qed

section \<open>Fallbacks\<close>

lemma insert_by_partition:
  "insert_by (\<lambda>a b. \<not> P a \<and> P b) x (filter (\<lambda>y. \<not> P y) xs @ filter P xs) =
   filter (\<lambda>y. \<not> P y) (x # xs) @ filter P (x # xs)"
proof -
  have skip: "P x \<Longrightarrow> \<forall>y \<in> set ns. \<not> P y \<Longrightarrow>
      insert_by (\<lambda>a b. \<not> P a \<and> P b) x (ns @ ps) = ns @ insert_by (\<lambda>a b. \<not> P a \<and> P b) x ps" for ns ps
    by (induction ns) auto
  have front: "P x \<or> (\<forall>y \<in> set ps. \<not> P y) \<or> \<not> P x \<Longrightarrow> (\<forall>y \<in> set ps. \<not> (\<not> P y \<and> P x)) \<Longrightarrow>
      insert_by (\<lambda>a b. \<not> P a \<and> P b) x ps = x # ps" for ps
    by (cases ps) auto
  show ?thesis by (cases "P x") (simp_all add: skip front)
qed

lemma stable_partition:
  "stable_sort_by (\<lambda>a b. \<not> P a \<and> P b) xs = filter (\<lambda>y. \<not> P y) xs @ filter P xs"
proof (induction xs)
  case (Cons x xs)
  show ?case unfolding stable_sort_by_Cons Cons.IH by (rule insert_by_partition)
qed simp

lemma fallback_order_eq:
  "fallback_order n (w # rest) =
     take (unat n) (filter (\<lambda>k. ck_backend_id k \<noteq> ck_backend_id (rk_key w)) (map rk_key rest) @
                    filter (\<lambda>k. ck_backend_id k = ck_backend_id (rk_key w)) (map rk_key rest))"
  by (cases "n = 0") (simp_all add: fallback_order_def stable_partition take_map filter_map comp_def
      word_neq_0_conv)

section \<open>A sample pass\<close>

text \<open>The sample request, routed over the sample catalog with no provider configured.\<close>

definition sample_normalized :: RouteRequest where
  "sample_normalized = sample_request\<lparr>rq_created_at := 50\<rparr>"

definition sample_view :: PassView where
  "sample_view =
     \<lparr>vw_request = sample_normalized, vw_now = 50, vw_limits = default_resource_limits,
      vw_context = make_context sample_state 4 0 50, vw_policy = sample_policy,
      vw_policy_code = ACCEPTED, vw_budget = BudgetSnapshot_default, vw_slo = SloEvidence_default,
      vw_epoch = 1, vw_coordinator_epoch = 1, vw_router_id = 0, vw_continuity = 0,
      vw_has_continuity = False, vw_weights = RankingWeights_default,
      vw_scales = RankingScales_default, vw_snapshot = EvidenceSnapshot_capture sample_state\<rparr>"

definition sample_found :: RouteCandidate where
  "sample_found = sample_candidate\<lparr>rc_discovery_source := ''catalog''\<rparr>"

lemma sample_normalize: "normalize_request 50 sample_request 100 = (sample_normalized, 100)"
  by (simp add: normalize_request_def sample_normalized_def sample_request_def valid_id_def
      RouteRequirements_canonicalize_def RouteRequirements_default_def sort_ids_def
      sort_unique_by_def)

lemma sample_valid: "RouteRequest_validate sample_normalized default_resource_limits = []"
  by (simp add: RouteRequest_validate_def sample_normalized_def sample_request_def valid_id_def
      RouteRequirements_default_def RouteRequirements_validate_def default_resource_limits_def
      validate_sizes_def validate_shape_def check_id_list_def RetryReroutePolicy_default_def exceeds_def
      modality_empty_def is_satisfying_def)

lemma sample_policy_allows: "evaluate_request sample_policy sample_normalized 50 = PolicyVerdict_default"
  by (simp add: evaluate_request_def request_policy_checks_def sample_policy_def sample_normalized_def
      sample_request_def valid_id_def PolicySnapshot_current_def PolicySnapshot_default_def
      expired_at_def)

lemma sample_verdict: "policy_allowed PolicyVerdict_default" "pv_code PolicyVerdict_default = ACCEPTED"
  by (simp_all add: policy_allowed_def PolicyVerdict_default_def)

lemma sample_policy_generation: "valid_id (ps_generation sample_policy)"
  by (simp add: sample_policy_def valid_id_def)

lemma sample_policy_fixed: "PolicySnapshot_canonicalize sample_policy = sample_policy"
  by (simp add: PolicySnapshot_canonicalize_def sample_policy_def PolicySnapshot_default_def
      sort_ids_def)

lemma sample_admitted: "admit ProviderSet_default sample_state 50 sample_normalized = Inr sample_view"
proof -
  have "capture_view sample_state 50 sample_normalized = Inr sample_view"
    by (simp add: capture_view_def sample_view_def sample_state_def sample_state_with_def
        CanonicalState_default_def om_empty_def Let_def sample_request_def sample_normalized_def)
  moreover have "admit_request sample_view = Inr sample_view"
    using sample_valid
    by (simp add: admit_request_def sample_view_def sample_normalized_def sample_request_def
        RouteRequest_expired_def expired_at_def)
  moreover have "admit_policy ProviderSet_default sample_view = Inr sample_view"
    using sample_policy_allows sample_policy_fixed
    by (simp add: admit_policy_def and_then_def ProviderSet_default_def sample_view_def sample_verdict
        sample_policy_generation)
  moreover have "admit_budget ProviderSet_default sample_view = Inr sample_view"
    by (simp add: admit_budget_def sample_view_def sample_normalized_def sample_request_def valid_id_def)
  moreover have "admit_slo ProviderSet_default sample_view = Inr sample_view"
    by (simp add: admit_slo_def sample_view_def sample_normalized_def sample_request_def
        RouteRequirements_default_def)
  ultimately show ?thesis by (simp add: admit_def and_then_def)
qed

lemma sample_discovered:
  "pass_candidates ProviderSet_default sample_view sample_state = [sample_found]"
  by (simp add: pass_candidates_def canonical_candidates_def discover_def ProviderSet_default_def
      sample_state_def sample_state_with_def sample_found_def build_candidate_from_catalog_def
      List.map_filter_def find_binding_def find_by_key_def lower_bound_def lower_bound_loop.simps
      sample_defs sort_unique_by_def Let_def)

definition sample_resolved :: CandidateEvidence where
  "sample_resolved =
     resolve_candidate ProviderSet_default sample_normalized (make_context sample_state 4 0 50)
       (EvidenceSnapshot_capture sample_state) sample_found"

definition sample_counted :: RouteCandidate where
  "sample_counted = with_capability_counts sample_normalized 50 sample_found"

lemma sample_counted_fields:
  "rc_key sample_counted = rc_key sample_candidate" "rc_model sample_counted = sample_model"
  "rc_backend sample_counted = sample_backend" "rc_endpoint sample_counted = sample_endpoint"
  "rc_context_limit_tokens sample_counted = 8192" "rc_quality_class sample_counted = 5"
  by (simp_all add: sample_counted_def with_capability_counts_def Let_def sample_found_def
      sample_candidate_def)

lemma sample_found_eligible:
  "hard_eligible sample_normalized sample_counted sample_policy (Some BudgetSnapshot_default) sample_resolved 50"
proof -
  have "identity_current sample_counted 50"
    using sample_identity by (simp add: identity_current_def sample_counted_fields sample_candidate_def)
  moreover have "live_state_proven (rq_requirements sample_normalized) sample_counted sample_resolved 50"
    by (simp add: live_state_proven_def proven_def sample_counted_fields sample_defs sample_normalized_def
        RouteRequirements_default_def valid_id_def BackendEvidence_expired_def expired_at_def)
  moreover have "capability_proven sample_normalized sample_counted sample_resolved 50"
    by (simp add: capability_proven_def sample_counted_fields sample_defs RouteRequirements_default_def
        modality_covers_def sample_normalized_def)
  moreover have "placement_admitted (rq_requirements sample_normalized) sample_counted"
    by (simp add: placement_admitted_def sample_counted_fields sample_defs RouteRequirements_default_def
        filter_admits_def sample_normalized_def)
  moreover have "budget_admits (Some BudgetSnapshot_default) sample_normalized 50"
    by (simp add: budget_admits_def sample_normalized_def sample_request_def valid_id_def)
  moreover have "cv_compatibility sample_resolved = CompatibilityEvidence_default"
    by (simp add: sample_resolved_def resolve_candidate_def Let_def split_beta resolve_compatibility_def
        ProviderSet_default_def EvidenceSnapshot_capture_def sample_state_def sample_state_with_def
        CanonicalState_default_def om_empty_def)
  then have "economics_admit sample_normalized sample_counted sample_resolved 50"
    by (simp add: economics_admit_def sample_counted_fields sample_defs RouteRequirements_default_def
        CompatibilityEvidence_default_def sample_normalized_def)
  moreover have "rc_backend sample_candidate = sample_backend" by (simp add: sample_candidate_def)
  then have "policy_cost sample_counted = policy_cost sample_candidate"
    unfolding policy_cost_def sample_counted_fields by (simp only:)
  ultimately show ?thesis
    unfolding hard_eligible_def evaluate_candidate_allowed_iff
      candidate_checks_admit [OF sample_policy_canonical]
    using sample_policy_admits
    by (simp add: policy_identity_admits_def policy_placement_admits_def policy_evidence_admits_def
        sample_counted_fields sample_candidate_def)
qed

definition sample_choice :: RankedCandidate where
  "sample_choice =
     (let (factors, score) = build_factors sample_counted (ranking_context sample_view sample_counted sample_resolved)
      in \<lparr>rk_key = CandidateKey 3 1 1 7 1 1 9 1, rk_score = score, rk_factors = factors, rk_rank = 0\<rparr>)"

lemma sample_assessed: "assess_candidate ProviderSet_default sample_view sample_found = Inr sample_choice"
proof -
  have v: "vw_request sample_view = sample_normalized" "vw_now sample_view = 50"
    "vw_policy sample_view = sample_policy" "vw_budget sample_view = BudgetSnapshot_default"
    "vw_context sample_view = make_context sample_state 4 0 50"
    "vw_snapshot sample_view = EvidenceSnapshot_capture sample_state"
    by (simp_all add: sample_view_def)
  have "requirements_canonical (rq_requirements sample_normalized)"
    using sample_requirements_canonical by (simp add: sample_normalized_def)
  then have "eligible (candidate_verdict sample_view sample_counted sample_resolved)"
    using sample_found_eligible
    by (simp add: candidate_verdict_def evaluate_eligible_iff hard_checks_None v)
  then show ?thesis
    by (simp add: assess_candidate_def v sample_resolved_def [symmetric] sample_counted_def [symmetric]
        sample_choice_def sample_counted_fields sample_candidate_def Let_def split: prod.split)
qed

lemma sample_pass_ranked: "pass_ranked ProviderSet_default sample_view sample_state = [sample_choice]"
  by (simp add: pass_ranked_def sample_discovered sample_assessed rights_def)

definition sample_draft :: RouteDraft where
  "sample_draft = draft_route ProviderSet_default sample_view sample_state [sample_found]
     (ranked_explanation sample_view [sample_choice] [])"

lemma sample_drafted:
  "route_pass ProviderSet_default 50 sample_normalized sample_state sample_state sample_state =
     Drafted sample_draft"
proof -
  have "length (discover ProviderSet_default sample_state sample_normalized (vw_context sample_view)) = 1"
    by (simp add: discover_def ProviderSet_default_def sample_state_def sample_state_with_def
        build_candidate_from_catalog_def List.map_filter_def find_binding_def find_by_key_def
        lower_bound_def lower_bound_loop.simps sample_defs Let_def)
  moreover have "vw_request sample_view = sample_normalized" "vw_limits sample_view = default_resource_limits"
    by (simp_all add: sample_view_def)
  ultimately show ?thesis
    using sample_discovered
    by (simp add: route_pass_def sample_admitted pass_candidates_def Let_def sample_assessed rights_def
        lefts_def default_resource_limits_def sample_draft_def)
qed

section \<open>Properties\<close>



text \<open>
  (C12) The selection does not depend on the discovery order: two candidate providers that answer
  every question with the same candidates, in whatever order, give the same pass, as long as
  different candidates have different keys.
\<close>

theorem route_discovery_order_independent:
  assumes "\<And>rq context. mset (usable [] (f rq context)) = mset (usable [] (g rq context))"
    and "\<And>rq context. inj_on rc_key (set (usable [] (f rq context)))"
  shows "route_pass (providers\<lparr>pr_candidates := Some f\<rparr>) now request s1 s2 s3 =
    route_pass (providers\<lparr>pr_candidates := Some g\<rparr>) now request s1 s2 s3"
proof -
  let ?f = "providers\<lparr>pr_candidates := Some f\<rparr>" and ?g = "providers\<lparr>pr_candidates := Some g\<rparr>"
  have resolve: "resolve_candidate ?f = resolve_candidate ?g"
    by (intro ext) (simp add: resolve_candidate_def resolve_cost_def resolve_compatibility_def
        resolve_trust_def resolve_slo_def resolve_slo_verdict_def resolve_reservation_def)
  have "admit_policy ?f = admit_policy ?g" "admit_budget ?f = admit_budget ?g" "admit_slo ?f = admit_slo ?g"
    by (simp_all add: fun_eq_iff admit_policy_def admit_budget_def admit_slo_def)
  then have admit: "admit ?f = admit ?g" by (intro ext) (simp only: admit_def)
  have assess: "assess_candidate ?f = assess_candidate ?g"
    by (intro ext) (simp add: assess_candidate_def resolve)
  have draft: "draft_route ?f = draft_route ?g"
    by (intro ext) (simp only: draft_route_def bind_authority_def resolve)
  have found: "discover ?f s2 rq cx = usable [] (f rq cx)"
    "discover ?g s2 rq cx = usable [] (g rq cx)" for rq cx
    by (simp_all add: discover_def)
  have canonical: "canonical_candidates (usable [] (f rq cx)) =
      canonical_candidates (usable [] (g rq cx))" for rq cx
    unfolding canonical_candidates_def by (rule sort_unique_by_permutation [OF assms])
  have size: "length (usable [] (f rq cx)) = length (usable [] (g rq cx))" for rq cx
    using assms(1) by (metis size_mset)
  show ?thesis
    unfolding route_pass_def Let_def admit assess draft found canonical size by (rule refl)
qed

theorem route_discovery_order_independent_witness:
  "let other = sample_found\<lparr>rc_key := CandidateKey 3 1 1 8 1 1 9 1\<rparr> in
   route_pass (ProviderSet_default\<lparr>pr_candidates := Some (\<lambda>rq context. er_accepted [other, sample_found])\<rparr>)
     50 sample_normalized sample_state sample_state sample_state =
   route_pass (ProviderSet_default\<lparr>pr_candidates := Some (\<lambda>rq context. er_accepted [sample_found, other])\<rparr>)
     50 sample_normalized sample_state sample_state sample_state"
  unfolding Let_def
  by (rule route_discovery_order_independent)
     (simp_all add: usable_def er_accepted_def er_ok_def sample_found_def sample_candidate_def)

text \<open>
  (C18) The ordered fallback set of a drafted route is the ranking without its head, candidates of
  other backends before those of the winner's backend and each group in ranking order, cut at
  the permitted number.  It never names the winner, names no candidate twice and stays within
  the request's, the policy's and the configured bounds; a policy that forbids fallback gets none.
\<close>

theorem route_fallbacks_ordered:
  assumes "route_pass providers now request s1 s2 s3 = Drafted d"
  shows "let keys = map rk_key (tl (pass_ranking providers (df_view d) s2));
      winner = rk_key (df_winner d);
      fallbacks = xp_fallback_order (df_explanation d);
      retry = rr_retry_policy (rq_requirements request) in
    fallbacks = take (unat (df_permitted d))
      (filter (\<lambda>k. ck_backend_id k \<noteq> ck_backend_id winner) keys @
       filter (\<lambda>k. ck_backend_id k = ck_backend_id winner) keys) \<and>
    winner \<notin> set fallbacks \<and> distinct fallbacks \<and>
    length fallbacks \<le> unat (rp_max_fallbacks retry) \<and>
    length fallbacks \<le> unat (max_fallback_candidates (cs_limits s1)) \<and>
    length fallbacks \<le> unat (ps_max_fallback_depth (vw_policy (df_view d))) \<and>
    (ps_fallback_policy (vw_policy (df_view d)) = FORBIDDEN \<longrightarrow> fallbacks = [])"
proof -
  note pass = route_pass_Drafted [OF assms]
  let ?ranking = "pass_ranking providers (df_view d) s2"
  have v: "vw_request (df_view d) = request" "vw_limits (df_view d) = cs_limits s1"
    using admit_fields pass by blast+
  have dist: "distinct (map rk_key ?ranking)"
    unfolding pass_ranking_def number_from_keys distinct_map_mset [OF mset_stable_sort_by]
    by (rule pass_ranked_keys_distinct)
  have "?ranking \<noteq> []" using pass by (simp add: pass_ranking_Nil)
  then obtain w rest where w: "?ranking = w # rest" by (meson list.exhaust)
  have fallbacks: "xp_fallback_order (df_explanation d) = take (unat (df_permitted d))
      (filter (\<lambda>k. ck_backend_id k \<noteq> ck_backend_id (rk_key w)) (map rk_key rest) @
       filter (\<lambda>k. ck_backend_id k = ck_backend_id (rk_key w)) (map rk_key rest))"
    using pass by (simp only: w fallback_order_eq)
  have bound: "length (xp_fallback_order (df_explanation d)) \<le> unat (df_permitted d)"
    unfolding fallbacks by simp
  have mem: "set (xp_fallback_order (df_explanation d)) \<subseteq> set (map rk_key rest)"
    unfolding fallbacks by (rule order_trans [OF set_take_subset]) auto
  have "distinct (xp_fallback_order (df_explanation d))"
    unfolding fallbacks by (rule distinct_take) (use dist in \<open>auto simp: w simp flip: filter_map\<close>)
  moreover have "rk_key w \<notin> set (xp_fallback_order (df_explanation d))" using mem dist by (auto simp: w)
  moreover have winner: "df_winner d = w" using pass by (simp add: w)
  moreover have permitted: "unat (df_permitted d) \<le> unat (rp_max_fallbacks (rr_retry_policy (rq_requirements request)))"
      "unat (df_permitted d) \<le> unat (max_fallback_candidates (cs_limits s1))"
      "unat (df_permitted d) \<le> unat (ps_max_fallback_depth (vw_policy (df_view d)))"
      "ps_fallback_policy (vw_policy (df_view d)) = FORBIDDEN \<Longrightarrow> df_permitted d = 0"
    using pass by (simp_all add: permitted_fallbacks_def v min.coboundedI1 flip: word_le_nat_alt)
  moreover have "ps_fallback_policy (vw_policy (df_view d)) = FORBIDDEN \<longrightarrow>
      xp_fallback_order (df_explanation d) = []"
    using bound permitted(4) by auto
  ultimately show ?thesis
    using fallbacks order_trans [OF bound permitted(1)] order_trans [OF bound permitted(2)]
      order_trans [OF bound permitted(3)]
    unfolding Let_def w winner list.sel by blast
qed

theorem route_fallbacks_ordered_witness:
  "route_pass ProviderSet_default 50 sample_normalized sample_state sample_state sample_state =
     Drafted sample_draft \<and>
   rk_key (df_winner sample_draft) \<notin> set (xp_fallback_order (df_explanation sample_draft))"
  using route_fallbacks_ordered [OF sample_drafted] sample_drafted unfolding Let_def by blast

end
