(* ===== verification/Route_Commit.thy ===== *)
theory Route_Commit
  imports Route_Selection
begin

text \<open>
  What the commit of a drafted route does to the canonical state, whatever happened to the state
  between the stages of the pass: the retained history is the window of the latest decisions,
  the state invariant is kept, a route that is answered as routed is dispatchable at that
  moment, and one that is not is retained stale.
\<close>

section \<open>The history invariant\<close>

definition records_ok :: "CanonicalState \<Rightarrow> bool" where
  "records_ok s \<longleftrightarrow>
     (\<forall>i r. om_find (cs_routes s) i = Some r \<longrightarrow>
        rd_decision_id (rec_decision r) = i \<and> ra_decision_id (rd_authority (rec_decision r)) = i \<and>
        pl_decision_id (rec_plan r) = i \<and> pl_fallbacks (rec_plan r) = rd_fallbacks (rec_decision r))"

text \<open>\<open>ids\<close> is the highest identity the allocator has issued.\<close>

definition history_ok :: "u64 \<Rightarrow> CanonicalState \<Rightarrow> bool" where
  "history_ok ids s \<longleftrightarrow>
     distinct (cs_route_order s) \<and> set (cs_route_order s) = fst ` set (cs_routes s) \<and>
     (\<forall>i \<in> set (cs_route_order s). i \<le> ids) \<and>
     length (cs_route_order s) \<le> unat (max_route_history (cs_limits s)) \<and> records_ok s"

lemma om_ok_distinct: "om_ok m \<Longrightarrow> distinct (map fst m)"
  by (simp add: om_ok_def strictly_ascending_distinct)

lemma om_find_dom: "om_find m k \<noteq> None \<longleftrightarrow> k \<in> fst ` set m" if "om_ok m"
  using that by (metis map_of_eq_None_iff om_find_map_of)

lemma history_length:
  assumes "history_ok ids s" and "om_ok (cs_routes s)"
  shows "length (cs_routes s) = length (cs_route_order s)"
proof -
  have "length (cs_route_order s) = card (fst ` set (cs_routes s))"
    using assms(1) by (metis distinct_card history_ok_def)
  also have "\<dots> = length (cs_routes s)"
    using distinct_card [OF om_ok_distinct [OF assms(2)]] by simp
  finally show ?thesis by simp
qed

section \<open>Eviction\<close>

lemma set_drop_distinct:
  assumes "distinct xs"
  shows "set (drop n xs) = set xs - set (take n xs)"
proof -
  have "set xs = set (take n xs) \<union> set (drop n xs)"
    using set_append [of "take n xs" "drop n xs"] by simp
  moreover have "set (take n xs) \<inter> set (drop n xs) = {}"
    by (rule set_take_disj_set_drop_if_distinct [OF assms order_refl])
  ultimately show ?thesis by blast
qed

lemma evict_history_drop:
  assumes "limit > 0" and "om_ok routes"
  shows "\<exists>routes'. evict_history limit order routes = (drop (Suc (length order) - limit) order, routes') \<and>
    om_ok routes' \<and>
    (\<forall>i. om_find routes' i =
       (if i \<in> set (take (Suc (length order) - limit) order) then None else om_find routes i))"
  using assms
proof (induction limit order routes rule: evict_history.induct)
  case (2 limit victim order routes)
  show ?case
  proof (cases "length (victim # order) \<ge> limit")
    case True
    then have d: "Suc (length (victim # order)) - limit = Suc (Suc (length order) - limit)"
      using "2.prems"(1) by simp
    have "\<exists>routes'. evict_history limit order (om_erase victim routes) =
        (drop (Suc (length order) - limit) order, routes') \<and> om_ok routes' \<and>
        (\<forall>i. om_find routes' i = (if i \<in> set (take (Suc (length order) - limit) order) then None
               else om_find (om_erase victim routes) i))"
      by (rule "2.IH") (use True "2.prems" in \<open>simp_all add: container_simps\<close>)
    then show ?thesis
      using True "2.prems"(2) unfolding d by (auto simp: container_simps)
  qed (use "2.prems" in simp)
qed simp

lemma evict_routes_window:
  assumes "max_route_history (cs_limits s) \<noteq> 0" and "om_ok (cs_routes s)"
  defines "n \<equiv> Suc (length (cs_route_order s)) - unat (max_route_history (cs_limits s))"
  shows "\<exists>routes'. evict_routes s = s\<lparr>cs_route_order := drop n (cs_route_order s), cs_routes := routes'\<rparr> \<and>
    om_ok routes' \<and>
    (\<forall>i. om_find routes' i =
       (if i \<in> set (take n (cs_route_order s)) then None else om_find (cs_routes s) i))"
  using evict_history_drop [of "unat (max_route_history (cs_limits s))" "cs_routes s" "cs_route_order s"] assms
  by (auto simp: evict_routes_def Let_def unat_gt_0)

section \<open>Insertion\<close>

lemma seal_fields [simp]:
  "rd_decision_id (seal_decision s i d) = i"
  "ra_decision_id (rd_authority (seal_decision s i d)) = i"
  "rd_fallbacks (seal_decision s i d) = rd_fallbacks d"
  "rd_request_id (seal_decision s i d) = rd_request_id d"
  "rd_authority (seal_decision s i d) =
     (rd_authority d)\<lparr>ra_decision_id := i, ra_decision_generation := 1\<rparr>"
  "rd_status (seal_decision s i d) =
     (if AuthorityComparison_current (commit_comparison s (rd_authority (seal_decision s i d)))
      then rd_status d else RouteStatus.STALE)"
  by (simp_all add: seal_decision_def Let_def)

lemma new_decision_fields [simp]:
  "rd_status (new_decision now request explanation) = RouteStatus.CURRENT"
  "rd_authority (new_decision now request explanation) = xp_authority explanation"
  "rd_fallbacks (new_decision now request explanation) = xp_fallback_order explanation"
  "rd_request_id (new_decision now request explanation) = rq_request_id request"
  by (simp_all add: new_decision_def)

lemma make_plan_fields [simp]:
  "pl_decision_id (make_plan now request policy n authority primary plan_id d) = rd_decision_id d"
  "pl_fallbacks (make_plan now request policy n authority primary plan_id d) = rd_fallbacks d"
  "pl_primary (make_plan now request policy n authority primary plan_id d) = primary"
  by (simp_all add: make_plan_def)

text \<open>The record that a fresh insertion stores: the sealed decision, judged against the state.\<close>

definition retained :: "unix_millis \<Rightarrow> CanonicalState \<Rightarrow> RouteRecord \<Rightarrow> RouteRecord" where
  "retained now s r = stale_decision_if_not_dispatchable s now r"

lemma stale_decision_routes_frame [simp]:
  "stale_decision_if_not_dispatchable (s\<lparr>cs_routes := R\<rparr>) now r = stale_decision_if_not_dispatchable s now r"
  by (simp add: stale_decision_if_not_dispatchable_def)

lemma dispatchable_order_frame [simp]:
  "is_authority_dispatchable (s\<lparr>cs_route_order := q\<rparr>) a now = is_authority_dispatchable s a now"
  unfolding dispatchable_iff is_fenced_def authority_matches_def by simp

lemma stale_decision_order_frame [simp]:
  "stale_decision_if_not_dispatchable (s\<lparr>cs_route_order := q\<rparr>) now r = stale_decision_if_not_dispatchable s now r"
  by (simp add: stale_decision_if_not_dispatchable_def)

lemma stale_decision_fields [simp]:
  "rd_decision_id (rec_decision (stale_decision_if_not_dispatchable s now r)) = rd_decision_id (rec_decision r)"
  "rd_fallbacks (rec_decision (stale_decision_if_not_dispatchable s now r)) = rd_fallbacks (rec_decision r)"
  "rec_plan (stale_decision_if_not_dispatchable s now r) = rec_plan r"
  "rec_tenant (stale_decision_if_not_dispatchable s now r) = rec_tenant r"
  "rec_name_space (stale_decision_if_not_dispatchable s now r) = rec_name_space r"
  by (simp_all add: stale_decision_if_not_dispatchable_def mark_stale_def)

lemma insert_record_fresh:
  assumes "om_ok (cs_routes s)" and "om_find (cs_routes s) i = None"
  shows "insert_record now i r s =
    (rd_status (rec_decision r) = RouteStatus.CURRENT \<and>
     rd_status (rec_decision (retained now s r)) = RouteStatus.CURRENT,
     s\<lparr>cs_routes := om_put i (retained now s r) (cs_routes s), cs_route_order := cs_route_order s @ [i]\<rparr>)"
proof -
  have "om_put i v (om_put i r (cs_routes s)) = om_put i v (cs_routes s)" for v
    using om.entries_put_put [OF assms(1)] by simp
  then show ?thesis
    using assms by (simp add: insert_record_def om_emplace_def Let_def container_simps retained_def)
qed

lemma retained_current:
  "rd_status (rec_decision (retained now s r)) = RouteStatus.CURRENT \<longleftrightarrow>
     rd_status (rec_decision r) = RouteStatus.CURRENT \<and>
     is_authority_dispatchable s (rd_authority (rec_decision r)) now"
  by (simp add: retained_def stale_decision_if_not_dispatchable_def live_status_def mark_stale_def)

lemma retained_stale:
  "rd_status (rec_decision r) \<in> {RouteStatus.CURRENT, RouteStatus.STALE} \<Longrightarrow>
   rd_status (rec_decision (retained now s r)) \<in> {RouteStatus.CURRENT, RouteStatus.STALE}"
  by (auto simp: retained_def stale_decision_if_not_dispatchable_def mark_stale_def)

lemma allocate_two:
  assumes "unat ids + 2 < 2 ^ 64"
  shows "IdAllocator_next ids = (ids + 1, ids + 1)" "IdAllocator_next (ids + 1) = (ids + 2, ids + 2)"
    "ids < ids + 1" "ids + 1 \<le> ids + 2"
proof -
  have u: "unat (ids + 1) = unat ids + 1" "unat (ids + 2) = unat ids + 2"
    using assms by (simp_all add: unat_word_ariths)
  moreover have "unat kCeiling = 2 ^ 64 - 1" by simp
  ultimately show "IdAllocator_next ids = (ids + 1, ids + 1)"
    "IdAllocator_next (ids + 1) = (ids + 2, ids + 2)" "ids < ids + 1" "ids + 1 \<le> ids + 2"
    using assms by (auto simp: IdAllocator_next_def word_le_nat_alt word_less_nat_alt Let_def)
qed

text \<open>The record that \<open>insert_decision\<close> builds for a decision identity and its plan identity.\<close>

definition built_record ::
  "unix_millis \<Rightarrow> RouteRequest \<Rightarrow> PolicySnapshot \<Rightarrow> u32 \<Rightarrow> CandidateKey \<Rightarrow> RouteExplanation \<Rightarrow> u64 \<Rightarrow>
   CanonicalState \<Rightarrow> RouteRecord" where
  "built_record now request policy permitted primary explanation ids s =
     (let decision = seal_decision s (ids + 1) (new_decision now request explanation) in
      \<lparr>rec_decision = decision,
       rec_plan = make_plan now request policy permitted (xp_authority explanation) primary (ids + 2) decision,
       rec_tenant = rq_tenant request, rec_name_space = rq_name_space request\<rparr>)"

definition add_record :: "entity_id \<Rightarrow> RouteRecord \<Rightarrow> CanonicalState \<Rightarrow> CanonicalState" where
  "add_record i r s =
     s\<lparr>cs_routes := om_put i r (cs_routes s), cs_route_order := cs_route_order s @ [i]\<rparr>"

lemma insert_decision_fresh:
  assumes "om_ok (cs_routes s)" and "\<forall>i \<in> fst ` set (cs_routes s). i \<le> ids" and "unat ids + 2 < 2 ^ 64"
    and r: "r = built_record now request policy permitted primary explanation ids s"
  shows "insert_decision now request policy permitted primary explanation ids s =
    (rec_decision r, rd_status (rec_decision (retained now s r)) = RouteStatus.CURRENT, ids + 2,
     add_record (ids + 1) (retained now s r) s)"
proof -
  note ids = allocate_two [OF assms(3)]
  have "om_find (cs_routes s) (ids + 1) = None"
    using om_find_dom [OF assms(1), of "ids + 1"] assms(2) ids(3) by force
  from insert_record_fresh [OF assms(1) this] show ?thesis
    by (simp add: insert_decision_def ids(1,2) r built_record_def Let_def retained_current add_record_def)
qed

section \<open>The invariants under an insertion\<close>

lemma dispatchable_add_record [simp]:
  "is_authority_dispatchable (add_record i r s) a now = is_authority_dispatchable s a now"
  unfolding add_record_def by simp

lemma state_ok_add_record:
  assumes "state_ok s" and "live_record r \<Longrightarrow> is_authority_dispatchable s (rd_authority (rec_decision r)) now"
  shows "state_ok (add_record i r s)"
proof -
  have ok: "om_ok (cs_routes s)" using assms(1) by (simp add: state_ok_def catalog_ok_def maps_ok_def)
  then have "catalog_ok (s\<lparr>cs_routes := om_put i r (cs_routes s)\<rparr>)"
    using assms(1) by (intro catalog_ok_routes) (simp_all add: container_simps state_ok_def)
  then have "catalog_ok (add_record i r s)"
    unfolding add_record_def
    by (simp add: catalog_ok_def maps_ok_def models_ok_def backends_ok_def bounds_ok_def indexes_ok_def
        indexes_for_def)
  moreover have "fences_ok (add_record i r s)"
    using assms ok unfolding state_ok_def fences_ok_def dispatchable_iff
    by (auto simp: add_record_def container_simps is_fenced_def split: if_splits)
  ultimately show ?thesis by (simp add: state_ok_def)
qed

lemma live_dispatchable_add_record:
  assumes "om_ok (cs_routes s)" and "live_decisions_dispatchable now s"
    and "live_record r \<Longrightarrow> is_authority_dispatchable s (rd_authority (rec_decision r)) now"
  shows "live_decisions_dispatchable now (add_record i r s)"
  using assms unfolding live_decisions_dispatchable_def
  by (auto simp: container_simps add_record_def split: if_splits)

lemma retained_live:
  "live_record (retained now s r) \<Longrightarrow>
   is_authority_dispatchable s (rd_authority (rec_decision (retained now s r))) now"
  by (simp add: retained_def)

section \<open>Room for one more decision\<close>

lemma guarded_eviction:
  assumes "history_ok ids s" and "om_ok (cs_routes s)"
  shows "(if length (cs_routes s) \<ge> unat (max_route_history (cs_limits s)) then evict_routes s else s) =
    evict_routes s"
proof (cases "length (cs_routes s) \<ge> unat (max_route_history (cs_limits s))")
  case False
  then have "length (cs_route_order s) < unat (max_route_history (cs_limits s))"
    using history_length [OF assms] by simp
  then have "evict_history (unat (max_route_history (cs_limits s))) (cs_route_order s) (cs_routes s) =
      (cs_route_order s, cs_routes s)"
    by (cases "cs_route_order s") simp_all
  with False show ?thesis by (simp add: evict_routes_def)
qed simp

text \<open>What holds of the state with room made for a decision.\<close>

lemma evicted:
  assumes "state_ok s" and "history_ok ids s" and "max_route_history (cs_limits s) \<noteq> 0"
  shows "state_ok (evict_routes s)" and "history_ok ids (evict_routes s)"
    and "length (cs_route_order (evict_routes s)) < unat (max_route_history (cs_limits s))"
    and "live_decisions_dispatchable now s \<Longrightarrow> live_decisions_dispatchable now (evict_routes s)"
    and "is_authority_dispatchable (evict_routes s) a now = is_authority_dispatchable s a now"
proof -
  let ?n = "Suc (length (cs_route_order s)) - unat (max_route_history (cs_limits s))"
  let ?out = "set (take ?n (cs_route_order s))"
  have ok: "om_ok (cs_routes s)" using assms(1) by (simp add: state_ok_def catalog_ok_def maps_ok_def)
  obtain routes' where
    e: "evict_routes s = s\<lparr>cs_route_order := drop ?n (cs_route_order s), cs_routes := routes'\<rparr>"
    and ok': "om_ok routes'"
    and find': "\<And>i. om_find routes' i = (if i \<in> ?out then None else om_find (cs_routes s) i)"
    using evict_routes_window [OF assms(3) ok] by blast
  have "catalog_ok (s\<lparr>cs_routes := routes'\<rparr>)"
    using catalog_ok_routes [OF ok'] assms(1) by (simp add: state_ok_def)
  then have "catalog_ok (evict_routes s)"
    unfolding e by (simp add: catalog_ok_def maps_ok_def models_ok_def backends_ok_def bounds_ok_def
        indexes_ok_def indexes_for_def)
  moreover have "fences_ok (evict_routes s)"
    using assms(1) unfolding state_ok_def fences_ok_def e
    by (auto simp: find' is_fenced_def split: if_splits)
  ultimately show "state_ok (evict_routes s)" by (simp add: state_ok_def)
  have dist: "distinct (cs_route_order s)" and keys: "set (cs_route_order s) = fst ` set (cs_routes s)"
    using assms(2) by (simp_all add: history_ok_def)
  have "set (drop ?n (cs_route_order s)) = set (cs_route_order s) - ?out"
    by (rule set_drop_distinct [OF dist])
  also have "\<dots> = fst ` set routes'"
  proof (rule set_eqI)
    fix i
    have "i \<in> fst ` set routes' \<longleftrightarrow> i \<notin> ?out \<and> om_find (cs_routes s) i \<noteq> None"
      using om_find_dom [OF ok', of i] find' [of i] by (cases "i \<in> ?out") simp_all
    then show "i \<in> set (cs_route_order s) - ?out \<longleftrightarrow> i \<in> fst ` set routes'"
      using om_find_dom [OF ok, of i] keys by blast
  qed
  finally have "set (drop ?n (cs_route_order s)) = fst ` set routes'" .
  moreover have "records_ok (evict_routes s)"
    using assms(2) unfolding history_ok_def records_ok_def e by (auto simp: find' split: if_splits)
  ultimately show "history_ok ids (evict_routes s)"
    using assms(2) dist unfolding history_ok_def e by (auto dest: in_set_dropD)
  have "unat (max_route_history (cs_limits s)) > 0" using assms(3) by (simp add: unat_gt_0)
  then show "length (cs_route_order (evict_routes s)) < unat (max_route_history (cs_limits s))"
    unfolding e by auto
  show dispatchable: "is_authority_dispatchable (evict_routes s) a now = is_authority_dispatchable s a now"
    for a now unfolding e by simp
  show "live_decisions_dispatchable now s \<Longrightarrow> live_decisions_dispatchable now (evict_routes s)"
    unfolding live_decisions_dispatchable_def dispatchable by (auto simp: e find' split: if_splits)
qed

lemma built_record_ok:
  "rd_decision_id (rec_decision (retained now s (built_record t rq p n k e ids s'))) = ids + 1"
  "ra_decision_id (rd_authority (rec_decision (retained now s (built_record t rq p n k e ids s')))) = ids + 1"
  "pl_decision_id (rec_plan (retained now s (built_record t rq p n k e ids s'))) = ids + 1"
  "pl_fallbacks (rec_plan (retained now s (built_record t rq p n k e ids s'))) =
     rd_fallbacks (rec_decision (retained now s (built_record t rq p n k e ids s')))"
  by (simp_all add: retained_def built_record_def Let_def)

lemma history_ok_add_record:
  assumes "history_ok ids s" and "om_ok (cs_routes s)" and "unat ids + 2 < 2 ^ 64"
    and "length (cs_route_order s) < unat (max_route_history (cs_limits s))"
    and "rd_decision_id (rec_decision r) = ids + 1" "ra_decision_id (rd_authority (rec_decision r)) = ids + 1"
      "pl_decision_id (rec_plan r) = ids + 1" "pl_fallbacks (rec_plan r) = rd_fallbacks (rec_decision r)"
  shows "history_ok (ids + 2) (add_record (ids + 1) r s)"
proof -
  note ids = allocate_two [OF assms(3)]
  have "ids + 1 \<notin> set (cs_route_order s)" using assms(1) ids(3) by (force simp: history_ok_def)
  moreover have "\<forall>i \<in> set (cs_route_order s). i \<le> ids + 2"
    using assms(1) ids(3,4) by (meson history_ok_def less_imp_le order_trans)
  ultimately show ?thesis
    using assms ids(4)
    by (auto simp: history_ok_def records_ok_def add_record_def fst_om_put container_simps split: if_splits)
qed

section \<open>The commit\<close>

lemma count_route_frame [simp]:
  "cs_routes (count_route d s) = cs_routes s" "cs_route_order (count_route d s) = cs_route_order s"
  "cs_limits (count_route d s) = cs_limits s"
  "state_ok (count_route d s) = state_ok s" "history_ok ids (count_route d s) = history_ok ids s"
  "is_authority_dispatchable (count_route d s) a now = is_authority_dispatchable s a now"
  "live_decisions_dispatchable now (count_route d s) = live_decisions_dispatchable now s"
proof -
  show r [simp]: "cs_routes (count_route d s) = cs_routes s"
    "cs_route_order (count_route d s) = cs_route_order s" "cs_limits (count_route d s) = cs_limits s"
    by (simp_all add: count_route_def note_tenant_def)
  show "state_ok (count_route d s) = state_ok s"
    by (simp add: count_route_def note_tenant_def state_ok_def catalog_ok_def maps_ok_def models_ok_def
        backends_ok_def bounds_ok_def indexes_ok_def indexes_for_def fences_ok_def is_fenced_def)
  show "history_ok ids (count_route d s) = history_ok ids s" by (simp add: history_ok_def records_ok_def)
  show dispatchable: "is_authority_dispatchable (count_route d s) a now = is_authority_dispatchable s a now"
    for a now
    unfolding dispatchable_iff is_fenced_def authority_matches_def by (simp add: count_route_def note_tenant_def)
  show "live_decisions_dispatchable now (count_route d s) = live_decisions_dispatchable now s"
    by (simp add: live_decisions_dispatchable_def dispatchable)
qed

text \<open>The record that the commit of a draft retains.\<close>

definition committed_record :: "RouteDraft \<Rightarrow> u64 \<Rightarrow> CanonicalState \<Rightarrow> RouteRecord" where
  "committed_record d ids s =
     built_record (vw_now (df_view d)) (vw_request (df_view d)) (vw_policy (df_view d)) (df_permitted d)
       (rk_key (df_winner d)) (df_explanation d) ids (evict_routes s)"

definition commit_admitted :: "RouteDraft \<Rightarrow> CanonicalState \<Rightarrow> bool" where
  "commit_admitted d s \<longleftrightarrow>
     \<not> cs_shutting_down s \<and> cs_router_epoch s = vw_epoch (df_view d) \<and>
     cs_coordinator_epoch s = vw_coordinator_epoch (df_view d)"

definition commit_ready :: "u64 \<Rightarrow> CanonicalState \<Rightarrow> bool" where
  "commit_ready ids s \<longleftrightarrow>
     state_ok s \<and> history_ok ids s \<and> unat ids + 2 < 2 ^ 64 \<and> max_route_history (cs_limits s) \<noteq> 0"

lemma commit_refused:
  assumes "\<not> commit_admitted d s"
  shows "\<exists>outcome. commit_route d ids s = (outcome, ids, s) \<and> \<not> ro_has_decision outcome \<and>
    ro_code outcome \<in> {SHUTTING_DOWN, REJECT_STALE_ROUTER_EPOCH}"
  using assms by (auto simp: commit_route_def commit_admitted_def Let_def RouteOutcome_make_def)

lemma commit_performed:
  assumes "commit_ready ids s" and "commit_admitted d s"
  shows "commit_route d ids s =
    (let r = committed_record d ids s;
         r' = retained (vw_now (df_view d)) (evict_routes s) r in
     (route_outcome d (rec_decision r) (rd_status (rec_decision r') = RouteStatus.CURRENT), ids + 2,
      count_route d (add_record (ids + 1) r' (evict_routes s))))"
proof -
  have h: "history_ok ids s" "om_ok (cs_routes s)" "unat ids + 2 < 2 ^ 64"
    using assms(1) by (simp_all add: commit_ready_def state_ok_def catalog_ok_def maps_ok_def)
  have e: "om_ok (cs_routes (evict_routes s))"
      "\<forall>i \<in> fst ` set (cs_routes (evict_routes s)). i \<le> ids"
  proof -
    have "state_ok (evict_routes s)" "history_ok ids (evict_routes s)"
      using evicted(1,2) assms(1) unfolding commit_ready_def by blast+
    then show "om_ok (cs_routes (evict_routes s))" "\<forall>i \<in> fst ` set (cs_routes (evict_routes s)). i \<le> ids"
      unfolding state_ok_def catalog_ok_def maps_ok_def history_ok_def by blast+
  qed
  have adm: "\<not> cs_shutting_down s"
      "\<not> (cs_router_epoch s \<noteq> vw_epoch (df_view d) \<or> cs_coordinator_epoch s \<noteq> vw_coordinator_epoch (df_view d))"
    using assms(2) by (simp_all add: commit_admitted_def)
  show ?thesis
    unfolding commit_route_def Let_def if_not_P [OF adm(1)] if_not_P [OF adm(2)]
      guarded_eviction [OF h(1,2)] insert_decision_fresh [OF e h(3) refl] prod.case committed_record_def
    by (rule refl)
qed

text \<open>The state after a performed commit.\<close>

lemma commit_ready_cases:
  assumes "commit_ready ids s"
  obtains (refused) outcome where "\<not> commit_admitted d s" "commit_route d ids s = (outcome, ids, s)"
      "\<not> ro_has_decision outcome" "ro_code outcome \<in> {SHUTTING_DOWN, REJECT_STALE_ROUTER_EPOCH}"
  | (committed) r s' where "commit_admitted d s"
      "r = retained (vw_now (df_view d)) (evict_routes s) (committed_record d ids s)"
      "s' = count_route d (add_record (ids + 1) r (evict_routes s))"
      "commit_route d ids s =
         (route_outcome d (rec_decision (committed_record d ids s))
            (rd_status (rec_decision r) = RouteStatus.CURRENT), ids + 2, s')"
      "state_ok s'" "history_ok (ids + 2) s'"
      "live_decisions_dispatchable (vw_now (df_view d)) s \<Longrightarrow>
       live_decisions_dispatchable (vw_now (df_view d)) s'"
proof (cases "commit_admitted d s")
  case False
  then show ?thesis using commit_refused refused by blast
next
  case True
  let ?now = "vw_now (df_view d)" and ?e = "evict_routes s"
  let ?r = "retained ?now ?e (committed_record d ids s)"
  have ready: "state_ok s" "history_ok ids s" "max_route_history (cs_limits s) \<noteq> 0" "unat ids + 2 < 2 ^ 64"
    using assms by (simp_all add: commit_ready_def)
  note e = evicted [OF ready(1-3)]
  have ok: "om_ok (cs_routes ?e)" using e(1) by (simp add: state_ok_def catalog_ok_def maps_ok_def)
  have "cs_limits ?e = cs_limits s" by (simp add: evict_routes_def Let_def split_beta)
  then have room: "length (cs_route_order ?e) < unat (max_route_history (cs_limits ?e))" using e(3) by simp
  have "state_ok (add_record (ids + 1) ?r ?e)" by (rule state_ok_add_record [OF e(1) retained_live])
  moreover have "history_ok (ids + 2) (add_record (ids + 1) ?r ?e)"
    by (rule history_ok_add_record [OF e(2) ok ready(4) room])
       (simp_all only: committed_record_def built_record_ok)
  moreover have "live_decisions_dispatchable ?now (add_record (ids + 1) ?r ?e)"
    if "live_decisions_dispatchable ?now s"
    by (rule live_dispatchable_add_record [OF ok e(4) [OF that] retained_live])
  ultimately show ?thesis
    by (intro committed [OF True refl refl]) (simp_all add: commit_performed [OF assms True] Let_def)
qed

section \<open>A sample commit\<close>

lemma sample_history_ok: "history_ok 100 sample_state"
  by (simp add: history_ok_def records_ok_def sample_state_def sample_state_with_def sample_record_def
      sample_decision_def sample_authority_def sample_plan_def RoutePlan_default_def RouteDecision_default_def
      CanonicalState_default_def default_resource_limits_def)

lemma sample_commit_ready: "commit_ready 100 sample_state"
  using sample_state_ok sample_history_ok
  by (simp add: commit_ready_def sample_state_def sample_state_with_def CanonicalState_default_def
      default_resource_limits_def)

lemma sample_commit_admitted: "commit_admitted sample_draft sample_state"
  by (simp add: commit_admitted_def sample_draft_def sample_view_def sample_state_def
      sample_state_with_def CanonicalState_default_def)

section \<open>Properties\<close>

text \<open>
  Whatever happened to the state between the stages of a pass, a commit keeps the invariant of
  the canonical state and of the route history: every retained decision is filed once under its
  own identity together with its plan, the history stays within its bound and identities stay
  below the allocator's.  Decisions that were live and dispatchable at that time remain so.
\<close>

theorem commit_route_keeps_invariants:
  assumes "commit_ready ids s"
  shows "case commit_route d ids s of (outcome, ids', s') \<Rightarrow>
    state_ok s' \<and> history_ok ids' s' \<and> ids \<le> ids' \<and>
    (live_decisions_dispatchable (vw_now (df_view d)) s \<longrightarrow>
     live_decisions_dispatchable (vw_now (df_view d)) s')"
  using assms
proof (cases rule: commit_ready_cases [where d = d])
  case (committed r s')
  moreover have "ids \<le> ids + 2"
    using allocate_two [of ids] assms by (simp add: commit_ready_def)
  ultimately show ?thesis by simp
qed (use assms in \<open>simp add: commit_ready_def\<close>)

theorem commit_route_keeps_invariants_witness:
  "commit_ready 100 sample_state \<and>
   (case commit_route sample_draft 100 sample_state of (outcome, ids', s') \<Rightarrow>
      state_ok s' \<and> history_ok ids' s')"
  using commit_route_keeps_invariants [OF sample_commit_ready, of sample_draft] sample_commit_ready
  by (simp split: prod.split_asm)

text \<open>
  (C20) The retained history is a sliding window: a performed commit appends the new decision and
  drops exactly the oldest decisions that no longer fit the configured bound; every other
  retained decision is untouched.
\<close>

theorem commit_route_history_window:
  assumes "commit_ready ids s" and "commit_admitted d s"
  shows "case commit_route d ids s of (outcome, ids', s') \<Rightarrow>
    let n = Suc (length (cs_route_order s)) - unat (max_route_history (cs_limits s)) in
    cs_route_order s' = drop n (cs_route_order s @ [ids + 1]) \<and>
    rd_decision_id (ro_decision outcome) = ids + 1 \<and>
    (\<exists>r. om_find (cs_routes s') (ids + 1) = Some r \<and> rd_decision_id (rec_decision r) = ids + 1) \<and>
    (\<forall>i. i \<noteq> ids + 1 \<longrightarrow>
       om_find (cs_routes s') i =
         (if i \<in> set (take n (cs_route_order s)) then None else om_find (cs_routes s) i))"
  using assms(1)
proof (cases rule: commit_ready_cases [where d = d])
  case (committed r s')
  let ?n = "Suc (length (cs_route_order s)) - unat (max_route_history (cs_limits s))"
  have max: "max_route_history (cs_limits s) \<noteq> 0" and ok: "om_ok (cs_routes s)"
    using assms(1) by (simp_all add: commit_ready_def state_ok_def catalog_ok_def maps_ok_def)
  then obtain routes' where e: "evict_routes s = s\<lparr>cs_route_order := drop ?n (cs_route_order s), cs_routes := routes'\<rparr>"
    "om_ok routes'"
    "\<forall>i. om_find routes' i = (if i \<in> set (take ?n (cs_route_order s)) then None else om_find (cs_routes s) i)"
    using evict_routes_window by blast
  have "unat (max_route_history (cs_limits s)) > 0" using max by (simp add: unat_gt_0)
  then have "?n \<le> length (cs_route_order s)" by linarith
  then have order: "drop ?n (cs_route_order s) @ [ids + 1] = drop ?n (cs_route_order s @ [ids + 1])" by simp
  have id: "rd_decision_id (rec_decision (committed_record d ids s)) = ids + 1"
    "rd_decision_id (rec_decision r) = ids + 1"
    by (simp_all add: committed(2) committed_record_def built_record_def retained_def Let_def)
  show ?thesis
    unfolding committed(4) prod.case Let_def order [symmetric] using e id
    by (simp add: committed(3) add_record_def container_simps route_outcome_def Let_def)
qed (use assms in simp)

theorem commit_route_history_window_witness:
  "commit_ready 100 sample_state \<and> commit_admitted sample_draft sample_state \<and>
   cs_route_order (snd (snd (commit_route sample_draft 100 sample_state))) = [40, 101]"
proof -
  have "Suc (length (cs_route_order sample_state)) - unat (max_route_history (cs_limits sample_state)) = 0"
    "cs_route_order sample_state = [40]"
    by (simp_all add: sample_state_def sample_state_with_def CanonicalState_default_def
        default_resource_limits_def)
  then show ?thesis
    using commit_route_history_window [OF sample_commit_ready sample_commit_admitted]
      sample_commit_ready sample_commit_admitted
    by (simp add: Let_def split: prod.split_asm)
qed

text \<open>
  The answer is honest: a route answered as \<open>ROUTED\<close> is retained as current, exactly as
  answered, and its authority is dispatchable in the state the commit leaves behind; a route that
  is committed but not answered as \<open>ROUTED\<close> is answered as \<open>REVALIDATION_REQUIRED\<close> and retained
  as stale; a refused commit leaves the state and the allocator alone.
\<close>

theorem commit_route_answer_exact:
  assumes "commit_ready ids s"
  shows "case commit_route d ids s of (outcome, ids', s') \<Rightarrow>
    (ro_code outcome = ROUTED \<longrightarrow>
       (\<exists>r. om_find (cs_routes s') (rd_decision_id (ro_decision outcome)) = Some r \<and>
          rec_decision r = ro_decision outcome \<and> rd_status (rec_decision r) = RouteStatus.CURRENT \<and>
          is_authority_dispatchable s' (rd_authority (rec_decision r)) (vw_now (df_view d)))) \<and>
    (ro_has_decision outcome \<and> ro_code outcome \<noteq> ROUTED \<longrightarrow>
       ro_code outcome = OutcomeCode.REVALIDATION_REQUIRED \<and>
       (\<exists>r. om_find (cs_routes s') (rd_decision_id (ro_decision outcome)) = Some r \<and>
          rd_status (rec_decision r) = RouteStatus.STALE)) \<and>
    (\<not> ro_has_decision outcome \<longrightarrow> s' = s \<and> ids' = ids)"
  using assms
proof (cases rule: commit_ready_cases [where d = d])
  case (committed r s')
  let ?c = "committed_record d ids s" and ?now = "vw_now (df_view d)"
  have ok: "om_ok (cs_routes (evict_routes s))"
    using evicted(1) assms unfolding commit_ready_def state_ok_def catalog_ok_def maps_ok_def by blast
  have id: "rd_decision_id (rec_decision ?c) = ids + 1"
    and status: "rd_status (rec_decision ?c) \<in> {RouteStatus.CURRENT, RouteStatus.STALE}"
    by (simp_all add: committed_record_def built_record_def Let_def)
  have find: "om_find (cs_routes s') (ids + 1) = Some r"
    using ok by (simp add: committed(3) add_record_def container_simps)
  have current: "rd_status (rec_decision r) = RouteStatus.CURRENT \<Longrightarrow>
      r = ?c \<and> is_authority_dispatchable s' (rd_authority (rec_decision r)) ?now"
    using committed(2) retained_current [of ?now "evict_routes s" ?c]
    by (auto simp: committed(3) retained_def stale_decision_if_not_dispatchable_def)
  have "rd_status (rec_decision r) \<in> {RouteStatus.CURRENT, RouteStatus.STALE}"
    unfolding committed(2) by (rule retained_stale [OF status])
  then show ?thesis
    unfolding committed(4) prod.case using current find id
    by (auto simp: route_outcome_def Let_def)
qed auto

theorem commit_route_answer_exact_witness:
  "commit_ready 100 sample_state \<and>
   (case commit_route sample_draft 100 sample_state of (outcome, ids', s') \<Rightarrow>
      ro_code outcome = ROUTED \<longrightarrow>
      (\<exists>r. om_find (cs_routes s') (rd_decision_id (ro_decision outcome)) = Some r \<and>
         is_authority_dispatchable s' (rd_authority (rec_decision r)) 50))"
  using commit_route_answer_exact [OF sample_commit_ready, of sample_draft] sample_commit_ready
  by (auto simp: sample_draft_def sample_view_def split: prod.split_asm)

end
