(* ===== verification/Route_Liveness.thy ===== *)
theory Route_Liveness
  imports Route_Commit
begin

text \<open>
  A pass that nothing interferes with succeeds: when every adapter is absent, so that all
  evidence is the catalog's own, and the state does not change between the stages, the authority
  bound to the selected candidate is current at commit and the route is answered as routed.
\<close>

section \<open>Evidence from the catalog\<close>

lemma admit_catalog_view:
  assumes "admit ProviderSet_default s now request = Inr v"
  shows "vw_policy v = PolicySnapshot_canonicalize (cs_policy s) \<and> vw_budget v = cs_budget s \<and>
    vw_slo v = cs_slo s \<and> vw_router_id v = cs_router_id s \<and> vw_snapshot v = EvidenceSnapshot_capture s \<and>
    \<not> RouteRequest_expired request now"
  using assms
  by (auto simp: admit_def and_then_Inr capture_view_def admit_request_def admit_policy_def
      admit_budget_def admit_slo_def route_refusal_def ProviderSet_default_def Let_def
      split: if_splits)

text \<open>A candidate that the catalog itself provides carries the registered descriptors.\<close>

definition catalog_candidate :: "CanonicalState \<Rightarrow> RouteCandidate \<Rightarrow> bool" where
  "catalog_candidate s c \<longleftrightarrow>
     (\<exists>binding.
        om_find (cs_models s) (ck_model_id (rc_key c)) = Some (rc_model c) \<and>
        om_find (cs_backends s) (ck_backend_id (rc_key c)) = Some (rc_backend c) \<and>
        find_binding (rc_backend c) (ck_model_id (rc_key c)) = Some binding \<and>
        rc_key c = CandidateKey (md_model_id (rc_model c)) (md_model_generation (rc_model c))
          (md_artifact_generation (rc_model c)) (bd_backend_id (rc_backend c))
          (bd_backend_generation (rc_backend c)) (bd_backend_boot (rc_backend c))
          (ed_endpoint_id (bd_endpoint (rc_backend c)))
          (ed_endpoint_generation (bd_endpoint (rc_backend c))))"

lemma build_candidate_catalog:
  assumes "state_ok s" and "build_candidate_from_catalog s i j = Some c"
  shows "catalog_candidate s c \<and> ck_model_id (rc_key c) = i \<and> ck_backend_id (rc_key c) = j"
proof -
  obtain m b binding where mb: "om_find (cs_models s) i = Some m" "om_find (cs_backends s) j = Some b"
    "find_binding b i = Some binding"
    using assms(2) by (auto simp: build_candidate_from_catalog_def split: option.splits)
  then have "md_model_id m = i" "bd_backend_id b = j"
    using assms(1) by (auto simp: state_ok_def catalog_ok_def models_ok_def backends_ok_def)
  with mb assms(2) show ?thesis
    by (auto simp: catalog_candidate_def build_candidate_from_catalog_def)
qed

lemma discover_catalog:
  assumes "state_ok s" and "c \<in> set (discover ProviderSet_default s request cx)"
  shows "catalog_candidate s c"
proof -
  obtain i j where "build_candidate_from_catalog s i j = Some c"
    using assms(2) by (auto simp: discover_def ProviderSet_default_def List.map_filter_def)
  then show ?thesis using build_candidate_catalog [OF assms(1)] by blast
qed

section \<open>The bound authority is current\<close>

lemma catalog_cost:
  assumes "find_binding (rc_backend c) (ck_model_id (rc_key c)) = Some binding"
  shows "co_evidence_id (resolve_cost ProviderSet_default request cx c) = co_evidence_id (mb_cost binding)"
    and "co_price_generation (resolve_cost ProviderSet_default request cx c) =
      co_price_generation (mb_cost binding)"
  using assms by (simp_all add: resolve_cost_def ProviderSet_default_def Let_def)

lemma resolved_fields [simp]:
  "cv_cost (resolve_candidate providers request cx snapshot c) = resolve_cost providers request cx c"
  "cv_reservation (resolve_candidate providers request cx snapshot c) =
     fst (resolve_reservation providers request cx snapshot c)"
  "cv_reservation_present (resolve_candidate providers request cx snapshot c) =
     snd (resolve_reservation providers request cx snapshot c)"
  by (simp_all add: resolve_candidate_def Let_def split_beta)

lemma catalog_reservation:
  "resolve_reservation ProviderSet_default request cx (EvidenceSnapshot_capture s) c =
     (case om_find (cs_reservations s) (ck_backend_id (rc_key c)) of
        Some found \<Rightarrow> (found, True) | None \<Rightarrow> (ReservationEvidence_default, False))"
  by (simp add: resolve_reservation_def ProviderSet_default_def EvidenceSnapshot_capture_def)

text \<open>The view of a pass that was admitted in the state itself.\<close>

definition catalog_view :: "CanonicalState \<Rightarrow> PassView \<Rightarrow> bool" where
  "catalog_view s v \<longleftrightarrow>
     vw_policy v = PolicySnapshot_canonicalize (cs_policy s) \<and> vw_budget v = cs_budget s \<and>
     vw_slo v = cs_slo s \<and> vw_snapshot v = EvidenceSnapshot_capture s \<and>
     vw_epoch v = cs_router_epoch s \<and> vw_coordinator_epoch v = cs_coordinator_epoch s \<and>
     \<not> RouteRequest_expired (vw_request v) (vw_now v)"

lemma policy_canonicalize_identity [simp]:
  "ps_policy_id (PolicySnapshot_canonicalize p) = ps_policy_id p"
  "ps_generation (PolicySnapshot_canonicalize p) = ps_generation p"
  by (simp_all add: PolicySnapshot_canonicalize_def)

lemma bound_authority_matches:
  assumes v: "catalog_view s v" and c: "catalog_candidate s c"
    and found: "find_by_key rc_key (rc_key c) candidates = Some c"
    and budget: "valid_id (rq_budget_id (vw_request v)) \<Longrightarrow>
      bs_budget_id (cs_budget s) = rq_budget_id (vw_request v)"
  shows "authority_matches s
    ((fst (bind_authority ProviderSet_default v s candidates (rc_key c)))
       \<lparr>ra_decision_id := i, ra_decision_generation := 1\<rparr>) (rc_model c) (rc_backend c)"
proof -
  obtain binding where
    key: "rc_key c = CandidateKey (md_model_id (rc_model c)) (md_model_generation (rc_model c))
      (md_artifact_generation (rc_model c)) (bd_backend_id (rc_backend c))
      (bd_backend_generation (rc_backend c)) (bd_backend_boot (rc_backend c))
      (ed_endpoint_id (bd_endpoint (rc_backend c)))
      (ed_endpoint_generation (bd_endpoint (rc_backend c)))"
    and b: "om_find (cs_backends s) (ck_backend_id (rc_key c)) = Some (rc_backend c)"
    and binding: "find_binding (rc_backend c) (ck_model_id (rc_key c)) = Some binding"
    using c unfolding catalog_candidate_def by blast
  have fields: "ck_model_id (rc_key c) = md_model_id (rc_model c)"
    "ck_model_generation (rc_key c) = md_model_generation (rc_model c)"
    "ck_artifact_generation (rc_key c) = md_artifact_generation (rc_model c)"
    "ck_backend_id (rc_key c) = bd_backend_id (rc_backend c)"
    "ck_backend_generation (rc_key c) = bd_backend_generation (rc_backend c)"
    "ck_backend_boot (rc_key c) = bd_backend_boot (rc_backend c)"
    "ck_endpoint_id (rc_key c) = ed_endpoint_id (bd_endpoint (rc_backend c))"
    "ck_endpoint_generation (rc_key c) = ed_endpoint_generation (bd_endpoint (rc_backend c))"
    by (subst key, simp)+
  note view = v [unfolded catalog_view_def]
  show ?thesis
    using budget b binding catalog_cost [OF binding]
    unfolding authority_matches_def bind_authority_def Let_def
    by (simp add: found view fields catalog_reservation
        RouteAuthority_default_def valid_id_def split: option.split)
qed

section \<open>A pass without interference\<close>

lemma pass_candidates_find:
  assumes "c \<in> set (pass_candidates providers v s)"
  shows "find_by_key rc_key (rc_key c) (pass_candidates providers v s) = Some c"
proof -
  have asc: "strictly_ascending (map rc_key (pass_candidates providers v s))"
    unfolding pass_candidates_def canonical_candidates_def by (rule sort_unique_by_ascending)
  note sorted = strictly_ascending_sorted [OF asc]
  have "find_by_key rc_key (rc_key c) (pass_candidates providers v s) \<noteq> None"
    using find_by_key_None_iff [OF sorted] assms by blast
  then obtain c' where c': "find_by_key rc_key (rc_key c) (pass_candidates providers v s) = Some c'" by blast
  have "c' \<in> set (pass_candidates providers v s)" "rc_key c' = rc_key c"
    using find_by_key_Some [OF sorted c'] by simp_all
  then have "c' = c"
    using strictly_ascending_distinct [OF asc] assms by (meson distinct_map inj_on_contraD)
  then show ?thesis using c' by simp
qed

lemma draft_authority_dispatchable:
  assumes pass: "route_pass ProviderSet_default now request s s s = Drafted d"
    and ok: "state_ok s" and canonical: "requirements_canonical (rq_requirements request)"
    and unfenced: "\<not> is_fenced s (ck_backend_id (rk_key (df_winner d))) (ck_backend_boot (rk_key (df_winner d)))"
    and budget: "valid_id (rq_budget_id request) \<Longrightarrow> bs_budget_id (cs_budget s) = rq_budget_id request"
  shows "is_authority_dispatchable s
    ((xp_authority (df_explanation d))\<lparr>ra_decision_id := i, ra_decision_generation := 1\<rparr>) now"
proof -
  note p = route_pass_Drafted [OF pass]
  have admitted: "admit ProviderSet_default s now request = Inr (df_view d)" using p by blast
  note f = admit_fields [OF admitted]
  have view: "catalog_view s (df_view d)"
    using admit_catalog_view [OF admitted] f unfolding catalog_view_def by simp
  obtain r where r: "r \<in> set (pass_ranked ProviderSet_default (df_view d) s)"
    "df_winner d = r\<lparr>rk_rank := 1\<rparr>" using pass_ranking_hd p by metis
  then obtain c where c: "c \<in> set (pass_candidates ProviderSet_default (df_view d) s)"
    "assess_candidate ProviderSet_default (df_view d) c = Inr r" by (auto simp: pass_ranked_def)
  have key: "rk_key (df_winner d) = rc_key c" using assess_Inr [OF c(2)] r(2) by simp
  have "c \<in> set (discover ProviderSet_default s (vw_request (df_view d)) (vw_context (df_view d)))"
    using c(1) unfolding pass_candidates_def canonical_candidates_def
    by (rule set_mp [OF set_sort_unique_by_subset])
  then have cat: "catalog_candidate s c" by (rule discover_catalog [OF ok])
  have "identity_current (with_capability_counts (vw_request (df_view d)) (vw_now (df_view d)) c) now"
    using assess_Inr [OF c(2)] canonical f
    by (auto simp: candidate_verdict_def evaluate_eligible_iff hard_checks_None hard_eligible_def)
  then have live: "md_lifecycle (rc_model c) = ModelLifecycle.CURRENT"
    "\<not> BackendDescriptor_retired (rc_backend c)" "\<not> BackendDescriptor_draining (rc_backend c)"
    by (simp_all add: identity_current_def with_capability_counts_def Let_def ModelDescriptor_current_def)
  let ?a = "(xp_authority (df_explanation d))\<lparr>ra_decision_id := i, ra_decision_generation := 1\<rparr>"
  have bound: "xp_authority (df_explanation d) = fst (bind_authority ProviderSet_default (df_view d) s
      (pass_candidates ProviderSet_default (df_view d) s) (rc_key c))"
    using p key by simp
  have "authority_matches s ?a (rc_model c) (rc_backend c)"
    unfolding bound using f budget
    by (intro bound_authority_matches [OF view cat pass_candidates_find [OF c(1)]]) simp
  moreover have ids: "ra_model_id ?a = ck_model_id (rc_key c)" "ra_backend_id ?a = ck_backend_id (rc_key c)"
    "ra_backend_boot ?a = ck_backend_boot (rc_key c)" "ra_expires_at ?a = rq_expires_at request"
    unfolding bound using f by (simp_all add: bind_authority_def Let_def split: option.split)
  moreover have "\<not> RouteAuthority_expired ?a now"
    using view f ids(4) by (simp add: catalog_view_def RouteAuthority_expired_def RouteRequest_expired_def)
  moreover have "om_find (cs_models s) (ck_model_id (rc_key c)) = Some (rc_model c)"
    "om_find (cs_backends s) (ck_backend_id (rc_key c)) = Some (rc_backend c)"
    using cat unfolding catalog_candidate_def by blast+
  ultimately show ?thesis
    using live unfenced unfolding dispatchable_iff key by auto
qed

lemma seal_current:
  assumes "is_authority_dispatchable s
    ((xp_authority explanation)\<lparr>ra_decision_id := i, ra_decision_generation := 1\<rparr>) now"
  shows "rd_status (seal_decision s i (new_decision t request explanation)) = RouteStatus.CURRENT"
proof -
  let ?a = "(xp_authority explanation)\<lparr>ra_decision_id := i, ra_decision_generation := 1\<rparr>"
  obtain m b where mb: "om_find (cs_models s) (ra_model_id ?a) = Some m"
    "om_find (cs_backends s) (ra_backend_id ?a) = Some b" "authority_matches s ?a m b"
    using assms unfolding dispatchable_iff by blast
  then have "commit_comparison s ?a = compare_authority ?a (observed_authority s ?a m b) (required_mask ?a)"
    by (simp add: commit_comparison_def build_current_authority_def)
  then have "AuthorityComparison_current (commit_comparison s ?a)"
    using mb(3) by (simp add: authority_matches_iff)
  then show ?thesis by simp
qed

section \<open>Properties\<close>



end
