(* ===== verification/Router_Dispatch.thy ===== *)
theory Router_Dispatch
  imports Router_Route
begin

text \<open>
  Revalidation before dispatch, the handoff to a backend, completion and reroute:
  \<open>src/router_dispatch.cpp\<close>.

  As in the routing pipeline, the lock is released between the stages.  A stage that writes is a
  definition of its own and takes the state it runs on; \<open>revalidate\<close>, \<open>dispatch\<close> and
  \<open>reroute\<close> compose the stages on one state.  The clock is read once for each operation.
\<close>

section \<open>Revalidation\<close>

definition om_update :: "'k::linorder \<Rightarrow> ('v \<Rightarrow> 'v) \<Rightarrow> ('k, 'v) omap \<Rightarrow> ('k, 'v) omap" where
  "om_update k f m = (case om_find m k of None \<Rightarrow> m | Some v \<Rightarrow> om_put k (f v) m)"

definition update_route ::
  "entity_id \<Rightarrow> (RouteRecord \<Rightarrow> RouteRecord) \<Rightarrow> CanonicalState \<Rightarrow> CanonicalState" where
  "update_route decision_id f s = s\<lparr>cs_routes := om_update decision_id f (cs_routes s)\<rparr>"

definition mark_current :: "RouteRecord \<Rightarrow> RouteRecord" where
  "mark_current r =
     r\<lparr>rec_decision := (rec_decision r)
        \<lparr>rd_status := RouteStatus.CURRENT,
         rd_explanation := (rd_explanation (rec_decision r))
           \<lparr>xp_currentness := Currentness.CURRENT, xp_revalidation_required := False\<rparr>\<rparr>\<rparr>"

text \<open>The tenancy guard that revalidation and dispatch share.\<close>

definition tenancy_refusals ::
  "entity_id \<Rightarrow> entity_id \<Rightarrow> entity_id \<Rightarrow> entity_id \<Rightarrow> guarded_rejection list" where
  "tenancy_refusals caller_tenant caller_namespace tenant name_space =
     [(valid_id caller_tenant \<and> caller_tenant \<noteq> tenant,
         REJECT_CONFLICT, ''route decision belongs to a different tenant''),
      (valid_id caller_namespace \<and> valid_id name_space \<and> caller_namespace \<noteq> name_space,
         REJECT_CONFLICT, ''route decision belongs to a different namespace'')]"

definition revalidate_lookup ::
  "entity_id \<Rightarrow> CanonicalState \<Rightarrow> MutationResult + RouteLookup \<times> bool" where
  "revalidate_lookup decision_id s =
     (if cs_shutting_down s
        then Inl (MutationResult_make SHUTTING_DOWN ''revalidate''
               ''router is shutting down and cannot re-authorize a route'')
      else case om_find (cs_routes s) decision_id of
          None \<Rightarrow> Inl (MutationResult_make REJECT_INVALID ''revalidate'' ''route decision is not retained'')
        | Some found \<Rightarrow>
            let lookup = RouteLookup_from found in
            Inr (lookup, is_fenced s (ra_backend_id (lk_authority lookup))
                           (ra_backend_boot (lk_authority lookup))))"

definition revalidate_refusals :: "entity_id \<Rightarrow> entity_id \<Rightarrow> RouteLookup \<Rightarrow> guarded_rejection list" where
  "revalidate_refusals caller_tenant caller_namespace decision =
     tenancy_refusals caller_tenant caller_namespace (lk_tenant decision) (lk_name_space decision) @
     [(lk_status decision = RouteStatus.SUPERSEDED \<or> lk_status decision = RouteStatus.CANCELLED,
         OutcomeCode.SUPERSEDED, ''route decision is no longer current''),
      (lk_status decision = RouteStatus.COMPLETED \<or> lk_status decision = RouteStatus.FAILED,
         REJECT_INVALID, ''route decision has already reached a terminal state'')]"

definition difference_factor :: "AuthorityDifference \<Rightarrow> ExplanationFactor" where
  "difference_factor d =
     add_text (AuthorityComponent_to_string (ad_component d))
       (dec_u64 (ad_bound d) @ ''->'' @ dec_u64 (ad_current d))"

text \<open>The last stage, under the exclusive lock.\<close>

definition revalidate_commit ::
  "unix_millis \<Rightarrow> entity_id \<Rightarrow> RouteAuthority \<Rightarrow> RouteAuthority \<Rightarrow> CanonicalState \<Rightarrow> mutation" where
  "revalidate_commit now decision_id bound observed s =
     (let comparison = compare_authority bound observed (required_mask bound);
          reason = dispatchability_reason s bound now in
      if om_find (cs_routes s) decision_id = None
        then refuse REJECT_INVALID ''revalidate'' ''route decision is not retained'' s
      else if AuthorityComparison_current comparison \<and> reason \<noteq> ACCEPTED
        then (MutationResult_built reason ''revalidate'' ''bound model or backend is no longer dispatchable''
                [add_u64 ''decision_id'' decision_id],
              update_route decision_id mark_stale s)
      else if \<not> AuthorityComparison_current comparison
        then (MutationResult_built (ac_code comparison) ''revalidate'' ''route authority is no longer current''
                ([add_u64 ''decision_id'' decision_id,
                  add_size ''differences'' (length (ac_differences comparison))] @
                 map difference_factor (ac_differences comparison)),
              update_route decision_id mark_stale s)
      else (MutationResult_built ACCEPTED ''revalidate'' ''every required authority component is current''
              [add_u64 ''decision_id'' decision_id, add_text ''authority_digest'' (authority_digest observed)],
            update_route decision_id mark_current s))"

definition revalidate_settle ::
  "unix_millis \<Rightarrow> entity_id \<Rightarrow> RouteLookup \<Rightarrow> bool \<Rightarrow> CanonicalState \<Rightarrow> CanonicalState \<Rightarrow> mutation" where
  "revalidate_settle now decision_id decision fenced observed_state s =
     (let bound = lk_authority decision in
      if RouteAuthority_expired bound now
        then (MutationResult_make REJECT_STALE_REQUEST ''revalidate'' ''route decision has expired'',
              update_route decision_id mark_stale s)
      else if fenced
        then (MutationResult_built REJECT_STALE_BACKEND_BOOT ''revalidate'' ''backend incarnation is fenced''
                [add_u64 ''backend_id'' (ra_backend_id bound), add_u64 ''backend_boot'' (ra_backend_boot bound)],
              update_route decision_id mark_stale s)
      else case build_current_authority observed_state bound of
          None \<Rightarrow> (MutationResult_make REJECT_STALE_BACKEND ''revalidate''
                    ''bound model or backend identity no longer exists'',
                  update_route decision_id mark_stale s)
        | Some observed \<Rightarrow> revalidate_commit now decision_id bound observed s)"

definition revalidate ::
  "unix_millis \<Rightarrow> entity_id \<Rightarrow> entity_id \<Rightarrow> entity_id \<Rightarrow> CanonicalState \<Rightarrow> mutation" where
  "revalidate now decision_id caller_tenant caller_namespace s =
     (case revalidate_lookup decision_id s of
        Inl refusal \<Rightarrow> (refusal, s)
      | Inr (decision, fenced) \<Rightarrow>
          attempt ''revalidate'' (revalidate_refusals caller_tenant caller_namespace decision) s
            (revalidate_settle now decision_id decision fenced s s))"

section \<open>Dispatch\<close>

text \<open>The request that stands for the stored route when its target is evaluated again.\<close>

definition redispatch_request :: "RouteRecord \<Rightarrow> RouteRequest" where
  "redispatch_request stored =
     (let d = rec_decision stored; a = rd_authority d in
      \<lparr>rq_request_id = rd_request_id d, rq_request_generation = rd_request_generation d,
       rq_requirements = RouteRequirements_default, rq_caller = CallerAuthority_default,
       rq_tenant = rec_tenant stored, rq_name_space = rec_name_space stored,
       rq_policy_id = ra_policy_id a, rq_policy_generation = ra_policy_generation a,
       rq_budget_id = ra_budget_id a, rq_budget_generation = ra_budget_generation a,
       rq_slo_id = ra_slo_id a, rq_slo_generation = ra_slo_generation a, rq_correlation_id = 0,
       rq_estimated_input_tokens = 0, rq_estimated_output_tokens = 0, rq_created_at = 0,
       rq_expires_at = ra_expires_at a\<rparr>)"

definition target_evidence :: "ProviderSet \<Rightarrow> unix_millis \<Rightarrow> RouteRecord \<Rightarrow> CanonicalState \<Rightarrow>
    RouteCandidate \<Rightarrow> CandidateEvidence" where
  "target_evidence providers now stored s candidate =
     resolve_candidate providers (redispatch_request stored)
       (make_context s (rec_tenant stored) (rec_name_space stored) now)
       (EvidenceSnapshot_capture s) candidate"

definition target_verdict :: "ProviderSet \<Rightarrow> unix_millis \<Rightarrow> RouteRecord \<Rightarrow> CanonicalState \<Rightarrow>
    RouteCandidate \<Rightarrow> EligibilityVerdict" where
  "target_verdict providers now stored s candidate = evaluate_hard_eligibility
     \<lparr>ei_request = Some (redispatch_request stored), ei_candidate = Some candidate,
      ei_policy = Some (cs_policy s), ei_budget = Some (cs_budget s),
      ei_evidence = Some (target_evidence providers now stored s candidate), ei_now = now\<rparr>"

text \<open>The target is resolved again and every hard predicate is evaluated again; \<open>Inl\<close> is an
  early return.\<close>

definition dispatch_target ::
  "ProviderSet \<Rightarrow> unix_millis \<Rightarrow> RouteRecord \<Rightarrow> CanonicalState \<Rightarrow> CanonicalState \<Rightarrow> DispatchRecord \<Rightarrow>
   DispatchRecord + RouteCandidate" where
  "dispatch_target providers now stored captured s record =
     (case build_candidate_from_catalog s (ck_model_id (dr_target record)) (ck_backend_id (dr_target record)) of
        None \<Rightarrow> Inl (record\<lparr>dr_code := REJECT_STALE_BACKEND, dr_failure := STALE_ROUTE,
                  dr_detail := ''bound candidate identity no longer exists''\<rparr>)
      | Some candidate \<Rightarrow>
          if rc_key candidate \<noteq> dr_target record
            then Inl (record\<lparr>dr_code := REJECT_STALE_BACKEND_BOOT, dr_failure := BACKEND_RESTARTED,
                   dr_detail := ''bound candidate identity is not the current incarnation''\<rparr>)
          else
            let verdict = target_verdict providers now stored captured candidate in
            if \<not> eligible verdict
              then Inl (record\<lparr>dr_code := ev_code verdict, dr_failure := classify_failure (ev_code verdict),
                     dr_detail := ev_detail verdict, dr_dispatched_at := now\<rparr>)
            else Inr candidate)"

text \<open>What the handler answers, completed with the identity of the route.\<close>

definition handoff_record ::
  "unix_millis \<Rightarrow> entity_id \<Rightarrow> RouteRecord \<Rightarrow> RouteCandidate \<Rightarrow> DispatchRecord \<Rightarrow> DispatchRecord" where
  "handoff_record now decision_id stored candidate answer =
     (let record = answer
            \<lparr>dr_decision_id := decision_id,
             dr_decision_generation := rd_decision_generation (rec_decision stored),
             dr_target := rc_key candidate, dr_revalidated := True,
             dr_dispatched_at := (if dr_dispatched_at answer = 0 then now else dr_dispatched_at answer)\<rparr>
      in if dr_code record \<noteq> OutcomeCode.DISPATCHED \<and> dr_code record \<noteq> ACCEPTED
         then record\<lparr>dr_handed_off := False,
                dr_failure := (if dr_failure record = FailureClass.UNKNOWN
                               then classify_failure (dr_code record) else dr_failure record)\<rparr>
         else record\<lparr>dr_code := OutcomeCode.DISPATCHED, dr_handed_off := True\<rparr>)"

definition mark_dispatched :: "entity_id \<Rightarrow> RouteRecord \<Rightarrow> RouteRecord" where
  "mark_dispatched dispatch_id r =
     r\<lparr>rec_decision := (rec_decision r)
        \<lparr>rd_status := DISPATCHED, rd_dispatch_id := dispatch_id, rd_dispatch_generation := 1\<rparr>\<rparr>"

text \<open>The last stage, under the exclusive lock; the two epochs are those captured before the
  handoff.\<close>

definition record_dispatch ::
  "entity_id \<Rightarrow> generation \<Rightarrow> generation \<Rightarrow> DispatchRecord \<Rightarrow> u64 \<Rightarrow> CanonicalState \<Rightarrow>
   DispatchRecord \<times> u64 \<times> CanonicalState" where
  "record_dispatch decision_id epoch coordinator_epoch record ids s =
     (if om_find (cs_routes s) decision_id = None
        then (record\<lparr>dr_code := REJECT_INVALID,
                dr_detail := ''route decision disappeared before the dispatch could be recorded''\<rparr>, ids, s)
      else if cs_router_epoch s \<noteq> epoch \<or> cs_coordinator_epoch s \<noteq> coordinator_epoch
        then (record\<lparr>dr_code := REJECT_STALE_ROUTER_EPOCH, dr_failure := STALE_ROUTE,
                dr_handed_off := False,
                dr_detail := ''router epoch advanced during the dispatch handoff''\<rparr>, ids, s)
      else
        let (ids', dispatch_id) = IdAllocator_next ids;
            issued = record\<lparr>dr_dispatch_id := dispatch_id, dr_dispatch_generation := 1\<rparr>;
            s' = update_route decision_id (mark_dispatched dispatch_id) s
        in (issued, ids',
            s'\<lparr>cs_dispatches := om_put decision_id issued (cs_dispatches s'),
               cs_dispatch_index := om_put dispatch_id decision_id (cs_dispatch_index s'),
               cs_counters := (cs_counters s')\<lparr>pc_dispatches := pc_dispatches (cs_counters s') + 1\<rparr>\<rparr>))"

definition dispatch_start :: "entity_id \<Rightarrow> CanonicalState \<Rightarrow> DispatchRecord + RouteRecord" where
  "dispatch_start decision_id s =
     (let record = DispatchRecord_default\<lparr>dr_decision_id := decision_id, dr_code := INTERNAL_ERROR\<rparr> in
      if cs_shutting_down s
        then Inl (record\<lparr>dr_code := SHUTTING_DOWN,
               dr_detail := ''router is shutting down and cannot dispatch''\<rparr>)
      else case om_find (cs_routes s) decision_id of
          None \<Rightarrow> Inl (record\<lparr>dr_code := REJECT_INVALID, dr_detail := ''route decision is not retained''\<rparr>)
        | Some stored \<Rightarrow> Inr stored)"

definition dispatch_record :: "entity_id \<Rightarrow> RouteRecord \<Rightarrow> DispatchRecord" where
  "dispatch_record decision_id stored = DispatchRecord_default
     \<lparr>dr_decision_id := decision_id, dr_code := INTERNAL_ERROR,
      dr_decision_generation := rd_decision_generation (rec_decision stored),
      dr_target := pl_primary (rec_plan stored)\<rparr>"

text \<open>The stages after a successful revalidation.\<close>

definition dispatch_handoff ::
  "ProviderSet \<Rightarrow> unix_millis \<Rightarrow> entity_id \<Rightarrow> RouteRecord \<Rightarrow> DispatchRecord \<Rightarrow> u64 \<Rightarrow> CanonicalState \<Rightarrow>
   DispatchRecord \<times> u64 \<times> CanonicalState" where
  "dispatch_handoff providers now decision_id stored record ids s =
     (case dispatch_target providers now stored s s record of
        Inl refused \<Rightarrow> (refused, ids, s)
      | Inr candidate \<Rightarrow>
          (case pr_dispatcher providers of
             None \<Rightarrow> (record\<lparr>dr_code := REJECT_INVALID, dr_failure := FailureClass.UNKNOWN,
                        dr_detail := ''no dispatch handler is configured'', dr_dispatched_at := now\<rparr>,
                     ids, s)
           | Some handoff \<Rightarrow>
               let answer = handoff_record now decision_id stored candidate
                     (handoff (rec_decision stored) (rec_plan stored)
                        (make_context s (rec_tenant stored) (rec_name_space stored) now)) in
               if dr_handed_off answer
                 then record_dispatch decision_id (cs_router_epoch s) (cs_coordinator_epoch s) answer ids s
               else (answer, ids, s)))"

definition dispatch ::
  "ProviderSet \<Rightarrow> unix_millis \<Rightarrow> entity_id \<Rightarrow> entity_id \<Rightarrow> entity_id \<Rightarrow> u64 \<Rightarrow> CanonicalState \<Rightarrow>
   DispatchRecord \<times> u64 \<times> CanonicalState" where
  "dispatch providers now decision_id caller_tenant caller_namespace ids s =
     (case dispatch_start decision_id s of
        Inl refused \<Rightarrow> (refused, ids, s)
      | Inr stored \<Rightarrow>
          let record = dispatch_record decision_id stored in
          (case first_reject (tenancy_refusals caller_tenant caller_namespace
                   (rec_tenant stored) (rec_name_space stored)) of
             Some (code, detail) \<Rightarrow> (record\<lparr>dr_code := code, dr_detail := detail\<rparr>, ids, s)
           | None \<Rightarrow>
               let (revalidated, s') = revalidate now decision_id caller_tenant caller_namespace s;
                   checked = record\<lparr>dr_revalidated := True\<rparr> in
               if \<not> mr_accepted revalidated
                 then (checked\<lparr>dr_code := mr_code revalidated,
                        dr_failure := classify_failure (mr_code revalidated),
                        dr_detail := ex_message (mr_explanation revalidated), dr_dispatched_at := now\<rparr>,
                       ids, s')
               else dispatch_handoff providers now decision_id stored checked ids s'))"

section \<open>Completion\<close>

definition completion_target :: "CompletionRecord \<Rightarrow> CanonicalState \<Rightarrow> entity_id option" where
  "completion_target completion s =
     (if valid_id (cr_dispatch_id completion)
      then om_find (cs_dispatch_index s) (cr_dispatch_id completion)
      else Some (cr_decision_id completion))"

definition completion_succeeds :: "CompletionRecord \<Rightarrow> bool" where
  "completion_succeeds completion \<longleftrightarrow>
     cr_code completion = OutcomeCode.COMPLETED \<or> cr_code completion = ACCEPTED"

definition record_completion :: "CompletionRecord \<Rightarrow> CanonicalState \<Rightarrow> mutation" where
  "record_completion completion s =
     (case completion_target completion s of
        None \<Rightarrow> refuse REJECT_INVALID ''record_completion'' ''dispatch identity is not retained'' s
      | Some decision_id \<Rightarrow>
          (case om_find (cs_routes s) decision_id of
             None \<Rightarrow> refuse REJECT_INVALID ''record_completion'' ''route decision is not retained'' s
           | Some found \<Rightarrow>
               if rd_status (rec_decision found) \<noteq> DISPATCHED
                 then refuse REJECT_CONFLICT ''record_completion'' ''route decision was not dispatched'' s
               else
                 let status = (if completion_succeeds completion then RouteStatus.COMPLETED else RouteStatus.FAILED);
                     code = (if completion_succeeds completion then OutcomeCode.COMPLETED else OutcomeCode.FAILED) in
                 (MutationResult_built code ''record_completion'' []
                    [add_u64 ''decision_id'' decision_id,
                     add_text ''failure'' (FailureClass_to_string (cr_failure completion)),
                     add_u64 ''observed_latency_micros'' (ucast (cr_observed_latency_micros completion))],
                  update_route decision_id
                    (\<lambda>r. r\<lparr>rec_decision := (rec_decision r)\<lparr>rd_status := status\<rparr>\<rparr>)
                    (s\<lparr>cs_dispatches := om_update decision_id
                         (\<lambda>d. d\<lparr>dr_code := cr_code completion, dr_failure := cr_failure completion\<rparr>)
                         (cs_dispatches s)\<rparr>))))"

section \<open>Reroute\<close>

definition fallback_choice ::
  "PassView \<Rightarrow> RouteCandidate \<Rightarrow> CandidateEvidence \<Rightarrow> RankedCandidate" where
  "fallback_choice v candidate evidence =
     (let (factors, score) = build_factors candidate (ranking_context v candidate evidence) in
      \<lparr>rk_key = rc_key candidate, rk_score = score, rk_factors = factors, rk_rank = 1\<rparr>)"

definition fallback_authority ::
  "PassView \<Rightarrow> entity_id \<Rightarrow> RouteCandidate \<Rightarrow> CandidateEvidence \<Rightarrow> RouteAuthority" where
  "fallback_authority v router_id candidate evidence =
     (let request = vw_request v; k = rc_key candidate; b = rc_backend candidate;
          base = RouteAuthority_default
            \<lparr>ra_router_id := router_id, ra_router_epoch := vw_epoch v,
             ra_coordinator_epoch := vw_coordinator_epoch v,
             ra_request_id := rq_request_id request,
             ra_request_generation := rq_request_generation request,
             ra_model_id := ck_model_id k, ra_model_generation := ck_model_generation k,
             ra_artifact_generation := ck_artifact_generation k,
             ra_provider_id := bd_provider_id b, ra_provider_generation := bd_provider_generation b,
             ra_backend_id := ck_backend_id k, ra_backend_generation := ck_backend_generation k,
             ra_backend_boot := ck_backend_boot k,
             ra_backend_registration_generation := bd_backend_registration_generation b,
             ra_endpoint_id := ck_endpoint_id k, ra_endpoint_generation := ck_endpoint_generation k,
             ra_capability_profile_id := bd_capability_profile_id b,
             ra_capability_generation := bd_capability_generation b,
             ra_compatibility_profile_id := bd_compatibility_profile_id b,
             ra_compatibility_generation := bd_compatibility_generation b,
             ra_trust_profile_id := bd_trust_profile_id b, ra_trust_generation := bd_trust_generation b,
             ra_health_generation := be_generation (bd_health b),
             ra_availability_generation := be_generation (bd_availability b),
             ra_readiness_generation := be_generation (bd_readiness b),
             ra_residency_generation := be_generation (bd_residency b),
             ra_capacity_generation := be_generation (bd_capacity b),
             ra_policy_id := ps_policy_id (vw_policy v), ra_policy_generation := ps_generation (vw_policy v),
             ra_slo_id := sl_slo_id (vw_slo v), ra_slo_generation := sl_generation (vw_slo v),
             ra_cost_evidence_id := co_evidence_id (cv_cost evidence),
             ra_price_generation := co_price_generation (cv_cost evidence),
             ra_tenant := rq_tenant request, ra_name_space := rq_name_space request,
             ra_issued_at := vw_now v, ra_expires_at := rq_expires_at request\<rparr>;
          budgeted = (if valid_id (rq_budget_id request)
            then base\<lparr>ra_budget_id := rq_budget_id request,
                      ra_budget_generation := bs_generation (vw_budget v)\<rparr>
            else base)
      in if cv_reservation_present evidence
         then budgeted\<lparr>ra_reservation_id := re_reservation_id (cv_reservation evidence),
                       ra_reservation_generation := re_generation (cv_reservation evidence)\<rparr>
         else budgeted)"

text \<open>The loop over the remaining fallbacks skips the chosen candidate and stops at the bound.\<close>

definition remaining_fallbacks :: "u32 \<Rightarrow> CandidateKey \<Rightarrow> CandidateKey list \<Rightarrow> CandidateKey list" where
  "remaining_fallbacks permitted chosen fallbacks =
     take (unat permitted) (filter (\<lambda>k. k \<noteq> chosen) fallbacks)"

definition fallback_explanation ::
  "PassView \<Rightarrow> entity_id \<Rightarrow> RouteCandidate \<Rightarrow> CandidateEvidence \<Rightarrow> CandidateKey list \<Rightarrow> u32 \<Rightarrow>
   RouteExplanation" where
  "fallback_explanation v router_id candidate evidence fallbacks permitted = RouteExplanation_default
     \<lparr>xp_request_id := rq_request_id (vw_request v),
      xp_request_generation := rq_request_generation (vw_request v),
      xp_winner := rc_key candidate, xp_eligible_candidate_count := 1,
      xp_rejected_candidate_count := 0, xp_ranking := [fallback_choice v candidate evidence],
      xp_policy := vw_policy v, xp_budget := vw_budget v, xp_slo := vw_slo v,
      xp_cost := cv_cost evidence,
      xp_policy_result := pv_code (evaluate_candidate (vw_policy v) (vw_request v) candidate (vw_now v)),
      xp_requirement_digest := RouteRequirements_digest (rq_requirements (vw_request v)),
      xp_currentness := Currentness.CURRENT,
      xp_tie_break_reason := ''single freshly revalidated fallback candidate'',
      xp_authority := fallback_authority v router_id candidate evidence,
      xp_fallback_order := remaining_fallbacks permitted (rc_key candidate) fallbacks\<rparr>"

definition count_fallback :: "RouteRequest \<Rightarrow> CandidateKey \<Rightarrow> CanonicalState \<Rightarrow> CanonicalState" where
  "count_fallback request chosen s =
     note_tenant (rq_tenant request)
       (s\<lparr>cs_counters := (cs_counters s)
             \<lparr>pc_route_decisions := pc_route_decisions (cs_counters s) + 1,
              pc_reroutes := pc_reroutes (cs_counters s) + 1,
              pc_fallbacks_taken := pc_fallbacks_taken (cs_counters s) + 1\<rparr>,
           cs_last_eligible := 1, cs_last_rejected := 0,
           cs_last_winner_by_tenant := om_put (rq_tenant request) (ck_backend_id chosen)
             (cs_last_winner_by_tenant s)\<rparr>)"

definition fallback_outcome :: "CandidateKey \<Rightarrow> RouteDecision \<Rightarrow> bool \<Rightarrow> RouteOutcome" where
  "fallback_outcome chosen decision committed_current =
     (let code = (if committed_current then ROUTED else OutcomeCode.REVALIDATION_REQUIRED) in
      \<lparr>ro_code = code,
       ro_explanation = build_explanation code ''reroute''
         (if committed_current then ''fallback candidate freshly revalidated and committed''
          else ''fallback committed stale: authority advanced during validation'')
         [add_u64 ''decision_id'' (rd_decision_id decision),
          add_u64 ''backend_id'' (ck_backend_id chosen), add_u64 ''backend_boot'' (ck_backend_boot chosen),
          add_bool ''committed_current'' committed_current],
       ro_route = rd_explanation decision, ro_decision = decision, ro_has_decision = True\<rparr>)"

definition commit_single_candidate ::
  "PassView \<Rightarrow> RouteCandidate \<Rightarrow> CandidateEvidence \<Rightarrow> CandidateKey list \<Rightarrow> u32 \<Rightarrow> u64 \<Rightarrow>
   CanonicalState \<Rightarrow> RouteOutcome \<times> u64 \<times> CanonicalState" where
  "commit_single_candidate v candidate evidence fallbacks permitted ids s =
     (let request = vw_request v;
          counted = with_capability_counts request (vw_now v) candidate;
          verdict = candidate_verdict v counted evidence in
      if \<not> eligible verdict
        then ((RouteOutcome_make (ev_code verdict) ''reroute'' (ev_detail verdict))
                \<lparr>ro_route := RouteExplanation_default
                   \<lparr>xp_request_id := rq_request_id request,
                    xp_request_generation := rq_request_generation request\<rparr>\<rparr>, ids, s)
      else if cs_shutting_down s
        then (RouteOutcome_make SHUTTING_DOWN ''reroute'' ''router is shutting down'', ids, s)
      else if cs_router_epoch s \<noteq> vw_epoch v \<or> cs_coordinator_epoch s \<noteq> vw_coordinator_epoch v
        then (RouteOutcome_make REJECT_STALE_ROUTER_EPOCH ''reroute''
                ''router epoch advanced before the reroute could be committed'', ids, s)
      else
        let explanation = fallback_explanation v (cs_router_id s) counted evidence fallbacks permitted;
            (decision, committed_current, ids', inserted) =
              insert_decision (vw_now v) request (vw_policy v) permitted (rc_key counted) explanation ids
                (evict_routes s)
        in (fallback_outcome (rc_key counted) decision committed_current, ids',
            count_fallback request (rc_key counted) inserted))"

definition mark_superseded :: "unix_millis \<Rightarrow> RouteRecord \<Rightarrow> RouteRecord" where
  "mark_superseded now r =
     r\<lparr>rec_decision := (rec_decision r)
        \<lparr>rd_status := RouteStatus.SUPERSEDED, rd_superseded_at := now\<rparr>\<rparr>"

text \<open>The walk over the ordered fallback set; \<open>None\<close> when no fallback was routed.\<close>

fun walk_fallbacks ::
  "ProviderSet \<Rightarrow> PassView \<Rightarrow> CandidateKey list \<Rightarrow> u32 \<Rightarrow> entity_id \<Rightarrow> CandidateKey list \<Rightarrow> u64 \<Rightarrow>
   CanonicalState \<Rightarrow> RouteOutcome option \<times> u64 \<times> CanonicalState" where
  "walk_fallbacks providers v fallbacks permitted decision_id [] ids s = (None, ids, s)"
| "walk_fallbacks providers v fallbacks permitted decision_id (key # keys) ids s =
     (case build_candidate_from_catalog s (ck_model_id key) (ck_backend_id key) of
        None \<Rightarrow> walk_fallbacks providers v fallbacks permitted decision_id keys ids s
      | Some candidate \<Rightarrow>
          if rc_key candidate \<noteq> key
            then walk_fallbacks providers v fallbacks permitted decision_id keys ids s
          else
            (case commit_single_candidate v candidate
                    (resolve_candidate providers (vw_request v) (vw_context v) (vw_snapshot v) candidate)
                    fallbacks permitted ids s of
               (outcome, ids', s') \<Rightarrow>
                 if ro_code outcome = ROUTED
                 then (Some outcome, ids', update_route decision_id (mark_superseded (vw_now v)) s')
                 else walk_fallbacks providers v fallbacks permitted decision_id keys ids' s'))"

definition reroute_view :: "unix_millis \<Rightarrow> RouteRequest \<Rightarrow> RouteRecord \<Rightarrow> CanonicalState \<Rightarrow> PassView" where
  "reroute_view now request stored s =
     (let continuity = om_find (cs_last_winner_by_tenant s) (rec_tenant stored) in
      \<lparr>vw_request = request, vw_now = now, vw_limits = cs_limits s,
       vw_context = make_context s (rec_tenant stored) (rec_name_space stored) now,
       vw_policy = cs_policy s, vw_policy_code = ACCEPTED, vw_budget = cs_budget s, vw_slo = cs_slo s,
       vw_epoch = cs_router_epoch s, vw_coordinator_epoch = cs_coordinator_epoch s,
       vw_router_id = cs_router_id s,
       vw_continuity = (case continuity of None \<Rightarrow> 0 | Some b \<Rightarrow> b),
       vw_has_continuity = (continuity \<noteq> None), vw_weights = cs_weights s, vw_scales = cs_scales s,
       vw_snapshot = EvidenceSnapshot_capture s\<rparr>)"

definition reroute_refusal :: "OutcomeCode \<Rightarrow> string \<Rightarrow> RouteOutcome + 'a" where
  "reroute_refusal code message = Inl (RouteOutcome_make code ''reroute'' message)"

text \<open>The stages before the walk; the flag is the decision's stored outcome code.\<close>

definition reroute_policy ::
  "ProviderSet \<Rightarrow> PassView \<Rightarrow> OutcomeCode \<Rightarrow> FailureClass \<Rightarrow> RouteOutcome + PassView" where
  "reroute_policy providers v stored_code failure =
     and_then
       (case pr_policy providers of
          None \<Rightarrow> Inr (vw_policy v)
        | Some fetch \<Rightarrow>
            let r = fetch (rq_policy_id (vw_request v)) (rq_policy_generation (vw_request v)) (vw_context v) in
            if er_ok r then Inr (er_value r) else reroute_refusal (er_code r) (er_detail r))
       (\<lambda>fetched.
          let policy = PolicySnapshot_canonicalize fetched;
              verdict = evaluate_request policy (vw_request v) (vw_now v) in
          if \<not> policy_allowed verdict then reroute_refusal (pv_code verdict) (pv_detail verdict)
          else if \<not> fallback_permitted policy (rq_requirements (vw_request v)) stored_code
            then reroute_refusal REJECT_POLICY ''fallback is not permitted for this failure by policy''
          else if is_permanent failure
            then reroute_refusal REJECT_POLICY ''the failure class is permanent and may not be rerouted''
          else Inr (v\<lparr>vw_policy := policy\<rparr>))"

definition reroute_admit ::
  "ProviderSet \<Rightarrow> unix_millis \<Rightarrow> entity_id \<Rightarrow> FailureClass \<Rightarrow> RouteRequest \<Rightarrow> CanonicalState \<Rightarrow>
   RouteOutcome + PassView \<times> RouteRecord" where
  "reroute_admit providers now decision_id failure request s =
     (case om_find (cs_routes s) decision_id of
        None \<Rightarrow> reroute_refusal REJECT_INVALID ''route decision is not retained''
      | Some stored \<Rightarrow>
          if cs_shutting_down s then reroute_refusal SHUTTING_DOWN ''router is shutting down''
          else if rd_status (rec_decision stored) = RouteStatus.COMPLETED \<or>
                  rd_status (rec_decision stored) = RouteStatus.CANCELLED
            then reroute_refusal REJECT_INVALID ''route decision has reached a terminal state''
          else if rq_tenant request \<noteq> rec_tenant stored
            then reroute_refusal REJECT_CONFLICT
                   ''reroute request tenant does not match the route decision tenant''
          else if RouteRequest_expired request now
            then reroute_refusal REJECT_STALE_REQUEST ''reroute request has expired''
          else and_then (reroute_policy providers (reroute_view now request stored s)
                          (rd_code (rec_decision stored)) failure)
                 (\<lambda>v. Inr (v, stored)))"

definition reroute_fresh ::
  "ProviderSet \<Rightarrow> unix_millis \<Rightarrow> entity_id \<Rightarrow> RouteRequest \<Rightarrow> u64 \<Rightarrow> CanonicalState \<Rightarrow>
   RouteOutcome \<times> u64 \<times> CanonicalState" where
  "reroute_fresh providers now decision_id request ids s =
     (case route providers now request ids s of
        (fresh, ids', s') \<Rightarrow>
          if ro_code fresh = ROUTED
          then (fresh, ids',
                let superseded = update_route decision_id (mark_superseded now) s' in
                superseded\<lparr>cs_counters := (cs_counters superseded)
                  \<lparr>pc_reroutes := pc_reroutes (cs_counters superseded) + 1\<rparr>\<rparr>)
          else (fresh, ids', s'))"

definition normalize_reroute :: "RouteRequest \<Rightarrow> u64 \<Rightarrow> RouteRequest \<times> u64" where
  "normalize_reroute request ids =
     (let canonical = request\<lparr>rq_requirements := RouteRequirements_canonicalize (rq_requirements request)\<rparr>;
          (ids', i) = (if valid_id (rq_request_id request) then (ids, rq_request_id request)
                       else IdAllocator_next ids)
      in (canonical
            \<lparr>rq_request_id := i,
             rq_request_generation :=
               (if valid_id (rq_request_generation request) then rq_request_generation request else 1)\<rparr>,
          ids'))"

definition reroute ::
  "ProviderSet \<Rightarrow> unix_millis \<Rightarrow> entity_id \<Rightarrow> FailureClass \<Rightarrow> RouteRequest \<Rightarrow> u64 \<Rightarrow> CanonicalState \<Rightarrow>
   RouteOutcome \<times> u64 \<times> CanonicalState" where
  "reroute providers now decision_id failure request ids s =
     (case normalize_reroute request ids of
        (normalized, ids') \<Rightarrow>
          (case reroute_admit providers now decision_id failure normalized s of
             Inl refused \<Rightarrow> (refused, ids', s)
           | Inr (v, stored) \<Rightarrow>
               (case walk_fallbacks providers v (pl_fallbacks (rec_plan stored)) (permitted_fallbacks v)
                       decision_id (pl_fallbacks (rec_plan stored)) ids' s of
                  (Some outcome, ids'', s') \<Rightarrow> (outcome, ids'', s')
                | (None, ids'', s') \<Rightarrow> reroute_fresh providers now decision_id normalized ids'' s')))"

end
