(* ===== verification/Record_Sound.thy ===== *)
theory Record_Sound
  imports Route_Commit Router_Dispatch
begin

text \<open>
  What a retained route record says about itself: its explanation, authority, plan and ranking
  agree.  Every record that routing or rerouting commits is sound.
\<close>

definition explanation_sound :: "RouteExplanation \<Rightarrow> RouteRequest \<Rightarrow> CandidateKey \<Rightarrow> bool" where
  "explanation_sound x rq primary \<longleftrightarrow>
     xp_request_id x = rq_request_id rq \<and> ra_tenant (xp_authority x) = rq_tenant rq \<and>
     (xp_ranking x \<noteq> [] \<longrightarrow> rk_key (hd (xp_ranking x)) = primary) \<and>
     distinct (map rk_key (xp_ranking x)) \<and> ranked_by candidate_ranks_before (xp_ranking x)"

definition record_sound :: "RouteRecord \<Rightarrow> bool" where
  "record_sound r \<longleftrightarrow>
     (let d = rec_decision r; x = rd_explanation d in
      valid_id (rd_decision_generation d) \<and> rec_tenant r = ra_tenant (rd_authority d) \<and>
      xp_authority x = rd_authority d \<and> xp_request_id x = rd_request_id d \<and>
      (xp_ranking x \<noteq> [] \<longrightarrow> rk_key (hd (xp_ranking x)) = pl_primary (rec_plan r)) \<and>
      rd_fallbacks d = pl_fallbacks (rec_plan r) \<and> distinct (map rk_key (xp_ranking x)) \<and>
      ranked_by candidate_ranks_before (xp_ranking x) \<and> dc_require_revalidation (pl_constraints (rec_plan r)))"

text \<open>What a change of status leaves alone.\<close>

definition same_record :: "RouteRecord \<Rightarrow> RouteRecord \<Rightarrow> bool" where
  "same_record r r' \<longleftrightarrow>
     rd_decision_generation (rec_decision r') = rd_decision_generation (rec_decision r) \<and>
     rd_request_id (rec_decision r') = rd_request_id (rec_decision r) \<and>
     xp_authority (rd_explanation (rec_decision r')) = xp_authority (rd_explanation (rec_decision r)) \<and>
     xp_request_id (rd_explanation (rec_decision r')) = xp_request_id (rd_explanation (rec_decision r)) \<and>
     xp_ranking (rd_explanation (rec_decision r')) = xp_ranking (rd_explanation (rec_decision r))"

lemma same_record_refl [simp]: "same_record r r"
  by (simp add: same_record_def)

lemma same_record_marks [simp]:
  "same_record r (mark_stale r)" "same_record r (mark_current r)" "same_record r (mark_dispatched i r)"
  "same_record r (mark_superseded now r)" "same_record r (r\<lparr>rec_decision := (rec_decision r)\<lparr>rd_status := st\<rparr>\<rparr>)"
  by (simp_all add: same_record_def mark_stale_def mark_current_def mark_dispatched_def mark_superseded_def)

lemma record_sound_same:
  assumes "record_sound r" "same_record r r'" "rd_authority (rec_decision r') = rd_authority (rec_decision r)"
    "rd_fallbacks (rec_decision r') = rd_fallbacks (rec_decision r)" "rec_plan r' = rec_plan r" "rec_tenant r' = rec_tenant r"
  shows "record_sound r'"
  using assms by (simp add: record_sound_def same_record_def Let_def)

lemma record_sound_retained: "record_sound r \<Longrightarrow> record_sound (retained now s r)"
  by (auto simp: retained_def stale_decision_if_not_dispatchable_def mark_stale_def record_sound_def Let_def)

lemma built_record_sound:
  "explanation_sound x rq primary \<Longrightarrow> record_sound (built_record now rq policy permitted primary x ids s)"
  by (simp add: built_record_def record_sound_def explanation_sound_def seal_decision_def new_decision_def
      make_plan_def valid_id_def Let_def)

lemma ranked_number_from:
  "ranked_by candidate_ranks_before (number_from i cs) = ranked_by candidate_ranks_before cs"
proof (induction i cs rule: number_from.induct)
  case (2 i c cs)
  have "(\<forall>y \<in> set (number_from j cs). \<not> candidate_ranks_before y c) \<longleftrightarrow> (\<forall>y \<in> set cs. \<not> candidate_ranks_before y c)" for j
    by (induction j cs rule: number_from.induct) simp_all
  with 2 show ?case by (simp add: ranked_by_def)
qed simp

lemma pass_ranking_sound:
  "distinct (map rk_key (pass_ranking providers v s))" "ranked_by candidate_ranks_before (pass_ranking providers v s)"
  using pass_ranked_keys_distinct [of providers v s]
  by (simp_all add: pass_ranking_def ranked_number_from ranking.ranked_sort distinct_map_mset [OF mset_stable_sort_by])

lemma bound_tenant: "ra_tenant (fst (bind_authority providers v s cs winner)) = rq_tenant (vw_request v)"
  by (simp add: bind_authority_def Let_def split: option.split)

lemma draft_request_id:
  assumes "route_pass providers now request s1 s2 s3 = Drafted d"
  shows "xp_request_id (df_explanation d) = rq_request_id (vw_request (df_view d))"
  using assms
  by (auto simp: route_pass_def Let_def draft_route_def ranked_explanation_def base_explanation_def
      split: sum.splits if_splits prod.splits)

definition draft_sound :: "RouteDraft \<Rightarrow> bool" where
  "draft_sound d \<longleftrightarrow> explanation_sound (df_explanation d) (vw_request (df_view d)) (rk_key (df_winner d))"

lemma route_pass_sound:
  assumes "route_pass providers now request s1 s2 s3 = Drafted d"
  shows "draft_sound d"
  using route_pass_Drafted [OF assms] draft_request_id [OF assms] pass_ranking_sound bound_tenant
  by (simp add: draft_sound_def explanation_sound_def)

lemma fallback_sound:
  "explanation_sound (fallback_explanation v router_id c ev fallbacks permitted) (vw_request v) (rc_key c)"
  by (auto simp: explanation_sound_def fallback_explanation_def fallback_choice_def fallback_authority_def Let_def
      ranked_by_def split: prod.split)

end
