(* ===== verification/Route_Lifecycle.thy ===== *)
theory Route_Lifecycle
  imports Record_Sound
begin

text \<open>
  The life of a retained route decision.  \<open>lifecycle\<close> is the transition relation of its status;
  \<open>evolves\<close> is what every operation on the router promises of the whole history: the invariants
  are kept, fences stay, no decision changes what it is bound to, statuses move along
  \<open>lifecycle\<close>, and a decision that was dropped from the history never comes back.
\<close>

section \<open>Statuses\<close>

inductive lifecycle :: "RouteStatus \<Rightarrow> RouteStatus \<Rightarrow> bool" where
  went_stale: "st \<in> {RouteStatus.CURRENT, RouteStatus.STALE, DISPATCHED} \<Longrightarrow> lifecycle st RouteStatus.STALE"
| renewed: "st \<in> {RouteStatus.CURRENT, RouteStatus.STALE, DISPATCHED} \<Longrightarrow> lifecycle st RouteStatus.CURRENT"
| handed_off: "lifecycle RouteStatus.CURRENT DISPATCHED"
| completed: "lifecycle DISPATCHED RouteStatus.COMPLETED"
| failed: "lifecycle DISPATCHED RouteStatus.FAILED"
| superseded: "st \<noteq> RouteStatus.COMPLETED \<Longrightarrow> st \<noteq> RouteStatus.CANCELLED \<Longrightarrow> lifecycle st RouteStatus.SUPERSEDED"

inductive_cases lifecycle_completedE: "lifecycle RouteStatus.COMPLETED st"
inductive_cases lifecycle_to_completedE: "lifecycle st RouteStatus.COMPLETED"
inductive_cases lifecycle_to_dispatchedE: "lifecycle st DISPATCHED"

lemma lifecycle_step_final:
  "lifecycle st st' \<Longrightarrow> st \<noteq> RouteStatus.COMPLETED \<and> st \<noteq> RouteStatus.CANCELLED \<and>
     st' \<noteq> RouteStatus.CANCELLED \<and>
     (st = RouteStatus.SUPERSEDED \<or> st = RouteStatus.FAILED \<longrightarrow> st' = RouteStatus.SUPERSEDED)"
  by (erule lifecycle.cases) (simp_all, (elim disjE; simp)+)

text \<open>The statuses that a decision can still reach.\<close>

lemma lifecycle_final:
  assumes "lifecycle\<^sup>*\<^sup>* st st'"
  shows "(st = RouteStatus.COMPLETED \<longrightarrow> st' = RouteStatus.COMPLETED) \<and>
    (st = RouteStatus.CANCELLED \<longrightarrow> st' = RouteStatus.CANCELLED) \<and>
    (st = RouteStatus.SUPERSEDED \<longrightarrow> st' = RouteStatus.SUPERSEDED) \<and>
    (st = RouteStatus.FAILED \<longrightarrow> st' = RouteStatus.FAILED \<or> st' = RouteStatus.SUPERSEDED) \<and>
    (st' = RouteStatus.CANCELLED \<longrightarrow> st = RouteStatus.CANCELLED)"
  using assms
proof (induction rule: rtranclp_induct)
  case (step y z)
  then show ?case using lifecycle_step_final [OF step.hyps(2)] by argo
qed simp

section \<open>Histories\<close>

definition record_evolves :: "RouteRecord \<Rightarrow> RouteRecord \<Rightarrow> bool" where
  "record_evolves r r' \<longleftrightarrow>
     rd_decision_id (rec_decision r') = rd_decision_id (rec_decision r) \<and>
     rd_authority (rec_decision r') = rd_authority (rec_decision r) \<and>
     rd_fallbacks (rec_decision r') = rd_fallbacks (rec_decision r) \<and>
     rd_code (rec_decision r') = rd_code (rec_decision r) \<and>
     rec_plan r' = rec_plan r \<and> rec_tenant r' = rec_tenant r \<and> rec_name_space r' = rec_name_space r \<and>
     same_record r r' \<and>
     lifecycle\<^sup>*\<^sup>* (rd_status (rec_decision r)) (rd_status (rec_decision r'))"

lemma record_evolves_refl [simp]: "record_evolves r r"
  by (simp add: record_evolves_def)

lemma record_evolves_trans: "record_evolves a b \<Longrightarrow> record_evolves b c \<Longrightarrow> record_evolves a c"
  unfolding record_evolves_def same_record_def by (metis rtranclp_trans)

lemma record_evolves_sound: "record_evolves r r' \<Longrightarrow> record_sound r \<Longrightarrow> record_sound r'"
  unfolding record_evolves_def by (blast intro: record_sound_same)

text \<open>A router: the allocator's last identity and the canonical state.\<close>

type_synonym router = "u64 \<times> CanonicalState"

definition router_ok :: "router \<Rightarrow> bool" where
  "router_ok x \<longleftrightarrow>
     state_ok (snd x) \<and> history_ok (fst x) (snd x) \<and> max_route_history (cs_limits (snd x)) \<noteq> 0"

definition evolves :: "router \<Rightarrow> router \<Rightarrow> bool" where
  "evolves x y \<longleftrightarrow>
     router_ok y \<and> fst x \<le> fst y \<and> cs_limits (snd y) = cs_limits (snd x) \<and>
     (\<forall>i boot. is_fenced (snd x) i boot \<longrightarrow> is_fenced (snd y) i boot) \<and>
     (\<forall>i r r'. om_find (cs_routes (snd x)) i = Some r \<and> om_find (cs_routes (snd y)) i = Some r' \<longrightarrow>
        record_evolves r r') \<and>
     (\<forall>i r. om_find (cs_routes (snd x)) i = None \<and> om_find (cs_routes (snd y)) i = Some r \<longrightarrow>
        fst x < i \<and> record_sound r)"

lemma router_ok_maps: "router_ok x \<Longrightarrow> om_ok (cs_routes (snd x))"
  by (simp add: router_ok_def state_ok_def catalog_ok_def maps_ok_def)

lemma router_ok_bound: "router_ok x \<Longrightarrow> om_find (cs_routes (snd x)) i \<noteq> None \<Longrightarrow> i \<le> fst x"
  using om_find_dom [OF router_ok_maps] unfolding router_ok_def history_ok_def by blast

lemma evolves_record:
  "evolves x y \<Longrightarrow> om_find (cs_routes (snd x)) i = Some r \<Longrightarrow> om_find (cs_routes (snd y)) i = Some r' \<Longrightarrow>
   record_evolves r r'"
  unfolding evolves_def by blast

lemma evolves_new:
  "evolves x y \<Longrightarrow> om_find (cs_routes (snd x)) i = None \<Longrightarrow> om_find (cs_routes (snd y)) i \<noteq> None \<Longrightarrow> fst x < i"
  unfolding evolves_def by blast

lemma evolves_refl: "router_ok x \<Longrightarrow> evolves x x"
  unfolding evolves_def by auto

lemma evolves_trans:
  assumes "router_ok x" and xy: "evolves x y" and yz: "evolves y z"
  shows "evolves x z"
proof -
  have old: "om_find (cs_routes (snd x)) i \<noteq> None \<Longrightarrow> om_find (cs_routes (snd z)) i \<noteq> None \<Longrightarrow>
      om_find (cs_routes (snd y)) i \<noteq> None" for i
    using router_ok_bound [OF assms(1), of i] evolves_new [OF yz] xy unfolding evolves_def by (meson leD order_trans)
  have "record_evolves r r''"
    if retained: "om_find (cs_routes (snd x)) i = Some r" "om_find (cs_routes (snd z)) i = Some r''" for i r r''
  proof -
    obtain r' where "om_find (cs_routes (snd y)) i = Some r'" using old [of i] retained by auto
    then show ?thesis
      using evolves_record [OF xy retained(1)] evolves_record [OF yz _ retained(2)] record_evolves_trans
      by blast
  qed
  moreover have "fst x < i \<and> record_sound r"
    if new: "om_find (cs_routes (snd x)) i = None" "om_find (cs_routes (snd z)) i = Some r" for i r
  proof (cases "om_find (cs_routes (snd y)) i")
    case None
    then have "fst y < i" "record_sound r" "fst x \<le> fst y" using new xy yz unfolding evolves_def by blast+
    then show ?thesis by simp
  next
    case (Some q)
    then show ?thesis using new xy evolves_record [OF yz Some new(2)] record_evolves_sound unfolding evolves_def by blast
  qed
  moreover have "fst x \<le> fst z" using xy yz unfolding evolves_def by (meson order_trans)
  ultimately show ?thesis using xy yz unfolding evolves_def by auto
qed

section \<open>What the invariants do not read\<close>

definition core :: "CanonicalState \<Rightarrow> CanonicalState" where
  "core s = s\<lparr>cs_dispatches := om_empty, cs_dispatch_index := om_empty, cs_tenants := [],
              cs_last_winner_by_tenant := om_empty, cs_counters := PersistenceCounters_default,
              cs_last_eligible := 0, cs_last_rejected := 0\<rparr>"

lemma core_fields [simp]:
  "cs_routes (core s) = cs_routes s" "cs_route_order (core s) = cs_route_order s"
  "cs_limits (core s) = cs_limits s" "is_fenced (core s) i boot = is_fenced s i boot"
  by (simp_all add: core_def is_fenced_def)

lemma state_ok_core [simp]: "state_ok (core s) = state_ok s"
  by (simp add: core_def state_ok_def catalog_ok_def maps_ok_def models_ok_def
      backends_ok_def bounds_ok_def indexes_ok_def indexes_for_def fences_ok_def is_fenced_def)

lemma core_eq:
  assumes "core s = core s'"
  shows "cs_routes s = cs_routes s'" "cs_route_order s = cs_route_order s'" "cs_limits s = cs_limits s'"
    "is_fenced s = is_fenced s'" "state_ok s = state_ok s'"
proof -
  show "cs_routes s = cs_routes s'" by (metis assms core_fields(1))
  show "cs_route_order s = cs_route_order s'" by (metis assms core_fields(2))
  show "cs_limits s = cs_limits s'" by (metis assms core_fields(3))
  show "is_fenced s = is_fenced s'" by (intro ext) (metis assms core_fields(4))
  show "state_ok s = state_ok s'" by (metis assms state_ok_core)
qed

lemma router_ok_core: "core s = core s' \<Longrightarrow> router_ok (ids, s) = router_ok (ids, s')"
  unfolding router_ok_def history_ok_def records_ok_def fst_conv snd_conv by (simp only: core_eq [of s s'])

lemma evolves_core:
  assumes "core s = core s'"
  shows "evolves x (ids, s) = evolves x (ids, s')"
  unfolding evolves_def snd_conv fst_conv router_ok_core [OF assms] core_eq [OF assms] by (rule refl)

section \<open>Changing one record\<close>

lemma om_update_laws:
  assumes "om_ok m"
  shows "om_ok (om_update k f m)"
    and "om_find (om_update k f m) j = (if j = k then map_option f (om_find m k) else om_find m j)"
    and "fst ` set (om_update k f m) = fst ` set m"
proof -
  show ok: "om_ok (om_update k f m)" using assms by (simp add: om_update_def container_simps split: option.split)
  show "om_find (om_update k f m) j = (if j = k then map_option f (om_find m k) else om_find m j)" for j
    using assms by (simp add: om_update_def container_simps split: option.split)
  then have "om_find (om_update k f m) j \<noteq> None \<longleftrightarrow> om_find m j \<noteq> None" for j by simp
  then show "fst ` set (om_update k f m) = fst ` set m"
    using om_find_dom [OF ok] om_find_dom [OF assms] by blast
qed

lemma update_route_absent: "om_find (cs_routes s) i = None \<Longrightarrow> update_route i f s = s"
  by (simp add: update_route_def om_update_def)

lemma evolves_update:
  assumes ok: "router_ok (ids, s)" and found: "om_find (cs_routes s) i = Some r"
    and evolve: "record_evolves r (f r)"
    and fence: "live_record (f r) \<Longrightarrow> \<not> is_fenced s (ra_backend_id (rd_authority (rec_decision r)))
      (ra_backend_boot (rd_authority (rec_decision r)))"
  shows "evolves (ids, s) (ids, update_route i f s)"
proof -
  have maps: "om_ok (cs_routes s)" using router_ok_maps [OF ok] by simp
  note laws = om_update_laws [OF maps, of i f]
  have auth: "rd_authority (rec_decision (f r)) = rd_authority (rec_decision r)"
    using evolve by (simp add: record_evolves_def)
  have s: "state_ok s" "history_ok ids s" "max_route_history (cs_limits s) \<noteq> 0"
    using ok by (simp_all add: router_ok_def)
  have "catalog_ok (update_route i f s)"
    unfolding update_route_def using s(1) by (intro catalog_ok_routes laws(1)) (simp add: state_ok_def)
  moreover have "fences_ok (update_route i f s)"
    using s(1) found fence auth unfolding state_ok_def fences_ok_def update_route_def
    by (auto simp: laws(2) is_fenced_def split: if_splits)
  moreover have "records_ok (update_route i f s)"
    using s(2) found evolve unfolding history_ok_def records_ok_def record_evolves_def update_route_def
    by (auto simp: laws(2) split: if_splits)
  ultimately have "router_ok (ids, update_route i f s)"
    using s unfolding router_ok_def state_ok_def history_ok_def by (simp add: update_route_def laws(3))
  then show ?thesis
    using found evolve unfolding evolves_def
    by (auto simp: update_route_def laws(2) is_fenced_def split: if_splits)
qed

lemma status_marks:
  "rec_plan (mark_stale r) = rec_plan r" "rec_tenant (mark_stale r) = rec_tenant r"
  "record_evolves r (mark_stale r) \<longleftrightarrow> lifecycle\<^sup>*\<^sup>* (rd_status (rec_decision r)) RouteStatus.STALE"
  "record_evolves r (mark_current r) \<longleftrightarrow> lifecycle\<^sup>*\<^sup>* (rd_status (rec_decision r)) RouteStatus.CURRENT"
  "record_evolves r (mark_dispatched i r) \<longleftrightarrow> lifecycle\<^sup>*\<^sup>* (rd_status (rec_decision r)) DISPATCHED"
  "record_evolves r (mark_superseded now r) \<longleftrightarrow> lifecycle\<^sup>*\<^sup>* (rd_status (rec_decision r)) RouteStatus.SUPERSEDED"
  "record_evolves r (r\<lparr>rec_decision := (rec_decision r)\<lparr>rd_status := st\<rparr>\<rparr>) \<longleftrightarrow>
     lifecycle\<^sup>*\<^sup>* (rd_status (rec_decision r)) st"
  by (simp_all add: record_evolves_def same_record_def mark_stale_def mark_current_def mark_dispatched_def mark_superseded_def)

lemma status_mark_live:
  "\<not> live_record (mark_superseded now r)"
  "live_record (r\<lparr>rec_decision := (rec_decision r)\<lparr>rd_status := st\<rparr>\<rparr>) = live_status st"
  by (simp_all add: live_record_def live_status_def mark_superseded_def)

section \<open>Catalog mutations\<close>

lemma evolves_catalog:
  assumes ok: "router_ok (ids, s)" and ok': "state_ok s'" and step: "catalog_step s s'"
  shows "evolves (ids, s) (ids, s')"
proof -
  have same: "cs_route_order s' = cs_route_order s" "cs_limits s' = cs_limits s"
    using step by (simp_all add: catalog_step_def same_identity_def)
  have rel: "rel_option only_staled (om_find (cs_routes s) i) (om_find (cs_routes s') i)" for i
    using step by (simp add: catalog_step_def)
  have maps: "om_ok (cs_routes s)" "om_ok (cs_routes s')"
    using router_ok_maps [OF ok] ok' by (simp_all add: state_ok_def catalog_ok_def maps_ok_def)
  have "om_find (cs_routes s) i \<noteq> None \<longleftrightarrow> om_find (cs_routes s') i \<noteq> None" for i
    using rel [of i] by (auto simp: option.rel_sel)
  then have dom: "fst ` set (cs_routes s) = fst ` set (cs_routes s')"
    using om_find_dom [OF maps(1)] om_find_dom [OF maps(2)] by blast
  have evolve: "record_evolves r r'"
    if "om_find (cs_routes s) i = Some r" "om_find (cs_routes s') i = Some r'" for i r r'
  proof -
    have "only_staled r r'" using rel [of i] that by simp
    then show ?thesis
      by (auto simp: only_staled_def status_marks live_record_def live_status_def
          intro!: r_into_rtranclp lifecycle.went_stale)
  qed
  have "records_ok s'"
    unfolding records_ok_def
  proof (intro allI impI)
    fix i r' assume r': "om_find (cs_routes s') i = Some r'"
    then obtain r where r: "om_find (cs_routes s) i = Some r" using rel [of i] by (auto simp: option_rel_Some2)
    show "rd_decision_id (rec_decision r') = i \<and> ra_decision_id (rd_authority (rec_decision r')) = i \<and>
        pl_decision_id (rec_plan r') = i \<and> pl_fallbacks (rec_plan r') = rd_fallbacks (rec_decision r')"
      using evolve [OF r r'] ok r by (simp add: record_evolves_def router_ok_def history_ok_def records_ok_def)
  qed
  then have "router_ok (ids, s')"
    using ok ok' dom unfolding router_ok_def history_ok_def by (simp add: same)
  moreover have "om_find (cs_routes s) i = None \<Longrightarrow> om_find (cs_routes s') i = None" for i
    using rel [of i] by (auto simp: option.rel_sel)
  ultimately show ?thesis
    using step evolve unfolding evolves_def by (auto simp: same catalog_step_def)
qed

section \<open>Commits\<close>

lemma evict_find:
  assumes "router_ok (ids, s)"
  shows "om_find (cs_routes (evict_routes s)) i = None \<or>
    om_find (cs_routes (evict_routes s)) i = om_find (cs_routes s) i"
    and "cs_limits (evict_routes s) = cs_limits s" and "is_fenced (evict_routes s) j boot = is_fenced s j boot"
proof -
  have max: "max_route_history (cs_limits s) \<noteq> 0" and maps: "om_ok (cs_routes s)"
    using assms router_ok_maps [OF assms] by (simp_all add: router_ok_def)
  obtain order routes' where e: "evict_routes s = s\<lparr>cs_route_order := order, cs_routes := routes'\<rparr>"
    "\<forall>i. om_find routes' i = None \<or> om_find routes' i = om_find (cs_routes s) i"
    using evict_routes_window [OF max maps] by metis
  show "om_find (cs_routes (evict_routes s)) i = None \<or>
      om_find (cs_routes (evict_routes s)) i = om_find (cs_routes s) i"
    unfolding e(1) using e(2) by simp
  show "cs_limits (evict_routes s) = cs_limits s" "is_fenced (evict_routes s) j boot = is_fenced s j boot"
    unfolding e(1) by (simp_all add: is_fenced_def)
qed

lemma evolves_insert:
  assumes ok: "router_ok (ids, s)" and ids: "unat ids + 2 < 2 ^ 64"
    and r: "r = retained now (evict_routes s) (built_record t rq p n k e ids s')" and sound: "explanation_sound e rq k"
  shows "evolves (ids, s) (ids + 2, add_record (ids + 1) r (evict_routes s))"
proof -
  let ?e = "evict_routes s"
  have s: "state_ok s" "history_ok ids s" "max_route_history (cs_limits s) \<noteq> 0"
    using ok by (simp_all add: router_ok_def)
  note ev = evicted [OF s] and find = evict_find [OF ok] and alloc = allocate_two [OF ids]
  have maps: "om_ok (cs_routes ?e)" using ev(1) by (simp add: state_ok_def catalog_ok_def maps_ok_def)
  have "state_ok (add_record (ids + 1) r ?e)"
    unfolding r by (rule state_ok_add_record [OF ev(1) retained_live])
  moreover have "history_ok (ids + 2) (add_record (ids + 1) r ?e)"
    by (rule history_ok_add_record [OF ev(2) maps ids])
       (simp_all only: ev(3) find(2) r built_record_ok)
  moreover have "cs_limits (add_record (ids + 1) r ?e) = cs_limits s"
    by (simp add: add_record_def find(2))
  moreover have "is_fenced (add_record (ids + 1) r ?e) j boot = is_fenced s j boot" for j boot
    using find(3) by (simp add: add_record_def is_fenced_def)
  moreover have "ids \<le> ids + 2" using alloc by (meson less_imp_le order_trans)
  moreover have fresh: "om_find (cs_routes s) (ids + 1) = None"
    using router_ok_bound [OF ok, of "ids + 1"] alloc(3) by force
  have found: "om_find (cs_routes (add_record (ids + 1) r ?e)) i =
      (if i = ids + 1 then Some r else om_find (cs_routes ?e) i)" for i
    using maps by (simp add: add_record_def container_simps)
  have rsound: "record_sound r" unfolding r by (rule record_sound_retained [OF built_record_sound [OF sound]])
  have "record_evolves q q'"
    if "om_find (cs_routes s) i = Some q" "om_find (cs_routes (add_record (ids + 1) r ?e)) i = Some q'" for i q q'
  proof -
    have "i \<noteq> ids + 1" using that(1) fresh by auto
    then show ?thesis using that find(1) [of i] by (simp add: found)
  qed
  moreover have "ids < i \<and> record_sound q"
    if "om_find (cs_routes s) i = None" "om_find (cs_routes (add_record (ids + 1) r ?e)) i = Some q" for i q
    using that find(1) [of i] alloc(3) rsound by (auto simp: found split: if_splits)
  ultimately show ?thesis
    using s(3) unfolding evolves_def router_ok_def fst_conv snd_conv by auto
qed

lemma core_count [simp]:
  "core (count_route d s) = core s" "core (count_no_candidate rq outcome s) = core s"
  "core (count_fallback rq k s) = core s"
  "core (s\<lparr>cs_counters := c\<rparr>) = core s"
  by (simp_all add: core_def count_route_def count_no_candidate_def count_fallback_def note_tenant_def)

lemma evolves_commit_route:
  assumes "router_ok (ids, s)" and "unat ids + 2 < 2 ^ 64" and "draft_sound d"
  shows "evolves (ids, s) (snd (commit_route d ids s))"
proof -
  have "commit_ready ids s" using assms by (simp add: router_ok_def commit_ready_def)
  then show ?thesis
  proof (cases rule: commit_ready_cases [where d = d])
    case (committed r s')
    have "evolves (ids, s) (ids + 2, add_record (ids + 1) r (evict_routes s))"
      using assms(3) unfolding draft_sound_def
      by (intro evolves_insert [OF assms(1,2)]) (simp_all only: committed(2) committed_record_def)
    then show ?thesis
      unfolding committed(3,4) snd_conv by (subst evolves_core [OF core_count(1)])
  qed (simp add: evolves_refl [OF assms(1)])
qed

lemma normalize_ids:
  assumes "unat ids + 1 < 2 ^ 64"
  shows "snd (normalize_request now rq ids) \<in> {ids, ids + 1}" "snd (normalize_reroute rq ids) \<in> {ids, ids + 1}"
proof -
  have "ids \<noteq> kCeiling" using assms by auto
  then have "IdAllocator_next ids = (ids + 1, ids + 1)" by (simp add: IdAllocator_next_def Let_def)
  then show "snd (normalize_request now rq ids) \<in> {ids, ids + 1}" "snd (normalize_reroute rq ids) \<in> {ids, ids + 1}"
    by (simp_all add: normalize_request_def normalize_reroute_def Let_def)
qed

lemma evolves_ids:
  assumes "router_ok (ids, s)" and "unat ids + 1 < 2 ^ 64" and "ids' \<in> {ids, ids + 1}"
  shows "evolves (ids, s) (ids', s)" "unat ids' \<le> unat ids + 1"
proof -
  have le: "unat ids' \<in> {unat ids, unat ids + 1}" using assms(2,3) by (auto simp: unat_word_ariths)
  then have "ids \<le> ids'" by (auto simp: word_le_nat_alt)
  moreover from this have "history_ok ids' s"
    using assms(1) unfolding router_ok_def history_ok_def by (auto intro: order_trans)
  ultimately show "evolves (ids, s) (ids', s)" using assms(1) by (auto simp: evolves_def router_ok_def)
  show "unat ids' \<le> unat ids + 1" using le by auto
qed

lemma evolves_route:
  assumes ok: "router_ok (ids, s)" and ids: "unat ids + 3 < 2 ^ 64"
  shows "evolves (ids, s) (snd (route providers now rq ids s))"
proof -
  obtain rq' ids' where n: "normalize_request now rq ids = (rq', ids')" by (meson surj_pair)
  have ids': "ids' \<in> {ids, ids + 1}" using normalize_ids(1) [of ids now rq] ids n by simp
  have step: "evolves (ids, s) (ids', s)" and le: "unat ids' \<le> unat ids + 1"
    using evolves_ids [OF ok _ ids'] ids by simp_all
  then have ok': "router_ok (ids', s)" by (simp add: evolves_def)
  have "evolves (ids', s) (snd (commit_route d ids' s))" if "draft_sound d" for d
    using evolves_commit_route [OF ok' _ that] le ids by simp
  then have "evolves (ids', s) (snd (route providers now rq ids s))"
    using evolves_refl [OF ok'] route_pass_sound
    by (auto simp: route_def n evolves_core [OF core_count(2)] split: route_result.split)
  then show ?thesis using evolves_trans [OF ok step] by blast
qed

section \<open>Revalidation, dispatch and completion\<close>

lemma lookup_fields [simp]:
  "lk_authority (RouteLookup_from r) = rd_authority (rec_decision r)"
  "lk_status (RouteLookup_from r) = rd_status (rec_decision r)"
  "lk_tenant (RouteLookup_from r) = rec_tenant r" "lk_name_space (RouteLookup_from r) = rec_name_space r"
  by (simp_all add: RouteLookup_from_def Let_def)

definition open_status :: "RouteStatus \<Rightarrow> bool" where
  "open_status st \<longleftrightarrow> st \<in> {RouteStatus.CURRENT, RouteStatus.STALE, DISPATCHED}"

lemma open_status_cases:
  "open_status st \<longleftrightarrow> st \<noteq> RouteStatus.SUPERSEDED \<and> st \<noteq> RouteStatus.CANCELLED \<and>
     st \<noteq> RouteStatus.COMPLETED \<and> st \<noteq> RouteStatus.FAILED"
  by (cases st) (simp_all add: open_status_def)

lemma settle_judges:
  assumes "om_find (cs_routes s) i = Some r"
  defines "a \<equiv> rd_authority (rec_decision r)"
  shows "\<exists>result. revalidate_settle now i (RouteLookup_from r)
      (is_fenced s (ra_backend_id a) (ra_backend_boot a)) s s =
        (result, update_route i (if is_authority_dispatchable s a now then mark_current else mark_stale) s) \<and>
      mr_code result = dispatchability_reason s a now"
  using assms(1) compare_accepted_iff
  by (auto simp: a_def revalidate_settle_def revalidate_commit_def Let_def is_authority_dispatchable_def
      dispatchability_reason_def is_fenced_def MutationResult_make_def MutationResult_built_def
      split: option.splits)

text \<open>Revalidation either refuses and leaves the state alone, or it marks the decision: stale when
  its authority is not dispatchable, current when it is.\<close>

lemma revalidate_cases:
  obtains (rejected) result where "revalidate now i tenant ns s = (result, s)" "\<not> mr_accepted result"
  | (judged) r result where "om_find (cs_routes s) i = Some r" "open_status (rd_status (rec_decision r))"
      "\<not> cs_shutting_down s"
      "valid_id tenant \<Longrightarrow> tenant = rec_tenant r"
      "valid_id ns \<Longrightarrow> valid_id (rec_name_space r) \<Longrightarrow> ns = rec_name_space r"
      "revalidate now i tenant ns s = (result, update_route i
         (if is_authority_dispatchable s (rd_authority (rec_decision r)) now then mark_current else mark_stale) s)"
      "mr_code result = dispatchability_reason s (rd_authority (rec_decision r)) now"
proof (cases "revalidate_lookup i s")
  case (Inl e)
  then show ?thesis
    by (intro rejected [of e])
       (auto simp: revalidate_def revalidate_lookup_def MutationResult_make_def is_acceptance_def Let_def
         split: if_splits option.splits)
next
  case (Inr p)
  then obtain r where r: "om_find (cs_routes s) i = Some r" "\<not> cs_shutting_down s"
    "p = (RouteLookup_from r, is_fenced s (ra_backend_id (rd_authority (rec_decision r)))
            (ra_backend_boot (rd_authority (rec_decision r))))"
    by (auto simp: revalidate_lookup_def Let_def split: if_splits option.splits)
  let ?refusals = "revalidate_refusals tenant ns (RouteLookup_from r)"
  let ?settle = "revalidate_settle now i (RouteLookup_from r) (snd p) s s"
  have rev: "revalidate now i tenant ns s = attempt ''revalidate'' ?refusals s ?settle"
    using Inr r(3) by (simp add: revalidate_def)
  show ?thesis
  proof (cases rule: attempt_cases [of ?refusals "''revalidate''" s ?settle])
    case (refused g code message)
    then have "code \<in> {REJECT_CONFLICT, OutcomeCode.SUPERSEDED, REJECT_INVALID}"
      by (auto simp: revalidate_refusals_def tenancy_refusals_def)
    then show ?thesis
      using refused(3) by (intro rejected [of "MutationResult_make code ''revalidate'' message"])
        (auto simp: rev refuse_def MutationResult_make_def is_acceptance_def)
  next
    case performed
    let ?a = "rd_authority (rec_decision r)"
    have guards: "open_status (rd_status (rec_decision r))" "valid_id tenant \<Longrightarrow> tenant = rec_tenant r"
      "valid_id ns \<Longrightarrow> valid_id (rec_name_space r) \<Longrightarrow> ns = rec_name_space r"
      using performed(1) unfolding first_reject_None_iff open_status_cases
      by (auto simp: revalidate_refusals_def tenancy_refusals_def)
    have "\<exists>result. ?settle = (result, update_route i
        (if is_authority_dispatchable s ?a now then mark_current else mark_stale) s) \<and>
        mr_code result = dispatchability_reason s ?a now"
      using settle_judges [OF r(1)] by (simp add: r(3))
    then show ?thesis using judged [OF r(1) guards(1) r(2) guards(2,3)] performed(2) rev by auto
  qed
qed

lemma reason_acceptance: "is_acceptance (dispatchability_reason s a now) \<longleftrightarrow> is_authority_dispatchable s a now"
proof -
  have fields: "(c, field, code) \<in> set compared_fields \<Longrightarrow> \<not> is_acceptance code" for c field code
    by (auto simp: compared_fields_def is_acceptance_def)
  have "is_acceptance (ac_code (compare_authority a b m)) \<Longrightarrow>
      AuthorityComparison_current (compare_authority a b m)" for b m
  proof (cases "ac_differences (compare_authority a b m)")
    case (Cons d ds)
    then have "d \<in> set (ac_differences (compare_authority a b m))" by simp
    then have "\<not> is_acceptance (ad_code d)" unfolding set_compare_differences using fields by auto
    moreover assume "is_acceptance (ac_code (compare_authority a b m))"
    ultimately show ?thesis using Cons by (simp add: compare_code)
  qed (simp add: AuthorityComparison_current_def)
  then show ?thesis
    by (auto simp: is_authority_dispatchable_def dispatchability_reason_def lifecycle_reason_def Let_def
        is_acceptance_def split: option.splits if_splits)
qed

lemma evolves_revalidate:
  assumes "router_ok (ids, s)"
  shows "evolves (ids, s) (ids, snd (revalidate now i tenant ns s))"
proof (cases rule: revalidate_cases [of now i tenant ns s])
  case (judged r result)
  let ?f = "if is_authority_dispatchable s (rd_authority (rec_decision r)) now then mark_current else mark_stale"
  have "record_evolves r (?f r)"
    using judged(2)
    by (auto simp: status_marks open_status_def intro!: r_into_rtranclp lifecycle.went_stale lifecycle.renewed)
  moreover have "live_record (?f r) \<Longrightarrow> is_authority_dispatchable s (rd_authority (rec_decision r)) now"
    by (simp split: if_splits)
  ultimately have "evolves (ids, s) (ids, update_route i ?f s)"
    unfolding dispatchable_iff by (intro evolves_update [OF assms judged(1)]) blast+
  then show ?thesis by (simp only: judged(6) snd_conv)
qed (simp add: evolves_refl [OF assms])

text \<open>What a successful revalidation leaves behind.\<close>

lemma revalidate_accepted:
  assumes "router_ok (ids, s)" and "mr_accepted (fst (revalidate now i tenant ns s))"
  obtains r where "om_find (cs_routes s) i = Some r" "open_status (rd_status (rec_decision r))"
    "\<not> cs_shutting_down s" "valid_id tenant \<Longrightarrow> tenant = rec_tenant r"
    "valid_id ns \<Longrightarrow> valid_id (rec_name_space r) \<Longrightarrow> ns = rec_name_space r"
    "is_authority_dispatchable s (rd_authority (rec_decision r)) now"
    "snd (revalidate now i tenant ns s) = update_route i mark_current s"
    "om_find (cs_routes (update_route i mark_current s)) i = Some (mark_current r)"
proof (cases rule: revalidate_cases [of now i tenant ns s])
  case (judged r result)
  have "is_authority_dispatchable s (rd_authority (rec_decision r)) now"
    using assms(2) judged(6,7) by (simp add: reason_acceptance)
  moreover have "om_find (cs_routes (update_route i mark_current s)) i = Some (mark_current r)"
    using om_update_laws(2) [of "cs_routes s" i mark_current i] router_ok_maps [OF assms(1)] judged(1)
    by (simp add: update_route_def)
  ultimately show ?thesis using that [OF judged(1-5)] judged(6) by simp
qed (use assms(2) in simp)

lemma core_dispatch [simp]:
  "core (s\<lparr>cs_dispatches := d, cs_dispatch_index := x, cs_counters := c\<rparr>) = core s"
  "core (s\<lparr>cs_dispatches := d\<rparr>) = core s"
  by (simp_all add: core_def)

lemma mark_current_fields [simp]:
  "rd_status (rec_decision (mark_current r)) = RouteStatus.CURRENT"
  "rd_authority (rec_decision (mark_current r)) = rd_authority (rec_decision r)"
  by (simp_all add: mark_current_def)

lemma evolves_record_dispatch:
  assumes ok: "router_ok (ids, s)" and ids: "unat ids + 1 < 2 ^ 64"
    and found: "om_find (cs_routes s) i = Some r" and current: "live_record r"
  shows "evolves (ids, s) (snd (record_dispatch i epoch coordinator_epoch record ids s))"
proof -
  have "ids \<noteq> kCeiling" using ids by auto
  then have alloc: "IdAllocator_next ids = (ids + 1, ids + 1)" by (simp add: IdAllocator_next_def Let_def)
  have ids': "evolves (ids, s) (ids + 1, s)" using evolves_ids(1) [OF ok ids] by simp
  then have ok': "router_ok (ids + 1, s)" by (simp add: evolves_def)
  have "lifecycle\<^sup>*\<^sup>* RouteStatus.CURRENT DISPATCHED" using lifecycle.handed_off by (rule r_into_rtranclp)
  then have "record_evolves r (mark_dispatched (ids + 1) r)"
    using current by (auto simp: status_marks live_record_def live_status_def)
  moreover have "\<not> is_fenced s (ra_backend_id (rd_authority (rec_decision r)))
      (ra_backend_boot (rd_authority (rec_decision r)))"
    using ok found current unfolding router_ok_def state_ok_def fences_ok_def snd_conv by simp
  ultimately have "evolves (ids + 1, s) (ids + 1, update_route i (mark_dispatched (ids + 1)) s)"
    by (intro evolves_update [OF ok' found]) simp_all
  then have "evolves (ids, s) (ids + 1, update_route i (mark_dispatched (ids + 1)) s)"
    using evolves_trans [OF ok ids'] by blast
  then show ?thesis
    using evolves_refl [OF ok] found
    by (simp add: record_dispatch_def alloc Let_def evolves_core [OF core_dispatch(1)])
qed

lemma evolves_dispatch:
  assumes ok: "router_ok (ids, s)" and ids: "unat ids + 1 < 2 ^ 64"
  shows "evolves (ids, s) (snd (dispatch providers now i tenant ns ids s))"
proof -
  let ?s' = "snd (revalidate now i tenant ns s)"
  have step: "evolves (ids, s) (ids, ?s')" by (rule evolves_revalidate [OF ok])
  then have ok': "router_ok (ids, ?s')" by (simp add: evolves_def)
  have "evolves (ids, ?s') (snd (dispatch_handoff providers now i stored rec ids ?s'))"
    if accepted: "mr_accepted (fst (revalidate now i tenant ns s))" for stored rec
  proof -
    obtain r where r: "?s' = update_route i mark_current s" "om_find (cs_routes ?s') i = Some (mark_current r)"
      using revalidate_accepted [OF ok accepted] by metis
    show ?thesis
      using evolves_record_dispatch [OF ok' ids r(2)] evolves_refl [OF ok']
      by (auto simp: dispatch_handoff_def Let_def live_record_def live_status_def split: sum.split option.split)
  qed
  then have handoff: "mr_accepted (fst (revalidate now i tenant ns s)) \<Longrightarrow>
      evolves (ids, s) (snd (dispatch_handoff providers now i stored rec ids ?s'))" for stored rec
    using evolves_trans [OF ok step] by blast
  show ?thesis
    using evolves_refl [OF ok] step handoff
    by (auto simp: dispatch_def Let_def split_beta split: sum.split option.split)
qed

lemma evolves_completion:
  assumes "router_ok (ids, s)"
  shows "evolves (ids, s) (ids, snd (record_completion c s))"
proof (cases "snd (record_completion c s) = s")
  case False
  then obtain i r where r: "om_find (cs_routes s) i = Some r" "rd_status (rec_decision r) = DISPATCHED"
    and fin: "snd (record_completion c s) = update_route i
        (\<lambda>r. r\<lparr>rec_decision := (rec_decision r)\<lparr>rd_status :=
          (if completion_succeeds c then RouteStatus.COMPLETED else RouteStatus.FAILED)\<rparr>\<rparr>)
        (s\<lparr>cs_dispatches := om_update i
             (\<lambda>d. d\<lparr>dr_code := cr_code c, dr_failure := cr_failure c\<rparr>) (cs_dispatches s)\<rparr>)"
    by (auto simp: record_completion_def refuse_def Let_def split: option.splits if_splits)
  let ?f = "\<lambda>r. r\<lparr>rec_decision := (rec_decision r)\<lparr>rd_status :=
      (if completion_succeeds c then RouteStatus.COMPLETED else RouteStatus.FAILED)\<rparr>\<rparr>"
  have "evolves (ids, s) (ids, update_route i ?f s)"
    by (rule evolves_update [OF assms r(1)])
       (auto simp: status_marks status_mark_live r(2) live_status_def split: if_splits
         intro!: r_into_rtranclp lifecycle.completed lifecycle.failed)
  moreover have "core (update_route i ?f (s\<lparr>cs_dispatches := d\<rparr>)) = core (update_route i ?f s)" for d
    by (simp add: update_route_def core_def)
  ultimately show ?thesis unfolding fin using evolves_core by blast
qed (simp add: evolves_refl [OF assms])

section \<open>Reroute\<close>

lemma routes_count_fallback [simp]: "cs_routes (count_fallback rq k s) = cs_routes s"
  by (simp add: count_fallback_def note_tenant_def)

lemma evolves_single:
  assumes ok: "router_ok (ids, s)" and ids: "unat ids + 2 < 2 ^ 64"
  shows "evolves (ids, s) (snd (commit_single_candidate v c ev fallbacks permitted ids s))"
    and "unat (fst (snd (commit_single_candidate v c ev fallbacks permitted ids s))) \<le> unat ids + 2"
    and "om_find (cs_routes s) i = Some r \<Longrightarrow>
      om_find (cs_routes (snd (snd (commit_single_candidate v c ev fallbacks permitted ids s)))) i \<in> {None, Some r}"
proof -
  have s: "state_ok s" "history_ok ids s" "max_route_history (cs_limits s) \<noteq> 0"
    using ok by (simp_all add: router_ok_def)
  note ev = evicted [OF s]
  have e: "om_ok (cs_routes (evict_routes s))" "\<forall>i \<in> fst ` set (cs_routes (evict_routes s)). i \<le> ids"
    using ev(1,2) unfolding state_ok_def catalog_ok_def maps_ok_def history_ok_def by blast+
  let ?x = "fallback_explanation v (cs_router_id s) (with_capability_counts (vw_request v) (vw_now v) c) ev
      fallbacks permitted"
  let ?r = "built_record (vw_now v) (vw_request v) (vw_policy v) permitted
      (rc_key (with_capability_counts (vw_request v) (vw_now v) c)) ?x ids (evict_routes s)"
  have step: "evolves (ids, s) (ids + 2, add_record (ids + 1) (retained (vw_now v) (evict_routes s) ?r) (evict_routes s))"
    by (rule evolves_insert [OF ok ids refl fallback_sound])
  have cases: "snd (commit_single_candidate v c ev fallbacks permitted ids s) = (ids, s) \<or>
      snd (commit_single_candidate v c ev fallbacks permitted ids s) = (ids + 2,
        count_fallback (vw_request v) (rc_key (with_capability_counts (vw_request v) (vw_now v) c))
          (add_record (ids + 1) (retained (vw_now v) (evict_routes s) ?r) (evict_routes s)))"
    by (simp add: commit_single_candidate_def Let_def insert_decision_fresh [OF e ids refl])
  then show "evolves (ids, s) (snd (commit_single_candidate v c ev fallbacks permitted ids s))"
    using step evolves_refl [OF ok] by (auto simp: evolves_core [OF core_count(3)])
  show "unat (fst (snd (commit_single_candidate v c ev fallbacks permitted ids s))) \<le> unat ids + 2"
    using cases ids by (auto simp: unat_word_ariths)
  assume r: "om_find (cs_routes s) i = Some r"
  then have "i \<noteq> ids + 1" using router_ok_bound [OF ok, of i] allocate_two(3) [OF ids] by auto
  then show "om_find (cs_routes (snd (snd (commit_single_candidate v c ev fallbacks permitted ids s)))) i \<in> {None, Some r}"
    using cases r evict_find(1) [OF ok, of i] e(1) by (auto simp: add_record_def container_simps)
qed

lemma evolves_supersede:
  assumes "router_ok (ids, s)"
    and "\<And>r. om_find (cs_routes s) i = Some r \<Longrightarrow>
      rd_status (rec_decision r) \<noteq> RouteStatus.COMPLETED \<and> rd_status (rec_decision r) \<noteq> RouteStatus.CANCELLED"
  shows "evolves (ids, s) (ids, update_route i (mark_superseded now) s)"
proof (cases "om_find (cs_routes s) i")
  case None
  then show ?thesis by (simp add: update_route_absent evolves_refl [OF assms(1)])
next
  case (Some r)
  then show ?thesis
    using assms(2)
    by (intro evolves_update [OF assms(1) Some])
       (auto simp: status_marks status_mark_live intro!: r_into_rtranclp lifecycle.superseded)
qed

lemma evolves_walk:
  assumes "router_ok (ids, s)" and "unat ids + 2 * length keys < 2 ^ 64" and "i \<le> ids"
    and "\<And>r. om_find (cs_routes s) i = Some r \<Longrightarrow>
      rd_status (rec_decision r) \<noteq> RouteStatus.COMPLETED \<and> rd_status (rec_decision r) \<noteq> RouteStatus.CANCELLED"
  shows "evolves (ids, s) (snd (walk_fallbacks providers v fallbacks permitted i keys ids s)) \<and>
    unat (fst (snd (walk_fallbacks providers v fallbacks permitted i keys ids s))) \<le> unat ids + 2 * length keys \<and>
    (fst (walk_fallbacks providers v fallbacks permitted i keys ids s) = None \<longrightarrow>
     (\<forall>r. om_find (cs_routes (snd (snd (walk_fallbacks providers v fallbacks permitted i keys ids s)))) i = Some r \<longrightarrow>
        rd_status (rec_decision r) \<noteq> RouteStatus.COMPLETED \<and> rd_status (rec_decision r) \<noteq> RouteStatus.CANCELLED))"
  using assms
proof (induction keys arbitrary: ids s)
  case Nil
  then show ?case by (simp add: evolves_refl)
next
  case (Cons key keys)
  have skip: ?case if "walk_fallbacks providers v fallbacks permitted i (key # keys) ids s =
      walk_fallbacks providers v fallbacks permitted i keys ids s"
    using Cons.IH [OF Cons.prems(1) _ Cons.prems(3,4)] Cons.prems(2) unfolding that by auto
  show ?case
  proof (cases "build_candidate_from_catalog s (ck_model_id key) (ck_backend_id key)")
    case None
    then show ?thesis by (intro skip) simp
  next
    case (Some c)
    show ?thesis
    proof (cases "rc_key c = key")
      case False
      with Some show ?thesis by (intro skip) simp
    next
      case True
      let ?ev = "resolve_candidate providers (vw_request v) (vw_context v) (vw_snapshot v) c"
      obtain outcome ids' s' where single:
        "commit_single_candidate v c ?ev fallbacks permitted ids s = (outcome, ids', s')"
        by (cases "commit_single_candidate v c ?ev fallbacks permitted ids s") auto
      have ids: "unat ids + 2 < 2 ^ 64" using Cons.prems(2) by simp
      note one = evolves_single [OF Cons.prems(1) ids, where v = v and c = c and ev = ?ev
          and fallbacks = fallbacks and permitted = permitted, unfolded single fst_conv snd_conv]
      have ok': "router_ok (ids', s')" using one(1) by (simp add: evolves_def)
      have open': "rd_status (rec_decision r) \<noteq> RouteStatus.COMPLETED \<and>
          rd_status (rec_decision r) \<noteq> RouteStatus.CANCELLED" if "om_find (cs_routes s') i = Some r" for r
      proof (cases "om_find (cs_routes s) i")
        case None
        then have "ids < i" using one(1) that unfolding evolves_def by simp
        then show ?thesis using Cons.prems(3) by simp
      next
        case (Some q)
        then show ?thesis using one(3) [OF Some] that Cons.prems(4) by auto
      qed
      show ?thesis
      proof (cases "ro_code outcome = ROUTED")
        case routed: True
        have "evolves (ids', s') (ids', update_route i (mark_superseded (vw_now v)) s')"
          by (rule evolves_supersede [OF ok' open'])
        then have "evolves (ids, s) (ids', update_route i (mark_superseded (vw_now v)) s')"
          using evolves_trans [OF Cons.prems(1) one(1)] by blast
        then show ?thesis using one(2) by (simp add: Some True single routed)
      next
        case False
        have le: "unat ids' + 2 * length keys < 2 ^ 64" using one(2) Cons.prems(2) by simp
        have "i \<le> ids'" using one(1) Cons.prems(3) unfolding evolves_def by (auto intro: order_trans)
        note rest = Cons.IH [OF ok' le this open']
        have "evolves (ids, s) (snd (walk_fallbacks providers v fallbacks permitted i keys ids' s'))"
          using evolves_trans [OF Cons.prems(1) one(1)] rest by blast
        moreover have "walk_fallbacks providers v fallbacks permitted i (key # keys) ids s =
            walk_fallbacks providers v fallbacks permitted i keys ids' s'"
          using False by (simp add: Some True single)
        ultimately show ?thesis using rest one(2) by auto
      qed
    qed
  qed
qed

lemma commit_route_keeps:
  assumes ok: "router_ok (ids, s)" and ids: "unat ids + 2 < 2 ^ 64" and i: "i \<le> ids"
  shows "om_find (cs_routes (snd (snd (commit_route d ids s)))) i \<in> {None, om_find (cs_routes s) i}"
proof -
  have "commit_ready ids s" using ok ids by (simp add: router_ok_def commit_ready_def)
  then show ?thesis
  proof (cases rule: commit_ready_cases [where d = d])
    case (committed r s')
    have "om_ok (cs_routes (evict_routes s))"
      using evicted(1) ok unfolding router_ok_def state_ok_def catalog_ok_def maps_ok_def snd_conv fst_conv by blast
    moreover have "i \<noteq> ids + 1" using i allocate_two(3) [OF ids] by auto
    ultimately show ?thesis
      using evict_find(1) [OF ok, of i] by (simp add: committed(3,4) add_record_def container_simps)
  qed simp
qed

lemma route_keeps:
  assumes ok: "router_ok (ids, s)" and ids: "unat ids + 3 < 2 ^ 64" and i: "i \<le> ids"
  shows "om_find (cs_routes (snd (snd (route providers now rq ids s)))) i \<in> {None, om_find (cs_routes s) i}"
proof -
  obtain rq' ids' where n: "normalize_request now rq ids = (rq', ids')" by (meson surj_pair)
  have "ids' \<in> {ids, ids + 1}" using normalize_ids(1) [of ids now rq] ids n by simp
  then have ids': "evolves (ids, s) (ids', s)" "unat ids' \<le> unat ids + 1"
    using evolves_ids [OF ok] ids by simp_all
  then have ok': "router_ok (ids', s)" and i': "i \<le> ids'" using i by (auto simp: evolves_def)
  have "om_find (cs_routes (snd (snd (commit_route d ids' s)))) i \<in> {None, om_find (cs_routes s) i}" for d
    using commit_route_keeps [OF ok' _ i'] ids'(2) ids by simp
  then show ?thesis
    by (auto simp: route_def n count_no_candidate_def note_tenant_def split: route_result.split)
qed

lemma reroute_admit_Inr:
  assumes "reroute_admit providers now i failure rq s = Inr (v, stored)"
  shows "om_find (cs_routes s) i = Some stored \<and> \<not> cs_shutting_down s \<and>
    rd_status (rec_decision stored) \<noteq> RouteStatus.COMPLETED \<and>
    rd_status (rec_decision stored) \<noteq> RouteStatus.CANCELLED \<and> rq_tenant rq = rec_tenant stored"
  using assms by (auto simp: reroute_admit_def reroute_refusal_def and_then_Inr split: option.splits if_splits)

text \<open>The identities that a reroute may issue: one for the request, two for each fallback that is
  committed, three for a fresh routing pass.\<close>

definition reroute_identities :: "entity_id \<Rightarrow> CanonicalState \<Rightarrow> nat" where
  "reroute_identities i s =
     4 + 2 * (case om_find (cs_routes s) i of None \<Rightarrow> 0 | Some r \<Rightarrow> length (pl_fallbacks (rec_plan r)))"

lemma evolves_reroute_fresh:
  assumes ok: "router_ok (ids, s)" and ids: "unat ids + 3 < 2 ^ 64" and i: "i \<le> ids"
    and status: "\<And>r. om_find (cs_routes s) i = Some r \<Longrightarrow>
      rd_status (rec_decision r) \<noteq> RouteStatus.COMPLETED \<and> rd_status (rec_decision r) \<noteq> RouteStatus.CANCELLED"
  shows "evolves (ids, s) (snd (reroute_fresh providers now i rq ids s))"
proof -
  obtain fresh ids' s' where r: "route providers now rq ids s = (fresh, ids', s')"
    by (cases "route providers now rq ids s") auto
  have step: "evolves (ids, s) (ids', s')" using evolves_route [OF ok ids, of providers now rq] by (simp add: r)
  have "om_find (cs_routes s') i \<in> {None, om_find (cs_routes s) i}"
    using route_keeps [OF ok ids i, of providers now rq] by (simp add: r)
  then have "evolves (ids', s') (ids', update_route i (mark_superseded now) s')"
    using step status by (intro evolves_supersede) (auto simp: evolves_def)
  then have "evolves (ids, s) (ids', update_route i (mark_superseded now) s')"
    by (rule evolves_trans [OF ok step])
  then show ?thesis using step by (simp add: reroute_fresh_def r Let_def evolves_core [OF core_count(4)])
qed

lemma evolves_reroute:
  assumes ok: "router_ok (ids, s)" and ids: "unat ids + reroute_identities i s < 2 ^ 64"
  shows "evolves (ids, s) (snd (reroute providers now i failure rq ids s))"
proof -
  obtain rq' ids' where n: "normalize_reroute rq ids = (rq', ids')" by (meson surj_pair)
  have "unat ids + 1 < 2 ^ 64" using ids by (simp add: reroute_identities_def)
  moreover from this have "ids' \<in> {ids, ids + 1}" using normalize_ids(2) [of ids rq] n by simp
  ultimately have step: "evolves (ids, s) (ids', s)" and le: "unat ids' \<le> unat ids + 1"
    using evolves_ids [OF ok] by simp_all
  then have ok': "router_ok (ids', s)" by (simp add: evolves_def)
  show ?thesis
  proof (cases "reroute_admit providers now i failure rq' s")
    case (Inl e)
    then show ?thesis using step by (simp add: reroute_def n)
  next
    case (Inr p)
    obtain v stored where p: "p = (v, stored)" by (cases p)
    note adm = reroute_admit_Inr [OF Inr [unfolded p]]
    let ?keys = "pl_fallbacks (rec_plan stored)"
    obtain outcome ids2 s2 where w: "walk_fallbacks providers v ?keys (permitted_fallbacks v) i ?keys ids' s =
        (outcome, ids2, s2)" by (cases "walk_fallbacks providers v ?keys (permitted_fallbacks v) i ?keys ids' s") auto
    have i: "i \<le> ids'" using router_ok_bound [OF ok', of i] adm by simp
    have space: "unat ids' + 2 * length ?keys + 3 < 2 ^ 64"
      using ids le adm by (simp add: reroute_identities_def)
    have walk: "evolves (ids', s) (ids2, s2)" "unat ids2 \<le> unat ids' + 2 * length ?keys"
      "outcome = None \<Longrightarrow> \<forall>r. om_find (cs_routes s2) i = Some r \<longrightarrow>
         rd_status (rec_decision r) \<noteq> RouteStatus.COMPLETED \<and> rd_status (rec_decision r) \<noteq> RouteStatus.CANCELLED"
      using evolves_walk [OF ok' _ i, of ?keys providers v ?keys "permitted_fallbacks v"] space adm
      by (simp_all add: w)
    have s2: "evolves (ids, s) (ids2, s2)" by (rule evolves_trans [OF ok step walk(1)])
    show ?thesis
    proof (cases outcome)
      case (Some out)
      then show ?thesis using s2 by (simp add: reroute_def n Inr p w)
    next
      case None
      have "i \<le> ids2" using i walk(1) unfolding evolves_def by (auto intro: order_trans)
      then have "evolves (ids2, s2) (snd (reroute_fresh providers now i rq' ids2 s2))"
        using s2 walk(2) walk(3) [OF None] space
        by (intro evolves_reroute_fresh) (auto simp: evolves_def)
      then have "evolves (ids, s) (snd (reroute_fresh providers now i rq' ids2 s2))"
        by (rule evolves_trans [OF ok s2])
      then show ?thesis by (simp add: reroute_def n Inr p w None)
    qed
  qed
qed

end
