(* ===== verification/Dispatch_Safety.thy ===== *)
theory Dispatch_Safety
  imports Route_Lifecycle
begin

text \<open>
  When a route is handed to a backend, and what revalidation, completion and reroute decide.
\<close>

section \<open>The stages of a dispatch\<close>

lemma om_find_put_same: "om_find (om_put k v m) k = Some v"
  by (induction k v m rule: om_put.induct) auto

lemma dispatch_record_fields [simp]:
  "\<not> dr_handed_off (dispatch_record i stored)" "dr_target (dispatch_record i stored) = pl_primary (rec_plan stored)"
  by (simp_all add: dispatch_record_def DispatchRecord_default_def)

lemma handed_off_recorded:
  assumes "dr_handed_off (fst (dispatch providers now i tenant ns ids s))"
    and "dr_code (fst (dispatch providers now i tenant ns ids s)) = OutcomeCode.DISPATCHED"
  obtains stored c answer where "om_find (cs_routes s) i = Some stored"
    "mr_accepted (fst (revalidate now i tenant ns s))"
    "build_candidate_from_catalog (snd (revalidate now i tenant ns s))
       (ck_model_id (pl_primary (rec_plan stored))) (ck_backend_id (pl_primary (rec_plan stored))) = Some c"
    "rc_key c = pl_primary (rec_plan stored)"
    "eligible (target_verdict providers now stored (snd (revalidate now i tenant ns s)) c)"
    "dr_target answer = rc_key c" "dr_code answer = OutcomeCode.DISPATCHED" "dr_handed_off answer"
    "let s' = snd (revalidate now i tenant ns s) in
     dispatch providers now i tenant ns ids s =
       record_dispatch i (cs_router_epoch s') (cs_coordinator_epoch s') answer ids s'"
proof -
  let ?s = "snd (revalidate now i tenant ns s)"
  obtain stored where start: "dispatch_start i s = Inr stored"
    using assms by (cases "dispatch_start i s")
      (auto simp: dispatch_def dispatch_start_def Let_def DispatchRecord_default_def split: if_splits option.splits)
  then have stored: "om_find (cs_routes s) i = Some stored"
    by (auto simp: dispatch_start_def Let_def split: if_splits option.splits)
  let ?rec = "(dispatch_record i stored)\<lparr>dr_revalidated := True\<rparr>"
  have none: "first_reject (tenancy_refusals tenant ns (rec_tenant stored) (rec_name_space stored)) = None"
    and accepted: "mr_accepted (fst (revalidate now i tenant ns s))"
    and rest: "dispatch providers now i tenant ns ids s = dispatch_handoff providers now i stored ?rec ids ?s"
    using assms start
    by (auto simp: dispatch_def Let_def split_beta split: option.splits if_splits)
  obtain c where target: "dispatch_target providers now stored ?s ?s ?rec = Inr c"
    using assms unfolding rest
    by (cases "dispatch_target providers now stored ?s ?s ?rec")
       (auto simp: dispatch_handoff_def dispatch_target_def Let_def split: option.splits if_splits)
  then have c: "build_candidate_from_catalog ?s (ck_model_id (pl_primary (rec_plan stored)))
      (ck_backend_id (pl_primary (rec_plan stored))) = Some c" "rc_key c = pl_primary (rec_plan stored)"
    "eligible (target_verdict providers now stored ?s c)"
    by (auto simp: dispatch_target_def Let_def split: option.splits if_splits)
  obtain handoff where h: "pr_dispatcher providers = Some handoff"
    using assms unfolding rest
    by (cases "pr_dispatcher providers")
       (auto simp: dispatch_handoff_def target)
  let ?answer = "handoff_record now i stored c (handoff (rec_decision stored) (rec_plan stored)
      (make_context ?s (rec_tenant stored) (rec_name_space stored) now))"
  have off: "dr_handed_off ?answer"
    using assms unfolding rest by (auto simp: dispatch_handoff_def target h Let_def split: if_splits)
  then have "dr_target ?answer = rc_key c" "dr_code ?answer = OutcomeCode.DISPATCHED"
    by (auto simp: handoff_record_def Let_def split: if_splits)
  moreover have "dispatch providers now i tenant ns ids s =
      record_dispatch i (cs_router_epoch ?s) (cs_coordinator_epoch ?s) ?answer ids ?s"
    unfolding rest using off by (simp add: dispatch_handoff_def target h Let_def)
  ultimately show ?thesis using that [OF stored accepted c _ _ off] by (simp add: Let_def)
qed

lemma handed_off_revalidated:
  assumes "dr_handed_off (fst (dispatch providers now i tenant ns ids s))"
  shows "mr_accepted (fst (revalidate now i tenant ns s))"
proof -
  obtain stored where "dispatch_start i s = Inr stored"
    using assms by (cases "dispatch_start i s")
      (auto simp: dispatch_def dispatch_start_def Let_def DispatchRecord_default_def split: if_splits option.splits)
  then show ?thesis
    using assms by (auto simp: dispatch_def Let_def split_beta split: option.splits if_splits)
qed

text \<open>Marking a decision current changes nothing that discovery, evidence or eligibility read.\<close>

lemma update_route_frame:
  "build_candidate_from_catalog (update_route i f s) j k = build_candidate_from_catalog s j k"
  "target_verdict providers now stored (update_route i f s) c = target_verdict providers now stored s c"
  "target_evidence providers now stored (update_route i f s) c = target_evidence providers now stored s c"
  by (simp_all add: update_route_def build_candidate_from_catalog_def target_verdict_def
      target_evidence_def make_context_def EvidenceSnapshot_capture_def cong: option.case_cong)

lemma redispatch_canonical: "requirements_canonical (rq_requirements (redispatch_request stored))"
  by (simp add: redispatch_request_def Let_def requirements_canonical_def RouteRequirements_default_def)

text \<open>What revalidation asks of a retained decision before it judges the authority.\<close>

definition revalidation_admitted :: "entity_id \<Rightarrow> entity_id \<Rightarrow> CanonicalState \<Rightarrow> RouteRecord \<Rightarrow> bool" where
  "revalidation_admitted tenant ns s r \<longleftrightarrow> \<not> cs_shutting_down s \<and>
     (valid_id tenant \<longrightarrow> tenant = rec_tenant r) \<and>
     (valid_id ns \<and> valid_id (rec_name_space r) \<longrightarrow> ns = rec_name_space r) \<and>
     open_status (rd_status (rec_decision r))"

lemma revalidate_judges:
  assumes "om_find (cs_routes s) i = Some r" and "revalidation_admitted tenant ns s r"
  shows "\<exists>result. revalidate now i tenant ns s = (result, update_route i
      (if is_authority_dispatchable s (rd_authority (rec_decision r)) now then mark_current else mark_stale) s) \<and>
      mr_code result = dispatchability_reason s (rd_authority (rec_decision r)) now"
proof -
  have "list_all (\<lambda>g. \<not> fst g) (revalidate_refusals tenant ns (RouteLookup_from r))"
    using assms(2)
    by (auto simp: revalidation_admitted_def revalidate_refusals_def tenancy_refusals_def open_status_cases)
  then show ?thesis
    using settle_judges [OF assms(1), of now] assms
    by (simp add: revalidation_admitted_def revalidate_def revalidate_lookup_def Let_def attempt_performed)
qed

lemma revalidate_refuses:
  assumes "\<And>r. om_find (cs_routes s) i = Some r \<Longrightarrow> \<not> revalidation_admitted tenant ns s r"
  shows "snd (revalidate now i tenant ns s) = s" and "mr_code (fst (revalidate now i tenant ns s)) \<noteq> ACCEPTED"
  using assms
  by (cases rule: revalidate_cases [of now i tenant ns s];
      auto simp: revalidation_admitted_def is_acceptance_def)+

section \<open>A sample dispatch\<close>

text \<open>A handler that accepts every handoff.\<close>

definition sample_handler :: ProviderSet where
  "sample_handler = ProviderSet_default\<lparr>pr_dispatcher :=
     Some (\<lambda>d p x. DispatchRecord_default\<lparr>dr_code := OutcomeCode.DISPATCHED\<rparr>)\<rparr>"

lemma sample_router_ok: "router_ok (100, sample_state)"
  using sample_commit_ready by (simp add: router_ok_def commit_ready_def)

lemma sample_lookup: "om_find (cs_routes sample_state) 40 = Some sample_record"
  by (simp add: sample_state_def sample_state_with_def)

lemma sample_record_fields:
  "rd_authority (rec_decision sample_record) = sample_authority"
  "rd_status (rec_decision sample_record) = RouteStatus.CURRENT"
  "rec_tenant sample_record = 4" "rec_name_space sample_record = 0"
  "pl_primary (rec_plan sample_record) = CandidateKey 3 1 1 7 1 1 9 1"
  by (simp_all add: sample_record_def sample_decision_def RouteDecision_default_def sample_plan_def)

lemma sample_not_stopping: "\<not> cs_shutting_down sample_state"
  by (simp add: sample_state_def sample_state_with_def CanonicalState_default_def)

lemma sample_revalidated:
  "snd (revalidate 50 40 4 0 sample_state) = update_route 40 mark_current sample_state \<and>
   mr_code (fst (revalidate 50 40 4 0 sample_state)) = ACCEPTED"
proof -
  have "\<exists>result. revalidate 50 40 4 0 sample_state = (result, update_route 40 mark_current sample_state) \<and>
      mr_code result = ACCEPTED"
    using revalidate_judges [OF sample_lookup, of 4 0 50] sample_dispatchable sample_not_stopping
    by (simp add: sample_record_fields valid_id_def open_status_def is_authority_dispatchable_def
        revalidation_admitted_def)
  then show ?thesis by auto
qed

lemma sample_target:
  "build_candidate_from_catalog sample_state 3 7 = Some sample_found"
  by (simp add: sample_state_def sample_state_with_def sample_found_def build_candidate_from_catalog_def
      find_binding_def find_by_key_def lower_bound_def lower_bound_loop.simps sample_defs Let_def)

lemma sample_found_fields:
  "rc_key sample_found = rc_key sample_candidate" "rc_model sample_found = sample_model"
  "rc_backend sample_found = sample_backend" "rc_endpoint sample_found = sample_endpoint"
  "rc_context_limit_tokens sample_found = 8192" "rc_quality_class sample_found = 5"
  by (simp_all add: sample_found_def sample_candidate_def)

lemma sample_target_eligible:
  "eligible (target_verdict sample_handler 50 sample_record sample_state sample_found)"
proof -
  let ?rq = "redispatch_request sample_record"
  let ?ev = "target_evidence sample_handler 50 sample_record sample_state sample_found"
  have rq: "rq_requirements ?rq = RouteRequirements_default" "rq_budget_id ?rq = 0"
    "rq_estimated_input_tokens ?rq = 0" "rq_estimated_output_tokens ?rq = 0"
    by (simp_all add: redispatch_request_def Let_def sample_record_fields sample_authority_def
        RouteAuthority_default_def)
  have st: "cs_policy sample_state = sample_policy" "cs_budget sample_state = BudgetSnapshot_default"
    by (simp_all add: sample_state_def sample_state_with_def CanonicalState_default_def)
  have compat: "cv_compatibility ?ev = CompatibilityEvidence_default"
    by (simp add: target_evidence_def resolve_candidate_def Let_def split_beta resolve_compatibility_def
        sample_handler_def ProviderSet_default_def EvidenceSnapshot_capture_def sample_state_def
        sample_state_with_def CanonicalState_default_def om_empty_def)
  have "identity_current sample_found 50"
    using sample_identity by (simp add: identity_current_def sample_found_fields sample_candidate_def)
  moreover have "live_state_proven (rq_requirements ?rq) sample_found ?ev 50"
    by (simp add: live_state_proven_def proven_def sample_found_fields sample_defs rq
        RouteRequirements_default_def valid_id_def BackendEvidence_expired_def expired_at_def)
  moreover have "capability_proven ?rq sample_found ?ev 50"
    by (simp add: capability_proven_def sample_found_fields sample_defs RouteRequirements_default_def
        modality_covers_def rq)
  moreover have "placement_admitted (rq_requirements ?rq) sample_found"
    by (simp add: placement_admitted_def sample_found_fields sample_defs RouteRequirements_default_def
        filter_admits_def rq)
  moreover have "budget_admits (Some BudgetSnapshot_default) ?rq 50"
    by (simp add: budget_admits_def rq valid_id_def)
  moreover have "economics_admit ?rq sample_found ?ev 50"
    by (simp add: economics_admit_def sample_found_fields sample_defs RouteRequirements_default_def
        CompatibilityEvidence_default_def rq compat)
  moreover have "policy_cost sample_found = policy_cost sample_candidate"
  proof -
    have "rc_backend sample_candidate = sample_backend" by (simp add: sample_candidate_def)
    then show ?thesis unfolding policy_cost_def sample_found_fields by (simp only:)
  qed
  ultimately have "hard_eligible ?rq sample_found sample_policy (Some BudgetSnapshot_default) ?ev 50"
    unfolding hard_eligible_def evaluate_candidate_allowed_iff
      candidate_checks_admit [OF sample_policy_canonical]
    using sample_policy_admits
    by (simp add: policy_identity_admits_def policy_placement_admits_def policy_evidence_admits_def
        sample_found_fields sample_candidate_def)
  then show ?thesis
    by (simp add: target_verdict_def st evaluate_eligible_iff hard_checks_None [OF redispatch_canonical])
qed

lemma sample_dispatched:
  "dr_handed_off (fst (dispatch sample_handler 50 40 4 0 100 sample_state)) \<and>
   dr_code (fst (dispatch sample_handler 50 40 4 0 100 sample_state)) = OutcomeCode.DISPATCHED"
proof -
  let ?s = "update_route 40 mark_current sample_state"
  let ?rec = "(dispatch_record 40 sample_record)\<lparr>dr_revalidated := True\<rparr>"
  have "dispatch_start 40 sample_state = Inr sample_record"
    using sample_not_stopping by (simp add: dispatch_start_def sample_lookup)
  moreover have "first_reject (tenancy_refusals 4 0 (rec_tenant sample_record) (rec_name_space sample_record)) = None"
    by (simp add: tenancy_refusals_def sample_record_fields valid_id_def)
  ultimately have d: "dispatch sample_handler 50 40 4 0 100 sample_state =
      dispatch_handoff sample_handler 50 40 sample_record ?rec 100 ?s"
    using sample_revalidated by (simp add: dispatch_def Let_def split_beta is_acceptance_def)
  have t: "dispatch_target sample_handler 50 sample_record ?s ?s ?rec = Inr sample_found"
    using sample_target_eligible
    by (simp add: dispatch_target_def sample_record_fields update_route_frame sample_target sample_found_fields
        sample_candidate_def Let_def)
  have r: "om_find (cs_routes ?s) 40 \<noteq> None"
    by (simp add: update_route_def om_update_def sample_lookup om_find_put_same)
  show ?thesis
    unfolding d dispatch_handoff_def t using r
    by (simp add: sample_handler_def handoff_record_def record_dispatch_def Let_def split_beta)
qed

definition sample_completion :: CompletionRecord where
  "sample_completion = \<lparr>cr_dispatch_id = 0, cr_decision_id = 40, cr_code = OutcomeCode.COMPLETED,
     cr_failure = FailureClass.UNKNOWN, cr_observed_latency_micros = 900, cr_observed_time_to_first_token_micros = 80,
     cr_observed_at = 60, cr_detail = []\<rparr>"

lemma sample_marked_ok: "router_ok (100, update_route 40 (mark_dispatched 41) sample_state)"
proof -
  have "\<not> is_fenced sample_state 7 1"
    by (simp add: is_fenced_def sample_state_def sample_state_with_def CanonicalState_default_def om_empty_def)
  then have "evolves (100, sample_state) (100, update_route 40 (mark_dispatched 41) sample_state)"
    by (intro evolves_update [OF sample_router_ok sample_lookup])
       (auto simp: status_marks sample_record_fields sample_authority_def intro: lifecycle.handed_off)
  then show ?thesis by (simp add: evolves_def)
qed

section \<open>Properties\<close>



text \<open>
  (C21) Revalidation is exact.  It accepts precisely when the router is not shutting down and the
  decision is retained, asked for by its tenant and namespace as far as they are named, still
  open, and its authority is dispatchable now; the decision is then current.  A decision that
  passes the guards but not the authority check is marked stale and the reason is reported; in
  every other case nothing changes.
\<close>

theorem revalidate_exact:
  "(mr_code (fst (revalidate now i tenant ns s)) = ACCEPTED \<longleftrightarrow>
     (\<exists>r. om_find (cs_routes s) i = Some r \<and> revalidation_admitted tenant ns s r \<and>
        is_authority_dispatchable s (rd_authority (rec_decision r)) now)) \<and>
   snd (revalidate now i tenant ns s) =
     (case om_find (cs_routes s) i of
        None \<Rightarrow> s
      | Some r \<Rightarrow>
          if \<not> revalidation_admitted tenant ns s r then s
          else if is_authority_dispatchable s (rd_authority (rec_decision r)) now
            then update_route i mark_current s
          else update_route i mark_stale s)"
proof (cases "\<exists>r. om_find (cs_routes s) i = Some r \<and> revalidation_admitted tenant ns s r")
  case True
  then obtain r where r: "om_find (cs_routes s) i = Some r" "revalidation_admitted tenant ns s r" by blast
  then show ?thesis
    using revalidate_judges [OF r, of now] by (auto simp: is_authority_dispatchable_def)
next
  case False
  then have no: "\<And>r. om_find (cs_routes s) i = Some r \<Longrightarrow> \<not> revalidation_admitted tenant ns s r" by blast
  show ?thesis
    using revalidate_refuses [OF no] no by (auto split: option.split)
qed

theorem revalidate_exact_witness:
  "mr_code (fst (revalidate 50 40 4 0 sample_state)) = ACCEPTED \<and>
   snd (revalidate 50 40 4 0 sample_state) = update_route 40 mark_current sample_state"
  using revalidate_exact [of 50 40 4 0 sample_state] sample_lookup sample_not_stopping sample_dispatchable
  by (simp add: sample_record_fields valid_id_def open_status_def revalidation_admitted_def)

lemma record_completion_performed:
  assumes "completion_target c s = Some i" "om_find (cs_routes s) i = Some r"
    "rd_status (rec_decision r) = RouteStatus.DISPATCHED" "om_ok (cs_routes s)"
  defines "st \<equiv> if completion_succeeds c then RouteStatus.COMPLETED else RouteStatus.FAILED"
  shows "mr_code (fst (record_completion c s)) =
      (if completion_succeeds c then OutcomeCode.COMPLETED else OutcomeCode.FAILED)"
    and "om_find (cs_routes (snd (record_completion c s))) j =
      (if j = i then Some (r\<lparr>rec_decision := (rec_decision r)\<lparr>rd_status := st\<rparr>\<rparr>) else om_find (cs_routes s) j)"
  using assms
  by (auto simp: record_completion_def Let_def update_route_def om_update_laws(2) MutationResult_built_def)

lemma record_completion_refused:
  assumes "completion_target c s = Some i" "om_find (cs_routes s) i = Some r"
    "rd_status (rec_decision r) \<noteq> RouteStatus.DISPATCHED"
  shows "mr_code (fst (record_completion c s)) = REJECT_CONFLICT" and "snd (record_completion c s) = s"
  using assms by (simp_all add: record_completion_def refuse_def MutationResult_make_def)



text \<open>
  (C23) A decision is out of reach of other tenants.  A caller that names another tenant than the
  one the decision was made for is refused by revalidation, dispatch and reroute alike: the state
  stays exactly as it was, nothing is handed off and nothing is routed.
\<close>

theorem tenants_are_isolated:
  assumes "om_find (cs_routes s) i = Some r" and "valid_id tenant" and "tenant \<noteq> rec_tenant r"
    and "rq_tenant request = tenant"
  shows "snd (revalidate now i tenant ns s) = s \<and> mr_code (fst (revalidate now i tenant ns s)) \<noteq> ACCEPTED \<and>
    snd (dispatch providers now i tenant ns ids s) = (ids, s) \<and>
    \<not> dr_handed_off (fst (dispatch providers now i tenant ns ids s)) \<and>
    snd (snd (reroute providers now i failure request ids s)) = s \<and>
    ro_code (fst (reroute providers now i failure request ids s)) \<noteq> ROUTED \<and>
    \<not> ro_has_decision (fst (reroute providers now i failure request ids s))"
proof -
  have "\<not> revalidation_admitted tenant ns s r'" if "om_find (cs_routes s) i = Some r'" for r'
    using that assms(1-3) by (simp add: revalidation_admitted_def)
  note refused = revalidate_refuses [OF this]
  moreover have "snd (dispatch providers now i tenant ns ids s) = (ids, s) \<and>
      \<not> dr_handed_off (fst (dispatch providers now i tenant ns ids s))"
    using assms(1-3)
    by (simp add: dispatch_def dispatch_start_def tenancy_refusals_def Let_def DispatchRecord_default_def)
  moreover have "\<exists>refused ids'. reroute providers now i failure request ids s = (refused, ids', s) \<and>
      ro_code refused \<noteq> ROUTED \<and> \<not> ro_has_decision refused"
  proof -
    obtain rq ids' where n: "normalize_reroute request ids = (rq, ids')" by fastforce
    then have "rq_tenant rq \<noteq> rec_tenant r"
      using assms(3,4) by (auto simp: normalize_reroute_def Let_def split: prod.splits if_splits)
    then show ?thesis
      using assms(1) by (simp add: reroute_def n reroute_admit_def reroute_refusal_def RouteOutcome_make_def)
  qed
  ultimately show ?thesis by auto
qed

theorem tenants_are_isolated_witness:
  "om_find (cs_routes sample_state) 40 = Some sample_record \<and>
   snd (dispatch sample_handler 50 40 5 0 100 sample_state) = (100, sample_state)"
  using tenants_are_isolated [OF sample_lookup, of 5 "sample_request\<lparr>rq_tenant := 5\<rparr>" 50 0 sample_handler 100]
    sample_lookup
  by (simp add: sample_record_fields valid_id_def)

end
