(* ===== verification/Router_Persist.thy ===== *)
theory Router_Persist
  imports Route_Lifecycle
begin

text \<open>
  The durable state of the router: its data and validation (\<open>include/model_router/persistence.hpp\<close>
  and the head of \<open>src/persistence.cpp\<close>), export and conservative import
  (\<open>src/router_persist.cpp\<close>), and \<open>start\<close> and \<open>shutdown\<close> of \<open>src/router.cpp\<close>.  The file itself is
  read and written outside these definitions: what was loaded is an argument of \<open>start\<close>.
\<close>

section \<open>Durable data\<close>

record PersistedBackendRecord =
  pb_backend_id :: entity_id
  pb_backend_generation :: generation
  pb_last_boot :: generation
  pb_last_registration_generation :: generation
  pb_provider_id :: entity_id
  pb_provider_generation :: generation
  pb_endpoint_id :: entity_id
  pb_last_endpoint_generation :: generation
  pb_trust_profile_id :: entity_id
  pb_trust_generation :: generation
  pb_trust_domain :: TrustDomain
  pb_locality :: LocalityKey
  pb_network_distance :: u32
  pb_capability_profile_id :: entity_id
  pb_capability_generation :: generation
  pb_capabilities :: CapabilityProfile
  pb_model_bindings :: "ModelBinding list"
  pb_offline_capable :: bool
  pb_provenance :: Provenance
  pb_registered_at :: unix_millis

record PersistedRouteRecord =
  pt_decision_id :: entity_id
  pt_decision_generation :: generation
  pt_request_id :: entity_id
  pt_request_generation :: generation
  pt_winner :: CandidateKey
  pt_fallbacks :: "CandidateKey list"
  pt_authority :: RouteAuthority
  pt_status :: RouteStatus
  pt_code :: OutcomeCode
  pt_cost :: CostEvidence
  pt_policy_generation :: generation
  pt_price_generation :: generation
  pt_budget_generation :: generation
  pt_slo_generation :: generation
  pt_semantic_digest :: string
  pt_requirement_digest :: string
  pt_created_at :: unix_millis

text \<open>\<open>PersistedModelRecord\<close> wraps one \<open>ModelDescriptor\<close>; the list holds the descriptors.\<close>

record RouterPersistentState =
  sp_router_id :: entity_id
  sp_router_generation :: generation
  sp_last_router_epoch :: generation
  sp_last_coordinator_epoch :: generation
  sp_last_boot :: generation
  sp_limits :: ResourceLimits
  sp_weights :: RankingWeights
  sp_last_policy_generation :: generation
  sp_last_price_generation :: generation
  sp_last_budget_generation :: generation
  sp_last_slo_generation :: generation
  sp_last_capability_generation :: generation
  sp_last_model_generation :: generation
  sp_last_backend_generation :: generation
  sp_models :: "ModelDescriptor list"
  sp_backends :: "PersistedBackendRecord list"
  sp_fenced_boots :: "FencedBootRecord list"
  sp_routes :: "PersistedRouteRecord list"
  sp_counters :: PersistenceCounters
  sp_saved_at :: unix_millis
  sp_last_started_at :: unix_millis

definition fenced_key :: "FencedBootRecord \<Rightarrow> entity_id \<times> generation \<times> generation \<times> OutcomeCode" where
  "fenced_key r = (fb_backend_id r, fb_backend_boot r, fb_backend_generation r, fb_reason r)"

definition RouterPersistentState_canonicalize :: "RouterPersistentState \<Rightarrow> RouterPersistentState" where
  "RouterPersistentState_canonicalize p =
     p\<lparr>sp_models := sort_key (\<lambda>m. (md_model_id m, md_model_generation m)) (sp_models p),
       sp_backends := map (\<lambda>b. b\<lparr>pb_model_bindings := sort_key mb_model_id (pb_model_bindings b)\<rparr>)
         (sort_key pb_backend_id (sp_backends p)),
       sp_fenced_boots := sort_key fenced_key (sp_fenced_boots p),
       sp_routes := sort_key pt_decision_id (sp_routes p)\<rparr>"

definition validate_backend_record :: "ResourceLimits \<Rightarrow> PersistedBackendRecord \<Rightarrow> string" where
  "validate_backend_record limits r =
     (if \<not> valid_id (pb_backend_id r) \<or> \<not> valid_id (pb_backend_generation r) \<or> \<not> valid_id (pb_last_boot r)
        then ''durable backend record has an invalid identity''
      else if length (pb_model_bindings r) > unat (max_model_bindings_per_backend limits)
        then ''durable backend record exceeds the model binding limit''
      else if length (cp_entries (pb_capabilities r)) > unat (max_capability_entries_per_backend limits)
        then ''durable backend record exceeds the capability limit''
      else [])"

text \<open>The loops of \<open>validate\<close> return the first error.\<close>

definition first_invalid :: "('a \<Rightarrow> string) \<Rightarrow> 'a list \<Rightarrow> string" where
  "first_invalid f xs = (case filter (\<lambda>x. f x \<noteq> []) xs of [] \<Rightarrow> [] | x # _ \<Rightarrow> f x)"

definition RouterPersistentState_validate :: "RouterPersistentState \<Rightarrow> ResourceLimits \<Rightarrow> string" where
  "RouterPersistentState_validate p limits = first_error
     [if valid_id (sp_router_id p) then [] else ''durable state has no router identity'',
      if valid_id (sp_router_generation p) then [] else ''durable state has no router generation'',
      if ResourceLimits_validate limits = [] then []
      else ''durable limits are incoherent: '' @ ResourceLimits_validate limits,
      if RankingWeights_validate (sp_weights p) = [] then []
      else ''durable ranking weights are incoherent: '' @ RankingWeights_validate (sp_weights p),
      if length (sp_models p) \<le> unat (max_models limits) then []
      else ''durable model record count exceeds the configured limit'',
      if length (sp_backends p) \<le> unat (max_backends limits) then []
      else ''durable backend record count exceeds the configured limit'',
      if length (sp_fenced_boots p) \<le> unat (max_backend_incarnations limits) then []
      else ''durable fenced incarnation count exceeds the configured limit'',
      if length (sp_routes p) \<le> unat (max_route_history limits) then []
      else ''durable route record count exceeds the configured limit'',
      if length (sp_models p) + length (sp_backends p) + length (sp_fenced_boots p) + length (sp_routes p)
           \<le> unat (max_persistence_records limits) then []
      else ''durable record count exceeds the configured limit'',
      first_invalid (\<lambda>m. let error = ModelDescriptor_validate m in
        if error = [] then [] else ''durable model record is invalid: '' @ error) (sp_models p),
      first_invalid (validate_backend_record limits) (sp_backends p),
      first_invalid (\<lambda>r. if valid_id (fb_backend_id r) \<and> valid_id (fb_backend_boot r) then []
        else ''durable fenced record has an invalid identity'') (sp_fenced_boots p),
      first_invalid (\<lambda>r. if valid_id (pt_decision_id r) \<and> valid_id (pt_decision_generation r) then []
        else ''durable route record has an invalid identity'') (sp_routes p)]"

section \<open>Export\<close>

definition persist_backend :: "BackendDescriptor \<Rightarrow> PersistedBackendRecord" where
  "persist_backend b =
     \<lparr>pb_backend_id = bd_backend_id b, pb_backend_generation = bd_backend_generation b,
      pb_last_boot = bd_backend_boot b,
      pb_last_registration_generation = bd_backend_registration_generation b,
      pb_provider_id = bd_provider_id b, pb_provider_generation = bd_provider_generation b,
      pb_endpoint_id = ed_endpoint_id (bd_endpoint b),
      pb_last_endpoint_generation = ed_endpoint_generation (bd_endpoint b),
      pb_trust_profile_id = bd_trust_profile_id b, pb_trust_generation = bd_trust_generation b,
      pb_trust_domain = bd_trust_domain b, pb_locality = bd_locality b,
      pb_network_distance = bd_network_distance b,
      pb_capability_profile_id = bd_capability_profile_id b,
      pb_capability_generation = bd_capability_generation b, pb_capabilities = bd_capabilities b,
      pb_model_bindings = bd_model_bindings b, pb_offline_capable = bd_offline_capable b,
      pb_provenance = bd_provenance b, pb_registered_at = bd_registered_at b\<rparr>"

definition persist_route :: "RouteRecord \<Rightarrow> PersistedRouteRecord" where
  "persist_route r =
     (let d = rec_decision r; a = rd_authority d in
      \<lparr>pt_decision_id = rd_decision_id d, pt_decision_generation = rd_decision_generation d,
       pt_request_id = rd_request_id d, pt_request_generation = rd_request_generation d,
       pt_winner = pl_primary (rec_plan r), pt_fallbacks = rd_fallbacks d, pt_authority = a,
       pt_status = rd_status d, pt_code = rd_code d, pt_cost = xp_cost (rd_explanation d),
       pt_policy_generation = ra_policy_generation a, pt_price_generation = ra_price_generation a,
       pt_budget_generation = ra_budget_generation a, pt_slo_generation = ra_slo_generation a,
       pt_semantic_digest = xp_semantic_digest (rd_explanation d),
       pt_requirement_digest = xp_requirement_digest (rd_explanation d),
       pt_created_at = rd_created_at d\<rparr>)"

text \<open>A loop that keeps the larger of two generations.\<close>

definition highest :: "generation list \<Rightarrow> generation" where
  "highest gs = foldl max 0 gs"

definition export_persistent_state :: "unix_millis \<Rightarrow> u64 \<Rightarrow> CanonicalState \<Rightarrow> RouterPersistentState" where
  "export_persistent_state now ids s =
     (let models = map snd (cs_models s); backends = map snd (cs_backends s) in
      RouterPersistentState_canonicalize
        \<lparr>sp_router_id = cs_router_id s, sp_router_generation = cs_router_generation s,
         sp_last_router_epoch = cs_router_epoch s, sp_last_coordinator_epoch = cs_coordinator_epoch s,
         sp_last_boot = cs_router_boot s, sp_limits = cs_limits s, sp_weights = cs_weights s,
         sp_last_policy_generation = ps_generation (cs_policy s),
         sp_last_price_generation =
           highest (concat (map (\<lambda>b. map (\<lambda>d. co_price_generation (mb_cost d)) (bd_model_bindings b)) backends)),
         sp_last_budget_generation = bs_generation (cs_budget s),
         sp_last_slo_generation = sl_generation (cs_slo s),
         sp_last_capability_generation =
           highest (map md_capability_generation models @ map bd_capability_generation backends),
         sp_last_model_generation = highest (map md_model_generation models),
         sp_last_backend_generation = highest (map bd_backend_generation backends),
         sp_models = models, sp_backends = map persist_backend backends,
         sp_fenced_boots = map snd (cs_fenced_boots s),
         sp_routes = map (\<lambda>(i, r). persist_route r) (cs_routes s),
         sp_counters = (cs_counters s)\<lparr>pc_highest_identity_issued := ids\<rparr>,
         sp_saved_at = now, sp_last_started_at = cs_started_at s\<rparr>)"

section \<open>Import\<close>

definition observed_as :: "'state \<Rightarrow> PersistedBackendRecord \<Rightarrow> 'state BackendEvidence" where
  "observed_as unknown_state r =
     (BackendEvidence_default unknown_state)
       \<lparr>be_backend_id := pb_backend_id r, be_backend_boot := pb_last_boot r\<rparr>"

definition restore_backend :: "PersistedBackendRecord \<Rightarrow> BackendDescriptor" where
  "restore_backend r = BackendDescriptor_canonicalize
     \<lparr>bd_backend_id = pb_backend_id r, bd_backend_generation = pb_backend_generation r,
      bd_backend_boot = pb_last_boot r,
      bd_backend_registration_generation = pb_last_registration_generation r,
      bd_provider_id = pb_provider_id r, bd_provider_generation = pb_provider_generation r,
      bd_endpoint =
        \<lparr>ed_endpoint_id = pb_endpoint_id r, ed_endpoint_generation = pb_last_endpoint_generation r,
         ed_backend_id = pb_backend_id r, ed_backend_boot = pb_last_boot r,
         ed_reference = ''recovered'', ed_protocol = [], ed_protocol_version = 0\<rparr>,
      bd_trust_profile_id = pb_trust_profile_id r, bd_trust_generation = pb_trust_generation r,
      bd_trust_domain = pb_trust_domain r, bd_locality = pb_locality r,
      bd_network_distance = pb_network_distance r,
      bd_capability_profile_id = pb_capability_profile_id r,
      bd_capability_generation = pb_capability_generation r, bd_capabilities = pb_capabilities r,
      bd_compatibility_profile_id = 0, bd_compatibility_generation = 0,
      bd_model_bindings = pb_model_bindings r,
      bd_health = observed_as HealthState.UNKNOWN r,
      bd_availability = observed_as AvailabilityState.UNKNOWN r,
      bd_readiness = observed_as ReadinessState.UNKNOWN r,
      bd_residency = observed_as ResidencyState.UNKNOWN r,
      bd_capacity = observed_as CapacityState.UNKNOWN r,
      bd_capacity_detail = CapacityDetail_default,
      bd_latency = LatencyEvidence_default
        \<lparr>le_backend_id := pb_backend_id r, le_backend_boot := pb_last_boot r\<rparr>,
      bd_reliability_ppm = 0, bd_offline_capable = pb_offline_capable r,
      bd_provenance = pb_provenance r, bd_registered_at = pb_registered_at r,
      bd_expires_at = kNoExpiry\<rparr>"

definition restore_route :: "entity_id \<Rightarrow> PersistedRouteRecord \<Rightarrow> RouteRecord" where
  "restore_route plan_id r =
     \<lparr>rec_decision = RouteDecision_default
        \<lparr>rd_decision_id := pt_decision_id r, rd_decision_generation := pt_decision_generation r,
         rd_request_id := pt_request_id r, rd_request_generation := pt_request_generation r,
         rd_status := RouteStatus.STALE, rd_code := pt_code r, rd_authority := pt_authority r,
         rd_fallbacks := pt_fallbacks r, rd_created_at := pt_created_at r,
         rd_explanation := RouteExplanation_default
           \<lparr>xp_request_id := pt_request_id r, xp_request_generation := pt_request_generation r,
            xp_winner := pt_winner r, xp_authority := pt_authority r, xp_cost := pt_cost r,
            xp_requirement_digest := pt_requirement_digest r,
            xp_semantic_digest := pt_semantic_digest r, xp_fallback_order := pt_fallbacks r,
            xp_currentness := RECONSTRUCTED, xp_revalidation_required := True,
            xp_detail_retained := False\<rparr>\<rparr>,
      rec_plan = RoutePlan_default
        \<lparr>pl_plan_id := plan_id, pl_plan_generation := 1, pl_decision_id := pt_decision_id r,
         pl_decision_generation := pt_decision_generation r, pl_primary := pt_winner r,
         pl_fallbacks := pt_fallbacks r, pl_authority := pt_authority r,
         pl_constraints := DispatchConstraints_default\<lparr>dc_require_revalidation := True\<rparr>,
         pl_created_at := pt_created_at r\<rparr>,
      rec_tenant = ra_tenant (pt_authority r), rec_name_space = ra_name_space (pt_authority r)\<rparr>"

text \<open>Every restored route gets a new plan identity.\<close>

fun restore_routes ::
  "PersistedRouteRecord list \<Rightarrow> u64 \<Rightarrow> (entity_id, RouteRecord) omap \<Rightarrow> entity_id list \<Rightarrow>
   u64 \<times> (entity_id, RouteRecord) omap \<times> entity_id list" where
  "restore_routes [] ids routes order = (ids, routes, order)"
| "restore_routes (r # rs) ids routes order =
     (let (ids', plan_id) = IdAllocator_next ids in
      restore_routes rs ids' (om_put (pt_decision_id r) (restore_route plan_id r) routes)
        (order @ [pt_decision_id r]))"

text \<open>A map filled by assigning each element of a list under its key, in order.\<close>

definition om_assign :: "('a \<Rightarrow> 'k::linorder) \<Rightarrow> ('a \<Rightarrow> 'v) \<Rightarrow> 'a list \<Rightarrow> ('k, 'v) omap" where
  "om_assign key val xs = foldl (\<lambda>m x. om_put (key x) (val x) m) om_empty xs"

definition restored_state ::
  "RouterPersistentState \<Rightarrow> (entity_id, RouteRecord) omap \<Rightarrow> entity_id list \<Rightarrow> CanonicalState \<Rightarrow>
   CanonicalState" where
  "restored_state p routes order s =
     s\<lparr>cs_router_id := sp_router_id p, cs_router_generation := sp_router_generation p,
       cs_router_epoch := generation_next (sp_last_router_epoch p),
       cs_coordinator_epoch := generation_next (sp_last_coordinator_epoch p),
       cs_router_boot := sp_last_boot p, cs_limits := sp_limits p, cs_weights := sp_weights p,
       cs_counters := sp_counters p, cs_started_at := sp_last_started_at p, cs_recovered := True,
       cs_models := om_assign md_model_id (\<lambda>m. m) (sp_models p),
       cs_model_generation_watermark := om_assign md_model_id md_model_generation (sp_models p),
       cs_backends := om_assign pb_backend_id restore_backend (sp_backends p),
       cs_backend_generation_watermark := om_assign pb_backend_id pb_backend_generation (sp_backends p),
       cs_fenced_boots := om_assign (\<lambda>f. (fb_backend_id f, fb_backend_boot f)) (\<lambda>f. f) (sp_fenced_boots p),
       cs_routes := routes, cs_route_order := order, cs_dispatches := om_empty,
       cs_dispatch_index := om_empty, cs_compatibility := om_empty, cs_trust := om_empty,
       cs_costs := om_empty, cs_reservations := om_empty, cs_last_winner_by_tenant := om_empty,
       cs_tenants := [], cs_policy := PolicySnapshot_default, cs_budget := BudgetSnapshot_default,
       cs_slo := SloEvidence_default\<rparr>"

definition import_persistent_state ::
  "RouterPersistentState \<Rightarrow> u64 \<Rightarrow> CanonicalState \<Rightarrow> MutationResult \<times> u64 \<times> CanonicalState" where
  "import_persistent_state persisted ids s =
     (let p = RouterPersistentState_canonicalize persisted;
          error = RouterPersistentState_validate p (cs_limits s) in
      if error \<noteq> [] then (MutationResult_make REJECT_INVALID ''load'' error, ids, s)
      else if cs_running s
        then (MutationResult_make REJECT_CONFLICT ''load''
                ''durable state cannot be loaded while the router is running'', ids, s)
      else
        let (ids', routes, order) = restore_routes (sp_routes p) ids om_empty [];
            s' = rebuild_indexes (restored_state p routes order s)
        in (MutationResult_built ACCEPTED ''load''
              ''durable state restored; dynamic evidence invalidated and old dispatch authority invalidated''
              [add_u64 ''router_id'' (cs_router_id s'), add_u64 ''router_epoch'' (cs_router_epoch s'),
               add_u64 ''coordinator_epoch'' (cs_coordinator_epoch s'),
               add_size ''models'' (length (cs_models s')), add_size ''backends'' (length (cs_backends s')),
               add_size ''fenced_boots'' (length (cs_fenced_boots s')),
               add_size ''route_history'' (length (cs_routes s'))],
            IdAllocator_observe (pc_highest_identity_issued (sp_counters p)) ids', s'))"

section \<open>Start and shutdown\<close>

text \<open>What reading the durable file gave: nothing was asked for, an error, or a decoded state.\<close>

datatype load_result = NotLoaded | LoadFailed OutcomeCode string | Loaded RouterPersistentState

definition publish_start :: "unix_millis \<Rightarrow> CanonicalState \<Rightarrow> CanonicalState" where
  "publish_start now s =
     s\<lparr>cs_router_boot := generation_next (cs_router_boot s),
       cs_router_epoch := generation_next (cs_router_epoch s),
       cs_coordinator_epoch := generation_next (cs_coordinator_epoch s),
       cs_running := True, cs_shutting_down := False, cs_started_at := now\<rparr>"

definition start_published :: "unix_millis \<Rightarrow> u64 \<Rightarrow> CanonicalState \<Rightarrow> MutationResult \<times> u64 \<times> CanonicalState" where
  "start_published now ids s =
     (if cs_running s
        then (MutationResult_make NO_CHANGE ''start'' ''router is already running'', ids, s)
      else
        let s' = publish_start now s in
        (MutationResult_built ACCEPTED ''start''
           ''router identity published; dynamic evidence requires fresh publication''
           [add_u64 ''router_id'' (cs_router_id s'), add_u64 ''router_generation'' (cs_router_generation s'),
            add_u64 ''router_epoch'' (cs_router_epoch s'),
            add_u64 ''coordinator_epoch'' (cs_coordinator_epoch s'),
            add_u64 ''router_boot'' (cs_router_boot s'), add_bool ''recovered'' (cs_recovered s')],
         ids, s'))"

definition start ::
  "string \<Rightarrow> load_result \<Rightarrow> unix_millis \<Rightarrow> u64 \<Rightarrow> CanonicalState \<Rightarrow> MutationResult \<times> u64 \<times> CanonicalState" where
  "start options_error loaded now ids s =
     (if options_error \<noteq> []
        then (MutationResult_make REJECT_INVALID ''start'' (''router options are invalid: '' @ options_error), ids, s)
      else if cs_running s
        then (MutationResult_make NO_CHANGE ''start'' ''router is already running'', ids, s)
      else
        let stopped = s\<lparr>cs_shutting_down := False\<rparr> in
        (case loaded of
           NotLoaded \<Rightarrow> start_published now ids stopped
         | LoadFailed code detail \<Rightarrow>
             if detail \<noteq> []
               then (MutationResult_make code ''start'' (''durable state could not be loaded: '' @ detail), ids, stopped)
             else start_published now ids stopped
         | Loaded persisted \<Rightarrow>
             (case import_persistent_state persisted ids stopped of
                (imported, ids', s') \<Rightarrow>
                  if \<not> mr_accepted imported then (imported, ids', s')
                  else start_published now ids' s')))"

text \<open>The state change of \<open>shutdown\<close>, and what it hands to the file; \<open>saved\<close> is the outcome of
  writing the file, if it is written.\<close>

definition stop_current :: "RouteRecord \<Rightarrow> RouteRecord" where
  "stop_current r =
     (if rd_status (rec_decision r) = RouteStatus.CURRENT
      then r\<lparr>rec_decision := (rec_decision r)\<lparr>rd_status := RouteStatus.STALE\<rparr>\<rparr> else r)"

definition shutdown_state :: "CanonicalState \<Rightarrow> CanonicalState" where
  "shutdown_state s =
     s\<lparr>cs_shutting_down := True, cs_routes := om_map_values stop_current (cs_routes s),
       cs_running := False\<rparr>"

definition shutdown :: "bool \<Rightarrow> (OutcomeCode \<times> string) \<Rightarrow> CanonicalState \<Rightarrow> mutation" where
  "shutdown should_save saved s =
     (if \<not> cs_running s \<and> \<not> cs_shutting_down s
        then (MutationResult_make NO_CHANGE ''shutdown'' ''router is not running'', s)
      else
        let s' = shutdown_state s in
        if should_save \<and> fst saved \<noteq> ACCEPTED
          then (MutationResult_make INTERNAL_ERROR ''shutdown''
                  (''durable state could not be saved: '' @ snd saved), s')
        else (MutationResult_built ACCEPTED ''shutdown'' ''router stopped accepting route requests''
                [add_u64 ''router_epoch'' (cs_router_epoch s'), add_bool ''persisted'' should_save], s'))"

end
