(* ===== verification/Router_System.thy ===== *)
theory Router_System
  imports Router_Persist Router_Catalog Route_Liveness
begin

text \<open>
  The router as a state machine: every public operation that changes state is a command, and
  \<open>reachable\<close> is what any sequence of them, in any order and at any times, can lead to within one
  process.  The interface \<open>router_operation\<close> states what each operation promises; it is
  interpreted for every operation and for their union.
\<close>

section \<open>Starting and stopping\<close>

lemma router_ok_publish [simp]: "router_ok (ids, publish_start now s) = router_ok (ids, s)"
  by (simp add: router_ok_def publish_start_def state_ok_def catalog_ok_def maps_ok_def models_ok_def
      backends_ok_def bounds_ok_def indexes_ok_def indexes_for_def fences_ok_def is_fenced_def
      history_ok_def records_ok_def)

lemma evolves_same_routes:
  assumes "router_ok (ids, s')" "cs_routes s' = cs_routes s" "cs_limits s' = cs_limits s"
    "cs_fenced_boots s' = cs_fenced_boots s"
  shows "evolves (ids, s) (ids, s')"
  using assms by (auto simp: evolves_def is_fenced_def)

lemma router_ok_stopped [simp]:
  "router_ok (ids, s\<lparr>cs_shutting_down := b\<rparr>) = router_ok (ids, s)"
  "router_ok (ids, s\<lparr>cs_running := b\<rparr>) = router_ok (ids, s)"
  by (simp_all add: router_ok_def state_ok_def catalog_ok_def maps_ok_def models_ok_def
      backends_ok_def bounds_ok_def indexes_ok_def indexes_for_def fences_ok_def is_fenced_def
      history_ok_def records_ok_def)

lemma evolves_start:
  assumes "router_ok (ids, s)"
  shows "evolves (ids, s) (snd (start options_error NotLoaded now ids s))"
  using assms evolves_refl [OF assms]
  by (auto simp: start_def start_published_def Let_def publish_start_def [symmetric]
      intro!: evolves_same_routes) (simp_all add: publish_start_def)

lemma evolves_map_routes:
  assumes ok: "router_ok (ids, s)" and f: "\<And>r. record_evolves r (f r)" "\<And>r. live_record (f r) \<Longrightarrow> live_record r"
  shows "evolves (ids, s) (ids, s\<lparr>cs_routes := om_map_values f (cs_routes s)\<rparr>)"
proof -
  let ?s = "s\<lparr>cs_routes := om_map_values f (cs_routes s)\<rparr>"
  have maps: "om_ok (cs_routes s)" using router_ok_maps [OF ok] by simp
  have s: "catalog_ok s" "fences_ok s" "history_ok ids s" "max_route_history (cs_limits s) \<noteq> 0"
    using ok by (simp_all add: router_ok_def state_ok_def)
  have auth: "rd_authority (rec_decision (f r)) = rd_authority (rec_decision r)" for r
    using f(1) [of r] by (simp add: record_evolves_def)
  have "catalog_ok ?s" by (rule catalog_ok_routes) (simp_all add: maps s)
  moreover have "fences_ok ?s" using s(2) f(2) auth unfolding fences_ok_def by (force simp: is_fenced_def)
  moreover have "fst ` set (om_map_values f (cs_routes s)) = fst ` set (cs_routes s)"
    by (force simp: om_map_values_def)
  moreover have "records_ok ?s"
    using s(3) f(1) unfolding history_ok_def records_ok_def by (auto simp: record_evolves_def)
  ultimately have "router_ok (ids, ?s)"
    using s unfolding router_ok_def state_ok_def history_ok_def by simp
  then show ?thesis using f(1) by (auto simp: evolves_def is_fenced_def)
qed

lemma evolves_shutdown:
  assumes "router_ok (ids, s)"
  shows "evolves (ids, s) (ids, snd (shutdown should_save saved s))"
proof -
  have step: "evolves (ids, s) (ids, s\<lparr>cs_routes := om_map_values stop_current (cs_routes s)\<rparr>)"
  proof (rule evolves_map_routes [OF assms])
    show "record_evolves r (stop_current r)" for r
      by (auto simp: stop_current_def status_marks intro!: r_into_rtranclp lifecycle.went_stale)
    show "live_record (stop_current r) \<Longrightarrow> live_record r" for r
      by (auto simp: stop_current_def status_mark_live live_status_def split: if_splits)
  qed
  let ?s = "s\<lparr>cs_routes := om_map_values stop_current (cs_routes s)\<rparr>"
  have eq: "shutdown_state s = ?s\<lparr>cs_shutting_down := True\<rparr>\<lparr>cs_running := False\<rparr>"
    by (simp add: shutdown_state_def)
  have "router_ok (ids, shutdown_state s)" using step unfolding eq router_ok_stopped evolves_def by blast
  then have "evolves (ids, ?s) (ids, shutdown_state s)"
    by (rule evolves_same_routes) (simp_all add: shutdown_state_def)
  then have "evolves (ids, s) (ids, shutdown_state s)" by (rule evolves_trans [OF assms step])
  then show ?thesis using evolves_refl [OF assms] by (simp add: shutdown_def Let_def)
qed

section \<open>The interface\<close>

fun operate_all :: "('a \<Rightarrow> router \<Rightarrow> router) \<Rightarrow> 'a list \<Rightarrow> router \<Rightarrow> router" where
  "operate_all operate [] x = x"
| "operate_all operate (c # cs) x = operate_all operate cs (operate c x)"

text \<open>\<open>need\<close> bounds the identities that an operation may issue; a sequence of operations has room
  when the identity space is not exhausted before one of them.\<close>

fun has_room :: "('a \<Rightarrow> router \<Rightarrow> router) \<Rightarrow> ('a \<Rightarrow> CanonicalState \<Rightarrow> nat) \<Rightarrow> 'a list \<Rightarrow> router \<Rightarrow> bool" where
  "has_room operate need [] x \<longleftrightarrow> True"
| "has_room operate need (c # cs) x \<longleftrightarrow>
     unat (fst x) + need c (snd x) < 2 ^ 64 \<and> has_room operate need cs (operate c x)"

locale router_operation =
  fixes operate :: "'a \<Rightarrow> router \<Rightarrow> router" and need :: "'a \<Rightarrow> CanonicalState \<Rightarrow> nat"
  assumes advances: "router_ok x \<Longrightarrow> unat (fst x) + need c (snd x) < 2 ^ 64 \<Longrightarrow> evolves x (operate c x)"
begin

lemma run_evolves:
  "router_ok x \<Longrightarrow> has_room operate need cs x \<Longrightarrow> evolves x (operate_all operate cs x)"
proof (induction cs arbitrary: x)
  case (Cons c cs)
  then have step: "evolves x (operate c x)" by (simp add: advances)
  then have "evolves (operate c x) (operate_all operate cs (operate c x))"
    using Cons.prems(2) by (intro Cons.IH) (simp_all add: evolves_def)
  then show ?case using evolves_trans [OF Cons.prems(1) step] by simp
qed (simp add: evolves_refl)

lemma run_final_status:
  assumes "router_ok x" "has_room operate need cs x"
    and "om_find (cs_routes (snd x)) i = Some r"
    and "om_find (cs_routes (snd (operate_all operate cs x))) i = Some r'"
  shows "rd_authority (rec_decision r') = rd_authority (rec_decision r) \<and> rec_plan r' = rec_plan r \<and>
    lifecycle\<^sup>*\<^sup>* (rd_status (rec_decision r)) (rd_status (rec_decision r'))"
  using evolves_record [OF run_evolves [OF assms(1,2)] assms(3,4)] by (simp add: record_evolves_def)

lemma run_never_resurrects:
  assumes "router_ok x" "has_room operate need cs x" "i \<le> fst x" "om_find (cs_routes (snd x)) i = None"
  shows "om_find (cs_routes (snd (operate_all operate cs x))) i = None"
  using evolves_new [OF run_evolves [OF assms(1,2)] assms(4)] assms(3) by force

end

section \<open>The operations\<close>

text \<open>Each operation as a step of the router; the answer to the caller is dropped.\<close>

definition catalog_step_of :: "unix_millis \<times> catalog_command \<Rightarrow> router \<Rightarrow> router" where
  "catalog_step_of c x = (fst x, snd (execute (fst c) (snd c) (snd x)))"

definition route_step_of :: "ProviderSet \<Rightarrow> unix_millis \<times> RouteRequest \<Rightarrow> router \<Rightarrow> router" where
  "route_step_of providers c x = snd (route providers (fst c) (snd c) (fst x) (snd x))"

definition revalidate_step_of :: "unix_millis \<times> entity_id \<times> entity_id \<times> entity_id \<Rightarrow> router \<Rightarrow> router" where
  "revalidate_step_of c x =
     (case c of (now, i, tenant, ns) \<Rightarrow> (fst x, snd (revalidate now i tenant ns (snd x))))"

definition dispatch_step_of ::
  "ProviderSet \<Rightarrow> unix_millis \<times> entity_id \<times> entity_id \<times> entity_id \<Rightarrow> router \<Rightarrow> router" where
  "dispatch_step_of providers c x =
     (case c of (now, i, tenant, ns) \<Rightarrow> snd (dispatch providers now i tenant ns (fst x) (snd x)))"

definition completion_step_of :: "CompletionRecord \<Rightarrow> router \<Rightarrow> router" where
  "completion_step_of c x = (fst x, snd (record_completion c (snd x)))"

definition reroute_step_of ::
  "ProviderSet \<Rightarrow> unix_millis \<times> entity_id \<times> FailureClass \<times> RouteRequest \<Rightarrow> router \<Rightarrow> router" where
  "reroute_step_of providers c x =
     (case c of (now, i, failure, rq) \<Rightarrow> snd (reroute providers now i failure rq (fst x) (snd x)))"

definition start_step_of :: "unix_millis \<times> string \<Rightarrow> router \<Rightarrow> router" where
  "start_step_of c x = snd (start (snd c) NotLoaded (fst c) (fst x) (snd x))"

definition shutdown_step_of :: "bool \<times> OutcomeCode \<times> string \<Rightarrow> router \<Rightarrow> router" where
  "shutdown_step_of c x = (fst x, snd (shutdown (fst c) (snd c) (snd x)))"

interpretation catalog_run: router_operation catalog_step_of "\<lambda>_ _. 0"
proof
  fix x :: router and c
  assume ok: "router_ok x"
  then have "state_ok (snd x)" by (simp add: router_ok_def)
  then show "evolves x (catalog_step_of c x)"
    using ok catalog_ops.keeps_state_ok catalog_ops.makes_catalog_step
    by (cases x) (auto simp: catalog_step_of_def intro!: evolves_catalog)
qed

interpretation route_run: router_operation "route_step_of providers" "\<lambda>_ _. 3"
  by unfold_locales (use evolves_route in \<open>force simp: route_step_of_def\<close>)

interpretation revalidate_run: router_operation revalidate_step_of "\<lambda>_ _. 0"
  by unfold_locales (use evolves_revalidate in \<open>force simp: revalidate_step_of_def\<close>)

interpretation dispatch_run: router_operation "dispatch_step_of providers" "\<lambda>_ _. 1"
  by unfold_locales (use evolves_dispatch in \<open>force simp: dispatch_step_of_def\<close>)

interpretation completion_run: router_operation completion_step_of "\<lambda>_ _. 0"
  by unfold_locales (use evolves_completion in \<open>force simp: completion_step_of_def\<close>)

interpretation reroute_run: router_operation "reroute_step_of providers" "\<lambda>(now, i, _). reroute_identities i"
  by unfold_locales (use evolves_reroute in \<open>force simp: reroute_step_of_def\<close>)

interpretation start_run: router_operation start_step_of "\<lambda>_ _. 0"
  by unfold_locales (use evolves_start in \<open>force simp: start_step_of_def\<close>)

interpretation shutdown_run: router_operation shutdown_step_of "\<lambda>_ _. 0"
  by unfold_locales (use evolves_shutdown in \<open>force simp: shutdown_step_of_def\<close>)

section \<open>The whole router\<close>

datatype router_command =
    Catalog catalog_command
  | Route RouteRequest
  | Revalidate entity_id entity_id entity_id
  | Dispatch entity_id entity_id entity_id
  | Complete CompletionRecord
  | Reroute entity_id FailureClass RouteRequest
  | Start string
  | Shutdown bool OutcomeCode string

primrec perform_command :: "ProviderSet \<Rightarrow> unix_millis \<Rightarrow> router_command \<Rightarrow> router \<Rightarrow> router" where
  "perform_command providers now (Catalog c) = catalog_step_of (now, c)"
| "perform_command providers now (Route rq) = route_step_of providers (now, rq)"
| "perform_command providers now (Revalidate i t n) = revalidate_step_of (now, i, t, n)"
| "perform_command providers now (Dispatch i t n) = dispatch_step_of providers (now, i, t, n)"
| "perform_command providers now (Complete c) = completion_step_of c"
| "perform_command providers now (Reroute i f rq) = reroute_step_of providers (now, i, f, rq)"
| "perform_command providers now (Start e) = start_step_of (now, e)"
| "perform_command providers now (Shutdown b code e) = shutdown_step_of (b, code, e)"

primrec command_need :: "router_command \<Rightarrow> CanonicalState \<Rightarrow> nat" where
  "command_need (Catalog c) s = 0"
| "command_need (Route rq) s = 3"
| "command_need (Revalidate i t n) s = 0"
| "command_need (Dispatch i t n) s = 1"
| "command_need (Complete c) s = 0"
| "command_need (Reroute i f rq) s = reroute_identities i s"
| "command_need (Start e) s = 0"
| "command_need (Shutdown b code e) s = 0"

definition perform :: "ProviderSet \<Rightarrow> unix_millis \<times> router_command \<Rightarrow> router \<Rightarrow> router" where
  "perform providers c = perform_command providers (fst c) (snd c)"

interpretation router_run: router_operation "perform providers" "\<lambda>c. command_need (snd c)"
proof
  fix x :: router and c :: "unix_millis \<times> router_command"
  assume "router_ok x" "unat (fst x) + command_need (snd c) (snd x) < 2 ^ 64"
  then show "evolves x (perform providers c x)"
    by (cases "snd c")
       (simp_all add: perform_def catalog_run.advances route_run.advances revalidate_run.advances
         dispatch_run.advances completion_run.advances reroute_run.advances start_run.advances
         shutdown_run.advances)
qed

text \<open>The routers that a router can become, one command at a time.\<close>

inductive reachable :: "ProviderSet \<Rightarrow> router \<Rightarrow> router \<Rightarrow> bool" for providers where
  here: "reachable providers x x"
| command: "reachable providers x y \<Longrightarrow> unat (fst y) + command_need c (snd y) < 2 ^ 64 \<Longrightarrow>
    reachable providers x (perform providers (now, c) y)"

lemma reachable_evolves:
  assumes "reachable providers x y" and "router_ok x"
  shows "evolves x y"
  using assms
proof (induction rule: reachable.induct)
  case (here x)
  then show ?case by (rule evolves_refl)
next
  case (command x y c now)
  then have "evolves y (perform providers (now, c) y)"
    by (intro router_run.advances) (simp_all add: evolves_def)
  then show ?case using command evolves_trans by blast
qed

lemma initial_router_ok:
  assumes "max_route_history (mo_limits options) \<noteq> 0"
  shows "router_ok (Impl_new options ids)"
  using initial_state_ok [of options ids] assms
  by (auto simp: router_ok_def history_ok_def records_ok_def Impl_new_def Let_def
      CanonicalState_default_def om_empty_def split: prod.split)

end
