(* ===== verification/Router_Recovery.thy ===== *)
theory Router_Recovery
  imports Router_System
begin

text \<open>
  What a restart keeps and what it invalidates: import alone on any durable state, and the round
  trip of export and import.
\<close>

section \<open>Filled maps\<close>

lemma om_assign_snoc: "om_assign key val (xs @ [x]) = om_put (key x) (val x) (om_assign key val xs)"
  by (simp add: om_assign_def)

lemma om_assign_Nil: "om_assign key val [] = om_empty"
  by (simp add: om_assign_def)

lemma om_ok_assign: "om_ok (om_assign key val xs)"
proof (induction xs rule: rev_induct)
  case Nil
  show ?case by (simp add: om_assign_Nil om_empty_def om_ok_def)
qed (simp add: om_assign_snoc om_ok_put)

lemma om_assign_find:
  "om_find (om_assign key val xs) k = map_option val (find (\<lambda>x. key x = k) (rev xs))"
proof (induction xs rule: rev_induct)
  case (snoc x xs)
  then show ?case by (simp add: om_assign_snoc om_find_put om_ok_assign)
qed (simp add: om_assign_Nil om_empty_def)

lemma om_assign_SomeD:
  "om_find (om_assign key val xs) k = Some v \<Longrightarrow> \<exists>x \<in> set xs. key x = k \<and> v = val x"
  by (auto simp: om_assign_find find_Some_iff) (metis nth_mem length_rev set_rev)

lemma om_assign_defined: "om_find (om_assign key val xs) k \<noteq> None \<longleftrightarrow> k \<in> key ` set xs"
  by (auto simp: om_assign_find find_None_iff image_iff)

lemma length_om_assign: "length (om_assign key val xs) \<le> length xs"
  by (induction xs rule: rev_induct)
     (auto simp: om_assign_Nil om_empty_def om_assign_snoc length_om_put [OF om_ok_assign])

lemma om_put_last: "\<forall>x \<in> set m. fst x < k \<Longrightarrow> om_put k v m = m @ [(k, v)]"
  by (induction m) auto

lemma om_assign_ascending:
  "strictly_ascending (map key xs) \<Longrightarrow> om_assign key val xs = map (\<lambda>x. (key x, val x)) xs"
proof (induction xs rule: rev_induct)
  case (snoc x xs)
  then have "om_assign key val xs = map (\<lambda>x. (key x, val x)) xs" "\<forall>y \<in> set xs. key y < key x"
    by (auto simp: sorted_wrt_append)
  then show ?case by (simp add: om_assign_snoc om_put_last)
qed (simp add: om_assign_Nil om_empty_def)

text \<open>Writing the values of a map to a list and filling a map from it gives the map again.\<close>

lemma map_values_keys:
  assumes "\<And>k v. om_find m k = Some v \<Longrightarrow> key (f v) = k" and "om_ok m"
  shows "map key (map (\<lambda>x. f (snd x)) m) = map fst m"
  using assms om.entries_find [OF assms(2)] by auto

lemma om_assign_values:
  assumes "\<And>k v. om_find m k = Some v \<Longrightarrow> key (f v) = k" and "om_ok m"
  shows "om_assign key val (map (\<lambda>x. f (snd x)) m) = om_map_values (\<lambda>v. val (f v)) m"
proof -
  note keys = map_values_keys [of m key f, OF assms]
  have "om_assign key val (map (\<lambda>x. f (snd x)) m) = map (\<lambda>x. (key x, val x)) (map (\<lambda>x. f (snd x)) m)"
    by (rule om_assign_ascending) (use assms(2) keys in \<open>simp only: om_ok_def\<close>)
  also have "\<dots> = om_map_values (\<lambda>v. val (f v)) m"
    using keys by (auto simp: om_map_values_def)
  finally show ?thesis .
qed

lemma sort_key_ascending:
  assumes "strictly_ascending (map key xs)" and "\<And>x y. key x < key y \<Longrightarrow> key' x \<le> key' y"
  shows "sort_key key' xs = xs"
proof (rule sort_key_id_if_sorted)
  show "sorted (map key' xs)"
    using assms(1) unfolding sorted_wrt_map by (rule sorted_wrt_mono_rel [rotated]) (rule assms(2))
qed

lemma om_ok_empty: "om_ok om_empty"
  by (simp add: om_empty_def om_ok_def)

section \<open>Import\<close>

lemma restore_routes_keys:
  assumes "restore_routes rs ids routes order = (ids', routes', order')" and "om_ok routes"
  shows "om_ok routes'" and "order' = order @ map pt_decision_id rs"
    and "fst ` set routes' = fst ` set routes \<union> pt_decision_id ` set rs"
  using assms
  by (induction rs ids routes order rule: restore_routes.induct)
     (auto simp: om_ok_put fst_om_put split: prod.splits)

lemma restore_routes_find:
  assumes "restore_routes rs ids routes order = (ids', routes', order')" and "om_ok routes"
    and "om_find routes' i = Some r"
  shows "om_find routes i = Some r \<or>
    (\<exists>plan rec. rec \<in> set rs \<and> pt_decision_id rec = i \<and> r = restore_route plan rec)"
  using assms
proof (induction rs ids routes order rule: restore_routes.induct)
  case (2 rec rs ids routes order)
  obtain ids1 plan where alloc: "IdAllocator_next ids = (ids1, plan)" by fastforce
  then have "om_find (om_put (pt_decision_id rec) (restore_route plan rec) routes) i = Some r \<or>
      (\<exists>plan rec. rec \<in> set rs \<and> pt_decision_id rec = i \<and> r = restore_route plan rec)"
    using "2.prems" by (intro "2.IH" [OF alloc [symmetric] refl]) (simp_all add: om_ok_put)
  then show ?case using "2.prems"(2) by (auto simp: om_find_put split: if_splits)
qed simp

text \<open>What an accepted import makes of a durable state.\<close>

lemma import_accepted:
  assumes "import_persistent_state p ids s = (result, ids', s')" and "mr_code result = ACCEPTED"
  obtains p' ids1 routes order where "p' = RouterPersistentState_canonicalize p"
    "RouterPersistentState_validate p' (cs_limits s) = []" "\<not> cs_running s"
    "restore_routes (sp_routes p') ids om_empty [] = (ids1, routes, order)"
    "s' = rebuild_indexes (restored_state p' routes order s)"
    "ids' = IdAllocator_observe (pc_highest_identity_issued (sp_counters p')) ids1"
  using assms
  by (auto simp: import_persistent_state_def Let_def MutationResult_make_def split: if_splits prod.splits)

lemma rebuilt_rest [simp]:
  "cs_models (rebuild_indexes s) = cs_models s" "cs_backends (rebuild_indexes s) = cs_backends s"
  "cs_routes (rebuild_indexes s) = cs_routes s" "cs_route_order (rebuild_indexes s) = cs_route_order s"
  "cs_fenced_boots (rebuild_indexes s) = cs_fenced_boots s" "cs_limits (rebuild_indexes s) = cs_limits s"
  "cs_weights (rebuild_indexes s) = cs_weights s" "cs_router_epoch (rebuild_indexes s) = cs_router_epoch s"
  "cs_coordinator_epoch (rebuild_indexes s) = cs_coordinator_epoch s"
  "cs_router_id (rebuild_indexes s) = cs_router_id s"
  "cs_router_generation (rebuild_indexes s) = cs_router_generation s"
  "cs_router_boot (rebuild_indexes s) = cs_router_boot s" "cs_policy (rebuild_indexes s) = cs_policy s"
  "cs_budget (rebuild_indexes s) = cs_budget s" "cs_slo (rebuild_indexes s) = cs_slo s"
  "cs_counters (rebuild_indexes s) = cs_counters s" "cs_started_at (rebuild_indexes s) = cs_started_at s"
  "cs_dispatches (rebuild_indexes s) = cs_dispatches s"
  "cs_dispatch_index (rebuild_indexes s) = cs_dispatch_index s"
  "cs_providers (rebuild_indexes s) = cs_providers s" "cs_compatibility (rebuild_indexes s) = cs_compatibility s"
  "cs_trust (rebuild_indexes s) = cs_trust s" "cs_costs (rebuild_indexes s) = cs_costs s"
  "cs_model_generation_watermark (rebuild_indexes s) = cs_model_generation_watermark s"
  "cs_backend_generation_watermark (rebuild_indexes s) = cs_backend_generation_watermark s"
  by (simp_all add: rebuild_indexes_def foldl_index_add_entry)

lemma restored_fields:
  "bd_backend_id (restore_backend b) = pb_backend_id b"
  "bd_backend_generation (restore_backend b) = pb_backend_generation b"
  "bd_health (restore_backend b) = observed_as HealthState.UNKNOWN b"
  "bd_availability (restore_backend b) = observed_as AvailabilityState.UNKNOWN b"
  "bd_readiness (restore_backend b) = observed_as ReadinessState.UNKNOWN b"
  "bd_residency (restore_backend b) = observed_as ResidencyState.UNKNOWN b"
  "bd_capacity (restore_backend b) = observed_as CapacityState.UNKNOWN b"
  "bindings_ok (restore_backend b)"
  unfolding restore_backend_def bindings_ok_def BackendDescriptor_canonicalize_def
  by (simp_all add: sort_unique_by_ascending)

lemma restored_not_live: "rd_status (rec_decision (restore_route plan r)) = RouteStatus.STALE"
  by (simp add: restore_route_def Let_def)

lemma other_epoch_not_dispatchable:
  "ra_router_epoch a \<noteq> cs_router_epoch s \<Longrightarrow> \<not> is_authority_dispatchable s a now"
  by (auto simp: dispatchable_iff authority_matches_def)

lemma canonicalize_members:
  "set (sp_routes (RouterPersistentState_canonicalize p)) = set (sp_routes p)"
  "set (sp_fenced_boots (RouterPersistentState_canonicalize p)) = set (sp_fenced_boots p)"
  "sp_last_router_epoch (RouterPersistentState_canonicalize p) = sp_last_router_epoch p"
  "sp_last_coordinator_epoch (RouterPersistentState_canonicalize p) = sp_last_coordinator_epoch p"
  "sp_limits (RouterPersistentState_canonicalize p) = sp_limits p"
  "sp_weights (RouterPersistentState_canonicalize p) = sp_weights p"
  "sp_counters (RouterPersistentState_canonicalize p) = sp_counters p"
  "sp_router_id (RouterPersistentState_canonicalize p) = sp_router_id p"
  by (simp_all add: RouterPersistentState_canonicalize_def)

section \<open>The round trip\<close>

text \<open>A fence is stored under the incarnation it names.\<close>

definition fence_records_ok :: "CanonicalState \<Rightarrow> bool" where
  "fence_records_ok s \<longleftrightarrow>
     (\<forall>k f. om_find (cs_fenced_boots s) k = Some f \<longrightarrow> (fb_backend_id f, fb_backend_boot f) = k)"

lemma durable_keys:
  assumes "router_ok (ids, s)" and "fence_records_ok s"
  shows "\<And>k m. om_find (cs_models s) k = Some m \<Longrightarrow> md_model_id m = k"
    and "\<And>k b. om_find (cs_backends s) k = Some b \<Longrightarrow> pb_backend_id (persist_backend b) = k"
    and "\<And>k r. om_find (cs_routes s) k = Some r \<Longrightarrow> pt_decision_id (persist_route r) = k"
    and "\<And>k f. om_find (cs_fenced_boots s) k = Some f \<Longrightarrow> (fb_backend_id f, fb_backend_boot f) = k"
  using assms
  by (auto simp: router_ok_def state_ok_def catalog_ok_def models_ok_def backends_ok_def
      history_ok_def records_ok_def fence_records_ok_def persist_backend_def persist_route_def Let_def)

lemma durable_maps:
  assumes "router_ok (ids, s)"
  shows "om_ok (cs_models s)" "om_ok (cs_backends s)" "om_ok (cs_routes s)" "om_ok (cs_fenced_boots s)"
  using assms by (simp_all add: router_ok_def state_ok_def catalog_ok_def maps_ok_def)

text \<open>The lists of an exported state are already in the canonical order.\<close>

lemma canonical_order:
  assumes "\<And>k v. om_find m k = Some v \<Longrightarrow> key (f v) = k" and "om_ok m"
    and "\<And>x y. key x < key y \<Longrightarrow> key' x \<le> key' y"
  shows "sort_key key' (map (\<lambda>x. f (snd x)) m) = map (\<lambda>x. f (snd x)) m"
  using sort_key_ascending [of key "map (\<lambda>x. f (snd x)) m" key'] map_values_keys [of m key f, OF assms(1,2)]
    assms(2,3) by (simp only: om_ok_def)

lemma persisted_bindings_sorted:
  assumes "router_ok (ids, s)" and "om_find (cs_backends s) k = Some b"
  shows "sort_key mb_model_id (bd_model_bindings b) = bd_model_bindings b"
    and "sort_unique_by mb_model_id (bd_model_bindings b) = bd_model_bindings b"
proof -
  have "bindings_ok b" using assms by (simp add: router_ok_def state_ok_def catalog_ok_def backends_ok_def)
  then have asc: "strictly_ascending (map mb_model_id (bd_model_bindings b))" by (simp add: bindings_ok_def)
  then show "sort_key mb_model_id (bd_model_bindings b) = bd_model_bindings b"
    by (intro sort_key_id_if_sorted strictly_ascending_sorted)
  show "sort_unique_by mb_model_id (bd_model_bindings b) = bd_model_bindings b"
    using asc strictly_ascending_distinct [OF asc]
    by (simp add: sort_unique_by_def sort_key_id_if_sorted strictly_ascending_sorted unique_by_id_on_distinct)
qed

lemma persist_restore_backend:
  assumes "sort_unique_by mb_model_id (bd_model_bindings b) = bd_model_bindings b"
  shows "persist_backend (restore_backend (persist_backend b)) = persist_backend b"
  using assms by (simp add: persist_backend_def restore_backend_def BackendDescriptor_canonicalize_def)

lemma persist_restore_route:
  "persist_route (restore_route plan (persist_route r)) = (persist_route r)\<lparr>pt_status := RouteStatus.STALE\<rparr>"
  by (simp add: persist_route_def restore_route_def Let_def RouteDecision_default_def RoutePlan_default_def)

lemma canonical_export:
  assumes "router_ok (ids, s)" and "fence_records_ok s"
  shows "sp_models (export_persistent_state now j s) = map (\<lambda>x. snd x) (cs_models s)"
    and "sp_backends (export_persistent_state now j s) = map (\<lambda>x. persist_backend (snd x)) (cs_backends s)"
    and "sp_fenced_boots (export_persistent_state now j s) = map (\<lambda>x. snd x) (cs_fenced_boots s)"
    and "sp_routes (export_persistent_state now j s) = map (\<lambda>x. persist_route (snd x)) (cs_routes s)"
proof -
  note keys = durable_keys [OF assms] and maps = durable_maps [OF assms(1)]
  show "sp_models (export_persistent_state now j s) = map (\<lambda>x. snd x) (cs_models s)"
    using canonical_order [of "cs_models s" md_model_id "\<lambda>m. m" "\<lambda>m. (md_model_id m, md_model_generation m)",
        OF keys(1) maps(1)]
    by (simp add: export_persistent_state_def Let_def RouterPersistentState_canonicalize_def less_eq_prod_def)
  show "sp_fenced_boots (export_persistent_state now j s) = map (\<lambda>x. snd x) (cs_fenced_boots s)"
    using canonical_order [of "cs_fenced_boots s" "\<lambda>f. (fb_backend_id f, fb_backend_boot f)" "\<lambda>f. f" fenced_key,
        OF keys(4) maps(4)]
    by (auto simp: export_persistent_state_def Let_def RouterPersistentState_canonicalize_def fenced_key_def
        less_prod_def less_eq_prod_def)
  show "sp_routes (export_persistent_state now j s) = map (\<lambda>x. persist_route (snd x)) (cs_routes s)"
    using canonical_order [of "cs_routes s" pt_decision_id persist_route pt_decision_id,
        OF keys(3) maps(3) less_imp_le]
    by (simp add: export_persistent_state_def Let_def RouterPersistentState_canonicalize_def case_prod_unfold)
  have "(persist_backend b)\<lparr>pb_model_bindings := sort_key mb_model_id (pb_model_bindings (persist_backend b))\<rparr> =
      persist_backend b" if "(k, b) \<in> set (cs_backends s)" for k b
    using that persisted_bindings_sorted(1) [OF assms(1), of k b] om.entries_find [OF maps(2)]
    by (simp add: persist_backend_def)
  moreover have "sort_key pb_backend_id (map (\<lambda>x. persist_backend (snd x)) (cs_backends s)) =
      map (\<lambda>x. persist_backend (snd x)) (cs_backends s)"
    by (rule canonical_order [of "cs_backends s" pb_backend_id persist_backend pb_backend_id, OF keys(2) maps(2)])
       (assumption, rule less_imp_le)
  ultimately show "sp_backends (export_persistent_state now j s) = map (\<lambda>x. persist_backend (snd x)) (cs_backends s)"
    by (auto simp: export_persistent_state_def Let_def RouterPersistentState_canonicalize_def o_def)
qed

lemma canonicalize_idem:
  "RouterPersistentState_canonicalize (RouterPersistentState_canonicalize p) = RouterPersistentState_canonicalize p"
proof -
  let ?sort = "\<lambda>b. b\<lparr>pb_model_bindings := sort_key mb_model_id (pb_model_bindings b)\<rparr>"
  have "sort_key pb_backend_id (map ?sort (sort_key pb_backend_id bs)) = map ?sort (sort_key pb_backend_id bs)"
    for bs :: "PersistedBackendRecord list"
    by (rule sort_key_id_if_sorted) (simp add: o_def)
  then have "map ?sort (sort_key pb_backend_id (map ?sort (sort_key pb_backend_id bs))) =
      map ?sort (sort_key pb_backend_id bs)" for bs :: "PersistedBackendRecord list"
    by (simp add: sort_key_id_if_sorted)
  then show ?thesis
    by (simp only: RouterPersistentState_canonicalize_def) (simp add: sort_key_id_if_sorted)
qed

lemma export_canonical:
  "RouterPersistentState_canonicalize (export_persistent_state now ids s) = export_persistent_state now ids s"
  by (simp add: export_persistent_state_def Let_def canonicalize_idem)

text \<open>The maps after a restart from an exported state.\<close>

lemma restarted_maps:
  assumes ok: "router_ok (ids, s)" and fences: "fence_records_ok s"
    and routes: "restore_routes (sp_routes (export_persistent_state now ids s)) ids0 om_empty [] = (ids1, routes, order)"
    and s': "s' = rebuild_indexes (restored_state (export_persistent_state now ids s) routes order s0)"
  shows "cs_models s' = cs_models s" and "cs_fenced_boots s' = cs_fenced_boots s"
    and "cs_backends s' = om_map_values (\<lambda>b. restore_backend (persist_backend b)) (cs_backends s)"
    and "cs_model_generation_watermark s' = om_map_values md_model_generation (cs_models s)"
    and "cs_backend_generation_watermark s' = om_map_values bd_backend_generation (cs_backends s)"
    and "om_ok (cs_routes s')" and "cs_route_order s' = map fst (cs_routes s)"
    and "fst ` set (cs_routes s') = fst ` set (cs_routes s)"
    and "om_find (cs_routes s') i = Some r' \<Longrightarrow>
      \<exists>r plan. om_find (cs_routes s) i = Some r \<and> r' = restore_route plan (persist_route r)"
proof -
  note keys = durable_keys [OF ok fences] and maps = durable_maps [OF ok] and lists = canonical_export [OF ok fences]
  have same: "om_map_values (\<lambda>v. v) m = m" for m :: "('k::linorder, 'v) omap"
    by (simp add: om_map_values_def)
  show "cs_models s' = cs_models s"
    using om_assign_values [of "cs_models s" md_model_id "\<lambda>m. m" "\<lambda>m. m", OF keys(1) maps(1)]
    by (simp add: s' restored_state_def lists same)
  show "cs_fenced_boots s' = cs_fenced_boots s"
    using om_assign_values [of "cs_fenced_boots s" "\<lambda>f. (fb_backend_id f, fb_backend_boot f)" "\<lambda>f. f" "\<lambda>f. f",
        OF keys(4) maps(4)]
    by (simp add: s' restored_state_def lists same)
  show "cs_backends s' = om_map_values (\<lambda>b. restore_backend (persist_backend b)) (cs_backends s)"
    using om_assign_values [of "cs_backends s" pb_backend_id persist_backend restore_backend, OF keys(2) maps(2)]
    by (simp add: s' restored_state_def lists)
  show "cs_model_generation_watermark s' = om_map_values md_model_generation (cs_models s)"
    using om_assign_values [of "cs_models s" md_model_id "\<lambda>m. m" md_model_generation, OF keys(1) maps(1)]
    by (simp add: s' restored_state_def lists)
  show "cs_backend_generation_watermark s' = om_map_values bd_backend_generation (cs_backends s)"
    using om_assign_values [of "cs_backends s" pb_backend_id persist_backend pb_backend_generation,
        OF keys(2) maps(2)]
    by (simp add: s' restored_state_def lists) (simp add: persist_backend_def)
  have empty: "om_ok (om_empty :: (entity_id, RouteRecord) omap)" by (simp add: om_empty_def om_ok_def)
  note restored = restore_routes_keys [OF routes empty]
  have keys_eq: "map pt_decision_id (map (\<lambda>x. persist_route (snd x)) (cs_routes s)) = map fst (cs_routes s)"
    by (rule map_values_keys [of "cs_routes s" pt_decision_id persist_route, OF keys(3) maps(3)])
  show "om_ok (cs_routes s')" using restored(1) by (simp add: s' restored_state_def)
  show order: "cs_route_order s' = map fst (cs_routes s)"
    using restored(2) keys_eq by (simp add: s' restored_state_def lists)
  have "pt_decision_id ` set (sp_routes (export_persistent_state now ids s)) = fst ` set (cs_routes s)"
    using arg_cong [OF keys_eq, of set] by (simp add: lists image_image)
  then show "fst ` set (cs_routes s') = fst ` set (cs_routes s)"
    using restored(3) by (simp add: s' restored_state_def om_empty_def)
  assume "om_find (cs_routes s') i = Some r'"
  then obtain plan rec where r': "rec \<in> set (sp_routes (export_persistent_state now ids s))" "pt_decision_id rec = i"
    "r' = restore_route plan rec"
    using restore_routes_find [OF routes empty, of i r'] by (auto simp: s' restored_state_def om_empty_def)
  then obtain k r where "rec = persist_route r" "om_find (cs_routes s) k = Some r"
    using om.entries_find [OF maps(3)] by (auto simp: lists)
  then show "\<exists>r plan. om_find (cs_routes s) i = Some r \<and> r' = restore_route plan (persist_route r)"
    using keys(3) r' by metis
qed

lemma exported_fields [simp]:
  "sp_limits (export_persistent_state now ids s) = cs_limits s"
  "sp_weights (export_persistent_state now ids s) = cs_weights s"
  "sp_counters (export_persistent_state now ids s) = (cs_counters s)\<lparr>pc_highest_identity_issued := ids\<rparr>"
  by (simp_all add: export_persistent_state_def Let_def canonicalize_members)

lemma export_scalars:
  "sp_router_id (export_persistent_state now ids s) = cs_router_id s"
  "sp_router_generation (export_persistent_state now ids s) = cs_router_generation s"
  "sp_last_router_epoch (export_persistent_state now ids s) = cs_router_epoch s"
  "sp_last_coordinator_epoch (export_persistent_state now ids s) = cs_coordinator_epoch s"
  "sp_last_boot (export_persistent_state now ids s) = cs_router_boot s"
  "sp_last_policy_generation (export_persistent_state now ids s) = ps_generation (cs_policy s)"
  "sp_last_budget_generation (export_persistent_state now ids s) = bs_generation (cs_budget s)"
  "sp_last_slo_generation (export_persistent_state now ids s) = sl_generation (cs_slo s)"
  "sp_last_price_generation (export_persistent_state now ids s) = highest (concat
     (map (\<lambda>x. map (\<lambda>d. co_price_generation (mb_cost d)) (bd_model_bindings (snd x))) (cs_backends s)))"
  "sp_last_capability_generation (export_persistent_state now ids s) =
     highest (map (\<lambda>x. md_capability_generation (snd x)) (cs_models s) @
              map (\<lambda>x. bd_capability_generation (snd x)) (cs_backends s))"
  "sp_last_model_generation (export_persistent_state now ids s) =
     highest (map (\<lambda>x. md_model_generation (snd x)) (cs_models s))"
  "sp_last_backend_generation (export_persistent_state now ids s) =
     highest (map (\<lambda>x. bd_backend_generation (snd x)) (cs_backends s))"
  "sp_saved_at (export_persistent_state now ids s) = now"
  "sp_last_started_at (export_persistent_state now ids s) = cs_started_at s"
  by (simp_all add: export_persistent_state_def Let_def RouterPersistentState_canonicalize_def o_def)

lemma restarted_ok:
  assumes ok: "router_ok (ids, s)" and fences: "fence_records_ok s" and "ids \<le> ids'"
    and providers: "om_ok (cs_providers s0)" "length (cs_providers s0) \<le> unat (max_providers (cs_limits s))"
    and routes: "restore_routes (sp_routes (export_persistent_state now ids s)) ids0 om_empty [] = (ids1, routes, order)"
    and s': "s' = rebuild_indexes (restored_state (export_persistent_state now ids s) routes order s0)"
  shows "router_ok (ids', s')"
proof -
  note maps = restarted_maps [OF ok fences routes s'] and keys = durable_keys [OF ok fences]
  have s: "catalog_ok s" "history_ok ids s" "max_route_history (cs_limits s) \<noteq> 0"
    using ok by (simp_all add: router_ok_def state_ok_def)
  have rest: "cs_limits s' = cs_limits s" "cs_providers s' = cs_providers s0" "cs_compatibility s' = om_empty"
    "cs_trust s' = om_empty" "cs_costs s' = om_empty"
    by (simp_all add: s' restored_state_def)
  have backend_ok: "om_ok (cs_backends s')" using durable_maps [OF ok] by (simp add: maps)
  have "maps_ok s'"
    using durable_maps [OF ok] providers(1) maps(6)
    by (simp add: maps_ok_def maps(1-5) rest om_ok_empty)
  moreover have "models_ok s'" using s(1) by (auto simp: models_ok_def catalog_ok_def maps)
  moreover have "backends_ok s'"
    using s(1) by (auto simp: backends_ok_def catalog_ok_def maps restored_fields persist_backend_def)
  moreover have "bounds_ok s'" using s(1) providers(2) by (simp add: bounds_ok_def catalog_ok_def maps rest)
  moreover have "indexes_ok s'"
    using rebuilt_indexes [of "restored_state (export_persistent_state now ids s) routes order s0"] backend_ok
    by (simp add: s')
  moreover have "fences_ok s'"
    using maps(9) by (fastforce simp: fences_ok_def live_record_def live_status_def restored_not_live)
  moreover have "records_ok s'"
    unfolding records_ok_def
  proof (intro allI impI)
    fix i r' assume "om_find (cs_routes s') i = Some r'"
    then obtain r plan where r: "om_find (cs_routes s) i = Some r" "r' = restore_route plan (persist_route r)"
      using maps(9) by blast
    then show "rd_decision_id (rec_decision r') = i \<and> ra_decision_id (rd_authority (rec_decision r')) = i \<and>
        pl_decision_id (rec_plan r') = i \<and> pl_fallbacks (rec_plan r') = rd_fallbacks (rec_decision r')"
      using s(2) by (auto simp: history_ok_def records_ok_def restore_route_def persist_route_def Let_def)
  qed
  moreover have "distinct (map fst (cs_routes s))" using om_ok_distinct durable_maps [OF ok] by blast
  moreover have "length (cs_routes s) \<le> unat (max_route_history (cs_limits s))"
    using s(2) distinct_card [of "cs_route_order s"] distinct_card [OF calculation(8)]
    by (auto simp: history_ok_def)
  moreover have "\<forall>i \<in> fst ` set (cs_routes s). i \<le> ids'"
    using s(2) \<open>ids \<le> ids'\<close> by (fastforce simp: history_ok_def intro: order_trans)
  ultimately show ?thesis
    using s(3) by (simp add: router_ok_def state_ok_def catalog_ok_def history_ok_def maps(7,8) rest)
qed

lemma om_ok_ext_keys:
  assumes "om_ok m" "om_ok m'" "fst ` set m = fst ` set m'"
  shows "map fst m = map fst m'"
  using assms sorted_distinct_set_unique [of "map fst m" "map fst m'"]
  by (simp add: om_ok_def strictly_ascending_sorted strictly_ascending_distinct)

lemma om_values_by_key:
  assumes "om_ok m"
  shows "map (\<lambda>x. g (snd x)) m = map (\<lambda>k. g (the (om_find m k))) (map fst m)"
  using om.entries_find [OF assms] by (auto simp: o_def)

lemma restarted_routes:
  assumes ok: "router_ok (ids, s)" and fences: "fence_records_ok s"
    and routes: "restore_routes (sp_routes (export_persistent_state now ids s)) ids0 om_empty [] = (ids1, routes, order)"
    and s': "s' = rebuild_indexes (restored_state (export_persistent_state now ids s) routes order s0)"
  shows "map (\<lambda>x. persist_route (snd x)) (cs_routes s') =
    map (\<lambda>x. (persist_route (snd x))\<lparr>pt_status := RouteStatus.STALE\<rparr>) (cs_routes s)"
proof -
  note maps = restarted_maps [OF ok fences routes s'] and ok_routes = durable_maps(3) [OF ok]
  have keys: "map fst (cs_routes s') = map fst (cs_routes s)" by (rule om_ok_ext_keys [OF maps(6) ok_routes maps(8)])
  have "persist_route (the (om_find (cs_routes s') k)) =
      (persist_route (the (om_find (cs_routes s) k)))\<lparr>pt_status := RouteStatus.STALE\<rparr>"
    if "k \<in> fst ` set (cs_routes s)" for k
  proof -
    have "om_find (cs_routes s') k \<noteq> None"
      using that om_find_dom [OF maps(6)] maps(8) by metis
    then obtain r' where r': "om_find (cs_routes s') k = Some r'" by blast
    then show ?thesis using maps(9) [OF r'] persist_restore_route by auto
  qed
  then show ?thesis
    unfolding om_values_by_key [OF maps(6), of persist_route] keys
      om_values_by_key [OF ok_routes, of "\<lambda>r. (persist_route r)\<lparr>pt_status := RouteStatus.STALE\<rparr>"]
    by simp
qed

section \<open>A sample restart\<close>

definition sample_saved :: CanonicalState where
  "sample_saved = sample_state\<lparr>cs_router_id := 1, cs_router_generation := 1\<rparr>"

lemma router_ok_identity:
  "router_ok (ids, s\<lparr>cs_router_id := i, cs_router_generation := g\<rparr>) = router_ok (ids, s)"
  by (simp add: router_ok_def state_ok_def catalog_ok_def maps_ok_def models_ok_def
      backends_ok_def bounds_ok_def indexes_ok_def indexes_for_def fences_ok_def is_fenced_def
      history_ok_def records_ok_def)

lemma sample_saved_ok: "router_ok (100, sample_saved)" and sample_fences_ok: "fence_records_ok sample_saved"
proof -
  have "router_ok (100, sample_state)" using sample_commit_ready by (simp add: router_ok_def commit_ready_def)
  then show "router_ok (100, sample_saved)" by (simp add: sample_saved_def router_ok_identity)
  show "fence_records_ok sample_saved"
    by (simp add: fence_records_ok_def sample_saved_def sample_state_def sample_state_with_def
        CanonicalState_default_def om_empty_def)
qed

lemma sample_saved_lists:
  "sp_models (export_persistent_state 60 100 sample_saved) = [sample_model]"
  "sp_backends (export_persistent_state 60 100 sample_saved) = [persist_backend sample_backend]"
  "sp_fenced_boots (export_persistent_state 60 100 sample_saved) = []"
  "sp_routes (export_persistent_state 60 100 sample_saved) = [persist_route sample_record]"
  unfolding canonical_export [OF sample_saved_ok sample_fences_ok]
  by (simp_all add: sample_saved_def sample_state_def sample_state_with_def CanonicalState_default_def om_empty_def)

lemma sample_saved_valid:
  "RouterPersistentState_validate (export_persistent_state 60 100 sample_saved) default_resource_limits = []"
proof -
  let ?p = "export_persistent_state 60 100 sample_saved"
  have "RankingWeights_validate (sp_weights ?p) = []"
    by (simp add: sample_saved_def sample_state_def sample_state_with_def CanonicalState_default_def
      RankingWeights_validate_def validate_each_Nil_iff canonical_factor_order_def RankingWeights_default_def weight_def)
  moreover have "ModelDescriptor_validate sample_model = []"
    by (simp add: ModelDescriptor_validate_def sample_model_def valid_id_def modality_empty_def)
  moreover have "validate_backend_record default_resource_limits (persist_backend sample_backend) = []"
    by (simp add: validate_backend_record_def persist_backend_def sample_defs valid_id_def CapabilityProfile_empty_def
      default_resource_limits_def)
  moreover have "valid_id (pt_decision_id (persist_route sample_record))"
    "valid_id (pt_decision_generation (persist_route sample_record))"
    by (simp_all add: persist_route_def sample_record_def sample_decision_def RouteDecision_default_def valid_id_def Let_def)
  moreover have "max_models default_resource_limits = 8192" "max_backends default_resource_limits = 16384"
    "max_backend_incarnations default_resource_limits = 65536" "max_route_history default_resource_limits = 1000000"
    "max_persistence_records default_resource_limits = 4000000"
    by (simp_all add: default_resource_limits_def)
  moreover have "valid_id (sp_router_id ?p)" "valid_id (sp_router_generation ?p)"
    by (simp_all add: export_scalars sample_saved_def valid_id_def)
  ultimately show ?thesis
    by (simp add: RouterPersistentState_validate_def sample_saved_lists first_invalid_def default_limits_valid Let_def)
qed

lemma sample_imported:
  "\<exists>result ids' s'. import_persistent_state (export_persistent_state 60 100 sample_saved) 0 CanonicalState_default =
     (result, ids', s') \<and> mr_code result = ACCEPTED"
proof -
  have "cs_limits CanonicalState_default = default_resource_limits" "\<not> cs_running CanonicalState_default"
    by (simp_all add: CanonicalState_default_def)
  then show ?thesis
    by (simp add: import_persistent_state_def export_canonical sample_saved_valid Let_def split_beta
        MutationResult_built_def)
qed

section \<open>Properties\<close>

text \<open>
  (C25) A restart never resurrects authority or evidence.  After an accepted import, whatever the
  durable state held: both epochs have moved on from the durable ones, no decision is live and
  none issued in the old epoch can be dispatched, no dispatch is known, every evidence state of
  every backend is unknown under the unset generation, and every durably fenced incarnation is
  fenced.
\<close>

theorem import_invalidates_authority:
  assumes "import_persistent_state p ids s = (result, ids', s')" and "mr_code result = ACCEPTED"
    and "sp_last_router_epoch p \<noteq> kGenerationMax"
  shows "cs_router_epoch s' = sp_last_router_epoch p + 1 \<and>
    cs_coordinator_epoch s' = generation_next (sp_last_coordinator_epoch p) \<and>
    (\<forall>i r. om_find (cs_routes s') i = Some r \<longrightarrow>
       rd_status (rec_decision r) = RouteStatus.STALE \<and>
       (ra_router_epoch (rd_authority (rec_decision r)) \<le> sp_last_router_epoch p \<longrightarrow>
          \<not> is_authority_dispatchable s' (rd_authority (rec_decision r)) now)) \<and>
    cs_dispatches s' = om_empty \<and> cs_dispatch_index s' = om_empty \<and>
    (\<forall>i b. om_find (cs_backends s') i = Some b \<longrightarrow>
       be_state (bd_health b) = HealthState.UNKNOWN \<and> be_generation (bd_health b) = 0 \<and>
       be_state (bd_availability b) = AvailabilityState.UNKNOWN \<and> be_generation (bd_availability b) = 0 \<and>
       be_state (bd_readiness b) = ReadinessState.UNKNOWN \<and> be_generation (bd_readiness b) = 0 \<and>
       be_state (bd_residency b) = ResidencyState.UNKNOWN \<and> be_generation (bd_residency b) = 0 \<and>
       be_state (bd_capacity b) = CapacityState.UNKNOWN \<and> be_generation (bd_capacity b) = 0) \<and>
    (\<forall>f \<in> set (sp_fenced_boots p). is_fenced s' (fb_backend_id f) (fb_backend_boot f))"
proof -
  let ?p = "RouterPersistentState_canonicalize p"
  obtain ids1 routes order where routes: "restore_routes (sp_routes ?p) ids om_empty [] = (ids1, routes, order)"
    and s': "s' = rebuild_indexes (restored_state ?p routes order s)"
    using import_accepted [OF assms(1,2)] by metis
  have epoch: "cs_router_epoch s' = sp_last_router_epoch p + 1"
    using assms(3) by (simp add: s' restored_state_def canonicalize_members generation_next_def)
  have old: "e \<noteq> cs_router_epoch s'" if "e \<le> sp_last_router_epoch p" for e
    using that u64_Suc [of "sp_last_router_epoch p"] assms(3) unfolding epoch by (auto simp: word_le_nat_alt)
  have "rd_status (rec_decision r) = RouteStatus.STALE" if "om_find (cs_routes s') i = Some r" for i r
    using restore_routes_find [OF routes _ that [unfolded s', simplified, unfolded restored_state_def, simplified]]
    by (auto simp: om_empty_def om_ok_def restored_not_live)
  moreover have "\<exists>r. b = restore_backend r" if "om_find (cs_backends s') i = Some b" for i b
    using that unfolding s' by (auto simp: restored_state_def dest!: om_assign_SomeD)
  moreover have "is_fenced s' (fb_backend_id f) (fb_backend_boot f)" if "f \<in> set (sp_fenced_boots p)" for f
    using that om_assign_defined [of "\<lambda>f. (fb_backend_id f, fb_backend_boot f)" "\<lambda>f. f" "sp_fenced_boots ?p"
      "(fb_backend_id f, fb_backend_boot f)"]
    by (auto simp: is_fenced_def s' restored_state_def canonicalize_members)
  ultimately show ?thesis
    using epoch old other_epoch_not_dispatchable
    by (fastforce simp: s' restored_state_def canonicalize_members restored_fields observed_as_def
        BackendEvidence_default_def)
qed

theorem import_invalidates_authority_witness:
  "\<exists>result ids' s'. import_persistent_state (export_persistent_state 60 100 sample_saved) 0 CanonicalState_default =
     (result, ids', s') \<and> mr_code result = ACCEPTED \<and> cs_router_epoch s' = 2"
proof -
  obtain result ids' s' where r: "import_persistent_state (export_persistent_state 60 100 sample_saved) 0 CanonicalState_default = (result, ids', s')"
    and accepted: "mr_code result = ACCEPTED" using sample_imported by blast
  have "sp_last_router_epoch (export_persistent_state 60 100 sample_saved) = 1"
    by (simp add: export_scalars sample_saved_def sample_state_def sample_state_with_def)
  then show ?thesis using import_invalidates_authority [OF r accepted] r accepted by auto
qed

text \<open>
  (C26) A router restarted from what it saved satisfies the invariants again: importing the exported
  state into a fresh router gives a router on which every guarantee of the state machine holds,
  and its identities continue above every identity issued before the restart.
\<close>

theorem restart_keeps_invariants:
  assumes "router_ok (ids, s)" and "fence_records_ok s"
    and "om_ok (cs_providers s0)" and "length (cs_providers s0) \<le> unat (max_providers (cs_limits s))"
    and "import_persistent_state (export_persistent_state now ids s) ids0 s0 = (result, ids', s')"
    and "mr_code result = ACCEPTED"
  shows "router_ok (ids', s') \<and> ids \<le> ids' \<and> fence_records_ok s' \<and>
    (\<forall>i boot. is_fenced s' i boot \<longleftrightarrow> is_fenced s i boot)"
proof -
  let ?p = "export_persistent_state now ids s"
  obtain ids1 routes order where routes: "restore_routes (sp_routes ?p) ids0 om_empty [] = (ids1, routes, order)"
    and s': "s' = rebuild_indexes (restored_state ?p routes order s0)"
    and ids': "ids' = IdAllocator_observe (pc_highest_identity_issued (sp_counters ?p)) ids1"
    using import_accepted [OF assms(5,6), unfolded export_canonical] by metis
  have "ids \<le> ids'" using u64_max [of ids] unfolding ids' by (auto simp: IdAllocator_observe_def)
  moreover have "cs_fenced_boots s' = cs_fenced_boots s"
    by (rule restarted_maps(2) [OF assms(1,2) routes s'])
  ultimately show ?thesis
    using restarted_ok [OF assms(1,2) _ assms(3,4) routes s'] assms(2)
    by (simp add: fence_records_ok_def is_fenced_def)
qed

theorem restart_keeps_invariants_witness:
  "\<exists>result ids' s'. router_ok (100, sample_saved) \<and> fence_records_ok sample_saved \<and>
     import_persistent_state (export_persistent_state 60 100 sample_saved) 0 CanonicalState_default =
       (result, ids', s') \<and> mr_code result = ACCEPTED \<and> router_ok (ids', s') \<and> 100 \<le> ids'"
proof -
  obtain result ids' s' where r: "import_persistent_state (export_persistent_state 60 100 sample_saved) 0 CanonicalState_default = (result, ids', s')"
    and accepted: "mr_code result = ACCEPTED" using sample_imported by blast
  have providers: "om_ok (cs_providers CanonicalState_default)"
    "length (cs_providers CanonicalState_default) \<le> unat (max_providers (cs_limits sample_saved))"
    by (simp_all add: CanonicalState_default_def om_empty_def om_ok_def)
  then show ?thesis
    using restart_keeps_invariants [OF sample_saved_ok sample_fences_ok providers r accepted] r accepted
      sample_saved_ok sample_fences_ok by auto
qed

text \<open>
  (C27) Saving, restarting and saving again loses nothing that is durable: the second durable state
  is the first one with the epochs advanced, every decision marked stale, and the generations of
  the policy, budget and SLO, which have to be published again, unset.
\<close>

theorem durable_round_trip:
  assumes "router_ok (ids, s)" and "fence_records_ok s"
    and "om_ok (cs_providers s0)" and "length (cs_providers s0) \<le> unat (max_providers (cs_limits s))"
    and "import_persistent_state (export_persistent_state now ids s) ids0 s0 = (result, ids', s')"
    and "mr_code result = ACCEPTED"
  shows "export_persistent_state now' j s' =
    (export_persistent_state now ids s)
      \<lparr>sp_last_router_epoch := generation_next (cs_router_epoch s),
       sp_last_coordinator_epoch := generation_next (cs_coordinator_epoch s),
       sp_last_policy_generation := 0, sp_last_budget_generation := 0, sp_last_slo_generation := 0,
       sp_routes := map (\<lambda>r. r\<lparr>pt_status := RouteStatus.STALE\<rparr>) (sp_routes (export_persistent_state now ids s)),
       sp_counters := (cs_counters s)\<lparr>pc_highest_identity_issued := j\<rparr>, sp_saved_at := now'\<rparr>"
proof -
  let ?p = "export_persistent_state now ids s"
  obtain ids1 routes order where routes: "restore_routes (sp_routes ?p) ids0 om_empty [] = (ids1, routes, order)"
    and s': "s' = rebuild_indexes (restored_state ?p routes order s0)"
    using import_accepted [OF assms(5,6), unfolded export_canonical] by metis
  note maps = restarted_maps [OF assms(1,2) routes s'] and lists = canonical_export [OF assms(1,2)]
  have ok': "router_ok (ids, s')" and fences': "fence_records_ok s'"
    using restarted_ok [OF assms(1,2) order_refl assms(3,4) routes s'] assms(2) maps(2)
    by (simp_all add: fence_records_ok_def)
  note lists' = canonical_export [OF ok' fences']
  have backends: "map (\<lambda>x. persist_backend (snd x)) (cs_backends s') = map (\<lambda>x. persist_backend (snd x)) (cs_backends s)"
    using persisted_bindings_sorted(2) [OF assms(1)] om.entries_find [OF durable_maps(2) [OF assms(1)]]
    by (auto simp: maps(3) om_map_values_def persist_restore_backend)
  have "sp_models (export_persistent_state now' j s') = sp_models ?p"
    "sp_backends (export_persistent_state now' j s') = sp_backends ?p"
    "sp_fenced_boots (export_persistent_state now' j s') = sp_fenced_boots ?p"
    "sp_routes (export_persistent_state now' j s') = map (\<lambda>r. r\<lparr>pt_status := RouteStatus.STALE\<rparr>) (sp_routes ?p)"
    unfolding lists lists' backends maps(1,2) restarted_routes [OF assms(1,2) routes s'] by (simp_all add: o_def)
  moreover have "map (\<lambda>x. bd_model_bindings (snd x)) (cs_backends s') = map (\<lambda>x. bd_model_bindings (snd x)) (cs_backends s)"
    "map (\<lambda>x. bd_capability_generation (snd x)) (cs_backends s') =
     map (\<lambda>x. bd_capability_generation (snd x)) (cs_backends s)"
    "map (\<lambda>x. bd_backend_generation (snd x)) (cs_backends s') = map (\<lambda>x. bd_backend_generation (snd x)) (cs_backends s)"
    using arg_cong [OF backends, of "map pb_model_bindings"] arg_cong [OF backends, of "map pb_capability_generation"]
      arg_cong [OF backends, of "map pb_backend_generation"]
    by (simp_all add: o_def persist_backend_def)
  moreover have "map (\<lambda>x. map (\<lambda>d. co_price_generation (mb_cost d)) (bd_model_bindings (snd x))) (cs_backends s') =
      map (\<lambda>x. map (\<lambda>d. co_price_generation (mb_cost d)) (bd_model_bindings (snd x))) (cs_backends s)"
    using arg_cong [OF calculation(5), of "map (map (\<lambda>d. co_price_generation (mb_cost d)))"] by (simp add: o_def)
  ultimately show ?thesis
    by (intro RouterPersistentState.equality)
       (simp_all add: export_scalars o_def maps(1), simp_all add: s' restored_state_def export_scalars
         PolicySnapshot_default_def BudgetSnapshot_default_def SloEvidence_default_def)
qed

theorem durable_round_trip_witness:
  "\<exists>result ids' s'. router_ok (100, sample_saved) \<and> fence_records_ok sample_saved \<and>
     import_persistent_state (export_persistent_state 60 100 sample_saved) 0 CanonicalState_default =
       (result, ids', s') \<and> mr_code result = ACCEPTED \<and>
     sp_routes (export_persistent_state 70 ids' s') = [(persist_route sample_record)\<lparr>pt_status := RouteStatus.STALE\<rparr>]"
proof -
  obtain result ids' s' where r: "import_persistent_state (export_persistent_state 60 100 sample_saved) 0 CanonicalState_default = (result, ids', s')"
    and accepted: "mr_code result = ACCEPTED" using sample_imported by blast
  have providers: "om_ok (cs_providers CanonicalState_default)"
    "length (cs_providers CanonicalState_default) \<le> unat (max_providers (cs_limits sample_saved))"
    by (simp_all add: CanonicalState_default_def om_empty_def om_ok_def)
  then show ?thesis
    using durable_round_trip [OF sample_saved_ok sample_fences_ok providers r accepted, of 70 ids'] r accepted
      sample_saved_ok sample_fences_ok
    by (intro exI conjI) (assumption+, simp add: sample_saved_lists)
qed

end
