(* ===== verification/Crc32c.thy ===== *)
theory Crc32c
  imports Prelude
begin

text \<open>
  The CRC-32C checksum of \<open>src/detail/crc32c.cpp\<close>: the table-driven update is the bitwise
  definition, and two byte strings that differ in at most four consecutive bytes have different
  checksums.
\<close>

unbundle bit_operations_syntax

definition kPolynomial :: u32 where
  "kPolynomial = 0x82F63B78"

text \<open>One iteration of the inner loop that fills the table.\<close>

definition table_bit :: "u32 \<Rightarrow> u32" where
  "table_bit value = (if value AND 1 \<noteq> 0 then drop_bit 1 value XOR kPolynomial else drop_bit 1 value)"

definition kTable :: "u32 list" where
  "kTable = map (\<lambda>index. (table_bit ^^ 8) (of_nat index)) [0..<256]"

definition Crc32c_init :: u32 where
  "Crc32c_init = 0xFFFFFFFF"

definition crc_step :: "u32 \<Rightarrow> u8 \<Rightarrow> u32" where
  "crc_step state byte = kTable ! unat ((state XOR ucast byte) AND 0xFF) XOR drop_bit 8 state"

definition Crc32c_update :: "u32 \<Rightarrow> u8 list \<Rightarrow> u32" where
  "Crc32c_update state bytes = foldl crc_step state bytes"

definition Crc32c_value :: "u32 \<Rightarrow> u32" where
  "Crc32c_value state = state XOR 0xFFFFFFFF"

definition crc32c :: "u8 list \<Rightarrow> u32" where
  "crc32c bytes = Crc32c_value (Crc32c_update Crc32c_init bytes)"

section \<open>The step on single bits\<close>

lemma word_and_one: "(v::u32) AND 1 \<noteq> 0 \<longleftrightarrow> bit v 0"
  by (simp add: and_one_eq odd_iff_mod_2_eq_one bit_0 flip: odd_iff_mod_2_eq_one)

lemma table_bit_xor: "table_bit (a XOR b) = table_bit a XOR table_bit b"
  unfolding table_bit_def word_and_one
  by (simp add: bit_xor_iff drop_bit_xor xor.assoc xor.left_commute xor.commute)

lemma bit_u32_beyond: "32 \<le> n \<Longrightarrow> \<not> bit (v::u32) n"
  using bit_imp_le_length [of v n] by auto

lemma bit_table_bit_31: "bit (table_bit v) 31 \<longleftrightarrow> bit v 0"
  unfolding table_bit_def word_and_one by (simp add: bit_simps kPolynomial_def bit_u32_beyond)

lemma table_bit_zero: "table_bit v = 0 \<Longrightarrow> v = 0"
proof (rule bit_word_eqI)
  fix n assume zero: "table_bit v = 0" and "n < LENGTH(32)"
  then have even: "\<not> bit v 0" using bit_table_bit_31 [of v] by simp
  then have "drop_bit 1 v = 0" using zero unfolding table_bit_def word_and_one by simp
  moreover have "bit v (Suc m) = bit (drop_bit 1 v) m" for m by (simp add: bit_drop_bit_eq)
  ultimately have "\<not> bit v (Suc m)" for m by simp
  then show "bit v n = bit (0::u32) n" using even by (cases n) simp_all
qed

text \<open>Linear functions compose and are injective when only 0 is mapped to 0.\<close>

lemma funpow_xor:
  fixes f :: "u32 \<Rightarrow> u32"
  shows "(\<And>a b. f (a XOR b) = f a XOR f b) \<Longrightarrow> (f ^^ n) (a XOR b) = (f ^^ n) a XOR (f ^^ n) b"
  by (induction n) simp_all

lemma table_bits_xor: "(table_bit ^^ n) (a XOR b) = (table_bit ^^ n) a XOR (table_bit ^^ n) b"
  by (rule funpow_xor) (rule table_bit_xor)

lemma table_bits_zero: "(table_bit ^^ n) v = 0 \<Longrightarrow> v = 0"
  by (induction n) (auto dest: table_bit_zero)

lemma table_bits_inject: "(table_bit ^^ n) a = (table_bit ^^ n) b \<longleftrightarrow> a = b"
proof
  assume "(table_bit ^^ n) a = (table_bit ^^ n) b"
  then have "(table_bit ^^ n) (a XOR b) = 0" by (simp add: table_bits_xor)
  then have "a XOR b = 0" by (rule table_bits_zero)
  then show "a = b" by (simp add: bit_eq_iff bit_xor_iff)
qed simp

lemma table_bits_shift:
  "(\<And>i. i < n \<Longrightarrow> \<not> bit v i) \<Longrightarrow> (table_bit ^^ n) v = drop_bit n v"
proof (induction n arbitrary: v)
  case (Suc n)
  then have "table_bit v = drop_bit 1 v" using Suc.prems [of 0] unfolding table_bit_def word_and_one by simp
  moreover have "(table_bit ^^ n) (drop_bit 1 v) = drop_bit n (drop_bit 1 v)"
    using Suc.prems by (intro Suc.IH) (simp add: bit_drop_bit_eq)
  ultimately show ?case by (simp add: funpow_swap1 drop_bit_drop_bit)
qed simp

section \<open>The step on bytes\<close>

lemma kTable_nth: "n < 256 \<Longrightarrow> kTable ! n = (table_bit ^^ 8) (of_nat n)"
  by (simp add: kTable_def del: funpow.simps upt_Suc)

lemma bit_byte_mask: "bit (0xFF::u32) i \<longleftrightarrow> i < 8"
  using bit_mask_iff [where ?'a = "32 word" and m = 8 and n = i] by (auto simp: mask_eq_exp_minus_1)

lemma bit_above_byte: "bit ((v::u32) AND NOT 0xFF) i \<longleftrightarrow> 8 \<le> i \<and> bit v i"
  unfolding bit_and_iff bit_not_iff bit_byte_mask by (auto dest: bit_imp_le_length)

lemma crc_step_bitwise: "crc_step state byte = (table_bit ^^ 8) (state XOR ucast byte)"
proof -
  let ?v = "state XOR ucast byte"
  have low: "unat (?v AND 0xFF) < 256"
    using word_and_le1 [of ?v "0xFF"] by (simp add: word_le_nat_alt)
  have split: "?v = (?v AND 0xFF) XOR (?v AND NOT 0xFF)"
    by (rule bit_word_eqI) (auto simp: bit_simps)
  have "(table_bit ^^ 8) (?v AND NOT 0xFF) = drop_bit 8 (?v AND NOT 0xFF)"
    by (rule table_bits_shift) (simp only: bit_above_byte, simp)
  also have "\<dots> = drop_bit 8 state"
  proof (rule bit_word_eqI)
    fix n
    have "\<not> bit byte (8 + n)" using bit_imp_le_length [of byte "8 + n"] by auto
    then show "bit (drop_bit 8 (?v AND NOT 0xFF)) n = bit (drop_bit 8 state) n"
      by (simp only: bit_drop_bit_eq comp_apply bit_above_byte bit_xor_iff bit_unsigned_iff) simp
  qed
  finally have high: "(table_bit ^^ 8) (?v AND NOT 0xFF) = drop_bit 8 state" .
  have "crc_step state byte = (table_bit ^^ 8) (?v AND 0xFF) XOR drop_bit 8 state"
    unfolding crc_step_def kTable_nth [OF low] by (simp del: funpow.simps)
  also have "\<dots> = (table_bit ^^ 8) ((?v AND 0xFF) XOR (?v AND NOT 0xFF))"
    unfolding high [symmetric] table_bits_xor ..
  also have "\<dots> = (table_bit ^^ 8) ?v" unfolding split [symmetric] ..
  finally show ?thesis .
qed

text \<open>The checksum as the CRC is defined, one bit at a time.\<close>

definition crc32c_reference :: "u8 list \<Rightarrow> u32" where
  "crc32c_reference bytes =
     foldl (\<lambda>state byte. (table_bit ^^ 8) (state XOR ucast byte)) 0xFFFFFFFF bytes XOR 0xFFFFFFFF"

section \<open>Bursts\<close>

text \<open>Up to four bytes as one word, the first byte lowest.\<close>

fun burst_word :: "u8 list \<Rightarrow> u32" where
  "burst_word [] = 0"
| "burst_word (b # bs) = ucast b XOR push_bit 8 (burst_word bs)"

lemma bit_burst_word:
  "bit (burst_word bs) n \<longleftrightarrow> n < 32 \<and> n div 8 < length bs \<and> bit (bs ! (n div 8)) (n mod 8)"
proof (induction bs arbitrary: n)
  case (Cons b bs)
  show ?case
  proof (cases "n < 8")
    case True
    then show ?thesis by (simp add: bit_simps)
  next
    case False
    then obtain m where m: "n = m + 8" by (metis add.commute le_Suc_ex not_less)
    have "\<not> bit b n" "n div 8 = Suc (m div 8)" using False bit_imp_le_length [of b n] by (auto simp: m)
    then show ?thesis using Cons.IH [of m] bit_u32_beyond [of n "burst_word bs"] by (auto simp: m bit_simps)
  qed
qed simp

lemma burst_word_inject:
  assumes "length us = length vs" "length us \<le> 4" "burst_word us = burst_word vs"
  shows "us = vs"
proof (rule nth_equalityI)
  fix i assume "i < length us"
  have "bit (us ! i) k = bit (vs ! i) k" if "k < 8" for k
    using bit_burst_word [of us "8 * i + k"] bit_burst_word [of vs "8 * i + k"] assms that \<open>i < length us\<close> by simp
  then show "us ! i = vs ! i" by (intro bit_word_eqI) simp
qed (rule assms)

lemma Crc32c_update_burst:
  "length bs \<le> 4 \<Longrightarrow> Crc32c_update state bs = (table_bit ^^ (8 * length bs)) (state XOR burst_word bs)"
proof (induction bs arbitrary: state)
  case (Cons b bs)
  let ?w = "burst_word bs"
  have small: "n < 24" if "bit ?w n" for n
    using that Cons.prems by (auto simp: bit_burst_word)
  have "(table_bit ^^ 8) (push_bit 8 ?w) = drop_bit 8 (push_bit 8 ?w)"
    by (rule table_bits_shift) (simp add: bit_simps)
  also have "\<dots> = ?w" by (rule bit_word_eqI) (use small in \<open>fastforce simp: bit_simps\<close>)
  finally have shift: "(table_bit ^^ 8) (push_bit 8 ?w) = ?w" .
  have "Crc32c_update state (b # bs) = (table_bit ^^ (8 * length bs)) (crc_step state b XOR ?w)"
    using Cons by (simp add: Crc32c_update_def)
  also have "crc_step state b XOR ?w = (table_bit ^^ 8) (state XOR burst_word (b # bs))"
    by (simp add: crc_step_bitwise table_bits_xor shift xor.assoc)
  finally show ?case by (simp only: length_Cons mult_Suc_right add.commute [of 8] funpow_add comp_apply)
qed (simp add: Crc32c_update_def)

lemma xor_inject: "(a::u32) XOR c = b XOR c \<longleftrightarrow> a = b"
  by (auto simp: bit_eq_iff bit_xor_iff)

lemma Crc32c_update_inject: "Crc32c_update a bs = Crc32c_update b bs \<longleftrightarrow> a = b"
proof (induction bs rule: rev_induct)
  case (snoc x bs)
  have "Crc32c_update c (bs @ [x]) = (table_bit ^^ 8) (Crc32c_update c bs XOR ucast x)" for c
    by (simp add: Crc32c_update_def crc_step_bitwise)
  then show ?case using snoc by (simp add: table_bits_inject xor_inject del: funpow.simps)
qed (simp add: Crc32c_update_def)

lemma Crc32c_update_append: "Crc32c_update a (bs @ cs) = Crc32c_update (Crc32c_update a bs) cs"
  by (simp add: Crc32c_update_def)

lemma Crc32c_update_differs:
  assumes "length us = length vs" and "length us \<le> 4" and "us \<noteq> vs"
  shows "Crc32c_update state (xs @ us @ ys) \<noteq> Crc32c_update state (xs @ vs @ ys)"
proof -
  let ?s = "Crc32c_update state xs"
  have "burst_word us \<noteq> burst_word vs" using burst_word_inject assms by blast
  then have "Crc32c_update ?s us \<noteq> Crc32c_update ?s vs"
    using assms(1,2) xor_inject [of "burst_word us" ?s "burst_word vs"]
    by (simp add: Crc32c_update_burst table_bits_inject xor.commute)
  then show ?thesis by (simp add: Crc32c_update_append Crc32c_update_inject)
qed

lemma crc32c_differs:
  assumes "length us = length vs" and "length us \<le> 4" and "us \<noteq> vs"
  shows "crc32c (xs @ us @ ys) \<noteq> crc32c (xs @ vs @ ys)"
  using Crc32c_update_differs [OF assms] by (simp add: crc32c_def Crc32c_value_def xor_inject)

text \<open>Running the checksum over a text and its own checksum gives one fixed residue, and no other
  four bytes behind the text do.\<close>

lemma crc32c_residue:
  assumes "length cs = 4"
  shows "burst_word cs = crc32c bytes \<longleftrightarrow>
    Crc32c_update Crc32c_init (bytes @ cs) = (table_bit ^^ 32) 0xFFFFFFFF"
proof -
  let ?s = "Crc32c_update Crc32c_init bytes"
  have "burst_word cs = ?s XOR 0xFFFFFFFF \<longleftrightarrow> ?s XOR burst_word cs = 0xFFFFFFFF"
    by (auto simp: bit_eq_iff bit_xor_iff)
  then show ?thesis
    using Crc32c_update_burst [of cs ?s] assms
    by (simp add: crc32c_def Crc32c_value_def Crc32c_update_append table_bits_inject del: funpow.simps)
qed

section \<open>Properties\<close>

text \<open>
  (C40) The table-driven checksum is CRC-32C, and it detects every burst of up to 32 bits that is
  aligned to bytes: it agrees with the bit-at-a-time definition on every input, and two inputs
  that differ in at most four consecutive bytes, wherever they are and however long the rest is,
  never have the same checksum.
\<close>

theorem crc32c_is_crc_and_detects_bursts:
  assumes "length us = length vs" and "length us \<le> 4" and "us \<noteq> vs"
  shows "crc32c bytes = crc32c_reference bytes \<and> crc32c (xs @ us @ ys) \<noteq> crc32c (xs @ vs @ ys)"
proof
  have "crc_step = (\<lambda>state byte. (table_bit ^^ 8) (state XOR ucast byte))"
    by (intro ext) (rule crc_step_bitwise)
  then show "crc32c bytes = crc32c_reference bytes"
    by (simp add: crc32c_def crc32c_reference_def Crc32c_update_def Crc32c_value_def Crc32c_init_def)
  show "crc32c (xs @ us @ ys) \<noteq> crc32c (xs @ vs @ ys)" by (rule crc32c_differs [OF assms])
qed

theorem crc32c_is_crc_and_detects_bursts_witness:
  "crc32c [0x31, 0x32, 0x33] = crc32c_reference [0x31, 0x32, 0x33] \<and>
   crc32c [0x31, 0x32, 0x33] \<noteq> crc32c [0x31, 0x30, 0x33]"
  using crc32c_is_crc_and_detects_bursts [of "[0x32]" "[0x30]" "[0x31, 0x32, 0x33]" "[0x31]" "[0x33]"] by auto

end
