(* ===== verification/Byte_Codec.thy ===== *)
theory Byte_Codec
  imports Limits "HOL-Library.State_Monad"
begin

text \<open>
  The little-endian byte writers and readers of \<open>src/persistence.cpp\<close> (\<open>ByteWriter\<close>,
  \<open>ByteReader\<close>) and \<open>src/distributed/protocol.cpp\<close> (\<open>PayloadWriter\<close>, \<open>PayloadReader\<close>), which
  agree but for the error text.  A writer is \<open>None\<close> once a string did not fit (the flag of the
  class is sticky and the bytes are then never used).  The reader is a state monad over the
  remaining bytes and the sticky flag; once it has failed every read gives 0.
  The interface \<open>codec\<close> states that a value is read back as it was written; it is
  interpreted for every primitive here and for every record in the theories that define one.
\<close>

unbundle bit_operations_syntax

section \<open>Writing\<close>

type_synonym u16 = "16 word"
type_synonym writer = "u8 list option"

fun le_bytes :: "nat \<Rightarrow> 'w::len word \<Rightarrow> u8 list" where
  "le_bytes 0 v = []"
| "le_bytes (Suc n) v = ucast v # le_bytes n (drop_bit 8 v)"

definition put_u8 :: "u8 \<Rightarrow> writer" where
  "put_u8 v = Some [v]"

definition put_u16 :: "u16 \<Rightarrow> writer" where
  "put_u16 v = Some (le_bytes 2 v)"

definition put_u32 :: "u32 \<Rightarrow> writer" where
  "put_u32 v = Some (le_bytes 4 v)"

definition put_u64 :: "u64 \<Rightarrow> writer" where
  "put_u64 v = Some (le_bytes 8 v)"

definition put_i64 :: "int \<Rightarrow> writer" where
  "put_i64 v = put_u64 (word_of_int v)"

definition put_bool :: "bool \<Rightarrow> writer" where
  "put_bool v = put_u8 (if v then 1 else 0)"

definition put_string :: "ResourceLimits \<Rightarrow> string \<Rightarrow> writer" where
  "put_string limits v =
     (if length v > unat (max_string_bytes limits) then None
      else Some (le_bytes 4 (of_nat (length v) :: u32) @ map of_char v))"

text \<open>Consecutive calls on one writer.\<close>

fun writes :: "writer list \<Rightarrow> writer" where
  "writes [] = Some []"
| "writes (w # ws) = (case w of None \<Rightarrow> None | Some b \<Rightarrow> map_option ((@) b) (writes ws))"

section \<open>Reading\<close>

text \<open>\<open>rd_error\<close> is the reason of the first failure, which only the reader of the wire protocol
  keeps.  \<open>rd_foreign\<close> is set when a value outside its enumeration was read and kept: the datatypes of
  the model have no such value, the enumerations of the code do.\<close>

record ByteReader =
  rd_bytes :: "u8 list"
  rd_ok :: bool
  rd_error :: string
  rd_foreign :: bool

type_synonym 'a reader = "(ByteReader, 'a) state"

definition reader_on :: "u8 list \<Rightarrow> ByteReader" where
  "reader_on bytes = \<lparr>rd_bytes = bytes, rd_ok = True, rd_error = [], rd_foreign = False\<rparr>"

definition fail_with :: "string \<Rightarrow> ByteReader \<Rightarrow> ByteReader" where
  "fail_with message r = (if rd_ok r then r\<lparr>rd_ok := False, rd_error := message\<rparr> else r)"

definition ended_message :: string where
  "ended_message = ''payload ended inside a declared field''"

definition get_u8 :: "u8 reader" where
  "get_u8 = State (\<lambda>r.
     if \<not> rd_ok r \<or> rd_bytes r = [] then (0, fail_with ended_message r)
     else (hd (rd_bytes r), r\<lparr>rd_bytes := tl (rd_bytes r)\<rparr>))"

text \<open>The loops that gather a word, lowest byte first.\<close>

fun get_le :: "nat \<Rightarrow> nat \<Rightarrow> 'w::len word reader" where
  "get_le 0 shift = State_Monad.return 0"
| "get_le (Suc n) shift = do {
     byte \<leftarrow> get_u8;
     rest \<leftarrow> get_le n (shift + 8);
     State_Monad.return (push_bit shift (ucast byte) OR rest)
   }"

definition get_u16 :: "u16 reader" where "get_u16 = get_le 2 0"
definition get_u32 :: "u32 reader" where "get_u32 = get_le 4 0"
definition get_u64 :: "u64 reader" where "get_u64 = get_le 8 0"

definition get_i64 :: "int reader" where
  "get_i64 = do { v \<leftarrow> get_u64; State_Monad.return (sint v) }"

definition get_bool :: "bool reader" where
  "get_bool = do { v \<leftarrow> get_u8; State_Monad.return (v \<noteq> 0) }"

definition get_string :: "ResourceLimits \<Rightarrow> string reader" where
  "get_string limits = do {
     size \<leftarrow> get_u32;
     r \<leftarrow> State_Monad.get;
     if \<not> rd_ok r then State_Monad.return []
     else if size > max_string_bytes limits
       then do {
         State_Monad.set (fail_with ''declared string length exceeds the configured limit'' r);
         State_Monad.return []
       }
     else if length (rd_bytes r) < unat size
       then do { State_Monad.set (fail_with ended_message r); State_Monad.return [] }
     else do {
       State_Monad.set (r\<lparr>rd_bytes := drop (unat size) (rd_bytes r)\<rparr>);
       State_Monad.return (map (\<lambda>b. char_of (unat b)) (take (unat size) (rd_bytes r)))
     }
   }"

definition read_ok :: "bool reader" where
  "read_ok = do { r \<leftarrow> State_Monad.get; State_Monad.return (rd_ok r) }"

text \<open>\<open>ok() && exhausted()\<close>\<close>

definition read_done :: "bool reader" where
  "read_done = do { r \<leftarrow> State_Monad.get; State_Monad.return (rd_ok r \<and> rd_bytes r = []) }"

text \<open>A counted loop that reads one element per iteration.\<close>

fun get_many :: "'a reader \<Rightarrow> nat \<Rightarrow> 'a list reader" where
  "get_many get 0 = State_Monad.return []"
| "get_many get (Suc n) = do { x \<leftarrow> get; xs \<leftarrow> get_many get n; State_Monad.return (x # xs) }"

text \<open>A counted loop whose element reader may refuse, which ends the loop.\<close>

fun get_many_checked :: "'a option reader \<Rightarrow> nat \<Rightarrow> 'a list option reader" where
  "get_many_checked get 0 = State_Monad.return (Some [])"
| "get_many_checked get (Suc n) = do {
     x \<leftarrow> get;
     case x of
       None \<Rightarrow> State_Monad.return None
     | Some y \<Rightarrow> do { ys \<leftarrow> get_many_checked get n; State_Monad.return (map_option ((#) y) ys) }
   }"

section \<open>Enumerations\<close>

text \<open>An enumeration is the list of its enumerators; \<open>static_cast\<close> to the underlying type gives
  the position.\<close>

definition enum_index :: "'a list \<Rightarrow> 'a \<Rightarrow> nat" where
  "enum_index es e = length (takeWhile (\<lambda>x. x \<noteq> e) es)"

definition enum_at :: "'a list \<Rightarrow> nat \<Rightarrow> 'a option" where
  "enum_at es n = (if n < length es then Some (es ! n) else None)"

definition put_enum8 :: "'a list \<Rightarrow> 'a \<Rightarrow> writer" where
  "put_enum8 es e = put_u8 (of_nat (enum_index es e))"

definition put_enum16 :: "'a list \<Rightarrow> 'a \<Rightarrow> writer" where
  "put_enum16 es e = put_u16 (of_nat (enum_index es e))"

text \<open>A cast that the caller checks against \<open>kCount\<close>.\<close>

definition get_checked8 :: "'a list \<Rightarrow> 'a option reader" where
  "get_checked8 es = do { v \<leftarrow> get_u8; State_Monad.return (enum_at es (unat v)) }"

text \<open>A cast that nobody checks.\<close>

definition keep_enumerator :: "'a list \<Rightarrow> nat \<Rightarrow> 'a reader" where
  "keep_enumerator es n =
     (case enum_at es n of
        Some e \<Rightarrow> State_Monad.return e
      | None \<Rightarrow> State (\<lambda>r. (hd es, r\<lparr>rd_foreign := True\<rparr>)))"

definition get_enum8 :: "'a list \<Rightarrow> 'a reader" where
  "get_enum8 es = do { v \<leftarrow> get_u8; keep_enumerator es (unat v) }"

definition get_enum16 :: "'a list \<Rightarrow> 'a reader" where
  "get_enum16 es = do { v \<leftarrow> get_u16; keep_enumerator es (unat v) }"

section \<open>Reading back what was written\<close>

definition reads :: "'a reader \<Rightarrow> 'a \<Rightarrow> u8 list \<Rightarrow> bool" where
  "reads get v bs \<longleftrightarrow>
     (\<forall>rest f. run_state get \<lparr>rd_bytes = bs @ rest, rd_ok = True, rd_error = [], rd_foreign = f\<rparr> =
        (v, \<lparr>rd_bytes = rest, rd_ok = True, rd_error = [], rd_foreign = f\<rparr>))"

text \<open>\<open>agrees get v w\<close>: whatever \<open>w\<close> wrote, \<open>get\<close> reads \<open>v\<close> from it and stops where it ends.\<close>

definition agrees :: "'a reader \<Rightarrow> 'a \<Rightarrow> writer \<Rightarrow> bool" where
  "agrees get v w \<longleftrightarrow> (\<forall>bs. w = Some bs \<longrightarrow> reads get v bs)"

lemma agreesD: "agrees get v (Some bs) \<Longrightarrow> reads get v bs"
  by (simp add: agrees_def)

lemma agrees_return: "x = y \<Longrightarrow> agrees (State_Monad.return x) y (writes [])"
  by (simp add: agrees_def reads_def)

lemma agrees_bind:
  assumes "agrees g a w" and "agrees (h a) v (writes ws)"
  shows "agrees (State_Monad.bind g h) v (writes (w # ws))"
  using assms by (auto simp: agrees_def reads_def split: option.splits)

lemma agrees_last: "agrees g v w \<Longrightarrow> agrees g v (writes [w])"
  by (auto simp: agrees_def split: option.splits)

lemma agrees_only: "agrees g v (writes [w]) \<Longrightarrow> agrees g v w"
  by (auto simp: agrees_def split: option.splits)

lemma agrees_map:
  assumes "agrees g a w" and "f a = v"
  shows "agrees (do { x \<leftarrow> g; State_Monad.return (f x) }) v w"
  using assms by (auto simp: agrees_def reads_def)

lemma reads_bind_nil: "reads g a [] \<Longrightarrow> reads (h a) v bs \<Longrightarrow> reads (State_Monad.bind g h) v bs"
  by (simp add: reads_def)

lemma agrees_bind_nil: "reads g a [] \<Longrightarrow> agrees (h a) v w \<Longrightarrow> agrees (State_Monad.bind g h) v w"
  by (simp add: agrees_def reads_bind_nil)

lemma agrees_some: "agrees (f x) v w \<Longrightarrow> agrees (case Some x of None \<Rightarrow> g | Some y \<Rightarrow> f y) v w"
  by simp

lemma agrees_otherwise: "\<not> refused \<Longrightarrow> agrees g v w \<Longrightarrow> agrees (if refused then h else g) v w"
  by simp

lemma reads_ok: "reads read_ok True []"
  by (simp add: reads_def read_ok_def)

text \<open>A reader that finds nothing left says so.\<close>

lemma run_read_done:
  "run_state read_done \<lparr>rd_bytes = [], rd_ok = True, rd_error = [], rd_foreign = f\<rparr> =
     (True, \<lparr>rd_bytes = [], rd_ok = True, rd_error = [], rd_foreign = f\<rparr>)"
  by (simp add: read_done_def)

locale codec =
  fixes valid :: "'a \<Rightarrow> bool" and put :: "'a \<Rightarrow> writer" and get :: "'a reader"
  assumes read_back: "valid x \<Longrightarrow> agrees get x (put x)"
begin

text \<open>A counted loop over elements reads the list back.\<close>

lemma read_back_many: "list_all valid xs \<Longrightarrow> agrees (get_many get (length xs)) xs (writes (map put xs))"
proof (induction xs)
  case Nil
  show ?case by (simp add: agrees_def reads_def)
next
  case (Cons x xs)
  have "agrees (do { ys \<leftarrow> get_many get (length xs); State_Monad.return (x # ys) }) (x # xs) (writes (map put xs))"
    using Cons by (intro agrees_map) simp_all
  then show ?case using Cons.prems read_back [of x] by (simp add: agrees_bind del: writes.simps)
qed

end

locale checked_codec =
  fixes valid :: "'a \<Rightarrow> bool" and put :: "'a \<Rightarrow> writer" and get :: "'a option reader"
  assumes read_back: "valid x \<Longrightarrow> agrees get (Some x) (put x)"
begin

lemma read_back_many:
  "list_all valid xs \<Longrightarrow> agrees (get_many_checked get (length xs)) (Some xs) (writes (map put xs))"
proof (induction xs)
  case Nil
  show ?case by (simp add: agrees_def reads_def)
next
  case (Cons x xs)
  have "agrees (do { ys \<leftarrow> get_many_checked get (length xs); State_Monad.return (map_option ((#) x) ys) })
      (Some (x # xs)) (writes (map put xs))"
    using Cons by (intro agrees_map) simp_all
  then show ?case using Cons.prems read_back [of x] by (simp add: agrees_bind del: writes.simps)
qed

end

subsection \<open>Words\<close>

lemma count_u32: "n \<le> unat (m::u32) \<Longrightarrow> unat (of_nat n :: u32) = n"
  using unsigned_less [of m, where ?'a = nat] by (simp add: unsigned_of_nat take_bit_nat_eq_self)

lemma count_within: "n \<le> unat (m::u32) \<Longrightarrow> \<not> m < of_nat n"
  by (simp add: word_less_nat_alt count_u32)

lemma length_le_bytes [simp]: "length (le_bytes n v) = n"
  by (induction n arbitrary: v) simp_all

lemma reads_u8: "reads get_u8 v [v]"
  by (simp add: reads_def get_u8_def)

lemma reads_le:
  fixes v :: "'w::len word"
  assumes "8 \<le> LENGTH('w)" 
  shows "reads (get_le n shift) (push_bit shift (take_bit (8 * n) v)) (le_bytes n v)"
proof (induction n arbitrary: v shift)
  case 0
  show ?case by (simp add: reads_def)
next
  case (Suc n)
  have "push_bit shift (ucast (ucast v :: u8)) OR push_bit (shift + 8) (take_bit (8 * n) (drop_bit 8 v)) =
      push_bit shift (take_bit (8 * Suc n) v)"
  proof (rule bit_word_eqI)
    fix k assume k: "k < LENGTH('w)"
    show "bit (push_bit shift (ucast (ucast v :: u8)) OR push_bit (shift + 8) (take_bit (8 * n) (drop_bit 8 v))) k =
        bit (push_bit shift (take_bit (8 * Suc n) v)) k"
    proof (cases "k < shift + 8")
      case False
      then have "8 + (k - (shift + 8)) = k - shift" by simp
      then show ?thesis using False k by (auto simp: bit_simps)
    qed (use k assms in \<open>auto simp: bit_simps\<close>)
  qed
  then show ?case using Suc [of "shift + 8" "drop_bit 8 v"] reads_u8 [of "ucast v"] by (simp add: reads_def)
qed

lemma reads_le_all:
  fixes v :: "'w::len word"
  assumes "8 \<le> LENGTH('w)" "LENGTH('w) = 8 * n"
  shows "reads (get_le n 0) v (le_bytes n v)"
  using reads_le [OF assms(1), of n 0 v] take_bit_word_eq_self [of "8 * n" v] assms(2) by simp

lemma agrees_u8: "agrees get_u8 v (put_u8 v)"
  by (simp add: agrees_def put_u8_def reads_u8)

lemma agrees_u16: "agrees get_u16 v (put_u16 v)"
  by (simp add: agrees_def put_u16_def get_u16_def reads_le_all)

lemma agrees_u32: "agrees get_u32 v (put_u32 v)"
  by (simp add: agrees_def put_u32_def get_u32_def reads_le_all)

lemma agrees_u64: "agrees get_u64 v (put_u64 v)"
  by (simp add: agrees_def put_u64_def get_u64_def reads_le_all)

lemma agrees_bool: "agrees get_bool v (put_bool v)"
  unfolding get_bool_def put_bool_def by (rule agrees_map [OF agrees_u8]) simp

lemma agrees_i64: "in_int64 v \<Longrightarrow> agrees get_i64 v (put_i64 v)"
  unfolding get_i64_def put_i64_def
  by (rule agrees_map [OF agrees_u64])
     (simp add: in_int64_def int64_min_def int64_max_def signed_of_int signed_take_bit_int_eq_self)

lemma unat_of_char: "char_of (unat (of_char c :: u8)) = c"
proof -
  have "unat (of_char c :: u8) = of_char c" 
    by (simp add: of_char_def)
  then show ?thesis by simp
qed

lemma agrees_string: "agrees (get_string limits) v (put_string limits v)"
  unfolding agrees_def
proof (intro allI impI)
  fix bs assume "put_string limits v = Some bs"
  then have fits: "length v \<le> unat (max_string_bytes limits)"
    and bs: "bs = le_bytes 4 (of_nat (length v) :: u32) @ map of_char v"
    by (auto simp: put_string_def split: if_splits)
  have "length v < 2 ^ 32" using fits unsigned_less [where ?'b = 32 and w = "max_string_bytes limits" and ?'a = nat] by simp
  then have size: "unat (of_nat (length v) :: u32) = length v" by (simp add: unsigned_of_nat take_bit_nat_eq_self)
  moreover have "\<not> max_string_bytes limits < of_nat (length v)" using fits size by (simp add: word_less_nat_alt)
  ultimately show "reads (get_string limits) v bs"
    using agreesD [OF agrees_u32 [of "of_nat (length v)", unfolded put_u32_def]]
    by (simp add: reads_def get_string_def bs unat_of_char comp_def)
qed

subsection \<open>Enumerators\<close>

lemma enum_at_index:
  assumes "e \<in> set es"
  shows "enum_at es (enum_index es e) = Some e" and "enum_index es e < length es"
proof -
  have less: "enum_index es e < length es" and nth: "es ! enum_index es e = e"
    using assms unfolding enum_index_def by (induction es) auto
  then show "enum_at es (enum_index es e) = Some e" "enum_index es e < length es" by (simp_all add: enum_at_def)
qed

lemma agrees_checked8:
  assumes "e \<in> set es" "length es \<le> 256"
  shows "agrees (get_checked8 es) (Some e) (put_enum8 es e)"
  unfolding get_checked8_def put_enum8_def
  using enum_at_index [OF assms(1)] assms(2)
  by (intro agrees_map [OF agrees_u8]) (simp add: unsigned_of_nat take_bit_nat_eq_self)

lemma agrees_keep:
  assumes "enum_at es n = Some e" and "agrees g v w" and "unat v = n"
  shows "agrees (do { v \<leftarrow> g; keep_enumerator es (unat v) }) e w"
  using assms by (auto simp: agrees_def reads_def keep_enumerator_def)

lemma agrees_enum8:
  assumes "e \<in> set es" "length es \<le> 256"
  shows "agrees (get_enum8 es) e (put_enum8 es e)"
  unfolding get_enum8_def put_enum8_def
  using enum_at_index [OF assms(1)] assms(2)
  by (intro agrees_keep [OF _ agrees_u8]) (simp_all add: unsigned_of_nat take_bit_nat_eq_self)

lemma agrees_enum16:
  assumes "e \<in> set es" "length es \<le> 65536"
  shows "agrees (get_enum16 es) e (put_enum16 es e)"
  unfolding get_enum16_def put_enum16_def
  using enum_at_index [OF assms(1)] assms(2)
  by (intro agrees_keep [OF _ agrees_u16]) (simp_all add: unsigned_of_nat take_bit_nat_eq_self)

subsection \<open>The interface on the primitives\<close>

interpretation u8_codec: codec "\<lambda>_. True" put_u8 get_u8
  by unfold_locales (rule agrees_u8)

interpretation u32_codec: codec "\<lambda>_. True" put_u32 get_u32
  by unfold_locales (rule agrees_u32)

interpretation u64_codec: codec "\<lambda>_. True" put_u64 get_u64
  by unfold_locales (rule agrees_u64)

interpretation i64_codec: codec in_int64 put_i64 get_i64
  by unfold_locales (rule agrees_i64)

interpretation string_codec: codec "\<lambda>_. True" "put_string limits" "get_string limits"
  by unfold_locales (rule agrees_string)

end
