(* ===== verification/Record_Codec.thy ===== *)
theory Record_Codec
  imports Byte_Codec Router_Persist
begin

text \<open>
  The parts of a durable record (\<open>src/persistence.cpp\<close>): capability evidence and profiles, cost
  evidence, route authority and candidate keys.  A reader whose C++ counterpart returns \<open>bool\<close>
  gives \<open>None\<close> where that returns \<open>false\<close>; every caller then rejects the image.
\<close>

section \<open>Enumerators in the order of their values\<close>

definition capability_states :: "CapabilityState list" where
  "capability_states =
     [CapabilityState.UNKNOWN, CapabilityState.DECLARED, CapabilityState.OBSERVED, CapabilityState.VERIFIED,
      CapabilityState.REVOKED, CapabilityState.STALE, CapabilityState.UNSUPPORTED]"

definition cost_knownnesses :: "CostKnownness list" where
  "cost_knownnesses =
     [CostKnownness.UNKNOWN, CostKnownness.ESTIMATED, CostKnownness.QUOTED, CostKnownness.CONTRACTED]"

definition model_lifecycles :: "ModelLifecycle list" where
  "model_lifecycles =
     [ModelLifecycle.UNKNOWN, ModelLifecycle.CURRENT, ModelLifecycle.DEPRECATED, ModelLifecycle.RETIRED]"

definition provenances :: "Provenance list" where
  "provenances = [Provenance.REAL, Provenance.SYNTHETIC, Provenance.UNSUPPORTED]"

definition trust_domains :: "TrustDomain list" where
  "trust_domains =
     [TrustDomain.UNKNOWN, TrustDomain.PUBLIC_REMOTE, TrustDomain.TRUSTED_REMOTE,
      TrustDomain.PRIVATE_NETWORK, TrustDomain.LOCAL]"

definition route_statuses :: "RouteStatus list" where
  "route_statuses =
     [RouteStatus.CURRENT, RouteStatus.SUPERSEDED, RouteStatus.STALE, RouteStatus.DISPATCHED,
      RouteStatus.COMPLETED, RouteStatus.FAILED, RouteStatus.CANCELLED]"

lemma enumerators_complete [simp]:
  "e1 \<in> set capability_states" "e2 \<in> set cost_knownnesses" "e3 \<in> set model_lifecycles"
  "e4 \<in> set provenances" "e5 \<in> set trust_domains" "e6 \<in> set route_statuses" "e7 \<in> set kOutcomeCodes"
  unfolding capability_states_def cost_knownnesses_def model_lifecycles_def provenances_def
    trust_domains_def route_statuses_def kOutcomeCodes_def
  subgoal by (cases e1) simp_all
  subgoal by (cases e2) simp_all
  subgoal by (cases e3) simp_all
  subgoal by (cases e4) simp_all
  subgoal by (cases e5) simp_all
  subgoal by (cases e6) simp_all
  subgoal by (cases e7) simp_all
  done

lemma enumerators_few [simp]:
  "length capability_states \<le> 256" "length cost_knownnesses \<le> 256" "length model_lifecycles \<le> 256"
  "length provenances \<le> 256" "length trust_domains \<le> 256" "length route_statuses \<le> 256"
  "length kOutcomeCodes \<le> 65536"
  by (simp_all add: capability_states_def cost_knownnesses_def model_lifecycles_def provenances_def
      trust_domains_def route_statuses_def kOutcomeCodes_def)

section \<open>Capability evidence\<close>

definition write_capability :: "ResourceLimits \<Rightarrow> CapabilityEvidence \<Rightarrow> writer" where
  "write_capability limits e = writes
     [put_string limits (ce_key e), put_enum8 capability_states (ce_state e), put_u64 (ce_generation e),
      put_u64 (ce_profile_id e), put_u64 (ce_model_generation e), put_u64 (ce_backend_generation e),
      put_u64 (ce_backend_boot e), put_i64 (ce_observed_at e), put_i64 (ce_expires_at e),
      put_string limits (ce_source e), put_string limits (ce_detail e)]"

definition read_capability :: "ResourceLimits \<Rightarrow> CapabilityEvidence option reader" where
  "read_capability limits = do {
     key \<leftarrow> get_string limits;
     state \<leftarrow> get_checked8 capability_states;
     generation \<leftarrow> get_u64;
     profile_id \<leftarrow> get_u64;
     model_generation \<leftarrow> get_u64;
     backend_generation \<leftarrow> get_u64;
     backend_boot \<leftarrow> get_u64;
     observed_at \<leftarrow> get_i64;
     expires_at \<leftarrow> get_i64;
     source \<leftarrow> get_string limits;
     detail \<leftarrow> get_string limits;
     ok \<leftarrow> read_ok;
     State_Monad.return (if ok then map_option (\<lambda>s.
       \<lparr>ce_key = key, ce_state = s, ce_generation = generation, ce_profile_id = profile_id,
        ce_model_generation = model_generation, ce_backend_generation = backend_generation,
        ce_backend_boot = backend_boot, ce_observed_at = observed_at, ce_expires_at = expires_at,
        ce_source = source, ce_detail = detail\<rparr>) state else None)
   }"

definition write_profile :: "ResourceLimits \<Rightarrow> CapabilityProfile \<Rightarrow> writer" where
  "write_profile limits p = writes
     [put_u64 (cp_id p), put_u64 (cp_generation p), put_u32 (of_nat (length (cp_entries p))),
      writes (map (write_capability limits) (cp_entries p))]"

text \<open>The loop of \<open>read_profile\<close>.\<close>

fun read_entries :: "ResourceLimits \<Rightarrow> nat \<Rightarrow> CapabilityProfile \<Rightarrow> CapabilityProfile option reader" where
  "read_entries limits 0 parsed = State_Monad.return (Some parsed)"
| "read_entries limits (Suc n) parsed = do {
     evidence \<leftarrow> read_capability limits;
     case evidence of
       None \<Rightarrow> State_Monad.return None
     | Some e \<Rightarrow>
         (let (parsed', kept) = CapabilityProfile_set parsed e (max_capability_entries limits) in
          if kept then read_entries limits n parsed' else State_Monad.return None)
   }"

definition read_profile :: "ResourceLimits \<Rightarrow> CapabilityProfile option reader" where
  "read_profile limits = do {
     profile_id \<leftarrow> get_u64;
     generation \<leftarrow> get_u64;
     count \<leftarrow> get_u32;
     ok \<leftarrow> read_ok;
     if \<not> ok \<or> count > max_capability_entries limits then State_Monad.return None
     else read_entries limits (unat count) \<lparr>cp_id = profile_id, cp_generation = generation, cp_entries = []\<rparr>
   }"

section \<open>Cost evidence\<close>

definition write_cost :: "ResourceLimits \<Rightarrow> CostEvidence \<Rightarrow> writer" where
  "write_cost limits c = writes
     [put_u64 (co_evidence_id c), put_u64 (co_price_generation c), put_u64 (co_backend_id c),
      put_u64 (co_model_id c), put_string limits (cu_currency (co_unit c)),
      put_string limits (cu_basis (co_unit c)), put_i64 (co_input_micros_per_unit c),
      put_i64 (co_output_micros_per_unit c), put_i64 (co_request_minimum_micros c),
      put_i64 (co_cache_read_micros_per_unit c), put_i64 (co_cache_write_micros_per_unit c),
      put_i64 (co_estimated_total_micros c), put_enum8 cost_knownnesses (co_knownness c),
      put_i64 (co_effective_at c), put_i64 (co_expires_at c), put_string limits (co_source c)]"

definition read_cost :: "ResourceLimits \<Rightarrow> CostEvidence option reader" where
  "read_cost limits = do {
     evidence_id \<leftarrow> get_u64;
     price_generation \<leftarrow> get_u64;
     backend_id \<leftarrow> get_u64;
     model_id \<leftarrow> get_u64;
     currency \<leftarrow> get_string limits;
     basis \<leftarrow> get_string limits;
     input_micros \<leftarrow> get_i64;
     output_micros \<leftarrow> get_i64;
     request_minimum \<leftarrow> get_i64;
     cache_read \<leftarrow> get_i64;
     cache_write \<leftarrow> get_i64;
     estimated_total \<leftarrow> get_i64;
     knownness \<leftarrow> get_checked8 cost_knownnesses;
     effective_at \<leftarrow> get_i64;
     expires_at \<leftarrow> get_i64;
     source \<leftarrow> get_string limits;
     ok \<leftarrow> read_ok;
     State_Monad.return (if ok then map_option (\<lambda>k.
       \<lparr>co_evidence_id = evidence_id, co_price_generation = price_generation, co_backend_id = backend_id,
        co_model_id = model_id, co_unit = \<lparr>cu_currency = currency, cu_basis = basis\<rparr>,
        co_input_micros_per_unit = input_micros, co_output_micros_per_unit = output_micros,
        co_request_minimum_micros = request_minimum, co_cache_read_micros_per_unit = cache_read,
        co_cache_write_micros_per_unit = cache_write, co_estimated_total_micros = estimated_total,
        co_knownness = k, co_effective_at = effective_at, co_expires_at = expires_at,
        co_source = source\<rparr>) knownness else None)
   }"

section \<open>Authority and candidate keys\<close>

definition write_authority :: "RouteAuthority \<Rightarrow> writer" where
  "write_authority a = writes
     [put_u64 (ra_router_id a), put_u64 (ra_router_epoch a), put_u64 (ra_coordinator_epoch a),
      put_u64 (ra_request_id a), put_u64 (ra_request_generation a), put_u64 (ra_decision_id a),
      put_u64 (ra_decision_generation a), put_u64 (ra_model_id a), put_u64 (ra_model_generation a),
      put_u64 (ra_artifact_generation a), put_u64 (ra_provider_id a),
      put_u64 (ra_provider_generation a), put_u64 (ra_backend_id a),
      put_u64 (ra_backend_generation a), put_u64 (ra_backend_boot a),
      put_u64 (ra_backend_registration_generation a), put_u64 (ra_endpoint_id a),
      put_u64 (ra_endpoint_generation a), put_u64 (ra_capability_profile_id a),
      put_u64 (ra_capability_generation a), put_u64 (ra_policy_id a),
      put_u64 (ra_policy_generation a), put_u64 (ra_budget_id a), put_u64 (ra_budget_generation a),
      put_u64 (ra_cost_evidence_id a), put_u64 (ra_price_generation a), put_u64 (ra_slo_id a),
      put_u64 (ra_slo_generation a), put_u64 (ra_compatibility_profile_id a),
      put_u64 (ra_compatibility_generation a), put_u64 (ra_trust_profile_id a),
      put_u64 (ra_trust_generation a), put_u64 (ra_health_generation a),
      put_u64 (ra_availability_generation a), put_u64 (ra_readiness_generation a),
      put_u64 (ra_residency_generation a), put_u64 (ra_capacity_generation a),
      put_u64 (ra_reservation_id a), put_u64 (ra_reservation_generation a), put_u64 (ra_tenant a),
      put_u64 (ra_name_space a), put_u64 (ra_dispatch_generation a), put_i64 (ra_issued_at a),
      put_i64 (ra_expires_at a)]"

definition read_authority :: "RouteAuthority reader" where
  "read_authority = do {
     router_id \<leftarrow> get_u64;
     router_epoch \<leftarrow> get_u64;
     coordinator_epoch \<leftarrow> get_u64;
     request_id \<leftarrow> get_u64;
     request_generation \<leftarrow> get_u64;
     decision_id \<leftarrow> get_u64;
     decision_generation \<leftarrow> get_u64;
     model_id \<leftarrow> get_u64;
     model_generation \<leftarrow> get_u64;
     artifact_generation \<leftarrow> get_u64;
     provider_id \<leftarrow> get_u64;
     provider_generation \<leftarrow> get_u64;
     backend_id \<leftarrow> get_u64;
     backend_generation \<leftarrow> get_u64;
     backend_boot \<leftarrow> get_u64;
     backend_registration_generation \<leftarrow> get_u64;
     endpoint_id \<leftarrow> get_u64;
     endpoint_generation \<leftarrow> get_u64;
     capability_profile_id \<leftarrow> get_u64;
     capability_generation \<leftarrow> get_u64;
     policy_id \<leftarrow> get_u64;
     policy_generation \<leftarrow> get_u64;
     budget_id \<leftarrow> get_u64;
     budget_generation \<leftarrow> get_u64;
     cost_evidence_id \<leftarrow> get_u64;
     price_generation \<leftarrow> get_u64;
     slo_id \<leftarrow> get_u64;
     slo_generation \<leftarrow> get_u64;
     compatibility_profile_id \<leftarrow> get_u64;
     compatibility_generation \<leftarrow> get_u64;
     trust_profile_id \<leftarrow> get_u64;
     trust_generation \<leftarrow> get_u64;
     health_generation \<leftarrow> get_u64;
     availability_generation \<leftarrow> get_u64;
     readiness_generation \<leftarrow> get_u64;
     residency_generation \<leftarrow> get_u64;
     capacity_generation \<leftarrow> get_u64;
     reservation_id \<leftarrow> get_u64;
     reservation_generation \<leftarrow> get_u64;
     tenant \<leftarrow> get_u64;
     name_space \<leftarrow> get_u64;
     dispatch_generation \<leftarrow> get_u64;
     issued_at \<leftarrow> get_i64;
     expires_at \<leftarrow> get_i64;
     State_Monad.return
       \<lparr>ra_router_id = router_id, ra_router_epoch = router_epoch,
        ra_coordinator_epoch = coordinator_epoch, ra_request_id = request_id,
        ra_request_generation = request_generation, ra_decision_id = decision_id,
        ra_decision_generation = decision_generation, ra_model_id = model_id,
        ra_model_generation = model_generation, ra_artifact_generation = artifact_generation,
        ra_provider_id = provider_id, ra_provider_generation = provider_generation,
        ra_backend_id = backend_id, ra_backend_generation = backend_generation,
        ra_backend_boot = backend_boot,
        ra_backend_registration_generation = backend_registration_generation,
        ra_endpoint_id = endpoint_id, ra_endpoint_generation = endpoint_generation,
        ra_capability_profile_id = capability_profile_id,
        ra_capability_generation = capability_generation, ra_policy_id = policy_id,
        ra_policy_generation = policy_generation, ra_budget_id = budget_id,
        ra_budget_generation = budget_generation, ra_cost_evidence_id = cost_evidence_id,
        ra_price_generation = price_generation, ra_slo_id = slo_id,
        ra_slo_generation = slo_generation, ra_compatibility_profile_id = compatibility_profile_id,
        ra_compatibility_generation = compatibility_generation,
        ra_trust_profile_id = trust_profile_id, ra_trust_generation = trust_generation,
        ra_health_generation = health_generation,
        ra_availability_generation = availability_generation,
        ra_readiness_generation = readiness_generation,
        ra_residency_generation = residency_generation,
        ra_capacity_generation = capacity_generation, ra_reservation_id = reservation_id,
        ra_reservation_generation = reservation_generation, ra_tenant = tenant,
        ra_name_space = name_space, ra_dispatch_generation = dispatch_generation,
        ra_issued_at = issued_at, ra_expires_at = expires_at\<rparr>
   }"

definition write_candidate_key :: "CandidateKey \<Rightarrow> writer" where
  "write_candidate_key k = writes
     [put_u64 (ck_model_id k), put_u64 (ck_model_generation k), put_u64 (ck_artifact_generation k),
      put_u64 (ck_backend_id k), put_u64 (ck_backend_generation k), put_u64 (ck_backend_boot k),
      put_u64 (ck_endpoint_id k), put_u64 (ck_endpoint_generation k)]"

definition read_candidate_key :: "CandidateKey reader" where
  "read_candidate_key = do {
     model_id \<leftarrow> get_u64;
     model_generation \<leftarrow> get_u64;
     artifact_generation \<leftarrow> get_u64;
     backend_id \<leftarrow> get_u64;
     backend_generation \<leftarrow> get_u64;
     backend_boot \<leftarrow> get_u64;
     endpoint_id \<leftarrow> get_u64;
     endpoint_generation \<leftarrow> get_u64;
     State_Monad.return
       (CandidateKey model_id model_generation artifact_generation backend_id backend_generation
          backend_boot endpoint_id endpoint_generation)
   }"

section \<open>Reading back\<close>

text \<open>The values of a record that fit the signed 64-bit fields of the format.\<close>

definition capability_fits :: "CapabilityEvidence \<Rightarrow> bool" where
  "capability_fits e \<longleftrightarrow> in_int64 (ce_observed_at e) \<and> in_int64 (ce_expires_at e)"

definition profile_fits :: "ResourceLimits \<Rightarrow> CapabilityProfile \<Rightarrow> bool" where
  "profile_fits limits p \<longleftrightarrow>
     profile_ok p \<and> length (cp_entries p) \<le> unat (max_capability_entries limits) \<and>
     list_all capability_fits (cp_entries p)"

definition cost_fits :: "CostEvidence \<Rightarrow> bool" where
  "cost_fits c \<longleftrightarrow>
     in_int64 (co_input_micros_per_unit c) \<and> in_int64 (co_output_micros_per_unit c) \<and>
     in_int64 (co_request_minimum_micros c) \<and> in_int64 (co_cache_read_micros_per_unit c) \<and>
     in_int64 (co_cache_write_micros_per_unit c) \<and> in_int64 (co_estimated_total_micros c) \<and>
     in_int64 (co_effective_at c) \<and> in_int64 (co_expires_at c)"

definition authority_fits :: "RouteAuthority \<Rightarrow> bool" where
  "authority_fits a \<longleftrightarrow> in_int64 (ra_issued_at a) \<and> in_int64 (ra_expires_at a)"

lemmas read_back_fields =
  agrees_bind [OF agrees_u64] agrees_bind [OF agrees_i64] agrees_bind [OF agrees_u32]
  agrees_bind [OF agrees_u8] agrees_bind [OF agrees_bool] agrees_bind [OF agrees_string]
  agrees_bind [OF agrees_checked8] agrees_bind [OF agrees_enum8] agrees_bind [OF agrees_enum16]
  agrees_bind_nil [OF reads_ok] agrees_return

interpretation capability_codec: checked_codec capability_fits "write_capability limits" "read_capability limits"
proof
  fix e assume "capability_fits e"
  then show "agrees (read_capability limits) (Some e) (write_capability limits e)"
    unfolding read_capability_def write_capability_def capability_fits_def
    by (intro read_back_fields) simp_all
qed

interpretation cost_codec: checked_codec cost_fits "write_cost limits" "read_cost limits"
proof
  fix c assume "cost_fits c"
  then show "agrees (read_cost limits) (Some c) (write_cost limits c)"
    unfolding read_cost_def write_cost_def cost_fits_def by (intro read_back_fields) simp_all
qed

text \<open>The entries of a well-formed profile are stored one after the other, each behind all before it.\<close>

lemma profile_set_last:
  assumes "profile_ok (p\<lparr>cp_entries := cp_entries p @ [e]\<rparr>)" "length (cp_entries p) < unat n"
  shows "CapabilityProfile_set p e n = (p\<lparr>cp_entries := cp_entries p @ [e]\<rparr>, True)"
proof -
  have "sorted_wrt (<) (map ce_key (cp_entries p) @ [ce_key e])"
    using assms(1) by (simp add: profile_ok_def)
  then have below: "\<forall>x \<in> set (cp_entries p). ce_key x < ce_key e" and sorted: "sorted (map ce_key (cp_entries p))"
    by (auto simp: sorted_wrt_append strict_sorted_imp_sorted)
  have "lower_bound ce_key (ce_key e) (cp_entries p) = length (cp_entries p)"
    using lower_bound_partition(1,3) [OF sorted, of "ce_key e"] below
    by (metis leD nat_less_le nth_mem order_refl)
  then show ?thesis using assms(2) by (simp add: CapabilityProfile_set_def Let_def)
qed

lemma agrees_entries:
  assumes "profile_ok (p\<lparr>cp_entries := cp_entries p @ es\<rparr>)" and "list_all capability_fits es"
    and "length (cp_entries p @ es) \<le> unat (max_capability_entries limits)"
  shows "agrees (read_entries limits (length es) p) (Some (p\<lparr>cp_entries := cp_entries p @ es\<rparr>))
    (writes (map (write_capability limits) es))"
  using assms
proof (induction es arbitrary: p)
  case Nil
  show ?case by (simp add: agrees_def reads_def)
next
  case (Cons e es)
  let ?p = "p\<lparr>cp_entries := cp_entries p @ [e]\<rparr>"
  have "profile_ok ?p" using Cons.prems(1) by (simp add: profile_ok_def sorted_wrt_append)
  then have set: "CapabilityProfile_set p e (max_capability_entries limits) = (?p, True)"
    using Cons.prems(3) by (intro profile_set_last) simp_all
  have "agrees (read_entries limits (length es) ?p) (Some (p\<lparr>cp_entries := cp_entries p @ e # es\<rparr>))
      (writes (map (write_capability limits) es))"
    using Cons.IH [of ?p] Cons.prems by simp
  moreover have "agrees (read_capability limits) (Some e) (write_capability limits e)"
    using Cons.prems(2) by (intro capability_codec.read_back) simp
  ultimately show ?case by (simp add: agrees_bind set del: writes.simps)
qed

interpretation profile_codec: checked_codec "profile_fits limits" "write_profile limits" "read_profile limits"
proof
  fix p assume p: "profile_fits limits p"
  have "unat (max_capability_entries limits) < 2 ^ 32" using unsigned_less [of "max_capability_entries limits"] by simp
  then have count: "unat (of_nat (length (cp_entries p)) :: u32) = length (cp_entries p)"
    using p by (simp add: profile_fits_def unsigned_of_nat take_bit_nat_eq_self)
  have "agrees (read_entries limits (length (cp_entries p)) \<lparr>cp_id = cp_id p, cp_generation = cp_generation p, cp_entries = []\<rparr>)
      (Some p) (writes (map (write_capability limits) (cp_entries p)))"
    using agrees_entries [of "p\<lparr>cp_entries := []\<rparr>" "cp_entries p" limits] p by (cases p) (simp add: profile_fits_def)
  then show "agrees (read_profile limits) (Some p) (write_profile limits p)"
    unfolding read_profile_def write_profile_def using p
    by (intro read_back_fields agrees_otherwise agrees_last)
       (simp_all add: count profile_fits_def word_less_nat_alt)
qed

interpretation authority_codec: codec authority_fits write_authority read_authority
proof
  fix a assume "authority_fits a"
  then show "agrees read_authority a (write_authority a)"
    unfolding read_authority_def write_authority_def authority_fits_def
    by (intro read_back_fields) simp_all
qed

interpretation candidate_key_codec: codec "\<lambda>_. True" write_candidate_key read_candidate_key
proof
  fix k :: CandidateKey
  show "agrees read_candidate_key k (write_candidate_key k)"
    unfolding read_candidate_key_def write_candidate_key_def by (intro read_back_fields) simp_all
qed

end
