(* ===== verification/Byte_Damage.thy ===== *)
theory Byte_Damage
  imports Byte_Codec Crc32c
begin

text \<open>
  Words at fixed positions of a byte string, and what a checksum says about damaged bytes: the
  lemmas the durable image and the frames of the wire protocol share.  Damage here is a change of
  at most four consecutive bytes.
\<close>

section \<open>Words at a position\<close>

text \<open>The little-endian word of \<open>n\<close> bytes at a position.\<close>

definition word_at :: "nat \<Rightarrow> u8 list \<Rightarrow> nat \<Rightarrow> 'w::len word" where
  "word_at n bytes at = fst (run_state (get_le n 0) (reader_on (drop at bytes)))"

lemma run_get_le [simp]:
  fixes v :: "'w::len word"
  assumes "LENGTH('w) = 8 * n" "n \<noteq> 0"
  shows "fst (run_state (get_le n 0) (reader_on (le_bytes n v @ rest))) = v"
  using reads_le_all [of n v] assms by (simp add: reads_def reader_on_def)

lemma nth_le_bytes: "i < n \<Longrightarrow> le_bytes n v ! i = ucast (drop_bit (8 * i) v)"
proof (induction n arbitrary: v i)
  case (Suc n)
  then show ?case by (cases i) (simp_all add: drop_bit_drop_bit add.commute)
qed simp

lemma burst_word_le_bytes: "burst_word (le_bytes 4 v) = (v :: u32)"
proof (rule bit_word_eqI)
  fix n assume "n < LENGTH(32)"
  then have "n div 8 < 4" by simp
  with \<open>n < LENGTH(32)\<close> show "bit (burst_word (le_bytes 4 v)) n = bit v n"
    using nth_le_bytes [of "n div 8" 4 v] by (simp add: bit_burst_word bit_simps)
qed

lemma word_at_burst:
  assumes "at + 4 \<le> length bytes"
  shows "word_at 4 bytes at = burst_word (take 4 (drop at bytes))"
proof -
  let ?cs = "take 4 (drop at bytes)"
  have "le_bytes 4 (burst_word ?cs) = ?cs"
    using assms by (intro burst_word_inject) (simp_all add: burst_word_le_bytes)
  then have "drop at bytes = le_bytes 4 (burst_word ?cs) @ drop 4 (drop at bytes)" by (simp del: drop_drop)
  then have "word_at 4 bytes at = fst (run_state (get_le 4 0) (reader_on (le_bytes 4 (burst_word ?cs) @ drop 4 (drop at bytes))))"
    unfolding word_at_def by (rule arg_cong)
  also have "\<dots> = burst_word ?cs" by (rule run_get_le) simp_all
  finally show ?thesis .
qed

lemma reads_le_some: "length cs = n \<Longrightarrow> \<exists>v :: 'w::len word. reads (get_le n shift) v cs"
proof (induction n arbitrary: cs shift)
  case (Suc n)
  then obtain c ds where cs: "cs = c # ds" "length ds = n" by (cases cs) auto
  with Suc.IH obtain v :: "'w word" where "reads (get_le n (shift + 8)) v ds" by blast
  then show ?case using reads_u8 [of c] by (auto simp: reads_def cs)
qed (simp add: reads_def)

lemma word_at_cong:
  assumes "take n (drop at a) = take n (drop at b)" "at + n \<le> length a" "at + n \<le> length b"
  shows "(word_at n a at :: 'w::len word) = word_at n b at"
proof -
  have len: "length (take n (drop at a)) = n" using assms(2) by simp
  obtain v :: "'w word" where v: "reads (get_le n 0) v (take n (drop at a))" using reads_le_some [OF len] by blast
  have "(word_at n c at :: 'w word) = v" if "take n (drop at c) = take n (drop at a)" for c
  proof -
    have "drop at c = take n (drop at a) @ drop n (drop at c)" unfolding that [symmetric] by (simp del: drop_drop)
    then show ?thesis using v unfolding word_at_def reads_def reader_on_def by (metis fst_conv)
  qed
  then show ?thesis using assms(1) by metis
qed

lemma prefix_word_cong:
  assumes "take m a = take m b" "m \<le> length a" "m \<le> length b" "at + n \<le> m"
  shows "word_at n a at = word_at n b at"
proof (rule word_at_cong)
  have "take n (drop at c) = take n (drop at (take m c))" for c :: "u8 list"
    using assms(4) by (simp add: drop_take)
  then show "take n (drop at a) = take n (drop at b)" using assms(1) by metis
qed (use assms in simp_all)

text \<open>A prefix followed by its own checksum leaves the fixed residue.\<close>

lemma checked_prefix:
  assumes "n + 4 \<le> length bytes" and "word_at 4 bytes n = crc32c (take n bytes)"
  shows "Crc32c_update Crc32c_init (take (n + 4) bytes) = (table_bit ^^ 32) 0xFFFFFFFF"
  using crc32c_residue [of "take 4 (drop n bytes)" "take n bytes"] assms
  by (simp add: word_at_burst take_add del: funpow.simps)

section \<open>Damage\<close>

text \<open>A change of at most four consecutive bytes.\<close>

definition burst_change :: "u8 list \<Rightarrow> u8 list \<Rightarrow> bool" where
  "burst_change a b \<longleftrightarrow> (\<exists>xs us vs ys. a = xs @ us @ ys \<and> b = xs @ vs @ ys \<and> length us = length vs \<and> length us \<le> 4 \<and> us \<noteq> vs)"

lemma burst_part:
  assumes "burst_change a b"
  shows "take n a = take n b \<or> burst_change (take n a) (take n b)"
    and "drop n a = drop n b \<or> burst_change (drop n a) (drop n b)"
proof -
  obtain xs us vs ys where ab: "a = xs @ us @ ys" "b = xs @ vs @ ys" and len: "length us = length vs" "length us \<le> 4"
    using assms by (auto simp: burst_change_def)
  have "take n a = take n xs @ take (n - length xs) us @ take (n - length xs - length us) ys"
    "take n b = take n xs @ take (n - length xs) vs @ take (n - length xs - length us) ys"
    by (simp_all add: ab len)
  moreover have "length (take (n - length xs) us) = length (take (n - length xs) vs)"
    "length (take (n - length xs) us) \<le> 4" using len by simp_all
  ultimately show "take n a = take n b \<or> burst_change (take n a) (take n b)"
    unfolding burst_change_def by metis
  have "drop n a = drop n xs @ drop (n - length xs) us @ drop (n - length xs - length us) ys"
    "drop n b = drop n xs @ drop (n - length xs) vs @ drop (n - length xs - length us) ys"
    by (simp_all add: ab len)
  moreover have "length (drop (n - length xs) us) = length (drop (n - length xs) vs)"
    "length (drop (n - length xs) us) \<le> 4" using len by simp_all
  ultimately show "drop n a = drop n b \<or> burst_change (drop n a) (drop n b)"
    unfolding burst_change_def by metis
qed

lemma burst_length: "burst_change a b \<Longrightarrow> length a = length b" and burst_differs: "burst_change a b \<Longrightarrow> a \<noteq> b"
  by (auto simp: burst_change_def)

lemma burst_checksum:
  assumes "burst_change a b"
  shows "Crc32c_update state a \<noteq> Crc32c_update state b" and "crc32c a \<noteq> crc32c b"
  using assms Crc32c_update_differs crc32c_differs unfolding burst_change_def by blast+

end
