(* ===== verification/Durable_Codec.thy ===== *)
theory Durable_Codec
  imports Record_Codec Byte_Damage
begin

text \<open>
  The image of the durable state (\<open>src/persistence.cpp\<close>): the records, the 72-byte header,
  \<open>RouterStateStore::encode\<close> and \<open>RouterStateStore::decode\<close>.  A rejection is the pair of its code
  and its detail.  The output pointers of \<open>encode\<close> are results here, so that the check for a
  null pointer has no counterpart.
\<close>

section \<open>Records\<close>

definition kRecordMeta :: u16 where "kRecordMeta = 1"
definition kRecordModel :: u16 where "kRecordModel = 2"
definition kRecordBackend :: u16 where "kRecordBackend = 3"
definition kRecordFenced :: u16 where "kRecordFenced = 4"
definition kRecordRoute :: u16 where "kRecordRoute = 5"

definition write_record :: "u16 \<Rightarrow> u8 list \<Rightarrow> u8 list" where
  "write_record kind body = le_bytes 2 kind @ le_bytes 4 (of_nat (length body) :: u32) @ body"

subsection \<open>The canonical text\<close>

definition canonical_text :: "RouterPersistentState \<Rightarrow> string" where
  "canonical_text p =
     ''router='' @ dec_u64 (sp_router_id p) @ '';gen='' @ dec_u64 (sp_router_generation p) @
     '';router_epoch='' @ dec_u64 (sp_last_router_epoch p) @
     '';coordinator_epoch='' @ dec_u64 (sp_last_coordinator_epoch p) @
     '';boot='' @ dec_u64 (sp_last_boot p) @ '';saved_at='' @ dec_int (sp_saved_at p) @
     '';counters='' @ dec_u64 (pc_highest_identity_issued (sp_counters p)) @ '','' @
     dec_u64 (pc_route_requests (sp_counters p)) @ '','' @
     dec_u64 (pc_route_decisions (sp_counters p)) @ '','' @
     dec_u64 (pc_dispatches (sp_counters p)) @ '','' @
     dec_u64 (pc_route_rejections (sp_counters p)) @ '','' @
     dec_u64 (pc_reroutes (sp_counters p)) @ '','' @
     dec_u64 (pc_fallbacks_taken (sp_counters p)) @
     concat (map (\<lambda>m. ''|model='' @ dec_u64 (md_model_id m) @ ''@'' @ dec_u64 (md_model_generation m) @
       ''.'' @ dec_u64 (md_artifact_generation m) @ '':'' @
       ModelLifecycle_to_string (md_lifecycle m)) (sp_models p)) @
     concat (map (\<lambda>b. ''|backend='' @ dec_u64 (pb_backend_id b) @ ''@'' @
       dec_u64 (pb_backend_generation b) @ ''.boot='' @ dec_u64 (pb_last_boot b) @ '':'' @
       dec_digits (length (pb_model_bindings b))) (sp_backends p)) @
     concat (map (\<lambda>f. ''|fenced='' @ dec_u64 (fb_backend_id f) @ ''.boot='' @
       dec_u64 (fb_backend_boot f)) (sp_fenced_boots p)) @
     concat (map (\<lambda>r. ''|route='' @ dec_u64 (pt_decision_id r) @ '':'' @ pt_semantic_digest r) (sp_routes p))"

definition semantic_digest :: "RouterPersistentState \<Rightarrow> string" where
  "semantic_digest p = to_hex (sha256 (canonical_text p))"

subsection \<open>Bodies\<close>

definition write_meta :: "RouterPersistentState \<Rightarrow> writer" where
  "write_meta p = writes
     [put_u64 (sp_router_id p), put_u64 (sp_router_generation p), put_u64 (sp_last_router_epoch p),
      put_u64 (sp_last_coordinator_epoch p), put_u64 (sp_last_boot p),
      put_u64 (sp_last_policy_generation p), put_u64 (sp_last_price_generation p),
      put_u64 (sp_last_budget_generation p), put_u64 (sp_last_slo_generation p),
      put_u64 (sp_last_capability_generation p), put_u64 (sp_last_model_generation p),
      put_u64 (sp_last_backend_generation p), put_i64 (sp_saved_at p), put_i64 (sp_last_started_at p),
      put_u64 (pc_highest_identity_issued (sp_counters p)), put_u64 (pc_route_requests (sp_counters p)),
      put_u64 (pc_route_decisions (sp_counters p)), put_u64 (pc_dispatches (sp_counters p)),
      put_u64 (pc_route_rejections (sp_counters p)), put_u64 (pc_reroutes (sp_counters p)),
      put_u64 (pc_fallbacks_taken (sp_counters p)), put_u32 (max_models (sp_limits p)),
      put_u32 (max_backends (sp_limits p)), put_u32 (max_route_history (sp_limits p)),
      put_u32 (max_fallback_candidates (sp_limits p)), put_u32 (max_explanation_factors (sp_limits p)),
      put_u32 (max_string_bytes (sp_limits p)), put_u32 (max_capability_entries_per_backend (sp_limits p)),
      put_u32 (max_model_bindings_per_backend (sp_limits p))]"

definition read_meta :: "RouterPersistentState \<Rightarrow> RouterPersistentState reader" where
  "read_meta p = do {
     router_id \<leftarrow> get_u64;
     router_generation \<leftarrow> get_u64;
     router_epoch \<leftarrow> get_u64;
     coordinator_epoch \<leftarrow> get_u64;
     boot \<leftarrow> get_u64;
     policy_generation \<leftarrow> get_u64;
     price_generation \<leftarrow> get_u64;
     budget_generation \<leftarrow> get_u64;
     slo_generation \<leftarrow> get_u64;
     capability_generation \<leftarrow> get_u64;
     model_generation \<leftarrow> get_u64;
     backend_generation \<leftarrow> get_u64;
     saved_at \<leftarrow> get_i64;
     started_at \<leftarrow> get_i64;
     highest_identity \<leftarrow> get_u64;
     requests \<leftarrow> get_u64;
     decisions \<leftarrow> get_u64;
     dispatches \<leftarrow> get_u64;
     rejections \<leftarrow> get_u64;
     reroutes \<leftarrow> get_u64;
     fallbacks \<leftarrow> get_u64;
     models \<leftarrow> get_u32;
     backends \<leftarrow> get_u32;
     history \<leftarrow> get_u32;
     fallback_candidates \<leftarrow> get_u32;
     factors \<leftarrow> get_u32;
     string_bytes \<leftarrow> get_u32;
     capabilities \<leftarrow> get_u32;
     bindings \<leftarrow> get_u32;
     State_Monad.return
       (p\<lparr>sp_router_id := router_id, sp_router_generation := router_generation,
          sp_last_router_epoch := router_epoch, sp_last_coordinator_epoch := coordinator_epoch,
          sp_last_boot := boot, sp_last_policy_generation := policy_generation,
          sp_last_price_generation := price_generation, sp_last_budget_generation := budget_generation,
          sp_last_slo_generation := slo_generation,
          sp_last_capability_generation := capability_generation,
          sp_last_model_generation := model_generation, sp_last_backend_generation := backend_generation,
          sp_saved_at := saved_at, sp_last_started_at := started_at,
          sp_counters := \<lparr>pc_highest_identity_issued = highest_identity, pc_route_requests = requests,
            pc_route_decisions = decisions, pc_dispatches = dispatches, pc_route_rejections = rejections,
            pc_reroutes = reroutes, pc_fallbacks_taken = fallbacks\<rparr>,
          sp_limits := (sp_limits p)\<lparr>max_models := models, max_backends := backends,
            max_route_history := history, max_fallback_candidates := fallback_candidates,
            max_explanation_factors := factors, max_string_bytes := string_bytes,
            max_capability_entries_per_backend := capabilities,
            max_model_bindings_per_backend := bindings\<rparr>\<rparr>)
   }"

text \<open>Every other record is refused unless its body was read to the end and no further.\<close>

definition finish_record :: "string \<Rightarrow> (rejection + 'a) reader \<Rightarrow> (rejection + 'a) reader" where
  "finish_record detail get = do {
     record_read \<leftarrow> get;
     case record_read of
       Inl refused \<Rightarrow> State_Monad.return (Inl refused)
     | Inr x \<Rightarrow> do {
         complete \<leftarrow> read_done;
         State_Monad.return (if complete then Inr x else Inl (REJECT_INVALID, detail))
       }
   }"

definition write_model :: "ResourceLimits \<Rightarrow> ModelDescriptor \<Rightarrow> writer" where
  "write_model limits m = writes
     [put_u64 (md_model_id m), put_u64 (md_model_generation m), put_u64 (md_model_version_id m),
      put_u64 (md_artifact_generation m), put_u64 (md_family_id m), put_u32 (md_context_limit_tokens m),
      put_u32 (md_max_output_tokens m), put_u32 (md_input_modalities m), put_u32 (md_output_modalities m),
      put_u32 (md_quality_class m), put_enum8 model_lifecycles (md_lifecycle m),
      put_u64 (md_capability_profile_id m), put_u64 (md_capability_generation m),
      write_profile limits (md_capabilities m), put_enum8 provenances (md_provenance m),
      put_i64 (md_registered_at m), put_i64 (md_expires_at m), put_string limits (md_display_name m)]"

definition read_model_fields :: "ResourceLimits \<Rightarrow> (rejection + ModelDescriptor) reader" where
  "read_model_fields limits = do {
     model_id \<leftarrow> get_u64;
     model_generation \<leftarrow> get_u64;
     model_version_id \<leftarrow> get_u64;
     artifact_generation \<leftarrow> get_u64;
     family_id \<leftarrow> get_u64;
     context_limit_tokens \<leftarrow> get_u32;
     max_output_tokens \<leftarrow> get_u32;
     input_modalities \<leftarrow> get_u32;
     output_modalities \<leftarrow> get_u32;
     quality_class \<leftarrow> get_u32;
     lifecycle \<leftarrow> get_enum8 model_lifecycles;
     capability_profile_id \<leftarrow> get_u64;
     capability_generation \<leftarrow> get_u64;
     profile \<leftarrow> read_profile limits;
     case profile of
       None \<Rightarrow> State_Monad.return
         (Inl (REJECT_INVALID, ''persistence model record has an invalid capability profile''))
     | Some capabilities \<Rightarrow> do {
         provenance \<leftarrow> get_enum8 provenances;
         registered_at \<leftarrow> get_i64;
         expires_at \<leftarrow> get_i64;
         display_name \<leftarrow> get_string limits;
         State_Monad.return (Inr
           \<lparr>md_model_id = model_id, md_model_generation = model_generation,
            md_model_version_id = model_version_id, md_artifact_generation = artifact_generation,
            md_family_id = family_id, md_context_limit_tokens = context_limit_tokens,
            md_max_output_tokens = max_output_tokens, md_input_modalities = input_modalities,
            md_output_modalities = output_modalities, md_quality_class = quality_class,
            md_lifecycle = lifecycle, md_capability_profile_id = capability_profile_id,
            md_capability_generation = capability_generation, md_capabilities = capabilities,
            md_provenance = provenance, md_registered_at = registered_at, md_expires_at = expires_at,
            md_display_name = display_name\<rparr>)
       }
   }"

definition read_model :: "ResourceLimits \<Rightarrow> (rejection + ModelDescriptor) reader" where
  "read_model limits = finish_record ''persistence model record is malformed'' (read_model_fields limits)"

definition write_binding :: "ResourceLimits \<Rightarrow> ModelBinding \<Rightarrow> writer" where
  "write_binding limits b = writes
     [put_u64 (mb_model_id b), put_u64 (mb_model_generation b), put_u64 (mb_artifact_generation b),
      put_u32 (mb_context_limit_tokens b), put_u32 (mb_quality_class b), write_cost limits (mb_cost b),
      put_i64 (mb_bound_at b)]"

definition read_binding :: "ResourceLimits \<Rightarrow> ModelBinding option reader" where
  "read_binding limits = do {
     model_id \<leftarrow> get_u64;
     model_generation \<leftarrow> get_u64;
     artifact_generation \<leftarrow> get_u64;
     context_limit_tokens \<leftarrow> get_u32;
     quality_class \<leftarrow> get_u32;
     cost \<leftarrow> read_cost limits;
     case cost of
       None \<Rightarrow> State_Monad.return None
     | Some c \<Rightarrow> do {
         bound_at \<leftarrow> get_i64;
         State_Monad.return (Some
           \<lparr>mb_model_id = model_id, mb_model_generation = model_generation,
            mb_artifact_generation = artifact_generation,
            mb_context_limit_tokens = context_limit_tokens, mb_quality_class = quality_class,
            mb_cost = c, mb_bound_at = bound_at\<rparr>)
       }
   }"

definition write_backend :: "ResourceLimits \<Rightarrow> PersistedBackendRecord \<Rightarrow> writer" where
  "write_backend limits r = writes
     [put_u64 (pb_backend_id r), put_u64 (pb_backend_generation r), put_u64 (pb_last_boot r),
      put_u64 (pb_last_registration_generation r), put_u64 (pb_provider_id r),
      put_u64 (pb_provider_generation r), put_u64 (pb_endpoint_id r),
      put_u64 (pb_last_endpoint_generation r), put_u64 (pb_trust_profile_id r),
      put_u64 (pb_trust_generation r), put_enum8 trust_domains (pb_trust_domain r),
      put_string limits (pb_locality r), put_u32 (pb_network_distance r),
      put_u64 (pb_capability_profile_id r), put_u64 (pb_capability_generation r),
      write_profile limits (pb_capabilities r), put_u32 (of_nat (length (pb_model_bindings r))),
      writes (map (write_binding limits) (pb_model_bindings r)), put_bool (pb_offline_capable r),
      put_enum8 provenances (pb_provenance r), put_i64 (pb_registered_at r)]"

definition read_backend_fields :: "ResourceLimits \<Rightarrow> (rejection + PersistedBackendRecord) reader" where
  "read_backend_fields limits = do {
     backend_id \<leftarrow> get_u64;
     backend_generation \<leftarrow> get_u64;
     last_boot \<leftarrow> get_u64;
     last_registration_generation \<leftarrow> get_u64;
     provider_id \<leftarrow> get_u64;
     provider_generation \<leftarrow> get_u64;
     endpoint_id \<leftarrow> get_u64;
     last_endpoint_generation \<leftarrow> get_u64;
     trust_profile_id \<leftarrow> get_u64;
     trust_generation \<leftarrow> get_u64;
     trust_domain \<leftarrow> get_enum8 trust_domains;
     locality \<leftarrow> get_string limits;
     network_distance \<leftarrow> get_u32;
     capability_profile_id \<leftarrow> get_u64;
     capability_generation \<leftarrow> get_u64;
     profile \<leftarrow> read_profile limits;
     case profile of
       None \<Rightarrow> State_Monad.return
         (Inl (REJECT_INVALID, ''persistence backend record has an invalid capability profile''))
     | Some capabilities \<Rightarrow> do {
         count \<leftarrow> get_u32;
         if count > max_model_bindings_per_backend limits
         then State_Monad.return
           (Inl (REJECT_LIMIT, ''persistence backend record exceeds the model binding limit''))
         else do {
           bindings \<leftarrow> get_many_checked (read_binding limits) (unat count);
           case bindings of
             None \<Rightarrow> State_Monad.return
               (Inl (REJECT_INVALID, ''persistence backend record has invalid cost evidence''))
           | Some model_bindings \<Rightarrow> do {
               offline_capable \<leftarrow> get_bool;
               provenance \<leftarrow> get_enum8 provenances;
               registered_at \<leftarrow> get_i64;
               State_Monad.return (Inr
                 \<lparr>pb_backend_id = backend_id, pb_backend_generation = backend_generation,
                  pb_last_boot = last_boot,
                  pb_last_registration_generation = last_registration_generation,
                  pb_provider_id = provider_id, pb_provider_generation = provider_generation,
                  pb_endpoint_id = endpoint_id, pb_last_endpoint_generation = last_endpoint_generation,
                  pb_trust_profile_id = trust_profile_id, pb_trust_generation = trust_generation,
                  pb_trust_domain = trust_domain, pb_locality = locality,
                  pb_network_distance = network_distance,
                  pb_capability_profile_id = capability_profile_id,
                  pb_capability_generation = capability_generation, pb_capabilities = capabilities,
                  pb_model_bindings = model_bindings, pb_offline_capable = offline_capable,
                  pb_provenance = provenance, pb_registered_at = registered_at\<rparr>)
             }
         }
       }
   }"

definition read_backend :: "ResourceLimits \<Rightarrow> (rejection + PersistedBackendRecord) reader" where
  "read_backend limits = finish_record ''persistence backend record is malformed'' (read_backend_fields limits)"

definition write_fenced :: "FencedBootRecord \<Rightarrow> writer" where
  "write_fenced f = writes
     [put_u64 (fb_backend_id f), put_u64 (fb_backend_generation f), put_u64 (fb_backend_boot f),
      put_enum16 kOutcomeCodes (fb_reason f), put_i64 (fb_fenced_at f)]"

definition read_fenced_fields :: "(rejection + FencedBootRecord) reader" where
  "read_fenced_fields = do {
     backend_id \<leftarrow> get_u64;
     backend_generation \<leftarrow> get_u64;
     backend_boot \<leftarrow> get_u64;
     reason \<leftarrow> get_enum16 kOutcomeCodes;
     fenced_at \<leftarrow> get_i64;
     State_Monad.return (Inr
       \<lparr>fb_backend_id = backend_id, fb_backend_generation = backend_generation,
        fb_backend_boot = backend_boot, fb_reason = reason, fb_fenced_at = fenced_at\<rparr>)
   }"

definition read_fenced :: "(rejection + FencedBootRecord) reader" where
  "read_fenced = finish_record ''persistence fenced record is malformed'' read_fenced_fields"

definition write_route :: "ResourceLimits \<Rightarrow> PersistedRouteRecord \<Rightarrow> writer" where
  "write_route limits r = writes
     [put_u64 (pt_decision_id r), put_u64 (pt_decision_generation r), put_u64 (pt_request_id r),
      put_u64 (pt_request_generation r), write_candidate_key (pt_winner r),
      put_u32 (of_nat (length (pt_fallbacks r))), writes (map write_candidate_key (pt_fallbacks r)),
      write_authority (pt_authority r), put_enum8 route_statuses (pt_status r),
      put_enum16 kOutcomeCodes (pt_code r), write_cost limits (pt_cost r),
      put_u64 (pt_policy_generation r), put_u64 (pt_price_generation r),
      put_u64 (pt_budget_generation r), put_u64 (pt_slo_generation r),
      put_string limits (pt_semantic_digest r), put_string limits (pt_requirement_digest r),
      put_i64 (pt_created_at r)]"

definition read_route_fields :: "ResourceLimits \<Rightarrow> (rejection + PersistedRouteRecord) reader" where
  "read_route_fields limits = do {
     decision_id \<leftarrow> get_u64;
     decision_generation \<leftarrow> get_u64;
     request_id \<leftarrow> get_u64;
     request_generation \<leftarrow> get_u64;
     winner \<leftarrow> read_candidate_key;
     count \<leftarrow> get_u32;
     if count > max_fallback_candidates limits
     then State_Monad.return (Inl (REJECT_LIMIT, ''persistence route record exceeds the fallback limit''))
     else do {
       fallbacks \<leftarrow> get_many read_candidate_key (unat count);
       authority \<leftarrow> read_authority;
       status \<leftarrow> get_enum8 route_statuses;
       code \<leftarrow> get_enum16 kOutcomeCodes;
       cost \<leftarrow> read_cost limits;
       case cost of
         None \<Rightarrow> State_Monad.return
           (Inl (REJECT_INVALID, ''persistence route record has invalid cost evidence''))
       | Some c \<Rightarrow> do {
           policy_generation \<leftarrow> get_u64;
           price_generation \<leftarrow> get_u64;
           budget_generation \<leftarrow> get_u64;
           slo_generation \<leftarrow> get_u64;
           digest \<leftarrow> get_string limits;
           requirement_digest \<leftarrow> get_string limits;
           created_at \<leftarrow> get_i64;
           State_Monad.return (Inr
             \<lparr>pt_decision_id = decision_id, pt_decision_generation = decision_generation,
              pt_request_id = request_id, pt_request_generation = request_generation,
              pt_winner = winner, pt_fallbacks = fallbacks, pt_authority = authority,
              pt_status = status, pt_code = code, pt_cost = c,
              pt_policy_generation = policy_generation, pt_price_generation = price_generation,
              pt_budget_generation = budget_generation, pt_slo_generation = slo_generation,
              pt_semantic_digest = digest, pt_requirement_digest = requirement_digest,
              pt_created_at = created_at\<rparr>)
         }
     }
   }"

definition read_route :: "ResourceLimits \<Rightarrow> (rejection + PersistedRouteRecord) reader" where
  "read_route limits = finish_record ''persistence route record is malformed'' (read_route_fields limits)"

section \<open>Encoding\<close>

definition and_then :: "'e + 'a \<Rightarrow> ('a \<Rightarrow> 'e + 'b) \<Rightarrow> 'e + 'b" where
  "and_then r f = (case r of Inl e \<Rightarrow> Inl e | Inr x \<Rightarrow> f x)"

text \<open>One loop of \<open>encode\<close>: a record per element.\<close>

fun encode_all :: "u16 \<Rightarrow> string \<Rightarrow> ('a \<Rightarrow> writer) \<Rightarrow> 'a list \<Rightarrow> rejection + u8 list" where
  "encode_all kind detail put [] = Inr []"
| "encode_all kind detail put (x # xs) =
     (case put x of
        None \<Rightarrow> Inl (REJECT_LIMIT, detail)
      | Some body \<Rightarrow> and_then (encode_all kind detail put xs) (\<lambda>rest. Inr (write_record kind body @ rest)))"

definition encode_payload :: "ResourceLimits \<Rightarrow> RouterPersistentState \<Rightarrow> rejection + u8 list" where
  "encode_payload limits p =
     and_then (encode_all kRecordMeta ''meta record exceeds the configured bounds'' write_meta [p]) (\<lambda>meta.
     and_then (encode_all kRecordModel ''model record exceeds the configured bounds''
       (write_model limits) (sp_models p)) (\<lambda>models.
     and_then (encode_all kRecordBackend ''backend record exceeds the configured bounds''
       (write_backend limits) (sp_backends p)) (\<lambda>backends.
     and_then (encode_all kRecordFenced ''fenced record exceeds the configured bounds''
       write_fenced (sp_fenced_boots p)) (\<lambda>fenced.
     and_then (encode_all kRecordRoute ''route record exceeds the configured bounds''
       (write_route limits) (sp_routes p)) (\<lambda>routes.
     Inr (meta @ models @ backends @ fenced @ routes))))))"

definition persistence_magic :: "u8 list" where
  "persistence_magic = [0x4D, 0x52, 0x53, 0x54, 0x41, 0x54, 0x45, 0x00]"

definition persistence_format_version :: u32 where
  "persistence_format_version = 1"

definition persistence_header_bytes :: nat where
  "persistence_header_bytes = 72"

text \<open>The header up to its own checksum.\<close>

definition header_front :: "u32 \<Rightarrow> u8 list \<Rightarrow> u8 list" where
  "header_front records payload =
     persistence_magic @ le_bytes 4 persistence_format_version @
     le_bytes 4 (of_nat persistence_header_bytes :: u32) @ le_bytes 4 (0 :: u32) @ le_bytes 4 records @
     le_bytes 8 (of_nat (length payload) :: u64) @ le_bytes 4 (crc32c payload)"

definition durable_image :: "u32 \<Rightarrow> u8 list \<Rightarrow> u8 list \<Rightarrow> u8 list" where
  "durable_image records digest payload =
     header_front records payload @ le_bytes 4 (crc32c (header_front records payload)) @ digest @ payload"

definition record_total :: "RouterPersistentState \<Rightarrow> nat" where
  "record_total p =
     1 + length (sp_models p) + length (sp_backends p) + length (sp_fenced_boots p) + length (sp_routes p)"

definition encode :: "RouterPersistentState \<Rightarrow> ResourceLimits \<Rightarrow> rejection + u8 list \<times> u32" where
  "encode state limits =
     (let canonical = RouterPersistentState_canonicalize state;
          error = RouterPersistentState_validate canonical limits in
      if error \<noteq> [] then Inl (REJECT_INVALID, error)
      else and_then (encode_payload limits canonical) (\<lambda>payload.
        let records = of_nat (record_total canonical) in
        if records > max_persistence_records limits
          then Inl (REJECT_LIMIT, ''record count exceeds the configured persistence limit'')
        else if persistence_header_bytes + length payload > unat (max_persistence_bytes limits)
          then Inl (REJECT_LIMIT, ''persistence image exceeds the configured byte limit'')
        else Inr (durable_image records (sha256 (canonical_text canonical)) payload, records)))"

section \<open>Decoding\<close>

definition RouterPersistentState_default :: RouterPersistentState where
  "RouterPersistentState_default =
     \<lparr>sp_router_id = 0, sp_router_generation = 0, sp_last_router_epoch = 0, sp_last_coordinator_epoch = 0,
      sp_last_boot = 0, sp_limits = default_resource_limits, sp_weights = RankingWeights_default,
      sp_last_policy_generation = 0, sp_last_price_generation = 0, sp_last_budget_generation = 0,
      sp_last_slo_generation = 0, sp_last_capability_generation = 0, sp_last_model_generation = 0,
      sp_last_backend_generation = 0, sp_models = [], sp_backends = [], sp_fenced_boots = [],
      sp_routes = [],
      sp_counters = \<lparr>pc_highest_identity_issued = 0, pc_route_requests = 0, pc_route_decisions = 0,
        pc_dispatches = 0, pc_route_rejections = 0, pc_reroutes = 0, pc_fallbacks_taken = 0\<rparr>,
      sp_saved_at = 0, sp_last_started_at = 0\<rparr>"

text \<open>The variables of the record loop.\<close>

record DecodeProgress =
  dp_state :: RouterPersistentState
  dp_seen :: u32
  dp_have_meta :: bool
  dp_foreign :: bool

definition keep_record ::
  "(rejection + 'a) reader \<Rightarrow> ('a \<Rightarrow> RouterPersistentState \<Rightarrow> RouterPersistentState) \<Rightarrow> u8 list \<Rightarrow>
   DecodeProgress \<Rightarrow> rejection + DecodeProgress" where
  "keep_record get add body d =
     (let (parsed, reader) = run_state get (reader_on body) in
      and_then parsed (\<lambda>x. Inr (d\<lparr>dp_state := add x (dp_state d), dp_foreign := dp_foreign d \<or> rd_foreign reader\<rparr>)))"

text \<open>The reader of a meta record is not asked whether it failed or has bytes left.\<close>

definition decode_body :: "ResourceLimits \<Rightarrow> u16 \<Rightarrow> u8 list \<Rightarrow> DecodeProgress \<Rightarrow> rejection + DecodeProgress" where
  "decode_body limits kind body d =
     (if kind = kRecordMeta then
        if dp_have_meta d
          then Inl (REJECT_INVALID, ''persistence image contains more than one meta record'')
        else Inr (d\<lparr>dp_state := fst (run_state (read_meta (dp_state d)) (reader_on body)), dp_have_meta := True\<rparr>)
      else if kind = kRecordModel then
        keep_record (read_model limits) (\<lambda>m p. p\<lparr>sp_models := sp_models p @ [m]\<rparr>) body d
      else if kind = kRecordBackend then
        keep_record (read_backend limits) (\<lambda>b p. p\<lparr>sp_backends := sp_backends p @ [b]\<rparr>) body d
      else if kind = kRecordFenced then
        keep_record read_fenced (\<lambda>f p. p\<lparr>sp_fenced_boots := sp_fenced_boots p @ [f]\<rparr>) body d
      else if kind = kRecordRoute then
        keep_record (read_route limits) (\<lambda>r p. p\<lparr>sp_routes := sp_routes p @ [r]\<rparr>) body d
      else Inl (REJECT_INVALID, ''persistence record has an unknown record kind''))"

function decode_records ::
  "ResourceLimits \<Rightarrow> u8 list \<Rightarrow> DecodeProgress \<Rightarrow> rejection + DecodeProgress" where
  "decode_records limits payload d =
     (if payload = [] then Inr d
      else if length payload < 6
        then Inl (REJECT_INVALID, ''persistence payload ends inside a record header'')
      else let kind = word_at 2 payload 0; size = unat (word_at 4 payload 2 :: u32);
               rest = drop 6 payload in
        if size > length rest
          then Inl (REJECT_INVALID, ''persistence record length exceeds the remaining payload'')
        else let d' = d\<lparr>dp_seen := dp_seen d + 1\<rparr> in
          if dp_seen d' > max_persistence_records limits
            then Inl (REJECT_LIMIT, ''persistence record count exceeds the configured limit'')
          else case decode_body limits kind (take size rest) d' of
              Inl refused \<Rightarrow> Inl refused
            | Inr d'' \<Rightarrow> decode_records limits (drop size rest) d'')"
  by pat_completeness auto
termination
  by (relation "measure (\<lambda>(limits, payload, d). length payload)") auto

declare decode_records.simps [simp del]

record PersistenceLoad =
  ld_code :: OutcomeCode
  ld_detail :: string
  ld_state :: "RouterPersistentState option"
  ld_format_version :: u32
  ld_record_count :: u32

definition load_refused :: "u32 \<Rightarrow> rejection \<Rightarrow> PersistenceLoad" where
  "load_refused version r =
     \<lparr>ld_code = fst r, ld_detail = snd r, ld_state = None, ld_format_version = version, ld_record_count = 0\<rparr>"

definition PersistenceLoad_ok :: "PersistenceLoad \<Rightarrow> bool" where
  "PersistenceLoad_ok l \<longleftrightarrow> ld_state l \<noteq> None \<and> ld_code l = ACCEPTED"

text \<open>The checks on the header, in the order of the code; the first that fails decides.\<close>

definition check_header :: "ResourceLimits \<Rightarrow> u8 list \<Rightarrow> (u32 \<times> rejection) option" where
  "check_header limits bytes =
     (let version = word_at 4 bytes 8; payload_bytes = unat (word_at 8 bytes 24 :: u64) in
      if length bytes < persistence_header_bytes
        then Some (0, REJECT_INVALID, ''persistence image is shorter than its header'')
      else if length bytes > unat (max_persistence_bytes limits)
        then Some (0, REJECT_LIMIT, ''persistence image exceeds the configured byte limit'')
      else if take 8 bytes \<noteq> persistence_magic
        then Some (0, REJECT_INVALID, ''persistence magic does not match'')
      else if version \<noteq> persistence_format_version
        then Some (version, REJECT_INVALID, ''unsupported persistence format version '' @ dec_u32 version)
      else if (word_at 4 bytes 12 :: u32) \<noteq> of_nat persistence_header_bytes
        then Some (version, REJECT_INVALID, ''persistence header size is not the format's header size'')
      else if (word_at 4 bytes 16 :: u32) \<noteq> 0
        then Some (version, REJECT_INVALID, ''persistence header carries unknown flags'')
      else if word_at 4 bytes 36 \<noteq> crc32c (take 36 bytes)
        then Some (version, REJECT_INVALID, ''persistence header checksum mismatch'')
      else if payload_bytes > unat (max_payload_bytes limits)
        then Some (version, REJECT_LIMIT, ''persistence payload length exceeds the configured limit'')
      else if persistence_header_bytes + payload_bytes \<noteq> length bytes
        then Some (version, REJECT_INVALID,
          if length bytes < persistence_header_bytes + payload_bytes then ''persistence image is truncated''
          else ''persistence image has trailing garbage'')
      else if crc32c (drop persistence_header_bytes bytes) \<noteq> word_at 4 bytes 32
        then Some (version, REJECT_INVALID, ''persistence payload checksum mismatch'')
      else None)"

text \<open>\<open>decode\<close>.  The result is \<open>None\<close> where the code would go on with a value outside its
  enumeration, of which the datatypes of the model say nothing.\<close>

definition decode :: "u8 list \<Rightarrow> ResourceLimits \<Rightarrow> PersistenceLoad option" where
  "decode bytes limits =
     (case check_header limits bytes of
        Some (version, refused) \<Rightarrow> Some (load_refused version refused)
      | None \<Rightarrow>
          let refuse = (\<lambda>code detail. Some (load_refused persistence_format_version (code, detail)));
              records = word_at 4 bytes 20 in
          case decode_records limits (drop persistence_header_bytes bytes)
                 \<lparr>dp_state = RouterPersistentState_default, dp_seen = 0, dp_have_meta = False, dp_foreign = False\<rparr> of
            Inl (code, detail) \<Rightarrow> refuse code detail
          | Inr d \<Rightarrow>
              let state = RouterPersistentState_canonicalize (dp_state d);
                  error = RouterPersistentState_validate state limits in
              if \<not> dp_have_meta d then refuse REJECT_INVALID ''persistence image has no meta record''
              else if dp_seen d \<noteq> records
                then refuse REJECT_INVALID ''persistence record count does not match the header''
              else if dp_foreign d then None
              else if error \<noteq> [] then refuse REJECT_INVALID error
              else if sha256 (canonical_text state) \<noteq> take 32 (drop 40 bytes)
                then refuse REJECT_INVALID ''persistence semantic digest does not match the decoded state''
              else Some \<lparr>ld_code = ACCEPTED, ld_detail = [], ld_state = Some state,
                ld_format_version = persistence_format_version, ld_record_count = records\<rparr>)"

end
