(* ===== verification/Durable_Image.thy ===== *)
theory Durable_Image
  imports Durable_Codec Router_Recovery
begin

text \<open>
  What the durable image keeps and what its checks detect: every record is read back as it was
  written, an image that \<open>encode\<close> produced is decoded to the part of the state the format holds,
  and an accepted image cannot be changed in up to four consecutive bytes, cut short or extended
  without being rejected.
\<close>

section \<open>Records are read back\<close>

definition model_fits :: "ResourceLimits \<Rightarrow> ModelDescriptor \<Rightarrow> bool" where
  "model_fits limits m \<longleftrightarrow>
     profile_fits limits (md_capabilities m) \<and> in_int64 (md_registered_at m) \<and> in_int64 (md_expires_at m)"

definition binding_fits :: "ModelBinding \<Rightarrow> bool" where
  "binding_fits b \<longleftrightarrow> cost_fits (mb_cost b) \<and> in_int64 (mb_bound_at b)"

definition backend_fits :: "ResourceLimits \<Rightarrow> PersistedBackendRecord \<Rightarrow> bool" where
  "backend_fits limits r \<longleftrightarrow>
     profile_fits limits (pb_capabilities r) \<and> list_all binding_fits (pb_model_bindings r) \<and>
     length (pb_model_bindings r) \<le> unat (max_model_bindings_per_backend limits) \<and>
     in_int64 (pb_registered_at r)"

definition fenced_fits :: "FencedBootRecord \<Rightarrow> bool" where
  "fenced_fits f \<longleftrightarrow> in_int64 (fb_fenced_at f)"

definition route_fits :: "ResourceLimits \<Rightarrow> PersistedRouteRecord \<Rightarrow> bool" where
  "route_fits limits r \<longleftrightarrow>
     length (pt_fallbacks r) \<le> unat (max_fallback_candidates limits) \<and> authority_fits (pt_authority r) \<and>
     cost_fits (pt_cost r) \<and> in_int64 (pt_created_at r)"

lemma agrees_meta:
  assumes "in_int64 (sp_saved_at p)" "in_int64 (sp_last_started_at p)"
  shows "agrees (read_meta q)
    (p\<lparr>sp_limits := (sp_limits q)\<lparr>max_models := max_models (sp_limits p), max_backends := max_backends (sp_limits p),
         max_route_history := max_route_history (sp_limits p),
         max_fallback_candidates := max_fallback_candidates (sp_limits p),
         max_explanation_factors := max_explanation_factors (sp_limits p),
         max_string_bytes := max_string_bytes (sp_limits p),
         max_capability_entries_per_backend := max_capability_entries_per_backend (sp_limits p),
         max_model_bindings_per_backend := max_model_bindings_per_backend (sp_limits p)\<rparr>,
       sp_weights := sp_weights q, sp_models := sp_models q, sp_backends := sp_backends q,
       sp_fenced_boots := sp_fenced_boots q, sp_routes := sp_routes q\<rparr>) (write_meta p)"
  unfolding read_meta_def write_meta_def using assms by (intro read_back_fields) simp_all

lemma agrees_model: "model_fits limits m \<Longrightarrow> agrees (read_model_fields limits) (Inr m) (write_model limits m)"
  unfolding read_model_fields_def write_model_def model_fits_def
  by (intro read_back_fields agrees_bind [OF profile_codec.read_back] agrees_some) simp_all

interpretation binding_codec: checked_codec binding_fits "write_binding limits" "read_binding limits"
proof
  fix b assume "binding_fits b"
  then show "agrees (read_binding limits) (Some b) (write_binding limits b)"
    unfolding read_binding_def write_binding_def binding_fits_def
    by (intro read_back_fields agrees_bind [OF cost_codec.read_back] agrees_some) simp_all
qed

lemma agrees_backend:
  assumes "backend_fits limits r"
  shows "agrees (read_backend_fields limits) (Inr r) (write_backend limits r)"
proof -
  have many: "agrees (get_many_checked (read_binding limits) (unat (of_nat (length (pb_model_bindings r)) :: u32)))
      (Some (pb_model_bindings r)) (writes (map (write_binding limits) (pb_model_bindings r)))"
    using assms binding_codec.read_back_many by (simp add: backend_fits_def count_u32 [of _ "max_model_bindings_per_backend limits"])
  show ?thesis
    using assms unfolding read_backend_fields_def write_backend_def backend_fits_def
    by (intro read_back_fields agrees_bind [OF profile_codec.read_back] agrees_bind [OF many] agrees_some
        agrees_otherwise)
       (simp_all add: count_within)
qed

lemma agrees_fenced: "fenced_fits f \<Longrightarrow> agrees read_fenced_fields (Inr f) (write_fenced f)"
  unfolding read_fenced_fields_def write_fenced_def fenced_fits_def by (intro read_back_fields) simp_all

lemma agrees_route:
  assumes "route_fits limits r"
  shows "agrees (read_route_fields limits) (Inr r) (write_route limits r)"
proof -
  have keys: "agrees (get_many read_candidate_key (unat (of_nat (length (pt_fallbacks r)) :: u32)))
      (pt_fallbacks r) (writes (map write_candidate_key (pt_fallbacks r)))"
    using assms candidate_key_codec.read_back_many [of "pt_fallbacks r"]
    by (simp add: route_fits_def count_u32 [of _ "max_fallback_candidates limits"] list_all_iff)
  show ?thesis
    using assms unfolding read_route_fields_def write_route_def route_fits_def
    by (intro read_back_fields agrees_bind [OF candidate_key_codec.read_back] agrees_bind [OF keys]
        agrees_bind [OF authority_codec.read_back] agrees_bind [OF cost_codec.read_back] agrees_some
        agrees_otherwise) (simp_all add: count_within)
qed

section \<open>Sections of the payload\<close>

lemma read_whole:
  assumes "agrees get (Inr x) (Some body)"
  shows "run_state (finish_record detail get) (reader_on body) = (Inr x, reader_on [])"
proof -
  have "run_state get (reader_on body) = (Inr x, reader_on [])"
    using agreesD [OF assms] unfolding reads_def reader_on_def by (metis append_Nil2)
  then show ?thesis by (simp add: finish_record_def read_done_def reader_on_def)
qed

lemma decode_records_step:
  assumes "length body < 2 ^ 32" and "dp_seen d + 1 \<le> max_persistence_records limits"
  shows "decode_records limits (write_record kind body @ rest) d =
    (case decode_body limits kind body (d\<lparr>dp_seen := dp_seen d + 1\<rparr>) of
       Inl refused \<Rightarrow> Inl refused | Inr d' \<Rightarrow> decode_records limits rest d')"
proof -
  obtain bytes where bytes: "bytes = write_record kind body @ rest" by simp
  have "unat (of_nat (length body) :: u32) = length body"
    using assms(1) by (simp add: unsigned_of_nat take_bit_nat_eq_self)
  moreover have "word_at 2 bytes 0 = kind" "word_at 4 bytes 2 = (of_nat (length body) :: u32)"
    by (simp_all add: word_at_def write_record_def bytes)
  moreover have rest: "drop 6 bytes = body @ rest" and "\<not> length bytes < 6"
    by (simp_all add: write_record_def bytes)
  moreover have "drop (length body) (body @ rest) = rest" "take (length body) (body @ rest) = body" "bytes \<noteq> []"
    using calculation by auto
  ultimately show ?thesis
    using assms(2) unfolding bytes [symmetric] by (subst decode_records.simps) (simp add: Let_def leD split: sum.split)
qed

lemma encode_all_length: "encode_all kind detail put xs = Inr bytes \<Longrightarrow> 6 * length xs \<le> length bytes"
  by (induction xs arbitrary: bytes)
     (auto simp: and_then_def write_record_def split: option.splits sum.splits)

text \<open>The interface between the record loop and the kinds of records: how one record changes the
  state being decoded.\<close>

locale record_section =
  fixes limits :: ResourceLimits and valid :: "'a \<Rightarrow> bool" and kind :: u16 and put :: "'a \<Rightarrow> writer"
    and add :: "'a \<Rightarrow> RouterPersistentState \<Rightarrow> RouterPersistentState"
  assumes one: "valid x \<Longrightarrow> put x = Some body \<Longrightarrow>
    decode_body limits kind body d = Inr (d\<lparr>dp_state := add x (dp_state d)\<rparr>)"
begin

lemma decode_section:
  assumes "encode_all kind detail put xs = Inr bytes" and "list_all valid xs" and "length bytes < 2 ^ 32"
    and "unat (dp_seen d) + length xs \<le> unat (max_persistence_records limits)"
  shows "decode_records limits (bytes @ rest) d =
    decode_records limits rest (d\<lparr>dp_state := fold add xs (dp_state d), dp_seen := dp_seen d + of_nat (length xs)\<rparr>)"
  using assms
proof (induction xs arbitrary: bytes d)
  case (Cons x xs)
  obtain body bs where put: "put x = Some body" and bs: "encode_all kind detail put xs = Inr bs"
    and bytes: "bytes = write_record kind body @ bs"
    using Cons.prems(1) by (auto simp: and_then_def split: option.splits sum.splits)
  have "unat (dp_seen d) + 1 < 2 ^ 32"
    using Cons.prems(4) unsigned_less [of "max_persistence_records limits", where ?'a = nat] by simp
  then have seen: "unat (dp_seen d + 1) = unat (dp_seen d) + 1"
    by (simp add: unat_word_ariths)
  let ?d = "d\<lparr>dp_seen := dp_seen d + 1, dp_state := add x (dp_state d)\<rparr>"
  have "decode_records limits (bytes @ rest) d = decode_records limits (bs @ rest) ?d"
    using Cons.prems seen one [OF _ put] unfolding bytes append_assoc
    by (subst decode_records_step) (simp_all add: write_record_def word_le_nat_alt)
  also have "\<dots> = decode_records limits rest (?d\<lparr>dp_state := fold add xs (dp_state ?d), dp_seen := dp_seen ?d + of_nat (length xs)\<rparr>)"
    using Cons.prems seen by (intro Cons.IH [OF bs]) (simp_all add: bytes write_record_def)
  finally show ?case by (simp add: add.commute add.left_commute)
qed simp

lemma decode_section_at:
  assumes "encode_all kind detail put xs = Inr bytes" and "list_all valid xs" and "length bytes < 2 ^ 32"
    and "n + length xs \<le> unat (max_persistence_records limits)"
  shows "decode_records limits (bytes @ rest) \<lparr>dp_state = p, dp_seen = of_nat n, dp_have_meta = h, dp_foreign = f\<rparr> =
    decode_records limits rest
      \<lparr>dp_state = fold add xs p, dp_seen = of_nat (n + length xs), dp_have_meta = h, dp_foreign = f\<rparr>"
  using decode_section [OF assms(1-3), of "\<lparr>dp_state = p, dp_seen = of_nat n, dp_have_meta = h, dp_foreign = f\<rparr>"]
    assms(4) count_u32 [of n "max_persistence_records limits"] by simp

end

lemmas record_kinds = kRecordMeta_def kRecordModel_def kRecordBackend_def kRecordFenced_def kRecordRoute_def

lemma decode_body_kinds:
  "decode_body limits kRecordModel body d =
     keep_record (read_model limits) (\<lambda>m p. p\<lparr>sp_models := sp_models p @ [m]\<rparr>) body d"
  "decode_body limits kRecordBackend body d =
     keep_record (read_backend limits) (\<lambda>b p. p\<lparr>sp_backends := sp_backends p @ [b]\<rparr>) body d"
  "decode_body limits kRecordFenced body d =
     keep_record read_fenced (\<lambda>f p. p\<lparr>sp_fenced_boots := sp_fenced_boots p @ [f]\<rparr>) body d"
  "decode_body limits kRecordRoute body d =
     keep_record (read_route limits) (\<lambda>r p. p\<lparr>sp_routes := sp_routes p @ [r]\<rparr>) body d"
  by (simp_all add: decode_body_def record_kinds)

lemma keep_whole:
  assumes "agrees get (Inr x) w" and "w = Some body"
  shows "keep_record (finish_record detail get) add body d = Inr (d\<lparr>dp_state := add x (dp_state d)\<rparr>)"
  using assms by (simp add: keep_record_def read_whole and_then_def) (simp add: reader_on_def)

interpretation model_section: record_section limits "model_fits limits" kRecordModel "write_model limits"
  "\<lambda>m p. p\<lparr>sp_models := sp_models p @ [m]\<rparr>"
  unfolding record_section_def decode_body_kinds read_model_def by (blast intro: keep_whole agrees_model)

interpretation backend_section: record_section limits "backend_fits limits" kRecordBackend "write_backend limits"
  "\<lambda>b p. p\<lparr>sp_backends := sp_backends p @ [b]\<rparr>"
  unfolding record_section_def decode_body_kinds read_backend_def by (blast intro: keep_whole agrees_backend)

interpretation fenced_section: record_section limits fenced_fits kRecordFenced write_fenced
  "\<lambda>f p. p\<lparr>sp_fenced_boots := sp_fenced_boots p @ [f]\<rparr>"
  unfolding record_section_def decode_body_kinds read_fenced_def by (blast intro: keep_whole agrees_fenced)

interpretation route_section: record_section limits "route_fits limits" kRecordRoute "write_route limits"
  "\<lambda>r p. p\<lparr>sp_routes := sp_routes p @ [r]\<rparr>"
  unfolding record_section_def decode_body_kinds read_route_def by (blast intro: keep_whole agrees_route)

section \<open>The whole image\<close>

text \<open>What the format holds of a state: the canonical order, eight of the limits, and none of the
  ranking weights.\<close>

definition durable_part :: "RouterPersistentState \<Rightarrow> RouterPersistentState" where
  "durable_part p =
     (let c = RouterPersistentState_canonicalize p; l = sp_limits c in
      c\<lparr>sp_limits := default_resource_limits
          \<lparr>max_models := max_models l, max_backends := max_backends l, max_route_history := max_route_history l,
           max_fallback_candidates := max_fallback_candidates l,
           max_explanation_factors := max_explanation_factors l, max_string_bytes := max_string_bytes l,
           max_capability_entries_per_backend := max_capability_entries_per_backend l,
           max_model_bindings_per_backend := max_model_bindings_per_backend l\<rparr>,
        sp_weights := RankingWeights_default\<rparr>)"

text \<open>The states whose numbers fit the fields of the format and whose lists fit the bounds of the
  reader.\<close>

definition state_fits :: "ResourceLimits \<Rightarrow> RouterPersistentState \<Rightarrow> bool" where
  "state_fits limits p \<longleftrightarrow>
     list_all (model_fits limits) (sp_models p) \<and> list_all (backend_fits limits) (sp_backends p) \<and>
     list_all fenced_fits (sp_fenced_boots p) \<and> list_all (route_fits limits) (sp_routes p) \<and>
     in_int64 (sp_saved_at p) \<and> in_int64 (sp_last_started_at p)"

lemma fold_append_models: "fold (\<lambda>m p. p\<lparr>sp_models := sp_models p @ [m]\<rparr>) ms p = p\<lparr>sp_models := sp_models p @ ms\<rparr>"
  by (induction ms arbitrary: p) simp_all

lemma fold_append_backends: "fold (\<lambda>m p. p\<lparr>sp_backends := sp_backends p @ [m]\<rparr>) ms p = p\<lparr>sp_backends := sp_backends p @ ms\<rparr>"
  by (induction ms arbitrary: p) simp_all

lemma fold_append_fenced:
  "fold (\<lambda>m p. p\<lparr>sp_fenced_boots := sp_fenced_boots p @ [m]\<rparr>) ms p = p\<lparr>sp_fenced_boots := sp_fenced_boots p @ ms\<rparr>"
  by (induction ms arbitrary: p) simp_all

lemma fold_append_routes: "fold (\<lambda>m p. p\<lparr>sp_routes := sp_routes p @ [m]\<rparr>) ms p = p\<lparr>sp_routes := sp_routes p @ ms\<rparr>"
  by (induction ms arbitrary: p) simp_all

lemmas fold_appends = fold_append_models fold_append_backends fold_append_fenced fold_append_routes

lemma encode_payload_sections:
  assumes "encode_payload limits p = Inr payload"
  obtains meta models backends fenced routes where "write_meta p = Some meta"
    "encode_all kRecordModel ''model record exceeds the configured bounds'' (write_model limits) (sp_models p) = Inr models"
    "encode_all kRecordBackend ''backend record exceeds the configured bounds'' (write_backend limits) (sp_backends p) = Inr backends"
    "encode_all kRecordFenced ''fenced record exceeds the configured bounds'' write_fenced (sp_fenced_boots p) = Inr fenced"
    "encode_all kRecordRoute ''route record exceeds the configured bounds'' (write_route limits) (sp_routes p) = Inr routes"
    "payload = write_record kRecordMeta meta @ models @ backends @ fenced @ routes"
  using assms by (auto simp: encode_payload_def and_then_def split: sum.splits option.splits)

lemma decode_meta:
  assumes "write_meta p = Some meta" "in_int64 (sp_saved_at p)" "in_int64 (sp_last_started_at p)"
    and "RouterPersistentState_canonicalize p = p" and "\<not> dp_have_meta d" and "dp_state d = RouterPersistentState_default"
  shows "decode_body limits kRecordMeta meta d =
    Inr (d\<lparr>dp_state := (durable_part p)\<lparr>sp_models := [], sp_backends := [], sp_fenced_boots := [], sp_routes := []\<rparr>,
           dp_have_meta := True\<rparr>)"
proof -
  have "run_state (read_meta (dp_state d)) (reader_on meta) =
      ((durable_part p)\<lparr>sp_models := [], sp_backends := [], sp_fenced_boots := [], sp_routes := []\<rparr>, reader_on [])"
    using agreesD [OF agrees_meta [OF assms(2,3), of "dp_state d", unfolded assms(1)], unfolded reads_def, rule_format, of "[]" False]
    by (simp add: durable_part_def Let_def RouterPersistentState_default_def reader_on_def assms(4,6))
  then show ?thesis using assms(5) by (simp add: decode_body_def)
qed

lemma record_total_bound:
  assumes "encode_payload limits p = Inr payload"
  shows "6 * record_total p \<le> length payload"
proof (rule encode_payload_sections [OF assms])
  fix meta models backends fenced routes
  assume "payload = write_record kRecordMeta meta @ models @ backends @ fenced @ routes"
    and sections: "encode_all kRecordModel ''model record exceeds the configured bounds'' (write_model limits) (sp_models p) = Inr models"
    "encode_all kRecordBackend ''backend record exceeds the configured bounds'' (write_backend limits) (sp_backends p) = Inr backends"
    "encode_all kRecordFenced ''fenced record exceeds the configured bounds'' write_fenced (sp_fenced_boots p) = Inr fenced"
    "encode_all kRecordRoute ''route record exceeds the configured bounds'' (write_route limits) (sp_routes p) = Inr routes"
  then show ?thesis using sections [THEN encode_all_length] by (simp add: record_total_def write_record_def)
qed

lemma decode_payload:
  assumes "encode_payload limits p = Inr payload" and "state_fits limits p"
    and "RouterPersistentState_canonicalize p = p" and "length payload < 2 ^ 32"
    and "record_total p \<le> unat (max_persistence_records limits)"
  shows "decode_records limits payload
      \<lparr>dp_state = RouterPersistentState_default, dp_seen = 0, dp_have_meta = False, dp_foreign = False\<rparr> =
    Inr \<lparr>dp_state = durable_part p, dp_seen = of_nat (record_total p), dp_have_meta = True, dp_foreign = False\<rparr>"
proof (rule encode_payload_sections [OF assms(1)])
  fix meta models backends fenced routes
  assume meta: "write_meta p = Some meta"
    and models: "encode_all kRecordModel ''model record exceeds the configured bounds'' (write_model limits) (sp_models p) = Inr models"
    and backends: "encode_all kRecordBackend ''backend record exceeds the configured bounds'' (write_backend limits) (sp_backends p) = Inr backends"
    and fenced: "encode_all kRecordFenced ''fenced record exceeds the configured bounds'' write_fenced (sp_fenced_boots p) = Inr fenced"
    and routes: "encode_all kRecordRoute ''route record exceeds the configured bounds'' (write_route limits) (sp_routes p) = Inr routes"
    and payload: "payload = write_record kRecordMeta meta @ models @ backends @ fenced @ routes"
  have fits: "in_int64 (sp_saved_at p)" "in_int64 (sp_last_started_at p)" "list_all (model_fits limits) (sp_models p)"
    "list_all (backend_fits limits) (sp_backends p)" "list_all fenced_fits (sp_fenced_boots p)"
    "list_all (route_fits limits) (sp_routes p)"
    using assms(2) by (simp_all add: state_fits_def)
  have sizes: "length meta < 2 ^ 32" "length models < 2 ^ 32" "length backends < 2 ^ 32" "length fenced < 2 ^ 32"
    "length routes < 2 ^ 32"
    using assms(4) by (simp_all add: payload write_record_def)
  note limit = assms(5) [unfolded record_total_def]
  let ?at = "\<lambda>q n. \<lparr>dp_state = q, dp_seen = of_nat n, dp_have_meta = True, dp_foreign = False\<rparr>"
  let ?q = "(durable_part p)\<lparr>sp_models := [], sp_backends := [], sp_fenced_boots := [], sp_routes := []\<rparr>"
  have "decode_records limits payload
      \<lparr>dp_state = RouterPersistentState_default, dp_seen = 0, dp_have_meta = False, dp_foreign = False\<rparr> =
    decode_records limits (models @ backends @ fenced @ routes) (?at ?q 1)"
    using limit sizes(1) unfolding payload
    by (subst decode_records_step) (simp_all add: word_le_nat_alt decode_meta [OF meta fits(1,2) assms(3)])
  also have "\<dots> = decode_records limits (backends @ fenced @ routes)
      (?at (?q\<lparr>sp_models := sp_models p\<rparr>) (1 + length (sp_models p)))"
    using limit by (subst model_section.decode_section_at [OF models fits(3) sizes(2)]) (simp_all add: fold_appends)
  also have "\<dots> = decode_records limits (fenced @ routes)
      (?at (?q\<lparr>sp_models := sp_models p, sp_backends := sp_backends p\<rparr>)
        (1 + length (sp_models p) + length (sp_backends p)))"
    using limit by (subst backend_section.decode_section_at [OF backends fits(4) sizes(3)]) (simp_all add: fold_appends)
  also have "\<dots> = decode_records limits (routes @ [])
      (?at (?q\<lparr>sp_models := sp_models p, sp_backends := sp_backends p, sp_fenced_boots := sp_fenced_boots p\<rparr>)
        (1 + length (sp_models p) + length (sp_backends p) + length (sp_fenced_boots p)))"
    using limit by (subst fenced_section.decode_section_at [OF fenced fits(5) sizes(4)]) (simp_all add: fold_appends)
  also have "\<dots> = decode_records limits []
      (?at (?q\<lparr>sp_models := sp_models p, sp_backends := sp_backends p, sp_fenced_boots := sp_fenced_boots p,
             sp_routes := sp_routes p\<rparr>) (record_total p))"
    using limit unfolding record_total_def
    by (subst route_section.decode_section_at [OF routes fits(6) sizes(5)]) (simp_all add: fold_appends)
  finally show ?thesis by (simp add: decode_records.simps durable_part_def Let_def assms(3))
qed

lemma length_sha256: "length (sha256 text) = 32"
  by (simp add: sha256_def Sha256_finish_def Let_def big_endian_32_def upt_rec)

lemma header_layout:
  "length (header_front records payload) = 36" "length (durable_image records digest payload) = 40 + length digest + length payload"
  by (simp_all add: header_front_def durable_image_def persistence_magic_def)

lemma image_parts:
  assumes "length digest = 32"
  shows "take 36 (durable_image records digest payload) = header_front records payload"
    and "take 32 (drop 40 (durable_image records digest payload)) = digest"
    and "drop 72 (durable_image records digest payload) = payload"
    and "take 8 (durable_image records digest payload) = persistence_magic"
  using assms by (simp_all add: durable_image_def header_layout) (simp add: header_front_def persistence_magic_def)

lemma image_words:
  "word_at 4 (durable_image records digest payload) 8 = persistence_format_version"
  "word_at 4 (durable_image records digest payload) 12 = (72 :: u32)"
  "word_at 4 (durable_image records digest payload) 16 = (0 :: u32)"
  "word_at 4 (durable_image records digest payload) 20 = records"
  "word_at 8 (durable_image records digest payload) 24 = (of_nat (length payload) :: u64)"
  "word_at 4 (durable_image records digest payload) 32 = crc32c payload"
  "word_at 4 (durable_image records digest payload) 36 = crc32c (header_front records payload)"
  by (simp_all add: word_at_def durable_image_def header_layout)
     (simp_all add: header_front_def persistence_magic_def persistence_header_bytes_def)

lemma check_header_image:
  assumes "length digest = 32" and "72 + length payload \<le> unat (max_persistence_bytes limits)"
  shows "check_header limits (durable_image records digest payload) =
    (if length payload \<le> unat (max_payload_bytes limits) then None
     else Some (persistence_format_version, REJECT_LIMIT, ''persistence payload length exceeds the configured limit''))"
proof -
  have "length payload < 2 ^ 64"
    using assms(2) unsigned_less [of "max_persistence_bytes limits", where ?'a = nat] by simp
  then have size: "unat (of_nat (length payload) :: u64) = length payload"
    by (simp add: unsigned_of_nat take_bit_nat_eq_self)
  then show ?thesis
    using assms
    by (simp add: check_header_def Let_def persistence_header_bytes_def image_parts image_words header_layout)
qed

lemma state_fits_canonicalize: "state_fits limits p \<Longrightarrow> state_fits limits (RouterPersistentState_canonicalize p)"
  by (auto simp: state_fits_def RouterPersistentState_canonicalize_def list_all_iff backend_fits_def)

lemma canonicalize_settings:
  "RouterPersistentState_canonicalize (p\<lparr>sp_limits := l, sp_weights := w\<rparr>) =
     (RouterPersistentState_canonicalize p)\<lparr>sp_limits := l, sp_weights := w\<rparr>"
  by (cases p) (simp add: RouterPersistentState_canonicalize_def)

lemma durable_part_canonical:
  "RouterPersistentState_canonicalize (durable_part p) = durable_part p"
  "durable_part (RouterPersistentState_canonicalize p) = durable_part p"
  "canonical_text (durable_part p) = canonical_text (RouterPersistentState_canonicalize p)"
  by (simp_all add: durable_part_def Let_def canonicalize_settings canonicalize_idem canonical_text_def)

lemma durable_part_valid:
  "RouterPersistentState_validate (RouterPersistentState_canonicalize p) limits = [] \<Longrightarrow>
   RouterPersistentState_validate (durable_part p) limits = []"
  using default_weights_valid
  by (simp add: RouterPersistentState_validate_def durable_part_def Let_def split: if_splits)

section \<open>Round trip\<close>

lemma encode_accepted:
  assumes "encode p limits = Inr (bytes, records)"
  obtains payload where "RouterPersistentState_validate (RouterPersistentState_canonicalize p) limits = []"
    "encode_payload limits (RouterPersistentState_canonicalize p) = Inr payload"
    "records = of_nat (record_total (RouterPersistentState_canonicalize p))" "records \<le> max_persistence_records limits"
    "72 + length payload \<le> unat (max_persistence_bytes limits)"
    "bytes = durable_image records (sha256 (canonical_text (RouterPersistentState_canonicalize p))) payload"
  using assms
  by (auto simp: encode_def Let_def and_then_def persistence_header_bytes_def split: if_splits sum.splits)

lemma decode_encoded:
  assumes "encode p limits = Inr (bytes, records)" and "state_fits limits p"
  shows "decode bytes limits = Some
    (if length bytes \<le> 72 + unat (max_payload_bytes limits)
     then \<lparr>ld_code = ACCEPTED, ld_detail = [], ld_state = Some (durable_part p),
           ld_format_version = persistence_format_version, ld_record_count = records\<rparr>
     else load_refused persistence_format_version
            (REJECT_LIMIT, ''persistence payload length exceeds the configured limit''))"
proof (rule encode_accepted [OF assms(1)])
  let ?c = "RouterPersistentState_canonicalize p"
  fix payload
  assume valid: "RouterPersistentState_validate ?c limits = []" and payload: "encode_payload limits ?c = Inr payload"
    and records: "records = of_nat (record_total ?c)" "records \<le> max_persistence_records limits"
    and size: "72 + length payload \<le> unat (max_persistence_bytes limits)"
    and bytes: "bytes = durable_image records (sha256 (canonical_text ?c)) payload"
  have len: "length bytes = 72 + length payload" by (simp add: bytes header_layout length_sha256)
  note header = check_header_image [OF length_sha256 size, of records "canonical_text ?c", folded bytes]
  show ?thesis
  proof (cases "length payload \<le> unat (max_payload_bytes limits)")
    case False
    then show ?thesis using header len by (simp add: decode_def)
  next
    case True
    have small: "length payload < 2 ^ 32"
      using True unsigned_less [of "max_payload_bytes limits", where ?'a = nat] by simp
    then have "record_total ?c < 2 ^ 32" using record_total_bound [OF payload] by simp
    then have "record_total ?c \<le> unat (max_persistence_records limits)"
      using records by (simp add: word_le_nat_alt unsigned_of_nat take_bit_nat_eq_self)
    then have "decode_records limits payload
        \<lparr>dp_state = RouterPersistentState_default, dp_seen = 0, dp_have_meta = False, dp_foreign = False\<rparr> =
      Inr \<lparr>dp_state = durable_part p, dp_seen = records, dp_have_meta = True, dp_foreign = False\<rparr>"
      using decode_payload [OF payload state_fits_canonicalize [OF assms(2)] canonicalize_idem small]
      by (simp add: records durable_part_canonical)
    then show ?thesis
      using header len True durable_part_valid [OF valid]
      by (simp add: decode_def bytes image_parts image_words length_sha256 durable_part_canonical
          persistence_header_bytes_def)
  qed
qed


section \<open>Damage\<close>

lemma check_header_None:
  assumes "check_header limits bytes = None"
  shows "72 \<le> length bytes" and "word_at 4 bytes 36 = crc32c (take 36 bytes)"
    and "length bytes = 72 + unat (word_at 8 bytes 24 :: u64)" and "crc32c (drop 72 bytes) = word_at 4 bytes 32"
  using assms by (simp_all add: check_header_def Let_def persistence_header_bytes_def split: if_splits)

lemma header_residue:
  assumes "check_header limits bytes = None"
  shows "Crc32c_update Crc32c_init (take 40 bytes) = (table_bit ^^ 32) 0xFFFFFFFF"
  using check_header_None [OF assms] checked_prefix [of 36 bytes] by simp

lemma decode_header_refused: "check_header limits bytes \<noteq> None \<Longrightarrow> \<exists>l. decode bytes limits = Some l \<and> \<not> PersistenceLoad_ok l"
  by (auto simp: decode_def PersistenceLoad_ok_def load_refused_def split: option.splits)

lemma decode_accepted:
  assumes "decode bytes limits = Some l" "PersistenceLoad_ok l"
  obtains d where "check_header limits bytes = None"
    "decode_records limits (drop 72 bytes)
       \<lparr>dp_state = RouterPersistentState_default, dp_seen = 0, dp_have_meta = False, dp_foreign = False\<rparr> = Inr d"
    "dp_have_meta d" "dp_seen d = word_at 4 bytes 20" "\<not> dp_foreign d"
    "RouterPersistentState_validate (RouterPersistentState_canonicalize (dp_state d)) limits = []"
    "sha256 (canonical_text (RouterPersistentState_canonicalize (dp_state d))) = take 32 (drop 40 bytes)"
    "ld_state l = Some (RouterPersistentState_canonicalize (dp_state d))"
  using assms
  by (auto simp: decode_def Let_def PersistenceLoad_ok_def load_refused_def persistence_header_bytes_def
      split: option.splits sum.splits if_splits prod.splits)

lemma burst_rejected:
  assumes "decode a limits = Some l" "PersistenceLoad_ok l" and "burst_change a b"
  shows "\<exists>l'. decode b limits = Some l' \<and> \<not> PersistenceLoad_ok l'"
proof (cases "check_header limits b = None")
  case True
  have good: "check_header limits a = None" by (rule decode_accepted [OF assms(1,2)])
  note a = check_header_None [OF good] and b = check_header_None [OF True]
  have front: "take 40 a = take 40 b"
    using burst_part(1) [OF assms(3), of 40] burst_checksum(1) header_residue [OF good] header_residue [OF True] by metis
  have "word_at 4 a 32 = (word_at 4 b 32 :: u32)" "word_at 4 a 20 = (word_at 4 b 20 :: u32)"
    using a(1) b(1) by (intro prefix_word_cong [OF front]; simp)+
  note words = this
  have payload: "drop 72 a = drop 72 b"
    using burst_part(2) [OF assms(3), of 72] burst_checksum(2) a(4) b(4) words(1) by metis
  have "take 32 (drop 40 a) \<noteq> take 32 (drop 40 b)"
  proof
    assume "take 32 (drop 40 a) = take 32 (drop 40 b)"
    moreover have "c = take 40 c @ take 32 (drop 40 c) @ drop 72 c" for c :: "u8 list"
      using append_take_drop_id [of 40 c] append_take_drop_id [of 32 "drop 40 c"] by simp
    ultimately have "a = b" using front payload by metis
    then show False using burst_differs [OF assms(3)] by simp
  qed
  then show ?thesis
    by (rule_tac decode_accepted [OF assms(1,2)])
       (use True in \<open>simp add: decode_def Let_def words payload persistence_header_bytes_def PersistenceLoad_ok_def load_refused_def\<close>)
qed (rule decode_header_refused)

lemma length_rejected:
  assumes "decode a limits = Some l" "PersistenceLoad_ok l"
    and "take 40 b = take 40 a \<or> length b < 72" and "length b \<noteq> length a"
  shows "\<exists>l'. decode b limits = Some l' \<and> \<not> PersistenceLoad_ok l'"
proof (rule decode_header_refused, rule notI)
  assume header: "check_header limits b = None"
  have "check_header limits a = None" by (rule decode_accepted [OF assms(1,2)])
  note a = check_header_None [OF this] and b = check_header_None [OF header]
  have "word_at 8 b 24 = (word_at 8 a 24 :: u64)"
    using assms(3) a(1) b(1) by (intro prefix_word_cong [of 40]) simp_all
  then show False using a(3) b(3) assms(4) by simp
qed

text \<open>
  (C29) A damaged image is rejected: when \<open>decode\<close> accepts an image, it rejects every image that
  differs from it in up to four consecutive bytes, wherever they are (magic, version, counts,
  lengths, either checksum, digest or payload), every proper prefix of it, and every extension of
  it.
\<close>

theorem damaged_image_rejected:
  assumes "decode bytes limits = Some l" and "PersistenceLoad_ok l"
  shows "(\<forall>damaged. burst_change bytes damaged \<longrightarrow>
           (\<exists>l'. decode damaged limits = Some l' \<and> \<not> PersistenceLoad_ok l')) \<and>
         (\<forall>n < length bytes. \<exists>l'. decode (take n bytes) limits = Some l' \<and> \<not> PersistenceLoad_ok l') \<and>
         (\<forall>extra. extra \<noteq> [] \<longrightarrow> (\<exists>l'. decode (bytes @ extra) limits = Some l' \<and> \<not> PersistenceLoad_ok l'))"
proof (intro conjI allI impI)
  fix damaged assume "burst_change bytes damaged"
  then show "\<exists>l'. decode damaged limits = Some l' \<and> \<not> PersistenceLoad_ok l'" by (rule burst_rejected [OF assms])
next
  fix n assume "n < length bytes"
  then show "\<exists>l'. decode (take n bytes) limits = Some l' \<and> \<not> PersistenceLoad_ok l'"
    by (intro length_rejected [OF assms]) (auto simp: min_def)
next
  fix extra :: "u8 list" assume "extra \<noteq> []"
  have "check_header limits bytes = None" by (rule decode_accepted [OF assms])
  then have "72 \<le> length bytes" by (rule check_header_None)
  then show "\<exists>l'. decode (bytes @ extra) limits = Some l' \<and> \<not> PersistenceLoad_ok l'"
    using \<open>extra \<noteq> []\<close> by (intro length_rejected [OF assms]) simp_all
qed

section \<open>A sample image\<close>

definition sample_durable :: RouterPersistentState where
  "sample_durable = export_persistent_state 60 100 sample_saved"

lemmas sample_durable_defs = sample_defs sample_state_defs sample_saved_def sample_plan_def RoutePlan_default_def
  persist_backend_def persist_route_def RouteExplanation_default_def CostEvidence_default_def CostUnit_default_def

lemma sample_durable_fits: "state_fits default_resource_limits sample_durable"
proof -
  have "model_fits default_resource_limits sample_model"
    by (simp add: model_fits_def sample_model_def profile_fits_def CapabilityProfile_empty_def profile_ok_def in_int64_def int64_min_def int64_max_def)
  moreover have "backend_fits default_resource_limits (persist_backend sample_backend)"
    by (simp add: backend_fits_def sample_durable_defs profile_fits_def profile_ok_def CapabilityProfile_empty_def
        binding_fits_def cost_fits_def in_int64_def int64_min_def int64_max_def default_resource_limits_def)
  moreover have "route_fits default_resource_limits (persist_route sample_record)"
    by (simp add: route_fits_def sample_durable_defs authority_fits_def cost_fits_def in_int64_def int64_min_def int64_max_def Let_def)
  moreover have "in_int64 60" "in_int64 (cs_started_at sample_saved)"
    by (simp_all add: in_int64_def int64_min_def int64_max_def sample_durable_defs)
  ultimately show ?thesis by (simp add: state_fits_def sample_durable_def sample_saved_lists export_scalars)
qed

lemmas put_defs = put_u8_def put_u16_def put_u32_def put_u64_def put_i64_def put_bool_def put_string_def
  put_enum8_def put_enum16_def

lemma sample_model_written: "\<exists>b. write_model default_resource_limits sample_model = Some b \<and> length b \<le> 1000"
  by (simp add: write_model_def write_profile_def put_defs sample_model_def CapabilityProfile_empty_def default_resource_limits_def)

lemma sample_backend_written:
  "\<exists>b. write_backend default_resource_limits (persist_backend sample_backend) = Some b \<and> length b \<le> 1000"
  by (simp add: write_backend_def write_binding_def write_cost_def write_profile_def put_defs sample_durable_defs
      CapabilityProfile_empty_def default_resource_limits_def)

lemma sample_route_written:
  "\<exists>b. write_route default_resource_limits (persist_route sample_record) = Some b \<and> length b \<le> 1000"
  by (simp add: write_route_def write_authority_def write_candidate_key_def write_cost_def put_defs sample_durable_defs
      default_resource_limits_def Let_def)

lemma meta_written: "\<exists>b. write_meta p = Some b \<and> length b \<le> 1000"
  by (simp add: write_meta_def put_defs)

lemma sample_encoded:
  "\<exists>bytes. encode sample_durable default_resource_limits = Inr (bytes, 4) \<and> length bytes \<le> 6000 \<and>
     length bytes \<le> 72 + unat (max_payload_bytes default_resource_limits)"
proof -
  obtain meta model backend route where b: "write_meta sample_durable = Some meta" "length meta \<le> 1000"
      "write_model default_resource_limits sample_model = Some model" "length model \<le> 1000"
      "write_backend default_resource_limits (persist_backend sample_backend) = Some backend" "length backend \<le> 1000"
      "write_route default_resource_limits (persist_route sample_record) = Some route" "length route \<le> 1000"
    using meta_written sample_model_written sample_backend_written sample_route_written by metis
  let ?p = "write_record kRecordMeta meta @ write_record kRecordModel model @
    write_record kRecordBackend backend @ write_record kRecordRoute route"
  have lists: "sp_models sample_durable = [sample_model]" "sp_backends sample_durable = [persist_backend sample_backend]"
    "sp_fenced_boots sample_durable = []" "sp_routes sample_durable = [persist_route sample_record]"
    by (simp_all add: sample_durable_def sample_saved_lists)
  then have "encode_payload default_resource_limits sample_durable = Inr ?p"
    using b by (simp add: encode_payload_def and_then_def)
  moreover have "record_total sample_durable = 4" by (simp add: record_total_def lists)
  moreover have "length ?p \<le> 5000" using b by (simp add: write_record_def)
  moreover have "RouterPersistentState_canonicalize sample_durable = sample_durable"
    by (simp add: sample_durable_def export_canonical)
  moreover have "RouterPersistentState_validate sample_durable default_resource_limits = []"
    using sample_saved_valid by (simp add: sample_durable_def)
  moreover have "max_persistence_records default_resource_limits = 4000000"
    "max_persistence_bytes default_resource_limits = 1073741824" "max_payload_bytes default_resource_limits = 4194304"
    by (simp_all add: default_resource_limits_def)
  ultimately show ?thesis
    by (simp add: encode_def and_then_def persistence_header_bytes_def header_layout length_sha256 Let_def del: length_append)
qed

lemma sample_decoded:
  "\<exists>bytes l. encode sample_durable default_resource_limits = Inr (bytes, 4) \<and>
     decode bytes default_resource_limits = Some l \<and> PersistenceLoad_ok l \<and> bytes \<noteq> []"
proof -
  obtain bytes where b: "encode sample_durable default_resource_limits = Inr (bytes, 4)"
    "length bytes \<le> 72 + unat (max_payload_bytes default_resource_limits)"
    using sample_encoded by blast
  moreover have "bytes \<noteq> []"
    by (rule encode_accepted [OF b(1)]) (auto simp: durable_image_def header_front_def persistence_magic_def)
  ultimately show ?thesis
    using decode_encoded [OF b(1) sample_durable_fits] by (simp add: PersistenceLoad_ok_def)
qed


theorem damaged_image_rejected_witness:
  "\<exists>bytes l. decode bytes default_resource_limits = Some l \<and> PersistenceLoad_ok l \<and>
     (\<exists>l'. decode ((hd bytes + 1) # tl bytes) default_resource_limits = Some l' \<and> \<not> PersistenceLoad_ok l') \<and>
     (\<exists>l'. decode (take 0 bytes) default_resource_limits = Some l' \<and> \<not> PersistenceLoad_ok l') \<and>
     (\<exists>l'. decode (bytes @ [0]) default_resource_limits = Some l' \<and> \<not> PersistenceLoad_ok l')"
proof -
  obtain bytes l where b: "decode bytes default_resource_limits = Some l" "PersistenceLoad_ok l" "bytes \<noteq> []"
    using sample_decoded by blast
  have "burst_change bytes ((hd bytes + 1) # tl bytes)"
    unfolding burst_change_def using b(3)
    by (intro exI [of _ "[]"] exI [of _ "[hd bytes]"] exI [of _ "[hd bytes + 1]"] exI [of _ "tl bytes"]) simp
  then show ?thesis using damaged_image_rejected [OF b(1,2)] b by blast
qed

end
