(* ===== verification/Durable_Store.thy ===== *)
theory Durable_Store
  imports Durable_Image
begin

text \<open>
  The file operations of \<open>RouterStateStore\<close> (\<open>src/persistence.cpp\<close>): \<open>save\<close>, \<open>load\<close> and
  \<open>validate_file\<close>.  The file system is a map from paths to contents with a mark that says whether
  the contents have reached the device; what the calls of the C library return is an argument.
  \<open>save\<close> gives the list of its effects on the file system, so that a crash between any two of them
  is a prefix of that list.
\<close>

section \<open>The file system\<close>

record stored_file =
  fl_bytes :: "u8 list"
  fl_on_device :: bool

type_synonym file_system = "string \<rightharpoonup> stored_file"

datatype file_op =
    OpenForWriting string
  | WriteFile string "u8 list"
  | SyncFile string
  | RemoveFile string
  | RenameFile string string

fun file_step :: "file_op \<Rightarrow> file_system \<Rightarrow> file_system" where
  "file_step (OpenForWriting p) fs = fs(p \<mapsto> \<lparr>fl_bytes = [], fl_on_device = False\<rparr>)"
| "file_step (WriteFile p b) fs =
     (case fs p of None \<Rightarrow> fs | Some f \<Rightarrow> fs(p \<mapsto> \<lparr>fl_bytes = fl_bytes f @ b, fl_on_device = False\<rparr>))"
| "file_step (SyncFile p) fs = (case fs p of None \<Rightarrow> fs | Some f \<Rightarrow> fs(p \<mapsto> f\<lparr>fl_on_device := True\<rparr>))"
| "file_step (RemoveFile p) fs = fs(p := None)"
| "file_step (RenameFile p q) fs = fs(q := fs p, p := None)"

definition file_steps :: "file_op list \<Rightarrow> file_system \<Rightarrow> file_system" where
  "file_steps ops fs = fold file_step ops fs"

section \<open>Writing\<close>

text \<open>What the calls return: whether \<open>fopen\<close>, \<open>fflush\<close>, \<open>fsync\<close>, \<open>fclose\<close> and \<open>rename\<close> succeed,
  and how many bytes \<open>fwrite\<close> says it wrote.\<close>

record write_calls =
  wc_opened :: bool
  wc_written :: nat
  wc_flushed :: bool
  wc_synced :: bool
  wc_closed :: bool
  wc_renamed :: bool

definition temporary_path :: "string \<Rightarrow> string" where
  "temporary_path path = path @ ''.tmp''"

definition write_image_atomic :: "write_calls \<Rightarrow> string \<Rightarrow> u8 list \<Rightarrow> file_op list \<times> string option" where
  "write_image_atomic calls path bytes =
     (let temporary = temporary_path path;
          written = min (wc_written calls) (length bytes);
          prepared = [OpenForWriting temporary, WriteFile temporary (take written bytes)];
          discard = [RemoveFile temporary] in
      if \<not> wc_opened calls then ([], Some ''cannot open the temporary state file for writing'')
      else if written \<noteq> length bytes
        then (prepared @ discard, Some ''short write while writing the state image'')
      else if \<not> wc_flushed calls
        then (prepared @ discard, Some ''flush failed while writing the state image'')
      else if \<not> wc_synced calls
        then (prepared @ discard, Some ''durable flush failed while writing the state image'')
      else if \<not> wc_closed calls
        then (prepared @ [SyncFile temporary] @ discard, Some ''close failed while writing the state image'')
      else if \<not> wc_renamed calls
        then (prepared @ [SyncFile temporary] @ discard, Some ''atomic replacement of the state file failed'')
      else (prepared @ [SyncFile temporary, RenameFile temporary path], None))"

definition save ::
  "write_calls \<Rightarrow> RouterPersistentState \<Rightarrow> string \<Rightarrow> ResourceLimits \<Rightarrow> file_op list \<times> OutcomeCode \<times> string" where
  "save calls state path limits =
     (if path = [] then ([], REJECT_INVALID, ''persistence path is empty'')
      else case encode (RouterPersistentState_canonicalize state) limits of
          Inl (code, detail) \<Rightarrow> ([], code, detail)
        | Inr (bytes, records) \<Rightarrow>
            (case write_image_atomic calls path bytes of
               (ops, Some error) \<Rightarrow> (ops, INTERNAL_ERROR, error)
             | (ops, None) \<Rightarrow> (ops, ACCEPTED, ''records='' @ dec_u32 records @ '' bytes='' @ dec_digits (length bytes))))"

section \<open>Reading\<close>

text \<open>Whether \<open>fopen\<close> and \<open>fseek\<close> succeed, the size \<open>ftell\<close> reports and the bytes \<open>fread\<close>
  delivers, none of which need be right.\<close>

record read_calls =
  rc_opened :: bool
  rc_seeked :: bool
  rc_size :: int
  rc_read :: "u8 list"

definition read_image :: "read_calls \<Rightarrow> ResourceLimits \<Rightarrow> string + u8 list" where
  "read_image calls limits =
     (if \<not> rc_opened calls then Inl ''cannot open the state file for reading''
      else if \<not> rc_seeked calls then Inl ''cannot determine the state file size''
      else if rc_size calls < 0 then Inl ''cannot determine the state file size''
      else if nat (rc_size calls) > unat (max_persistence_bytes limits)
        then Inl ''state file exceeds the configured byte limit''
      else if rc_size calls > 0 \<and> length (rc_read calls) \<noteq> nat (rc_size calls)
        then Inl ''short read while reading the state image''
      else Inr (take (nat (rc_size calls)) (rc_read calls)))"

text \<open>The calls on a file system without faults.\<close>

definition reads_from :: "file_system \<Rightarrow> string \<Rightarrow> read_calls" where
  "reads_from fs path =
     (case fs path of
        None \<Rightarrow> \<lparr>rc_opened = False, rc_seeked = False, rc_size = 0, rc_read = []\<rparr>
      | Some f \<Rightarrow>
          \<lparr>rc_opened = True, rc_seeked = True, rc_size = int (length (fl_bytes f)), rc_read = fl_bytes f\<rparr>)"

definition load :: "read_calls \<Rightarrow> string \<Rightarrow> ResourceLimits \<Rightarrow> PersistenceLoad option" where
  "load calls path limits =
     (if path = [] then Some (load_refused 0 (REJECT_INVALID, ''persistence path is empty''))
      else case read_image calls limits of
          Inl error \<Rightarrow> Some (load_refused 0 (REJECT_INVALID, error))
        | Inr bytes \<Rightarrow> decode bytes limits)"

definition validate_file :: "read_calls \<Rightarrow> string \<Rightarrow> ResourceLimits \<Rightarrow> (OutcomeCode \<times> string) option" where
  "validate_file calls path limits = map_option (\<lambda>l. (ld_code l, ld_detail l)) (load calls path limits)"

section \<open>Atomicity\<close>

lemma temporary_differs [simp]: "temporary_path path \<noteq> path" "path \<noteq> temporary_path path"
  by (simp_all add: temporary_path_def)

lemma write_image_prefix:
  assumes "write_image_atomic calls path bytes = (ops, result)"
  shows "file_steps (take n ops) fs path = fs path \<or>
    (n \<ge> length ops \<and> result = None \<and> file_steps (take n ops) fs path = Some \<lparr>fl_bytes = bytes, fl_on_device = True\<rparr>)"
  using assms
  by (auto simp: write_image_atomic_def Let_def take_Cons' file_steps_def min_def split: if_splits)

lemma write_image_result:
  assumes "write_image_atomic calls path bytes = (ops, result)"
  shows "result = None \<Longrightarrow> file_steps ops fs path = Some \<lparr>fl_bytes = bytes, fl_on_device = True\<rparr>"
    and "result \<noteq> None \<Longrightarrow> file_steps ops fs path = fs path"
    and "q \<noteq> path \<Longrightarrow> q \<noteq> temporary_path path \<Longrightarrow> file_steps ops fs q = fs q"
    and "ops \<noteq> [] \<Longrightarrow> file_steps ops fs (temporary_path path) = None"
  using assms by (auto simp: write_image_atomic_def Let_def file_steps_def min_def split: if_splits)

lemma encode_all_refused: "encode_all kind detail put xs = Inl refused \<Longrightarrow> refused = (REJECT_LIMIT, detail)"
  by (induction xs) (auto simp: and_then_def split: option.splits sum.splits)

lemma encode_refused: "encode p limits = Inl (code, detail) \<Longrightarrow> code \<noteq> ACCEPTED"
  by (auto simp: encode_def encode_payload_def Let_def and_then_def dest!: encode_all_refused
      split: if_splits sum.splits option.splits)

lemma load_written:
  assumes "encode p limits = Inr (bytes, records)" "state_fits limits p" "path \<noteq> []"
    and "fs path = Some \<lparr>fl_bytes = bytes, fl_on_device = d\<rparr>"
    and "length bytes \<le> 72 + unat (max_payload_bytes limits)"
  shows "load (reads_from fs path) path limits = Some
    \<lparr>ld_code = ACCEPTED, ld_detail = [], ld_state = Some (durable_part p),
     ld_format_version = persistence_format_version, ld_record_count = records\<rparr>"
proof -
  have "length bytes \<le> unat (max_persistence_bytes limits)"
    by (rule encode_accepted [OF assms(1)]) (simp add: header_layout length_sha256)
  then show ?thesis
    using decode_encoded [OF assms(1,2)] assms(3-5) by (simp add: load_def read_image_def reads_from_def)
qed

lemma save_cases:
  assumes "save calls p path limits = (ops, code, detail)"
  obtains (refused) "ops = []" "code \<noteq> ACCEPTED"
  | (wrote) bytes records result where "path \<noteq> []" "encode (RouterPersistentState_canonicalize p) limits = Inr (bytes, records)"
      "write_image_atomic calls path bytes = (ops, result)" "code = ACCEPTED \<longleftrightarrow> result = None"
  using assms encode_refused by (fastforce simp: save_def split: if_splits sum.splits prod.splits option.splits)


definition good_write :: write_calls where
  "good_write = \<lparr>wc_opened = True, wc_written = 1000000, wc_flushed = True, wc_synced = True,
     wc_closed = True, wc_renamed = True\<rparr>"

lemma sample_saves: "\<exists>ops detail. save good_write sample_durable ''state'' default_resource_limits = (ops, ACCEPTED, detail)"
proof -
  obtain bytes where b: "encode sample_durable default_resource_limits = Inr (bytes, 4)" "length bytes \<le> 6000"
    using sample_encoded by blast
  then show ?thesis
    by (simp add: save_def sample_durable_def export_canonical write_image_atomic_def Let_def good_write_def)
qed


end
