(* ===== verification/Wire_Frame.thy ===== *)
theory Wire_Frame
  imports Durable_Codec
begin

text \<open>
  Frames of the wire protocol (\<open>include/model_router/distributed/protocol.hpp\<close> and
  \<open>src/distributed/protocol.cpp\<close>): the 24-byte header, encoding and decoding.  A failure is the
  text the code stores through its error pointer.  The checks for null output pointers have no
  counterpart: the outputs are results here.
\<close>

section \<open>Message types\<close>

datatype (plugins only: code size) MessageType =
    INVALID | HELLO | HELLO_ACK | BACKEND_REGISTER | BACKEND_REGISTER_ACK | CAPABILITY_PUBLISH
  | HEALTH_UPDATE | AVAILABILITY_UPDATE | READINESS_UPDATE | RESIDENCY_UPDATE | CAPACITY_UPDATE
  | LATENCY_UPDATE | COST_UPDATE | ROUTE_REQUEST | ROUTE_RESPONSE | DISPATCH | DISPATCH_RESULT
  | COMPLETION | FENCE | PING | PONG | BYE | ERROR_MESSAGE | SNAPSHOT_REQUEST | SNAPSHOT_RESPONSE
  | ADMIN_REQUEST | ADMIN_RESPONSE

definition message_types :: "MessageType list" where
  "message_types =
     [INVALID, HELLO, HELLO_ACK, BACKEND_REGISTER, BACKEND_REGISTER_ACK, CAPABILITY_PUBLISH,
      HEALTH_UPDATE, AVAILABILITY_UPDATE, READINESS_UPDATE, RESIDENCY_UPDATE, CAPACITY_UPDATE,
      LATENCY_UPDATE, COST_UPDATE, ROUTE_REQUEST, ROUTE_RESPONSE, DISPATCH, DISPATCH_RESULT,
      COMPLETION, FENCE, PING, PONG, BYE, ERROR_MESSAGE, SNAPSHOT_REQUEST, SNAPSHOT_RESPONSE,
      ADMIN_REQUEST, ADMIN_RESPONSE]"

definition kTypeNames :: "string list" where
  "kTypeNames =
     [''INVALID'', ''HELLO'', ''HELLO_ACK'', ''BACKEND_REGISTER'', ''BACKEND_REGISTER_ACK'',
      ''CAPABILITY_PUBLISH'', ''HEALTH_UPDATE'', ''AVAILABILITY_UPDATE'', ''READINESS_UPDATE'',
      ''RESIDENCY_UPDATE'', ''CAPACITY_UPDATE'', ''LATENCY_UPDATE'', ''COST_UPDATE'',
      ''ROUTE_REQUEST'', ''ROUTE_RESPONSE'', ''DISPATCH'', ''DISPATCH_RESULT'', ''COMPLETION'',
      ''FENCE'', ''PING'', ''PONG'', ''BYE'', ''ERROR_MESSAGE'', ''SNAPSHOT_REQUEST'',
      ''SNAPSHOT_RESPONSE'', ''ADMIN_REQUEST'', ''ADMIN_RESPONSE'']"

text \<open>\<open>to_string\<close> of the enumerator with the given value.\<close>

definition type_name :: "nat \<Rightarrow> string" where
  "type_name index = (if index \<ge> length kTypeNames then ''UNKNOWN'' else kTypeNames ! index)"

definition type_code :: "MessageType \<Rightarrow> u16" where
  "type_code t = of_nat (enum_index message_types t)"

section \<open>Frames\<close>

record FrameHeader =
  fh_magic :: u32
  fh_protocol_version :: u16
  fh_message_type :: u16
  fh_flags :: u32
  fh_payload_bytes :: u32
  fh_header_crc32c :: u32
  fh_payload_crc32c :: u32

record Frame =
  fr_header :: FrameHeader
  fr_payload :: "u8 list"

definition frame_magic :: u32 where
  "frame_magic = 0x4D525446"

definition frame_header_bytes :: nat where
  "frame_header_bytes = 24"

definition protocol_version :: u16 where
  "protocol_version = 1"

definition put_header :: "FrameHeader \<Rightarrow> u8 list" where
  "put_header h =
     le_bytes 4 (fh_magic h) @ le_bytes 2 (fh_protocol_version h) @ le_bytes 2 (fh_message_type h) @
     le_bytes 4 (fh_flags h) @ le_bytes 4 (fh_payload_bytes h) @ le_bytes 4 (fh_header_crc32c h) @
     le_bytes 4 (fh_payload_crc32c h)"

definition known_type :: "u16 \<Rightarrow> bool" where
  "known_type t \<longleftrightarrow> t \<noteq> 0 \<and> unat t < length message_types"

text \<open>The header that is sent: its lengths and checksums are filled in.\<close>

definition seal_header :: "FrameHeader \<Rightarrow> u8 list \<Rightarrow> FrameHeader" where
  "seal_header h payload =
     (let h' = h\<lparr>fh_payload_bytes := of_nat (length payload), fh_payload_crc32c := crc32c payload\<rparr>
      in h'\<lparr>fh_header_crc32c := crc32c (take 16 (put_header h'))\<rparr>)"

definition encode_frame :: "Frame \<Rightarrow> ResourceLimits \<Rightarrow> string + u8 list" where
  "encode_frame frame limits =
     (let header = fr_header frame; payload = fr_payload frame;
          bytes = put_header (seal_header header payload) @ payload in
      if fh_magic header \<noteq> frame_magic then Inl ''frame magic is not the protocol magic''
      else if fh_protocol_version header \<noteq> protocol_version
        then Inl ''frame protocol version is not supported''
      else if \<not> known_type (fh_message_type header)
        then Inl ''frame message type is not a known message type''
      else if length payload > unat (max_frame_payload_bytes limits) \<or>
              length payload > unat (max_payload_bytes limits)
        then Inl ''frame payload exceeds the configured limit''
      else if length bytes > unat (max_frame_bytes limits)
        then Inl ''encoded frame exceeds the configured byte limit''
      else Inr bytes)"

definition decode_header :: "u8 list \<Rightarrow> ResourceLimits \<Rightarrow> string + FrameHeader" where
  "decode_header bytes limits =
     (let magic = word_at 4 bytes 0; version = word_at 2 bytes 4; type = word_at 2 bytes 6;
          stored_crc = word_at 4 bytes 16; payload_bytes = word_at 4 bytes 12 in
      if length bytes < frame_header_bytes then Inl ''frame header is truncated''
      else if magic \<noteq> frame_magic then Inl ''frame magic does not match''
      else if version \<noteq> protocol_version then Inl ''frame protocol version is not supported''
      else if \<not> known_type type then Inl ''frame message type is not a known message type''
      else if stored_crc \<noteq> crc32c (take 16 bytes) then Inl ''frame header checksum mismatch''
      else if payload_bytes > max_frame_payload_bytes limits \<or> payload_bytes > max_payload_bytes limits
        then Inl ''declared frame payload length exceeds the configured limit''
      else Inr \<lparr>fh_magic = magic, fh_protocol_version = version, fh_message_type = type,
        fh_flags = word_at 4 bytes 8, fh_payload_bytes = payload_bytes, fh_header_crc32c = stored_crc,
        fh_payload_crc32c = word_at 4 bytes 20\<rparr>)"

definition decode_frame :: "u8 list \<Rightarrow> ResourceLimits \<Rightarrow> string + Frame" where
  "decode_frame bytes limits =
     and_then (decode_header bytes limits) (\<lambda>header.
       let expected = frame_header_bytes + unat (fh_payload_bytes header);
           payload = drop frame_header_bytes bytes in
       if length bytes \<noteq> expected
         then Inl (if length bytes < expected then ''frame is truncated'' else ''frame has trailing bytes'')
       else if crc32c payload \<noteq> fh_payload_crc32c header then Inl ''frame payload checksum mismatch''
       else Inr \<lparr>fr_header = header, fr_payload = payload\<rparr>)"

section \<open>Round trip\<close>

definition sealed :: "Frame \<Rightarrow> Frame" where
  "sealed f = \<lparr>fr_header = seal_header (fr_header f) (fr_payload f), fr_payload = fr_payload f\<rparr>"

lemma length_put_header [simp]: "length (put_header h) = 24"
  by (simp add: put_header_def)

lemma header_words:
  "word_at 4 (put_header h @ rest) 0 = fh_magic h" "word_at 2 (put_header h @ rest) 4 = fh_protocol_version h"
  "word_at 2 (put_header h @ rest) 6 = fh_message_type h" "word_at 4 (put_header h @ rest) 8 = fh_flags h"
  "word_at 4 (put_header h @ rest) 12 = fh_payload_bytes h" "word_at 4 (put_header h @ rest) 16 = fh_header_crc32c h"
  "word_at 4 (put_header h @ rest) 20 = fh_payload_crc32c h"
  by (simp_all add: word_at_def put_header_def)

lemma seal_front: "take 16 (put_header (h\<lparr>fh_header_crc32c := c\<rparr>)) = take 16 (put_header h)"
  by (simp add: put_header_def)

lemma sealed_checksum: "crc32c (take 16 (put_header (seal_header h payload))) = fh_header_crc32c (seal_header h payload)"
  by (simp add: seal_header_def Let_def seal_front)

lemma encode_frame_accepted:
  assumes "encode_frame f limits = Inr bytes"
  shows "bytes = put_header (fr_header (sealed f)) @ fr_payload f" "fh_magic (fr_header f) = frame_magic"
    "fh_protocol_version (fr_header f) = protocol_version" "known_type (fh_message_type (fr_header f))"
    "length (fr_payload f) \<le> unat (max_frame_payload_bytes limits)" "length (fr_payload f) \<le> unat (max_payload_bytes limits)"
    "length bytes \<le> unat (max_frame_bytes limits)"
  using assms by (auto simp: encode_frame_def Let_def sealed_def split: if_splits)

text \<open>The header is recognised in front of whatever follows.\<close>

lemma decode_header_encoded:
  assumes "encode_frame f limits = Inr bytes"
  shows "decode_header (take 24 bytes @ rest) limits = Inr (fr_header (sealed f))"
    and "unat (fh_payload_bytes (fr_header (sealed f))) = length (fr_payload f)"
proof -
  note e = encode_frame_accepted [OF assms]
  let ?h = "fr_header (sealed f)"
  have "length (fr_payload f) < 2 ^ 32"
    using e(6) unsigned_less [of "max_payload_bytes limits", where ?'a = nat] by simp
  then show size: "unat (fh_payload_bytes ?h) = length (fr_payload f)"
    by (simp add: sealed_def seal_header_def Let_def unsigned_of_nat take_bit_nat_eq_self)
  then have "\<not> fh_payload_bytes ?h > max_frame_payload_bytes limits" "\<not> fh_payload_bytes ?h > max_payload_bytes limits"
    using e(5,6) by (simp_all add: word_less_nat_alt)
  moreover have "fh_magic ?h = frame_magic" "fh_protocol_version ?h = protocol_version" "known_type (fh_message_type ?h)"
    using e(2-4) by (simp_all add: sealed_def seal_header_def Let_def)
  moreover have "take 24 bytes = put_header ?h" by (simp add: e(1))
  moreover have "crc32c (take 16 (put_header ?h)) = fh_header_crc32c ?h" by (simp add: sealed_def sealed_checksum)
  ultimately show "decode_header (take 24 bytes @ rest) limits = Inr ?h"
    by (simp add: decode_header_def header_words frame_header_bytes_def)
qed

lemma decode_frame_encoded:
  assumes "encode_frame f limits = Inr bytes"
  shows "decode_frame bytes limits = Inr (sealed f)"
proof -
  note e = encode_frame_accepted [OF assms] and h = decode_header_encoded [OF assms]
  have "bytes = take 24 bytes @ fr_payload f" "length bytes = 24 + length (fr_payload f)" "drop 24 bytes = fr_payload f"
    by (simp_all add: e(1))
  then have "decode_header bytes limits = Inr (fr_header (sealed f))" using h(1) by metis
  moreover have "fh_payload_crc32c (fr_header (sealed f)) = crc32c (fr_payload f)"
    by (simp add: sealed_def seal_header_def Let_def)
  ultimately show ?thesis
    using h(2) \<open>length bytes = _\<close> \<open>drop 24 bytes = _\<close>
    by (simp add: decode_frame_def and_then_def frame_header_bytes_def sealed_def Let_def)
qed

section \<open>Damage\<close>

lemma decode_frame_accepted:
  assumes "decode_frame bytes limits = Inr f"
  shows "24 \<le> length bytes" "word_at 4 bytes 16 = crc32c (take 16 bytes)"
    "length bytes = 24 + unat (word_at 4 bytes 12 :: u32)" "crc32c (drop 24 bytes) = word_at 4 bytes 20"
    "fr_payload f = drop 24 bytes"
  using assms
  by (auto simp: decode_frame_def decode_header_def and_then_def frame_header_bytes_def Let_def split: if_splits sum.splits)

lemma frame_residue:
  assumes "decode_frame bytes limits = Inr f"
  shows "Crc32c_update Crc32c_init (take 20 bytes) = (table_bit ^^ 32) 0xFFFFFFFF"
  using decode_frame_accepted [OF assms] checked_prefix [of 16 bytes] by simp

lemma damaged_frame:
  assumes "decode_frame a limits = Inr f" and "burst_change a b"
    and "take 24 b = take 24 a \<or> drop 24 b = drop 24 a"
  shows "\<exists>error. decode_frame b limits = Inl error"
proof (rule ccontr)
  assume "\<nexists>error. decode_frame b limits = Inl error"
  then obtain g where g: "decode_frame b limits = Inr g" by (cases "decode_frame b limits") auto
  note a = decode_frame_accepted [OF assms(1)] and b = decode_frame_accepted [OF g]
  have front: "take 20 a = take 20 b"
    using burst_part(1) [OF assms(2), of 20] burst_checksum(1) frame_residue [OF assms(1)] frame_residue [OF g] by metis
  have "a = b"
    using assms(3)
  proof
    assume same: "take 24 b = take 24 a"
    then have "word_at 4 a 20 = (word_at 4 b 20 :: u32)"
      using a(1) b(1) by (intro prefix_word_cong [of 24]) simp_all
    then have "drop 24 a = drop 24 b" using burst_part(2) [OF assms(2), of 24] burst_checksum(2) a(4) b(4) by metis
    then show ?thesis using same by (metis append_take_drop_id)
  next
    assume same: "drop 24 b = drop 24 a"
    then have "burst_word (take 4 (drop 20 a)) = burst_word (take 4 (drop 20 b))"
      using a(1,4) b(1,4) by (simp add: word_at_burst)
    then have "take 4 (drop 20 a) = take 4 (drop 20 b)" using a(1) b(1) by (intro burst_word_inject) simp_all
    moreover have "c = take 20 c @ take 4 (drop 20 c) @ drop 24 c" for c :: "u8 list"
      using append_take_drop_id [of 20 c] append_take_drop_id [of 4 "drop 20 c"] by simp
    ultimately show ?thesis using front same by metis
  qed
  then show False using burst_differs [OF assms(2)] by simp
qed

lemma resized_frame:
  assumes "decode_frame a limits = Inr f" and "take 24 b = take 24 a \<or> length b < 24" and "length b \<noteq> length a"
  shows "\<exists>error. decode_frame b limits = Inl error"
proof (rule ccontr)
  assume "\<nexists>error. decode_frame b limits = Inl error"
  then obtain g where g: "decode_frame b limits = Inr g" by (cases "decode_frame b limits") auto
  note a = decode_frame_accepted [OF assms(1)] and b = decode_frame_accepted [OF g]
  have "word_at 4 b 12 = (word_at 4 a 12 :: u32)"
    using assms(2) a(1) b(1) by (intro prefix_word_cong [of 24]) simp_all
  then show False using a(3) b(3) assms(3) by simp
qed

text \<open>
  Frames arrive as they were sent or not at all: what \<open>encode_frame\<close> produces, \<open>decode_frame\<close>
  turns back into the same header (with the length and checksums filled in) and payload; and it
  rejects the frame when up to four consecutive bytes of the header or of the payload were changed,
  when the frame was cut short, and when bytes were appended to it.
\<close>

theorem frame_round_trip:
  assumes "encode_frame f limits = Inr bytes"
  shows "decode_frame bytes limits = Inr (sealed f) \<and>
    (\<forall>damaged. burst_change bytes damaged \<and> (take 24 damaged = take 24 bytes \<or> drop 24 damaged = drop 24 bytes) \<longrightarrow>
       (\<exists>error. decode_frame damaged limits = Inl error)) \<and>
    (\<forall>n < length bytes. \<exists>error. decode_frame (take n bytes) limits = Inl error) \<and>
    (\<forall>extra. extra \<noteq> [] \<longrightarrow> (\<exists>error. decode_frame (bytes @ extra) limits = Inl error))"
proof (intro conjI allI impI)
  note decoded = decode_frame_encoded [OF assms]
  show "decode_frame bytes limits = Inr (sealed f)" by (rule decoded)
  fix damaged
  assume "burst_change bytes damaged \<and> (take 24 damaged = take 24 bytes \<or> drop 24 damaged = drop 24 bytes)"
  then show "\<exists>error. decode_frame damaged limits = Inl error" using damaged_frame [OF decoded] by blast
next
  fix n assume "n < length bytes"
  then show "\<exists>error. decode_frame (take n bytes) limits = Inl error"
    by (intro resized_frame [OF decode_frame_encoded [OF assms]]) (auto simp: min_def)
next
  fix extra :: "u8 list" assume "extra \<noteq> []"
  then show "\<exists>error. decode_frame (bytes @ extra) limits = Inl error"
    using decode_frame_accepted(1) [OF decode_frame_encoded [OF assms]]
    by (intro resized_frame [OF decode_frame_encoded [OF assms]]) simp_all
qed

definition sample_frame :: Frame where
  "sample_frame =
     \<lparr>fr_header = \<lparr>fh_magic = frame_magic, fh_protocol_version = protocol_version, fh_message_type = type_code PING,
        fh_flags = 0, fh_payload_bytes = 0, fh_header_crc32c = 0, fh_payload_crc32c = 0\<rparr>,
      fr_payload = [1, 2, 3]\<rparr>"

lemma sample_frame_encoded:
  "encode_frame sample_frame default_resource_limits = Inr (put_header (fr_header (sealed sample_frame)) @ [1, 2, 3])"
proof -
  have "known_type (type_code PING)"
    by (simp add: known_type_def type_code_def enum_index_def message_types_def)
  then show ?thesis
    by (simp add: encode_frame_def sample_frame_def sealed_def default_resource_limits_def Let_def)
qed

theorem frame_round_trip_witness:
  "decode_frame (put_header (fr_header (sealed sample_frame)) @ [1, 2, 3]) default_resource_limits =
     Inr (sealed sample_frame) \<and>
   (\<exists>error. decode_frame (put_header (fr_header (sealed sample_frame)) @ [1, 2, 4]) default_resource_limits = Inl error)"
proof -
  let ?h = "put_header (fr_header (sealed sample_frame))"
  have "burst_change (?h @ [1, 2, 3]) (?h @ [1, 2, 4])"
    unfolding burst_change_def
    by (intro exI [of _ "?h @ [1, 2]"] exI [of _ "[3]"] exI [of _ "[4]"] exI [of _ "[]"]) simp
  then show ?thesis using frame_round_trip [OF sample_frame_encoded] by simp
qed

end
