(* ===== verification/Wire_Parts.thy ===== *)
theory Wire_Parts
  imports Wire_Frame Durable_Image
begin

text \<open>
  The parts of the messages of the wire protocol (\<open>src/distributed/protocol.cpp\<close>): capability
  profiles, costs, backends, keys, authority, requirements and decisions.  A reader gives \<open>None\<close>
  where its C++ counterpart returns \<open>false\<close>.  Lists are read into fresh values, as every caller
  passes a default-constructed output.
\<close>

section \<open>Counted lists\<close>

definition put_counted :: "('a \<Rightarrow> writer) \<Rightarrow> 'a list \<Rightarrow> writer" where
  "put_counted put xs = writes [put_u32 (of_nat (length xs)), writes (map put xs)]"

text \<open>Go on with what was read, unless the reader refused.\<close>

definition and_read :: "'a option reader \<Rightarrow> ('a \<Rightarrow> 'b option reader) \<Rightarrow> 'b option reader" where
  "and_read get next = do { x \<leftarrow> get; case x of None \<Rightarrow> State_Monad.return None | Some y \<Rightarrow> next y }"

definition finish_read :: "'a \<Rightarrow> 'a option reader" where
  "finish_read x = do { ok \<leftarrow> read_ok; State_Monad.return (if ok then Some x else None) }"

definition get_count :: "u32 \<Rightarrow> u32 option reader" where
  "get_count limit = do {
     count \<leftarrow> get_u32;
     ok \<leftarrow> read_ok;
     State_Monad.return (if \<not> ok \<or> count > limit then None else Some count)
   }"

definition get_counted :: "u32 \<Rightarrow> 'a reader \<Rightarrow> 'a list option reader" where
  "get_counted limit get = and_read (get_count limit) (\<lambda>count. do {
     xs \<leftarrow> get_many get (unat count);
     State_Monad.return (Some xs)
   })"

definition get_counted_checked :: "u32 \<Rightarrow> 'a option reader \<Rightarrow> 'a list option reader" where
  "get_counted_checked limit get =
     and_read (get_count limit) (\<lambda>count. get_many_checked get (unat count))"

lemma agrees_and_read:
  assumes "agrees g (Some a) w" and "agrees (h a) v (writes ws)"
  shows "agrees (and_read g h) v (writes (w # ws))"
  unfolding and_read_def by (rule agrees_bind [OF assms(1)]) (simp add: assms(2))

lemma agrees_finish: "x = y \<Longrightarrow> agrees (finish_read x) (Some y) (writes [])"
  unfolding finish_read_def by (rule agrees_bind_nil [OF reads_ok], rule agrees_return) simp

lemma agrees_count: "n \<le> unat limit \<Longrightarrow> agrees (get_count limit) (Some (of_nat n)) (put_u32 (of_nat n))"
  unfolding get_count_def
  by (rule agrees_bind [OF agrees_u32, of _ _ _ "[]", THEN agrees_only])
     (rule agrees_bind_nil [OF reads_ok], rule agrees_return, simp add: word_less_nat_alt count_u32)

context codec
begin

lemma read_back_counted:
  assumes "list_all valid xs" "length xs \<le> unat limit"
  shows "agrees (get_counted limit get) (Some xs) (put_counted put xs)"
proof -
  have "unat (of_nat (length xs) :: u32) = length xs" using assms(2) by (rule count_u32)
  then have "agrees (do { ys \<leftarrow> get_many get (unat (of_nat (length xs) :: u32)); State_Monad.return (Some ys) }) (Some xs)
      (writes [writes (map put xs)])"
    using read_back_many [OF assms(1)] by (intro agrees_last agrees_map) simp_all
  then show ?thesis unfolding get_counted_def put_counted_def
    by (rule agrees_and_read [OF agrees_count [OF assms(2)]])
qed

end

context checked_codec
begin

lemma read_back_counted:
  assumes "list_all valid xs" "length xs \<le> unat limit"
  shows "agrees (get_counted_checked limit get) (Some xs) (put_counted put xs)"
proof -
  have "unat (of_nat (length xs) :: u32) = length xs" using assms(2) by (rule count_u32)
  then show ?thesis unfolding get_counted_checked_def put_counted_def
    using read_back_many [OF assms(1)] by (intro agrees_and_read [OF agrees_count [OF assms(2)]] agrees_last) simp
qed

end

section \<open>Parts shared with the durable image\<close>

text \<open>These functions of \<open>protocol.cpp\<close> write and read the same fields in the same order as their
  namesakes in \<open>persistence.cpp\<close>.\<close>

definition put_profile :: "ResourceLimits \<Rightarrow> CapabilityProfile \<Rightarrow> writer" where
  "put_profile limits p = write_profile limits p"

definition get_profile :: "ResourceLimits \<Rightarrow> CapabilityProfile option reader" where
  "get_profile limits = read_profile limits"

definition put_cost :: "ResourceLimits \<Rightarrow> CostEvidence \<Rightarrow> writer" where
  "put_cost limits c = write_cost limits c"

definition get_cost :: "ResourceLimits \<Rightarrow> CostEvidence option reader" where
  "get_cost limits = read_cost limits"

definition put_candidate_key :: "CandidateKey \<Rightarrow> writer" where
  "put_candidate_key k = write_candidate_key k"

definition get_candidate_key :: "CandidateKey reader" where
  "get_candidate_key = read_candidate_key"

definition put_authority :: "RouteAuthority \<Rightarrow> writer" where
  "put_authority a = write_authority a"

definition get_authority :: "RouteAuthority reader" where
  "get_authority = read_authority"

section \<open>Backends\<close>

definition put_binding :: "ResourceLimits \<Rightarrow> ModelBinding \<Rightarrow> writer" where
  "put_binding limits b = writes
     [put_u64 (mb_model_id b), put_u64 (mb_model_generation b), put_u64 (mb_artifact_generation b),
      put_u32 (mb_context_limit_tokens b), put_u32 (mb_quality_class b), put_cost limits (mb_cost b),
      put_i64 (mb_bound_at b)]"

definition get_binding :: "ResourceLimits \<Rightarrow> ModelBinding option reader" where
  "get_binding limits = do {
     model_id \<leftarrow> get_u64;
     model_generation \<leftarrow> get_u64;
     artifact_generation \<leftarrow> get_u64;
     context_limit_tokens \<leftarrow> get_u32;
     quality_class \<leftarrow> get_u32;
     and_read (get_cost limits) (\<lambda>cost. do {
       bound_at \<leftarrow> get_i64;
       State_Monad.return (Some
         \<lparr>mb_model_id = model_id, mb_model_generation = model_generation,
          mb_artifact_generation = artifact_generation, mb_context_limit_tokens = context_limit_tokens,
          mb_quality_class = quality_class, mb_cost = cost, mb_bound_at = bound_at\<rparr>)
     })
   }"

definition put_backend :: "ResourceLimits \<Rightarrow> BackendDescriptor \<Rightarrow> writer" where
  "put_backend limits b = writes
     [put_u64 (bd_backend_id b), put_u64 (bd_backend_generation b), put_u64 (bd_backend_boot b),
      put_u64 (bd_backend_registration_generation b), put_u64 (bd_provider_id b),
      put_u64 (bd_provider_generation b), put_u64 (ed_endpoint_id (bd_endpoint b)),
      put_u64 (ed_endpoint_generation (bd_endpoint b)), put_u64 (ed_backend_id (bd_endpoint b)),
      put_u64 (ed_backend_boot (bd_endpoint b)), put_string limits (ed_reference (bd_endpoint b)),
      put_string limits (ed_protocol (bd_endpoint b)), put_u32 (ed_protocol_version (bd_endpoint b)),
      put_u64 (bd_trust_profile_id b), put_u64 (bd_trust_generation b),
      put_enum8 trust_domains (bd_trust_domain b), put_string limits (bd_locality b),
      put_u32 (bd_network_distance b), put_u64 (bd_capability_profile_id b),
      put_u64 (bd_capability_generation b), put_u64 (bd_compatibility_profile_id b),
      put_u64 (bd_compatibility_generation b), put_counted (put_binding limits) (bd_model_bindings b),
      put_u32 (bd_reliability_ppm b), put_bool (bd_offline_capable b),
      put_enum8 provenances (bd_provenance b), put_i64 (bd_registered_at b), put_i64 (bd_expires_at b)]"

text \<open>What a registration does not carry keeps its default.\<close>

definition get_backend :: "ResourceLimits \<Rightarrow> BackendDescriptor option reader" where
  "get_backend limits = do {
     backend_id \<leftarrow> get_u64;
     backend_generation \<leftarrow> get_u64;
     backend_boot \<leftarrow> get_u64;
     registration_generation \<leftarrow> get_u64;
     provider_id \<leftarrow> get_u64;
     provider_generation \<leftarrow> get_u64;
     endpoint_id \<leftarrow> get_u64;
     endpoint_generation \<leftarrow> get_u64;
     endpoint_backend_id \<leftarrow> get_u64;
     endpoint_backend_boot \<leftarrow> get_u64;
     reference \<leftarrow> get_string limits;
     protocol \<leftarrow> get_string limits;
     version \<leftarrow> get_u32;
     trust_profile_id \<leftarrow> get_u64;
     trust_generation \<leftarrow> get_u64;
     trust_domain \<leftarrow> get_enum8 trust_domains;
     locality \<leftarrow> get_string limits;
     network_distance \<leftarrow> get_u32;
     capability_profile_id \<leftarrow> get_u64;
     capability_generation \<leftarrow> get_u64;
     compatibility_profile_id \<leftarrow> get_u64;
     compatibility_generation \<leftarrow> get_u64;
     and_read (get_counted_checked (max_model_bindings_per_backend limits) (get_binding limits)) (\<lambda>bindings. do {
       reliability_ppm \<leftarrow> get_u32;
       offline_capable \<leftarrow> get_bool;
       provenance \<leftarrow> get_enum8 provenances;
       registered_at \<leftarrow> get_i64;
       expires_at \<leftarrow> get_i64;
       finish_read
         \<lparr>bd_backend_id = backend_id, bd_backend_generation = backend_generation,
          bd_backend_boot = backend_boot,
          bd_backend_registration_generation = registration_generation,
          bd_provider_id = provider_id, bd_provider_generation = provider_generation,
          bd_endpoint =
            \<lparr>ed_endpoint_id = endpoint_id, ed_endpoint_generation = endpoint_generation,
             ed_backend_id = endpoint_backend_id, ed_backend_boot = endpoint_backend_boot,
             ed_reference = reference, ed_protocol = protocol, ed_protocol_version = version\<rparr>,
          bd_trust_profile_id = trust_profile_id, bd_trust_generation = trust_generation,
          bd_trust_domain = trust_domain, bd_locality = locality,
          bd_network_distance = network_distance, bd_capability_profile_id = capability_profile_id,
          bd_capability_generation = capability_generation, bd_capabilities = CapabilityProfile_empty,
          bd_compatibility_profile_id = compatibility_profile_id,
          bd_compatibility_generation = compatibility_generation, bd_model_bindings = bindings,
          bd_health = BackendEvidence_default HealthState.UNKNOWN,
          bd_availability = BackendEvidence_default AvailabilityState.UNKNOWN,
          bd_readiness = BackendEvidence_default ReadinessState.UNKNOWN,
          bd_residency = BackendEvidence_default ResidencyState.UNKNOWN,
          bd_capacity = BackendEvidence_default CapacityState.UNKNOWN,
          bd_capacity_detail = CapacityDetail_default, bd_latency = LatencyEvidence_default,
          bd_reliability_ppm = reliability_ppm, bd_offline_capable = offline_capable,
          bd_provenance = provenance, bd_registered_at = registered_at, bd_expires_at = expires_at\<rparr>
     })
   }"

section \<open>Requirements\<close>

definition fallback_policies :: "FallbackPolicy list" where
  "fallback_policies = [FallbackPolicy.FORBIDDEN, FallbackPolicy.EXPLICIT_ONLY, FallbackPolicy.PERMITTED]"

definition put_requirement :: "ResourceLimits \<Rightarrow> CapabilityRequirement \<Rightarrow> writer" where
  "put_requirement limits r = writes
     [put_string limits (cr_key r), put_enum8 capability_states (cr_minimum_state r)]"

definition get_requirement :: "ResourceLimits \<Rightarrow> CapabilityRequirement option reader" where
  "get_requirement limits = do {
     key \<leftarrow> get_string limits;
     state \<leftarrow> get_checked8 capability_states;
     ok \<leftarrow> read_ok;
     State_Monad.return
       (if ok then map_option (\<lambda>s. \<lparr>cr_key = key, cr_minimum_state = s\<rparr>) state else None)
   }"

definition get_ids :: "ResourceLimits \<Rightarrow> entity_id list option reader" where
  "get_ids limits = and_read (get_counted (max_allowlist_entries limits) get_u64) finish_read"

definition put_requirements :: "ResourceLimits \<Rightarrow> RouteRequirements \<Rightarrow> writer" where
  "put_requirements limits r = writes
     [put_counted (put_requirement limits) (rr_required_capabilities r),
      put_counted (put_string limits) (rr_preferred_capabilities r),
      put_enum8 capability_states (rr_minimum_capability_evidence r),
      put_u32 (rr_min_context_tokens r), put_u32 (rr_max_output_tokens r),
      put_u32 (rr_required_input_modalities r), put_u32 (rr_required_output_modalities r),
      put_bool (rr_require_structured_output r), put_bool (rr_require_json_schema r),
      put_bool (rr_require_tool_calling r), put_bool (rr_require_streaming r),
      put_bool (rr_require_logprobs r), put_bool (rr_require_deterministic_seed r),
      put_u32 (rr_quality_floor r), put_counted put_u64 (rr_model_allowlist r),
      put_counted put_u64 (rr_model_denylist r), put_counted put_u64 (rr_family_allowlist r),
      put_counted put_u64 (rr_family_denylist r), put_counted put_u64 (rr_provider_allowlist r),
      put_counted put_u64 (rr_provider_denylist r), put_counted put_u64 (rr_backend_allowlist r),
      put_counted put_u64 (rr_backend_denylist r), put_bool (rr_local_only r),
      put_bool (rr_offline_only r), put_bool (rr_remote_allowed r),
      put_counted (put_string limits) (rr_required_localities r),
      put_counted (put_string limits) (rr_denied_localities r),
      put_enum8 trust_domains (rr_minimum_trust r), put_bool (rr_require_known_cost r),
      put_bool (rr_enforce_cost_ceiling r),
      put_string limits (cu_currency (mo_unit (rr_maximum_cost r))),
      put_string limits (cu_basis (mo_unit (rr_maximum_cost r))),
      put_i64 (mo_micros (rr_maximum_cost r)), put_u32 (rr_max_latency_micros r),
      put_u32 (rr_deadline_micros r), put_bool (rr_require_slo r),
      put_bool (rr_require_available r), put_bool (rr_require_healthy r),
      put_bool (rr_require_ready r), put_bool (rr_require_resident r),
      put_bool (rr_require_capacity r), put_bool (rr_require_reservation r),
      put_bool (rr_require_known_latency r), put_bool (rr_require_known_compatibility r),
      put_string limits (rr_required_protocol r), put_u32 (rr_required_protocol_version r),
      put_u64 (rr_affinity_model r), put_u64 (rr_affinity_provider r),
      put_u64 (rr_affinity_backend r), put_bool (st_prefer_same_model_family (rr_stickiness r)),
      put_bool (st_prefer_same_provider (rr_stickiness r)),
      put_bool (st_prefer_same_backend (rr_stickiness r)),
      put_bool (st_prefer_context_locality (rr_stickiness r)),
      put_u64 (st_sticky_family (rr_stickiness r)), put_u64 (st_sticky_provider (rr_stickiness r)),
      put_u64 (st_sticky_backend (rr_stickiness r)), put_bool (rr_allow_fallbacks r),
      put_enum8 fallback_policies (rr_fallback_policy r),
      put_bool (rp_allow_retry (rr_retry_policy r)),
      put_bool (rp_allow_reroute (rr_retry_policy r)),
      put_bool (rp_allow_model_switch (rr_retry_policy r)),
      put_bool (rp_allow_provider_switch (rr_retry_policy r)),
      put_u32 (rp_max_attempts (rr_retry_policy r)), put_u32 (rp_max_fallbacks (rr_retry_policy r))]"

definition get_requirements :: "ResourceLimits \<Rightarrow> RouteRequirements option reader" where
  "get_requirements limits = do {
     and_read (get_counted_checked (max_requirement_entries limits) (get_requirement limits)) (\<lambda>required_capabilities. do {
     and_read (get_counted (max_requirement_entries limits) (get_string limits)) (\<lambda>preferred_capabilities. do {
     minimum_capability_evidence \<leftarrow> get_enum8 capability_states;
     min_context_tokens \<leftarrow> get_u32;
     max_output_tokens \<leftarrow> get_u32;
     required_input_modalities \<leftarrow> get_u32;
     required_output_modalities \<leftarrow> get_u32;
     require_structured_output \<leftarrow> get_bool;
     require_json_schema \<leftarrow> get_bool;
     require_tool_calling \<leftarrow> get_bool;
     require_streaming \<leftarrow> get_bool;
     require_logprobs \<leftarrow> get_bool;
     require_deterministic_seed \<leftarrow> get_bool;
     quality_floor \<leftarrow> get_u32;
     and_read (get_ids limits) (\<lambda>model_allowlist. do {
     and_read (get_ids limits) (\<lambda>model_denylist. do {
     and_read (get_ids limits) (\<lambda>family_allowlist. do {
     and_read (get_ids limits) (\<lambda>family_denylist. do {
     and_read (get_ids limits) (\<lambda>provider_allowlist. do {
     and_read (get_ids limits) (\<lambda>provider_denylist. do {
     and_read (get_ids limits) (\<lambda>backend_allowlist. do {
     and_read (get_ids limits) (\<lambda>backend_denylist. do {
     local_only \<leftarrow> get_bool;
     offline_only \<leftarrow> get_bool;
     remote_allowed \<leftarrow> get_bool;
     and_read (get_counted (max_allowlist_entries limits) (get_string limits)) (\<lambda>required_localities. do {
     and_read (get_counted (max_allowlist_entries limits) (get_string limits)) (\<lambda>denied_localities. do {
     minimum_trust \<leftarrow> get_enum8 trust_domains;
     require_known_cost \<leftarrow> get_bool;
     enforce_cost_ceiling \<leftarrow> get_bool;
     currency \<leftarrow> get_string limits;
     basis \<leftarrow> get_string limits;
     micros \<leftarrow> get_i64;
     max_latency_micros \<leftarrow> get_u32;
     deadline_micros \<leftarrow> get_u32;
     require_slo \<leftarrow> get_bool;
     require_available \<leftarrow> get_bool;
     require_healthy \<leftarrow> get_bool;
     require_ready \<leftarrow> get_bool;
     require_resident \<leftarrow> get_bool;
     require_capacity \<leftarrow> get_bool;
     require_reservation \<leftarrow> get_bool;
     require_known_latency \<leftarrow> get_bool;
     require_known_compatibility \<leftarrow> get_bool;
     required_protocol \<leftarrow> get_string limits;
     required_protocol_version \<leftarrow> get_u32;
     affinity_model \<leftarrow> get_u64;
     affinity_provider \<leftarrow> get_u64;
     affinity_backend \<leftarrow> get_u64;
     prefer_same_model_family \<leftarrow> get_bool;
     prefer_same_provider \<leftarrow> get_bool;
     prefer_same_backend \<leftarrow> get_bool;
     prefer_context_locality \<leftarrow> get_bool;
     sticky_family \<leftarrow> get_u64;
     sticky_provider \<leftarrow> get_u64;
     sticky_backend \<leftarrow> get_u64;
     allow_fallbacks \<leftarrow> get_bool;
     fallback_policy \<leftarrow> get_enum8 fallback_policies;
     allow_retry \<leftarrow> get_bool;
     allow_reroute \<leftarrow> get_bool;
     allow_model_switch \<leftarrow> get_bool;
     allow_provider_switch \<leftarrow> get_bool;
     max_attempts \<leftarrow> get_u32;
     max_fallbacks \<leftarrow> get_u32;
     finish_read
       \<lparr>rr_required_capabilities = required_capabilities,
        rr_preferred_capabilities = preferred_capabilities,
        rr_minimum_capability_evidence = minimum_capability_evidence,
        rr_min_context_tokens = min_context_tokens, rr_max_output_tokens = max_output_tokens,
        rr_required_input_modalities = required_input_modalities,
        rr_required_output_modalities = required_output_modalities,
        rr_require_structured_output = require_structured_output,
        rr_require_json_schema = require_json_schema,
        rr_require_tool_calling = require_tool_calling, rr_require_streaming = require_streaming,
        rr_require_logprobs = require_logprobs,
        rr_require_deterministic_seed = require_deterministic_seed,
        rr_quality_floor = quality_floor, rr_model_allowlist = model_allowlist,
        rr_model_denylist = model_denylist, rr_family_allowlist = family_allowlist,
        rr_family_denylist = family_denylist, rr_provider_allowlist = provider_allowlist,
        rr_provider_denylist = provider_denylist, rr_backend_allowlist = backend_allowlist,
        rr_backend_denylist = backend_denylist, rr_local_only = local_only,
        rr_offline_only = offline_only, rr_remote_allowed = remote_allowed,
        rr_required_localities = required_localities, rr_denied_localities = denied_localities,
        rr_minimum_trust = minimum_trust, rr_require_known_cost = require_known_cost,
        rr_enforce_cost_ceiling = enforce_cost_ceiling,
        rr_maximum_cost = \<lparr>mo_micros = micros, mo_unit = \<lparr>cu_currency = currency,
        cu_basis = basis\<rparr>\<rparr>, rr_max_latency_micros = max_latency_micros,
        rr_deadline_micros = deadline_micros, rr_require_slo = require_slo,
        rr_require_available = require_available, rr_require_healthy = require_healthy,
        rr_require_ready = require_ready, rr_require_resident = require_resident,
        rr_require_capacity = require_capacity, rr_require_reservation = require_reservation,
        rr_require_known_latency = require_known_latency,
        rr_require_known_compatibility = require_known_compatibility,
        rr_required_protocol = required_protocol,
        rr_required_protocol_version = required_protocol_version,
        rr_affinity_model = affinity_model, rr_affinity_provider = affinity_provider,
        rr_affinity_backend = affinity_backend,
        rr_stickiness = \<lparr>st_prefer_same_model_family = prefer_same_model_family,
        st_prefer_same_provider = prefer_same_provider,
        st_prefer_same_backend = prefer_same_backend,
        st_prefer_context_locality = prefer_context_locality, st_sticky_family = sticky_family,
        st_sticky_provider = sticky_provider, st_sticky_backend = sticky_backend\<rparr>,
        rr_allow_fallbacks = allow_fallbacks, rr_fallback_policy = fallback_policy,
        rr_retry_policy = \<lparr>rp_allow_retry = allow_retry, rp_allow_reroute = allow_reroute,
        rp_allow_model_switch = allow_model_switch,
        rp_allow_provider_switch = allow_provider_switch, rp_max_attempts = max_attempts,
        rp_max_fallbacks = max_fallbacks\<rparr>\<rparr>
   })})})})})})})})})})})})}"

section \<open>Decisions\<close>

definition currentnesses :: "Currentness list" where
  "currentnesses =
     [Currentness.CURRENT, Currentness.STALE, Currentness.REVALIDATION_REQUIRED, Currentness.RECONSTRUCTED]"

definition put_factor :: "ResourceLimits \<Rightarrow> FactorValue \<Rightarrow> writer" where
  "put_factor limits f = writes
     [put_enum8 canonical_factor_order (fv_factor f), put_bool (fv_known f), put_i64 (fv_normalized f),
      put_i64 (fv_raw f), put_i64 (fv_weight_ppm f), put_i64 (fv_contribution f),
      put_u64 (fv_evidence_generation f), put_string limits (fv_source f)]"

definition get_factor :: "ResourceLimits \<Rightarrow> FactorValue option reader" where
  "get_factor limits = do {
     factor \<leftarrow> get_checked8 canonical_factor_order;
     known \<leftarrow> get_bool;
     normalized \<leftarrow> get_i64;
     raw \<leftarrow> get_i64;
     weight_ppm \<leftarrow> get_i64;
     contribution \<leftarrow> get_i64;
     evidence_generation \<leftarrow> get_u64;
     source \<leftarrow> get_string limits;
     ok \<leftarrow> read_ok;
     State_Monad.return (if ok then map_option (\<lambda>f.
       \<lparr>fv_factor = f, fv_known = known, fv_normalized = normalized, fv_raw = raw,
        fv_weight_ppm = weight_ppm, fv_contribution = contribution,
        fv_evidence_generation = evidence_generation, fv_source = source\<rparr>) factor else None)
   }"

definition put_ranked :: "ResourceLimits \<Rightarrow> RankedCandidate \<Rightarrow> writer" where
  "put_ranked limits c = writes
     [put_candidate_key (rk_key c), put_i64 (rk_score c), put_u32 (rk_rank c),
      put_counted (put_factor limits) (rk_factors c)]"

definition get_ranked :: "ResourceLimits \<Rightarrow> RankedCandidate option reader" where
  "get_ranked limits = do {
     key \<leftarrow> get_candidate_key;
     score \<leftarrow> get_i64;
     rank \<leftarrow> get_u32;
     and_read (get_counted_checked (max_explanation_factors limits) (get_factor limits)) (\<lambda>factors.
       State_Monad.return (Some
         \<lparr>rk_key = key, rk_score = score, rk_factors = factors, rk_rank = rank\<rparr>))
   }"

definition put_rejection :: "ResourceLimits \<Rightarrow> RouteRejection \<Rightarrow> writer" where
  "put_rejection limits r = writes
     [put_u64 (rj_model_id r), put_u64 (rj_model_generation r), put_u64 (rj_backend_id r),
      put_u64 (rj_backend_generation r), put_u64 (rj_backend_boot r), put_u64 (rj_endpoint_id r),
      put_enum16 kOutcomeCodes (rj_code r), put_string limits (rj_detail r)]"

definition get_rejection :: "ResourceLimits \<Rightarrow> RouteRejection reader" where
  "get_rejection limits = do {
     model_id \<leftarrow> get_u64;
     model_generation \<leftarrow> get_u64;
     backend_id \<leftarrow> get_u64;
     backend_generation \<leftarrow> get_u64;
     backend_boot \<leftarrow> get_u64;
     endpoint_id \<leftarrow> get_u64;
     code \<leftarrow> get_enum16 kOutcomeCodes;
     detail \<leftarrow> get_string limits;
     State_Monad.return
       \<lparr>rj_model_id = model_id, rj_model_generation = model_generation, rj_backend_id = backend_id,
        rj_backend_generation = backend_generation, rj_backend_boot = backend_boot,
        rj_endpoint_id = endpoint_id, rj_code = code, rj_detail = detail\<rparr>
   }"

definition put_decision :: "ResourceLimits \<Rightarrow> RouteDecision \<Rightarrow> writer" where
  "put_decision limits d = writes
     [put_u64 (rd_decision_id d), put_u64 (rd_decision_generation d), put_u64 (rd_request_id d),
      put_u64 (rd_request_generation d), put_enum8 route_statuses (rd_status d),
      put_enum16 kOutcomeCodes (rd_code d), put_authority (rd_authority d),
      put_candidate_key (xp_winner (rd_explanation d)),
      put_counted put_candidate_key (rd_fallbacks d),
      put_u32 (xp_eligible_candidate_count (rd_explanation d)),
      put_u32 (xp_rejected_candidate_count (rd_explanation d)),
      put_string limits (xp_tie_break_reason (rd_explanation d)),
      put_string limits (xp_requirement_digest (rd_explanation d)),
      put_string limits (xp_semantic_digest (rd_explanation d)),
      put_enum8 currentnesses (xp_currentness (rd_explanation d)),
      put_enum16 kOutcomeCodes (xp_policy_result (rd_explanation d)),
      put_cost limits (xp_cost (rd_explanation d)),
      put_counted (put_ranked limits) (xp_ranking (rd_explanation d)),
      put_counted (put_rejection limits) (xp_rejections (rd_explanation d)),
      put_i64 (rd_created_at d)]"

definition get_decision :: "ResourceLimits \<Rightarrow> RouteDecision option reader" where
  "get_decision limits = do {
     decision_id \<leftarrow> get_u64;
     decision_generation \<leftarrow> get_u64;
     request_id \<leftarrow> get_u64;
     request_generation \<leftarrow> get_u64;
     status \<leftarrow> get_enum8 route_statuses;
     code \<leftarrow> get_enum16 kOutcomeCodes;
     authority \<leftarrow> get_authority;
     winner \<leftarrow> get_candidate_key;
     and_read (get_counted (max_fallback_candidates limits) get_candidate_key) (\<lambda>fallbacks. do {
     eligible \<leftarrow> get_u32;
     rejected \<leftarrow> get_u32;
     tie_break_reason \<leftarrow> get_string limits;
     requirement_digest \<leftarrow> get_string limits;
     digest \<leftarrow> get_string limits;
     currentness \<leftarrow> get_enum8 currentnesses;
     policy_result \<leftarrow> get_enum16 kOutcomeCodes;
     and_read (get_cost limits) (\<lambda>cost. do {
     and_read (get_counted_checked (max_ranked_candidates limits) (get_ranked limits)) (\<lambda>ranking. do {
     and_read (get_counted (max_rejection_records limits) (get_rejection limits)) (\<lambda>rejections. do {
     created_at \<leftarrow> get_i64;
     finish_read (RouteDecision_default
       \<lparr>rd_decision_id := decision_id, rd_decision_generation := decision_generation,
        rd_request_id := request_id, rd_request_generation := request_generation,
        rd_status := status, rd_code := code, rd_authority := authority, rd_fallbacks := fallbacks,
        rd_created_at := created_at,
        rd_explanation := RouteExplanation_default
          \<lparr>xp_winner := winner, xp_eligible_candidate_count := eligible,
           xp_rejected_candidate_count := rejected, xp_tie_break_reason := tie_break_reason,
           xp_requirement_digest := requirement_digest, xp_semantic_digest := digest,
           xp_currentness := currentness, xp_policy_result := policy_result, xp_cost := cost,
           xp_ranking := ranking, xp_rejections := rejections, xp_authority := authority,
           xp_request_id := request_id, xp_request_generation := request_generation,
           xp_fallback_order := fallbacks\<rparr>\<rparr>)
     })})})})
   }"

section \<open>Reading back\<close>

lemma wire_enumerators_complete [simp]:
  "e1 \<in> set fallback_policies" "e2 \<in> set currentnesses" "e3 \<in> set canonical_factor_order"
  unfolding fallback_policies_def currentnesses_def canonical_factor_order_def
  subgoal by (cases e1) simp_all
  subgoal by (cases e2) simp_all
  subgoal by (cases e3) simp_all
  done

lemma wire_enumerators_few [simp]:
  "length fallback_policies \<le> 256" "length currentnesses \<le> 256" "length canonical_factor_order \<le> 256"
  by (simp_all add: fallback_policies_def currentnesses_def canonical_factor_order_def)

interpretation wire_cost: checked_codec cost_fits "put_cost limits" "get_cost limits"
  unfolding put_cost_def get_cost_def by (rule cost_codec.checked_codec_axioms)

interpretation wire_profile: checked_codec "profile_fits limits" "put_profile limits" "get_profile limits"
  unfolding put_profile_def get_profile_def by (rule profile_codec.checked_codec_axioms)

interpretation wire_key: codec "\<lambda>_. True" put_candidate_key get_candidate_key
  unfolding put_candidate_key_def get_candidate_key_def by (rule candidate_key_codec.codec_axioms)

interpretation wire_authority: codec authority_fits put_authority get_authority
  unfolding put_authority_def get_authority_def by (rule authority_codec.codec_axioms)

lemmas wire_fields = read_back_fields agrees_finish

interpretation wire_binding: checked_codec binding_fits "put_binding limits" "get_binding limits"
proof
  fix b assume "binding_fits b"
  then show "agrees (get_binding limits) (Some b) (put_binding limits b)"
    unfolding get_binding_def put_binding_def binding_fits_def
    by (intro wire_fields agrees_and_read [OF wire_cost.read_back]) simp_all
qed

definition backend_part_fits :: "ResourceLimits \<Rightarrow> BackendDescriptor \<Rightarrow> bool" where
  "backend_part_fits limits b \<longleftrightarrow>
     list_all binding_fits (bd_model_bindings b) \<and>
     length (bd_model_bindings b) \<le> unat (max_model_bindings_per_backend limits) \<and>
     in_int64 (bd_registered_at b) \<and> in_int64 (bd_expires_at b)"

text \<open>The part of a descriptor that a registration carries: no capability claims and no dynamic
  evidence.\<close>

definition registered_part :: "BackendDescriptor \<Rightarrow> BackendDescriptor" where
  "registered_part b =
     b\<lparr>bd_capabilities := CapabilityProfile_empty,
       bd_health := BackendEvidence_default HealthState.UNKNOWN,
       bd_availability := BackendEvidence_default AvailabilityState.UNKNOWN,
       bd_readiness := BackendEvidence_default ReadinessState.UNKNOWN,
       bd_residency := BackendEvidence_default ResidencyState.UNKNOWN,
       bd_capacity := BackendEvidence_default CapacityState.UNKNOWN,
       bd_capacity_detail := CapacityDetail_default, bd_latency := LatencyEvidence_default\<rparr>"

lemma agrees_backend_part:
  assumes "backend_part_fits limits b"
  shows "agrees (get_backend limits) (Some (registered_part b)) (put_backend limits b)"
  using assms unfolding get_backend_def put_backend_def backend_part_fits_def
  by (intro wire_fields agrees_and_read [OF wire_binding.read_back_counted]) (simp_all add: registered_part_def)

interpretation wire_requirement: checked_codec "\<lambda>_. True" "put_requirement limits" "get_requirement limits"
proof
  fix r :: CapabilityRequirement
  show "agrees (get_requirement limits) (Some r) (put_requirement limits r)"
    unfolding get_requirement_def put_requirement_def by (intro wire_fields) simp_all
qed

lemma agrees_ids:
  assumes "length ids \<le> unat (max_allowlist_entries limits)"
  shows "agrees (get_ids limits) (Some ids) (put_counted put_u64 ids)"
  unfolding get_ids_def
  using u64_codec.read_back_counted [of ids "max_allowlist_entries limits"] assms
  by (intro agrees_only [OF agrees_and_read] agrees_finish) (simp_all add: list_all_iff)

text \<open>The lists of a request that the reader admits.\<close>

definition requirements_fit :: "ResourceLimits \<Rightarrow> RouteRequirements \<Rightarrow> bool" where
  "requirements_fit limits r \<longleftrightarrow>
     length (rr_required_capabilities r) \<le> unat (max_requirement_entries limits) \<and>
     length (rr_preferred_capabilities r) \<le> unat (max_requirement_entries limits) \<and>
     length (rr_model_allowlist r) \<le> unat (max_allowlist_entries limits) \<and>
     length (rr_model_denylist r) \<le> unat (max_allowlist_entries limits) \<and>
     length (rr_family_allowlist r) \<le> unat (max_allowlist_entries limits) \<and>
     length (rr_family_denylist r) \<le> unat (max_allowlist_entries limits) \<and>
     length (rr_provider_allowlist r) \<le> unat (max_allowlist_entries limits) \<and>
     length (rr_provider_denylist r) \<le> unat (max_allowlist_entries limits) \<and>
     length (rr_backend_allowlist r) \<le> unat (max_allowlist_entries limits) \<and>
     length (rr_backend_denylist r) \<le> unat (max_allowlist_entries limits) \<and>
     length (rr_required_localities r) \<le> unat (max_allowlist_entries limits) \<and>
     length (rr_denied_localities r) \<le> unat (max_allowlist_entries limits) \<and>
     in_int64 (mo_micros (rr_maximum_cost r))"

lemma agrees_strings: "length xs \<le> unat n \<Longrightarrow> agrees (get_counted n (get_string limits)) (Some xs) (put_counted (put_string limits) xs)"
  using string_codec.read_back_counted [of xs n limits] by (simp add: list_all_iff)

lemma agrees_capability_requirements:
  "length rs \<le> unat n \<Longrightarrow>
   agrees (get_counted_checked n (get_requirement limits)) (Some rs) (put_counted (put_requirement limits) rs)"
  using wire_requirement.read_back_counted [of rs n limits] by (simp add: list_all_iff)

interpretation wire_requirements: checked_codec "requirements_fit limits" "put_requirements limits" "get_requirements limits"
proof
  fix r assume "requirements_fit limits r"
  then show "agrees (get_requirements limits) (Some r) (put_requirements limits r)"
    unfolding get_requirements_def put_requirements_def requirements_fit_def
    by (intro wire_fields agrees_and_read [OF agrees_capability_requirements] agrees_and_read [OF agrees_strings]
        agrees_and_read [OF agrees_ids]) simp_all
qed

definition factor_fits :: "FactorValue \<Rightarrow> bool" where
  "factor_fits f \<longleftrightarrow> in_int64 (fv_normalized f) \<and> in_int64 (fv_raw f) \<and> in_int64 (fv_weight_ppm f) \<and>
     in_int64 (fv_contribution f)"

interpretation wire_factor: checked_codec factor_fits "put_factor limits" "get_factor limits"
proof
  fix f assume "factor_fits f"
  then show "agrees (get_factor limits) (Some f) (put_factor limits f)"
    unfolding get_factor_def put_factor_def factor_fits_def by (intro wire_fields) simp_all
qed

definition ranked_fits :: "ResourceLimits \<Rightarrow> RankedCandidate \<Rightarrow> bool" where
  "ranked_fits limits c \<longleftrightarrow> in_int64 (rk_score c) \<and> list_all factor_fits (rk_factors c) \<and>
     length (rk_factors c) \<le> unat (max_explanation_factors limits)"

interpretation wire_ranked: checked_codec "ranked_fits limits" "put_ranked limits" "get_ranked limits"
proof
  fix c assume "ranked_fits limits c"
  then show "agrees (get_ranked limits) (Some c) (put_ranked limits c)"
    unfolding get_ranked_def put_ranked_def ranked_fits_def
    by (intro wire_fields agrees_bind [OF wire_key.read_back] agrees_and_read [OF wire_factor.read_back_counted]) simp_all
qed

interpretation wire_rejection: codec "\<lambda>_. True" "put_rejection limits" "get_rejection limits"
proof
  fix r :: RouteRejection
  show "agrees (get_rejection limits) r (put_rejection limits r)"
    unfolding get_rejection_def put_rejection_def by (intro wire_fields) simp_all
qed

definition decision_fits :: "ResourceLimits \<Rightarrow> RouteDecision \<Rightarrow> bool" where
  "decision_fits limits d \<longleftrightarrow>
     authority_fits (rd_authority d) \<and> cost_fits (xp_cost (rd_explanation d)) \<and> in_int64 (rd_created_at d) \<and>
     length (rd_fallbacks d) \<le> unat (max_fallback_candidates limits) \<and>
     list_all (ranked_fits limits) (xp_ranking (rd_explanation d)) \<and>
     length (xp_ranking (rd_explanation d)) \<le> unat (max_ranked_candidates limits) \<and>
     length (xp_rejections (rd_explanation d)) \<le> unat (max_rejection_records limits)"

text \<open>The part of a decision that a response carries: not its policy, budget and SLO snapshots, its
  reservation, and what has happened to it since.\<close>

definition answered_part :: "RouteDecision \<Rightarrow> RouteDecision" where
  "answered_part d =
     RouteDecision_default
       \<lparr>rd_decision_id := rd_decision_id d, rd_decision_generation := rd_decision_generation d,
        rd_request_id := rd_request_id d, rd_request_generation := rd_request_generation d,
        rd_status := rd_status d, rd_code := rd_code d, rd_authority := rd_authority d,
        rd_fallbacks := rd_fallbacks d, rd_created_at := rd_created_at d,
        rd_explanation := (rd_explanation d)
          \<lparr>xp_slo := SloEvidence_default, xp_budget := BudgetSnapshot_default, xp_policy := PolicySnapshot_default,
           xp_revalidation_required := False, xp_detail_retained := True, xp_authority := rd_authority d,
           xp_request_id := rd_request_id d, xp_request_generation := rd_request_generation d,
           xp_fallback_order := rd_fallbacks d\<rparr>\<rparr>"

lemma agrees_decision:
  assumes "decision_fits limits d"
  shows "agrees (get_decision limits) (Some (answered_part d)) (put_decision limits d)"
proof -
  have keys: "agrees (get_counted (max_fallback_candidates limits) get_candidate_key) (Some (rd_fallbacks d))
      (put_counted put_candidate_key (rd_fallbacks d))"
    and rejections: "agrees (get_counted (max_rejection_records limits) (get_rejection limits))
      (Some (xp_rejections (rd_explanation d))) (put_counted (put_rejection limits) (xp_rejections (rd_explanation d)))"
    using assms wire_key.read_back_counted wire_rejection.read_back_counted
    by (simp_all add: decision_fits_def list_all_iff)
  show ?thesis
    using assms unfolding get_decision_def put_decision_def decision_fits_def
    by (intro wire_fields agrees_bind [OF wire_authority.read_back] agrees_bind [OF wire_key.read_back]
        agrees_and_read [OF keys] agrees_and_read [OF wire_cost.read_back]
        agrees_and_read [OF wire_ranked.read_back_counted] agrees_and_read [OF rejections])
       (simp_all add: answered_part_def RouteExplanation_default_def)
qed

end
