(* ===== verification/Wire_Messages.thy ===== *)
theory Wire_Messages
  imports Wire_Parts
begin

text \<open>
  The messages of the wire protocol (\<open>src/distributed/protocol.cpp\<close>), an encoder and a decoder for
  each.  A message struct with a single member (\<open>BackendRegisterMessage\<close>,
  \<open>CapabilityPublishMessage\<close>, \<open>RouteRequestMessage\<close>) is that member.  Decoding gives \<open>None\<close> where the
  code would go on with a value outside its enumeration.
\<close>

section \<open>Payloads\<close>

definition encode_message :: "writer \<Rightarrow> string + u8 list" where
  "encode_message w =
     (case w of None \<Rightarrow> Inl ''string exceeds the configured byte limit'' | Some bytes \<Rightarrow> Inr bytes)"

definition decode_message :: "ResourceLimits \<Rightarrow> 'a option reader \<Rightarrow> u8 list \<Rightarrow> (string + 'a) option" where
  "decode_message limits get payload =
     (if length payload > unat (max_payload_bytes limits)
        then Some (Inl ''message payload exceeds the configured limit'')
      else case run_state get (reader_on payload) of
          (None, r) \<Rightarrow> Some (Inl (if rd_ok r then ''message payload is malformed'' else rd_error r))
        | (Some x, r) \<Rightarrow>
            if rd_bytes r \<noteq> [] then Some (Inl ''message payload has trailing bytes'')
            else if rd_foreign r then None
            else Some (Inr x))"

lemma decode_encoded_message:
  assumes "encode_message w = Inr payload" and "agrees get (Some x) w"
    and "length payload \<le> unat (max_payload_bytes limits)"
  shows "decode_message limits get payload = Some (Inr x)"
proof -
  have "w = Some payload" using assms(1) by (simp add: encode_message_def split: option.splits)
  then have "run_state get (reader_on payload) = (Some x, reader_on [])"
    using agreesD [of get "Some x" payload] assms(2) unfolding reads_def reader_on_def by (metis append_Nil2)
  then show ?thesis using assms(3) by (simp add: decode_message_def reader_on_def)
qed

section \<open>Sessions and registration\<close>

record HelloMessage =
  hm_router_id :: entity_id
  hm_router_epoch :: generation
  hm_coordinator_epoch :: generation
  hm_backend_id :: entity_id
  hm_backend_generation :: generation
  hm_backend_boot :: generation
  hm_product :: string
  hm_version :: u32

definition encode_hello :: "ResourceLimits \<Rightarrow> HelloMessage \<Rightarrow> string + u8 list" where
  "encode_hello limits m = encode_message (writes
     [put_u64 (hm_router_id m), put_u64 (hm_router_epoch m), put_u64 (hm_coordinator_epoch m),
      put_u64 (hm_backend_id m), put_u64 (hm_backend_generation m), put_u64 (hm_backend_boot m),
      put_string limits (hm_product m), put_u32 (hm_version m)])"

definition decode_hello :: "ResourceLimits \<Rightarrow> u8 list \<Rightarrow> (string + HelloMessage) option" where
  "decode_hello limits = decode_message limits (do {
     router_id \<leftarrow> get_u64;
     router_epoch \<leftarrow> get_u64;
     coordinator_epoch \<leftarrow> get_u64;
     backend_id \<leftarrow> get_u64;
     backend_generation \<leftarrow> get_u64;
     backend_boot \<leftarrow> get_u64;
     product \<leftarrow> get_string limits;
     version \<leftarrow> get_u32;
     finish_read
       \<lparr>hm_router_id = router_id, hm_router_epoch = router_epoch,
        hm_coordinator_epoch = coordinator_epoch, hm_backend_id = backend_id,
        hm_backend_generation = backend_generation, hm_backend_boot = backend_boot,
        hm_product = product, hm_version = version\<rparr>
   })"

record HelloAckMessage =
  ha_router_id :: entity_id
  ha_router_epoch :: generation
  ha_coordinator_epoch :: generation
  ha_code :: OutcomeCode
  ha_detail :: string

definition encode_hello_ack :: "ResourceLimits \<Rightarrow> HelloAckMessage \<Rightarrow> string + u8 list" where
  "encode_hello_ack limits m = encode_message (writes
     [put_u64 (ha_router_id m), put_u64 (ha_router_epoch m), put_u64 (ha_coordinator_epoch m),
      put_enum16 kOutcomeCodes (ha_code m), put_string limits (ha_detail m)])"

definition decode_hello_ack :: "ResourceLimits \<Rightarrow> u8 list \<Rightarrow> (string + HelloAckMessage) option" where
  "decode_hello_ack limits = decode_message limits (do {
     router_id \<leftarrow> get_u64;
     router_epoch \<leftarrow> get_u64;
     coordinator_epoch \<leftarrow> get_u64;
     code \<leftarrow> get_enum16 kOutcomeCodes;
     detail \<leftarrow> get_string limits;
     finish_read
       \<lparr>ha_router_id = router_id, ha_router_epoch = router_epoch,
        ha_coordinator_epoch = coordinator_epoch, ha_code = code, ha_detail = detail\<rparr>
   })"

definition encode_backend_register :: "ResourceLimits \<Rightarrow> BackendDescriptor \<Rightarrow> string + u8 list" where
  "encode_backend_register limits b = encode_message (put_backend limits b)"

definition decode_backend_register :: "ResourceLimits \<Rightarrow> u8 list \<Rightarrow> (string + BackendDescriptor) option" where
  "decode_backend_register limits = decode_message limits (get_backend limits)"

record BackendRegisterAckMessage =
  br_backend_id :: entity_id
  br_backend_boot :: generation
  br_code :: OutcomeCode
  br_detail :: string

definition encode_backend_register_ack :: "ResourceLimits \<Rightarrow> BackendRegisterAckMessage \<Rightarrow> string + u8 list" where
  "encode_backend_register_ack limits m = encode_message (writes
     [put_u64 (br_backend_id m), put_u64 (br_backend_boot m), put_enum16 kOutcomeCodes (br_code m),
      put_string limits (br_detail m)])"

definition decode_backend_register_ack :: "ResourceLimits \<Rightarrow> u8 list \<Rightarrow> (string + BackendRegisterAckMessage) option" where
  "decode_backend_register_ack limits = decode_message limits (do {
     backend_id \<leftarrow> get_u64;
     backend_boot \<leftarrow> get_u64;
     code \<leftarrow> get_enum16 kOutcomeCodes;
     detail \<leftarrow> get_string limits;
     finish_read
       \<lparr>br_backend_id = backend_id, br_backend_boot = backend_boot, br_code = code,
        br_detail = detail\<rparr>
   })"

text \<open>A claim has the fields of a durable capability entry.\<close>

definition encode_capability_publish :: "ResourceLimits \<Rightarrow> BackendCapabilityPublication \<Rightarrow> string + u8 list" where
  "encode_capability_publish limits p = encode_message (writes
     [put_u64 (bcp_backend_id p), put_u64 (bcp_backend_generation p), put_u64 (bcp_backend_boot p),
      put_u64 (bcp_profile_id p), put_u64 (bcp_generation p),
      put_counted (write_capability limits) (bcp_claims p)])"

definition decode_capability_publish :: "ResourceLimits \<Rightarrow> u8 list \<Rightarrow> (string + BackendCapabilityPublication) option" where
  "decode_capability_publish limits = decode_message limits (do {
     backend_id \<leftarrow> get_u64;
     backend_generation \<leftarrow> get_u64;
     backend_boot \<leftarrow> get_u64;
     profile_id \<leftarrow> get_u64;
     generation \<leftarrow> get_u64;
     and_read (get_counted_checked (max_capability_entries_per_backend limits) (read_capability limits)) (\<lambda>claims.
       finish_read
         \<lparr>bcp_backend_id = backend_id, bcp_backend_generation = backend_generation,
          bcp_backend_boot = backend_boot, bcp_profile_id = profile_id, bcp_generation = generation,
          bcp_claims = claims\<rparr>)
   })"

section \<open>Routing and dispatch\<close>

definition encode_route_request :: "ResourceLimits \<Rightarrow> RouteRequest \<Rightarrow> string + u8 list" where
  "encode_route_request limits q = encode_message (writes
     [put_u64 (rq_request_id q), put_u64 (rq_request_generation q), put_u64 (rq_tenant q),
      put_u64 (rq_name_space q), put_u64 (rq_policy_id q), put_u64 (rq_policy_generation q),
      put_u64 (rq_budget_id q), put_u64 (rq_budget_generation q), put_u64 (rq_slo_id q),
      put_u64 (rq_slo_generation q), put_u64 (rq_correlation_id q),
      put_u64 (ca_agent_runtime_id (rq_caller q)), put_u64 (ca_agent_run_id (rq_caller q)),
      put_u64 (ca_action_id (rq_caller q)), put_u64 (ca_action_generation (rq_caller q)),
      put_u64 (ca_attempt_generation (rq_caller q)), put_u64 (ca_work_id (rq_caller q)),
      put_u64 (ca_work_generation (rq_caller q)), put_u32 (rq_estimated_input_tokens q),
      put_u32 (rq_estimated_output_tokens q), put_i64 (rq_created_at q), put_i64 (rq_expires_at q),
      put_requirements limits (rq_requirements q)])"

definition decode_route_request :: "ResourceLimits \<Rightarrow> u8 list \<Rightarrow> (string + RouteRequest) option" where
  "decode_route_request limits = decode_message limits (do {
     request_id \<leftarrow> get_u64;
     request_generation \<leftarrow> get_u64;
     tenant \<leftarrow> get_u64;
     name_space \<leftarrow> get_u64;
     policy_id \<leftarrow> get_u64;
     policy_generation \<leftarrow> get_u64;
     budget_id \<leftarrow> get_u64;
     budget_generation \<leftarrow> get_u64;
     slo_id \<leftarrow> get_u64;
     slo_generation \<leftarrow> get_u64;
     correlation_id \<leftarrow> get_u64;
     agent_runtime_id \<leftarrow> get_u64;
     agent_run_id \<leftarrow> get_u64;
     action_id \<leftarrow> get_u64;
     action_generation \<leftarrow> get_u64;
     attempt_generation \<leftarrow> get_u64;
     work_id \<leftarrow> get_u64;
     work_generation \<leftarrow> get_u64;
     input_tokens \<leftarrow> get_u32;
     output_tokens \<leftarrow> get_u32;
     created_at \<leftarrow> get_i64;
     expires_at \<leftarrow> get_i64;
     and_read (get_requirements limits) (\<lambda>requirements. State_Monad.return (Some
       \<lparr>rq_request_id = request_id, rq_request_generation = request_generation,
        rq_requirements = requirements, rq_caller = \<lparr>ca_agent_runtime_id = agent_runtime_id,
        ca_agent_run_id = agent_run_id, ca_action_id = action_id,
        ca_action_generation = action_generation, ca_attempt_generation = attempt_generation,
        ca_work_id = work_id, ca_work_generation = work_generation\<rparr>, rq_tenant = tenant,
        rq_name_space = name_space, rq_policy_id = policy_id,
        rq_policy_generation = policy_generation, rq_budget_id = budget_id,
        rq_budget_generation = budget_generation, rq_slo_id = slo_id,
        rq_slo_generation = slo_generation, rq_correlation_id = correlation_id,
        rq_estimated_input_tokens = input_tokens, rq_estimated_output_tokens = output_tokens,
        rq_created_at = created_at, rq_expires_at = expires_at\<rparr>))
   })"

record RouteResponseMessage =
  rm_code :: OutcomeCode
  rm_decision :: RouteDecision
  rm_has_decision :: bool
  rm_detail :: string

definition encode_route_response :: "ResourceLimits \<Rightarrow> RouteResponseMessage \<Rightarrow> string + u8 list" where
  "encode_route_response limits m = encode_message (writes
     [put_enum16 kOutcomeCodes (rm_code m), put_bool (rm_has_decision m),
      put_decision limits (rm_decision m), put_string limits (rm_detail m)])"

definition decode_route_response :: "ResourceLimits \<Rightarrow> u8 list \<Rightarrow> (string + RouteResponseMessage) option" where
  "decode_route_response limits = decode_message limits (do {
     code \<leftarrow> get_enum16 kOutcomeCodes;
     has_decision \<leftarrow> get_bool;
     and_read (get_decision limits) (\<lambda>decision. do {
       detail \<leftarrow> get_string limits;
       finish_read
         \<lparr>rm_code = code, rm_decision = decision, rm_has_decision = has_decision, rm_detail = detail\<rparr>
     })
   })"

record DispatchMessage =
  dm_dispatch_id :: entity_id
  dm_dispatch_generation :: generation
  dm_decision_id :: entity_id
  dm_decision_generation :: generation
  dm_target :: CandidateKey
  dm_attempt :: u32

definition encode_dispatch :: "ResourceLimits \<Rightarrow> DispatchMessage \<Rightarrow> string + u8 list" where
  "encode_dispatch limits m = encode_message (writes
     [put_u64 (dm_dispatch_id m), put_u64 (dm_dispatch_generation m), put_u64 (dm_decision_id m),
      put_u64 (dm_decision_generation m), put_candidate_key (dm_target m), put_u32 (dm_attempt m)])"

definition decode_dispatch :: "ResourceLimits \<Rightarrow> u8 list \<Rightarrow> (string + DispatchMessage) option" where
  "decode_dispatch limits = decode_message limits (do {
     dispatch_id \<leftarrow> get_u64;
     dispatch_generation \<leftarrow> get_u64;
     decision_id \<leftarrow> get_u64;
     decision_generation \<leftarrow> get_u64;
     target \<leftarrow> get_candidate_key;
     attempt \<leftarrow> get_u32;
     finish_read
       \<lparr>dm_dispatch_id = dispatch_id, dm_dispatch_generation = dispatch_generation,
        dm_decision_id = decision_id, dm_decision_generation = decision_generation,
        dm_target = target, dm_attempt = attempt\<rparr>
   })"

definition failure_classes :: "FailureClass list" where
  "failure_classes =
     [FailureClass.TRANSIENT_BACKEND_FAILURE, FailureClass.BACKEND_UNAVAILABLE, FailureClass.BACKEND_RESTARTED,
      FailureClass.MODEL_UNAVAILABLE, FailureClass.STALE_ROUTE, FailureClass.POLICY_CHANGED,
      FailureClass.BUDGET_CHANGED, FailureClass.PRICE_CHANGED, FailureClass.SLO_CHANGED,
      FailureClass.CAPACITY_CHANGED, FailureClass.COMPATIBILITY_CHANGED, FailureClass.PERMANENT_REJECTION,
      FailureClass.CALLER_CANCELLED, FailureClass.UNKNOWN]"

record DispatchResultMessage =
  dx_dispatch_id :: entity_id
  dx_decision_id :: entity_id
  dx_code :: OutcomeCode
  dx_failure :: FailureClass
  dx_latency_micros :: u32
  dx_detail :: string

definition encode_dispatch_result :: "ResourceLimits \<Rightarrow> DispatchResultMessage \<Rightarrow> string + u8 list" where
  "encode_dispatch_result limits m = encode_message (writes
     [put_u64 (dx_dispatch_id m), put_u64 (dx_decision_id m), put_enum16 kOutcomeCodes (dx_code m),
      put_enum8 failure_classes (dx_failure m), put_u32 (dx_latency_micros m),
      put_string limits (dx_detail m)])"

definition decode_dispatch_result :: "ResourceLimits \<Rightarrow> u8 list \<Rightarrow> (string + DispatchResultMessage) option" where
  "decode_dispatch_result limits = decode_message limits (do {
     dispatch_id \<leftarrow> get_u64;
     decision_id \<leftarrow> get_u64;
     code \<leftarrow> get_enum16 kOutcomeCodes;
     failure \<leftarrow> get_checked8 failure_classes;
     latency_micros \<leftarrow> get_u32;
     detail \<leftarrow> get_string limits;
     ok \<leftarrow> read_ok;
     State_Monad.return (if ok then map_option (\<lambda>known.
       \<lparr>dx_dispatch_id = dispatch_id, dx_decision_id = decision_id, dx_code = code,
        dx_failure = known, dx_latency_micros = latency_micros, dx_detail = detail\<rparr>) failure else None)
   })"

record ErrorMessage =
  em_code :: OutcomeCode
  em_detail :: string

definition encode_error :: "ResourceLimits \<Rightarrow> ErrorMessage \<Rightarrow> string + u8 list" where
  "encode_error limits m = encode_message (writes
     [put_enum16 kOutcomeCodes (em_code m), put_string limits (em_detail m)])"

definition decode_error :: "ResourceLimits \<Rightarrow> u8 list \<Rightarrow> (string + ErrorMessage) option" where
  "decode_error limits = decode_message limits (do {
     code \<leftarrow> get_enum16 kOutcomeCodes;
     detail \<leftarrow> get_string limits;
     finish_read
       \<lparr>em_code = code, em_detail = detail\<rparr>
   })"

section \<open>Dynamic evidence\<close>

definition health_states :: "HealthState list" where
  "health_states =
     [HealthState.UNKNOWN, HealthState.HEALTHY, HealthState.DEGRADED, HealthState.UNHEALTHY,
      HealthState.DRAINING, HealthState.RETIRED]"

definition availability_states :: "AvailabilityState list" where
  "availability_states = [AvailabilityState.UNKNOWN, AvailabilityState.AVAILABLE, AvailabilityState.UNAVAILABLE]"

definition readiness_states :: "ReadinessState list" where
  "readiness_states =
     [ReadinessState.UNKNOWN, ReadinessState.READY, ReadinessState.WARMING, ReadinessState.NOT_READY]"

definition residency_states :: "ResidencyState list" where
  "residency_states =
     [ResidencyState.UNKNOWN, ResidencyState.RESIDENT, ResidencyState.LOADING, ResidencyState.NOT_RESIDENT,
      ResidencyState.EVICTING]"

definition capacity_states :: "CapacityState list" where
  "capacity_states = [CapacityState.UNKNOWN, CapacityState.AVAILABLE, CapacityState.SATURATED]"

definition put_backend_evidence :: "'s list \<Rightarrow> ResourceLimits \<Rightarrow> 's BackendEvidence \<Rightarrow> writer" where
  "put_backend_evidence states limits e = writes
     [put_enum8 states (be_state e), put_u64 (be_generation e), put_u64 (be_backend_id e),
      put_u64 (be_backend_generation e), put_u64 (be_backend_boot e), put_u64 (be_endpoint_generation e),
      put_i64 (be_observed_at e), put_i64 (be_expires_at e), put_string limits (be_source e),
      put_string limits (be_detail e)]"

definition get_backend_evidence :: "'s list \<Rightarrow> ResourceLimits \<Rightarrow> 's BackendEvidence option reader" where
  "get_backend_evidence states limits = do {
     state \<leftarrow> get_checked8 states;
     generation \<leftarrow> get_u64;
     backend_id \<leftarrow> get_u64;
     backend_generation \<leftarrow> get_u64;
     backend_boot \<leftarrow> get_u64;
     endpoint_generation \<leftarrow> get_u64;
     observed_at \<leftarrow> get_i64;
     expires_at \<leftarrow> get_i64;
     source \<leftarrow> get_string limits;
     detail \<leftarrow> get_string limits;
     ok \<leftarrow> read_ok;
     State_Monad.return (if ok then map_option (\<lambda>s.
       \<lparr>be_state = s, be_generation = generation, be_backend_id = backend_id,
        be_backend_generation = backend_generation, be_backend_boot = backend_boot,
        be_endpoint_generation = endpoint_generation, be_observed_at = observed_at,
        be_expires_at = expires_at, be_source = source, be_detail = detail\<rparr>) state else None)
   }"

definition encode_health :: "ResourceLimits \<Rightarrow> HealthEvidence \<Rightarrow> string + u8 list" where
  "encode_health limits e = encode_message (put_backend_evidence health_states limits e)"

definition decode_health :: "ResourceLimits \<Rightarrow> u8 list \<Rightarrow> (string + HealthEvidence) option" where
  "decode_health limits = decode_message limits (get_backend_evidence health_states limits)"

definition encode_availability :: "ResourceLimits \<Rightarrow> AvailabilityEvidence \<Rightarrow> string + u8 list" where
  "encode_availability limits e = encode_message (put_backend_evidence availability_states limits e)"

definition decode_availability :: "ResourceLimits \<Rightarrow> u8 list \<Rightarrow> (string + AvailabilityEvidence) option" where
  "decode_availability limits = decode_message limits (get_backend_evidence availability_states limits)"

definition encode_readiness :: "ResourceLimits \<Rightarrow> ReadinessEvidence \<Rightarrow> string + u8 list" where
  "encode_readiness limits e = encode_message (put_backend_evidence readiness_states limits e)"

definition decode_readiness :: "ResourceLimits \<Rightarrow> u8 list \<Rightarrow> (string + ReadinessEvidence) option" where
  "decode_readiness limits = decode_message limits (get_backend_evidence readiness_states limits)"

definition encode_residency :: "ResourceLimits \<Rightarrow> ResidencyEvidence \<Rightarrow> string + u8 list" where
  "encode_residency limits e = encode_message (put_backend_evidence residency_states limits e)"

definition decode_residency :: "ResourceLimits \<Rightarrow> u8 list \<Rightarrow> (string + ResidencyEvidence) option" where
  "decode_residency limits = decode_message limits (get_backend_evidence residency_states limits)"

definition encode_capacity :: "ResourceLimits \<Rightarrow> CapacityEvidence \<times> CapacityDetail \<Rightarrow> string + u8 list" where
  "encode_capacity limits = (\<lambda>(e, d). encode_message (writes
     [put_backend_evidence capacity_states limits e, put_u64 (cd_generation d),
      put_u64 (cd_backend_id d), put_u64 (cd_backend_boot d), put_u32 (cd_available_slots d),
      put_u32 (cd_total_slots d), put_u32 (cd_queue_depth d), put_u32 (cd_max_queue_depth d),
      put_i64 (cd_observed_at d), put_i64 (cd_expires_at d)]))"

definition decode_capacity :: "ResourceLimits \<Rightarrow> u8 list \<Rightarrow> (string + CapacityEvidence \<times> CapacityDetail) option" where
  "decode_capacity limits = decode_message limits
     (and_read (get_backend_evidence capacity_states limits) (\<lambda>evidence. do {
       generation \<leftarrow> get_u64;
       backend_id \<leftarrow> get_u64;
       backend_boot \<leftarrow> get_u64;
       available_slots \<leftarrow> get_u32;
       total_slots \<leftarrow> get_u32;
       queue_depth \<leftarrow> get_u32;
       max_queue_depth \<leftarrow> get_u32;
       observed_at \<leftarrow> get_i64;
       expires_at \<leftarrow> get_i64;
       finish_read (evidence,
         \<lparr>cd_generation = generation, cd_backend_id = backend_id, cd_backend_boot = backend_boot,
          cd_available_slots = available_slots, cd_total_slots = total_slots,
          cd_queue_depth = queue_depth, cd_max_queue_depth = max_queue_depth,
          cd_observed_at = observed_at, cd_expires_at = expires_at\<rparr>)
     }))"

definition encode_cost :: "ResourceLimits \<Rightarrow> CostEvidence \<Rightarrow> string + u8 list" where
  "encode_cost limits c = encode_message (put_cost limits c)"

definition decode_cost :: "ResourceLimits \<Rightarrow> u8 list \<Rightarrow> (string + CostEvidence) option" where
  "decode_cost limits = decode_message limits (get_cost limits)"

definition encode_latency :: "ResourceLimits \<Rightarrow> LatencyEvidence \<Rightarrow> string + u8 list" where
  "encode_latency limits e = encode_message (writes
     [put_u64 (le_health_generation e), put_u64 (le_backend_id e), put_u64 (le_backend_boot e),
      put_u32 (le_dispatch_micros e), put_u32 (le_time_to_first_token_micros e),
      put_u32 (le_completed_micros e), put_u32 (le_tail_micros e), put_u32 (le_queue_micros e),
      put_u32 (le_warm_start_penalty_micros e), put_u32 (le_cold_start_penalty_micros e),
      put_u32 (le_sample_count e), put_i64 (le_observed_at e), put_i64 (le_expires_at e),
      put_string limits (le_source e)])"

definition decode_latency :: "ResourceLimits \<Rightarrow> u8 list \<Rightarrow> (string + LatencyEvidence) option" where
  "decode_latency limits = decode_message limits (do {
     health_generation \<leftarrow> get_u64;
     backend_id \<leftarrow> get_u64;
     backend_boot \<leftarrow> get_u64;
     dispatch_micros \<leftarrow> get_u32;
     time_to_first_token_micros \<leftarrow> get_u32;
     completed_micros \<leftarrow> get_u32;
     tail_micros \<leftarrow> get_u32;
     queue_micros \<leftarrow> get_u32;
     warm_start_penalty_micros \<leftarrow> get_u32;
     cold_start_penalty_micros \<leftarrow> get_u32;
     sample_count \<leftarrow> get_u32;
     observed_at \<leftarrow> get_i64;
     expires_at \<leftarrow> get_i64;
     source \<leftarrow> get_string limits;
     finish_read
       \<lparr>le_health_generation = health_generation, le_backend_id = backend_id,
        le_backend_boot = backend_boot, le_dispatch_micros = dispatch_micros,
        le_time_to_first_token_micros = time_to_first_token_micros,
        le_completed_micros = completed_micros, le_tail_micros = tail_micros,
        le_queue_micros = queue_micros, le_warm_start_penalty_micros = warm_start_penalty_micros,
        le_cold_start_penalty_micros = cold_start_penalty_micros, le_sample_count = sample_count,
        le_observed_at = observed_at, le_expires_at = expires_at, le_source = source\<rparr>
   })"

section \<open>Administration\<close>

datatype (plugins only: code size) AdminOp =
    NONE | SNAPSHOT | INVARIANTS | SUMMARY | REVALIDATE | DISPATCH | REROUTE | SET_POLICY_OPEN |
    SET_POLICY_DENY_BACKEND | SET_POLICY_DENY_MODEL | SET_BUDGET_DENIED | SET_BUDGET_ALLOWED |
    ADVANCE_PRICE | FENCE_BACKEND | RETIRE_MODEL | REVOKE_CAPABILITY | SET_READINESS |
    SET_AVAILABILITY | SAVE | LOAD | SHUTDOWN | BACKEND_COUNT

definition admin_ops :: "AdminOp list" where
  "admin_ops =
     [AdminOp.NONE, AdminOp.SNAPSHOT, AdminOp.INVARIANTS, AdminOp.SUMMARY, AdminOp.REVALIDATE,
      AdminOp.DISPATCH, AdminOp.REROUTE, AdminOp.SET_POLICY_OPEN, AdminOp.SET_POLICY_DENY_BACKEND,
      AdminOp.SET_POLICY_DENY_MODEL, AdminOp.SET_BUDGET_DENIED, AdminOp.SET_BUDGET_ALLOWED,
      AdminOp.ADVANCE_PRICE, AdminOp.FENCE_BACKEND, AdminOp.RETIRE_MODEL, AdminOp.REVOKE_CAPABILITY,
      AdminOp.SET_READINESS, AdminOp.SET_AVAILABILITY, AdminOp.SAVE, AdminOp.LOAD, AdminOp.SHUTDOWN,
      AdminOp.BACKEND_COUNT]"

text \<open>\<open>to_string\<close> of the enumerator with the given value.\<close>

definition admin_op_name :: "nat \<Rightarrow> string" where
  "admin_op_name index =
     (let names = [''NONE'', ''SNAPSHOT'', ''INVARIANTS'', ''SUMMARY'', ''REVALIDATE'', ''DISPATCH'',
        ''REROUTE'', ''SET_POLICY_OPEN'', ''SET_POLICY_DENY_BACKEND'', ''SET_POLICY_DENY_MODEL'',
        ''SET_BUDGET_DENIED'', ''SET_BUDGET_ALLOWED'', ''ADVANCE_PRICE'', ''FENCE_BACKEND'',
        ''RETIRE_MODEL'', ''REVOKE_CAPABILITY'', ''SET_READINESS'', ''SET_AVAILABILITY'', ''SAVE'',
        ''LOAD'', ''SHUTDOWN'', ''BACKEND_COUNT'']
      in if index < length names then names ! index else ''INVALID'')"

definition get_checked16 :: "'a list \<Rightarrow> 'a option reader" where
  "get_checked16 es = do { v \<leftarrow> get_u16; State_Monad.return (enum_at es (unat v)) }"

record AdminRequest =
  aq_op :: AdminOp
  aq_backend_id :: entity_id
  aq_model_id :: entity_id
  aq_decision_id :: entity_id
  aq_generation :: generation
  aq_value :: u64
  aq_detail :: string

definition encode_admin_request :: "ResourceLimits \<Rightarrow> AdminRequest \<Rightarrow> string + u8 list" where
  "encode_admin_request limits m = encode_message (writes
     [put_enum16 admin_ops (aq_op m), put_u64 (aq_backend_id m), put_u64 (aq_model_id m),
      put_u64 (aq_decision_id m), put_u64 (aq_generation m), put_u64 (aq_value m),
      put_string limits (aq_detail m)])"

definition decode_admin_request :: "ResourceLimits \<Rightarrow> u8 list \<Rightarrow> (string + AdminRequest) option" where
  "decode_admin_request limits = decode_message limits (do {
     op \<leftarrow> get_checked16 admin_ops;
     backend_id \<leftarrow> get_u64;
     model_id \<leftarrow> get_u64;
     decision_id \<leftarrow> get_u64;
     generation \<leftarrow> get_u64;
     value \<leftarrow> get_u64;
     detail \<leftarrow> get_string limits;
     ok \<leftarrow> read_ok;
     State_Monad.return (if ok then map_option (\<lambda>known.
       \<lparr>aq_op = known, aq_backend_id = backend_id, aq_model_id = model_id,
        aq_decision_id = decision_id, aq_generation = generation, aq_value = value,
        aq_detail = detail\<rparr>) op else None)
   })"

record AdminResponse =
  as_code :: OutcomeCode
  as_detail :: string
  as_json :: string

definition encode_admin_response :: "ResourceLimits \<Rightarrow> AdminResponse \<Rightarrow> string + u8 list" where
  "encode_admin_response limits m = encode_message (writes
     [put_enum16 kOutcomeCodes (as_code m), put_string limits (as_detail m),
      put_string limits (as_json m)])"

definition decode_admin_response :: "ResourceLimits \<Rightarrow> u8 list \<Rightarrow> (string + AdminResponse) option" where
  "decode_admin_response limits = decode_message limits (do {
     code \<leftarrow> get_enum16 kOutcomeCodes;
     detail \<leftarrow> get_string limits;
     json \<leftarrow> get_string limits;
     finish_read
       \<lparr>as_code = code, as_detail = detail, as_json = json\<rparr>
   })"

section \<open>Every message with its type\<close>

datatype (plugins only: code size) wire_message =
    Hello HelloMessage
  | HelloAck HelloAckMessage
  | BackendRegister BackendDescriptor
  | BackendRegisterAck BackendRegisterAckMessage
  | CapabilityPublish BackendCapabilityPublication
  | HealthUpdate HealthEvidence
  | AvailabilityUpdate AvailabilityEvidence
  | ReadinessUpdate ReadinessEvidence
  | ResidencyUpdate ResidencyEvidence
  | CapacityUpdate "CapacityEvidence \<times> CapacityDetail"
  | LatencyUpdate LatencyEvidence
  | CostUpdate CostEvidence
  | RouteRequested RouteRequest
  | RouteResponded RouteResponseMessage
  | DispatchOrdered DispatchMessage
  | DispatchFinished DispatchResultMessage
  | ErrorReported ErrorMessage
  | AdminRequested AdminRequest
  | AdminResponded AdminResponse

primrec wire_type :: "wire_message \<Rightarrow> MessageType" where
  "wire_type (Hello b) = MessageType.HELLO"
| "wire_type (HelloAck b) = MessageType.HELLO_ACK"
| "wire_type (BackendRegister b) = MessageType.BACKEND_REGISTER"
| "wire_type (BackendRegisterAck b) = MessageType.BACKEND_REGISTER_ACK"
| "wire_type (CapabilityPublish b) = MessageType.CAPABILITY_PUBLISH"
| "wire_type (HealthUpdate b) = MessageType.HEALTH_UPDATE"
| "wire_type (AvailabilityUpdate b) = MessageType.AVAILABILITY_UPDATE"
| "wire_type (ReadinessUpdate b) = MessageType.READINESS_UPDATE"
| "wire_type (ResidencyUpdate b) = MessageType.RESIDENCY_UPDATE"
| "wire_type (CapacityUpdate b) = MessageType.CAPACITY_UPDATE"
| "wire_type (LatencyUpdate b) = MessageType.LATENCY_UPDATE"
| "wire_type (CostUpdate b) = MessageType.COST_UPDATE"
| "wire_type (RouteRequested b) = MessageType.ROUTE_REQUEST"
| "wire_type (RouteResponded b) = MessageType.ROUTE_RESPONSE"
| "wire_type (DispatchOrdered b) = MessageType.DISPATCH"
| "wire_type (DispatchFinished b) = MessageType.DISPATCH_RESULT"
| "wire_type (ErrorReported b) = MessageType.ERROR_MESSAGE"
| "wire_type (AdminRequested b) = MessageType.ADMIN_REQUEST"
| "wire_type (AdminResponded b) = MessageType.ADMIN_RESPONSE"

primrec encode_wire :: "ResourceLimits \<Rightarrow> wire_message \<Rightarrow> string + u8 list" where
  "encode_wire limits (Hello b) = encode_hello limits b"
| "encode_wire limits (HelloAck b) = encode_hello_ack limits b"
| "encode_wire limits (BackendRegister b) = encode_backend_register limits b"
| "encode_wire limits (BackendRegisterAck b) = encode_backend_register_ack limits b"
| "encode_wire limits (CapabilityPublish b) = encode_capability_publish limits b"
| "encode_wire limits (HealthUpdate b) = encode_health limits b"
| "encode_wire limits (AvailabilityUpdate b) = encode_availability limits b"
| "encode_wire limits (ReadinessUpdate b) = encode_readiness limits b"
| "encode_wire limits (ResidencyUpdate b) = encode_residency limits b"
| "encode_wire limits (CapacityUpdate b) = encode_capacity limits b"
| "encode_wire limits (LatencyUpdate b) = encode_latency limits b"
| "encode_wire limits (CostUpdate b) = encode_cost limits b"
| "encode_wire limits (RouteRequested b) = encode_route_request limits b"
| "encode_wire limits (RouteResponded b) = encode_route_response limits b"
| "encode_wire limits (DispatchOrdered b) = encode_dispatch limits b"
| "encode_wire limits (DispatchFinished b) = encode_dispatch_result limits b"
| "encode_wire limits (ErrorReported b) = encode_error limits b"
| "encode_wire limits (AdminRequested b) = encode_admin_request limits b"
| "encode_wire limits (AdminResponded b) = encode_admin_response limits b"

text \<open>Decoding by the type of the frame; a type without a payload codec gives an error.\<close>

definition decode_wire :: "ResourceLimits \<Rightarrow> MessageType \<Rightarrow> u8 list \<Rightarrow> (string + wire_message) option" where
  "decode_wire limits type payload =
     (case type of
        MessageType.HELLO \<Rightarrow> map_option (map_sum id Hello) (decode_hello limits payload)
      | MessageType.HELLO_ACK \<Rightarrow> map_option (map_sum id HelloAck) (decode_hello_ack limits payload)
      | MessageType.BACKEND_REGISTER \<Rightarrow> map_option (map_sum id BackendRegister) (decode_backend_register limits payload)
      | MessageType.BACKEND_REGISTER_ACK \<Rightarrow> map_option (map_sum id BackendRegisterAck) (decode_backend_register_ack limits payload)
      | MessageType.CAPABILITY_PUBLISH \<Rightarrow> map_option (map_sum id CapabilityPublish) (decode_capability_publish limits payload)
      | MessageType.HEALTH_UPDATE \<Rightarrow> map_option (map_sum id HealthUpdate) (decode_health limits payload)
      | MessageType.AVAILABILITY_UPDATE \<Rightarrow> map_option (map_sum id AvailabilityUpdate) (decode_availability limits payload)
      | MessageType.READINESS_UPDATE \<Rightarrow> map_option (map_sum id ReadinessUpdate) (decode_readiness limits payload)
      | MessageType.RESIDENCY_UPDATE \<Rightarrow> map_option (map_sum id ResidencyUpdate) (decode_residency limits payload)
      | MessageType.CAPACITY_UPDATE \<Rightarrow> map_option (map_sum id CapacityUpdate) (decode_capacity limits payload)
      | MessageType.LATENCY_UPDATE \<Rightarrow> map_option (map_sum id LatencyUpdate) (decode_latency limits payload)
      | MessageType.COST_UPDATE \<Rightarrow> map_option (map_sum id CostUpdate) (decode_cost limits payload)
      | MessageType.ROUTE_REQUEST \<Rightarrow> map_option (map_sum id RouteRequested) (decode_route_request limits payload)
      | MessageType.ROUTE_RESPONSE \<Rightarrow> map_option (map_sum id RouteResponded) (decode_route_response limits payload)
      | MessageType.DISPATCH \<Rightarrow> map_option (map_sum id DispatchOrdered) (decode_dispatch limits payload)
      | MessageType.DISPATCH_RESULT \<Rightarrow> map_option (map_sum id DispatchFinished) (decode_dispatch_result limits payload)
      | MessageType.ERROR_MESSAGE \<Rightarrow> map_option (map_sum id ErrorReported) (decode_error limits payload)
      | MessageType.ADMIN_REQUEST \<Rightarrow> map_option (map_sum id AdminRequested) (decode_admin_request limits payload)
      | MessageType.ADMIN_RESPONSE \<Rightarrow> map_option (map_sum id AdminResponded) (decode_admin_response limits payload)
      | _ \<Rightarrow> Some (Inl ''message type has no payload''))"

definition evidence_fits :: "'s BackendEvidence \<Rightarrow> bool" where
  "evidence_fits e \<longleftrightarrow> in_int64 (be_observed_at e) \<and> in_int64 (be_expires_at e)"

definition publication_fits :: "ResourceLimits \<Rightarrow> BackendCapabilityPublication \<Rightarrow> bool" where
  "publication_fits limits p \<longleftrightarrow> list_all capability_fits (bcp_claims p) \<and>
     length (bcp_claims p) \<le> unat (max_capability_entries_per_backend limits)"

primrec message_fits :: "ResourceLimits \<Rightarrow> wire_message \<Rightarrow> bool" where
  "message_fits limits (Hello b) \<longleftrightarrow> True"
| "message_fits limits (HelloAck b) \<longleftrightarrow> True"
| "message_fits limits (BackendRegister b) \<longleftrightarrow> backend_part_fits limits b"
| "message_fits limits (BackendRegisterAck b) \<longleftrightarrow> True"
| "message_fits limits (CapabilityPublish b) \<longleftrightarrow> publication_fits limits b"
| "message_fits limits (HealthUpdate b) \<longleftrightarrow> evidence_fits b"
| "message_fits limits (AvailabilityUpdate b) \<longleftrightarrow> evidence_fits b"
| "message_fits limits (ReadinessUpdate b) \<longleftrightarrow> evidence_fits b"
| "message_fits limits (ResidencyUpdate b) \<longleftrightarrow> evidence_fits b"
| "message_fits limits (CapacityUpdate b) \<longleftrightarrow> evidence_fits (fst b) \<and> in_int64 (cd_observed_at (snd b)) \<and> in_int64 (cd_expires_at (snd b))"
| "message_fits limits (LatencyUpdate b) \<longleftrightarrow> in_int64 (le_observed_at b) \<and> in_int64 (le_expires_at b)"
| "message_fits limits (CostUpdate b) \<longleftrightarrow> cost_fits b"
| "message_fits limits (RouteRequested b) \<longleftrightarrow> in_int64 (rq_created_at b) \<and> in_int64 (rq_expires_at b) \<and> requirements_fit limits (rq_requirements b)"
| "message_fits limits (RouteResponded b) \<longleftrightarrow> decision_fits limits (rm_decision b)"
| "message_fits limits (DispatchOrdered b) \<longleftrightarrow> True"
| "message_fits limits (DispatchFinished b) \<longleftrightarrow> True"
| "message_fits limits (ErrorReported b) \<longleftrightarrow> True"
| "message_fits limits (AdminRequested b) \<longleftrightarrow> True"
| "message_fits limits (AdminResponded b) \<longleftrightarrow> True"

text \<open>What arrives of a message: everything, but for a registration and a decision.\<close>

primrec received :: "wire_message \<Rightarrow> wire_message" where
  "received (Hello b) = Hello b"
| "received (HelloAck b) = HelloAck b"
| "received (BackendRegister b) = BackendRegister (registered_part b)"
| "received (BackendRegisterAck b) = BackendRegisterAck b"
| "received (CapabilityPublish b) = CapabilityPublish b"
| "received (HealthUpdate b) = HealthUpdate b"
| "received (AvailabilityUpdate b) = AvailabilityUpdate b"
| "received (ReadinessUpdate b) = ReadinessUpdate b"
| "received (ResidencyUpdate b) = ResidencyUpdate b"
| "received (CapacityUpdate b) = CapacityUpdate b"
| "received (LatencyUpdate b) = LatencyUpdate b"
| "received (CostUpdate b) = CostUpdate b"
| "received (RouteRequested b) = RouteRequested b"
| "received (RouteResponded b) = RouteResponded ((\<lambda>m. m\<lparr>rm_decision := answered_part (rm_decision m)\<rparr>) b)"
| "received (DispatchOrdered b) = DispatchOrdered b"
| "received (DispatchFinished b) = DispatchFinished b"
| "received (ErrorReported b) = ErrorReported b"
| "received (AdminRequested b) = AdminRequested b"
| "received (AdminResponded b) = AdminResponded b"

section \<open>Round trip\<close>

lemma message_enumerators_complete [simp]:
  "e1 \<in> set failure_classes" "e2 \<in> set admin_ops" "e3 \<in> set health_states" "e4 \<in> set availability_states"
  "e5 \<in> set readiness_states" "e6 \<in> set residency_states" "e7 \<in> set capacity_states" "e8 \<in> set message_types"
  unfolding failure_classes_def admin_ops_def health_states_def availability_states_def readiness_states_def
    residency_states_def capacity_states_def message_types_def
  subgoal by (cases e1) simp_all
  subgoal by (cases e2) simp_all
  subgoal by (cases e3) simp_all
  subgoal by (cases e4) simp_all
  subgoal by (cases e5) simp_all
  subgoal by (cases e6) simp_all
  subgoal by (cases e7) simp_all
  subgoal by (cases e8) simp_all
  done

lemma message_enumerators_few [simp]:
  "length failure_classes \<le> 256" "length admin_ops \<le> 65536" "length health_states \<le> 256"
  "length availability_states \<le> 256" "length readiness_states \<le> 256" "length residency_states \<le> 256"
  "length capacity_states \<le> 256"
  by (simp_all add: failure_classes_def admin_ops_def health_states_def availability_states_def readiness_states_def
      residency_states_def capacity_states_def)

lemma agrees_checked16:
  assumes "e \<in> set es" "length es \<le> 65536"
  shows "agrees (get_checked16 es) (Some e) (put_enum16 es e)"
  unfolding get_checked16_def put_enum16_def
  using enum_at_index [OF assms(1)] assms(2)
  by (intro agrees_map [OF agrees_u16]) (simp add: unsigned_of_nat take_bit_nat_eq_self)

lemma agrees_evidence:
  assumes "evidence_fits e" "be_state e \<in> set states" "length states \<le> 256"
  shows "agrees (get_backend_evidence states limits) (Some e) (put_backend_evidence states limits e)"
  using assms unfolding get_backend_evidence_def put_backend_evidence_def evidence_fits_def
  by (intro wire_fields) simp_all

lemmas message_fields = wire_fields agrees_bind [OF agrees_checked16] agrees_bind [OF wire_key.read_back]

text \<open>One round trip per message.\<close>

lemma hello_arrives:
  assumes "encode_hello limits m = Inr payload"
    and "length payload \<le> unat (max_payload_bytes limits)"
  shows "decode_hello limits payload = Some (Inr (m))"
  using assms(2) unfolding decode_hello_def 
  by (intro decode_encoded_message [OF assms(1) [unfolded encode_hello_def] _ assms(2)] message_fields) simp_all

lemma hello_ack_arrives:
  assumes "encode_hello_ack limits m = Inr payload"
    and "length payload \<le> unat (max_payload_bytes limits)"
  shows "decode_hello_ack limits payload = Some (Inr (m))"
  using assms(2) unfolding decode_hello_ack_def 
  by (intro decode_encoded_message [OF assms(1) [unfolded encode_hello_ack_def] _ assms(2)] message_fields) simp_all

lemma backend_register_arrives:
  assumes "encode_backend_register limits m = Inr payload" and "backend_part_fits limits m"
    and "length payload \<le> unat (max_payload_bytes limits)"
  shows "decode_backend_register limits payload = Some (Inr (registered_part m))"
  using assms(2) unfolding decode_backend_register_def 
  by (intro decode_encoded_message [OF assms(1) [unfolded encode_backend_register_def] _ assms(3)] agrees_backend_part) simp_all

lemma backend_register_ack_arrives:
  assumes "encode_backend_register_ack limits m = Inr payload"
    and "length payload \<le> unat (max_payload_bytes limits)"
  shows "decode_backend_register_ack limits payload = Some (Inr (m))"
  using assms(2) unfolding decode_backend_register_ack_def 
  by (intro decode_encoded_message [OF assms(1) [unfolded encode_backend_register_ack_def] _ assms(2)] message_fields) simp_all

lemma capability_publish_arrives:
  assumes "encode_capability_publish limits m = Inr payload" and "publication_fits limits m"
    and "length payload \<le> unat (max_payload_bytes limits)"
  shows "decode_capability_publish limits payload = Some (Inr (m))"
  using assms(2) unfolding decode_capability_publish_def publication_fits_def
  by (intro decode_encoded_message [OF assms(1) [unfolded encode_capability_publish_def] _ assms(3)] message_fields agrees_and_read [OF capability_codec.read_back_counted]) simp_all

lemma health_arrives:
  assumes "encode_health limits m = Inr payload" and "evidence_fits m"
    and "length payload \<le> unat (max_payload_bytes limits)"
  shows "decode_health limits payload = Some (Inr (m))"
  using assms(2) unfolding decode_health_def 
  by (intro decode_encoded_message [OF assms(1) [unfolded encode_health_def] _ assms(3)] agrees_evidence) simp_all

lemma availability_arrives:
  assumes "encode_availability limits m = Inr payload" and "evidence_fits m"
    and "length payload \<le> unat (max_payload_bytes limits)"
  shows "decode_availability limits payload = Some (Inr (m))"
  using assms(2) unfolding decode_availability_def 
  by (intro decode_encoded_message [OF assms(1) [unfolded encode_availability_def] _ assms(3)] agrees_evidence) simp_all

lemma readiness_arrives:
  assumes "encode_readiness limits m = Inr payload" and "evidence_fits m"
    and "length payload \<le> unat (max_payload_bytes limits)"
  shows "decode_readiness limits payload = Some (Inr (m))"
  using assms(2) unfolding decode_readiness_def 
  by (intro decode_encoded_message [OF assms(1) [unfolded encode_readiness_def] _ assms(3)] agrees_evidence) simp_all

lemma residency_arrives:
  assumes "encode_residency limits m = Inr payload" and "evidence_fits m"
    and "length payload \<le> unat (max_payload_bytes limits)"
  shows "decode_residency limits payload = Some (Inr (m))"
  using assms(2) unfolding decode_residency_def 
  by (intro decode_encoded_message [OF assms(1) [unfolded encode_residency_def] _ assms(3)] agrees_evidence) simp_all

lemma capacity_arrives:
  assumes "encode_capacity limits m = Inr payload" and "evidence_fits (fst m) \<and> in_int64 (cd_observed_at (snd m)) \<and> in_int64 (cd_expires_at (snd m))"
    and "length payload \<le> unat (max_payload_bytes limits)"
  shows "decode_capacity limits payload = Some (Inr (m))"
  using assms(2) unfolding decode_capacity_def 
  by (intro decode_encoded_message [OF assms(1) [unfolded encode_capacity_def split_beta] _ assms(3)] message_fields agrees_and_read [OF agrees_evidence]) (simp_all add: prod_eq_iff)

lemma latency_arrives:
  assumes "encode_latency limits m = Inr payload" and "in_int64 (le_observed_at m) \<and> in_int64 (le_expires_at m)"
    and "length payload \<le> unat (max_payload_bytes limits)"
  shows "decode_latency limits payload = Some (Inr (m))"
  using assms(2) unfolding decode_latency_def 
  by (intro decode_encoded_message [OF assms(1) [unfolded encode_latency_def] _ assms(3)] message_fields) simp_all

lemma cost_arrives:
  assumes "encode_cost limits m = Inr payload" and "cost_fits m"
    and "length payload \<le> unat (max_payload_bytes limits)"
  shows "decode_cost limits payload = Some (Inr (m))"
  using assms(2) unfolding decode_cost_def 
  by (intro decode_encoded_message [OF assms(1) [unfolded encode_cost_def] _ assms(3)] wire_cost.read_back) simp_all

lemma route_request_arrives:
  assumes "encode_route_request limits m = Inr payload" and "in_int64 (rq_created_at m) \<and> in_int64 (rq_expires_at m) \<and> requirements_fit limits (rq_requirements m)"
    and "length payload \<le> unat (max_payload_bytes limits)"
  shows "decode_route_request limits payload = Some (Inr (m))"
  using assms(2) unfolding decode_route_request_def 
  by (intro decode_encoded_message [OF assms(1) [unfolded encode_route_request_def] _ assms(3)] message_fields agrees_and_read [OF wire_requirements.read_back]) simp_all

lemma route_response_arrives:
  assumes "encode_route_response limits m = Inr payload" and "decision_fits limits (rm_decision m)"
    and "length payload \<le> unat (max_payload_bytes limits)"
  shows "decode_route_response limits payload = Some (Inr (m\<lparr>rm_decision := answered_part (rm_decision m)\<rparr>))"
  using assms(2) unfolding decode_route_response_def 
  by (intro decode_encoded_message [OF assms(1) [unfolded encode_route_response_def] _ assms(3)] message_fields agrees_and_read [OF agrees_decision]) simp_all

lemma dispatch_arrives:
  assumes "encode_dispatch limits m = Inr payload"
    and "length payload \<le> unat (max_payload_bytes limits)"
  shows "decode_dispatch limits payload = Some (Inr (m))"
  using assms(2) unfolding decode_dispatch_def 
  by (intro decode_encoded_message [OF assms(1) [unfolded encode_dispatch_def] _ assms(2)] message_fields) simp_all

lemma dispatch_result_arrives:
  assumes "encode_dispatch_result limits m = Inr payload"
    and "length payload \<le> unat (max_payload_bytes limits)"
  shows "decode_dispatch_result limits payload = Some (Inr (m))"
  using assms(2) unfolding decode_dispatch_result_def 
  by (intro decode_encoded_message [OF assms(1) [unfolded encode_dispatch_result_def] _ assms(2)] message_fields) simp_all

lemma error_arrives:
  assumes "encode_error limits m = Inr payload"
    and "length payload \<le> unat (max_payload_bytes limits)"
  shows "decode_error limits payload = Some (Inr (m))"
  using assms(2) unfolding decode_error_def 
  by (intro decode_encoded_message [OF assms(1) [unfolded encode_error_def] _ assms(2)] message_fields) simp_all

lemma admin_request_arrives:
  assumes "encode_admin_request limits m = Inr payload"
    and "length payload \<le> unat (max_payload_bytes limits)"
  shows "decode_admin_request limits payload = Some (Inr (m))"
  using assms(2) unfolding decode_admin_request_def 
  by (intro decode_encoded_message [OF assms(1) [unfolded encode_admin_request_def] _ assms(2)] message_fields) simp_all

lemma admin_response_arrives:
  assumes "encode_admin_response limits m = Inr payload"
    and "length payload \<le> unat (max_payload_bytes limits)"
  shows "decode_admin_response limits payload = Some (Inr (m))"
  using assms(2) unfolding decode_admin_response_def 
  by (intro decode_encoded_message [OF assms(1) [unfolded encode_admin_response_def] _ assms(2)] message_fields) simp_all

lemma wire_payload_arrives:
  assumes "encode_wire limits m = Inr payload" and "message_fits limits m"
    and "length payload \<le> unat (max_payload_bytes limits)"
  shows "decode_wire limits (wire_type m) payload = Some (Inr (received m))"
  using assms by (cases m) (simp_all add: decode_wire_def hello_arrives hello_ack_arrives backend_register_arrives backend_register_ack_arrives
      capability_publish_arrives health_arrives availability_arrives readiness_arrives residency_arrives
      capacity_arrives latency_arrives cost_arrives route_request_arrives route_response_arrives
      dispatch_arrives dispatch_result_arrives error_arrives admin_request_arrives admin_response_arrives)

section \<open>Messages in frames\<close>

definition make_frame :: "MessageType \<Rightarrow> u8 list \<Rightarrow> Frame" where
  "make_frame type payload =
     \<lparr>fr_header = \<lparr>fh_magic = frame_magic, fh_protocol_version = protocol_version, fh_message_type = type_code type,
        fh_flags = 0, fh_payload_bytes = 0, fh_header_crc32c = 0, fh_payload_crc32c = 0\<rparr>,
      fr_payload = payload\<rparr>"

lemma type_code_inject: "type_code a = type_code b \<longleftrightarrow> a = b"
proof -
  have "unat (type_code t) = enum_index message_types t" for t
  proof -
    have "enum_index message_types t < length message_types" by (rule enum_at_index(2)) simp
    also have "length message_types < 2 ^ 16" by (simp add: message_types_def)
    finally show ?thesis by (simp add: type_code_def unsigned_of_nat take_bit_nat_eq_self)
  qed
  moreover have "enum_at message_types (enum_index message_types t) = Some t" for t by (rule enum_at_index(1)) simp
  ultimately show ?thesis by (metis option.inject)
qed

text \<open>
  (C35) A message arrives as it was sent.  For every message of the protocol whose numbers and lists
  fit, the frame made of its encoding is decoded to a frame of the same type, and decoding that
  frame's payload gives the message; the type names the message's kind unambiguously.  Of a backend
  registration the capability claims and the dynamic evidence do not travel, of a decision its
  policy, budget and SLO snapshots, its reservation and its later history.
\<close>

theorem message_round_trip:
  assumes "encode_wire limits m = Inr payload" and "message_fits limits m"
    and "encode_frame (make_frame (wire_type m) payload) limits = Inr bytes"
  shows "\<exists>f. decode_frame bytes limits = Inr f \<and> fr_payload f = payload \<and>
    (\<forall>t. fh_message_type (fr_header f) = type_code t \<longleftrightarrow> t = wire_type m) \<and>
    decode_wire limits (wire_type m) (fr_payload f) = Some (Inr (received m))"
proof -
  let ?f = "make_frame (wire_type m) payload"
  have "length payload \<le> unat (max_payload_bytes limits)"
    using encode_frame_accepted(6) [OF assms(3)] by (simp add: make_frame_def)
  then have "decode_wire limits (wire_type m) payload = Some (Inr (received m))"
    by (rule wire_payload_arrives [OF assms(1,2)])
  moreover have "fh_message_type (fr_header (sealed ?f)) = type_code (wire_type m)"
    by (simp add: sealed_def seal_header_def Let_def make_frame_def)
  ultimately show ?thesis
    using decode_frame_encoded [OF assms(3)]
    by (intro exI [of _ "sealed ?f"]) (auto simp: sealed_def make_frame_def type_code_inject)
qed

definition sample_message :: wire_message where
  "sample_message = ErrorReported \<lparr>em_code = REJECT_INVALID, em_detail = ''no''\<rparr>"

theorem message_round_trip_witness:
  "\<exists>payload bytes f. encode_wire default_resource_limits sample_message = Inr payload \<and>
     encode_frame (make_frame MessageType.ERROR_MESSAGE payload) default_resource_limits = Inr bytes \<and>
     decode_frame bytes default_resource_limits = Inr f \<and>
     decode_wire default_resource_limits MessageType.ERROR_MESSAGE (fr_payload f) = Some (Inr sample_message)"
proof -
  obtain payload where p: "encode_wire default_resource_limits sample_message = Inr payload" "length payload \<le> 100"
    by (simp add: sample_message_def encode_error_def encode_message_def put_enum16_def put_u16_def put_string_def
        default_resource_limits_def)
  let ?f = "make_frame MessageType.ERROR_MESSAGE payload"
  have "known_type (type_code MessageType.ERROR_MESSAGE)"
    by (simp add: known_type_def type_code_def enum_index_def message_types_def)
  then have e: "encode_frame (make_frame (wire_type sample_message) payload) default_resource_limits =
      Inr (put_header (fr_header (sealed ?f)) @ payload)"
    using p(2)
    by (simp add: encode_frame_def make_frame_def sealed_def default_resource_limits_def Let_def sample_message_def)
  have "message_fits default_resource_limits sample_message" "received sample_message = sample_message"
    "wire_type sample_message = MessageType.ERROR_MESSAGE"
    by (simp_all add: sample_message_def)
  then show ?thesis using message_round_trip [OF p(1) _ e] p(1) e by auto
qed

end
