(* ===== verification/Session.thy ===== *)
theory Session
  imports Wire_Messages
begin

text \<open>
  A framed connection (\<open>src/distributed/transport.cpp\<close>, the POSIX session loop): queues, the
  partially written frame, the receive buffer and the state transitions of one pass of the loop.
  What \<open>poll\<close>, \<open>send\<close> and \<open>recv\<close> return is an argument of a pass.  Locks make the operations
  atomic; the one lock the session thread takes twice is the state \<open>ss_stuck\<close>.
\<close>

section \<open>State\<close>

datatype CloseReason = NONE | LOCAL_CLOSE | PEER_CLOSED | TRANSPORT_ERROR | PROTOCOL_ERROR | RESOURCE_LIMIT

definition CloseReason_to_string :: "CloseReason \<Rightarrow> string" where
  "CloseReason_to_string r =
     (case r of
        CloseReason.NONE \<Rightarrow> ''NONE''
      | LOCAL_CLOSE \<Rightarrow> ''LOCAL_CLOSE''
      | PEER_CLOSED \<Rightarrow> ''PEER_CLOSED''
      | TRANSPORT_ERROR \<Rightarrow> ''TRANSPORT_ERROR''
      | PROTOCOL_ERROR \<Rightarrow> ''PROTOCOL_ERROR''
      | RESOURCE_LIMIT \<Rightarrow> ''RESOURCE_LIMIT'')"

record TransportOptions =
  to_limits :: ResourceLimits
  to_max_send_queue_frames :: u32
  to_max_receive_queue_frames :: u32

text \<open>\<open>ss_stuck\<close>: the session thread waits for the mutex it holds itself, so that nobody else gets
  it either.\<close>

record SessionState =
  ss_options :: TransportOptions
  ss_closed :: bool
  ss_stop_requested :: bool
  ss_reason :: CloseReason
  ss_inbound :: "Frame list"
  ss_outbound :: "Frame list"
  ss_receive_buffer :: "u8 list"
  ss_pending_write :: "u8 list"
  ss_pending_offset :: nat
  ss_last_error :: string
  ss_frames_sent :: u64
  ss_frames_received :: u64
  ss_bytes_sent :: u64
  ss_bytes_received :: u64
  ss_stuck :: bool

abbreviation ss_limits :: "SessionState \<Rightarrow> ResourceLimits" where
  "ss_limits s \<equiv> to_limits (ss_options s)"

definition SessionState_new :: "TransportOptions \<Rightarrow> SessionState" where
  "SessionState_new options =
     \<lparr>ss_options = options, ss_closed = False, ss_stop_requested = False, ss_reason = CloseReason.NONE,
      ss_inbound = [], ss_outbound = [], ss_receive_buffer = [], ss_pending_write = [],
      ss_pending_offset = 0, ss_last_error = [], ss_frames_sent = 0, ss_frames_received = 0,
      ss_bytes_sent = 0, ss_bytes_received = 0, ss_stuck = False\<rparr>"

definition mark_closed :: "CloseReason \<Rightarrow> string \<Rightarrow> SessionState \<Rightarrow> SessionState" where
  "mark_closed close_reason message s =
     (if ss_closed s then s
      else s\<lparr>ss_closed := True, ss_reason := close_reason,
             ss_last_error := (if message \<noteq> [] \<and> ss_last_error s = [] then message else ss_last_error s)\<rparr>)"

section \<open>The two ends of the queues\<close>

datatype send_result = Queued SessionState | Refused string | SendBlocked

definition connection_send :: "Frame \<Rightarrow> SessionState \<Rightarrow> send_result" where
  "connection_send frame s =
     (case encode_frame frame (ss_limits s) of
        Inl error \<Rightarrow> Refused error
      | Inr _ \<Rightarrow>
          if ss_stuck s then SendBlocked
          else if ss_closed s then Refused ''connection is closed''
          else let pending = (if ss_pending_write s = [] then 0 else 1) in
            if length (ss_outbound s) + pending \<ge> unat (to_max_send_queue_frames (ss_options s))
              then Refused ''send queue is full''
            else Queued (s\<lparr>ss_outbound := ss_outbound s @ [frame]\<rparr>))"

datatype receive_result = Blocked | Closed string | Got Frame

definition connection_receive :: "SessionState \<Rightarrow> receive_result \<times> SessionState" where
  "connection_receive s =
     (if ss_stuck s then (Blocked, s)
      else case ss_inbound s of
          frame # frames \<Rightarrow> (Got frame, s\<lparr>ss_inbound := frames\<rparr>)
        | [] \<Rightarrow>
            if \<not> ss_closed s \<and> \<not> ss_stop_requested s then (Blocked, s)
            else (Closed (if ss_last_error s = [] then ''connection is closed'' else ss_last_error s), s))"

text \<open>\<open>close()\<close> up to the point where it waits for the session thread to end.\<close>

definition request_close :: "SessionState \<Rightarrow> SessionState" where
  "request_close s = s\<lparr>ss_stop_requested := True\<rparr>"

section \<open>One pass of the session loop\<close>

text \<open>After a call of \<open>send\<close> that took some of the pending bytes.\<close>

definition take_sent :: "nat \<Rightarrow> SessionState \<Rightarrow> SessionState \<times> u8 list" where
  "take_sent sent s =
     (let written = take sent (drop (ss_pending_offset s) (ss_pending_write s));
          offset = ss_pending_offset s + length written;
          counted = s\<lparr>ss_bytes_sent := ss_bytes_sent s + of_nat (length written)\<rparr>
      in (if offset \<ge> length (ss_pending_write s)
          then counted\<lparr>ss_pending_write := [], ss_pending_offset := 0, ss_frames_sent := ss_frames_sent s + 1\<rparr>
          else counted\<lparr>ss_pending_offset := offset\<rparr>, written))"

lemma take_sent_outbound [simp]: "ss_outbound (fst (take_sent sent s)) = ss_outbound s"
  by (simp add: take_sent_def Let_def)

text \<open>The write loop.  Each element of the list is what one call of \<open>send\<close> returned; after the last
  one the socket takes nothing more.\<close>

function session_write :: "int list \<Rightarrow> SessionState \<Rightarrow> SessionState \<times> u8 list" where
  "session_write sends s =
     (if ss_pending_write s = [] then
        case ss_outbound s of
          [] \<Rightarrow> (s, [])
        | frame # frames \<Rightarrow>
            (case encode_frame frame (ss_limits s) of
               Inl _ \<Rightarrow> session_write sends (s\<lparr>ss_outbound := frames\<rparr>)
             | Inr encoded \<Rightarrow>
                 if encoded = [] then (s\<lparr>ss_outbound := frames\<rparr>, [])
                 else session_write sends
                   (s\<lparr>ss_outbound := frames, ss_pending_write := encoded, ss_pending_offset := 0\<rparr>))
      else case sends of
          [] \<Rightarrow> (s, [])
        | sent # rest \<Rightarrow>
            if sent \<le> 0 then (s, [])
            else (let (s', out) = session_write rest (fst (take_sent (nat sent) s))
                  in (s', snd (take_sent (nat sent) s) @ out)))"
  by pat_completeness auto
termination
  by (relation "measure (\<lambda>(sends, s). length sends + length (ss_outbound s))") auto

declare session_write.simps [simp del]

text \<open>The decode loop.  Its error branches call \<open>set_error\<close>, which locks the mutex that the branch
  holds: the thread never gets past that call.\<close>

function session_decode :: "SessionState \<Rightarrow> SessionState" where
  "session_decode s =
     (if length (ss_receive_buffer s) < frame_header_bytes then s
      else case decode_header (take frame_header_bytes (ss_receive_buffer s)) (ss_limits s) of
          Inl _ \<Rightarrow> s\<lparr>ss_stuck := True\<rparr>
        | Inr header \<Rightarrow>
            let total = frame_header_bytes + unat (fh_payload_bytes header) in
            if length (ss_receive_buffer s) < total then s
            else case decode_frame (take total (ss_receive_buffer s)) (ss_limits s) of
                Inl _ \<Rightarrow> s\<lparr>ss_stuck := True\<rparr>
              | Inr frame \<Rightarrow>
                  session_decode
                    (s\<lparr>ss_receive_buffer := drop total (ss_receive_buffer s),
                       ss_inbound := ss_inbound s @ [frame],
                       ss_frames_received := ss_frames_received s + 1\<rparr>))"
  by pat_completeness auto
termination
  by (relation "measure (\<lambda>s. length (ss_receive_buffer s))") (auto simp: frame_header_bytes_def)

declare session_decode.simps [simp del]

datatype recv_result = RecvBytes "u8 list" | RecvEnd | RecvFailed

text \<open>What \<open>poll\<close> reports, and what the calls it leads to return: \<open>None\<close> where the descriptor is not
  ready for the call.\<close>

record poll_result =
  pr_failed :: bool
  pr_hangup :: bool
  pr_in :: "recv_result option"
  pr_out :: "int list option"

definition session_read :: "recv_result option \<Rightarrow> SessionState \<Rightarrow> SessionState" where
  "session_read r s =
     (case r of
        Some (RecvBytes bytes) \<Rightarrow>
          s\<lparr>ss_bytes_received := ss_bytes_received s + of_nat (length bytes),
            ss_receive_buffer := ss_receive_buffer s @ bytes\<rparr>
      | Some RecvEnd \<Rightarrow> mark_closed PEER_CLOSED ''peer closed the connection'' s
      | _ \<Rightarrow> s)"

definition session_pass :: "poll_result \<Rightarrow> SessionState \<Rightarrow> SessionState \<times> u8 list" where
  "session_pass p s =
     (if ss_closed s \<or> ss_stuck s then (s, [])
      else if pr_failed p then (mark_closed TRANSPORT_ERROR ''poll failed'' s, [])
      else if pr_hangup p then (mark_closed PEER_CLOSED ''peer closed the connection'' s, [])
      else let s1 = session_read (pr_in p) s in
        if ss_closed s1 then (s1, [])
        else let (s2, out) = (case pr_out p of None \<Rightarrow> (s1, []) | Some sends \<Rightarrow> session_write sends s1)
          in (session_decode s2, out))"

section \<open>Bounds and what no pass changes\<close>

text \<open>Everything but the queue and the bytes being written.\<close>

definition reading_side :: "SessionState \<Rightarrow> TransportOptions \<times> bool \<times> bool \<times> CloseReason \<times> Frame list \<times> u8 list \<times> bool" where
  "reading_side s = (ss_options s, ss_closed s, ss_stop_requested s, ss_reason s, ss_inbound s, ss_receive_buffer s, ss_stuck s)"

lemma session_write_rules:
  assumes "\<And>s f fs. P s \<Longrightarrow> ss_pending_write s = [] \<Longrightarrow> ss_outbound s = f # fs \<Longrightarrow>
      (\<And>e. encode_frame f (ss_limits s) \<noteq> Inr e) \<Longrightarrow> P (s\<lparr>ss_outbound := fs\<rparr>)"
    and "\<And>s f fs e. P s \<Longrightarrow> ss_pending_write s = [] \<Longrightarrow> ss_outbound s = f # fs \<Longrightarrow>
      encode_frame f (ss_limits s) = Inr e \<Longrightarrow>
      P (s\<lparr>ss_outbound := fs, ss_pending_write := e, ss_pending_offset := 0\<rparr>)"
    and "\<And>s n. P s \<Longrightarrow> ss_pending_write s \<noteq> [] \<Longrightarrow> P (fst (take_sent n s))"
    and "P s"
  shows "P (fst (session_write sends s))"
  using assms(4)
proof (induction sends s rule: session_write.induct)
  case (1 sends s)
  show ?case
  proof (cases "ss_pending_write s = []")
    case False
    then show ?thesis
      using "1.IH"(3) [OF False] "1.prems" assms(3) [OF "1.prems" False]
      by (cases sends; subst session_write.simps) (auto simp: split_beta Let_def)
  next
    case True
    show ?thesis
    proof (cases "ss_outbound s")
      case Nil
      then show ?thesis using True "1.prems" by (subst session_write.simps) simp
    next
      case (Cons f fs)
      show ?thesis
      proof (cases "encode_frame f (ss_limits s)")
        case (Inl e)
        then show ?thesis
          using "1.IH"(1) [OF True Cons Inl] assms(1) [OF "1.prems" True Cons] True Cons
          by (subst session_write.simps) simp
      next
        case (Inr e)
        then have "e \<noteq> []" using encode_frame_accepted(1) [OF Inr] length_put_header by (metis append_is_Nil_conv list.size(3) zero_neq_numeral)
        then show ?thesis
          using "1.IH"(2) [OF True Cons Inr] assms(2) [OF "1.prems" True Cons Inr] True Cons Inr
          by (subst session_write.simps) simp
      qed
    qed
  qed
qed

lemma session_write_reading_side: "reading_side (fst (session_write sends s)) = reading_side s"
  by (rule session_write_rules [where P = "\<lambda>t. reading_side t = reading_side s"])
     (simp_all add: reading_side_def take_sent_def Let_def)

lemma session_decode_keeps:
  "ss_options (session_decode s) = ss_options s" "ss_closed (session_decode s) = ss_closed s"
  "ss_outbound (session_decode s) = ss_outbound s" "ss_pending_write (session_decode s) = ss_pending_write s"
  "ss_pending_offset (session_decode s) = ss_pending_offset s"
  "ss_stop_requested (session_decode s) = ss_stop_requested s" "ss_reason (session_decode s) = ss_reason s"
  by (induction s rule: session_decode.induct; subst session_decode.simps; simp add: Let_def split: sum.split)+

section \<open>The byte stream\<close>

definition frame_bytes :: "ResourceLimits \<Rightarrow> Frame \<Rightarrow> u8 list" where
  "frame_bytes limits f = (case encode_frame f limits of Inl _ \<Rightarrow> [] | Inr bytes \<Rightarrow> bytes)"

definition encodable :: "ResourceLimits \<Rightarrow> Frame \<Rightarrow> bool" where
  "encodable limits f \<longleftrightarrow> (case encode_frame f limits of Inl _ \<Rightarrow> False | Inr _ \<Rightarrow> True)"

definition stream_of :: "ResourceLimits \<Rightarrow> Frame list \<Rightarrow> u8 list" where
  "stream_of limits fs = concat (map (frame_bytes limits) fs)"

lemma encodable_length: "encodable limits f \<Longrightarrow> 24 \<le> length (frame_bytes limits f)"
  by (auto simp: encodable_def frame_bytes_def dest!: encode_frame_accepted(1) split: sum.splits)

lemma stream_of_simps [simp]:
  "stream_of limits [] = []" "stream_of limits (f # fs) = frame_bytes limits f @ stream_of limits fs"
  "stream_of limits (fs @ gs) = stream_of limits fs @ stream_of limits gs"
  by (simp_all add: stream_of_def)

text \<open>The bytes a session has yet to write.\<close>

definition outgoing :: "SessionState \<Rightarrow> u8 list" where
  "outgoing s = drop (ss_pending_offset s) (ss_pending_write s) @ stream_of (ss_limits s) (ss_outbound s)"

lemma take_sent_outgoing: "snd (take_sent n s) @ outgoing (fst (take_sent n s)) = outgoing s"
proof (cases "length (ss_pending_write s) \<le> ss_pending_offset s + length (take n (drop (ss_pending_offset s) (ss_pending_write s)))")
  case True
  then have "take n (drop (ss_pending_offset s) (ss_pending_write s)) = drop (ss_pending_offset s) (ss_pending_write s)"
    by (cases "n \<le> length (drop (ss_pending_offset s) (ss_pending_write s))") auto
  with True show ?thesis by (simp add: take_sent_def Let_def outgoing_def)
next
  case False
  let ?r = "drop (ss_pending_offset s) (ss_pending_write s)"
  have "drop (ss_pending_offset s + length (take n ?r)) (ss_pending_write s) = drop (length (take n ?r)) ?r" by (simp add: add.commute)
  also have "\<dots> = drop n ?r" using False by (auto simp: min_def)
  finally show ?thesis using False append_take_drop_id [of n ?r] by (simp add: take_sent_def Let_def outgoing_def)
qed

lemma session_write_outgoing: "snd (session_write sends s) @ outgoing (fst (session_write sends s)) = outgoing s"
proof (induction sends s rule: session_write.induct)
  case (1 sends s)
  show ?case
  proof (cases "ss_pending_write s = []")
    case False
    then show ?thesis
      using "1.IH"(3) [OF False] take_sent_outgoing [of _ s]
      by (cases sends; subst (1 2) session_write.simps) (auto simp: split_beta Let_def)
  next
    case True
    show ?thesis
    proof (cases "ss_outbound s")
      case Nil
      then show ?thesis using True by (subst (1 2) session_write.simps) simp
    next
      case (Cons f fs)
      show ?thesis
      proof (cases "encode_frame f (ss_limits s)")
        case (Inl e)
        then show ?thesis
          using "1.IH"(1) [OF True Cons Inl] True Cons
          by (subst (1 2) session_write.simps) (simp add: outgoing_def frame_bytes_def)
      next
        case (Inr e)
        then show ?thesis
          using "1.IH"(2) [OF True Cons Inr] True Cons Inr
          by (subst (1 2) session_write.simps) (simp add: outgoing_def frame_bytes_def)
      qed
    qed
  qed
qed

text \<open>Received bytes that do not complete the next frame.\<close>

definition part_frame :: "ResourceLimits \<Rightarrow> u8 list \<Rightarrow> Frame list \<Rightarrow> bool" where
  "part_frame limits buffer ts \<longleftrightarrow> (case ts of [] \<Rightarrow> buffer = [] | f # _ \<Rightarrow> length buffer < length (frame_bytes limits f))"

lemma session_decode_stream:
  assumes "ss_receive_buffer s @ rest = stream_of (ss_limits s) ts" and "list_all (encodable (ss_limits s)) ts"
  shows "\<exists>ts1 ts2. ts = ts1 @ ts2 \<and> ss_inbound (session_decode s) = ss_inbound s @ map sealed ts1 \<and>
    ss_receive_buffer (session_decode s) @ rest = stream_of (ss_limits s) ts2 \<and>
    part_frame (ss_limits s) (ss_receive_buffer (session_decode s)) ts2 \<and> ss_stuck (session_decode s) = ss_stuck s"
  using assms
proof (induction "length (ss_receive_buffer s)" arbitrary: s ts rule: less_induct)
  case less
  let ?b = "ss_receive_buffer s" and ?l = "ss_limits s"
  show ?case
  proof (cases "length ?b < 24")
    case True
    then have "session_decode s = s" by (subst session_decode.simps) (simp add: frame_header_bytes_def)
    moreover have "part_frame ?l ?b ts"
      using less.prems True encodable_length [of ?l] by (cases ts) (fastforce simp: part_frame_def)+
    ultimately show ?thesis using less.prems by (intro exI [of _ "[]"] exI [of _ ts]) simp
  next
    case False
    then have "ts \<noteq> []" using less.prems(1) by auto
    then obtain f fs where ts: "ts = f # fs" by (cases ts) auto
    then obtain e where e: "encode_frame f ?l = Inr e"
      using less.prems(2) by (auto simp: encodable_def split: sum.splits)
    note h = decode_header_encoded [OF e] and enc = encode_frame_accepted [OF e]
    have stream: "?b @ rest = e @ stream_of ?l fs" using less.prems(1) e by (simp add: ts frame_bytes_def)
    have len: "length e = 24 + length (fr_payload f)" by (simp add: enc(1))
    have "take 24 (?b @ rest) = take 24 (e @ stream_of ?l fs)" by (simp only: stream)
    then have "take 24 ?b = take 24 e" using False len by simp
    then have header: "decode_header (take frame_header_bytes ?b) ?l = Inr (fr_header (sealed f))"
      using h(1) [of "[]"] by (simp add: frame_header_bytes_def)
    show ?thesis
    proof (cases "length ?b < length e")
      case True
      then have "session_decode s = s"
        using header h(2) len by (subst session_decode.simps) (simp add: frame_header_bytes_def Let_def)
      then show ?thesis
        using less.prems True e by (intro exI [of _ "[]"] exI [of _ ts]) (simp add: part_frame_def ts frame_bytes_def)
    next
      case enough: False
      then obtain more where b: "?b = e @ more" and more: "more @ rest = stream_of ?l fs"
        using stream by (auto simp: append_eq_append_conv2)
      let ?s = "s\<lparr>ss_receive_buffer := more, ss_inbound := ss_inbound s @ [sealed f], ss_frames_received := ss_frames_received s + 1\<rparr>"
      have total: "frame_header_bytes + unat (fh_payload_bytes (fr_header (sealed f))) = length e"
        by (simp add: frame_header_bytes_def h(2) len)
      have frame: "decode_frame (take (length e) ?b) ?l = Inr (sealed f)"
        using decode_frame_encoded [OF e] by (simp add: b)
      have "\<not> length ?b < frame_header_bytes" using False by (simp add: frame_header_bytes_def)
      then have step: "session_decode s = session_decode ?s"
        using header frame enough by (subst session_decode.simps) (simp add: total Let_def b)
      have "length (ss_receive_buffer ?s) < length ?b" using len by (simp add: b)
      then obtain ts1 ts2 where rest: "fs = ts1 @ ts2" "ss_inbound (session_decode ?s) = ss_inbound ?s @ map sealed ts1"
        "ss_receive_buffer (session_decode ?s) @ rest = stream_of ?l ts2" "ss_stuck (session_decode ?s) = ss_stuck ?s"
        "part_frame ?l (ss_receive_buffer (session_decode ?s)) ts2"
        using less.hyps [of ?s fs] more less.prems(2) by (auto simp: ts)
      then show ?thesis unfolding step by (intro exI [of _ "f # ts1"] exI [of _ ts2]) (simp add: ts)
    qed
  qed
qed

lemma session_read_keeps:
  "ss_options (session_read r s) = ss_options s" "ss_inbound (session_read r s) = ss_inbound s"
  "ss_stuck (session_read r s) = ss_stuck s"
  by (simp_all add: session_read_def mark_closed_def split: option.split recv_result.split)

text \<open>Whatever a pass reads, the bytes it writes are the next ones.\<close>

lemma mark_closed_outgoing [simp]: "outgoing (mark_closed r m s) = outgoing s"
  by (simp add: mark_closed_def outgoing_def)

lemma session_read_outgoing [simp]: "outgoing (session_read r s) = outgoing s"
  by (simp add: session_read_def outgoing_def mark_closed_def split: option.split recv_result.split)

lemma session_decode_outgoing [simp]: "outgoing (session_decode s) = outgoing s"
  by (simp add: outgoing_def session_decode_keeps)

lemma session_pass_outgoing:
  assumes "session_pass p s = (s', out)"
  shows "out @ outgoing s' = outgoing s"
  using assms session_write_outgoing [of _ "session_read (pr_in p) s"]
  by (auto simp: session_pass_def Let_def split_beta split: if_splits option.splits)

text \<open>The bytes a pass takes from the socket.\<close>

definition consumed :: "poll_result \<Rightarrow> SessionState \<Rightarrow> u8 list" where
  "consumed p s =
     (if ss_closed s \<or> ss_stuck s \<or> pr_failed p \<or> pr_hangup p then []
      else case pr_in p of Some (RecvBytes bytes) \<Rightarrow> bytes | _ \<Rightarrow> [])"

text \<open>What a pass does to the bytes received: nothing, or it appends those it takes and decodes.\<close>

lemma session_pass_cases:
  assumes "session_pass p s = (s', out)"
  obtains (ended) "consumed p s = []" "ss_inbound s' = ss_inbound s" "ss_receive_buffer s' = ss_receive_buffer s"
      "ss_stuck s' = ss_stuck s" "ss_options s' = ss_options s"
    | (decoded) t where "ss_receive_buffer t = ss_receive_buffer s @ consumed p s" "ss_inbound t = ss_inbound s"
      "ss_stuck t = ss_stuck s" "ss_options t = ss_options s" "s' = session_decode t"
proof (cases "ss_closed s \<or> ss_stuck s \<or> pr_failed p \<or> pr_hangup p \<or> pr_in p = Some RecvEnd")
  case True
  then show ?thesis
    using assms by (intro ended) (auto simp: session_pass_def consumed_def session_read_def mark_closed_def split: if_splits)
next
  case False
  let ?s1 = "session_read (pr_in p) s"
  have s1: "\<not> ss_closed ?s1" "ss_receive_buffer ?s1 = ss_receive_buffer s @ consumed p s"
    using False by (auto simp: session_read_def consumed_def split: option.splits recv_result.splits)
  obtain t where "reading_side t = reading_side ?s1" and "s' = session_decode t"
  proof (cases "pr_out p")
    case None
    then show ?thesis using assms False s1 that [of ?s1] by (auto simp: session_pass_def Let_def)
  next
    case (Some sends)
    then show ?thesis
      using assms False s1 that [of "fst (session_write sends ?s1)"] session_write_reading_side [of sends ?s1]
      by (auto simp: session_pass_def Let_def split_beta)
  qed
  then show ?thesis using s1(2) decoded [of t] by (simp add: reading_side_def session_read_keeps)
qed

lemma session_pass_options: "session_pass p s = (s', out) \<Longrightarrow> ss_options s' = ss_options s"
  by (erule session_pass_cases) (simp_all add: session_decode_keeps)

text \<open>A pass over a stream of frames takes whole frames off its front, in order.\<close>

lemma session_pass_stream:
  assumes "session_pass p s = (s', out)" and "\<not> ss_stuck s"
    and "ss_receive_buffer s @ consumed p s @ rest = stream_of (ss_limits s) ts"
    and "list_all (encodable (ss_limits s)) ts" and "part_frame (ss_limits s) (ss_receive_buffer s) ts"
  shows "\<exists>ts1 ts2. ts = ts1 @ ts2 \<and> ss_inbound s' = ss_inbound s @ map sealed ts1 \<and>
    ss_receive_buffer s' @ rest = stream_of (ss_limits s) ts2 \<and>
    part_frame (ss_limits s) (ss_receive_buffer s') ts2 \<and> \<not> ss_stuck s'"
  using assms(1)
proof (cases rule: session_pass_cases)
  case ended
  then show ?thesis using assms(2-5) by (intro exI [of _ "[]"] exI [of _ ts]) simp
next
  case (decoded t)
  then show ?thesis using session_decode_stream [of t rest ts] assms(2-4) by simp
qed

end
