(* ===== verification/Link.thy ===== *)
theory Link
  imports Session
begin

text \<open>
  Two framed connections and the byte stream between them.  One direction is observed: frames that
  the sending side's \<open>send()\<close> accepts and frames that the receiving side's \<open>receive()\<close> returns.
  Everything else (the opposite direction, close requests, short writes, chunks of any size,
  descriptors that are not ready, polls that fail) happens in between in any order.  The abstract
  specification is a queue.
\<close>

section \<open>Runs and simulations\<close>

inductive runs :: "('s \<Rightarrow> 'l \<Rightarrow> 's \<Rightarrow> bool) \<Rightarrow> 's \<Rightarrow> 'l list \<Rightarrow> 's \<Rightarrow> bool" for step where
  runs_none: "runs step s [] s"
| runs_more: "runs step s ls t \<Longrightarrow> step t l u \<Longrightarrow> runs step s (ls @ [l]) u"

locale simulation =
  fixes concrete :: "'c \<Rightarrow> 'l \<Rightarrow> 'c \<Rightarrow> bool"
    and abstract :: "'a \<Rightarrow> 'l \<Rightarrow> 'a \<Rightarrow> bool"
    and refines :: "'c \<Rightarrow> 'a \<Rightarrow> bool"
  assumes simulated: "refines c a \<Longrightarrow> concrete c l c' \<Longrightarrow> \<exists>a'. abstract a l a' \<and> refines c' a'"
begin

lemma runs_simulated:
  assumes "runs concrete c ls c'" and "refines c a"
  shows "\<exists>a'. runs abstract a ls a' \<and> refines c' a'"
  using assms
proof (induction rule: runs.induct)
  case (runs_none c)
  then show ?case by (blast intro: runs.runs_none)
next
  case (runs_more c ls c' l c'')
  then obtain a' where a': "runs abstract a ls a'" "refines c' a'" by blast
  from simulated [OF a'(2) runs_more.hyps(2)] obtain a'' where "abstract a' l a''" "refines c'' a''" by blast
  with a'(1) show ?case by (blast intro: runs.runs_more)
qed

end

section \<open>The specification: a queue\<close>

datatype link_event = Accepted Frame | Delivered Frame | Silent

inductive queue_step :: "Frame list \<Rightarrow> link_event \<Rightarrow> Frame list \<Rightarrow> bool" where
  enqueue: "queue_step q (Accepted f) (q @ [sealed f])"
| dequeue: "queue_step (f # q) (Delivered f) q"
| idle: "queue_step q Silent q"

inductive_simps queue_step_simps [simp]:
  "queue_step q (Accepted f) q'" "queue_step q (Delivered f) q'" "queue_step q Silent q'"

fun accepted :: "link_event list \<Rightarrow> Frame list" where
  "accepted [] = []"
| "accepted (Accepted f # ls) = f # accepted ls"
| "accepted (_ # ls) = accepted ls"

fun delivered :: "link_event list \<Rightarrow> Frame list" where
  "delivered [] = []"
| "delivered (Delivered f # ls) = f # delivered ls"
| "delivered (_ # ls) = delivered ls"

lemma accepted_append [simp]: "accepted (ls @ ms) = accepted ls @ accepted ms"
  by (induction ls rule: accepted.induct) simp_all

lemma delivered_append [simp]: "delivered (ls @ ms) = delivered ls @ delivered ms"
  by (induction ls rule: delivered.induct) simp_all

lemma queue_in_order:
  assumes "runs queue_step [] ls q"
  shows "map sealed (accepted ls) = delivered ls @ q"
proof -
  have "q0 @ map sealed (accepted ls) = delivered ls @ q" if "runs queue_step q0 ls q" for q0
    using that
  proof (induction rule: runs.induct)
    case (runs_more s ls t l u)
    then show ?case by (cases l) auto
  qed simp
  from this [OF assms] show ?thesis by simp
qed

section \<open>The link\<close>

record link =
  lk_sender :: SessionState
  lk_wire :: "u8 list"
  lk_receiver :: SessionState

definition link_start :: "TransportOptions \<Rightarrow> TransportOptions \<Rightarrow> link" where
  "link_start a b = \<lparr>lk_sender = SessionState_new a, lk_wire = [], lk_receiver = SessionState_new b\<rparr>"

text \<open>The sending side may read any bytes.  The receiving side reads what the sending side wrote.\<close>

inductive link_step :: "link \<Rightarrow> link_event \<Rightarrow> link \<Rightarrow> bool" where
  sender_accepts: "connection_send f (lk_sender l) = Queued s \<Longrightarrow> link_step l (Accepted f) (l\<lparr>lk_sender := s\<rparr>)"
| sender_pass: "session_pass p (lk_sender l) = (s, out) \<Longrightarrow>
    link_step l Silent (l\<lparr>lk_sender := s, lk_wire := lk_wire l @ out\<rparr>)"
| sender_receives: "connection_receive (lk_sender l) = (r, s) \<Longrightarrow> link_step l Silent (l\<lparr>lk_sender := s\<rparr>)"
| sender_stops: "link_step l Silent (l\<lparr>lk_sender := request_close (lk_sender l)\<rparr>)"
| receiver_delivers: "connection_receive (lk_receiver l) = (Got f, s) \<Longrightarrow>
    link_step l (Delivered f) (l\<lparr>lk_receiver := s\<rparr>)"
| receiver_pass: "session_pass p (lk_receiver l) = (s, out) \<Longrightarrow> lk_wire l = consumed p (lk_receiver l) @ rest \<Longrightarrow>
    link_step l Silent (l\<lparr>lk_wire := rest, lk_receiver := s\<rparr>)"
| receiver_sends: "connection_send f (lk_receiver l) = Queued s \<Longrightarrow> link_step l Silent (l\<lparr>lk_receiver := s\<rparr>)"
| receiver_stops: "link_step l Silent (l\<lparr>lk_receiver := request_close (lk_receiver l)\<rparr>)"

definition link_refines :: "link \<Rightarrow> Frame list \<Rightarrow> bool" where
  "link_refines l q \<longleftrightarrow>
     (let a = lk_sender l; b = lk_receiver l in
      ss_limits a = ss_limits b \<and> \<not> ss_stuck b \<and>
      (\<exists>ts. list_all (encodable (ss_limits b)) ts \<and> q = ss_inbound b @ map sealed ts \<and>
         ss_receive_buffer b @ lk_wire l @ outgoing a = stream_of (ss_limits b) ts \<and>
         part_frame (ss_limits b) (ss_receive_buffer b) ts))"

lemma connection_send_queued:
  assumes "connection_send f s = Queued s'"
  shows "s' = s\<lparr>ss_outbound := ss_outbound s @ [f]\<rparr>" "encodable (ss_limits s) f"
    "outgoing s' = outgoing s @ frame_bytes (ss_limits s) f"
  using assms by (auto simp: connection_send_def encodable_def outgoing_def split: sum.splits if_splits)

lemma connection_receive_keeps:
  assumes "connection_receive s = (r, s')"
  shows "ss_options s' = ss_options s" "outgoing s' = outgoing s" "ss_stuck s' = ss_stuck s"
    "ss_receive_buffer s' = ss_receive_buffer s" "r = Got f \<Longrightarrow> ss_inbound s = f # ss_inbound s'"
  using assms by (auto simp: connection_receive_def outgoing_def split: if_splits list.splits)

lemma part_frame_append:
  "part_frame limits buffer ts \<Longrightarrow> encodable limits f \<Longrightarrow> part_frame limits buffer (ts @ [f])"
  using encodable_length [of limits f] by (auto simp: part_frame_def split: list.splits)

lemma link_refinesI:
  assumes "ss_limits (lk_sender l) = limits" "ss_limits (lk_receiver l) = limits" "\<not> ss_stuck (lk_receiver l)"
    and "list_all (encodable limits) ts" "q = ss_inbound (lk_receiver l) @ map sealed ts"
    and "ss_receive_buffer (lk_receiver l) @ lk_wire l @ outgoing (lk_sender l) = stream_of limits ts"
    and "part_frame limits (ss_receive_buffer (lk_receiver l)) ts"
  shows "link_refines l q"
  using assms by (auto simp: link_refines_def Let_def)

lemma outgoing_request_close [simp]: "outgoing (request_close s) = outgoing s"
  by (simp add: outgoing_def request_close_def)

lemma link_simulates_queue:
  assumes "link_refines l q" and "link_step l e l'"
  shows "\<exists>q'. queue_step q e q' \<and> link_refines l' q'"
proof -
  let ?a = "lk_sender l" and ?b = "lk_receiver l" and ?lim = "ss_limits (lk_receiver l)"
  from assms(1) obtain ts where r: "ss_limits ?a = ?lim" "\<not> ss_stuck ?b"
    "list_all (encodable ?lim) ts" "q = ss_inbound ?b @ map sealed ts"
    "ss_receive_buffer ?b @ lk_wire l @ outgoing ?a = stream_of ?lim ts"
    "part_frame ?lim (ss_receive_buffer ?b) ts"
    by (auto simp: link_refines_def Let_def)
  note intro = link_refinesI [where limits = ?lim and ts = ts]
  show ?thesis
    using assms(2)
  proof cases
    case (sender_accepts f s)
    note sent = connection_send_queued [OF sender_accepts(3)]
    have "link_refines l' (q @ [sealed f])"
      using r sent part_frame_append [OF r(6)] unfolding sender_accepts(2)
      by (intro link_refinesI [where limits = ?lim and ts = "ts @ [f]"]) (simp_all flip: r(5))
    then show ?thesis by (simp add: sender_accepts(1))
  next
    case (sender_pass p s out)
    then have "link_refines l' q"
      using r session_pass_outgoing [OF sender_pass(3)] session_pass_options [OF sender_pass(3)] by (intro intro) simp_all
    then show ?thesis by (simp add: sender_pass(1))
  next
    case (sender_receives r s)
    then have "link_refines l' q"
      using r connection_receive_keeps [OF sender_receives(3)] by (intro intro) auto
    then show ?thesis by (simp add: sender_receives(1))
  next
    case sender_stops
    then have "link_refines l' q" using r by (intro intro) (simp_all add: request_close_def outgoing_def)
    then show ?thesis by (simp add: sender_stops(1))
  next
    case (receiver_delivers f s)
    note got = connection_receive_keeps [OF receiver_delivers(3)]
    have "link_refines l' (ss_inbound s @ map sealed ts)" using r receiver_delivers(2) got by (intro intro) simp_all
    then show ?thesis using r(4) got(5) by (simp add: receiver_delivers(1))
  next
    case (receiver_pass p s out rest)
    obtain ts1 ts2 where "ts = ts1 @ ts2" "ss_inbound s = ss_inbound ?b @ map sealed ts1"
      "ss_receive_buffer s @ rest @ outgoing ?a = stream_of ?lim ts2" "part_frame ?lim (ss_receive_buffer s) ts2"
      "\<not> ss_stuck s"
      using session_pass_stream [OF receiver_pass(3) r(2), of "rest @ outgoing ?a" ts] r(3,5,6) by (auto simp: receiver_pass(4))
    then have "link_refines l' q"
      using r session_pass_options [OF receiver_pass(3)] by (intro link_refinesI [where limits = ?lim and ts = ts2]) (simp_all add: receiver_pass(2))
    then show ?thesis by (simp add: receiver_pass(1))
  next
    case (receiver_sends f s)
    then have "link_refines l' q" using r connection_send_queued(1) [OF receiver_sends(3)] by (intro intro) simp_all
    then show ?thesis by (simp add: receiver_sends(1))
  next
    case receiver_stops
    then have "link_refines l' q" using r by (intro intro) (simp_all add: request_close_def)
    then show ?thesis by (simp add: receiver_stops(1))
  qed
qed

interpretation fifo: simulation link_step queue_step link_refines
  by unfold_locales (rule link_simulates_queue)

lemma link_start_refines: "to_limits a = to_limits b \<Longrightarrow> link_refines (link_start a b) []"
  by (rule link_refinesI [where limits = "to_limits b" and ts = "[]"])
    (simp_all add: link_start_def SessionState_new_def outgoing_def part_frame_def)

text \<open>Nothing is left behind: with no bytes to write and none under way, every frame of the queue is
  ready to be received.\<close>

lemma link_refines_quiet:
  assumes "link_refines l q" and "lk_wire l = []" "outgoing (lk_sender l) = []"
  shows "q = ss_inbound (lk_receiver l)"
proof -
  from assms obtain ts where ts: "q = ss_inbound (lk_receiver l) @ map sealed ts"
    "ss_receive_buffer (lk_receiver l) = stream_of (ss_limits (lk_receiver l)) ts"
    "part_frame (ss_limits (lk_receiver l)) (ss_receive_buffer (lk_receiver l)) ts"
    by (auto simp: link_refines_def Let_def)
  then have "ts = []" by (cases ts) (auto simp: part_frame_def)
  then show ?thesis using ts(1) by simp
qed

text \<open>
  (C31) The connection refines a queue.  Between two sessions with the same limits, whatever the
  sizes of the chunks the socket takes and gives, the frames that \<open>receive()\<close> returns are the frames
  that \<open>send()\<close> accepted, in that order, none lost, repeated or made up, with their headers sealed; no
  frame is reported as malformed.  Once no byte is unwritten or under way, the accepted frames not
  yet returned are exactly those in the receiver's queue.
\<close>

theorem connection_refines_queue:
  assumes "runs link_step (link_start a b) ls l" and "to_limits a = to_limits b"
  shows "\<exists>q. runs queue_step [] ls q \<and> map sealed (accepted ls) = delivered ls @ q \<and>
    \<not> ss_stuck (lk_receiver l) \<and>
    (lk_wire l = [] \<and> outgoing (lk_sender l) = [] \<longrightarrow> ss_inbound (lk_receiver l) = q)"
proof -
  obtain q where q: "runs queue_step [] ls q" "link_refines l q"
    using fifo.runs_simulated [OF assms(1) link_start_refines [OF assms(2)]] by blast
  then have "\<not> ss_stuck (lk_receiver l)" by (simp add: link_refines_def Let_def)
  then show ?thesis using q queue_in_order [OF q(1)] link_refines_quiet [OF q(2)] by (intro exI [of _ q]) simp
qed

definition sample_transport :: TransportOptions where
  "sample_transport = \<lparr>to_limits = default_resource_limits, to_max_send_queue_frames = 4, to_max_receive_queue_frames = 4\<rparr>"

definition sample_bytes :: "u8 list" where
  "sample_bytes = put_header (fr_header (sealed sample_frame)) @ [1, 2, 3]"

lemma sample_bytes_encoded: "encode_frame sample_frame default_resource_limits = Inr sample_bytes"
  by (simp add: sample_bytes_def sample_frame_encoded)

lemma length_sample_bytes [simp]: "length sample_bytes = 27"
  by (simp add: sample_bytes_def)

definition idle_poll :: poll_result where
  "idle_poll = \<lparr>pr_failed = False, pr_hangup = False, pr_in = None, pr_out = None\<rparr>"

abbreviation sample_sender :: SessionState where
  "sample_sender \<equiv> SessionState_new sample_transport"

lemma sample_write:
  "\<exists>s. session_pass (idle_poll\<lparr>pr_out := Some [20, 20]\<rparr>) (sample_sender\<lparr>ss_outbound := [sample_frame]\<rparr>) = (s, sample_bytes) \<and>
     outgoing s = []"
proof -
  let ?s = "sample_sender\<lparr>ss_outbound := [sample_frame]\<rparr>"
  have "sample_bytes \<noteq> []" using length_sample_bytes by force
  moreover have "take 20 sample_bytes @ drop 20 sample_bytes = sample_bytes" by (rule append_take_drop_id)
  ultimately have "snd (session_write [20, 20] ?s) = sample_bytes" "outgoing (fst (session_write [20, 20] ?s)) = []"
    by (simp_all add: session_write.simps sample_bytes_encoded take_sent_def outgoing_def SessionState_new_def
        sample_transport_def)
  then show ?thesis by (simp add: session_pass_def idle_poll_def split_beta SessionState_new_def session_read_def)
qed

lemma sample_read:
  "\<exists>s out. session_pass (idle_poll\<lparr>pr_in := Some (RecvBytes sample_bytes)\<rparr>) sample_sender = (s, out) \<and>
     ss_inbound s = [sealed sample_frame] \<and> \<not> ss_stuck s"
proof -
  let ?p = "idle_poll\<lparr>pr_in := Some (RecvBytes sample_bytes)\<rparr>" and ?l = default_resource_limits
  obtain s out where pass: "session_pass ?p sample_sender = (s, out)" by fastforce
  have "frame_bytes ?l sample_frame = sample_bytes" "encodable ?l sample_frame"
    by (simp_all add: frame_bytes_def encodable_def sample_bytes_encoded)
  moreover have "consumed ?p sample_sender = sample_bytes"
    by (simp add: consumed_def idle_poll_def SessionState_new_def)
  moreover have "part_frame ?l [] [sample_frame]" by (simp add: part_frame_def calculation)
  moreover have "ss_limits sample_sender = ?l" "ss_receive_buffer sample_sender = []" "ss_inbound sample_sender = []"
    "\<not> ss_stuck sample_sender"
    by (simp_all add: SessionState_new_def sample_transport_def)
  ultimately obtain ts1 ts2 where ts: "[sample_frame] = ts1 @ ts2" "ss_inbound s = map sealed ts1"
    "ss_receive_buffer s = stream_of ?l ts2" "part_frame ?l (ss_receive_buffer s) ts2" "\<not> ss_stuck s"
    using session_pass_stream [OF pass, of "[]" "[sample_frame]"] by (auto simp del: SessionState.simps)
  then have "ts2 = []" by (cases ts2) (auto simp: part_frame_def)
  then show ?thesis using pass ts by auto
qed

theorem connection_refines_queue_witness:
  "\<exists>l. runs link_step (link_start sample_transport sample_transport)
       [Accepted sample_frame, Silent, Silent, Delivered (sealed sample_frame)] l \<and> ss_inbound (lk_receiver l) = []"
proof -
  define l0 where "l0 = link_start sample_transport sample_transport"
  define l1 where "l1 = l0\<lparr>lk_sender := sample_sender\<lparr>ss_outbound := [sample_frame]\<rparr>\<rparr>"
  obtain a where a: "session_pass (idle_poll\<lparr>pr_out := Some [20, 20]\<rparr>) (lk_sender l1) = (a, sample_bytes)" "outgoing a = []"
    using sample_write by (auto simp: l1_def)
  define l2 where "l2 = l1\<lparr>lk_sender := a, lk_wire := sample_bytes\<rparr>"
  obtain b out where b: "session_pass (idle_poll\<lparr>pr_in := Some (RecvBytes sample_bytes)\<rparr>) (lk_receiver l2) = (b, out)"
    "ss_inbound b = [sealed sample_frame]" "\<not> ss_stuck b"
    using sample_read by (auto simp: l2_def l1_def l0_def link_start_def)
  define l3 where "l3 = l2\<lparr>lk_wire := [], lk_receiver := b\<rparr>"
  define l4 where "l4 = l3\<lparr>lk_receiver := b\<lparr>ss_inbound := []\<rparr>\<rparr>"
  have "link_step l0 (Accepted sample_frame) l1"
    unfolding l1_def
    by (rule link_step.sender_accepts)
       (simp add: l0_def link_start_def connection_send_def SessionState_new_def sample_transport_def sample_bytes_encoded)
  moreover have "link_step l1 Silent l2"
    using link_step.sender_pass [OF a(1)] by (simp add: l2_def l1_def l0_def link_start_def)
  moreover have "link_step l2 Silent l3"
    unfolding l3_def
    by (rule link_step.receiver_pass [OF b(1)])
       (simp add: l2_def l1_def l0_def link_start_def consumed_def idle_poll_def SessionState_new_def)
  moreover have "link_step l3 (Delivered (sealed sample_frame)) l4"
    unfolding l4_def by (rule link_step.receiver_delivers) (simp add: l3_def connection_receive_def b(2,3))
  ultimately have run: "runs link_step l0 ((([] @ [Accepted sample_frame]) @ [Silent]) @ [Silent] @ [Delivered (sealed sample_frame)]) l4"
    unfolding append_assoc [symmetric] by (blast intro: runs_more runs_none)
  moreover have "lk_wire l4 = []" "outgoing (lk_sender l4) = []"
    using a(2) by (simp_all add: l4_def l3_def l2_def)
  ultimately show ?thesis using connection_refines_queue [OF run [unfolded l0_def]] by (intro exI [of _ l4]) (auto simp: l0_def)
qed

section \<open>Where the loop departs from its intent\<close>

text \<open>A malformed frame does not close the connection with \<open>PROTOCOL_ERROR\<close>: the thread waits for its
  own lock, \<open>receive()\<close> never returns, \<open>send()\<close> blocks and no later pass changes anything.\<close>

lemma malformed_frame_hangs:
  assumes "\<not> ss_closed s" and "24 \<le> length (ss_receive_buffer s)"
    and "decode_header (take 24 (ss_receive_buffer s)) (ss_limits s) = Inl error"
  shows "ss_stuck (session_decode s) \<and> ss_reason (session_decode s) = ss_reason s \<and> \<not> ss_closed (session_decode s) \<and>
    connection_receive (session_decode s) = (Blocked, session_decode s) \<and>
    (encodable (ss_limits s) f \<longrightarrow> connection_send f (session_decode s) = SendBlocked) \<and>
    session_pass p (session_decode s) = (session_decode s, [])"
proof -
  have "session_decode s = s\<lparr>ss_stuck := True\<rparr>"
    using assms(2,3) by (subst session_decode.simps) (simp add: frame_header_bytes_def)
  then show ?thesis
    using assms(1)
    by (simp add: connection_receive_def connection_send_def session_pass_def encodable_def split: sum.splits)
qed

text \<open>\<open>close()\<close> waits for the session thread, but the loop does not look at \<open>stop_requested\<close>: while the
  peer keeps its end open, no pass ends it.\<close>

lemma close_request_ignored:
  assumes "\<not> pr_failed p" "\<not> pr_hangup p" "pr_in p \<noteq> Some RecvEnd"
  shows "ss_closed (fst (session_pass p (request_close s))) = ss_closed s"
proof -
  let ?s = "session_read (pr_in p) (request_close s)"
  have "ss_closed ?s = ss_closed s"
    using assms(3) by (auto simp: session_read_def request_close_def split: option.split recv_result.split)
  moreover have "ss_closed (fst (session_write sends ?s)) = ss_closed ?s" for sends
    using session_write_reading_side [of sends ?s] by (simp add: reading_side_def)
  ultimately show ?thesis
    using assms(1,2)
    by (auto simp: session_pass_def Let_def split_beta session_decode_keeps request_close_def split: option.split)
qed

text \<open>\<open>max_receive_queue_frames\<close> bounds nothing: whatever it is, all the frames of a stream are queued.\<close>

lemma receive_queue_unbounded:
  assumes "ss_receive_buffer s = stream_of (ss_limits s) ts" and "list_all (encodable (ss_limits s)) ts"
  shows "length (ss_inbound (session_decode s)) = length (ss_inbound s) + length ts"
proof -
  obtain ts1 ts2 where ts: "ts = ts1 @ ts2" "ss_inbound (session_decode s) = ss_inbound s @ map sealed ts1"
    "ss_receive_buffer (session_decode s) = stream_of (ss_limits s) ts2"
    "part_frame (ss_limits s) (ss_receive_buffer (session_decode s)) ts2"
    using session_decode_stream [of s "[]" ts] assms by auto
  then have "ts2 = []" by (cases ts2) (auto simp: part_frame_def)
  then show ?thesis using ts by simp
qed

end
