(* ===== verification/Router_Control.thy ===== *)
theory Router_Control
  imports Router_System
begin

text \<open>
  Whether the router runs, whether it is shutting down, and under which epochs: only \<open>start\<close> and
  \<open>shutdown\<close> change that, a running router has published its epochs, and a router that is shutting
  down has no current route and gets none.
\<close>

definition control :: "CanonicalState \<Rightarrow> bool \<times> bool \<times> generation \<times> generation" where
  "control s = (cs_running s, cs_shutting_down s, cs_router_epoch s, cs_coordinator_epoch s)"

definition control_ok :: "CanonicalState \<Rightarrow> bool" where
  "control_ok s \<longleftrightarrow>
     (cs_running s \<longrightarrow> valid_id (cs_router_epoch s) \<and> valid_id (cs_coordinator_epoch s)) \<and>
     (cs_shutting_down s \<longrightarrow> (\<forall>i r. om_find (cs_routes s) i = Some r \<longrightarrow> rd_status (rec_decision r) \<noteq> RouteStatus.CURRENT))"

section \<open>What the operations leave alone\<close>

lemma control_updates [simp]:
  "control (update_route i f s) = control s" "control (note_tenant t s) = control s" "control (evict_routes s) = control s"
  "control (s\<lparr>cs_routes := R\<rparr>) = control s" "control (s\<lparr>cs_counters := c\<rparr>) = control s"
  "control (count_route d s) = control s" "control (count_no_candidate rq outcome s) = control s"
  "control (count_fallback rq k s) = control s"
  by (simp_all add: control_def update_route_def note_tenant_def evict_routes_def count_route_def count_no_candidate_def
      count_fallback_def split: prod.split)

lemma control_insert [simp]:
  "control (snd (insert_record now i r s)) = control s"
  "control (snd (snd (snd (insert_decision now rq p n k x ids s)))) = control s"
proof -
  have "control (s\<lparr>cs_route_order := q\<rparr>) = control s" for s q by (simp add: control_def)
  then show inserted: "control (snd (insert_record now i r s)) = control s" for i r s
    by (simp add: insert_record_def Let_def split: option.split)
  then show "control (snd (snd (snd (insert_decision now rq p n k x ids s)))) = control s"
    by (auto simp: insert_decision_def Let_def split_beta)
qed

lemma control_commit [simp]:
  "control (snd (snd (commit_route d ids s))) = control s"
  "control (snd (snd (commit_single_candidate v c ev fallbacks permitted ids s))) = control s"
  by (simp_all add: commit_route_def commit_single_candidate_def Let_def split_beta)

lemma control_route [simp]: "control (snd (snd (route providers now rq ids s))) = control s"
  by (simp add: route_def split_beta split: route_result.split)

lemma control_revalidate [simp]: "control (snd (revalidate now i tenant ns s)) = control s"
  by (cases rule: revalidate_cases [of now i tenant ns s]) simp_all

lemma control_dispatch [simp]: "control (snd (snd (dispatch providers now i tenant ns ids s))) = control s"
proof -
  have "control (x\<lparr>cs_dispatches := d, cs_dispatch_index := n, cs_counters := c\<rparr>) = control x" for x d n c
    by (simp add: control_def)
  then have "control (snd (snd (record_dispatch i e ce answer ids x))) = control x" for i e ce answer x
    by (simp add: record_dispatch_def Let_def split_beta)
  then have "control (snd (snd (dispatch_handoff providers now i stored answer ids x))) = control x" for stored answer x
    by (simp add: dispatch_handoff_def Let_def split: sum.split option.split)
  then show ?thesis by (simp add: dispatch_def Let_def split_beta split: sum.split option.split)
qed

lemma control_completion [simp]: "control (snd (record_completion c s)) = control s"
proof -
  have "control (x\<lparr>cs_dispatches := d\<rparr>) = control x" for x d by (simp add: control_def)
  then show ?thesis by (simp add: record_completion_def refuse_def Let_def split: option.split)
qed

lemma control_walk [simp]: "control (snd (snd (walk_fallbacks providers v fallbacks permitted i keys ids s))) = control s"
proof (induction keys arbitrary: ids s)
  case (Cons key keys)
  have "control s' = control s"
    if "commit_single_candidate v c ev fallbacks permitted ids s = (outcome, ids', s')" for c ev outcome ids' s'
    using that control_commit(2) [of v c ev fallbacks permitted ids s] by simp
  then show ?case using Cons.IH by (auto split: option.split prod.split)
qed simp

lemma control_reroute [simp]: "control (snd (snd (reroute providers now i failure rq ids s))) = control s"
proof -
  have walk: "control s' = control s" if "walk_fallbacks providers v fb n i keys ids s = (x, ids', s')" for v fb n keys ids x ids' s'
    using that control_walk [of providers v fb n i keys ids s] by simp
  have fresh: "control (snd (snd (reroute_fresh providers now i rq ids s))) = control s" for rq ids s
    by (simp add: reroute_fresh_def Let_def split_beta)
  obtain rq' ids' where n: "normalize_reroute rq ids = (rq', ids')" by (meson surj_pair)
  show ?thesis
  proof (cases "reroute_admit providers now i failure rq' s")
    case (Inl e)
    then show ?thesis by (simp add: reroute_def n)
  next
    case (Inr vs)
    obtain v stored where vs: "vs = (v, stored)" by (cases vs) auto
    obtain x ids'' s' where w: "walk_fallbacks providers v (pl_fallbacks (rec_plan stored)) (permitted_fallbacks v) i
        (pl_fallbacks (rec_plan stored)) ids' s = (x, ids'', s')" using prod_cases3 by blast
    show ?thesis using walk [OF w] fresh by (cases x) (simp_all add: reroute_def n Inr vs w)
  qed
qed

lemma control_catalog: "catalog_step s s' \<Longrightarrow> control s' = control s"
  by (simp add: catalog_step_def same_identity_def control_def)

section \<open>The control state of reachable routers\<close>

text \<open>While the router shuts down, routing, revalidation, dispatch and reroute leave the decisions alone.\<close>

lemma stopped_routes:
  assumes "cs_shutting_down s"
  shows "cs_routes (snd (snd (route providers now rq ids s))) = cs_routes s"
    and "snd (revalidate now i tenant ns s) = s"
    and "snd (snd (dispatch providers now i tenant ns ids s)) = s"
    and "snd (snd (reroute providers now i failure rq ids s)) = s"
proof -
  have "snd (snd (commit_route d ids s)) = s" for d ids using assms by (simp add: commit_route_def)
  then show "cs_routes (snd (snd (route providers now rq ids s))) = cs_routes s"
    by (simp add: route_def split_beta count_no_candidate_def note_tenant_def split: route_result.split)
  show "snd (revalidate now i tenant ns s) = s"
    by (cases rule: revalidate_cases [of now i tenant ns s]) (use assms in simp_all)
  show "snd (snd (dispatch providers now i tenant ns ids s)) = s"
    using assms by (simp add: dispatch_def dispatch_start_def Let_def)
  have "\<exists>e. reroute_admit providers now i failure rq' s = Inl e" for rq'
    using assms by (auto simp: reroute_admit_def reroute_refusal_def split: option.split)
  then show "snd (snd (reroute providers now i failure rq ids s)) = s"
    by (simp add: reroute_def split_beta) (metis (mono_tags, lifting) old.sum.simps(5) snd_conv)
qed

definition no_current :: "CanonicalState \<Rightarrow> bool" where
  "no_current s \<longleftrightarrow> (\<forall>i r. om_find (cs_routes s) i = Some r \<longrightarrow> rd_status (rec_decision r) \<noteq> RouteStatus.CURRENT)"

lemma no_current_staled: "catalog_step s s' \<Longrightarrow> no_current s \<Longrightarrow> no_current s'"
proof -
  assume step: "catalog_step s s'" and none: "no_current s"
  show "no_current s'"
    unfolding no_current_def
  proof (intro allI impI)
    fix i r' assume "om_find (cs_routes s') i = Some r'"
    then obtain r where "om_find (cs_routes s) i = Some r" "only_staled r r'"
      using step unfolding catalog_step_def by (metis option.rel_distinct(1) option.rel_inject(2) option.exhaust)
    then show "rd_status (rec_decision r') \<noteq> RouteStatus.CURRENT"
      using none by (auto simp: no_current_def only_staled_def mark_stale_def)
  qed
qed

lemma no_current_completion:
  assumes "router_ok x" "no_current (snd x)"
  shows "no_current (snd (record_completion c (snd x)))"
proof -
  have maps: "om_ok (cs_routes (snd x))" using router_ok_maps(1) assms(1) by (cases x) auto
  show ?thesis
    using assms(2) maps
    by (auto simp: record_completion_def refuse_def no_current_def Let_def update_route_def om_update_def om_find_put
        split: option.splits if_splits)
qed

lemma control_ok_split: "control_ok s \<longleftrightarrow>
    (cs_running s \<longrightarrow> valid_id (cs_router_epoch s) \<and> valid_id (cs_coordinator_epoch s)) \<and> (cs_shutting_down s \<longrightarrow> no_current s)"
  by (simp add: control_ok_def no_current_def)

lemma control_ok_kept:
  assumes "control s' = control s" "cs_shutting_down s \<Longrightarrow> no_current s \<Longrightarrow> no_current s'" "control_ok s"
  shows "control_ok s'"
  using assms by (simp add: control_ok_split control_def)

lemma control_ok_start: "control_ok s \<Longrightarrow> control_ok (snd (snd (start e NotLoaded now ids s)))"
  by (auto simp: start_def start_published_def Let_def control_ok_def publish_start_def generation_next_saturates)

lemma control_ok_shutdown:
  assumes "om_ok (cs_routes s)" "control_ok s"
  shows "control_ok (snd (shutdown b saved s))"
proof -
  have "no_current (shutdown_state s)"
    unfolding no_current_def
  proof (intro allI impI)
    fix i r assume "om_find (cs_routes (shutdown_state s)) i = Some r"
    then obtain q where "r = stop_current q" by (auto simp: shutdown_state_def om_find_map_values assms(1))
    then show "rd_status (rec_decision r) \<noteq> RouteStatus.CURRENT" by (simp add: stop_current_def)
  qed
  then have "control_ok (shutdown_state s)" by (simp add: control_ok_split shutdown_state_def)
  then show ?thesis using assms(2) by (simp add: shutdown_def Let_def)
qed

lemma perform_control_ok:
  assumes "router_ok x" "control_ok (snd x)"
  shows "control_ok (snd (perform providers (now, c) x))"
proof -
  have maps: "om_ok (cs_routes (snd x))" using router_ok_maps(1) assms(1) by (cases x) auto
  show ?thesis
  proof (cases c)
    case (Catalog command)
    have step: "catalog_step (snd x) (snd (execute now command (snd x)))"
      using assms(1) by (intro catalog_ops.makes_catalog_step) (simp add: router_ok_def)
    have "control_ok (snd (execute now command (snd x)))"
      by (rule control_ok_kept [OF control_catalog [OF step] no_current_staled [OF step] assms(2)])
    then show ?thesis using Catalog by (simp add: perform_def catalog_step_of_def)
  next
    case (Complete completion)
    have "control_ok (snd (record_completion completion (snd x)))"
      by (rule control_ok_kept [OF control_completion no_current_completion [OF assms(1)] assms(2)])
    then show ?thesis using Complete by (simp add: perform_def completion_step_of_def)
  next
    case (Start e)
    then show ?thesis using control_ok_start assms(2) by (simp add: perform_def start_step_of_def)
  next
    case (Shutdown b code e)
    then show ?thesis using control_ok_shutdown maps assms(2) by (simp add: perform_def shutdown_step_of_def)
  next
    case (Route rq)
    then show ?thesis
      by (intro control_ok_kept [OF _ _ assms(2)]) (simp_all add: perform_def route_step_of_def no_current_def stopped_routes)
  next
    case (Revalidate i tenant ns)
    then show ?thesis
      by (intro control_ok_kept [OF _ _ assms(2)]) (simp_all add: perform_def revalidate_step_of_def no_current_def stopped_routes)
  next
    case (Dispatch i tenant ns)
    then show ?thesis
      by (intro control_ok_kept [OF _ _ assms(2)]) (simp_all add: perform_def dispatch_step_of_def no_current_def stopped_routes)
  next
    case (Reroute i failure rq)
    then show ?thesis
      by (intro control_ok_kept [OF _ _ assms(2)]) (simp_all add: perform_def reroute_step_of_def no_current_def stopped_routes)
  qed
qed

lemma reachable_control_ok:
  assumes "max_route_history (mo_limits options) \<noteq> 0" and "reachable providers x y" and "x = Impl_new options ids"
  shows "control_ok (snd y)"
  using assms(2,3)
proof (induction rule: reachable.induct)
  case (here x)
  then show ?case by (simp add: control_ok_def Impl_new_def CanonicalState_default_def Let_def split_beta om_empty_def)
next
  case (command x y c now)
  then have "evolves x y" using reachable_evolves initial_router_ok [OF assms(1)] by blast
  then have "router_ok y" by (simp add: evolves_def)
  then show ?case using command by (intro perform_control_ok)
qed

end
