(* ===== verification/Invariant_Check.thy ===== *)
theory Invariant_Check
  imports Router_Control
begin

text \<open>
  The callable invariant scan (\<open>src/router_inspect.cpp\<close>): what it reports on a state, and which of
  its reports no reachable router can give.
\<close>

section \<open>The scan\<close>

record InvariantViolation =
  iv_name :: string
  iv_detail :: string

record InvariantReport =
  ir_violations :: "InvariantViolation list"
  ir_checks_run :: u32

definition violate :: "bool \<Rightarrow> string \<Rightarrow> string \<Rightarrow> InvariantViolation list" where
  "violate broken name detail = (if broken then [\<lparr>iv_name = name, iv_detail = detail\<rparr>] else [])"

text \<open>The elements that a loop inserting into a set finds there already.\<close>

fun repeated :: "'a list \<Rightarrow> 'a list \<Rightarrow> 'a list" where
  "repeated seen [] = []"
| "repeated seen (x # xs) = (if x \<in> set seen then x # repeated seen xs else repeated (x # seen) xs)"

definition scan_epochs :: "CanonicalState \<Rightarrow> InvariantViolation list" where
  "scan_epochs s =
     violate (cs_running s \<and> (\<not> valid_id (cs_router_epoch s) \<or> \<not> valid_id (cs_coordinator_epoch s)))
       ''one_current_router_epoch'' ''router is running without a published router or coordinator epoch''"

definition incarnation :: "BackendDescriptor \<Rightarrow> FenceKey" where
  "incarnation b = (bd_backend_id b, bd_backend_boot b)"

definition scan_incarnations :: "CanonicalState \<Rightarrow> InvariantViolation list" where
  "scan_incarnations s =
     concat (map (\<lambda>(i, boot). violate True ''backend_incarnation_unique''
         (''duplicate backend incarnation '' @ dec_u64 i @ ''.boot='' @ dec_u64 boot))
       (repeated [] (map (\<lambda>(_, b). incarnation b) (cs_backends s))))"

definition scan_fences :: "CanonicalState \<Rightarrow> InvariantViolation list" where
  "scan_fences s =
     concat (map (\<lambda>(_, b). violate (om_find (cs_fenced_boots s) (incarnation b) \<noteq> None)
         ''fenced_boot_never_authoritative''
         (''fenced incarnation is present in canonical state: backend='' @ dec_u64 (bd_backend_id b) @
          '' boot='' @ dec_u64 (bd_backend_boot b)))
       (cs_backends s))"

definition below_watermark :: "(entity_id, generation) omap \<Rightarrow> entity_id \<Rightarrow> generation \<Rightarrow> bool" where
  "below_watermark watermarks i generation \<longleftrightarrow>
     (case om_find watermarks i of None \<Rightarrow> False | Some watermark \<Rightarrow> generation < watermark)"

definition scan_generations :: "CanonicalState \<Rightarrow> InvariantViolation list" where
  "scan_generations s =
     concat (map (\<lambda>(i, m). violate (below_watermark (cs_model_generation_watermark s) i (md_model_generation m))
         ''model_generation_monotonic'' (''model '' @ dec_u64 i @ '' regressed'')) (cs_models s)) @
     concat (map (\<lambda>(i, b). violate (below_watermark (cs_backend_generation_watermark s) i (bd_backend_generation b))
         ''backend_generation_monotonic'' (''backend '' @ dec_u64 i @ '' regressed'')) (cs_backends s))"

definition scanned_by_model :: "CanonicalState \<Rightarrow> (entity_id, entity_id list) omap" where
  "scanned_by_model s =
     foldl (\<lambda>idx (i, b). foldl (\<lambda>idx binding. idx_insert (mb_model_id binding) i idx) idx (bd_model_bindings b))
       om_empty (cs_backends s)"

definition scanned_by_provider :: "CanonicalState \<Rightarrow> (entity_id, entity_id list) omap" where
  "scanned_by_provider s = foldl (\<lambda>idx (i, b). idx_insert (bd_provider_id b) i idx) om_empty (cs_backends s)"

definition scanned_by_trust :: "CanonicalState \<Rightarrow> (nat, entity_id list) omap" where
  "scanned_by_trust s = foldl (\<lambda>idx (i, b). idx_insert (trust_rank (bd_trust_domain b)) i idx) om_empty (cs_backends s)"

definition scan_indexes :: "CanonicalState \<Rightarrow> InvariantViolation list" where
  "scan_indexes s =
     violate (scanned_by_model s \<noteq> cs_index_backends_by_model s)
       ''index_backends_by_model'' ''index disagrees with the canonical scan'' @
     violate (scanned_by_provider s \<noteq> cs_index_backends_by_provider s)
       ''index_backends_by_provider'' ''index disagrees with the canonical scan'' @
     violate (scanned_by_trust s \<noteq> cs_index_backends_by_trust s)
       ''index_backends_by_trust'' ''index disagrees with the canonical scan''"

definition scan_bounds :: "CanonicalState \<Rightarrow> InvariantViolation list" where
  "scan_bounds s =
     violate (length (cs_routes s) > unat (max_route_history (cs_limits s)) \<or>
         length (cs_route_order s) > unat (max_route_history (cs_limits s)))
       ''bounded_route_history'' ''retained route history exceeds the configured bound'' @
     violate (length (cs_route_order s) \<noteq> length (cs_routes s))
       ''route_order_consistent'' ''route eviction order and retained route map disagree'' @
     violate (length (cs_fenced_boots s) > unat (max_backend_incarnations (cs_limits s)))
       ''bounded_fenced_boots'' ''fenced incarnation history exceeds the bound''"

definition scan_shutdown :: "CanonicalState \<Rightarrow> InvariantViolation list" where
  "scan_shutdown s =
     violate (cs_shutting_down s \<and>
         list_ex (\<lambda>(_, r). rd_status (rec_decision r) = RouteStatus.CURRENT) (cs_routes s))
       ''shutdown_no_executable_route'' ''a current route exists while the router is shutting down''"

section \<open>The scan of one route\<close>

text \<open>Whether some element stands before the one in front of it.\<close>

definition out_of_order :: "('a \<Rightarrow> 'a \<Rightarrow> bool) \<Rightarrow> 'a list \<Rightarrow> bool" where
  "out_of_order before xs \<longleftrightarrow> list_ex (\<lambda>i. before (xs ! i) (xs ! (i - 1))) [1..<length xs]"

definition decision_name :: "entity_id \<Rightarrow> string \<Rightarrow> string" where
  "decision_name i rest = ''decision '' @ dec_u64 i @ rest"

definition current_decision_name :: "entity_id \<Rightarrow> string \<Rightarrow> string" where
  "current_decision_name i rest = ''current decision '' @ dec_u64 i @ rest"

definition scan_record :: "entity_id \<Rightarrow> RouteRecord \<Rightarrow> InvariantViolation list" where
  "scan_record i r =
     (let d = rec_decision r; x = rd_explanation d in
      violate (\<not> valid_id (rd_decision_generation d)) ''route_generation_monotonic''
        (decision_name i '' has no valid generation'') @
      violate (rec_tenant r \<noteq> ra_tenant (rd_authority d)) ''tenant_isolation''
        (decision_name i '' record tenant disagrees with its bound authority tenant'') @
      violate (xp_authority x \<noteq> rd_authority d) ''bound_generations_match_snapshot''
        (decision_name i '' explanation authority differs from its bound authority'') @
      violate (valid_id (xp_request_id x) \<and> xp_request_id x \<noteq> rd_request_id d) ''bound_request_identity''
        (decision_name i '' explanation request identity differs from the decision'') @
      violate (xp_ranking x \<noteq> [] \<and> rk_key (hd (xp_ranking x)) \<noteq> pl_primary (rec_plan r)) ''winner_is_top_ranked''
        (decision_name i '' plan primary is not the top-ranked candidate'') @
      violate (rd_fallbacks d \<noteq> pl_fallbacks (rec_plan r)) ''fallback_order_stable''
        (decision_name i '' fallback list differs from its plan'') @
      concat (map (\<lambda>_. violate True ''no_duplicate_ranked_candidate''
          (decision_name i '' contains a duplicate candidate identity'')) (repeated [] (map rk_key (xp_ranking x)))) @
      violate (out_of_order candidate_ranks_before (xp_ranking x)) ''deterministic_ranking_order''
        (decision_name i '' ranked list is not in canonical order'') @
      violate (out_of_order RouteRejection_canonical_less (xp_rejections x)) ''deterministic_rejection_order''
        (decision_name i '' rejection list is not in canonical order'') @
      violate (\<not> dc_require_revalidation (pl_constraints (rec_plan r))) ''cache_cannot_bypass_revalidation''
        (decision_name i '' plan does not require pre-dispatch revalidation''))"

definition scan_request :: "RouteDecision \<Rightarrow> RouteRequest" where
  "scan_request d =
     (let a = rd_authority d in
      \<lparr>rq_request_id = rd_request_id d, rq_request_generation = rd_request_generation d,
       rq_requirements = RouteRequirements_default, rq_caller = CallerAuthority_default,
       rq_tenant = ra_tenant a, rq_name_space = ra_name_space a,
       rq_policy_id = ra_policy_id a, rq_policy_generation = ra_policy_generation a,
       rq_budget_id = 0, rq_budget_generation = 0, rq_slo_id = 0, rq_slo_generation = 0,
       rq_correlation_id = 0, rq_estimated_input_tokens = 0, rq_estimated_output_tokens = 0,
       rq_created_at = 0, rq_expires_at = kNoExpiry\<rparr>)"

definition scan_policy :: "unix_millis \<Rightarrow> CanonicalState \<Rightarrow> entity_id \<Rightarrow> RouteDecision \<Rightarrow> InvariantViolation list" where
  "scan_policy now s i d =
     (case build_candidate_from_catalog s (ra_model_id (rd_authority d)) (ra_backend_id (rd_authority d)) of
        None \<Rightarrow> []
      | Some candidate \<Rightarrow>
          violate (\<not> policy_allowed (evaluate_candidate (cs_policy s) (scan_request d)
              (candidate\<lparr>rc_discovery_source := []\<rparr>) now))
            ''policy_denied_route_cannot_dispatch'' (current_decision_name i '' is denied by the current policy''))"

definition scan_backend ::
  "unix_millis \<Rightarrow> CanonicalState \<Rightarrow> entity_id \<Rightarrow> RouteDecision \<Rightarrow> BackendDescriptor \<Rightarrow> InvariantViolation list" where
  "scan_backend now s i d b =
     (let a = rd_authority d in
      violate (om_find (cs_fenced_boots s) (incarnation b) \<noteq> None) ''stale_backend_boot_cannot_dispatch''
        (current_decision_name i '' references a fenced incarnation'') @
      violate (bd_backend_boot b \<noteq> ra_backend_boot a) ''stale_backend_boot_cannot_dispatch''
        (current_decision_name i '' bound an older backend incarnation'') @
      violate (BackendDescriptor_retired b \<or> BackendDescriptor_draining b) ''unavailable_backend_cannot_dispatch''
        (current_decision_name i '' references a retired or draining backend'') @
      violate (ps_generation (cs_policy s) \<noteq> ra_policy_generation a) ''stale_policy_cannot_dispatch''
        (current_decision_name i '' bound an older policy generation'') @
      violate (cs_router_epoch s \<noteq> ra_router_epoch a) ''stale_router_epoch_cannot_dispatch''
        (current_decision_name i '' bound an older router epoch'') @
      violate (cs_coordinator_epoch s \<noteq> ra_coordinator_epoch a) ''stale_coordinator_epoch_cannot_dispatch''
        (current_decision_name i '' bound an older coordinator epoch'') @
      violate (RouteAuthority_expired a now) ''expired_route_cannot_dispatch''
        (current_decision_name i '' has expired'') @
      scan_policy now s i d)"

definition scan_current ::
  "unix_millis \<Rightarrow> CanonicalState \<Rightarrow> entity_id \<Rightarrow> RouteDecision \<Rightarrow> InvariantViolation list" where
  "scan_current now s i d =
     (case om_find (cs_models s) (ra_model_id (rd_authority d)) of
        None \<Rightarrow> violate True ''current_route_winner_exists'' (current_decision_name i '' references an unregistered model'')
      | Some m \<Rightarrow>
          violate (md_lifecycle m = ModelLifecycle.RETIRED) ''retired_model_cannot_dispatch''
            (current_decision_name i '' references a retired model'') @
          (case om_find (cs_backends s) (ra_backend_id (rd_authority d)) of
             None \<Rightarrow> violate True ''current_route_winner_exists''
                       (current_decision_name i '' references an unregistered backend'')
           | Some b \<Rightarrow> scan_backend now s i d b))"

definition scan_route :: "unix_millis \<Rightarrow> CanonicalState \<Rightarrow> entity_id \<times> RouteRecord \<Rightarrow> InvariantViolation list" where
  "scan_route now s entry =
     (case entry of (i, r) \<Rightarrow>
        scan_record i r @
        (if rd_status (rec_decision r) = RouteStatus.CURRENT then scan_current now s i (rec_decision r) else []))"

definition scan_all :: "unix_millis \<Rightarrow> CanonicalState \<Rightarrow> InvariantViolation list" where
  "scan_all now s =
     scan_epochs s @ scan_incarnations s @ scan_fences s @ scan_generations s @ scan_indexes s @
     scan_bounds s @ scan_shutdown s @ concat (map (scan_route now s) (cs_routes s))"

definition check_invariants :: "unix_millis \<Rightarrow> CanonicalState \<Rightarrow> InvariantReport" where
  "check_invariants now s =
     \<lparr>ir_violations = sort_key (\<lambda>v. (iv_name v, iv_detail v)) (scan_all now s),
      ir_checks_run = 7 + of_nat (length (cs_routes s))\<rparr>"

definition InvariantReport_ok :: "InvariantReport \<Rightarrow> bool" where
  "InvariantReport_ok report \<longleftrightarrow> ir_violations report = []"

section \<open>Rendering\<close>

definition InvariantReport_to_text :: "InvariantReport \<Rightarrow> string" where
  "InvariantReport_to_text report =
     (if ir_violations report = [] then ''OK'' else ''VIOLATED'') @
     '' checks='' @ dec_u32 (ir_checks_run report) @
     '' violations='' @ dec_digits (length (ir_violations report)) @ [CHR 0x0A] @
     concat (map (\<lambda>v. ''  '' @ iv_name v @ '': '' @ iv_detail v @ [CHR 0x0A]) (ir_violations report))"

definition InvariantReport_to_json :: "InvariantReport \<Rightarrow> string" where
  "InvariantReport_to_json report =
     ''{\"ok\":'' @ (if ir_violations report = [] then ''true'' else ''false'') @
     '',\"checks\":'' @ dec_u32 (ir_checks_run report) @ '',\"violations\":['' @
     concat (map (\<lambda>(k, v). (if k = 0 then [] else '','') @
         ''{\"name\":\"'' @ iv_name v @ ''\",\"detail\":\"'' @ iv_detail v @ ''\"}'')
       (List.enumerate 0 (ir_violations report))) @ '']}''"

section \<open>What a well-formed router never reports\<close>

lemma violate_set [simp]: "v \<in> set (violate broken name detail) \<longleftrightarrow> broken \<and> v = \<lparr>iv_name = name, iv_detail = detail\<rparr>"
  by (auto simp: violate_def)

lemma violate_empty [simp]: "violate broken name detail = [] \<longleftrightarrow> \<not> broken"
  by (simp add: violate_def)

lemma reported_iff: "v \<in> set (ir_violations (check_invariants now s)) \<longleftrightarrow> v \<in> set (scan_all now s)"
  by (simp add: check_invariants_def)

lemma repeated_none: "distinct xs \<Longrightarrow> set seen \<inter> set xs = {} \<Longrightarrow> repeated seen xs = []"
  by (induction xs arbitrary: seen) auto

lemma repeated_iff: "repeated seen xs = [] \<longleftrightarrow> distinct xs \<and> set seen \<inter> set xs = {}"
  by (induction xs arbitrary: seen) auto

lemma scanned_indexes:
  "scanned_by_model s = cs_index_backends_by_model (rebuild_indexes s)"
  "scanned_by_provider s = cs_index_backends_by_provider (rebuild_indexes s)"
  "scanned_by_trust s = cs_index_backends_by_trust (rebuild_indexes s)"
  by (simp_all add: scanned_by_model_def scanned_by_provider_def scanned_by_trust_def rebuilt_fields
      foldl_map foldl_binding_keys split_def)

lemma scan_indexes_silent: "catalog_ok s \<Longrightarrow> scan_indexes s = []"
  using indexes_ok_iff [of s]
  by (simp add: scan_indexes_def scanned_indexes catalog_ok_def maps_ok_def)

lemma scan_incarnations_silent:
  assumes "catalog_ok s"
  shows "scan_incarnations s = []"
proof -
  have ok: "om_ok (cs_backends s)" "backends_ok s" using assms by (simp_all add: catalog_ok_def maps_ok_def)
  have "fst (incarnation b) = i" if "(i, b) \<in> set (cs_backends s)" for i b
    using that ok om.entries_find [OF ok(1)] by (auto simp: backends_ok_def incarnation_def)
  then have "map fst (map (\<lambda>(_, b). incarnation b) (cs_backends s)) = map fst (cs_backends s)" by auto
  then have "distinct (map fst (map (\<lambda>(_, b). incarnation b) (cs_backends s)))"
    using om_ok_distinct [OF ok(1)] by metis
  then have "distinct (map (\<lambda>(_, b). incarnation b) (cs_backends s))" by (rule distinct_map [THEN iffD1, THEN conjunct1])
  then show ?thesis by (simp add: scan_incarnations_def repeated_none)
qed

lemma scan_generations_silent:
  assumes "catalog_ok s"
  shows "scan_generations s = []"
proof -
  have ok: "om_ok (cs_models s)" "om_ok (cs_backends s)" "models_ok s" "backends_ok s"
    using assms by (simp_all add: catalog_ok_def maps_ok_def)
  have "om_find (cs_model_generation_watermark s) i = Some (md_model_generation m)" if "(i, m) \<in> set (cs_models s)" for i m
    using that ok om.entries_find [OF ok(1)] by (auto simp: models_ok_def)
  moreover have "om_find (cs_backend_generation_watermark s) i = Some (bd_backend_generation b)"
    if "(i, b) \<in> set (cs_backends s)" for i b
    using that ok om.entries_find [OF ok(2)] by (auto simp: backends_ok_def)
  ultimately show ?thesis by (auto simp: scan_generations_def below_watermark_def)
qed

lemma scan_bounds_silent:
  assumes "router_ok (ids, s)"
  shows "v \<in> set (scan_bounds s) \<Longrightarrow> iv_name v = ''bounded_fenced_boots''"
  using assms history_length [of ids s] router_ok_maps [OF assms]
  by (auto simp: scan_bounds_def router_ok_def history_ok_def)

lemma ranked_in_order: "ranked_by before xs \<Longrightarrow> \<not> out_of_order before xs"
  by (auto simp: out_of_order_def ranked_by_def list_ex_iff sorted_wrt_iff_nth_less)

lemma scan_record_silent:
  assumes "record_sound r" and "v \<in> set (scan_record i r)"
  shows "iv_name v = ''deterministic_rejection_order''"
  using assms ranked_in_order [of candidate_ranks_before "xp_ranking (rd_explanation (rec_decision r))"]
  by (auto simp: scan_record_def record_sound_def Let_def repeated_none)

text \<open>The reports that say that the state has moved on since the decision was made.\<close>

definition staleness_reports :: "string set" where
  "staleness_reports =
     {''current_route_winner_exists'', ''retired_model_cannot_dispatch'', ''stale_backend_boot_cannot_dispatch'',
      ''unavailable_backend_cannot_dispatch'', ''stale_policy_cannot_dispatch'', ''stale_router_epoch_cannot_dispatch'',
      ''stale_coordinator_epoch_cannot_dispatch'', ''expired_route_cannot_dispatch''}"

lemma scan_policy_name: "v \<in> set (scan_policy now s i d) \<Longrightarrow> iv_name v = ''policy_denied_route_cannot_dispatch''"
  by (auto simp: scan_policy_def split: option.splits)

lemma scan_current_names:
  "v \<in> set (scan_current now s i d) \<Longrightarrow> iv_name v \<in> insert ''policy_denied_route_cannot_dispatch'' staleness_reports"
  by (auto simp: scan_current_def scan_backend_def staleness_reports_def Let_def dest!: scan_policy_name split: option.splits)

lemma scan_current_silent:
  assumes "catalog_ok s" and "is_authority_dispatchable s (rd_authority d) now"
    and "v \<in> set (scan_current now s i d)"
  shows "iv_name v = ''policy_denied_route_cannot_dispatch''"
proof -
  obtain m b where found: "om_find (cs_models s) (ra_model_id (rd_authority d)) = Some m"
      "om_find (cs_backends s) (ra_backend_id (rd_authority d)) = Some b"
    and live: "\<not> RouteAuthority_expired (rd_authority d) now"
      "\<not> is_fenced s (ra_backend_id (rd_authority d)) (ra_backend_boot (rd_authority d))"
      "md_lifecycle m = ModelLifecycle.CURRENT" "\<not> BackendDescriptor_retired b" "\<not> BackendDescriptor_draining b"
      "authority_matches s (rd_authority d) m b"
    using assms(2) unfolding dispatchable_iff by blast
  have "bd_backend_id b = ra_backend_id (rd_authority d)"
    using assms(1) found(2) by (simp add: catalog_ok_def backends_ok_def)
  moreover have "bd_backend_boot b = ra_backend_boot (rd_authority d)" "cs_router_epoch s = ra_router_epoch (rd_authority d)"
    "cs_coordinator_epoch s = ra_coordinator_epoch (rd_authority d)"
    "ps_generation (cs_policy s) = ra_policy_generation (rd_authority d)"
    using live(6) by (simp_all add: authority_matches_def)
  ultimately have "v \<in> set (scan_policy now s i d)"
    using assms(3) found live(1-5)
    by (auto simp: scan_current_def scan_backend_def Let_def incarnation_def is_fenced_def)
  then show ?thesis by (rule scan_policy_name)
qed

section \<open>Sound histories\<close>

definition records_sound :: "CanonicalState \<Rightarrow> bool" where
  "records_sound s \<longleftrightarrow> (\<forall>i r. om_find (cs_routes s) i = Some r \<longrightarrow> record_sound r)"

lemma records_sound_evolves: "evolves x y \<Longrightarrow> records_sound (snd x) \<Longrightarrow> records_sound (snd y)"
  unfolding records_sound_def
proof (intro allI impI)
  fix i r assume e: "evolves x y" and old: "\<forall>i r. om_find (cs_routes (snd x)) i = Some r \<longrightarrow> record_sound r"
    and r: "om_find (cs_routes (snd y)) i = Some r"
  show "record_sound r"
  proof (cases "om_find (cs_routes (snd x)) i")
    case None
    then show ?thesis using e r unfolding evolves_def by blast
  next
    case (Some q)
    then show ?thesis using evolves_record [OF e Some r] old record_evolves_sound by blast
  qed
qed

text \<open>What a well-formed router with sound records may report: the fences, the order of rejections, and
  what concerns a current route.\<close>

lemma scan_names:
  assumes ok: "router_ok (ids, s)" and sound: "records_sound s" and control: "control_ok s" and v: "v \<in> set (scan_all now s)"
  shows "iv_name v \<in> {''fenced_boot_never_authoritative'', ''bounded_fenced_boots'',
      ''deterministic_rejection_order'', ''policy_denied_route_cannot_dispatch''} \<or>
    (iv_name v \<in> staleness_reports \<and> \<not> live_decisions_dispatchable now s)"
proof -
  have cat: "catalog_ok s" using ok by (simp add: router_ok_def state_ok_def)
  have find: "om_find (cs_routes s) i = Some r" if "(i, r) \<in> set (cs_routes s)" for i r
    using that om.entries_find router_ok_maps [OF ok] by fastforce
  have silent: "scan_epochs s = []" "scan_shutdown s = []"
    using control find by (auto simp: scan_epochs_def scan_shutdown_def control_ok_def list_ex_iff)
  consider "v \<in> set (scan_fences s)" | "v \<in> set (scan_bounds s)"
    | i r where "(i, r) \<in> set (cs_routes s)" "v \<in> set (scan_record i r)"
    | i r where "(i, r) \<in> set (cs_routes s)" "rd_status (rec_decision r) = RouteStatus.CURRENT"
        "v \<in> set (scan_current now s i (rec_decision r))"
    using v by (auto simp: scan_all_def scan_route_def scan_incarnations_silent [OF cat] scan_generations_silent [OF cat]
        scan_indexes_silent [OF cat] silent split: if_splits)
  then show ?thesis
  proof cases
    case 2
    then show ?thesis using scan_bounds_silent [OF ok] by simp
  next
    case (3 i r)
    then show ?thesis using scan_record_silent sound find unfolding records_sound_def by blast
  next
    case (4 i r)
    then have "live_record r" by (simp add: live_record_def live_status_def)
    then have "live_decisions_dispatchable now s \<Longrightarrow> is_authority_dispatchable s (rd_authority (rec_decision r)) now"
      using find [OF 4(1)] unfolding live_decisions_dispatchable_def by blast
    then show ?thesis using scan_current_names [OF 4(3)] scan_current_silent [OF cat _ 4(3)] by blast
  qed (auto simp: scan_fences_def)
qed


definition scan_options :: ModelRouterOptions where
  "scan_options =
     \<lparr>mo_router_id = 1, mo_router_generation = 1, mo_limits = default_resource_limits,
      mo_weights = RankingWeights_default, mo_scales = RankingScales_default, mo_persistence_path = [],
      mo_load_on_start = False, mo_save_on_shutdown = False, mo_use_catalog_adapters = True\<rparr>"


text \<open>A violation of a bound that the scan does report: unregistering fences an incarnation without
  looking at the bound on fenced incarnations.\<close>

lemma unregister_exceeds_fence_bound:
  assumes "om_ok (cs_fenced_boots s)" and "om_find (cs_backends s) i = Some b" and "\<not> cs_shutting_down s"
    and "\<not> is_fenced s i (bd_backend_boot b)"
    and "length (cs_fenced_boots s) = unat (max_backend_incarnations (cs_limits s))"
  shows "''bounded_fenced_boots'' \<in> iv_name ` set (ir_violations (check_invariants now (snd (unregister_backend now (i, 0) s))))"
proof -
  have fields: "cs_fenced_boots (stale_decisions_for_authority_change t x) = cs_fenced_boots x"
    "cs_limits (stale_decisions_for_authority_change t x) = cs_limits x"
    "cs_fenced_boots (stale_decisions_for_backend j boot x) = cs_fenced_boots x"
    "cs_limits (stale_decisions_for_backend j boot x) = cs_limits x"
    "cs_fenced_boots (drop_backend j b x) = cs_fenced_boots x" "cs_limits (drop_backend j b x) = cs_limits x" for t x j boot
    by (simp_all add: stale_decisions_for_authority_change_def stale_decisions_for_backend_def drop_backend_def
        index_remove_backend_def)
  have "length (om_put (i, bd_backend_boot b) f (cs_fenced_boots s)) = Suc (length (cs_fenced_boots s))" for f
    using length_om_put [OF assms(1)] assms(4) by (simp add: is_fenced_def)
  then have "\<lparr>iv_name = ''bounded_fenced_boots'', iv_detail = ''fenced incarnation history exceeds the bound''\<rparr>
      \<in> set (scan_bounds (snd (unregister_backend now (i, 0) s)))"
    using assms(2,3,5)
    by (simp add: unregister_backend_def accept_def valid_id_def Let_def scan_bounds_def put_fence_def fields)
  then show ?thesis by (force simp: reported_iff scan_all_def)
qed

end
