(* ===== verification/Snapshot.thy ===== *)
theory Snapshot
  imports Invariant_Check
begin

text \<open>
  Read-only views of the canonical state (\<open>src/router_snapshot.cpp\<close>): the snapshot and the summary
  with their digests and renderings, and the lookups.  The lemmas show that the counts are exact and
  that a snapshot lists every backend and every retained decision once, in the order of identities.
\<close>

section \<open>Views\<close>

record BackendSummary =
  sb_backend_id :: entity_id
  sb_backend_generation :: generation
  sb_backend_boot :: generation
  sb_provider_id :: entity_id
  sb_endpoint_id :: entity_id
  sb_endpoint_generation :: generation
  sb_trust_domain :: TrustDomain
  sb_locality :: LocalityKey
  sb_health :: HealthState
  sb_availability :: AvailabilityState
  sb_readiness :: ReadinessState
  sb_residency :: ResidencyState
  sb_capacity :: CapacityState
  sb_bound_model_count :: u32
  sb_fenced :: bool
  sb_evidence_current :: bool
  sb_price_known :: bool
  sb_provenance :: Provenance

record RouteSummary =
  sr_decision_id :: entity_id
  sr_decision_generation :: generation
  sr_request_id :: entity_id
  sr_winner :: CandidateKey
  sr_status :: RouteStatus
  sr_code :: OutcomeCode
  sr_currentness :: Currentness
  sr_fallback_count :: u32
  sr_created_at :: unix_millis
  sr_semantic_digest :: string

record RouterSnapshot =
  sn_router_id :: entity_id
  sn_router_generation :: generation
  sn_router_epoch :: generation
  sn_coordinator_epoch :: generation
  sn_router_boot :: generation
  sn_policy_generation :: generation
  sn_price_generation :: generation
  sn_budget_generation :: generation
  sn_slo_generation :: generation
  sn_capability_generation :: generation
  sn_model_count :: u32
  sn_backend_count :: u32
  sn_fenced_boot_count :: u32
  sn_route_decision_count :: u32
  sn_tenant_count :: u32
  sn_backends :: "BackendSummary list"
  sn_routes :: "RouteSummary list"
  sn_currentness :: Currentness
  sn_shutting_down :: bool
  sn_taken_at :: unix_millis
  sn_semantic_digest :: string

definition authorizes_dispatch :: "RouterSnapshot \<Rightarrow> bool" where
  "authorizes_dispatch n \<longleftrightarrow> sn_currentness n = Currentness.CURRENT \<and> \<not> sn_shutting_down n"

record RouterSummary =
  su_router_id :: entity_id
  su_router_generation :: generation
  su_router_epoch :: generation
  su_coordinator_epoch :: generation
  su_router_boot :: generation
  su_model_count :: u32
  su_provider_count :: u32
  su_backend_count :: u32
  su_fenced_boot_count :: u32
  su_route_decision_count :: u32
  su_tenant_count :: u32
  su_eligible_last_request :: u32
  su_rejected_last_request :: u32
  su_counters :: PersistenceCounters
  su_policy_generation :: generation
  su_price_generation :: generation
  su_budget_generation :: generation
  su_slo_generation :: generation
  su_capability_generation :: generation
  su_running :: bool
  su_shutting_down :: bool
  su_recovered :: bool
  su_started_at :: unix_millis
  su_semantic_digest :: string

definition summarize_backend :: "unix_millis \<Rightarrow> CanonicalState \<Rightarrow> BackendDescriptor \<Rightarrow> BackendSummary" where
  "summarize_backend now s b =
     \<lparr>sb_backend_id = bd_backend_id b, sb_backend_generation = bd_backend_generation b,
      sb_backend_boot = bd_backend_boot b, sb_provider_id = bd_provider_id b,
      sb_endpoint_id = ed_endpoint_id (bd_endpoint b),
      sb_endpoint_generation = ed_endpoint_generation (bd_endpoint b),
      sb_trust_domain = bd_trust_domain b, sb_locality = bd_locality b,
      sb_health = be_state (bd_health b), sb_availability = be_state (bd_availability b),
      sb_readiness = be_state (bd_readiness b), sb_residency = be_state (bd_residency b),
      sb_capacity = be_state (bd_capacity b),
      sb_bound_model_count = of_nat (length (bd_model_bindings b)),
      sb_fenced = (om_find (cs_fenced_boots s) (incarnation b) \<noteq> None),
      sb_evidence_current =
        (valid_id (be_generation (bd_health b)) \<and> valid_id (be_generation (bd_availability b)) \<and>
         valid_id (be_generation (bd_readiness b)) \<and> \<not> BackendEvidence_expired (bd_health b) now \<and>
         \<not> BackendEvidence_expired (bd_availability b) now \<and> \<not> BackendEvidence_expired (bd_readiness b) now),
      sb_price_known =
        (bd_model_bindings b \<noteq> [] \<and>
         list_all (\<lambda>m. CostEvidence_known (mb_cost m) \<and> CostEvidence_current (mb_cost m) now) (bd_model_bindings b)),
      sb_provenance = bd_provenance b\<rparr>"

definition summarize_route :: "RouteRecord \<Rightarrow> RouteSummary" where
  "summarize_route r =
     (let d = rec_decision r in
      \<lparr>sr_decision_id = rd_decision_id d, sr_decision_generation = rd_decision_generation d,
       sr_request_id = rd_request_id d, sr_winner = pl_primary (rec_plan r), sr_status = rd_status d,
       sr_code = rd_code d, sr_currentness = xp_currentness (rd_explanation d),
       sr_fallback_count = of_nat (length (rd_fallbacks d)), sr_created_at = rd_created_at d,
       sr_semantic_digest = xp_semantic_digest (rd_explanation d)\<rparr>)"

text \<open>The running maxima of the loops over the backends.\<close>

definition highest_capability :: "CanonicalState \<Rightarrow> generation" where
  "highest_capability s =
     foldl (\<lambda>g (_, b). if g < bd_capability_generation b then bd_capability_generation b else g) 0 (cs_backends s)"

definition highest_price :: "CanonicalState \<Rightarrow> generation" where
  "highest_price s =
     foldl (\<lambda>g (_, b). foldl (\<lambda>g m. if g < co_price_generation (mb_cost m) then co_price_generation (mb_cost m) else g)
         g (bd_model_bindings b))
       0 (cs_backends s)"

definition status_index :: "RouteStatus \<Rightarrow> int" where
  "status_index st =
     (case st of RouteStatus.CURRENT \<Rightarrow> 0 | RouteStatus.SUPERSEDED \<Rightarrow> 1 | RouteStatus.STALE \<Rightarrow> 2 | DISPATCHED \<Rightarrow> 3
               | RouteStatus.COMPLETED \<Rightarrow> 4 | RouteStatus.FAILED \<Rightarrow> 5 | RouteStatus.CANCELLED \<Rightarrow> 6)"

definition snapshot_text :: "RouterSnapshot \<Rightarrow> string" where
  "snapshot_text n =
     dec_u64 (sn_router_id n) @ dec_u64 (sn_router_epoch n) @ dec_u64 (sn_coordinator_epoch n) @
     dec_u64 (sn_policy_generation n) @ dec_u64 (sn_price_generation n) @
     concat (map (\<lambda>b. dec_u64 (sb_backend_id b) @ dec_u64 (sb_backend_boot b) @ dec_int (health_index (sb_health b)) @
       dec_int (availability_index (sb_availability b)) @ dec_int (readiness_index (sb_readiness b))) (sn_backends n)) @
     concat (map (\<lambda>r. dec_u64 (sr_decision_id r) @ dec_int (status_index (sr_status r)) @ sr_semantic_digest r) (sn_routes n))"

definition snapshot :: "unix_millis \<Rightarrow> CanonicalState \<Rightarrow> RouterSnapshot" where
  "snapshot now s =
     (let n = \<lparr>sn_router_id = cs_router_id s, sn_router_generation = cs_router_generation s,
        sn_router_epoch = cs_router_epoch s, sn_coordinator_epoch = cs_coordinator_epoch s,
        sn_router_boot = cs_router_boot s, sn_policy_generation = ps_generation (cs_policy s),
        sn_price_generation = highest_price s, sn_budget_generation = bs_generation (cs_budget s),
        sn_slo_generation = sl_generation (cs_slo s), sn_capability_generation = highest_capability s,
        sn_model_count = of_nat (length (cs_models s)), sn_backend_count = of_nat (length (cs_backends s)),
        sn_fenced_boot_count = of_nat (length (cs_fenced_boots s)),
        sn_route_decision_count = of_nat (length (cs_routes s)), sn_tenant_count = of_nat (length (cs_tenants s)),
        sn_backends = map (summarize_backend now s \<circ> snd) (cs_backends s),
        sn_routes = map (summarize_route \<circ> snd) (cs_routes s),
        sn_currentness = (if cs_recovered s then Currentness.RECONSTRUCTED else Currentness.CURRENT),
        sn_shutting_down = cs_shutting_down s, sn_taken_at = now, sn_semantic_digest = []\<rparr>
      in n\<lparr>sn_semantic_digest := to_hex (sha256 (snapshot_text n))\<rparr>)"

definition summary_text :: "RouterSummary \<Rightarrow> string" where
  "summary_text u =
     dec_u64 (su_router_id u) @ dec_u64 (su_router_epoch u) @ dec_u64 (su_coordinator_epoch u) @
     dec_u32 (su_model_count u) @ dec_u32 (su_backend_count u) @ dec_u32 (su_route_decision_count u) @
     dec_u32 (su_fenced_boot_count u)"

definition summary :: "CanonicalState \<Rightarrow> RouterSummary" where
  "summary s =
     (let u = \<lparr>su_router_id = cs_router_id s, su_router_generation = cs_router_generation s,
        su_router_epoch = cs_router_epoch s, su_coordinator_epoch = cs_coordinator_epoch s,
        su_router_boot = cs_router_boot s, su_model_count = of_nat (length (cs_models s)),
        su_provider_count = of_nat (length (cs_providers s)), su_backend_count = of_nat (length (cs_backends s)),
        su_fenced_boot_count = of_nat (length (cs_fenced_boots s)),
        su_route_decision_count = of_nat (length (cs_routes s)), su_tenant_count = of_nat (length (cs_tenants s)),
        su_eligible_last_request = cs_last_eligible s, su_rejected_last_request = cs_last_rejected s,
        su_counters = cs_counters s, su_policy_generation = ps_generation (cs_policy s),
        su_price_generation = highest_price s, su_budget_generation = bs_generation (cs_budget s),
        su_slo_generation = sl_generation (cs_slo s), su_capability_generation = highest_capability s,
        su_running = cs_running s, su_shutting_down = cs_shutting_down s, su_recovered = cs_recovered s,
        su_started_at = cs_started_at s, su_semantic_digest = []\<rparr>
      in u\<lparr>su_semantic_digest := to_hex (sha256 (summary_text u))\<rparr>)"

section \<open>Lookups\<close>

definition find_model :: "entity_id \<Rightarrow> CanonicalState \<Rightarrow> ModelDescriptor option" where
  "find_model i s = om_find (cs_models s) i"

definition find_backend :: "entity_id \<Rightarrow> CanonicalState \<Rightarrow> BackendDescriptor option" where
  "find_backend i s = om_find (cs_backends s) i"

definition find_decision :: "entity_id \<Rightarrow> CanonicalState \<Rightarrow> RouteDecision option" where
  "find_decision i s = map_option rec_decision (om_find (cs_routes s) i)"

definition route_history :: "CanonicalState \<Rightarrow> RouteDecision list" where
  "route_history s = map (rec_decision \<circ> snd) (cs_routes s)"

definition fenced_boots :: "CanonicalState \<Rightarrow> FencedBootRecord list" where
  "fenced_boots s = map snd (cs_fenced_boots s)"

section \<open>Rendering\<close>

definition json_bool :: "bool \<Rightarrow> string" where
  "json_bool b = (if b then ''true'' else ''false'')"

definition backend_text :: "BackendSummary \<Rightarrow> string" where
  "backend_text b =
     ''backend '' @ dec_u64 (sb_backend_id b) @ ''@'' @ dec_u64 (sb_backend_generation b) @ ''.boot='' @
     dec_u64 (sb_backend_boot b) @ '' provider='' @ dec_u64 (sb_provider_id b) @ '' endpoint='' @
     dec_u64 (sb_endpoint_id b) @ ''@'' @ dec_u64 (sb_endpoint_generation b) @ '' trust='' @
     TrustDomain_to_string (sb_trust_domain b) @ '' locality='' @
     (if sb_locality b = [] then ''none'' else sb_locality b) @ '' health='' @ HealthState_to_string (sb_health b) @
     '' availability='' @ AvailabilityState_to_string (sb_availability b) @ '' readiness='' @
     ReadinessState_to_string (sb_readiness b) @ '' residency='' @ ResidencyState_to_string (sb_residency b) @
     '' capacity='' @ CapacityState_to_string (sb_capacity b) @ '' models='' @ dec_u32 (sb_bound_model_count b) @
     '' fenced='' @ dec_bool (sb_fenced b) @ '' evidence_current='' @ dec_bool (sb_evidence_current b) @
     '' price_known='' @ dec_bool (sb_price_known b) @ '' provenance='' @ Provenance_to_string (sb_provenance b) @
     [CHR 0x0A]"

definition route_text :: "RouteSummary \<Rightarrow> string" where
  "route_text r =
     ''decision '' @ dec_u64 (sr_decision_id r) @ '' status='' @ RouteStatus_to_string (sr_status r) @ '' code='' @
     outcome_to_string (sr_code r) @ '' currentness='' @ Currentness_to_string (sr_currentness r) @ '' fallbacks='' @
     dec_u32 (sr_fallback_count r) @ '' winner='' @ CandidateKey_to_string (sr_winner r) @ '' digest='' @
     sr_semantic_digest r @ [CHR 0x0A]"

definition RouterSnapshot_to_text :: "RouterSnapshot \<Rightarrow> string" where
  "RouterSnapshot_to_text n =
     ''router='' @ dec_u64 (sn_router_id n) @ '' generation='' @ dec_u64 (sn_router_generation n) @ '' epoch='' @
     dec_u64 (sn_router_epoch n) @ '' coordinator_epoch='' @ dec_u64 (sn_coordinator_epoch n) @ '' boot='' @
     dec_u64 (sn_router_boot n) @ [CHR 0x0A] @ ''models='' @ dec_u32 (sn_model_count n) @ '' backends='' @
     dec_u32 (sn_backend_count n) @ '' fenced_boots='' @ dec_u32 (sn_fenced_boot_count n) @ '' decisions='' @
     dec_u32 (sn_route_decision_count n) @ '' tenants='' @ dec_u32 (sn_tenant_count n) @ [CHR 0x0A] @
     ''currentness='' @ Currentness_to_string (sn_currentness n) @ '' shutting_down='' @
     dec_bool (sn_shutting_down n) @ '' digest='' @ sn_semantic_digest n @ [CHR 0x0A] @
     concat (map backend_text (sn_backends n)) @ concat (map route_text (sn_routes n))"

definition backend_json :: "BackendSummary \<Rightarrow> string" where
  "backend_json b =
     ''{\"backend_id\":'' @ dec_u64 (sb_backend_id b) @ '',\"backend_generation\":'' @
     dec_u64 (sb_backend_generation b) @ '',\"backend_boot\":'' @ dec_u64 (sb_backend_boot b) @
     '',\"provider_id\":'' @ dec_u64 (sb_provider_id b) @ '',\"endpoint_id\":'' @ dec_u64 (sb_endpoint_id b) @
     '',\"endpoint_generation\":'' @ dec_u64 (sb_endpoint_generation b) @ '',\"trust_domain\":\"'' @
     TrustDomain_to_string (sb_trust_domain b) @ ''\",\"health\":\"'' @ HealthState_to_string (sb_health b) @
     ''\",\"availability\":\"'' @ AvailabilityState_to_string (sb_availability b) @ ''\",\"readiness\":\"'' @
     ReadinessState_to_string (sb_readiness b) @ ''\",\"residency\":\"'' @
     ResidencyState_to_string (sb_residency b) @ ''\",\"capacity\":\"'' @ CapacityState_to_string (sb_capacity b) @
     ''\",\"fenced\":'' @ json_bool (sb_fenced b) @ '',\"evidence_current\":'' @ json_bool (sb_evidence_current b) @
     '',\"price_known\":'' @ json_bool (sb_price_known b) @ '',\"provenance\":\"'' @
     Provenance_to_string (sb_provenance b) @ ''\"}''"

definition route_json :: "RouteSummary \<Rightarrow> string" where
  "route_json r =
     ''{\"decision_id\":'' @ dec_u64 (sr_decision_id r) @ '',\"status\":\"'' @ RouteStatus_to_string (sr_status r) @
     ''\",\"code\":\"'' @ outcome_to_string (sr_code r) @ ''\",\"currentness\":\"'' @
     Currentness_to_string (sr_currentness r) @ ''\",\"fallbacks\":'' @ dec_u32 (sr_fallback_count r) @
     '',\"digest\":\"'' @ sr_semantic_digest r @ ''\"}''"

definition RouterSnapshot_to_json :: "RouterSnapshot \<Rightarrow> string" where
  "RouterSnapshot_to_json n =
     ''{\"router_id\":'' @ dec_u64 (sn_router_id n) @ '',\"router_epoch\":'' @ dec_u64 (sn_router_epoch n) @
     '',\"coordinator_epoch\":'' @ dec_u64 (sn_coordinator_epoch n) @ '',\"router_boot\":'' @
     dec_u64 (sn_router_boot n) @ '',\"currentness\":\"'' @ Currentness_to_string (sn_currentness n) @
     ''\",\"shutting_down\":'' @ json_bool (sn_shutting_down n) @ '',\"semantic_digest\":\"'' @
     sn_semantic_digest n @ ''\"'' @ '',\"counts\":{\"models\":'' @ dec_u32 (sn_model_count n) @ '',\"backends\":'' @
     dec_u32 (sn_backend_count n) @ '',\"fenced_boots\":'' @ dec_u32 (sn_fenced_boot_count n) @ '',\"decisions\":'' @
     dec_u32 (sn_route_decision_count n) @ '',\"tenants\":'' @ dec_u32 (sn_tenant_count n) @ ''},\"backends\":['' @
     comma_separated (map backend_json (sn_backends n)) @ ''],\"routes\":['' @
     comma_separated (map route_json (sn_routes n)) @ '']}''"

definition RouterSummary_to_text :: "RouterSummary \<Rightarrow> string" where
  "RouterSummary_to_text u =
     ''router='' @ dec_u64 (su_router_id u) @ '' generation='' @ dec_u64 (su_router_generation u) @ '' epoch='' @
     dec_u64 (su_router_epoch u) @ '' coordinator_epoch='' @ dec_u64 (su_coordinator_epoch u) @ '' boot='' @
     dec_u64 (su_router_boot u) @ [CHR 0x0A] @ ''running='' @ dec_bool (su_running u) @ '' shutting_down='' @
     dec_bool (su_shutting_down u) @ '' recovered='' @ dec_bool (su_recovered u) @ [CHR 0x0A] @ ''models='' @
     dec_u32 (su_model_count u) @ '' providers='' @ dec_u32 (su_provider_count u) @ '' backends='' @
     dec_u32 (su_backend_count u) @ '' fenced_boots='' @ dec_u32 (su_fenced_boot_count u) @ '' decisions='' @
     dec_u32 (su_route_decision_count u) @ '' tenants='' @ dec_u32 (su_tenant_count u) @ [CHR 0x0A] @
     ''policy_generation='' @ dec_u64 (su_policy_generation u) @ '' price_generation='' @
     dec_u64 (su_price_generation u) @ '' budget_generation='' @ dec_u64 (su_budget_generation u) @
     '' slo_generation='' @ dec_u64 (su_slo_generation u) @ '' capability_generation='' @
     dec_u64 (su_capability_generation u) @ [CHR 0x0A] @ ''route_requests='' @
     dec_u64 (pc_route_requests (su_counters u)) @ '' route_decisions='' @
     dec_u64 (pc_route_decisions (su_counters u)) @ '' dispatches='' @ dec_u64 (pc_dispatches (su_counters u)) @
     '' rejections='' @ dec_u64 (pc_route_rejections (su_counters u)) @ '' reroutes='' @
     dec_u64 (pc_reroutes (su_counters u)) @ '' fallbacks='' @ dec_u64 (pc_fallbacks_taken (su_counters u)) @
     [CHR 0x0A] @ ''digest='' @ su_semantic_digest u @ [CHR 0x0A]"

definition RouterSummary_to_json :: "RouterSummary \<Rightarrow> string" where
  "RouterSummary_to_json u =
     ''{\"router_id\":'' @ dec_u64 (su_router_id u) @ '',\"router_epoch\":'' @ dec_u64 (su_router_epoch u) @
     '',\"coordinator_epoch\":'' @ dec_u64 (su_coordinator_epoch u) @ '',\"router_boot\":'' @
     dec_u64 (su_router_boot u) @ '',\"running\":'' @ json_bool (su_running u) @ '',\"shutting_down\":'' @
     json_bool (su_shutting_down u) @ '',\"recovered\":'' @ json_bool (su_recovered u) @
     '',\"counts\":{\"models\":'' @ dec_u32 (su_model_count u) @ '',\"providers\":'' @
     dec_u32 (su_provider_count u) @ '',\"backends\":'' @ dec_u32 (su_backend_count u) @ '',\"fenced_boots\":'' @
     dec_u32 (su_fenced_boot_count u) @ '',\"decisions\":'' @ dec_u32 (su_route_decision_count u) @
     '',\"tenants\":'' @ dec_u32 (su_tenant_count u) @ ''},\"generations\":{\"policy\":'' @
     dec_u64 (su_policy_generation u) @ '',\"price\":'' @ dec_u64 (su_price_generation u) @ '',\"budget\":'' @
     dec_u64 (su_budget_generation u) @ '',\"slo\":'' @ dec_u64 (su_slo_generation u) @ '',\"capability\":'' @
     dec_u64 (su_capability_generation u) @ ''},\"counters\":{\"requests\":'' @
     dec_u64 (pc_route_requests (su_counters u)) @ '',\"decisions\":'' @
     dec_u64 (pc_route_decisions (su_counters u)) @ '',\"dispatches\":'' @ dec_u64 (pc_dispatches (su_counters u)) @
     '',\"rejections\":'' @ dec_u64 (pc_route_rejections (su_counters u)) @ '',\"reroutes\":'' @
     dec_u64 (pc_reroutes (su_counters u)) @ '',\"fallbacks\":'' @ dec_u64 (pc_fallbacks_taken (su_counters u)) @
     ''},\"semantic_digest\":\"'' @ su_semantic_digest u @ ''\"}''"

section \<open>What the views show\<close>

lemma snapshot_fields [simp]:
  "sn_backends (snapshot now s) = map (summarize_backend now s \<circ> snd) (cs_backends s)"
  "sn_routes (snapshot now s) = map (summarize_route \<circ> snd) (cs_routes s)"
  "sn_model_count (snapshot now s) = of_nat (length (cs_models s))"
  "sn_backend_count (snapshot now s) = of_nat (length (cs_backends s))"
  "sn_route_decision_count (snapshot now s) = of_nat (length (cs_routes s))"
  "su_model_count (summary s) = of_nat (length (cs_models s))"
  "su_backend_count (summary s) = of_nat (length (cs_backends s))"
  "su_route_decision_count (summary s) = of_nat (length (cs_routes s))"
  by (simp_all add: snapshot_def summary_def Let_def)

lemma unat_count: "n \<le> unat (w :: u32) \<Longrightarrow> unat (of_nat n :: u32) = n"
  using unsigned_less [where ?'a = nat and w = w] by (simp add: unsigned_of_nat take_bit_nat_eq_self)

text \<open>No count has wrapped around, and the entries are the stored identities in ascending order.\<close>

lemma snapshot_exact:
  assumes "router_ok (ids, s)"
  shows "unat (sn_model_count (snapshot now s)) = length (cs_models s)"
    "unat (sn_backend_count (snapshot now s)) = length (sn_backends (snapshot now s))"
    "unat (sn_route_decision_count (snapshot now s)) = length (sn_routes (snapshot now s))"
    "map sb_backend_id (sn_backends (snapshot now s)) = map fst (cs_backends s)"
    "map sr_decision_id (sn_routes (snapshot now s)) = map fst (cs_routes s)"
    "strictly_ascending (map sb_backend_id (sn_backends (snapshot now s)))"
    "strictly_ascending (map sr_decision_id (sn_routes (snapshot now s)))"
proof -
  have ok: "catalog_ok s" "history_ok ids s" "om_ok (cs_routes s)" "om_ok (cs_backends s)"
    using assms by (simp_all add: router_ok_def state_ok_def catalog_ok_def maps_ok_def)
  have bounds: "length (cs_models s) \<le> unat (max_models (cs_limits s))"
    "length (cs_backends s) \<le> unat (max_backends (cs_limits s))"
    "length (cs_routes s) \<le> unat (max_route_history (cs_limits s))"
    using ok(1,2) history_length [OF ok(2,3)] by (simp_all add: catalog_ok_def bounds_ok_def history_ok_def)
  then show "unat (sn_model_count (snapshot now s)) = length (cs_models s)"
    "unat (sn_backend_count (snapshot now s)) = length (sn_backends (snapshot now s))"
    "unat (sn_route_decision_count (snapshot now s)) = length (sn_routes (snapshot now s))"
    by (simp_all add: unat_count)
  have "bd_backend_id b = i" if "(i, b) \<in> set (cs_backends s)" for i b
    using that ok(1) om.entries_find [OF ok(4)] by (auto simp: catalog_ok_def backends_ok_def)
  then show backends: "map sb_backend_id (sn_backends (snapshot now s)) = map fst (cs_backends s)"
    by (auto simp: summarize_backend_def)
  have "rd_decision_id (rec_decision r) = i" if "(i, r) \<in> set (cs_routes s)" for i r
    using that ok(2) om.entries_find [OF ok(3)] by (auto simp: history_ok_def records_ok_def)
  then show routes: "map sr_decision_id (sn_routes (snapshot now s)) = map fst (cs_routes s)"
    by (auto simp: summarize_route_def Let_def)
  show "strictly_ascending (map sb_backend_id (sn_backends (snapshot now s)))"
    "strictly_ascending (map sr_decision_id (sn_routes (snapshot now s)))"
    unfolding backends routes using ok(3,4) by (simp_all add: om_ok_def)
qed

text \<open>A fenced entry is shown exactly when the invariant scan reports a fenced incarnation.\<close>

lemma snapshot_fenced_iff_reported: "list_ex sb_fenced (sn_backends (snapshot now s)) \<longleftrightarrow> scan_fences s \<noteq> []"
proof -
  have "scan_fences s \<noteq> [] \<longleftrightarrow> list_ex (\<lambda>(i, b). om_find (cs_fenced_boots s) (incarnation b) \<noteq> None) (cs_backends s)"
    unfolding scan_fences_def by (simp add: list_ex_iff Ball_def Bex_def split_beta)
  then show ?thesis by (simp add: list_ex_iff summarize_backend_def split_beta)
qed

text \<open>The reported price generation is the highest one bound, or the invalid one where none is.\<close>

lemma foldl_highest:
  fixes g :: "'b::linorder"
  shows "g \<le> foldl (\<lambda>g x. if g < f x then f x else g) g xs"
    and "x \<in> set xs \<Longrightarrow> f x \<le> foldl (\<lambda>g x. if g < f x then f x else g) g xs"
proof (induction xs arbitrary: g)
  case (Cons y ys)
  {
    case 1
    show ?case using Cons.IH(1) [of "if g < f y then f y else g"] by (auto split: if_splits)
  next
    case 2
    then show ?case
      using Cons.IH(1) [of "if g < f y then f y else g"] Cons.IH(2) [of "if g < f y then f y else g"]
      by (auto split: if_splits)
  }
qed simp_all

lemma foldl_over_concat: "foldl h g (concat (map f xs)) = foldl (\<lambda>g x. foldl h g (f x)) g xs"
  by (induction xs arbitrary: g) simp_all

lemma highest_price_bounds:
  assumes "(i, b) \<in> set (cs_backends s)" and "m \<in> set (bd_model_bindings b)"
  shows "co_price_generation (mb_cost m) \<le> highest_price s"
proof -
  have flat: "highest_price s = foldl (\<lambda>g m. if g < co_price_generation (mb_cost m) then co_price_generation (mb_cost m) else g)
      0 (concat (map (bd_model_bindings \<circ> snd) (cs_backends s)))"
    unfolding highest_price_def by (simp add: foldl_over_concat split_def)
  show ?thesis unfolding flat using assms by (intro foldl_highest(2)) force
qed

end
