(* ===== verification/Reference_Catalog.thy ===== *)
theory Reference_Catalog
  imports Router_System
begin

text \<open>
  The synthetic reference profiles (\<open>src/reference_backends.cpp\<close>): the fixed identities, the three
  model descriptors, the backend descriptor of an incarnation and the price evidence.  They are
  coherent, and a router with an empty catalog accepts them.
\<close>

section \<open>Profiles\<close>

record RefCatalog =
  ct_provider :: entity_id
  ct_provider_generation :: generation
  ct_small_model :: entity_id
  ct_small_generation :: generation
  ct_small_artifact :: generation
  ct_general_model :: entity_id
  ct_general_generation :: generation
  ct_general_artifact :: generation
  ct_specialist_model :: entity_id
  ct_specialist_generation :: generation
  ct_specialist_artifact :: generation
  ct_locality :: LocalityKey

definition make_catalog :: RefCatalog where
  "make_catalog =
     \<lparr>ct_provider = 1, ct_provider_generation = 1,
      ct_small_model = 1, ct_small_generation = 1, ct_small_artifact = 1,
      ct_general_model = 2, ct_general_generation = 1, ct_general_artifact = 1,
      ct_specialist_model = 3, ct_specialist_generation = 1, ct_specialist_artifact = 1,
      ct_locality = ''local/loopback''\<rparr>"

definition claim ::
  "CapabilityKey \<Rightarrow> CapabilityState \<Rightarrow> entity_id \<Rightarrow> generation \<Rightarrow> unix_millis \<Rightarrow> string \<Rightarrow> CapabilityEvidence" where
  "claim key state profile_id generation now source =
     \<lparr>ce_key = key, ce_state = state, ce_generation = generation, ce_profile_id = profile_id,
      ce_model_generation = 0, ce_backend_generation = 0, ce_backend_boot = 0, ce_observed_at = now,
      ce_expires_at = kNoExpiry, ce_source = source, ce_detail = []\<rparr>"

definition add_claim ::
  "entity_id \<Rightarrow> generation \<Rightarrow> unix_millis \<Rightarrow> CapabilityProfile \<Rightarrow> CapabilityKey \<times> CapabilityState \<Rightarrow> CapabilityProfile" where
  "add_claim profile_id generation now profile c =
     (case c of (key, state) \<Rightarrow>
        fst (CapabilityProfile_set profile (claim key state profile_id generation now ''reference-profile'') 256))"

text \<open>The part of the three blocks of \<open>make_models\<close> that they share; the claims are added one by one.\<close>

definition reference_model ::
  "entity_id \<Rightarrow> generation \<Rightarrow> generation \<Rightarrow> entity_id \<Rightarrow> u32 \<Rightarrow> u32 \<Rightarrow> ModalitySet \<Rightarrow> QualityClass \<Rightarrow> string \<Rightarrow>
   (CapabilityKey \<times> CapabilityState) list \<Rightarrow> unix_millis \<Rightarrow> ModelDescriptor" where
  "reference_model i generation artifact number context_limit max_output inputs quality name claims now =
     \<lparr>md_model_id = i, md_model_generation = generation, md_model_version_id = number,
      md_artifact_generation = artifact, md_family_id = number, md_context_limit_tokens = context_limit,
      md_max_output_tokens = max_output, md_input_modalities = inputs,
      md_output_modalities = modality_bits Modality.TEXT, md_quality_class = quality,
      md_lifecycle = ModelLifecycle.CURRENT, md_capability_profile_id = number,
      md_capability_generation = 1,
      md_capabilities = foldl (add_claim number 1 now) CapabilityProfile_empty claims,
      md_provenance = Provenance.SYNTHETIC, md_registered_at = now, md_expires_at = kNoExpiry,
      md_display_name = name\<rparr>"

definition make_models :: "RefCatalog \<Rightarrow> unix_millis \<Rightarrow> ModelDescriptor list" where
  "make_models catalog now =
     stable_sort_by (\<lambda>lhs rhs. md_model_id lhs < md_model_id rhs)
       [reference_model (ct_small_model catalog) (ct_small_generation catalog) (ct_small_artifact catalog) 1
          32768 4096 (modality_bits Modality.TEXT) 20 ''reference-small''
          [(''text/generation'', CapabilityState.VERIFIED), (streaming, CapabilityState.DECLARED),
           (structured_output, CapabilityState.DECLARED), (''execution/local'', CapabilityState.VERIFIED)] now,
        reference_model (ct_general_model catalog) (ct_general_generation catalog) (ct_general_artifact catalog) 2
          131072 16384 (modality_bits Modality.TEXT) 60 ''reference-general''
          [(''text/generation'', CapabilityState.VERIFIED), (streaming, CapabilityState.VERIFIED),
           (structured_output, CapabilityState.VERIFIED), (json_schema, CapabilityState.VERIFIED),
           (tool_calling, CapabilityState.VERIFIED), (''task/reasoning'', CapabilityState.DECLARED),
           (''context/long'', CapabilityState.DECLARED), (''execution/local'', CapabilityState.VERIFIED)] now,
        reference_model (ct_specialist_model catalog) (ct_specialist_generation catalog)
          (ct_specialist_artifact catalog) 3
          65536 8192 (or (modality_bits Modality.TEXT) (modality_bits Modality.IMAGE)) 80 ''reference-specialist''
          [(''text/generation'', CapabilityState.VERIFIED), (''task/code'', CapabilityState.VERIFIED),
           (''modality/vision-input'', CapabilityState.VERIFIED), (''modality/multimodal'', CapabilityState.DECLARED),
           (streaming, CapabilityState.DECLARED), (structured_output, CapabilityState.OBSERVED),
           (tool_calling, CapabilityState.DECLARED), (''execution/local'', CapabilityState.VERIFIED)] now]"

definition reference_binding ::
  "unix_millis \<Rightarrow> entity_id \<Rightarrow> generation \<Rightarrow> generation \<Rightarrow> u32 \<Rightarrow> QualityClass \<Rightarrow> ModelBinding" where
  "reference_binding now model_id model_generation artifact_generation context_limit quality =
     \<lparr>mb_model_id = model_id, mb_model_generation = model_generation,
      mb_artifact_generation = artifact_generation, mb_context_limit_tokens = context_limit,
      mb_quality_class = quality, mb_cost = CostEvidence_default, mb_bound_at = now\<rparr>"

definition make_backend ::
  "RefCatalog \<Rightarrow> entity_id \<Rightarrow> generation \<Rightarrow> generation \<Rightarrow> generation \<Rightarrow> string \<Rightarrow> Provenance \<Rightarrow> unix_millis \<Rightarrow>
   BackendDescriptor" where
  "make_backend catalog backend_id backend_generation backend_boot registration endpoint_reference provenance now =
     BackendDescriptor_canonicalize
       \<lparr>bd_backend_id = backend_id, bd_backend_generation = backend_generation,
        bd_backend_boot = backend_boot, bd_backend_registration_generation = registration,
        bd_provider_id = ct_provider catalog, bd_provider_generation = ct_provider_generation catalog,
        bd_endpoint =
          \<lparr>ed_endpoint_id = backend_id * 100 + 1, ed_endpoint_generation = 1, ed_backend_id = backend_id,
           ed_backend_boot = backend_boot, ed_reference = endpoint_reference,
           ed_protocol = ''model_router.reference'', ed_protocol_version = 1\<rparr>,
        bd_trust_profile_id = 1, bd_trust_generation = 1, bd_trust_domain = TrustDomain.LOCAL,
        bd_locality = ct_locality catalog, bd_network_distance = 1,
        bd_capability_profile_id = backend_id * 100 + 2, bd_capability_generation = 0,
        bd_capabilities = CapabilityProfile_empty,
        bd_compatibility_profile_id = backend_id * 100 + 3, bd_compatibility_generation = 0,
        bd_model_bindings =
          [reference_binding now (ct_small_model catalog) (ct_small_generation catalog) (ct_small_artifact catalog) 32768 20,
           reference_binding now (ct_general_model catalog) (ct_general_generation catalog) (ct_general_artifact catalog) 131072 60,
           reference_binding now (ct_specialist_model catalog) (ct_specialist_generation catalog)
             (ct_specialist_artifact catalog) 65536 80],
        bd_health = BackendEvidence_default HealthState.UNKNOWN,
        bd_availability = BackendEvidence_default AvailabilityState.UNKNOWN,
        bd_readiness = BackendEvidence_default ReadinessState.UNKNOWN,
        bd_residency = BackendEvidence_default ResidencyState.UNKNOWN,
        bd_capacity = BackendEvidence_default CapacityState.UNKNOWN,
        bd_capacity_detail = CapacityDetail_default, bd_latency = LatencyEvidence_default,
        bd_reliability_ppm = 0, bd_offline_capable = True, bd_provenance = provenance,
        bd_registered_at = now, bd_expires_at = kNoExpiry\<rparr>"

definition reference_cost_unit :: CostUnit where
  "reference_cost_unit = \<lparr>cu_currency = ''USD'', cu_basis = ''per-million-tokens''\<rparr>"

definition make_cost_evidence ::
  "entity_id \<Rightarrow> entity_id \<Rightarrow> generation \<Rightarrow> int \<Rightarrow> int \<Rightarrow> int \<Rightarrow> unix_millis \<Rightarrow> CostEvidence" where
  "make_cost_evidence backend_id model_id price_generation input_micros output_micros total_micros now =
     CostEvidence_default
       \<lparr>co_evidence_id := backend_id * 1000 + model_id, co_price_generation := price_generation,
        co_backend_id := backend_id, co_model_id := model_id, co_unit := reference_cost_unit,
        co_input_micros_per_unit := input_micros, co_output_micros_per_unit := output_micros,
        co_request_minimum_micros := 0, co_estimated_total_micros := total_micros,
        co_knownness := CostKnownness.QUOTED, co_effective_at := now, co_expires_at := kNoExpiry,
        co_source := ''reference-price-table''\<rparr>"

section \<open>Coherence\<close>

lemma reference_models_valid: "m \<in> set (make_models make_catalog now) \<Longrightarrow> ModelDescriptor_validate m = []"
  by (auto simp: make_models_def make_catalog_def reference_model_def ModelDescriptor_validate_def valid_id_def
      modality_empty_def modality_bits_def)

lemma reference_models_listed: "map md_model_id (make_models make_catalog now) = [1, 2, 3]"
  by (simp add: make_models_def make_catalog_def reference_model_def stable_sort_by_def)

text \<open>The derived endpoint identity is never the invalid one: it is odd.\<close>

lemma reference_endpoint_valid: "valid_id (i * 100 + 1 :: u64)"
proof -
  have "odd (i * 100 + 1)" by simp
  then show ?thesis unfolding valid_id_def by (metis even_zero)
qed

lemma reference_backend_valid:
  assumes "valid_id i" "valid_id generation" "valid_id boot" "valid_id registration" "endpoint_reference \<noteq> []"
  shows "BackendDescriptor_validate (make_backend make_catalog i generation boot registration endpoint_reference p now) = []"
  using assms reference_endpoint_valid [of i]
  by (simp add: make_backend_def make_catalog_def BackendDescriptor_validate_def BackendDescriptor_canonicalize_def
      EndpointDescriptor_validate_def reference_binding_def valid_id_def sort_unique_by_def)

end
