(* ===== verification/Policy_Builder.thy ===== *)
theory Policy_Builder
  imports Policy
begin

text \<open>
  \<open>PolicyBuilder\<close> of \<open>src/policy.cpp\<close>: every call changes one field of the policy under construction
  and \<open>build\<close> returns its canonical form.
\<close>

definition PolicyBuilder_new :: "entity_id \<Rightarrow> generation \<Rightarrow> PolicySnapshot" where
  "PolicyBuilder_new policy_id generation = PolicySnapshot_default\<lparr>ps_policy_id := policy_id, ps_generation := generation\<rparr>"

definition PolicyBuilder_deny_model :: "entity_id \<Rightarrow> PolicySnapshot \<Rightarrow> PolicySnapshot" where
  "PolicyBuilder_deny_model model_id p = p\<lparr>ps_denied_models := ps_denied_models p @ [model_id]\<rparr>"

definition PolicyBuilder_allow_model :: "entity_id \<Rightarrow> PolicySnapshot \<Rightarrow> PolicySnapshot" where
  "PolicyBuilder_allow_model model_id p = p\<lparr>ps_allowed_models := ps_allowed_models p @ [model_id]\<rparr>"

definition PolicyBuilder_deny_provider :: "entity_id \<Rightarrow> PolicySnapshot \<Rightarrow> PolicySnapshot" where
  "PolicyBuilder_deny_provider provider_id p = p\<lparr>ps_denied_providers := ps_denied_providers p @ [provider_id]\<rparr>"

definition PolicyBuilder_allow_provider :: "entity_id \<Rightarrow> PolicySnapshot \<Rightarrow> PolicySnapshot" where
  "PolicyBuilder_allow_provider provider_id p = p\<lparr>ps_allowed_providers := ps_allowed_providers p @ [provider_id]\<rparr>"

definition PolicyBuilder_deny_backend :: "entity_id \<Rightarrow> PolicySnapshot \<Rightarrow> PolicySnapshot" where
  "PolicyBuilder_deny_backend backend_id p = p\<lparr>ps_denied_backends := ps_denied_backends p @ [backend_id]\<rparr>"

definition PolicyBuilder_allow_backend :: "entity_id \<Rightarrow> PolicySnapshot \<Rightarrow> PolicySnapshot" where
  "PolicyBuilder_allow_backend backend_id p = p\<lparr>ps_allowed_backends := ps_allowed_backends p @ [backend_id]\<rparr>"

definition PolicyBuilder_deny_family :: "entity_id \<Rightarrow> PolicySnapshot \<Rightarrow> PolicySnapshot" where
  "PolicyBuilder_deny_family family_id p = p\<lparr>ps_denied_model_families := ps_denied_model_families p @ [family_id]\<rparr>"

definition PolicyBuilder_prefer_family :: "entity_id \<Rightarrow> PolicySnapshot \<Rightarrow> PolicySnapshot" where
  "PolicyBuilder_prefer_family family_id p = p\<lparr>ps_preferred_model_families := ps_preferred_model_families p @ [family_id]\<rparr>"

definition PolicyBuilder_allow_locality :: "LocalityKey \<Rightarrow> PolicySnapshot \<Rightarrow> PolicySnapshot" where
  "PolicyBuilder_allow_locality locality p = p\<lparr>ps_allowed_localities := ps_allowed_localities p @ [locality]\<rparr>"

definition PolicyBuilder_deny_locality :: "LocalityKey \<Rightarrow> PolicySnapshot \<Rightarrow> PolicySnapshot" where
  "PolicyBuilder_deny_locality locality p = p\<lparr>ps_denied_localities := ps_denied_localities p @ [locality]\<rparr>"

definition PolicyBuilder_bind_tenant :: "entity_id \<Rightarrow> PolicySnapshot \<Rightarrow> PolicySnapshot" where
  "PolicyBuilder_bind_tenant tenant p = p\<lparr>ps_bound_tenants := ps_bound_tenants p @ [tenant]\<rparr>"

definition PolicyBuilder_permit_fallback_outcome :: "OutcomeCode \<Rightarrow> PolicySnapshot \<Rightarrow> PolicySnapshot" where
  "PolicyBuilder_permit_fallback_outcome code p = p\<lparr>ps_fallback_permitted_outcomes := ps_fallback_permitted_outcomes p @ [code]\<rparr>"

definition PolicyBuilder_minimum_trust :: "TrustDomain \<Rightarrow> PolicySnapshot \<Rightarrow> PolicySnapshot" where
  "PolicyBuilder_minimum_trust domain p = p\<lparr>ps_minimum_trust := domain\<rparr>"

definition PolicyBuilder_minimum_capability_evidence :: "CapabilityState \<Rightarrow> PolicySnapshot \<Rightarrow> PolicySnapshot" where
  "PolicyBuilder_minimum_capability_evidence state p = p\<lparr>ps_minimum_capability_evidence := state\<rparr>"

definition PolicyBuilder_quality_floor :: "QualityClass \<Rightarrow> PolicySnapshot \<Rightarrow> PolicySnapshot" where
  "PolicyBuilder_quality_floor quality p = p\<lparr>ps_quality_floor := quality\<rparr>"

definition PolicyBuilder_maximum_request_cost :: "Money \<Rightarrow> PolicySnapshot \<Rightarrow> PolicySnapshot" where
  "PolicyBuilder_maximum_request_cost cost p = p\<lparr>ps_maximum_request_cost := cost\<rparr>"

definition PolicyBuilder_maximum_latency :: "u32 \<Rightarrow> PolicySnapshot \<Rightarrow> PolicySnapshot" where
  "PolicyBuilder_maximum_latency micros p = p\<lparr>ps_maximum_latency_micros := micros\<rparr>"

definition PolicyBuilder_local_only :: "bool \<Rightarrow> PolicySnapshot \<Rightarrow> PolicySnapshot" where
  "PolicyBuilder_local_only value p = p\<lparr>ps_local_only := value\<rparr>"

definition PolicyBuilder_deny_public_remote :: "bool \<Rightarrow> PolicySnapshot \<Rightarrow> PolicySnapshot" where
  "PolicyBuilder_deny_public_remote value p = p\<lparr>ps_deny_public_remote := value\<rparr>"

definition PolicyBuilder_fallback_policy :: "FallbackPolicy \<Rightarrow> PolicySnapshot \<Rightarrow> PolicySnapshot" where
  "PolicyBuilder_fallback_policy value p = p\<lparr>ps_fallback_policy := value\<rparr>"

definition PolicyBuilder_max_fallback_depth :: "u32 \<Rightarrow> PolicySnapshot \<Rightarrow> PolicySnapshot" where
  "PolicyBuilder_max_fallback_depth depth p = p\<lparr>ps_max_fallback_depth := depth\<rparr>"

definition PolicyBuilder_max_provider_concentration_ppm :: "u32 \<Rightarrow> PolicySnapshot \<Rightarrow> PolicySnapshot" where
  "PolicyBuilder_max_provider_concentration_ppm ppm p = p\<lparr>ps_max_provider_concentration_ppm := ppm\<rparr>"

definition PolicyBuilder_allow_unlisted_models :: "bool \<Rightarrow> PolicySnapshot \<Rightarrow> PolicySnapshot" where
  "PolicyBuilder_allow_unlisted_models value p = p\<lparr>ps_allow_unlisted_models := value\<rparr>"

definition PolicyBuilder_allow_unlisted_providers :: "bool \<Rightarrow> PolicySnapshot \<Rightarrow> PolicySnapshot" where
  "PolicyBuilder_allow_unlisted_providers value p = p\<lparr>ps_allow_unlisted_providers := value\<rparr>"

definition PolicyBuilder_allow_unlisted_backends :: "bool \<Rightarrow> PolicySnapshot \<Rightarrow> PolicySnapshot" where
  "PolicyBuilder_allow_unlisted_backends value p = p\<lparr>ps_allow_unlisted_backends := value\<rparr>"

definition PolicyBuilder_expires_at :: "unix_millis \<Rightarrow> PolicySnapshot \<Rightarrow> PolicySnapshot" where
  "PolicyBuilder_expires_at unix_time p = p\<lparr>ps_expires_at := unix_time\<rparr>"

definition PolicyBuilder_build :: "PolicySnapshot \<Rightarrow> PolicySnapshot" where
  "PolicyBuilder_build p = PolicySnapshot_canonicalize p"

lemmas policy_builder_calls =
  PolicyBuilder_new_def PolicyBuilder_deny_model_def PolicyBuilder_allow_model_def
  PolicyBuilder_deny_provider_def PolicyBuilder_allow_provider_def PolicyBuilder_deny_backend_def
  PolicyBuilder_allow_backend_def PolicyBuilder_deny_family_def PolicyBuilder_prefer_family_def
  PolicyBuilder_allow_locality_def PolicyBuilder_deny_locality_def PolicyBuilder_bind_tenant_def
  PolicyBuilder_permit_fallback_outcome_def PolicyBuilder_minimum_trust_def
  PolicyBuilder_minimum_capability_evidence_def PolicyBuilder_quality_floor_def
  PolicyBuilder_maximum_request_cost_def PolicyBuilder_maximum_latency_def
  PolicyBuilder_local_only_def PolicyBuilder_deny_public_remote_def PolicyBuilder_fallback_policy_def
  PolicyBuilder_max_fallback_depth_def PolicyBuilder_max_provider_concentration_ppm_def
  PolicyBuilder_allow_unlisted_models_def PolicyBuilder_allow_unlisted_providers_def
  PolicyBuilder_allow_unlisted_backends_def PolicyBuilder_expires_at_def

end
