(* ===== verification/Coordinator.thy ===== *)
theory Coordinator
  imports Router_Control Snapshot Reference_Catalog Policy_Builder Wire_Messages Durable_Store
begin

text \<open>
  The reference coordinator: \<open>reference/coordinator.hpp\<close> and \<open>reference/coordinator.cpp\<close>.  One process
  hosts the router and serves framed connections, one thread each.  A worker registers its backend
  over its connection, which creates a \<open>BackendLink\<close>; an administrator asks for dispatches, which are
  sent over the link of the target and wait for the worker's result.

  The links live in a heap, since the table of links, the session that resolved one and a waiting
  dispatch share them.  What the environment decides is collected in \<open>surroundings\<close>: the time, the
  error, if any, of sending the reply and of forwarding a dispatch, and what the file calls of \<open>save\<close>
  and \<open>load\<close> return.  \<open>ko_joining\<close> says that \<open>stop\<close> is waiting for the sessions.
\<close>

section \<open>State\<close>

record BackendLink =
  bl_backend_id :: entity_id
  bl_backend_generation :: generation
  bl_backend_boot :: generation
  bl_connection :: nat
  bl_results :: "(entity_id, DispatchResultMessage) omap"
  bl_closed :: bool

text \<open>A dispatch that waits for its result: what \<open>dispatch\<close> and \<open>handoff\<close> hold in local variables.\<close>

record Waiting =
  pn_now :: unix_millis
  pn_decision_id :: entity_id
  pn_stored :: RouteRecord
  pn_candidate :: RouteCandidate
  pn_epoch :: generation
  pn_coordinator_epoch :: generation
  pn_link :: nat
  pn_message :: DispatchMessage

text \<open>A session thread: reading frames, inside a dispatch, past its loop, or finished.  It carries the
  link it has resolved.\<close>

datatype session_state =
    Serving "nat option"
  | Dispatching "nat option" Waiting
  | Leaving "nat option"
  | Finished "nat option"

record CoordinatorOptions =
  op_limits :: ResourceLimits
  op_state_path :: string
  op_load_on_start :: bool
  op_save_on_shutdown :: bool
  op_router_generation :: generation

record CoordinatorState =
  ko_options :: CoordinatorOptions
  ko_catalog :: RefCatalog
  ko_router :: router
  ko_links :: "(entity_id, nat) omap"
  ko_heap :: "BackendLink list"
  ko_requests :: "(entity_id, RouteRequest) omap"
  ko_evidence_generations :: "(entity_id, u64) omap"
  ko_stopping :: bool
  ko_joining :: bool
  ko_sessions :: "(nat, session_state) omap"
  ko_sessions_served :: u64
  ko_frames_handled :: u64

record surroundings =
  sr_now :: unix_millis
  sr_sent :: "string option"
  sr_forwarded :: "string option"
  sr_writes :: write_calls
  sr_reads :: read_calls

definition ko_limits :: "CoordinatorState \<Rightarrow> ResourceLimits" where
  "ko_limits c = op_limits (ko_options c)"

definition live_links :: "CoordinatorState \<Rightarrow> u32" where
  "live_links c = of_nat (length (ko_links c))"

text \<open>Calling an operation of the router that answers with a \<open>MutationResult\<close>.\<close>

definition router_call :: "unix_millis \<Rightarrow> catalog_command \<Rightarrow> CoordinatorState \<Rightarrow> MutationResult \<times> CoordinatorState" where
  "router_call now command c =
     (case execute now command (snd (ko_router c)) of
        (result, s) \<Rightarrow> (result, c\<lparr>ko_router := (fst (ko_router c), s)\<rparr>))"

section \<open>Replies\<close>

text \<open>What \<open>handle_frame\<close> ends with: a frame to send whose outcome it returns, a value, the request to
  leave the loop, or a dispatch that waits.\<close>

datatype answer = Reply Frame | Return bool | Bye | Wait Waiting

definition reply_error :: "ResourceLimits \<Rightarrow> OutcomeCode \<Rightarrow> string \<Rightarrow> answer" where
  "reply_error limits code detail =
     (case encode_error limits \<lparr>em_code = code, em_detail = detail\<rparr> of
        Inl _ \<Rightarrow> Return False
      | Inr payload \<Rightarrow> Reply (make_frame ERROR_MESSAGE payload))"

definition reply :: "ResourceLimits \<Rightarrow> MessageType \<Rightarrow> string + u8 list \<Rightarrow> answer" where
  "reply limits type encoded =
     (case encoded of
        Inl error \<Rightarrow> reply_error limits REJECT_INVALID error
      | Inr payload \<Rightarrow> Reply (make_frame type payload))"

definition reply_status :: "ResourceLimits \<Rightarrow> OutcomeCode \<Rightarrow> string \<Rightarrow> answer" where
  "reply_status limits code detail =
     (case encode_admin_response limits \<lparr>as_code = code, as_detail = detail, as_json = []\<rparr> of
        Inl _ \<Rightarrow> Return False
      | Inr payload \<Rightarrow> Reply (make_frame ADMIN_RESPONSE payload))"

text \<open>The frame of every case: a payload that does not decode is answered with its error.\<close>

definition decoded ::
  "(string + 'a) option \<Rightarrow> CoordinatorState \<Rightarrow> ('a \<Rightarrow> (answer \<times> CoordinatorState) option) \<Rightarrow>
   (answer \<times> CoordinatorState) option" where
  "decoded result c handle =
     (case result of
        None \<Rightarrow> None
      | Some (Inl error) \<Rightarrow> Some (reply_error (ko_limits c) REJECT_INVALID error, c)
      | Some (Inr m) \<Rightarrow> handle m)"

text \<open>A mutation that has no response message of its own.\<close>

definition status_call :: "unix_millis \<Rightarrow> authority_command \<Rightarrow> CoordinatorState \<Rightarrow> (answer \<times> CoordinatorState) option" where
  "status_call now command c =
     (case router_call now (Authority command) c of
        (result, c') \<Rightarrow> Some (reply_status (ko_limits c) (mr_code result) (ex_message (mr_explanation result)), c'))"

section \<open>Workers\<close>

definition product_string :: string where
  "product_string = ''Model Router 1.0.0''"

definition handle_hello :: "HelloMessage \<Rightarrow> CoordinatorState \<Rightarrow> (answer \<times> CoordinatorState) option" where
  "handle_hello hello c =
     (let s = snd (ko_router c) in
      Some (reply (ko_limits c) HELLO_ACK (encode_hello_ack (ko_limits c)
        \<lparr>ha_router_id = cs_router_id s, ha_router_epoch = cs_router_epoch s,
         ha_coordinator_epoch = cs_coordinator_epoch s, ha_code = ACCEPTED, ha_detail = product_string\<rparr>), c))"

definition new_link :: "nat \<Rightarrow> BackendDescriptor \<Rightarrow> BackendLink" where
  "new_link connection b =
     \<lparr>bl_backend_id = bd_backend_id b, bl_backend_generation = bd_backend_generation b,
      bl_backend_boot = bd_backend_boot b, bl_connection = connection, bl_results = om_empty, bl_closed = False\<rparr>"

definition install_link :: "BackendLink \<Rightarrow> CoordinatorState \<Rightarrow> CoordinatorState" where
  "install_link link c =
     c\<lparr>ko_heap := ko_heap c @ [link], ko_links := om_put (bl_backend_id link) (length (ko_heap c)) (ko_links c)\<rparr>"

definition handle_register ::
  "unix_millis \<Rightarrow> nat \<Rightarrow> BackendDescriptor \<Rightarrow> CoordinatorState \<Rightarrow> (answer \<times> CoordinatorState) option" where
  "handle_register now connection b c =
     (case router_call now (Authority (RegisterBackend b)) c of
        (result, c') \<Rightarrow>
          Some (reply (ko_limits c) BACKEND_REGISTER_ACK (encode_backend_register_ack (ko_limits c)
                  \<lparr>br_backend_id = bd_backend_id b, br_backend_boot = bd_backend_boot b,
                   br_code = mr_code result, br_detail = ex_message (mr_explanation result)\<rparr>),
                if mr_accepted result then install_link (new_link connection b) c' else c'))"

text \<open>The loop over \<open>links_\<close> takes the first link of the connection, in order of backend.\<close>

definition link_of :: "nat \<Rightarrow> CoordinatorState \<Rightarrow> nat option" where
  "link_of connection c =
     map_option snd (find (\<lambda>(_, a). bl_connection (ko_heap c ! a) = connection) (ko_links c))"

definition update_link :: "nat \<Rightarrow> (BackendLink \<Rightarrow> BackendLink) \<Rightarrow> CoordinatorState \<Rightarrow> CoordinatorState" where
  "update_link a f c = c\<lparr>ko_heap := (ko_heap c)[a := f (ko_heap c ! a)]\<rparr>"

definition put_result :: "DispatchResultMessage \<Rightarrow> BackendLink \<Rightarrow> BackendLink" where
  "put_result m link = link\<lparr>bl_results := om_put (dx_dispatch_id m) m (bl_results link)\<rparr>"

definition handle_dispatch_result ::
  "nat \<Rightarrow> DispatchResultMessage \<Rightarrow> CoordinatorState \<Rightarrow> (answer \<times> CoordinatorState) option" where
  "handle_dispatch_result connection m c =
     Some (Return True,
       case link_of connection c of None \<Rightarrow> c | Some a \<Rightarrow> update_link a (put_result m) c)"

section \<open>Clients\<close>

definition rejection_text :: "RouteRejection \<Rightarrow> string" where
  "rejection_text r =
     '' | model='' @ dec_u64 (rj_model_id r) @ '' backend='' @ dec_u64 (rj_backend_id r) @
     '' code='' @ outcome_to_string (rj_code r) @ '' '' @ rj_detail r"

definition retain_request :: "entity_id \<Rightarrow> RouteRequest \<Rightarrow> CoordinatorState \<Rightarrow> CoordinatorState" where
  "retain_request decision_id request c =
     c\<lparr>ko_requests := om_put decision_id request
         (if length (ko_requests c) \<ge> unat (max_route_requests (ko_limits c)) then om_empty else ko_requests c)\<rparr>"

definition handle_route :: "unix_millis \<Rightarrow> RouteRequest \<Rightarrow> CoordinatorState \<Rightarrow> (answer \<times> CoordinatorState) option" where
  "handle_route now request c =
     (case route ProviderSet_default now request (fst (ko_router c)) (snd (ko_router c)) of
        (outcome, ids, s) \<Rightarrow>
          let c' = c\<lparr>ko_router := (ids, s)\<rparr>;
              response = \<lparr>rm_code = ro_code outcome, rm_decision = ro_decision outcome,
                rm_has_decision = ro_has_decision outcome,
                rm_detail = ex_message (ro_explanation outcome) @
                  (if ro_has_decision outcome then []
                   else concat (map rejection_text (xp_rejections (ro_route outcome))))\<rparr> in
          Some (reply (ko_limits c) ROUTE_RESPONSE (encode_route_response (ko_limits c) response),
                if ro_has_decision outcome then retain_request (rd_decision_id (ro_decision outcome)) request c' else c'))"

definition encode_snapshot :: "ResourceLimits \<Rightarrow> string \<Rightarrow> string + u8 list" where
  "encode_snapshot limits json = encode_message (put_string limits json)"

definition handle_snapshot :: "unix_millis \<Rightarrow> CoordinatorState \<Rightarrow> (answer \<times> CoordinatorState) option" where
  "handle_snapshot now c =
     Some (reply (ko_limits c) SNAPSHOT_RESPONSE
       (encode_snapshot (ko_limits c) (RouterSnapshot_to_json (snapshot now (snd (ko_router c))))), c)"

end
