(* ===== verification/Coordinator_Admin.thy ===== *)
theory Coordinator_Admin
  imports Coordinator
begin

text \<open>
  What an administrator asks of the coordinator: \<open>handle_admin\<close> of \<open>reference/coordinator.cpp\<close>, the
  dispatcher it installs in the router, and \<open>handle_frame\<close>.  A dispatch is cut where it waits: the part
  up to sending the \<open>DISPATCH\<close> frame, and the part after the result has arrived or the link has closed.
\<close>

section \<open>Dispatching over a link\<close>

text \<open>The stages of \<open>dispatch\<close> before the dispatcher is called, with the state that revalidation
  leaves.\<close>

definition dispatch_until_handoff ::
  "ProviderSet \<Rightarrow> unix_millis \<Rightarrow> entity_id \<Rightarrow> CanonicalState \<Rightarrow> (DispatchRecord + RouteRecord \<times> RouteCandidate) \<times> CanonicalState" where
  "dispatch_until_handoff providers now decision_id s =
     (case dispatch_start decision_id s of
        Inl refused \<Rightarrow> (Inl refused, s)
      | Inr stored \<Rightarrow>
          let record = dispatch_record decision_id stored in
          (case first_reject (tenancy_refusals 0 0 (rec_tenant stored) (rec_name_space stored)) of
             Some (code, detail) \<Rightarrow> (Inl (record\<lparr>dr_code := code, dr_detail := detail\<rparr>), s)
           | None \<Rightarrow>
               let (revalidated, s') = revalidate now decision_id 0 0 s;
                   checked = record\<lparr>dr_revalidated := True\<rparr> in
               if \<not> mr_accepted revalidated
                 then (Inl (checked\<lparr>dr_code := mr_code revalidated,
                        dr_failure := classify_failure (mr_code revalidated),
                        dr_detail := ex_message (mr_explanation revalidated), dr_dispatched_at := now\<rparr>), s')
               else (case dispatch_target providers now stored s' s' checked of
                       Inl refused \<Rightarrow> (Inl refused, s')
                     | Inr candidate \<Rightarrow> (Inr (stored, candidate), s'))))"

text \<open>The stages after it.\<close>

definition dispatch_after_handoff ::
  "unix_millis \<Rightarrow> entity_id \<Rightarrow> RouteRecord \<Rightarrow> RouteCandidate \<Rightarrow> generation \<Rightarrow> generation \<Rightarrow> DispatchRecord \<Rightarrow> router \<Rightarrow>
   DispatchRecord \<times> router" where
  "dispatch_after_handoff now decision_id stored candidate epoch coordinator_epoch answered x =
     (let answer = handoff_record now decision_id stored candidate answered in
      if dr_handed_off answer
        then record_dispatch decision_id epoch coordinator_epoch answer (fst x) (snd x)
      else (answer, x))"

text \<open>The two parts put together on one state are \<open>dispatch\<close>, whatever the dispatcher answers.\<close>

lemma dispatch_in_two_parts:
  "dispatch (ProviderSet_default\<lparr>pr_dispatcher := Some handler\<rparr>) now i 0 0 ids s =
     (case dispatch_until_handoff (ProviderSet_default\<lparr>pr_dispatcher := Some handler\<rparr>) now i s of
        (Inl refused, s') \<Rightarrow> (refused, ids, s')
      | (Inr (stored, candidate), s') \<Rightarrow>
          dispatch_after_handoff now i stored candidate (cs_router_epoch s') (cs_coordinator_epoch s')
            (handler (rec_decision stored) (rec_plan stored)
               (make_context s' (rec_tenant stored) (rec_name_space stored) now)) (ids, s'))"
  by (simp add: dispatch_def dispatch_until_handoff_def dispatch_after_handoff_def dispatch_handoff_def Let_def
      split_beta split: sum.split option.split)

definition handoff_base :: "RouteRecord \<Rightarrow> DispatchRecord" where
  "handoff_base stored = DispatchRecord_default
     \<lparr>dr_decision_id := rd_decision_id (rec_decision stored),
      dr_decision_generation := rd_decision_generation (rec_decision stored),
      dr_target := pl_primary (rec_plan stored)\<rparr>"

definition handoff_refused :: "RouteRecord \<Rightarrow> OutcomeCode \<Rightarrow> FailureClass \<Rightarrow> string \<Rightarrow> DispatchRecord" where
  "handoff_refused stored code failure detail =
     (handoff_base stored)\<lparr>dr_code := code, dr_failure := failure, dr_detail := detail\<rparr>"

definition dispatch_message :: "entity_id \<Rightarrow> RouteRecord \<Rightarrow> DispatchMessage" where
  "dispatch_message dispatch_id stored =
     \<lparr>dm_dispatch_id = dispatch_id, dm_dispatch_generation = 1,
      dm_decision_id = rd_decision_id (rec_decision stored),
      dm_decision_generation = rd_decision_generation (rec_decision stored),
      dm_target = pl_primary (rec_plan stored), dm_attempt = 1\<rparr>"

text \<open>\<open>Dispatcher::handoff\<close> up to its wait: an answer, or the link with the message that went out on it.\<close>

definition handoff_send ::
  "string option \<Rightarrow> RouteRecord \<Rightarrow> CoordinatorState \<Rightarrow> u64 \<Rightarrow> (DispatchRecord + nat \<times> DispatchMessage) \<times> u64" where
  "handoff_send sent stored c ids =
     (case om_find (ko_links c) (ck_backend_id (pl_primary (rec_plan stored))) of
        None \<Rightarrow> (Inl (handoff_refused stored REJECT_STALE_BACKEND BACKEND_UNAVAILABLE
                  ''no live backend worker connection for the target backend''), ids)
      | Some a \<Rightarrow>
          if bl_backend_boot (ko_heap c ! a) \<noteq> ck_backend_boot (pl_primary (rec_plan stored))
            then (Inl (handoff_refused stored REJECT_STALE_BACKEND_BOOT BACKEND_RESTARTED
                    ''live connection belongs to a different backend incarnation''), ids)
          else
            let (ids', dispatch_id) = IdAllocator_next ids; message = dispatch_message dispatch_id stored in
            (case encode_dispatch (ko_limits c) message of
               Inl error \<Rightarrow> (Inl (handoff_refused stored REJECT_INVALID FailureClass.UNKNOWN error), ids')
             | Inr payload \<Rightarrow>
                 (case sent of
                    Some error \<Rightarrow> (Inl (handoff_refused stored REJECT_UNAVAILABLE BACKEND_UNAVAILABLE error), ids')
                  | None \<Rightarrow> (Inr (a, message), ids'))))"

text \<open>After the wait; \<open>None\<close> while its condition does not hold.\<close>

definition handoff_receive :: "RouteRecord \<Rightarrow> DispatchMessage \<Rightarrow> BackendLink \<Rightarrow> (DispatchRecord \<times> BackendLink) option" where
  "handoff_receive stored message link =
     (case om_find (bl_results link) (dm_dispatch_id message) of
        None \<Rightarrow>
          if bl_closed link
            then Some (handoff_refused stored REJECT_UNAVAILABLE BACKEND_UNAVAILABLE
                   ''backend connection closed before the dispatch result arrived'', link)
          else None
      | Some result \<Rightarrow>
          Some ((handoff_base stored)
              \<lparr>dr_dispatch_id := dm_dispatch_id message, dr_dispatch_generation := dm_dispatch_generation message,
               dr_code := dx_code result, dr_failure := dx_failure result,
               dr_handed_off := (dx_code result = OutcomeCode.DISPATCHED), dr_dispatched_at := 1,
               dr_detail := dx_detail result\<rparr>,
            link\<lparr>bl_results := om_erase (dm_dispatch_id message) (bl_results link)\<rparr>))"

section \<open>Administration\<close>

definition admin_ok :: AdminResponse where
  "admin_ok = \<lparr>as_code = ACCEPTED, as_detail = [], as_json = []\<rparr>"

definition apply_result :: "MutationResult \<Rightarrow> AdminResponse" where
  "apply_result result =
     \<lparr>as_code = mr_code result, as_detail = Explanation_to_text (mr_explanation result), as_json = []\<rparr>"

definition admin_call :: "unix_millis \<Rightarrow> authority_command \<Rightarrow> CoordinatorState \<Rightarrow> (AdminResponse \<times> CoordinatorState) option" where
  "admin_call now command c =
     (case router_call now (Authority command) c of (result, c') \<Rightarrow> Some (apply_result result, c'))"

definition dispatch_response :: "DispatchRecord \<Rightarrow> AdminResponse" where
  "dispatch_response r =
     \<lparr>as_code = dr_code r, as_detail = outcome_to_string (dr_code r) @ '' '' @ dr_detail r,
      as_json = ''{\"code\":\"'' @ outcome_to_string (dr_code r) @ ''\",\"handed_off\":'' @
        json_bool (dr_handed_off r) @ ''}''\<rparr>"

definition admin_revalidate :: "unix_millis \<Rightarrow> entity_id \<Rightarrow> CoordinatorState \<Rightarrow> (AdminResponse \<times> CoordinatorState) option" where
  "admin_revalidate now decision_id c =
     (case revalidate now decision_id 0 0 (snd (ko_router c)) of
        (result, s) \<Rightarrow> Some (apply_result result, c\<lparr>ko_router := (fst (ko_router c), s)\<rparr>))"

text \<open>The failure class is cast from the low byte of the value; a byte that is no enumerator gives
  \<open>None\<close>.\<close>

definition admin_reroute ::
  "unix_millis \<Rightarrow> AdminRequest \<Rightarrow> CoordinatorState \<Rightarrow> (AdminResponse \<times> CoordinatorState) option" where
  "admin_reroute now q c =
     (case om_find (ko_requests c) (aq_decision_id q) of
        None \<Rightarrow> Some (admin_ok\<lparr>as_code := REJECT_INVALID, as_detail := ''no retained request for the decision''\<rparr>, c)
      | Some stored \<Rightarrow>
          (case enum_at failure_classes (unat (aq_value q) mod 256) of
             None \<Rightarrow> None
           | Some failure \<Rightarrow>
               (case reroute ProviderSet_default now (aq_decision_id q) failure stored (fst (ko_router c)) (snd (ko_router c)) of
                  (outcome, ids, s) \<Rightarrow>
                    let c' = c\<lparr>ko_router := (ids, s)\<rparr>;
                        response = \<lparr>as_code = ro_code outcome, as_detail = Explanation_to_text (ro_explanation outcome),
                          as_json = (if ro_has_decision outcome then dec_u64 (rd_decision_id (ro_decision outcome)) else [])\<rparr> in
                    Some (response,
                      if ro_has_decision outcome
                      then c'\<lparr>ko_requests := om_put (rd_decision_id (ro_decision outcome)) stored (ko_requests c')\<rparr>
                      else c'))))"

definition admin_policy :: "generation \<Rightarrow> (PolicySnapshot \<Rightarrow> PolicySnapshot) \<Rightarrow> PolicySnapshot" where
  "admin_policy generation deny =
     PolicyBuilder_build (PolicyBuilder_max_fallback_depth 4 (PolicyBuilder_fallback_policy PERMITTED
       (deny (PolicyBuilder_new 1 generation))))"

definition admin_budget :: "AdminRequest \<Rightarrow> BudgetSnapshot" where
  "admin_budget q = BudgetSnapshot_default
     \<lparr>bs_budget_id := 1, bs_generation := aq_generation q,
      bs_verdict := (if aq_op q = AdminOp.SET_BUDGET_DENIED then DENIED else ALLOWED), bs_unit := reference_cost_unit\<rparr>"

text \<open>The three prices, each set only when the one before was accepted.  A product outside 64 bits is
  undefined in the source and gives \<open>None\<close>.\<close>

fun set_prices ::
  "unix_millis \<Rightarrow> AdminRequest \<Rightarrow> MutationResult option \<Rightarrow> (entity_id \<times> int) list \<Rightarrow> CoordinatorState \<Rightarrow>
   (MutationResult option \<times> CoordinatorState) option" where
  "set_prices now q prior [] c = Some (prior, c)"
| "set_prices now q prior ((model_id, factor) # rest) c =
     (if (case prior of None \<Rightarrow> False | Some result \<Rightarrow> \<not> mr_accepted result) then Some (prior, c)
      else
        let price = sint (aq_value q) * factor in
        if \<not> in_int64 price then None
        else case router_call now (Authority (SetCost (make_cost_evidence (aq_backend_id q) model_id (aq_generation q)
               price price price 1))) c of
            (result, c') \<Rightarrow> set_prices now q (Some result) rest c')"

definition admin_price :: "unix_millis \<Rightarrow> AdminRequest \<Rightarrow> CoordinatorState \<Rightarrow> (AdminResponse \<times> CoordinatorState) option" where
  "admin_price now q c =
     (case set_prices now q None [(ct_small_model (ko_catalog c), 1), (ct_general_model (ko_catalog c), 3),
             (ct_specialist_model (ko_catalog c), 5)] c of
        Some (Some result, c') \<Rightarrow> Some (apply_result result, c')
      | _ \<Rightarrow> None)"

text \<open>The operations on a registered backend share their refusal and, but for the fence, the counter
  of evidence generations.\<close>

definition with_backend ::
  "entity_id \<Rightarrow> CoordinatorState \<Rightarrow> (BackendDescriptor \<Rightarrow> (AdminResponse \<times> CoordinatorState) option) \<Rightarrow>
   (AdminResponse \<times> CoordinatorState) option" where
  "with_backend backend_id c operate =
     (case find_backend backend_id (snd (ko_router c)) of
        None \<Rightarrow> Some (admin_ok\<lparr>as_code := REJECT_STALE_BACKEND, as_detail := ''backend is not registered''\<rparr>, c)
      | Some backend \<Rightarrow> operate backend)"

definition next_evidence :: "entity_id \<Rightarrow> generation \<Rightarrow> CoordinatorState \<Rightarrow> generation \<times> CoordinatorState" where
  "next_evidence backend_id seen c =
     (let counter = max (case om_find (ko_evidence_generations c) backend_id of None \<Rightarrow> 0 | Some n \<Rightarrow> n) seen + 1 in
      (counter, c\<lparr>ko_evidence_generations := om_put backend_id counter (ko_evidence_generations c)\<rparr>))"

definition capability_state_from :: "u64 \<Rightarrow> CapabilityState" where
  "capability_state_from value =
     (case enum_at capability_states (unat value mod 256) of None \<Rightarrow> CapabilityState.REVOKED | Some state \<Rightarrow> state)"

definition revocation :: "AdminRequest \<Rightarrow> generation \<Rightarrow> BackendDescriptor \<Rightarrow> BackendCapabilityPublication" where
  "revocation q generation b =
     (let claims = map (\<lambda>existing. existing
            \<lparr>ce_state := (if aq_detail q = [] then CapabilityState.REVOKED else capability_state_from (aq_value q)),
             ce_generation := generation, ce_backend_boot := bd_backend_boot b, ce_observed_at := 1,
             ce_source := ''reference-control-plane''\<rparr>) (cp_entries (bd_capabilities b)) in
      \<lparr>bcp_backend_id = bd_backend_id b, bcp_backend_generation = bd_backend_generation b,
       bcp_backend_boot = bd_backend_boot b, bcp_profile_id = bd_capability_profile_id b,
       bcp_generation = generation,
       bcp_claims = (if claims = []
         then [\<lparr>ce_key = ''execution/cuda'', ce_state = CapabilityState.REVOKED, ce_generation = generation,
                ce_profile_id = bd_capability_profile_id b, ce_model_generation = 0, ce_backend_generation = 0,
                ce_backend_boot = bd_backend_boot b, ce_observed_at = 1, ce_expires_at = kNoExpiry,
                ce_source = ''reference-control-plane'', ce_detail = []\<rparr>]
         else claims)\<rparr>)"

definition admin_evidence :: "'s \<Rightarrow> generation \<Rightarrow> BackendDescriptor \<Rightarrow> 's BackendEvidence" where
  "admin_evidence state generation b = (BackendEvidence_default state)
     \<lparr>be_backend_id := bd_backend_id b, be_backend_boot := bd_backend_boot b, be_generation := generation,
      be_observed_at := 1, be_source := ''reference-control-plane''\<rparr>"

text \<open>\<open>ModelRouter::save\<close> and \<open>ModelRouter::load\<close> of \<open>src/router_persist.cpp\<close>.\<close>

definition router_save :: "unix_millis \<Rightarrow> write_calls \<Rightarrow> string \<Rightarrow> router \<Rightarrow> file_op list \<times> OutcomeCode \<times> string" where
  "router_save now calls path x =
     save calls (export_persistent_state now (fst x) (snd x)) path (cs_limits (snd x))"

definition router_load :: "read_calls \<Rightarrow> string \<Rightarrow> router \<Rightarrow> ((OutcomeCode \<times> string) \<times> router) option" where
  "router_load calls path x =
     (case load calls path (cs_limits (snd x)) of
        None \<Rightarrow> None
      | Some loaded \<Rightarrow>
          if \<not> PersistenceLoad_ok loaded then Some ((ld_code loaded, ld_detail loaded), x)
          else case import_persistent_state (the (ld_state loaded)) (fst x) (snd x) of
              (imported, x') \<Rightarrow>
                if \<not> mr_accepted imported
                  then Some ((mr_code imported, ex_message (mr_explanation imported)), x')
                else Some ((ld_code loaded, ''records='' @ dec_u32 (ld_record_count loaded)), x'))"

text \<open>Every operation but \<open>DISPATCH\<close>.\<close>

definition handle_admin ::
  "surroundings \<Rightarrow> AdminRequest \<Rightarrow> CoordinatorState \<Rightarrow> (AdminResponse \<times> CoordinatorState) option" where
  "handle_admin e q c =
     (let now = sr_now e; s = snd (ko_router c) in
      case aq_op q of
        AdminOp.SNAPSHOT \<Rightarrow> Some (admin_ok\<lparr>as_json := RouterSnapshot_to_json (snapshot now s)\<rparr>, c)
      | AdminOp.INVARIANTS \<Rightarrow> Some (admin_ok\<lparr>as_json := InvariantReport_to_json (check_invariants now s)\<rparr>, c)
      | AdminOp.SUMMARY \<Rightarrow> Some (admin_ok\<lparr>as_json := RouterSummary_to_json (summary s)\<rparr>, c)
      | AdminOp.BACKEND_COUNT \<Rightarrow> Some (admin_ok\<lparr>as_detail := dec_u32 (su_backend_count (summary s))\<rparr>, c)
      | AdminOp.REVALIDATE \<Rightarrow> admin_revalidate now (aq_decision_id q) c
      | AdminOp.REROUTE \<Rightarrow> admin_reroute now q c
      | AdminOp.SET_POLICY_OPEN \<Rightarrow> admin_call now (SetPolicy (admin_policy (aq_generation q) (\<lambda>p. p))) c
      | AdminOp.SET_POLICY_DENY_BACKEND \<Rightarrow>
          admin_call now (SetPolicy (admin_policy (aq_generation q) (PolicyBuilder_deny_backend (aq_backend_id q)))) c
      | AdminOp.SET_POLICY_DENY_MODEL \<Rightarrow>
          admin_call now (SetPolicy (admin_policy (aq_generation q) (PolicyBuilder_deny_model (aq_model_id q)))) c
      | AdminOp.SET_BUDGET_DENIED \<Rightarrow> admin_call now (SetBudget (admin_budget q)) c
      | AdminOp.SET_BUDGET_ALLOWED \<Rightarrow> admin_call now (SetBudget (admin_budget q)) c
      | AdminOp.ADVANCE_PRICE \<Rightarrow> admin_price now q c
      | AdminOp.FENCE_BACKEND \<Rightarrow> with_backend (aq_backend_id q) c (\<lambda>b.
          admin_call now (FenceBackendBoot (bd_backend_id b) (bd_backend_generation b) (bd_backend_boot b) FENCED) c)
      | AdminOp.RETIRE_MODEL \<Rightarrow> admin_call now (RetireModel (aq_model_id q) (aq_generation q)) c
      | AdminOp.REVOKE_CAPABILITY \<Rightarrow> with_backend (aq_backend_id q) c (\<lambda>b.
          case next_evidence (aq_backend_id q) (bd_capability_generation b) c of
            (generation, c') \<Rightarrow> admin_call now (PublishCapabilities (revocation q generation b)) c')
      | AdminOp.SET_READINESS \<Rightarrow> with_backend (aq_backend_id q) c (\<lambda>b.
          case next_evidence (aq_backend_id q) (be_generation (bd_readiness b)) c of
            (generation, c') \<Rightarrow> admin_call now (UpdateReadiness (admin_evidence
               (if aq_value q = 0 then ReadinessState.NOT_READY else ReadinessState.READY) generation b)) c')
      | AdminOp.SET_AVAILABILITY \<Rightarrow> with_backend (aq_backend_id q) c (\<lambda>b.
          case next_evidence (aq_backend_id q) (be_generation (bd_availability b)) c of
            (generation, c') \<Rightarrow> admin_call now (UpdateAvailability (admin_evidence
               (if aq_value q = 0 then AvailabilityState.UNAVAILABLE else AvailabilityState.AVAILABLE) generation b)) c')
      | AdminOp.SAVE \<Rightarrow> (case router_save now (sr_writes e) (aq_detail q) (ko_router c) of
          (ops, code, detail) \<Rightarrow> Some (admin_ok\<lparr>as_code := code, as_detail := detail\<rparr>, c))
      | AdminOp.LOAD \<Rightarrow> (case router_load (sr_reads e) (aq_detail q) (ko_router c) of
          None \<Rightarrow> None
        | Some ((code, detail), x) \<Rightarrow> Some (admin_ok\<lparr>as_code := code, as_detail := detail\<rparr>, c\<lparr>ko_router := x\<rparr>))
      | AdminOp.SHUTDOWN \<Rightarrow> Some (admin_ok\<lparr>as_detail := ''shutdown requested''\<rparr>, c\<lparr>ko_stopping := True\<rparr>)
      | _ \<Rightarrow> Some (admin_ok\<lparr>as_code := REJECT_INVALID, as_detail := ''unsupported admin operation''\<rparr>, c))"

definition admin_reply :: "ResourceLimits \<Rightarrow> AdminResponse \<Rightarrow> answer" where
  "admin_reply limits response = reply limits ADMIN_RESPONSE (encode_admin_response limits response)"

text \<open>\<open>DISPATCH\<close> until it waits; the dispatcher is installed, so \<open>dispatch_target\<close> decides alone whether
  it is called.\<close>

definition begin_dispatch :: "surroundings \<Rightarrow> entity_id \<Rightarrow> CoordinatorState \<Rightarrow> answer \<times> CoordinatorState" where
  "begin_dispatch e decision_id c =
     (case dispatch_until_handoff ProviderSet_default (sr_now e) decision_id (snd (ko_router c)) of
        (Inl refused, s) \<Rightarrow>
          (admin_reply (ko_limits c) (dispatch_response refused), c\<lparr>ko_router := (fst (ko_router c), s)\<rparr>)
      | (Inr (stored, candidate), s) \<Rightarrow>
          (case handoff_send (sr_forwarded e) stored c (fst (ko_router c)) of
             (Inl answered, ids) \<Rightarrow>
               (case dispatch_after_handoff (sr_now e) decision_id stored candidate (cs_router_epoch s)
                       (cs_coordinator_epoch s) answered (ids, s) of
                  (record, x) \<Rightarrow> (admin_reply (ko_limits c) (dispatch_response record), c\<lparr>ko_router := x\<rparr>))
           | (Inr (a, message), ids) \<Rightarrow>
               (Wait \<lparr>pn_now = sr_now e, pn_decision_id = decision_id, pn_stored = stored, pn_candidate = candidate,
                  pn_epoch = cs_router_epoch s, pn_coordinator_epoch = cs_coordinator_epoch s, pn_link = a,
                  pn_message = message\<rparr>,
                c\<lparr>ko_router := (ids, s)\<rparr>)))"

text \<open>\<open>DISPATCH\<close> after its wait; \<open>None\<close> while it waits.\<close>

definition end_dispatch :: "Waiting \<Rightarrow> CoordinatorState \<Rightarrow> (answer \<times> CoordinatorState) option" where
  "end_dispatch w c =
     (case handoff_receive (pn_stored w) (pn_message w) (ko_heap c ! pn_link w) of
        None \<Rightarrow> None
      | Some (answered, link) \<Rightarrow>
          (case dispatch_after_handoff (pn_now w) (pn_decision_id w) (pn_stored w) (pn_candidate w) (pn_epoch w)
                  (pn_coordinator_epoch w) answered (ko_router c) of
             (record, x) \<Rightarrow>
               Some (admin_reply (ko_limits c) (dispatch_response record),
                     (update_link (pn_link w) (\<lambda>_. link) c)\<lparr>ko_router := x\<rparr>)))"

section \<open>Frames\<close>

definition handle_admin_request ::
  "surroundings \<Rightarrow> AdminRequest \<Rightarrow> CoordinatorState \<Rightarrow> (answer \<times> CoordinatorState) option" where
  "handle_admin_request e q c =
     (if aq_op q = AdminOp.DISPATCH then Some (begin_dispatch e (aq_decision_id q) c)
      else map_option (\<lambda>(response, c'). (admin_reply (ko_limits c) response, c')) (handle_admin e q c))"

definition handle_frame :: "surroundings \<Rightarrow> nat \<Rightarrow> Frame \<Rightarrow> CoordinatorState \<Rightarrow> (answer \<times> CoordinatorState) option" where
  "handle_frame e connection frame c =
     (let limits = ko_limits c; payload = fr_payload frame; now = sr_now e in
      case enum_at message_types (unat (fh_message_type (fr_header frame))) of
        Some HELLO \<Rightarrow> decoded (decode_hello limits payload) c (\<lambda>m. handle_hello m c)
      | Some BACKEND_REGISTER \<Rightarrow> decoded (decode_backend_register limits payload) c (\<lambda>b. handle_register now connection b c)
      | Some CAPABILITY_PUBLISH \<Rightarrow>
          decoded (decode_capability_publish limits payload) c (\<lambda>p. status_call now (PublishCapabilities p) c)
      | Some HEALTH_UPDATE \<Rightarrow> decoded (decode_health limits payload) c (\<lambda>m. status_call now (UpdateHealth m) c)
      | Some AVAILABILITY_UPDATE \<Rightarrow>
          decoded (decode_availability limits payload) c (\<lambda>m. status_call now (UpdateAvailability m) c)
      | Some READINESS_UPDATE \<Rightarrow> decoded (decode_readiness limits payload) c (\<lambda>m. status_call now (UpdateReadiness m) c)
      | Some RESIDENCY_UPDATE \<Rightarrow> decoded (decode_residency limits payload) c (\<lambda>m. status_call now (UpdateResidency m) c)
      | Some CAPACITY_UPDATE \<Rightarrow>
          decoded (decode_capacity limits payload) c (\<lambda>(m, detail). status_call now (UpdateCapacity m detail) c)
      | Some LATENCY_UPDATE \<Rightarrow> decoded (decode_latency limits payload) c (\<lambda>m. status_call now (UpdateLatency m) c)
      | Some COST_UPDATE \<Rightarrow> decoded (decode_cost limits payload) c (\<lambda>m. status_call now (SetCost m) c)
      | Some ROUTE_REQUEST \<Rightarrow> decoded (decode_route_request limits payload) c (\<lambda>m. handle_route now m c)
      | Some DISPATCH_RESULT \<Rightarrow>
          decoded (decode_dispatch_result limits payload) c (\<lambda>m. handle_dispatch_result connection m c)
      | Some ADMIN_REQUEST \<Rightarrow> decoded (decode_admin_request limits payload) c (\<lambda>q. handle_admin_request e q c)
      | Some PING \<Rightarrow> Some (Reply (make_frame PONG []), c)
      | Some BYE \<Rightarrow> Some (Bye, c)
      | Some SNAPSHOT_REQUEST \<Rightarrow> handle_snapshot now c
      | _ \<Rightarrow> Some (reply_error limits REJECT_INVALID ''unsupported reference message type'', c))"

end
