(* ===== verification/Coordinator_System.thy ===== *)
theory Coordinator_System
  imports Coordinator_Admin
begin

text \<open>
  The coordinator as a state machine: \<open>start\<close>, \<open>accept_loop\<close>, \<open>serve\<close> and \<open>stop\<close> of
  \<open>reference/coordinator.cpp\<close>.  A step is one turn of one thread: a session handles a frame, a
  dispatch ends its wait, a session is torn down.  The turns of different sessions interleave freely,
  so anything may happen to the router while a dispatch waits for its worker.
\<close>

section \<open>Sessions\<close>

definition set_session :: "nat \<Rightarrow> session_state \<Rightarrow> CoordinatorState \<Rightarrow> CoordinatorState" where
  "set_session n st c = c\<lparr>ko_sessions := om_put n st (ko_sessions c)\<rparr>"

text \<open>A thread is never taken out of \<open>sessions_\<close>, so finished sessions count against the limit.\<close>

definition accept_connection :: "nat \<Rightarrow> CoordinatorState \<Rightarrow> CoordinatorState" where
  "accept_connection n c =
     (if length (ko_sessions c) \<ge> unat (max_session_threads (ko_limits c)) then c
      else (set_session n (Serving None) c)\<lparr>ko_sessions_served := ko_sessions_served c + 1\<rparr>)"

text \<open>The tail of one turn of the loop: the session leaves when \<open>handle_frame\<close> returned false; otherwise
  it resolves its link, unless it has one, and leaves if it was asked to.\<close>

definition after_frame :: "surroundings \<Rightarrow> nat \<Rightarrow> nat option \<Rightarrow> answer \<Rightarrow> CoordinatorState \<Rightarrow> CoordinatorState" where
  "after_frame e n link ans c =
     (let resolved = (case link of None \<Rightarrow> link_of n c | Some a \<Rightarrow> Some a) in
      case ans of
        Reply frame \<Rightarrow> set_session n (if sr_sent e = None then Serving resolved else Leaving link) c
      | Return ok \<Rightarrow> set_session n (if ok then Serving resolved else Leaving link) c
      | Bye \<Rightarrow> set_session n (Leaving resolved) c
      | Wait w \<Rightarrow> set_session n (Dispatching link w) c)"

definition serve_frame :: "surroundings \<Rightarrow> nat \<Rightarrow> Frame \<Rightarrow> CoordinatorState \<Rightarrow> CoordinatorState option" where
  "serve_frame e n frame c =
     (case om_find (ko_sessions c) n of
        Some (Serving link) \<Rightarrow>
          map_option (\<lambda>(ans, c'). after_frame e n link ans c')
            (handle_frame e n frame (c\<lparr>ko_frames_handled := ko_frames_handled c + 1\<rparr>))
      | _ \<Rightarrow> None)"

definition finish_dispatch :: "surroundings \<Rightarrow> nat \<Rightarrow> CoordinatorState \<Rightarrow> CoordinatorState option" where
  "finish_dispatch e n c =
     (case om_find (ko_sessions c) n of
        Some (Dispatching link w) \<Rightarrow> map_option (\<lambda>(ans, c'). after_frame e n link ans c') (end_dispatch w c)
      | _ \<Rightarrow> None)"

definition close_link :: "BackendLink \<Rightarrow> BackendLink" where
  "close_link link = link\<lparr>bl_closed := True\<rparr>"

definition end_session :: "unix_millis \<Rightarrow> nat \<Rightarrow> CoordinatorState \<Rightarrow> CoordinatorState option" where
  "end_session now n c =
     (case om_find (ko_sessions c) n of
        Some (Leaving None) \<Rightarrow> Some (set_session n (Finished None) c)
      | Some (Leaving (Some a)) \<Rightarrow>
          let link = ko_heap c ! a;
              closed = update_link a close_link c;
              erased = closed\<lparr>ko_links := om_erase (bl_backend_id link) (ko_links closed)\<rparr>;
              fenced = snd (router_call now (Authority (FenceBackendBoot (bl_backend_id link)
                (bl_backend_generation link) (bl_backend_boot link) FENCED)) erased)
          in Some (set_session n (Finished (Some a)) fenced)
      | _ \<Rightarrow> None)"

section \<open>Starting and stopping\<close>

definition router_options :: "CoordinatorOptions \<Rightarrow> ModelRouterOptions" where
  "router_options p =
     \<lparr>mo_router_id = 0, mo_router_generation = op_router_generation p, mo_limits = op_limits p,
      mo_weights = RankingWeights_default, mo_scales = RankingScales_default,
      mo_persistence_path = op_state_path p, mo_load_on_start = op_load_on_start p,
      mo_save_on_shutdown = op_save_on_shutdown p, mo_use_catalog_adapters = True\<rparr>"

definition new_coordinator :: "CoordinatorOptions \<Rightarrow> u64 \<Rightarrow> CoordinatorState" where
  "new_coordinator p ids =
     \<lparr>ko_options = p, ko_catalog = make_catalog, ko_router = Impl_new (router_options p) ids,
      ko_links = om_empty, ko_heap = [], ko_requests = om_empty, ko_evidence_generations = om_empty,
      ko_stopping = False, ko_joining = False, ko_sessions = om_empty, ko_sessions_served = 0, ko_frames_handled = 0\<rparr>"

definition reference_provider :: "RefCatalog \<Rightarrow> ProviderDescriptor" where
  "reference_provider catalog =
     \<lparr>pd_provider_id = ct_provider catalog, pd_generation = ct_provider_generation catalog,
      pd_display_name = ''reference-provider'', pd_default_trust_domain = TrustDomain.LOCAL, pd_third_party = False\<rparr>"

text \<open>Registrations up to the first that is refused.\<close>

fun register_all :: "unix_millis \<Rightarrow> catalog_command list \<Rightarrow> CoordinatorState \<Rightarrow> string option \<times> CoordinatorState" where
  "register_all now [] c = (None, c)"
| "register_all now (command # commands) c =
     (case router_call now command c of
        (result, c') \<Rightarrow>
          if mr_accepted result then register_all now commands c'
          else (Some (ex_message (mr_explanation result)), c'))"

text \<open>\<open>start\<close> up to the listener, whose own error is \<open>listening\<close>; \<open>loaded\<close> is what reading the durable
  file gave.  \<open>Some\<close> is the error it reports.\<close>

definition start_coordinator ::
  "load_result \<Rightarrow> string option \<Rightarrow> unix_millis \<Rightarrow> CoordinatorState \<Rightarrow> string option \<times> CoordinatorState" where
  "start_coordinator loaded listening now c =
     (case start (ModelRouterOptions_validate (router_options (ko_options c))) loaded now (fst (ko_router c))
             (snd (ko_router c)) of
        (started, x) \<Rightarrow>
          let c' = c\<lparr>ko_router := x\<rparr> in
          if \<not> mr_accepted started then (Some (ex_message (mr_explanation started)), c')
          else case register_all now (RegisterProvider (reference_provider (ko_catalog c)) #
                 map RegisterModel (make_models (ko_catalog c) 1)) c' of
              (Some error, c'') \<Rightarrow> (Some error, c'')
            | (None, c'') \<Rightarrow> (listening, c''))"

text \<open>\<open>stop\<close> up to joining the sessions, and after it.\<close>

definition begin_stop :: "CoordinatorState \<Rightarrow> CoordinatorState" where
  "begin_stop c =
     (if ko_stopping c then c
      else foldl (\<lambda>c (_, a). update_link a close_link c) (c\<lparr>ko_stopping := True, ko_joining := True\<rparr>) (ko_links c))"

definition end_stop :: "OutcomeCode \<times> string \<Rightarrow> CoordinatorState \<Rightarrow> CoordinatorState" where
  "end_stop saved c =
     c\<lparr>ko_router := (fst (ko_router c), snd (shutdown (op_save_on_shutdown (ko_options c) \<and> op_state_path (ko_options c) \<noteq> [])
         saved (snd (ko_router c))))\<rparr>"

section \<open>Steps\<close>

definition all_finished :: "CoordinatorState \<Rightarrow> bool" where
  "all_finished c \<longleftrightarrow> list_all (\<lambda>(_, st). case st of Finished _ \<Rightarrow> True | _ \<Rightarrow> False) (ko_sessions c)"

inductive co_step :: "CoordinatorState \<Rightarrow> CoordinatorState \<Rightarrow> bool" where
  accepted: "\<not> ko_stopping c \<Longrightarrow> om_find (ko_sessions c) n = None \<Longrightarrow> co_step c (accept_connection n c)"
| served: "serve_frame e n frame c = Some c' \<Longrightarrow> co_step c c'"
| hung_up: "om_find (ko_sessions c) n = Some (Serving link) \<Longrightarrow> co_step c (set_session n (Leaving link) c)"
| answered: "finish_dispatch e n c = Some c' \<Longrightarrow> co_step c c'"
| torn_down: "end_session now n c = Some c' \<Longrightarrow> co_step c c'"
| stopping: "co_step c (begin_stop c)"

end
