(* ===== verification/Coordinator_Safety.thy ===== *)
theory Coordinator_Safety
  imports Coordinator_System
begin

text \<open>
  What the coordinator guarantees while its sessions interleave: the table of links and the sessions
  stay coherent, the router it hosts only evolves, and a worker that is gone stays gone.
\<close>

section \<open>Links and sessions\<close>

definition link_valid :: "BackendLink \<Rightarrow> bool" where
  "link_valid l \<longleftrightarrow> valid_id (bl_backend_id l) \<and> valid_id (bl_backend_boot l)"

definition links_ok :: "CoordinatorState \<Rightarrow> bool" where
  "links_ok c \<longleftrightarrow> om_ok (ko_links c) \<and> list_all link_valid (ko_heap c) \<and>
     (\<forall>i a. om_find (ko_links c) i = Some a \<longrightarrow> a < length (ko_heap c) \<and> bl_backend_id (ko_heap c ! a) = i)"

primrec session_link :: "session_state \<Rightarrow> nat option" where
  "session_link (Serving l) = l"
| "session_link (Dispatching l w) = l"
| "session_link (Leaving l) = l"
| "session_link (Finished l) = l"

definition session_ok :: "BackendLink list \<Rightarrow> session_state \<Rightarrow> bool" where
  "session_ok heap st \<longleftrightarrow>
     (\<forall>a. session_link st = Some a \<longrightarrow> a < length heap) \<and>
     (\<forall>l w. st = Dispatching l w \<longrightarrow> pn_link w < length heap)"

definition sessions_ok :: "CoordinatorState \<Rightarrow> bool" where
  "sessions_ok c \<longleftrightarrow> om_ok (ko_sessions c) \<and>
     (\<forall>n st. om_find (ko_sessions c) n = Some st \<longrightarrow> session_ok (ko_heap c) st)"

text \<open>A link never changes whose it is, and never opens again.\<close>

definition same_link :: "BackendLink \<Rightarrow> BackendLink \<Rightarrow> bool" where
  "same_link l l' \<longleftrightarrow> bl_backend_id l' = bl_backend_id l \<and> bl_backend_generation l' = bl_backend_generation l \<and>
     bl_backend_boot l' = bl_backend_boot l \<and> bl_connection l' = bl_connection l \<and> (bl_closed l \<longrightarrow> bl_closed l')"

definition heap_grows :: "BackendLink list \<Rightarrow> BackendLink list \<Rightarrow> bool" where
  "heap_grows h h' \<longleftrightarrow> length h \<le> length h' \<and> (\<forall>a < length h. same_link (h ! a) (h' ! a))"

lemma same_link_refl [simp]: "same_link l l"
  by (simp add: same_link_def)

lemma heap_grows_refl [simp]: "heap_grows h h"
  by (simp add: heap_grows_def)

lemma heap_grows_trans: "heap_grows a b \<Longrightarrow> heap_grows b c \<Longrightarrow> heap_grows a c"
  unfolding heap_grows_def same_link_def by (metis order_trans order_less_le_trans)

lemma heap_grows_append [simp]: "heap_grows h (h @ xs)"
  by (simp add: heap_grows_def nth_append)

lemma heap_grows_update:
  "(\<And>l. same_link l (f l)) \<Longrightarrow> heap_grows h (h[a := f (h ! a)])"
  unfolding heap_grows_def by (metis length_list_update nth_list_update nth_list_update_neq order_refl same_link_refl)

lemma session_ok_grows: "session_ok h st \<Longrightarrow> heap_grows h h' \<Longrightarrow> session_ok h' st"
  unfolding session_ok_def heap_grows_def by (metis order_less_le_trans)

lemma sessions_ok_grows:
  "sessions_ok c \<Longrightarrow> heap_grows (ko_heap c) (ko_heap c') \<Longrightarrow> ko_sessions c' = ko_sessions c \<Longrightarrow> sessions_ok c'"
  unfolding sessions_ok_def by (metis session_ok_grows)

lemma link_of_bound: "links_ok c \<Longrightarrow> link_of n c = Some a \<Longrightarrow> a < length (ko_heap c) \<and> bl_connection (ko_heap c ! a) = n"
proof -
  assume ok: "links_ok c" and "link_of n c = Some a"
  then obtain i where "(i, a) \<in> set (ko_links c)" "bl_connection (ko_heap c ! a) = n"
    by (auto simp: link_of_def find_Some_iff) (metis nth_mem)
  moreover have "om_find (ko_links c) i = Some a"
    using ok calculation(1) strictly_ascending_distinct [of "map fst (ko_links c)"]
    by (simp add: links_ok_def om_find_map_of) (simp add: om_ok_def)
  ultimately show ?thesis using ok unfolding links_ok_def by blast
qed

section \<open>What a handler promises\<close>

text \<open>The router has published its epochs and is in use.\<close>

definition in_service :: "CoordinatorState \<Rightarrow> bool" where
  "in_service c \<longleftrightarrow> router_ok (ko_router c) \<and> cs_running (snd (ko_router c)) \<and> links_ok c"

text \<open>Identities are left for whatever a frame may ask for.\<close>

definition identities_left :: "router \<Rightarrow> bool" where
  "identities_left x \<longleftrightarrow> unat (fst x) + 4 < 2 ^ 64 \<and> (\<forall>i. unat (fst x) + reroute_identities i (snd x) < 2 ^ 64)"

definition links_grow :: "CoordinatorState \<Rightarrow> CoordinatorState \<Rightarrow> bool" where
  "links_grow c c' \<longleftrightarrow> heap_grows (ko_heap c) (ko_heap c') \<and>
     (\<forall>i a. om_find (ko_links c') i = Some a \<longrightarrow> om_find (ko_links c) i = Some a \<or> length (ko_heap c) \<le> a)"

lemma links_grow_trans: "links_grow a b \<Longrightarrow> links_grow b c \<Longrightarrow> links_grow a c"
proof -
  assume ab: "links_grow a b" and bc: "links_grow b c"
  have "length (ko_heap a) \<le> length (ko_heap b)" using ab by (simp add: links_grow_def heap_grows_def)
  then show "links_grow a c" using ab bc heap_grows_trans unfolding links_grow_def by (blast intro: order_trans)
qed

definition keeps :: "CoordinatorState \<Rightarrow> CoordinatorState \<Rightarrow> bool" where
  "keeps c c' \<longleftrightarrow> evolves (ko_router c) (ko_router c') \<and> control (snd (ko_router c')) = control (snd (ko_router c)) \<and>
     links_ok c' \<and> links_grow c c' \<and> ko_sessions c' = ko_sessions c \<and> ko_options c' = ko_options c"

lemma keeps_service: "in_service c \<Longrightarrow> keeps c c' \<Longrightarrow> in_service c'"
  by (simp add: in_service_def keeps_def evolves_def control_def)

lemma keeps_refl: "in_service c \<Longrightarrow> keeps c c"
  by (simp add: in_service_def keeps_def links_grow_def evolves_refl)

lemma keeps_trans: "in_service c \<Longrightarrow> keeps c c' \<Longrightarrow> keeps c' c'' \<Longrightarrow> keeps c c''"
  unfolding keeps_def in_service_def using evolves_trans links_grow_trans by metis

text \<open>Changing only the router, only other fields, or only the content of a link.\<close>

lemma keeps_router:
  assumes "in_service c" "evolves (ko_router c) x" "control (snd x) = control (snd (ko_router c))"
  shows "keeps c (c\<lparr>ko_router := x\<rparr>)"
  using assms by (simp add: keeps_def in_service_def links_ok_def links_grow_def)

lemma keeps_bookkeeping:
  "keeps c (c'\<lparr>ko_requests := r\<rparr>) = keeps c c'" "keeps c (c'\<lparr>ko_evidence_generations := g\<rparr>) = keeps c c'"
  "keeps c (c'\<lparr>ko_stopping := b\<rparr>) = keeps c c'" "keeps c (c'\<lparr>ko_frames_handled := k\<rparr>) = keeps c c'"
  "keeps (c\<lparr>ko_frames_handled := k\<rparr>) c' = keeps c c'"
  by (simp_all add: keeps_def links_ok_def links_grow_def)

lemma links_ok_update:
  assumes "links_ok c" "\<And>l. same_link l (f l)"
  shows "links_ok (update_link a f c)"
proof -
  have same: "same_link (ko_heap c ! k) ((ko_heap c)[a := f (ko_heap c ! a)] ! k)" if "k < length (ko_heap c)" for k
    using heap_grows_update [of f "ko_heap c" a] assms(2) that by (simp add: heap_grows_def)
  then have "list_all link_valid ((ko_heap c)[a := f (ko_heap c ! a)])"
    using assms(1) unfolding links_ok_def list_all_length length_list_update link_valid_def same_link_def by metis
  then show ?thesis using assms(1) same by (simp add: links_ok_def update_link_def same_link_def)
qed

lemma keeps_link:
  assumes "in_service c" "\<And>l. same_link l (f l)"
  shows "keeps c (update_link a f c)"
  using links_ok_update [of c f a] assms evolves_refl heap_grows_update [of f "ko_heap c" a]
  by (simp add: keeps_def in_service_def update_link_def links_grow_def)

lemma same_link_content [simp]: "same_link l (put_result m l)" "same_link l (l\<lparr>bl_results := r\<rparr>)" "same_link l (close_link l)"
  by (simp_all add: same_link_def put_result_def close_link_def)


lemma unat_bound: "unat (x :: u64) < 2 ^ 64"
  using unsigned_less [of x] by simp

lemma keeps_call:
  assumes "in_service c"
  shows "keeps c (snd (router_call now command c))"
proof -
  have ok: "router_ok (ko_router c)" and st: "state_ok (snd (ko_router c))"
    using assms by (simp_all add: in_service_def router_ok_def)
  have "evolves (ko_router c) (fst (ko_router c), snd (execute now command (snd (ko_router c))))"
    using catalog_run.advances [OF ok, of "(now, command)"] unat_bound [of "fst (ko_router c)"]
    by (simp add: catalog_step_of_def)
  then show ?thesis
    using keeps_router [OF assms] control_catalog [OF catalog_ops.makes_catalog_step [OF st]]
    by (simp add: router_call_def split_beta)
qed

text \<open>A handler: what it returns when it is defined.\<close>

definition handles :: "CoordinatorState \<Rightarrow> ('a \<times> CoordinatorState) option \<Rightarrow> bool" where
  "handles c result \<longleftrightarrow> (\<forall>x c'. result = Some (x, c') \<longrightarrow> keeps c c')"

lemma handles_simps [simp]:
  "handles c None" "handles c (Some (x, c')) = keeps c c'"
  "handles c (map_option (\<lambda>(x, c'). (f x, c')) result) = handles c result"
  by (auto simp: handles_def)

lemma handles_decoded: "in_service c \<Longrightarrow> (\<And>m. handles c (handle m)) \<Longrightarrow> handles c (decoded result c handle)"
  by (simp add: decoded_def keeps_refl split: option.split sum.split)

lemma handles_status_call: "in_service c \<Longrightarrow> handles c (status_call now command c)"
  using keeps_call [of c now "Authority command"] by (simp add: status_call_def split_beta)

lemma handles_admin_call: "in_service c \<Longrightarrow> keeps c c' \<Longrightarrow> handles c (admin_call now command c')"
  using keeps_trans [of c c'] keeps_service [of c c'] keeps_call [of c' now "Authority command"]
  by (simp add: admin_call_def split_beta)

lemma register_accepted_valid:
  "mr_accepted (fst (register_backend now b s)) \<Longrightarrow> valid_id (bd_backend_id b) \<and> valid_id (bd_backend_boot b)"
  by (auto simp: register_backend_def Let_def attempt_def MutationResult_make_def is_acceptance_def
      BackendDescriptor_canonicalize_def BackendDescriptor_validate_def split: if_splits)

lemma links_ok_install:
  assumes "links_ok c" "link_valid l"
  shows "links_ok (install_link l c)"
proof -
  have "om_find (om_put (bl_backend_id l) (length (ko_heap c)) (ko_links c)) i = Some a \<Longrightarrow>
      a < Suc (length (ko_heap c)) \<and> bl_backend_id ((ko_heap c @ [l]) ! a) = i" for i a
    using assms(1) by (auto simp: links_ok_def om_find_put nth_append split: if_splits)
  then show ?thesis using assms by (simp add: links_ok_def install_link_def om_ok_put)
qed

lemma handles_register:
  assumes "in_service c"
  shows "handles c (handle_register now n b c)"
proof -
  obtain result c' where call: "router_call now (Authority (RegisterBackend b)) c = (result, c')" by (meson surj_pair)
  then have step: "keeps c c'" using keeps_call [OF assms] by (metis snd_conv)
  have "result = fst (register_backend now b (snd (ko_router c)))"
    using call by (auto simp: router_call_def split: prod.splits)
  then have "mr_accepted result \<Longrightarrow> link_valid (new_link n b)"
    using register_accepted_valid by (simp add: link_valid_def new_link_def)
  then have "mr_accepted result \<Longrightarrow> links_ok (install_link (new_link n b) c')"
    using links_ok_install step by (simp add: keeps_def)
  moreover have "links_grow c' (install_link (new_link n b) c')"
    using step by (auto simp: links_grow_def install_link_def keeps_def links_ok_def om_find_put split: if_splits)
  ultimately have "mr_accepted result \<Longrightarrow> keeps c (install_link (new_link n b) c')"
    using step links_grow_trans by (auto simp: keeps_def install_link_def)
  then show ?thesis using step by (simp add: handle_register_def call)
qed

lemma handles_dispatch_result: "in_service c \<Longrightarrow> handles c (handle_dispatch_result n m c)"
  by (simp add: handle_dispatch_result_def keeps_refl keeps_link split: option.split)

lemma handles_route:
  assumes "in_service c" "identities_left (ko_router c)"
  shows "handles c (handle_route now rq c)"
proof -
  have "evolves (ko_router c) (snd (route ProviderSet_default now rq (fst (ko_router c)) (snd (ko_router c))))"
    using evolves_route [of "fst (ko_router c)" "snd (ko_router c)"] assms by (simp add: in_service_def identities_left_def)
  moreover have "control (snd (snd (route ProviderSet_default now rq (fst (ko_router c)) (snd (ko_router c))))) =
      control (snd (ko_router c))" by simp
  ultimately show ?thesis
    using keeps_router [OF assms(1)]
    by (simp add: handle_route_def retain_request_def Let_def keeps_bookkeeping split_beta)
qed


text \<open>Loading is refused while the router runs.\<close>

lemma running_router_load:
  "cs_running (snd x) \<Longrightarrow> router_load calls path x = Some (r, x') \<Longrightarrow> x' = x"
  by (auto simp: router_load_def import_persistent_state_def Let_def MutationResult_make_def is_acceptance_def
      split: option.splits if_splits)

lemma handles_reroute:
  assumes "in_service c" "identities_left (ko_router c)"
  shows "handles c (admin_reroute now q c)"
proof -
  let ?r = "\<lambda>f stored. reroute ProviderSet_default now (aq_decision_id q) f stored (fst (ko_router c)) (snd (ko_router c))"
  have "evolves (ko_router c) (snd (?r f stored))" for f stored
    using evolves_reroute [of "fst (ko_router c)" "snd (ko_router c)"] assms by (simp add: in_service_def identities_left_def)
  then show ?thesis
    using keeps_router [OF assms(1)] keeps_refl [OF assms(1)]
    by (simp add: admin_reroute_def Let_def keeps_bookkeeping split_beta split: option.split)
qed

lemma keeps_prices:
  assumes "in_service c" "keeps c c'" "set_prices now q prior prices c' = Some (result, c'')"
  shows "keeps c c''"
  using assms(2,3)
proof (induction prices arbitrary: prior c')
  case (Cons price prices)
  obtain m f where price: "price = (m, f)" by (cases price)
  let ?call = "router_call now (Authority (SetCost (make_cost_evidence (aq_backend_id q) m (aq_generation q)
      (sint (aq_value q) * f) (sint (aq_value q) * f) (sint (aq_value q) * f) 1))) c'"
  have next': "keeps c (snd ?call)"
    using keeps_trans [OF assms(1) Cons.prems(1)] keeps_call keeps_service [OF assms(1) Cons.prems(1)] by blast
  show ?case
    using Cons.prems Cons.IH [OF next'] by (auto simp: price Let_def split_beta split: if_splits)
qed simp

lemma handles_with_backend:
  "in_service c \<Longrightarrow> (\<And>b. handles c (operate b)) \<Longrightarrow> handles c (with_backend i c operate)"
  by (simp add: with_backend_def keeps_refl split: option.split)

lemma keeps_next_evidence: "in_service c \<Longrightarrow> keeps c (snd (next_evidence i g c))"
  by (simp add: next_evidence_def Let_def keeps_bookkeeping keeps_refl)

lemma handles_admin:
  assumes "in_service c" "identities_left (ko_router c)"
  shows "handles c (handle_admin e q c)"
proof -
  note same = keeps_refl [OF assms(1)]
  note calls = handles_admin_call [OF assms(1) same] handles_admin_call [OF assms(1) keeps_next_evidence [OF assms(1)]]
  have "handles c (admin_revalidate (sr_now e) (aq_decision_id q) c)"
    using evolves_revalidate [of "fst (ko_router c)" "snd (ko_router c)"] keeps_router [OF assms(1)] assms(1)
    by (simp add: admin_revalidate_def in_service_def split_beta)
  moreover have "handles c (admin_price (sr_now e) q c)"
    using keeps_prices [OF assms(1) same] by (auto simp: admin_price_def simp del: set_prices.simps split: option.split)
  moreover have "handles c (case router_load (sr_reads e) (aq_detail q) (ko_router c) of
          None \<Rightarrow> None
        | Some ((code, detail), x) \<Rightarrow> Some (admin_ok\<lparr>as_code := code, as_detail := detail\<rparr>, c\<lparr>ko_router := x\<rparr>))"
  proof (cases "router_load (sr_reads e) (aq_detail q) (ko_router c)")
    case (Some r)
    obtain code detail x where r: "r = ((code, detail), x)" by (metis surj_pair)
    then have "x = ko_router c" using running_router_load [OF _ Some [unfolded r]] assms(1) by (simp add: in_service_def)
    then show ?thesis
      using keeps_router [OF assms(1) evolves_refl] assms(1) by (simp add: Some r in_service_def)
  qed simp
  ultimately show ?thesis
    using same calls handles_with_backend [OF assms(1)] handles_reroute [OF assms]
    by (cases "aq_op q") (simp_all add: handle_admin_def Let_def keeps_bookkeeping split_beta)
qed


section \<open>Dispatching\<close>

lemma control_record [simp]: "control (snd (snd (record_dispatch i g g' d ids s))) = control s"
proof -
  have "control (x\<lparr>cs_dispatches := d, cs_dispatch_index := n, cs_counters := c\<rparr>) = control x" for x d n c
    by (simp add: control_def)
  then show ?thesis by (simp add: record_dispatch_def Let_def split_beta)
qed

text \<open>Before the dispatcher is called the decision has been revalidated and is current.\<close>

lemma until_handoff:
  assumes "dispatch_until_handoff providers now i s = (result, s')"
  shows "s' \<in> {s, snd (revalidate now i 0 0 s)}"
    and "result = Inr (stored, candidate) \<Longrightarrow>
      om_find (cs_routes s) i = Some stored \<and> mr_accepted (fst (revalidate now i 0 0 s)) \<and>
      s' = snd (revalidate now i 0 0 s) \<and>
      dispatch_target providers now stored s' s' ((dispatch_record i stored)\<lparr>dr_revalidated := True\<rparr>) = Inr candidate"
  using assms
  by (auto simp: dispatch_until_handoff_def dispatch_start_def Let_def split_beta
      split: sum.splits option.splits if_splits)

lemma until_handoff_evolves:
  assumes "router_ok (ids, s)" "dispatch_until_handoff providers now i s = (result, s')"
  shows "evolves (ids, s) (ids, s')" "control s' = control s"
  using until_handoff(1) [OF assms(2)] evolves_refl [OF assms(1)] evolves_revalidate [OF assms(1)] by auto

lemma after_handoff_evolves:
  assumes ok: "router_ok x" and ids: "unat (fst x) + 1 < 2 ^ 64"
    and live: "\<And>r. om_find (cs_routes (snd x)) i = Some r \<Longrightarrow> live_record r"
  shows "evolves x (snd (dispatch_after_handoff now i stored candidate g g' answered x))"
    and "control (snd (snd (dispatch_after_handoff now i stored candidate g g' answered x))) = control (snd x)"
proof -
  have "evolves x (snd (record_dispatch i g g' d (fst x) (snd x)))" for d
  proof (cases "om_find (cs_routes (snd x)) i")
    case None
    then show ?thesis using evolves_refl [OF ok] by (simp add: record_dispatch_def)
  next
    case (Some r)
    then show ?thesis using evolves_record_dispatch [of "fst x" "snd x"] ok ids live by simp
  qed
  then show "evolves x (snd (dispatch_after_handoff now i stored candidate g g' answered x))"
    using evolves_refl [OF ok] by (simp add: dispatch_after_handoff_def Let_def)
  show "control (snd (snd (dispatch_after_handoff now i stored candidate g g' answered x))) = control (snd x)"
    by (simp add: dispatch_after_handoff_def Let_def)
qed

lemma handoff_send_ids:
  assumes "handoff_send sent stored c ids = (result, ids')" "unat ids + 1 < 2 ^ 64"
  shows "ids' \<in> {ids, ids + 1}"
proof -
  have "ids \<noteq> kCeiling" using assms(2) by auto
  then have "IdAllocator_next ids = (ids + 1, ids + 1)" by (simp add: IdAllocator_next_def Let_def)
  then show ?thesis using assms(1) by (auto simp: handoff_send_def Let_def split: option.splits sum.splits if_splits)
qed

lemma revalidated_live:
  assumes "router_ok (ids, s)" "mr_accepted (fst (revalidate now i tenant ns s))"
    "om_find (cs_routes (snd (revalidate now i tenant ns s))) i = Some r"
  shows "live_record r"
  using revalidate_accepted [OF assms(1,2)] assms(3)
  by (metis live_record_def live_status_def mark_current_fields(1) option.inject)

lemma keeps_begin_dispatch:
  assumes "in_service c" "identities_left (ko_router c)"
  shows "keeps c (snd (begin_dispatch e i c))"
proof -
  obtain ids s where x: "ko_router c = (ids, s)" by fastforce
  have ok: "router_ok (ids, s)" and room: "unat ids + 4 < 2 ^ 64"
    using assms by (simp_all add: in_service_def identities_left_def x)
  obtain result s' where until: "dispatch_until_handoff ProviderSet_default (sr_now e) i s = (result, s')" by fastforce
  note step = until_handoff_evolves [OF ok until]
  have ok': "router_ok (ids, s')" using step(1) by (simp add: evolves_def)
  show ?thesis
  proof (cases result)
    case (Inl refused)
    then show ?thesis using keeps_router [OF assms(1)] step by (simp add: begin_dispatch_def x until)
  next
    case (Inr p)
    obtain stored candidate where p: "p = (stored, candidate)" by fastforce
    note facts = until_handoff(2) [OF until Inr [unfolded p]]
    obtain r ids' where send: "handoff_send (sr_forwarded e) stored c ids = (r, ids')" by fastforce
    have ids': "ids' \<in> {ids, ids + 1}" using handoff_send_ids [OF send] room by simp
    have more: "evolves (ids, s') (ids', s')" and le: "unat ids' \<le> unat ids + 1"
      using evolves_ids [OF ok' _ ids'] room by simp_all
    have both: "evolves (ids, s) (ids', s')" by (rule evolves_trans [OF ok step(1) more])
    then have ok'': "router_ok (ids', s')" by (simp add: evolves_def)
    have live: "om_find (cs_routes s') i = Some r \<Longrightarrow> live_record r" for r
      using revalidated_live [OF ok] facts by metis
    note after = after_handoff_evolves [OF ok'', simplified, OF _ live]
    show ?thesis
    proof (cases r)
      case (Inl answered)
      have "evolves (ids, s) (snd (dispatch_after_handoff (sr_now e) i stored candidate (cs_router_epoch s')
          (cs_coordinator_epoch s') answered (ids', s')))"
        using evolves_trans [OF ok both after(1)] le room by simp
      moreover have "control (snd (snd (dispatch_after_handoff (sr_now e) i stored candidate (cs_router_epoch s')
          (cs_coordinator_epoch s') answered (ids', s')))) = control s" using after(2) le room step(2) by simp
      ultimately have "keeps c (c\<lparr>ko_router := snd (dispatch_after_handoff (sr_now e) i stored candidate (cs_router_epoch s')
          (cs_coordinator_epoch s') answered (ids', s'))\<rparr>)" by (intro keeps_router [OF assms(1)]) (simp_all add: x)
      then show ?thesis by (simp add: begin_dispatch_def x until \<open>result = Inr p\<close> p send Inl split_beta)
    next
      case (Inr m)
      moreover have "keeps c (c\<lparr>ko_router := (ids', s')\<rparr>)"
        by (rule keeps_router [OF assms(1)]) (simp_all add: x both step(2))
      ultimately show ?thesis by (simp add: begin_dispatch_def x until \<open>result = Inr p\<close> p send split_beta)
    qed
  qed
qed


lemma keeps_end_dispatch:
  assumes "in_service c" "identities_left (ko_router c)" "end_dispatch w c = Some (ans, c')"
    and "\<And>r. om_find (cs_routes (snd (ko_router c))) (pn_decision_id w) = Some r \<Longrightarrow> live_record r"
  shows "keeps c c'"
proof -
  obtain answered link where receive: "handoff_receive (pn_stored w) (pn_message w) (ko_heap c ! pn_link w) = Some (answered, link)"
    using assms(3) by (cases "handoff_receive (pn_stored w) (pn_message w) (ko_heap c ! pn_link w)")
      (auto simp: end_dispatch_def)
  let ?after = "dispatch_after_handoff (pn_now w) (pn_decision_id w) (pn_stored w) (pn_candidate w) (pn_epoch w)
      (pn_coordinator_epoch w) answered (ko_router c)"
  define r where "r = bl_results link"
  have link': "link = (ko_heap c ! pn_link w)\<lparr>bl_results := r\<rparr>"
    using receive by (auto simp: handoff_receive_def r_def split: option.splits if_splits)
  have "update_link (pn_link w) (\<lambda>_. link) c = update_link (pn_link w) (\<lambda>l. l\<lparr>bl_results := r\<rparr>) c"
    by (simp add: update_link_def link')
  then have step: "keeps c (update_link (pn_link w) (\<lambda>_. link) c)" using keeps_link [OF assms(1)] by simp
  have room: "unat (fst (ko_router c)) + 1 < 2 ^ 64" and ok: "router_ok (ko_router c)"
    using assms(1,2) by (simp_all add: identities_left_def in_service_def)
  have "keeps (update_link (pn_link w) (\<lambda>_. link) c) ((update_link (pn_link w) (\<lambda>_. link) c)\<lparr>ko_router := snd ?after\<rparr>)"
    using after_handoff_evolves [OF ok room assms(4)]
    by (intro keeps_router keeps_service [OF assms(1) step]) (simp_all add: update_link_def)
  then have "keeps c ((update_link (pn_link w) (\<lambda>_. link) c)\<lparr>ko_router := snd ?after\<rparr>)"
    by (rule keeps_trans [OF assms(1) step])
  moreover have "c' = (update_link (pn_link w) (\<lambda>_. link) c)\<lparr>ko_router := snd ?after\<rparr>"
    using assms(3) by (simp add: end_dispatch_def receive split_beta)
  ultimately show ?thesis by simp
qed

section \<open>Frames\<close>

lemma handles_frame:
  assumes "in_service c" "identities_left (ko_router c)"
  shows "handles c (handle_frame e n frame c)"
proof -
  note same = keeps_refl [OF assms(1)]
  have "handles c (handle_admin_request e q c)" for q
    using handles_admin [OF assms] keeps_begin_dispatch [OF assms] by (cases "begin_dispatch e (aq_decision_id q) c")
      (simp add: handle_admin_request_def, metis snd_conv)
  then show ?thesis
    using same handles_status_call [OF assms(1)] handles_register [OF assms(1)]
      handles_dispatch_result [OF assms(1)] handles_route [OF assms]
    by (auto simp: handle_frame_def Let_def handle_hello_def handle_snapshot_def
        split: option.split MessageType.split intro!: handles_decoded [OF assms(1)])
qed


lemma reply_never_waits [simp]:
  "reply limits type encoded \<noteq> Wait w" "reply_error limits code detail \<noteq> Wait w" "reply_status limits code detail \<noteq> Wait w"
  "admin_reply limits response \<noteq> Wait w"
  by (simp_all add: reply_def reply_error_def reply_status_def admin_reply_def split: sum.split)

lemma decoded_waits: "decoded result c handle = Some (Wait w, c') \<Longrightarrow> \<exists>m. handle m = Some (Wait w, c')"
  by (auto simp: decoded_def split: option.splits sum.splits)

text \<open>Only the dispatch of an administrator makes a session wait.\<close>

lemma frame_waits:
  assumes "handle_frame e n frame c = Some (Wait w, c')"
  obtains i where "begin_dispatch e i c = (Wait w, c')"
proof -
  have status: "status_call now command c \<noteq> Some (Wait w, c')" for now command
    by (simp add: status_call_def split: prod.split)
  have others: "handle_hello m c \<noteq> Some (Wait w, c')" "handle_register now n b c \<noteq> Some (Wait w, c')"
    "handle_dispatch_result n d c \<noteq> Some (Wait w, c')" "handle_route now rq c \<noteq> Some (Wait w, c')"
    "handle_snapshot now c \<noteq> Some (Wait w, c')" for m now b d rq
    by (simp_all add: handle_hello_def handle_register_def handle_dispatch_result_def handle_route_def handle_snapshot_def
        Let_def split: prod.split)
  have "\<exists>q. handle_admin_request e q c = Some (Wait w, c')"
    using assms status others unfolding handle_frame_def Let_def
    by (auto split: option.splits MessageType.splits dest!: decoded_waits)
  then obtain q where "handle_admin_request e q c = Some (Wait w, c')" ..
  then have "begin_dispatch e (aq_decision_id q) c = (Wait w, c')"
    by (auto simp: handle_admin_request_def split: if_splits)
  then show thesis by (rule that)
qed

text \<open>What holds when a \<open>DISPATCH\<close> frame goes out.\<close>

lemma begin_dispatch_waits:
  assumes "begin_dispatch e i c = (Wait w, c')"
  obtains stored candidate where
    "dispatch_until_handoff ProviderSet_default (sr_now e) i (snd (ko_router c)) = (Inr (stored, candidate), snd (ko_router c'))"
    "om_find (ko_links c) (ck_backend_id (pl_primary (rec_plan stored))) = Some (pn_link w)"
    "bl_backend_boot (ko_heap c ! pn_link w) = ck_backend_boot (pl_primary (rec_plan stored))"
    "pn_message w = dispatch_message (dm_dispatch_id (pn_message w)) stored"
    "pn_stored w = stored" "pn_candidate w = candidate" "pn_decision_id w = i" "pn_now w = sr_now e"
    "pn_epoch w = cs_router_epoch (snd (ko_router c'))" "pn_coordinator_epoch w = cs_coordinator_epoch (snd (ko_router c'))"
    "c' = c\<lparr>ko_router := ko_router c'\<rparr>" "sr_forwarded e = None"
proof -
  obtain result s where until: "dispatch_until_handoff ProviderSet_default (sr_now e) i (snd (ko_router c)) = (result, s)"
    by fastforce
  obtain stored candidate where r: "result = Inr (stored, candidate)"
    using assms by (cases result) (auto simp: begin_dispatch_def until)
  obtain sent ids where send: "handoff_send (sr_forwarded e) stored c (fst (ko_router c)) = (sent, ids)" by fastforce
  obtain a m where sent: "sent = Inr (a, m)"
    using assms by (cases sent) (auto simp: begin_dispatch_def until r send split: prod.splits)
  have w: "w = \<lparr>pn_now = sr_now e, pn_decision_id = i, pn_stored = stored, pn_candidate = candidate,
      pn_epoch = cs_router_epoch s, pn_coordinator_epoch = cs_coordinator_epoch s, pn_link = a, pn_message = m\<rparr>"
    and c': "c' = c\<lparr>ko_router := (ids, s)\<rparr>"
    using assms by (simp_all add: begin_dispatch_def until r send sent)
  have "om_find (ko_links c) (ck_backend_id (pl_primary (rec_plan stored))) = Some a \<and>
      bl_backend_boot (ko_heap c ! a) = ck_backend_boot (pl_primary (rec_plan stored)) \<and>
      m = dispatch_message (dm_dispatch_id m) stored \<and> sr_forwarded e = None"
    using send by (auto simp: handoff_send_def sent dispatch_message_def Let_def split: option.splits if_splits prod.splits sum.splits)
  then show thesis using until by (intro that [of stored candidate]) (simp_all add: w c' r)
qed


section \<open>The coordinator's invariant\<close>

definition fences_full :: "CanonicalState \<Rightarrow> bool" where
  "fences_full s \<longleftrightarrow> unat (max_backend_incarnations (cs_limits s)) \<le> length (cs_fenced_boots s)"

lemma fenced_by_call:
  assumes "valid_id i" "valid_id boot" "\<not> fences_full s" "om_ok (cs_fenced_boots s)"
  shows "is_fenced (snd (fence_backend_boot now (i, g, boot, reason) s)) i boot"
proof -
  have "cs_fenced_boots (drop_backend i b s) = cs_fenced_boots s" for b by (simp add: drop_backend_frame)
  then show ?thesis
    using assms
    by (auto simp: fence_backend_boot_def attempt_def accept_def Let_def is_fenced_def put_fence_def fences_full_def
        stale_decisions_for_authority_change_def stale_decisions_for_backend_def om_find_put split: option.split)
qed

lemma fences_full_evolves:
  assumes "router_ok x" "evolves x y" "fences_full (snd x)"
  shows "fences_full (snd y)"
proof -
  have maps: "om_ok (cs_fenced_boots (snd x))" "om_ok (cs_fenced_boots (snd y))"
    using assms(1,2) by (simp_all add: evolves_def router_ok_def state_ok_def catalog_ok_def maps_ok_def)
  have "fst ` set (cs_fenced_boots (snd x)) \<subseteq> fst ` set (cs_fenced_boots (snd y))"
  proof
    fix k assume "k \<in> fst ` set (cs_fenced_boots (snd x))"
    then have "is_fenced (snd x) (fst k) (snd k)" using om_find_dom [OF maps(1)] by (simp add: is_fenced_def)
    then have "is_fenced (snd y) (fst k) (snd k)" using assms(2) by (simp add: evolves_def)
    then show "k \<in> fst ` set (cs_fenced_boots (snd y))" using om_find_dom [OF maps(2)] by (simp add: is_fenced_def)
  qed
  then have "card (fst ` set (cs_fenced_boots (snd x))) \<le> card (fst ` set (cs_fenced_boots (snd y)))"
    by (intro card_mono) simp_all
  moreover have "card (fst ` set m) = length m" if "om_ok m" for m :: "(FenceKey, FencedBootRecord) omap"
    using that strictly_ascending_distinct [of "map fst m"] distinct_card [of "map fst m"] by (simp add: om_ok_def)
  ultimately have "length (cs_fenced_boots (snd x)) \<le> length (cs_fenced_boots (snd y))" using maps by simp
  then show ?thesis using assms(2,3) by (simp add: fences_full_def evolves_def)
qed

text \<open>A worker whose session is over: its link is closed and in nobody's way, and its incarnation is
  fenced, unless there was no room for another fence.\<close>

definition worker_gone :: "CoordinatorState \<Rightarrow> nat \<Rightarrow> bool" where
  "worker_gone c a \<longleftrightarrow> a < length (ko_heap c) \<and> bl_closed (ko_heap c ! a) \<and> (\<forall>i. om_find (ko_links c) i \<noteq> Some a) \<and>
     (is_fenced (snd (ko_router c)) (bl_backend_id (ko_heap c ! a)) (bl_backend_boot (ko_heap c ! a)) \<or>
      fences_full (snd (ko_router c)))"

definition coordinator_ok :: "CoordinatorState \<Rightarrow> bool" where
  "coordinator_ok c \<longleftrightarrow> in_service c \<and> sessions_ok c \<and>
     (\<forall>n a. om_find (ko_sessions c) n = Some (Finished (Some a)) \<longrightarrow> worker_gone c a)"

text \<open>How a step may change the coordinator.\<close>

definition advances :: "CoordinatorState \<Rightarrow> CoordinatorState \<Rightarrow> bool" where
  "advances c c' \<longleftrightarrow> evolves (ko_router c) (ko_router c') \<and> control (snd (ko_router c')) = control (snd (ko_router c)) \<and>
     links_grow c c' \<and> ko_options c' = ko_options c"

lemma advances_trans: "router_ok (ko_router c) \<Longrightarrow> advances c c' \<Longrightarrow> advances c' c'' \<Longrightarrow> advances c c''"
  unfolding advances_def using evolves_trans links_grow_trans by metis

lemma keeps_advances: "keeps c c' \<Longrightarrow> advances c c'"
  by (simp add: keeps_def advances_def)

lemma worker_gone_advances:
  assumes "router_ok (ko_router c)" "advances c c'" "worker_gone c a"
  shows "worker_gone c' a"
proof -
  have a: "a < length (ko_heap c)" using assms(3) by (simp add: worker_gone_def)
  have same: "same_link (ko_heap c ! a) (ko_heap c' ! a)" "a < length (ko_heap c')"
    using assms(2) a by (simp_all add: advances_def links_grow_def heap_grows_def)
  have "om_find (ko_links c') i \<noteq> Some a" for i
    using assms(2,3) a unfolding advances_def links_grow_def worker_gone_def by (metis leD)
  moreover have "fences_full (snd (ko_router c)) \<Longrightarrow> fences_full (snd (ko_router c'))"
    using fences_full_evolves assms(1,2) by (auto simp: advances_def)
  ultimately show ?thesis
    using assms(2,3) same unfolding worker_gone_def advances_def evolves_def same_link_def by auto
qed

text \<open>Setting the state of a session after a step that keeps the others.\<close>

lemma set_session_ok:
  assumes ok: "coordinator_ok c" and step: "advances c c'" and links: "links_ok c'" and others: "ko_sessions c' = ko_sessions c"
    and st: "session_ok (ko_heap c') st" "\<And>a. st = Finished (Some a) \<Longrightarrow> worker_gone c' a"
  shows "coordinator_ok (set_session n st c') \<and> advances c (set_session n st c')"
proof -
  have ok': "router_ok (ko_router c)" "om_ok (ko_sessions c')" using ok others
    by (simp_all add: coordinator_ok_def in_service_def sessions_ok_def)
  have "in_service c'" using ok step links by (simp add: coordinator_ok_def in_service_def advances_def evolves_def control_def)
  moreover have sessions: "sessions_ok c'"
    using sessions_ok_grows [of c c'] ok step others by (simp add: coordinator_ok_def advances_def links_grow_def)
  moreover have "worker_gone c' a" if "om_find (ko_sessions c') m = Some (Finished (Some a))" for m a
    using worker_gone_advances [OF ok'(1) step] ok others that by (simp add: coordinator_ok_def)
  ultimately have "coordinator_ok (set_session n st c')"
    using ok'(2) st
    by (auto simp: coordinator_ok_def set_session_def sessions_ok_def in_service_def links_ok_def worker_gone_def
        om_ok_put om_find_put split: if_splits)
  then show ?thesis using step by (simp add: advances_def set_session_def links_grow_def)
qed


section \<open>Every step\<close>

lemma counters_irrelevant [simp]:
  "coordinator_ok (c\<lparr>ko_sessions_served := k\<rparr>) = coordinator_ok c" "coordinator_ok (c\<lparr>ko_frames_handled := k\<rparr>) = coordinator_ok c"
  "advances c (c'\<lparr>ko_sessions_served := k\<rparr>) = advances c c'" "advances (c\<lparr>ko_frames_handled := k\<rparr>) c' = advances c c'"
  by (simp_all add: coordinator_ok_def in_service_def links_ok_def sessions_ok_def worker_gone_def advances_def links_grow_def)

lemma advances_refl: "coordinator_ok c \<Longrightarrow> advances c c"
  using keeps_advances [OF keeps_refl] by (simp add: coordinator_ok_def)

lemma after_frame_ok:
  assumes ok: "coordinator_ok c" and step: "keeps c c'"
    and link: "\<And>a. link = Some a \<Longrightarrow> a < length (ko_heap c)"
    and wait: "\<And>w. ans = Wait w \<Longrightarrow> pn_link w < length (ko_heap c')"
  shows "coordinator_ok (after_frame e n link ans c') \<and> advances c (after_frame e n link ans c')"
proof -
  have links: "links_ok c'" and same: "ko_sessions c' = ko_sessions c" and grows: "length (ko_heap c) \<le> length (ko_heap c')"
    using step by (simp_all add: keeps_def links_grow_def heap_grows_def)
  have old: "a < length (ko_heap c')" if "link = Some a" for a using link [OF that] grows by simp
  have resolved: "a < length (ko_heap c')"
    if "(case link of None \<Rightarrow> link_of n c' | Some a \<Rightarrow> Some a) = Some a" for a
    using that old link_of_bound [OF links] by (cases link) auto
  note set = set_session_ok [OF ok keeps_advances [OF step] links same, of _ n]
  show ?thesis
    using old resolved wait unfolding after_frame_def Let_def
    by (cases ans) (auto intro!: set [THEN conjunct1] set [THEN conjunct2] simp: session_ok_def)
qed

lemma serving_link: "coordinator_ok c \<Longrightarrow> om_find (ko_sessions c) n = Some st \<Longrightarrow> session_link st = Some a \<Longrightarrow> a < length (ko_heap c)"
  by (auto simp: coordinator_ok_def sessions_ok_def session_ok_def)

lemma serve_frame_ok:
  assumes ok: "coordinator_ok c" and ids: "identities_left (ko_router c)" and serve: "serve_frame e n frame c = Some c'"
  shows "coordinator_ok c' \<and> advances c c'"
proof -
  let ?c = "c\<lparr>ko_frames_handled := ko_frames_handled c + 1\<rparr>"
  obtain link ans d where st: "om_find (ko_sessions c) n = Some (Serving link)"
    and handled: "handle_frame e n frame ?c = Some (ans, d)" and c': "c' = after_frame e n link ans d"
    using serve by (auto simp: serve_frame_def split: option.splits session_state.splits)
  have service: "in_service ?c" "coordinator_ok ?c" "identities_left (ko_router ?c)" using ok ids
    by (simp_all add: coordinator_ok_def in_service_def links_ok_def sessions_ok_def worker_gone_def)
  then have step: "keeps ?c d" using handles_frame [of ?c] handled by (simp add: handles_def)
  have "pn_link w < length (ko_heap d)" if waits: "ans = Wait w" for w
  proof -
    obtain i where "begin_dispatch e i ?c = (Wait w, d)" using frame_waits handled waits by metis
    then obtain i' where "om_find (ko_links ?c) i' = Some (pn_link w)" "ko_heap d = ko_heap ?c"
      by (rule begin_dispatch_waits) (metis CoordinatorState.select_convs(5) CoordinatorState.surjective CoordinatorState.update_convs(3))
    then show ?thesis using service(1) unfolding in_service_def links_ok_def by auto
  qed
  then show ?thesis
    using after_frame_ok [OF service(2) step, of link ans] serving_link [OF service(2), of n "Serving link"] st c' by simp
qed

text \<open>No dispatch that waits has been overtaken: its decision is still current or dispatched, or is no
  longer retained.\<close>

definition not_overtaken :: "CoordinatorState \<Rightarrow> bool" where
  "not_overtaken c \<longleftrightarrow> (\<forall>n l w r. om_find (ko_sessions c) n = Some (Dispatching l w) \<and>
     om_find (cs_routes (snd (ko_router c))) (pn_decision_id w) = Some r \<longrightarrow> live_record r)"

lemma finish_dispatch_ok:
  assumes ok: "coordinator_ok c" and ids: "identities_left (ko_router c)" and live: "not_overtaken c"
    and finish: "finish_dispatch e n c = Some c'"
  shows "coordinator_ok c' \<and> advances c c'"
proof -
  obtain link w ans d where st: "om_find (ko_sessions c) n = Some (Dispatching link w)"
    and ended: "end_dispatch w c = Some (ans, d)" and c': "c' = after_frame e n link ans d"
    using finish by (auto simp: finish_dispatch_def split: option.splits session_state.splits)
  have "keeps c d"
    using keeps_end_dispatch [OF _ ids ended] ok live st by (auto simp: coordinator_ok_def not_overtaken_def)
  moreover have "ans \<noteq> Wait v" for v using ended by (auto simp: end_dispatch_def split: option.splits prod.splits)
  ultimately show ?thesis
    using after_frame_ok [OF ok, of d link ans] serving_link [OF ok st] c' by simp
qed

lemma end_session_ok:
  assumes ok: "coordinator_ok c" and over: "end_session now n c = Some c'"
  shows "coordinator_ok c' \<and> advances c c'"
proof -
  obtain link where st: "om_find (ko_sessions c) n = Some (Leaving link)"
    using over by (auto simp: end_session_def split: option.splits session_state.splits)
  have service: "in_service c" using ok by (simp add: coordinator_ok_def)
  show ?thesis
  proof (cases link)
    case None
    then show ?thesis
      using set_session_ok [OF ok advances_refl [OF ok], of "Finished None" n] service over st
      by (simp add: end_session_def in_service_def session_ok_def)
  next
    case (Some a)
    let ?l = "ko_heap c ! a"
    let ?closed = "update_link a close_link c"
    let ?erased = "?closed\<lparr>ko_links := om_erase (bl_backend_id ?l) (ko_links ?closed)\<rparr>"
    let ?fence = "router_call now (Authority (FenceBackendBoot (bl_backend_id ?l) (bl_backend_generation ?l) (bl_backend_boot ?l) FENCED)) ?erased"
    have a: "a < length (ko_heap c)" using serving_link [OF ok st] Some by simp
    have links: "links_ok ?closed" "om_ok (ko_links c)"
      using links_ok_update [of c close_link a] service by (simp_all add: in_service_def links_ok_def)
    have "links_ok ?erased"
      using links by (simp add: links_ok_def update_link_def om_ok_erase om_find_erase)
    moreover have "links_grow c ?erased"
      using heap_grows_update [of close_link "ko_heap c" a] links(2)
      by (auto simp: links_grow_def update_link_def om_find_erase)
    ultimately have step: "keeps c ?erased"
      using service by (simp add: keeps_def in_service_def update_link_def evolves_refl)
    have service': "in_service ?erased" by (rule keeps_service [OF service step])
    have fence: "keeps ?erased (snd ?fence)" by (rule keeps_call [OF service'])
    have both: "keeps c (snd ?fence)" by (rule keeps_trans [OF service step fence])
    have "om_ok (cs_fenced_boots (snd (ko_router c)))" "link_valid ?l" "router_ok (ko_router c)"
      using service a by (simp_all add: in_service_def router_ok_def state_ok_def catalog_ok_def maps_ok_def links_ok_def
          list_all_length)
    then have "is_fenced (snd (ko_router (snd ?fence))) (bl_backend_id ?l) (bl_backend_boot ?l) \<or> fences_full (snd (ko_router (snd ?fence)))"
      using fenced_by_call [of "bl_backend_id ?l" "bl_backend_boot ?l" "snd (ko_router c)"]
        fences_full_evolves [of "ko_router c" "ko_router (snd ?fence)"] both
      by (auto simp: link_valid_def router_call_def update_link_def keeps_def split_beta)
    moreover have "ko_heap (snd ?fence) = (ko_heap c)[a := close_link ?l]"
      "ko_links (snd ?fence) = om_erase (bl_backend_id ?l) (ko_links c)"
      by (simp_all add: router_call_def update_link_def split_beta)
    moreover have "om_find (om_erase (bl_backend_id ?l) (ko_links c)) i \<noteq> Some a" for i
      using service links(2) by (auto simp: om_find_erase in_service_def links_ok_def)
    ultimately have gone: "worker_gone (snd ?fence) a" using a by (simp add: worker_gone_def close_link_def)
    have "c' = set_session n (Finished (Some a)) (snd ?fence)" using over st Some by (simp add: end_session_def Let_def)
    then show ?thesis
      using set_session_ok [OF ok keeps_advances [OF both], of "Finished (Some a)" n] both gone
      by (simp add: keeps_def session_ok_def worker_gone_def)
  qed
qed

lemma begin_stop_ok:
  assumes ok: "coordinator_ok c"
  shows "coordinator_ok (begin_stop c) \<and> advances c (begin_stop c)"
proof -
  have step: "coordinator_ok (foldl (\<lambda>c (_, a). update_link a close_link c) c links) \<and>
      advances c (foldl (\<lambda>c (_, a). update_link a close_link c) c links)" if "coordinator_ok c" for c and links :: "(entity_id \<times> nat) list"
    using that
  proof (induction links arbitrary: c)
    case (Cons x links)
    let ?d = "update_link (snd x) close_link c"
    have k: "keeps c ?d" using keeps_link Cons.prems by (simp add: coordinator_ok_def)
    have "in_service ?d" using keeps_service [OF _ k] Cons.prems by (simp add: coordinator_ok_def)
    moreover have "sessions_ok ?d"
      using sessions_ok_grows [of c ?d] Cons.prems k by (simp add: coordinator_ok_def keeps_def links_grow_def)
    moreover have "worker_gone ?d a" if "om_find (ko_sessions ?d) n = Some (Finished (Some a))" for n a
      using worker_gone_advances [OF _ keeps_advances [OF k]] Cons.prems that
      by (simp add: coordinator_ok_def in_service_def update_link_def)
    ultimately have "coordinator_ok ?d" by (simp add: coordinator_ok_def)
    moreover have "router_ok (ko_router c)" using Cons.prems by (simp add: coordinator_ok_def in_service_def)
    ultimately show ?case
      using Cons.IH [of ?d] advances_trans [OF _ keeps_advances [OF k]] by (simp add: split_beta)
  qed (simp add: advances_refl)
  have "coordinator_ok (c\<lparr>ko_stopping := True, ko_joining := True\<rparr>)"
    using ok by (simp add: coordinator_ok_def in_service_def links_ok_def sessions_ok_def worker_gone_def)
  from step [OF this, of "ko_links c"] show ?thesis
    using ok advances_refl [OF ok] by (simp add: begin_stop_def advances_def links_grow_def)
qed

lemma co_step_ok:
  assumes "co_step c c'" and ok: "coordinator_ok c" and "identities_left (ko_router c)" "not_overtaken c"
  shows "coordinator_ok c' \<and> advances c c'"
  using assms(1)
proof cases
  case (accepted n)
  have "links_ok c" using ok by (simp add: coordinator_ok_def in_service_def)
  then show ?thesis
    using ok advances_refl [OF ok] set_session_ok [OF ok advances_refl [OF ok], of "Serving None" n]
    by (simp add: accepted accept_connection_def session_ok_def)
next
  case (hung_up n link)
  then show ?thesis
    using set_session_ok [OF ok advances_refl [OF ok], of "Leaving link" n] serving_link [OF ok hung_up(2)] ok
    by (simp add: coordinator_ok_def in_service_def session_ok_def)
qed (use assms serve_frame_ok finish_dispatch_ok end_session_ok begin_stop_ok in blast)+

end
