(* ===== verification/Coordinator_Properties.thy ===== *)
theory Coordinator_Properties
  imports Coordinator_Safety Dispatch_Safety
begin

text \<open>
  The properties of the coordinator over all interleavings of its sessions, and what they leave out:
  a dispatch that was overtaken while it waited, and a worker that could not be told that it is
  registered.
\<close>

section \<open>Runs\<close>

text \<open>The coordinators that a coordinator can become while identities are left and no waiting dispatch is
  overtaken.\<close>

inductive co_reach :: "CoordinatorState \<Rightarrow> CoordinatorState \<Rightarrow> bool" for c0 where
  here: "co_reach c0 c0"
| step: "co_reach c0 c \<Longrightarrow> co_step c c' \<Longrightarrow> identities_left (ko_router c) \<Longrightarrow> not_overtaken c \<Longrightarrow> co_reach c0 c'"

lemma co_reach_ok:
  assumes "co_reach c0 c" "coordinator_ok c0"
  shows "coordinator_ok c \<and> advances c0 c"
  using assms
proof (induction rule: co_reach.induct)
  case here
  then show ?case using advances_refl by blast
next
  case (step c c')
  then have c: "coordinator_ok c" "advances c0 c" by simp_all
  have "coordinator_ok c' \<and> advances c c'" by (rule co_step_ok [OF step.hyps(2) c(1) step.hyps(3,4)])
  moreover have "router_ok (ko_router c0)" using step.prems by (simp add: coordinator_ok_def in_service_def)
  ultimately show ?case using advances_trans c(2) by blast
qed

section \<open>Starting\<close>

lemma register_all_ok: "in_service c \<Longrightarrow> keeps c (snd (register_all now commands c))"
proof (induction commands arbitrary: c)
  case (Cons command commands)
  have k: "keeps c (snd (router_call now command c))" by (rule keeps_call [OF Cons.prems])
  then have "keeps c (snd (register_all now commands (snd (router_call now command c))))"
    using Cons.IH keeps_service [OF Cons.prems k] keeps_trans [OF Cons.prems k] by blast
  then show ?case using k by (simp add: split_beta)
qed (simp add: keeps_refl)

lemma started_running: "mr_accepted (fst (start options_error NotLoaded now ids s)) \<Longrightarrow>
    cs_running (snd (snd (start options_error NotLoaded now ids s)))"
  by (auto simp: start_def start_published_def publish_start_def MutationResult_make_def is_acceptance_def Let_def
      split: if_splits)

lemma started_coordinator_ok:
  assumes "start_coordinator NotLoaded listening now (new_coordinator p ids) = (None, c)"
    and "max_route_history (op_limits p) \<noteq> 0"
  shows "coordinator_ok c"
proof -
  let ?c = "new_coordinator p ids"
  let ?s = "start (ModelRouterOptions_validate (router_options p)) NotLoaded now (fst (ko_router ?c)) (snd (ko_router ?c))"
  have ok: "router_ok (ko_router ?c)"
    using initial_router_ok [of "router_options p" ids] assms(2) by (simp add: new_coordinator_def router_options_def)
  have e: "evolves (ko_router ?c) (snd ?s)" using evolves_start [of "fst (ko_router ?c)" "snd (ko_router ?c)"] ok by simp
  have opts: "ko_options ?c = p" "ko_links ?c = om_empty" "ko_heap ?c = []" "ko_sessions ?c = om_empty"
    by (simp_all add: new_coordinator_def)
  obtain started x where st: "?s = (started, x)" by (rule prod.exhaust)
  obtain error c'' where reg: "register_all now (RegisterProvider (reference_provider (ko_catalog ?c)) #
      map RegisterModel (make_models (ko_catalog ?c) 1)) (?c\<lparr>ko_router := x\<rparr>) = (error, c'')" by (rule prod.exhaust)
  have "start_coordinator NotLoaded listening now ?c =
      (if \<not> mr_accepted started then (Some (ex_message (mr_explanation started)), ?c\<lparr>ko_router := x\<rparr>)
       else case error of Some e \<Rightarrow> (Some e, c'') | None \<Rightarrow> (listening, c''))"
    unfolding start_coordinator_def opts st Let_def prod.case reg by (simp split: option.split)
  then have accepted: "mr_accepted (fst ?s)" and c: "c = c''"
    using assms(1) by (simp_all add: st split: if_splits option.splits)
  have service: "in_service (?c\<lparr>ko_router := x\<rparr>)"
    using e started_running [OF accepted] by (simp add: st in_service_def links_ok_def opts evolves_def om_empty_def om_ok_def)
  then have k: "keeps (?c\<lparr>ko_router := x\<rparr>) c''" using register_all_ok [OF service] reg by (metis snd_conv)
  then have "in_service c \<and> ko_sessions c = om_empty"
    unfolding c using keeps_service [OF service k] opts by (simp add: keeps_def)
  then show ?thesis by (simp add: coordinator_ok_def sessions_ok_def om_empty_def om_ok_def)
qed


section \<open>A sample coordinator\<close>

text \<open>It hosts the sample router; connection 1 is the worker of backend 7, connection 2 an administrator.\<close>

definition sample_coordinator_options :: CoordinatorOptions where
  "sample_coordinator_options =
     \<lparr>op_limits = default_resource_limits, op_state_path = [], op_load_on_start = False, op_save_on_shutdown = False,
      op_router_generation = 1\<rparr>"

definition sample_link :: BackendLink where
  "sample_link = \<lparr>bl_backend_id = 7, bl_backend_generation = 1, bl_backend_boot = 1, bl_connection = 1,
     bl_results = om_empty, bl_closed = False\<rparr>"

definition sample_coordinator :: CoordinatorState where
  "sample_coordinator = (new_coordinator sample_coordinator_options 0)
     \<lparr>ko_router := (100, sample_state), ko_links := [(7, 0)], ko_heap := [sample_link],
      ko_sessions := [(1, Leaving (Some 0)), (2, Serving None)]\<rparr>"

lemma sample_coordinator_ok: "coordinator_ok sample_coordinator"
proof -
  have "om_ok [(7 :: entity_id, 0 :: nat)]" "om_ok [(1 :: nat, Leaving (Some 0)), (2, Serving None)]"
    by (simp_all add: om_ok_def)
  moreover have "cs_running sample_state" by (simp add: sample_state_def sample_state_with_def)
  ultimately show ?thesis
    using sample_router_ok
    by (auto simp: coordinator_ok_def in_service_def links_ok_def sessions_ok_def session_ok_def sample_coordinator_def
        sample_link_def link_valid_def valid_id_def split: if_splits)
qed

lemma sample_identities: "identities_left (ko_router sample_coordinator)"
proof -
  have "reroute_identities i sample_state = 4" for i
    by (simp add: reroute_identities_def sample_state_def sample_state_with_def sample_record_def sample_plan_def RoutePlan_default_def)
  then show ?thesis by (simp add: identities_left_def sample_coordinator_def)
qed

lemma sample_not_overtaken: "not_overtaken sample_coordinator"
  by (auto simp: not_overtaken_def sample_coordinator_def split: if_splits)

text \<open>The worker's session is torn down.\<close>

definition sample_after_loss :: CoordinatorState where
  "sample_after_loss = the (end_session 60 1 sample_coordinator)"

lemma sample_torn_down: "end_session 60 1 sample_coordinator = Some sample_after_loss"
  by (simp add: sample_after_loss_def end_session_def sample_coordinator_def Let_def)

lemma sample_loss_reached: "co_reach sample_coordinator sample_after_loss"
  by (rule co_reach.step [OF co_reach.here co_step.torn_down [OF sample_torn_down] sample_identities sample_not_overtaken])

lemma sample_loss_session: "om_find (ko_sessions sample_after_loss) 1 = Some (Finished (Some 0))"
  by (simp add: sample_after_loss_def end_session_def sample_coordinator_def Let_def set_session_def router_call_def update_link_def split_beta)

lemma sample_loss_room: "\<not> fences_full (snd (ko_router sample_after_loss))"
proof -
  have "om_ok (cs_fenced_boots sample_state)" "cs_fenced_boots sample_state = []"
    by (simp_all add: sample_state_def sample_state_with_def CanonicalState_default_def om_empty_def om_ok_def)
  then have "length (cs_fenced_boots (snd (fence_backend_boot 60 (7, 1, 1, FENCED) sample_state))) \<le> 1"
    by (simp add: fence_backend_boot_def attempt_def accept_def Let_def put_fence_def is_fenced_def MutationResult_make_def
        stale_decisions_for_authority_change_def stale_decisions_for_backend_def drop_backend_frame length_om_put split: option.split)
  moreover have "snd (ko_router sample_after_loss) = snd (fence_backend_boot 60 (7, 1, 1, FENCED) sample_state)"
    by (simp add: sample_after_loss_def end_session_def sample_coordinator_def Let_def set_session_def router_call_def split_beta update_link_def
        sample_link_def)
  moreover have "cs_limits (snd (ko_router sample_after_loss)) = default_resource_limits"
    using co_reach_ok [OF sample_loss_reached sample_coordinator_ok]
    by (simp add: advances_def evolves_def sample_coordinator_def sample_state_def sample_state_with_def CanonicalState_default_def)
  ultimately show ?thesis by (simp add: fences_full_def default_resource_limits_def)
qed


text \<open>The administrator's dispatch of decision 40, with the worker's session still in its loop.\<close>

definition sample_surroundings :: surroundings where
  "sample_surroundings = \<lparr>sr_now = 50, sr_sent = None, sr_forwarded = None, sr_writes = good_write,
     sr_reads = \<lparr>rc_opened = False, rc_seeked = False, rc_size = 0, rc_read = []\<rparr>\<rparr>"

definition sample_waiting :: Waiting where
  "sample_waiting = \<lparr>pn_now = 50, pn_decision_id = 40, pn_stored = sample_record, pn_candidate = sample_found,
     pn_epoch = 1, pn_coordinator_epoch = 1, pn_link = 0, pn_message = dispatch_message 101 sample_record\<rparr>"

lemma no_dispatcher_evidence:
  "target_verdict (p\<lparr>pr_dispatcher := h\<rparr>) now stored s candidate = target_verdict p now stored s candidate"
  by (simp add: target_verdict_def target_evidence_def resolve_candidate_def resolve_slo_def resolve_slo_verdict_def
      resolve_reservation_def resolve_cost_def resolve_compatibility_def resolve_trust_def)

lemma dispatch_target_dispatcher:
  "dispatch_target (p\<lparr>pr_dispatcher := h\<rparr>) now stored captured s record = dispatch_target p now stored captured s record"
  unfolding dispatch_target_def no_dispatcher_evidence by (rule refl)

lemma until_handoff_dispatcher:
  "dispatch_until_handoff (p\<lparr>pr_dispatcher := h\<rparr>) now i s = dispatch_until_handoff p now i s"
  unfolding dispatch_until_handoff_def dispatch_target_dispatcher by (rule refl)

lemma sample_until_handoff:
  "dispatch_until_handoff ProviderSet_default 50 40 sample_state =
     (Inr (sample_record, sample_found), update_route 40 mark_current sample_state)"
proof -
  let ?s = "update_route 40 mark_current sample_state"
  have start: "dispatch_start 40 sample_state = Inr sample_record"
    using sample_not_stopping by (simp add: dispatch_start_def sample_lookup)
  have tenant: "first_reject (tenancy_refusals 0 0 (rec_tenant sample_record) (rec_name_space sample_record)) = None"
    by (simp add: tenancy_refusals_def valid_id_def)
  have "\<exists>result. revalidate 50 40 0 0 sample_state = (result, ?s) \<and> mr_code result = ACCEPTED"
    using revalidate_judges [OF sample_lookup, of 0 0 50] sample_dispatchable sample_not_stopping
    by (simp add: sample_record_fields valid_id_def open_status_def is_authority_dispatchable_def revalidation_admitted_def)
  then obtain result where r: "revalidate 50 40 0 0 sample_state = (result, ?s)" "mr_code result = ACCEPTED" by blast
  have "eligible (target_verdict ProviderSet_default 50 sample_record sample_state sample_found)"
    using sample_target_eligible unfolding sample_handler_def no_dispatcher_evidence .
  then have "dispatch_target ProviderSet_default 50 sample_record ?s ?s ((dispatch_record 40 sample_record)\<lparr>dr_revalidated := True\<rparr>) =
      Inr sample_found"
    by (simp add: dispatch_target_def sample_record_fields update_route_frame sample_target sample_found_fields
        sample_candidate_def Let_def)
  then show ?thesis
    using r(2) by (simp add: dispatch_until_handoff_def start tenant r(1) Let_def is_acceptance_def)
qed

lemma sample_begins:
  "begin_dispatch sample_surroundings 40 sample_coordinator =
     (Wait sample_waiting, sample_coordinator\<lparr>ko_router := (101, update_route 40 mark_current sample_state)\<rparr>)"
proof -
  have next': "IdAllocator_next 100 = (101, 101)" by (simp add: IdAllocator_next_def Let_def)
  obtain payload where "encode_dispatch (ko_limits sample_coordinator) (dispatch_message 101 sample_record) = Inr payload"
    by (cases "encode_dispatch (ko_limits sample_coordinator) (dispatch_message 101 sample_record)")
       (simp_all add: encode_dispatch_def encode_message_def put_u64_def put_u32_def put_candidate_key_def write_candidate_key_def)
  moreover have "ck_backend_id (pl_primary (rec_plan sample_record)) = 7" "ck_backend_boot (pl_primary (rec_plan sample_record)) = 1"
    by (simp_all add: sample_record_fields sample_candidate_def)
  ultimately have "handoff_send None sample_record sample_coordinator 100 =
      (Inr (0, dispatch_message 101 sample_record), 101)"
    by (simp add: handoff_send_def sample_coordinator_def sample_link_def next' Let_def)
  moreover have "cs_router_epoch (update_route 40 mark_current sample_state) = 1"
    "cs_coordinator_epoch (update_route 40 mark_current sample_state) = 1"
    by (simp_all add: update_route_def sample_state_def sample_state_with_def)
  ultimately show ?thesis
    by (simp add: begin_dispatch_def sample_surroundings_def sample_until_handoff sample_coordinator_def update_route_frame
        sample_waiting_def)
qed

text \<open>A coordinator with the default limits starts.\<close>

lemma register_fresh_model:
  assumes "ModelDescriptor_validate m = []" "\<not> cs_shutting_down s" "length (cs_models s) < unat (max_models (cs_limits s))"
    "om_find (cs_model_generation_watermark s) (md_model_id m) = None" "om_find (cs_models s) (md_model_id m) = None"
  shows "\<exists>result. register_model m s = (result, s\<lparr>cs_model_generation_watermark :=
      om_put (md_model_id m) (md_model_generation m) (cs_model_generation_watermark s),
      cs_models := om_put (md_model_id m) m (cs_models s)\<rparr>) \<and> mr_accepted result"
  using assms by (simp add: register_model_def attempt_def accept_def is_acceptance_def)

lemma register_fresh_provider:
  assumes "valid_id (pd_provider_id d)" "valid_id (pd_generation d)" "\<not> cs_shutting_down s" "cs_providers s = om_empty"
    "0 < unat (max_providers (cs_limits s))"
  shows "\<exists>result s'. register_provider d s = (result, s') \<and> mr_accepted result \<and> cs_models s' = cs_models s \<and>
    cs_model_generation_watermark s' = cs_model_generation_watermark s \<and> cs_limits s' = cs_limits s \<and>
    cs_shutting_down s' = cs_shutting_down s"
  using assms by (simp add: register_provider_def attempt_def accept_def is_acceptance_def Let_def om_empty_def)

lemma sample_starts:
  "\<exists>c. start_coordinator NotLoaded None 5 (new_coordinator sample_coordinator_options 0) = (None, c)"
proof -
  let ?c = "new_coordinator sample_coordinator_options 0"
  have valid: "ModelRouterOptions_validate (router_options sample_coordinator_options) = []"
    by (simp add: ModelRouterOptions_validate_def router_options_def sample_coordinator_options_def default_limits_valid
        default_weights_valid RankingScales_validate_def RankingScales_default_def)
  let ?st = "start [] NotLoaded 5 (fst (ko_router ?c)) (snd (ko_router ?c))"
  have st: "mr_accepted (fst ?st)" "\<not> cs_shutting_down (snd (snd ?st))" "cs_providers (snd (snd ?st)) = om_empty"
    "cs_models (snd (snd ?st)) = om_empty" "cs_model_generation_watermark (snd (snd ?st)) = om_empty"
    "cs_limits (snd (snd ?st)) = default_resource_limits"
    by (simp_all add: new_coordinator_def router_options_def sample_coordinator_options_def Impl_new_def Let_def
        IdAllocator_next_def valid_id_def start_def start_published_def publish_start_def CanonicalState_default_def
        is_acceptance_def om_empty_def split: prod.split)
  obtain started ids s where start: "?st = (started, ids, s)" by (metis prod.exhaust)
  obtain r0 s0 where p: "register_provider (reference_provider make_catalog) s = (r0, s0)" "mr_accepted r0"
      "cs_models s0 = om_empty" "cs_model_generation_watermark s0 = om_empty" "cs_limits s0 = default_resource_limits"
      "\<not> cs_shutting_down s0"
    using register_fresh_provider [of "reference_provider make_catalog" s] st
    by (auto simp: start reference_provider_def make_catalog_def valid_id_def default_resource_limits_def)
  obtain m1 m2 m3 where models: "make_models make_catalog 1 = [m1, m2, m3]" "md_model_id m1 = 1" "md_model_id m2 = 2" "md_model_id m3 = 3"
    using reference_models_listed [of 1] by (auto simp: map_eq_Cons_conv)
  have mv: "ModelDescriptor_validate m1 = []" "ModelDescriptor_validate m2 = []" "ModelDescriptor_validate m3 = []"
    using reference_models_valid [of _ 1] models by simp_all
  note room = default_resource_limits_def om_empty_def
  obtain r1 s1 where s1: "register_model m1 s0 = (r1, s1)" "mr_accepted r1" "cs_models s1 = [(1, m1)]"
      "cs_model_generation_watermark s1 = [(1, md_model_generation m1)]" "cs_limits s1 = default_resource_limits" "\<not> cs_shutting_down s1"
    using register_fresh_model [of m1 s0] p models mv by (auto simp: room)
  obtain r2 s2 where s2: "register_model m2 s1 = (r2, s2)" "mr_accepted r2" "cs_models s2 = [(1, m1), (2, m2)]"
      "cs_model_generation_watermark s2 = [(1, md_model_generation m1), (2, md_model_generation m2)]"
      "cs_limits s2 = default_resource_limits" "\<not> cs_shutting_down s2"
    using register_fresh_model [of m2 s1] s1 models mv by (auto simp: room)
  obtain r3 s3 where s3: "register_model m3 s2 = (r3, s3)" "mr_accepted r3"
    using register_fresh_model [of m3 s2] s2 models mv by (auto simp: room)
  have "ko_catalog ?c = make_catalog" "ko_options ?c = sample_coordinator_options" by (simp_all add: new_coordinator_def)
  then show ?thesis
    using valid start st(1) p s1 s2 s3
    by (simp add: start_coordinator_def models(1) Let_def router_call_def)
qed


section \<open>Properties\<close>









text \<open>The sample dispatch after the worker's result for it has arrived.\<close>

definition sample_answered :: CoordinatorState where
  "sample_answered = update_link 0 (put_result \<lparr>dx_dispatch_id = 101, dx_decision_id = 40, dx_code = OutcomeCode.DISPATCHED,
       dx_failure = FailureClass.UNKNOWN, dx_latency_micros = 5, dx_detail = []\<rparr>)
     (sample_coordinator\<lparr>ko_router := (101, update_route 40 mark_current sample_state)\<rparr>)"

lemma sample_ends: "end_dispatch sample_waiting sample_answered \<noteq> None"
proof -
  have "handoff_receive (pn_stored sample_waiting) (pn_message sample_waiting) (ko_heap sample_answered ! pn_link sample_waiting) \<noteq> None"
    by (simp add: handoff_receive_def sample_waiting_def sample_answered_def update_link_def put_result_def sample_link_def
        sample_coordinator_def dispatch_message_def om_empty_def)
  then show ?thesis by (auto simp: end_dispatch_def split: prod.split)
qed


lemma after_reply:
  assumes "(\<exists>f. ans = Reply f) \<or> ans = Return False" and "om_ok (ko_sessions c)"
  shows "\<exists>l'. om_find (ko_sessions (after_frame e n l ans c)) n \<in> {Some (Serving l'), Some (Leaving l')}"
  using assms by (auto simp: after_frame_def Let_def set_session_def om_find_put)



definition sample_orphan :: CoordinatorState where
  "sample_orphan = set_session 2 (Dispatching None sample_waiting) sample_after_loss"

lemma sample_orphan_ok: "coordinator_ok sample_orphan"
  "om_find (ko_sessions sample_orphan) 2 = Some (Dispatching None sample_waiting)"
  "om_find (ko_sessions sample_orphan) 1 = Some (Finished (Some (pn_link sample_waiting)))"
proof -
  have ok: "coordinator_ok sample_after_loss" using co_reach_ok [OF sample_loss_reached sample_coordinator_ok] by simp
  have "length (ko_heap sample_after_loss) = 1"
    by (simp add: sample_after_loss_def end_session_def sample_coordinator_def Let_def set_session_def router_call_def split_beta
        update_link_def)
  then show "coordinator_ok sample_orphan"
    using set_session_ok [OF ok advances_refl [OF ok], of "Dispatching None sample_waiting" 2] ok
    by (simp add: sample_orphan_def session_ok_def sample_waiting_def coordinator_ok_def in_service_def)
  have "om_ok (ko_sessions sample_after_loss)" using ok by (simp add: coordinator_ok_def sessions_ok_def)
  then show "om_find (ko_sessions sample_orphan) 2 = Some (Dispatching None sample_waiting)"
    "om_find (ko_sessions sample_orphan) 1 = Some (Finished (Some (pn_link sample_waiting)))"
    using sample_loss_session by (simp_all add: sample_orphan_def set_session_def om_find_put sample_waiting_def)
qed


section \<open>What the code does not guarantee\<close>

text \<open>The last stage of a dispatch looks at the epochs only: a decision that was staled, fenced or completed
  while its dispatch waited is marked dispatched all the same.\<close>

lemma overtaken_dispatch_recorded:
  assumes "om_find (cs_routes (snd x)) i = Some r" and "dr_code answered = OutcomeCode.DISPATCHED"
  shows "\<exists>r'. om_find (cs_routes (snd (snd (dispatch_after_handoff now i stored candidate (cs_router_epoch (snd x))
      (cs_coordinator_epoch (snd x)) answered x)))) i = Some r' \<and> rd_status (rec_decision r') = RouteStatus.DISPATCHED"
  using assms
  by (simp add: dispatch_after_handoff_def handoff_record_def record_dispatch_def Let_def split_beta update_route_def
      om_update_def om_find_put_same mark_dispatched_def)

text \<open>A worker whose registration is accepted but cannot be acknowledged leaves its loop before the
  session has resolved the link: the session ends without fencing the worker and without taking its link
  out of the table.\<close>

lemma lost_acknowledgement_leaves_worker:
  assumes "sr_sent e \<noteq> None" and "om_ok (ko_sessions c)"
  shows "\<exists>c'. end_session now n (after_frame e n None (Reply ack) c) = Some c' \<and> ko_router c' = ko_router c \<and>
    ko_links c' = ko_links c \<and> ko_heap c' = ko_heap c"
  using assms by (simp add: end_session_def after_frame_def set_session_def om_find_put)

text \<open>The end of a session erases whatever link stands under its backend, also that of a newer session.\<close>

lemma end_session_erases_newer_link:
  assumes "om_find (ko_sessions c) n = Some (Leaving (Some a))" and "om_ok (ko_links c)"
  shows "\<exists>c'. end_session now n c = Some c' \<and> om_find (ko_links c') (bl_backend_id (ko_heap c ! a)) = None"
  using assms
  by (simp add: end_session_def Let_def set_session_def router_call_def split_beta update_link_def om_find_erase)

text \<open>Sessions are never taken out, so once as many connections as the limit have been accepted, no
  other is accepted any more.\<close>

lemma set_session_grows: "om_ok m \<Longrightarrow> length m \<le> length (om_put n st m)"
  by (simp add: length_om_put)

lemma co_step_sessions_grow:
  assumes "co_step c c'" "coordinator_ok c" "identities_left (ko_router c)" "not_overtaken c"
  shows "fst ` set (ko_sessions c) \<subseteq> fst ` set (ko_sessions c')"
proof -
  have set: "fst ` set (ko_sessions c) \<subseteq> fst ` set (ko_sessions (set_session n st d))" if "ko_sessions d = ko_sessions c" for n st d
    using that by (auto simp: set_session_def fst_om_put)
  have after: "fst ` set (ko_sessions c) \<subseteq> fst ` set (ko_sessions (after_frame e n l ans d))" if "ko_sessions d = ko_sessions c" for e n l ans d
    using set [OF that] by (auto simp: after_frame_def Let_def split: answer.split)
  have service: "in_service c" using assms(2) by (simp add: coordinator_ok_def)
  from assms(1) show ?thesis
  proof cases
    case (accepted n)
    then show ?thesis using set [of c n "Serving None"] by (auto simp: accept_connection_def)
  next
    case (served e n frame)
    let ?c = "c\<lparr>ko_frames_handled := ko_frames_handled c + 1\<rparr>"
    obtain link ans d where h: "handle_frame e n frame ?c = Some (ans, d)" and c': "c' = after_frame e n link ans d"
      using served by (auto simp: serve_frame_def split: option.splits session_state.splits)
    have "in_service ?c" "identities_left (ko_router ?c)" using service assms(3) by (simp_all add: in_service_def links_ok_def)
    then have "ko_sessions d = ko_sessions c" using handles_frame [of ?c] h by (simp add: handles_def keeps_def)
    then show ?thesis using after c' by blast
  next
    case (answered e n)
    then obtain l w ans d where "end_dispatch w c = Some (ans, d)" "c' = after_frame e n l ans d"
      by (auto simp: finish_dispatch_def split: option.splits session_state.splits)
    moreover from this have "ko_sessions d = ko_sessions c"
      by (auto simp: end_dispatch_def update_link_def split: option.splits prod.splits)
    ultimately show ?thesis using after by blast
  next
    case (torn_down now n)
    then show ?thesis
      by (auto simp: end_session_def Let_def set_session_def fst_om_put router_call_def update_link_def split_beta
          split: option.splits session_state.splits; force)
  next
    case stopping
    have "ko_sessions (foldl (\<lambda>c (_, a). update_link a close_link c) d links) = ko_sessions d" for d and links :: "(entity_id \<times> nat) list"
      by (induction links arbitrary: d) (auto simp: update_link_def)
    then show ?thesis using stopping by (simp add: begin_stop_def)
  next
    case (hung_up n link)
    then show ?thesis using set [of c n "Leaving link"] by simp
  qed
qed

lemma session_limit_exhausted:
  assumes "co_reach c0 c" "coordinator_ok c0" "unat (max_session_threads (ko_limits c0)) \<le> length (ko_sessions c0)"
  shows "accept_connection n c = c"
proof -
  have "fst ` set (ko_sessions c0) \<subseteq> fst ` set (ko_sessions c)"
    using assms(1,2)
  proof (induction rule: co_reach.induct)
    case (step c c')
    then show ?case using co_step_sessions_grow co_reach_ok by blast
  qed simp
  then have "card (fst ` set (ko_sessions c0)) \<le> card (fst ` set (ko_sessions c))" by (intro card_mono) simp_all
  moreover have "card (fst ` set m) = length m" if "om_ok m" for m :: "(nat, session_state) omap"
    using that strictly_ascending_distinct [of "map fst m"] distinct_card [of "map fst m"] by (simp add: om_ok_def)
  moreover have "om_ok (ko_sessions c0)" "om_ok (ko_sessions c)" "ko_options c = ko_options c0"
    using assms(2) co_reach_ok [OF assms(1,2)] by (simp_all add: coordinator_ok_def sessions_ok_def advances_def)
  ultimately show ?thesis using assms(3) by (simp add: accept_connection_def ko_limits_def)
qed

end
