(* ===== verification/Coordinator_Stop.thy ===== *)
theory Coordinator_Stop
  imports Coordinator_Properties
begin

text \<open>
  Joining the sessions in \<open>stop\<close> of \<open>reference/coordinator.cpp\<close>: once the clients send nothing any more
  the sessions come to an end, unless a dispatch waits for a worker that is still connected.
\<close>

text \<open>What then happens to the sessions: a client hangs up, a dispatch ends, a session is torn down.\<close>

inductive teardown :: "CoordinatorState \<Rightarrow> CoordinatorState \<Rightarrow> bool" where
  client_gone: "om_find (ko_sessions c) n = Some (Serving link) \<Longrightarrow> teardown c (set_session n (Leaving link) c)"
| dispatch_over: "finish_dispatch e n c = Some c' \<Longrightarrow> teardown c c'"
| session_over: "end_session now n c = Some c' \<Longrightarrow> teardown c c'"

primrec turns_left :: "session_state \<Rightarrow> nat" where
  "turns_left (Finished l) = 0"
| "turns_left (Leaving l) = 1"
| "turns_left (Serving l) = 2"
| "turns_left (Dispatching l w) = 3"

definition unrest :: "CoordinatorState \<Rightarrow> nat" where
  "unrest c = sum_list (map (turns_left \<circ> snd) (ko_sessions c))"

text \<open>Every such step moves one session on.\<close>

lemma teardown_moves:
  assumes "teardown c c'"
  obtains n st st' d where "om_find (ko_sessions c) n = Some st" "c' = set_session n st' d"
    "ko_sessions d = ko_sessions c" "turns_left st' < turns_left st"
  using assms
proof cases
  case (client_gone n link)
  then show thesis by (intro that [of n "Serving link" "Leaving link" c]) simp_all
next
  case (dispatch_over e n)
  then obtain l w ans d where st: "om_find (ko_sessions c) n = Some (Dispatching l w)" and ended: "end_dispatch w c = Some (ans, d)"
    and c': "c' = after_frame e n l ans d"
    by (auto simp: finish_dispatch_def split: option.splits session_state.splits)
  have d: "ko_sessions d = ko_sessions c" and ans: "ans \<noteq> Wait v" for v
    using ended by (auto simp: end_dispatch_def update_link_def split: option.splits prod.splits)
  have "\<exists>st'. c' = set_session n st' d \<and> turns_left st' < 3"
    using ans unfolding c' after_frame_def Let_def by (cases ans) (auto intro: exI)
  then show thesis using that [OF st _ d] by auto
next
  case (session_over now n)
  then obtain link where st: "om_find (ko_sessions c) n = Some (Leaving link)"
    by (auto simp: end_session_def split: option.splits session_state.splits)
  have "\<exists>d. c' = set_session n (Finished link) d \<and> ko_sessions d = ko_sessions c"
    using session_over st by (cases link) (auto simp: end_session_def Let_def router_call_def update_link_def split_beta intro: exI)
  then show thesis using that [OF st] by auto
qed

lemma teardown_settles:
  assumes "teardown c c'"
  shows "unrest c' < unrest c"
proof -
  obtain n st st' d where "om_find (ko_sessions c) n = Some st" "c' = set_session n st' d"
    "ko_sessions d = ko_sessions c" "turns_left st' < turns_left st"
    using assms by (rule teardown_moves)
  then show ?thesis using sum_om_put [of "ko_sessions c" n st turns_left st'] by (simp add: unrest_def set_session_def)
qed

lemma unrest_bound: "unrest c \<le> 3 * length (ko_sessions c)"
proof -
  have "turns_left st \<le> 3" for st by (cases st) simp_all
  then have "sum_list (map (turns_left \<circ> snd) xs) \<le> 3 * length xs" for xs :: "(nat \<times> session_state) list"
    by (induction xs) (simp_all add: add_mono)
  then show ?thesis by (simp add: unrest_def)
qed

text \<open>A dispatch whose condition does not hold yet.\<close>

definition still_waits :: "CoordinatorState \<Rightarrow> session_state \<Rightarrow> bool" where
  "still_waits c st \<longleftrightarrow> (\<exists>l w. st = Dispatching l w \<and> \<not> bl_closed (ko_heap c ! pn_link w) \<and>
     om_find (bl_results (ko_heap c ! pn_link w)) (dm_dispatch_id (pn_message w)) = None)"




end
