(* ===== verification/Explanation_Text.thy ===== *)
theory Explanation_Text
  imports Snapshot
begin

text \<open>
  What a router tells about a retained decision (\<open>src/explanation.cpp\<close>, \<open>explain_route\<close> of
  \<open>src/router_snapshot.cpp\<close>): the text and the JSON of a route explanation.  The lemmas show what the
  escaping is for: a string that went through \<open>escape_json\<close> has no quote and no control character
  left that could end its literal, and is read back unchanged.
\<close>

section \<open>Text\<close>

definition factor_text :: "FactorValue \<Rightarrow> string" where
  "factor_text f = RankingFactor_to_string (fv_factor f) @ '':'' @
     (if fv_known f then dec_int (fv_normalized f) else ''UNKNOWN'')"

definition ranked_text :: "RankedCandidate \<Rightarrow> string" where
  "ranked_text c = [CHR 0x0A] @ ''  #'' @ dec_u32 (rk_rank c) @ '' score='' @ dec_int (rk_score c) @ '' '' @
     CandidateKey_to_string (rk_key c) @ '' factors='' @ comma_separated (map factor_text (rk_factors c))"

definition rejection_text_line :: "RouteRejection \<Rightarrow> string" where
  "rejection_text_line j = [CHR 0x0A] @ ''  model='' @ dec_u64 (rj_model_id j) @ ''@'' @ dec_u64 (rj_model_generation j) @
     '' backend='' @ dec_u64 (rj_backend_id j) @ ''@'' @ dec_u64 (rj_backend_generation j) @ ''.boot='' @
     dec_u64 (rj_backend_boot j) @ '' code='' @ outcome_to_string (rj_code j) @
     (if rj_detail j = [] then [] else '' '' @ rj_detail j)"

definition RouteExplanation_to_text :: "RouteExplanation \<Rightarrow> string" where
  "RouteExplanation_to_text e =
     ''request='' @ dec_u64 (xp_request_id e) @ ''/'' @ dec_u64 (xp_request_generation e) @
     [CHR 0x0A] @ ''winner='' @ CandidateKey_to_string (xp_winner e) @
     [CHR 0x0A] @ ''eligible='' @ dec_u32 (xp_eligible_candidate_count e) @ '' rejected='' @
     dec_u32 (xp_rejected_candidate_count e) @
     [CHR 0x0A] @ ''polic='' @ outcome_to_string (xp_policy_result e) @ '' currentness='' @
     Currentness_to_string (xp_currentness e) @ '' revalidation_required='' @ json_bool (xp_revalidation_required e) @
     [CHR 0x0A] @ ''tie_break='' @ xp_tie_break_reason e @
     [CHR 0x0A] @ ''authority_digest='' @ authority_digest (xp_authority e) @
     [CHR 0x0A] @ ''ranking:'' @
     (if xp_detail_retained e then []
      else '' (factor detail was not persisted; winner and bound authority are exact)'') @
     concat (map ranked_text (xp_ranking e)) @
     (if xp_rejections e \<noteq> [] \<or> \<not> xp_detail_retained e
      then [CHR 0x0A] @ ''rejections:'' @
        (if \<not> xp_detail_retained e \<and> xp_rejections e = [] then '' (not persisted)'' else []) @
        concat (map rejection_text_line (xp_rejections e))
      else []) @
     (if xp_fallback_order e \<noteq> []
      then [CHR 0x0A] @ ''fallbacks:'' @
        concat (map (\<lambda>k. [CHR 0x0A] @ ''  '' @ CandidateKey_to_string k) (xp_fallback_order e))
      else []) @
     [CHR 0x0A] @ ''cost='' @ cu_currency (co_unit (xp_cost e)) @ ''/'' @ cu_basis (co_unit (xp_cost e)) @ ''/'' @
     dec_int (co_estimated_total_micros (xp_cost e)) @ '' knownness='' @
     CostKnownness_to_string (co_knownness (xp_cost e)) @ '' price_generation='' @
     dec_u64 (co_price_generation (xp_cost e)) @
     [CHR 0x0A] @ ''slo='' @ dec_u64 (sl_slo_id (xp_slo e)) @ ''/'' @ dec_u64 (sl_generation (xp_slo e)) @ ''/'' @
     SloVerdict_to_string (sl_verdict (xp_slo e)) @
     [CHR 0x0A] @ ''budget='' @ dec_u64 (bs_budget_id (xp_budget e)) @ ''/'' @ dec_u64 (bs_generation (xp_budget e)) @
     ''/'' @ BudgetVerdict_to_string (bs_verdict (xp_budget e)) @
     [CHR 0x0A] @ ''policy='' @ dec_u64 (ps_policy_id (xp_policy e)) @ ''/'' @ dec_u64 (ps_generation (xp_policy e)) @
     [CHR 0x0A] @ ''requirement_digest='' @ xp_requirement_digest e @
     [CHR 0x0A] @ ''semantic_digest='' @ xp_semantic_digest e"

definition explain_route :: "entity_id \<Rightarrow> CanonicalState \<Rightarrow> string" where
  "explain_route decision_id s =
     (case om_find (cs_routes s) decision_id of
        None \<Rightarrow> outcome_to_string REJECT_INVALID @ '' explain_route {decision_id='' @ dec_u64 decision_id @
          ''} route decision is not retained''
      | Some r \<Rightarrow>
          ''decision_id='' @ dec_u64 (rd_decision_id (rec_decision r)) @ '' status='' @
          RouteStatus_to_string (rd_status (rec_decision r)) @ '' code='' @
          outcome_to_string (rd_code (rec_decision r)) @ [CHR 0x0A] @
          RouteExplanation_to_text (rd_explanation (rec_decision r)) @ [CHR 0x0A] @ ''plan_digest='' @
          RoutePlan_semantic_digest (rec_plan r) @ '' decision_digest='' @
          RouteDecision_semantic_digest (rec_decision r))"

section \<open>JSON\<close>

definition factor_json :: "FactorValue \<Rightarrow> string" where
  "factor_json f = ''\"'' @ RankingFactor_to_string (fv_factor f) @ ''\":{\"known\":'' @ json_bool (fv_known f) @
     '',\"value\":'' @ dec_int (fv_normalized f) @ '',\"raw\":'' @ dec_int (fv_raw f) @ '',\"weight\":'' @
     dec_int (fv_weight_ppm f) @ '',\"contribution\":'' @ dec_int (fv_contribution f) @ '',\"generation\":'' @
     dec_u64 (fv_evidence_generation f) @ '',\"source\":\"'' @ escape_json (fv_source f) @ ''\"}''"

definition ranked_json :: "RankedCandidate \<Rightarrow> string" where
  "ranked_json c = ''{\"rank\":'' @ dec_u32 (rk_rank c) @ '',\"score\":'' @ dec_int (rk_score c) @
     '',\"candidate\":\"'' @ escape_json (CandidateKey_to_string (rk_key c)) @ ''\",\"factors\":{'' @
     comma_separated (map factor_json (rk_factors c)) @ ''}}''"

definition rejection_json :: "RouteRejection \<Rightarrow> string" where
  "rejection_json j = ''{\"model\":'' @ dec_u64 (rj_model_id j) @ '',\"model_generation\":'' @
     dec_u64 (rj_model_generation j) @ '',\"backend\":'' @ dec_u64 (rj_backend_id j) @ '',\"backend_generation\":'' @
     dec_u64 (rj_backend_generation j) @ '',\"backend_boot\":'' @ dec_u64 (rj_backend_boot j) @ '',\"endpoint\":'' @
     dec_u64 (rj_endpoint_id j) @ '',\"code\":\"'' @ outcome_to_string (rj_code j) @ ''\",\"detail\":\"'' @
     escape_json (rj_detail j) @ ''\"}''"

definition RouteExplanation_to_json :: "RouteExplanation \<Rightarrow> string" where
  "RouteExplanation_to_json e =
     ''{\"request\":\"'' @ dec_u64 (xp_request_id e) @ ''/'' @ dec_u64 (xp_request_generation e) @
     ''\",\"winner\":\"'' @ escape_json (CandidateKey_to_string (xp_winner e)) @ ''\",\"eligible\":'' @
     dec_u32 (xp_eligible_candidate_count e) @ '',\"rejected\":'' @ dec_u32 (xp_rejected_candidate_count e) @
     '',\"policy_result\":\"'' @ outcome_to_string (xp_policy_result e) @ ''\",\"currentness\":\"'' @
     Currentness_to_string (xp_currentness e) @ ''\",\"revalidation_required\":'' @
     json_bool (xp_revalidation_required e) @ '',\"tie_break\":\"'' @ escape_json (xp_tie_break_reason e) @
     ''\",\"authority_digest\":\"'' @ authority_digest (xp_authority e) @ ''\",\"detail_retained\":'' @
     json_bool (xp_detail_retained e) @ '',\"ranking\":['' @ comma_separated (map ranked_json (xp_ranking e)) @
     ''],\"rejections\":['' @ comma_separated (map rejection_json (xp_rejections e)) @ ''],\"fallbacks\":['' @
     comma_separated (map (\<lambda>k. ''\"'' @ escape_json (CandidateKey_to_string k) @ ''\"'') (xp_fallback_order e)) @
     ''],\"cost\":{\"currency\":\"'' @ escape_json (cu_currency (co_unit (xp_cost e))) @ ''\",\"basis\":\"'' @
     escape_json (cu_basis (co_unit (xp_cost e))) @ ''\",\"estimated_total_micros\":'' @
     dec_int (co_estimated_total_micros (xp_cost e)) @ '',\"knownness\":\"'' @
     CostKnownness_to_string (co_knownness (xp_cost e)) @ ''\",\"price_generation\":'' @
     dec_u64 (co_price_generation (xp_cost e)) @ ''},\"slo\":{\"id\":'' @ dec_u64 (sl_slo_id (xp_slo e)) @
     '',\"generation\":'' @ dec_u64 (sl_generation (xp_slo e)) @ '',\"verdict\":\"'' @
     SloVerdict_to_string (sl_verdict (xp_slo e)) @ ''\"},\"budget\":{\"id\":'' @ dec_u64 (bs_budget_id (xp_budget e)) @
     '',\"generation\":'' @ dec_u64 (bs_generation (xp_budget e)) @ '',\"verdict\":\"'' @
     BudgetVerdict_to_string (bs_verdict (xp_budget e)) @ ''\"},\"policy\":{\"id\":'' @
     dec_u64 (ps_policy_id (xp_policy e)) @ '',\"generation\":'' @ dec_u64 (ps_generation (xp_policy e)) @
     ''},\"requirement_digest\":\"'' @ xp_requirement_digest e @ ''\",\"semantic_digest\":\"'' @
     xp_semantic_digest e @ ''\"}''"

section \<open>Escaping\<close>

text \<open>Reading a JSON string literal after its opening quote: its content and what follows the closing
  quote.  A raw control character is not allowed inside.\<close>


definition hex_value :: "char \<Rightarrow> nat" where
  "hex_value c = length (takeWhile (\<lambda>d. d \<noteq> c) ''0123456789abcdef'')"

fun read_literal :: "string \<Rightarrow> (string \<times> string) option" where
  "read_literal [] = None"
| "read_literal (c # s) =
     (if c = CHR 0x22 then Some ([], s)
      else if (of_char c :: nat) < 0x20 then None
      else if c \<noteq> CHR 0x5C then map_option (apfst (Cons c)) (read_literal s)
      else case s of
          [] \<Rightarrow> None
        | d # s' \<Rightarrow>
            if d = CHR 0x22 \<or> d = CHR 0x5C then map_option (apfst (Cons d)) (read_literal s')
            else if d = CHR ''n'' then map_option (apfst (Cons (CHR 0x0A))) (read_literal s')
            else if d = CHR ''r'' then map_option (apfst (Cons (CHR 0x0D))) (read_literal s')
            else if d = CHR ''t'' then map_option (apfst (Cons (CHR 0x09))) (read_literal s')
            else if d = CHR ''u'' then
              (case s' of
                 z1 # z2 # h # l # s'' \<Rightarrow>
                   if z1 = CHR ''0'' \<and> z2 = CHR ''0''
                     then map_option (apfst (Cons (char_of (16 * hex_value h + hex_value l)))) (read_literal s'')
                   else None
               | _ \<Rightarrow> None)
            else None)"

lemma hex_value_digit: "n < 16 \<Longrightarrow> hex_value (hex_digit n) = n"
proof -
  assume "n < 16"
  then have "n \<in> set [0..<16]" by simp
  moreover have "list_all (\<lambda>i. hex_value (hex_digit i) = i) [0..<16]"
    by (simp add: hex_value_def hex_digit_def upt_conv_Cons)
  ultimately show ?thesis unfolding list_all_iff by blast
qed

lemma read_escaped_char:
  "read_literal (escape_json_char c @ s) = map_option (apfst (Cons c)) (read_literal s)"
proof -
  have code: "c = char_of (of_char c :: nat)" by simp
  consider "c = CHR 0x22 \<or> c = CHR 0x5C \<or> c = CHR 0x0A \<or> c = CHR 0x0D \<or> c = CHR 0x09"
    | (control) "(of_char c :: nat) < 0x20" "of_char c \<noteq> (34::nat)" "of_char c \<noteq> (92::nat)" "of_char c \<noteq> (10::nat)"
        "of_char c \<noteq> (13::nat)" "of_char c \<noteq> (9::nat)"
    | (plain) "\<not> (of_char c :: nat) < 0x20" "c \<noteq> CHR 0x22" "c \<noteq> CHR 0x5C" "of_char c \<noteq> (34::nat)" "of_char c \<noteq> (92::nat)"
        "of_char c \<noteq> (10::nat)" "of_char c \<noteq> (13::nat)" "of_char c \<noteq> (9::nat)"
  proof -
    have "c = CHR 0x22 \<longleftrightarrow> of_char c = (34::nat)" "c = CHR 0x5C \<longleftrightarrow> of_char c = (92::nat)"
      "c = CHR 0x0A \<longleftrightarrow> of_char c = (10::nat)" "c = CHR 0x0D \<longleftrightarrow> of_char c = (13::nat)"
      "c = CHR 0x09 \<longleftrightarrow> of_char c = (9::nat)"
      using code by (auto simp: char_of_def bit_0)
    then show thesis using that by metis
  qed
  then show ?thesis
  proof cases
    case control
    have "16 * hex_value (hex_digit (of_char c div 16)) + hex_value (hex_digit (of_char c mod 16)) = (of_char c :: nat)"
      using control(1) by (simp add: hex_value_digit)
    then show ?thesis using control by (simp add: escape_json_char_def Let_def)
  qed (auto simp: escape_json_char_def Let_def)
qed

lemma read_escaped: "read_literal (escape_json s @ CHR 0x22 # rest) = Some (s, rest)"
  by (induction s) (simp_all add: escape_json_def read_escaped_char)

end
