(* ===== verification/Reference_Worker.thy ===== *)
theory Reference_Worker
  imports Reference_Catalog Wire_Messages
begin

text \<open>
  The reference backend worker (\<open>reference/backend_worker_main.cpp\<close>): its command line, the exchanges
  with which it announces itself to a coordinator, and the loop that answers dispatches.  The outcome
  of each send and receive is an argument; so is the device probe of a build with CUDA.
\<close>

section \<open>Command line\<close>

record WorkerOptions =
  wo_host :: string
  wo_port :: u16
  wo_backend_id :: u64
  wo_boot :: u64
  wo_generation :: u64
  wo_registration :: u64
  wo_cost_base :: u64
  wo_latency_micros :: u32
  wo_queue_micros :: u32
  wo_price_generation :: u64
  wo_publish_cuda_capability :: bool

definition WorkerOptions_default :: WorkerOptions where
  "WorkerOptions_default =
     \<lparr>wo_host = ''127.0.0.1'', wo_port = 0, wo_backend_id = 1, wo_boot = 1, wo_generation = 1, wo_registration = 1,
      wo_cost_base = 100, wo_latency_micros = 1000, wo_queue_micros = 100, wo_price_generation = 1,
      wo_publish_cuda_capability = True\<rparr>"

text \<open>\<open>strtoull\<close> with base 10; \<open>strtoul\<close> is the same where \<open>unsigned long\<close> has 64 bits.\<close>

definition strtoull :: "string \<Rightarrow> u64" where
  "strtoull s =
     (let t = dropWhile (\<lambda>c. c \<in> {CHR '' '', CHR 0x09, CHR 0x0A, CHR 0x0B, CHR 0x0C, CHR 0x0D}) s;
          signed = t \<noteq> [] \<and> hd t \<in> {CHR ''+'', CHR ''-''};
          digits = takeWhile (\<lambda>c. CHR ''0'' \<le> c \<and> c \<le> CHR ''9'') (if signed then tl t else t);
          n = foldl (\<lambda>n c. 10 * n + (of_char c - 48)) (0 :: nat) digits in
      if n \<ge> 2 ^ 64 then -1
      else if signed \<and> hd t = CHR ''-'' then - of_nat n
      else of_nat n)"

text \<open>The branch of a flag with its value; \<open>None\<close> for an unknown flag.\<close>

definition worker_flag :: "string \<Rightarrow> string \<Rightarrow> WorkerOptions \<Rightarrow> WorkerOptions option" where
  "worker_flag flag v p =
     (if flag = ''--host'' then Some (p\<lparr>wo_host := v\<rparr>)
      else if flag = ''--port'' then Some (p\<lparr>wo_port := ucast (strtoull v)\<rparr>)
      else if flag = ''--backend-id'' then Some (p\<lparr>wo_backend_id := strtoull v\<rparr>)
      else if flag = ''--boot'' then Some (p\<lparr>wo_boot := strtoull v\<rparr>)
      else if flag = ''--generation'' then Some (p\<lparr>wo_generation := strtoull v\<rparr>)
      else if flag = ''--registration'' then Some (p\<lparr>wo_registration := strtoull v\<rparr>)
      else if flag = ''--cost-base'' then Some (p\<lparr>wo_cost_base := strtoull v\<rparr>)
      else if flag = ''--latency-micros'' then Some (p\<lparr>wo_latency_micros := ucast (strtoull v)\<rparr>)
      else if flag = ''--queue-micros'' then Some (p\<lparr>wo_queue_micros := ucast (strtoull v)\<rparr>)
      else if flag = ''--price-generation'' then Some (p\<lparr>wo_price_generation := strtoull v\<rparr>)
      else None)"

fun parse_options :: "string list \<Rightarrow> WorkerOptions \<Rightarrow> WorkerOptions option" where
  "parse_options [] p = (if wo_port p \<noteq> 0 then Some p else None)"
| "parse_options (flag # rest) p =
     (if flag = ''--no-cuda'' then parse_options rest (p\<lparr>wo_publish_cuda_capability := False\<rparr>)
      else case worker_flag flag (case rest of [] \<Rightarrow> [] | v # _ \<Rightarrow> v) p of
          None \<Rightarrow> None
        | Some p' \<Rightarrow> parse_options (tl rest) p')"

section \<open>Announcing\<close>

text \<open>What the worker publishes; the time is fixed to 1.  Prices are products of the cost base; one outside
  64 bits, which the source leaves undefined, is written modulo \<open>2 ^ 64\<close>.\<close>

definition worker_backend :: "WorkerOptions \<Rightarrow> BackendDescriptor" where
  "worker_backend p =
     make_backend make_catalog (wo_backend_id p) (wo_generation p) (wo_boot p) (wo_registration p)
       (wo_host p @ '':'' @ dec_digits (unat (wo_port p))) Provenance.SYNTHETIC 1"

definition worker_claim :: "WorkerOptions \<Rightarrow> CapabilityKey \<Rightarrow> CapabilityEvidence" where
  "worker_claim p key =
     \<lparr>ce_key = key, ce_state = CapabilityState.VERIFIED, ce_generation = 1,
      ce_profile_id = bd_capability_profile_id (worker_backend p), ce_model_generation = 0, ce_backend_generation = 0,
      ce_backend_boot = wo_boot p, ce_observed_at = 1, ce_expires_at = kNoExpiry,
      ce_source = ''reference-backend-worker'', ce_detail = []\<rparr>"

text \<open>\<open>probe\<close>: whether a device was found and its results verified, in a build with CUDA.\<close>

definition worker_publication :: "bool \<Rightarrow> WorkerOptions \<Rightarrow> BackendCapabilityPublication" where
  "worker_publication probe p =
     \<lparr>bcp_backend_id = wo_backend_id p, bcp_backend_generation = wo_generation p, bcp_backend_boot = wo_boot p,
      bcp_profile_id = bd_capability_profile_id (worker_backend p), bcp_generation = 1,
      bcp_claims = map (worker_claim p)
        ([streaming, ''execution/local'', ''execution/offline'', ''text/generation''] @
         (if wo_publish_cuda_capability p \<and> probe then [''execution/cuda''] else []))\<rparr>"

definition worker_evidence :: "WorkerOptions \<Rightarrow> 's \<Rightarrow> 's BackendEvidence" where
  "worker_evidence p state = (BackendEvidence_default state)
     \<lparr>be_backend_id := wo_backend_id p, be_backend_boot := wo_boot p, be_backend_generation := wo_generation p,
      be_generation := 1, be_observed_at := 1, be_source := ''reference-backend-worker''\<rparr>"

definition worker_capacity :: "WorkerOptions \<Rightarrow> CapacityDetail" where
  "worker_capacity p = CapacityDetail_default
     \<lparr>cd_backend_id := wo_backend_id p, cd_backend_boot := wo_boot p, cd_available_slots := 16, cd_total_slots := 16,
      cd_observed_at := 1\<rparr>"

definition worker_latency :: "WorkerOptions \<Rightarrow> LatencyEvidence" where
  "worker_latency p = LatencyEvidence_default
     \<lparr>le_backend_id := wo_backend_id p, le_backend_boot := wo_boot p, le_health_generation := 1,
      le_dispatch_micros := wo_latency_micros p, le_queue_micros := wo_queue_micros p,
      le_tail_micros := wo_latency_micros p, le_completed_micros := wo_latency_micros p, le_sample_count := 32,
      le_observed_at := 1, le_source := ''reference-backend-worker''\<rparr>"

definition worker_cost :: "WorkerOptions \<Rightarrow> entity_id \<Rightarrow> int \<Rightarrow> CostEvidence" where
  "worker_cost p model amount =
     make_cost_evidence (wo_backend_id p) model (wo_price_generation p) amount amount amount 1"

text \<open>An exchange: a frame that is sent, and the verdict on the frame that answers it, \<open>Some\<close> being the
  exit code.  The registration alone looks at its own acknowledgement.\<close>

record exchange =
  xg_type :: MessageType
  xg_payload :: "string + u8 list"
  xg_verdict :: "Frame \<Rightarrow> nat option"

definition hello_verdict :: "Frame \<Rightarrow> nat option" where
  "hello_verdict answer = (if fh_message_type (fr_header answer) \<noteq> type_code HELLO_ACK then Some 3 else None)"

definition registration_verdict :: "ResourceLimits \<Rightarrow> Frame \<Rightarrow> nat option" where
  "registration_verdict limits answer =
     (case decode_backend_register_ack limits (fr_payload answer) of
        Some (Inl _) \<Rightarrow> Some 3
      | None \<Rightarrow> Some 4
      | Some (Inr ack) \<Rightarrow> if br_code ack \<noteq> ACCEPTED then Some 4 else None)"

definition status_verdict :: "ResourceLimits \<Rightarrow> Frame \<Rightarrow> nat option" where
  "status_verdict limits answer =
     (case decode_admin_response limits (fr_payload answer) of
        Some (Inr status) \<Rightarrow> if as_code status \<noteq> ACCEPTED \<and> as_code status \<noteq> NO_CHANGE then Some 3 else None
      | _ \<Rightarrow> Some 3)"

definition worker_hello :: "WorkerOptions \<Rightarrow> HelloMessage" where
  "worker_hello p =
     \<lparr>hm_router_id = 0, hm_router_epoch = 0, hm_coordinator_epoch = 0, hm_backend_id = wo_backend_id p,
      hm_backend_generation = wo_generation p, hm_backend_boot = wo_boot p, hm_product = ''Model Router 1.0.0'',
      hm_version = 1\<rparr>"

definition publish :: "ResourceLimits \<Rightarrow> MessageType \<Rightarrow> string + u8 list \<Rightarrow> exchange" where
  "publish limits type encoded = \<lparr>xg_type = type, xg_payload = encoded, xg_verdict = status_verdict limits\<rparr>"

definition announcements :: "ResourceLimits \<Rightarrow> bool \<Rightarrow> WorkerOptions \<Rightarrow> exchange list" where
  "announcements limits probe p =
     [\<lparr>xg_type = HELLO, xg_payload = encode_hello limits (worker_hello p), xg_verdict = hello_verdict\<rparr>,
      \<lparr>xg_type = BACKEND_REGISTER, xg_payload = encode_backend_register limits (worker_backend p),
       xg_verdict = registration_verdict limits\<rparr>,
      publish limits CAPABILITY_PUBLISH (encode_capability_publish limits (worker_publication probe p)),
      publish limits HEALTH_UPDATE (encode_health limits (worker_evidence p HealthState.HEALTHY)),
      publish limits AVAILABILITY_UPDATE (encode_availability limits (worker_evidence p AvailabilityState.AVAILABLE)),
      publish limits READINESS_UPDATE (encode_readiness limits (worker_evidence p ReadinessState.READY)),
      publish limits RESIDENCY_UPDATE (encode_residency limits (worker_evidence p ResidencyState.RESIDENT)),
      publish limits CAPACITY_UPDATE
        (encode_capacity limits (worker_evidence p CapacityState.AVAILABLE, worker_capacity p)),
      publish limits LATENCY_UPDATE (encode_latency limits (worker_latency p))] @
     map (\<lambda>(model, amount). publish limits COST_UPDATE (encode_cost limits (worker_cost p model amount)))
       (let base = sint (wo_cost_base p) in
        [(ct_small_model make_catalog, base), (ct_general_model make_catalog, base * 3),
         (ct_specialist_model make_catalog, base * 5)])"

text \<open>The exchanges one after the other: \<open>sent\<close> says whether the send works, \<open>received\<close> is the frame that
  answers, if any comes.  The result is what went out, and the exit code with which the worker gives up.\<close>

fun announce :: "(bool \<times> Frame option) list \<Rightarrow> exchange list \<Rightarrow> Frame list \<times> nat option" where
  "announce _ [] = ([], None)"
| "announce turns (x # xs) =
     (case xg_payload x of
        Inl _ \<Rightarrow> ([], Some 3)
      | Inr payload \<Rightarrow>
          (case turns of
             (True, Some answer) # rest \<Rightarrow>
               (case xg_verdict x answer of
                  Some code \<Rightarrow> ([make_frame (xg_type x) payload], Some code)
                | None \<Rightarrow> apfst (Cons (make_frame (xg_type x) payload)) (announce rest xs))
           | (True, None) # _ \<Rightarrow> ([make_frame (xg_type x) payload], Some 3)
           | _ \<Rightarrow> ([], Some 3)))"

section \<open>Serving\<close>

definition synthetic_step :: "CandidateKey \<Rightarrow> u32 \<Rightarrow> u64" where
  "synthetic_step key tries =
     foldl (\<lambda>value item. xor value item * 0x100000001B3) 0xCBF29CE484222325
       [ck_model_id key, ck_model_generation key, ck_backend_id key, ck_backend_boot key, ck_endpoint_id key, ucast tries]"

definition synthetic_result :: "WorkerOptions \<Rightarrow> DispatchMessage \<Rightarrow> DispatchResultMessage" where
  "synthetic_result p m =
     \<lparr>dx_dispatch_id = dm_dispatch_id m, dx_decision_id = dm_decision_id m, dx_code = OutcomeCode.DISPATCHED,
      dx_failure = FailureClass.UNKNOWN, dx_latency_micros = wo_latency_micros p,
      dx_detail = ''synthetic-step='' @ dec_u64 (synthetic_step (dm_target m) (dm_attempt m))\<rparr>"

text \<open>One turn of the loop: send a frame (and leave if that fails), go on, or leave.\<close>

datatype turn = Answer Frame | Ignore | Leave

definition worker_turn :: "ResourceLimits \<Rightarrow> WorkerOptions \<Rightarrow> Frame \<Rightarrow> turn" where
  "worker_turn limits p frame =
     (let type = fh_message_type (fr_header frame) in
      if type = type_code PING then Answer (make_frame PONG [])
      else if type = type_code BYE then Leave
      else if type \<noteq> type_code MessageType.DISPATCH then Ignore
      else case decode_dispatch limits (fr_payload frame) of
          Some (Inr m) \<Rightarrow>
            (case encode_dispatch_result limits (synthetic_result p m) of
               Inl _ \<Rightarrow> Leave
             | Inr payload \<Rightarrow> Answer (make_frame DISPATCH_RESULT payload))
        | _ \<Rightarrow> Ignore)"

fun worker_serve :: "ResourceLimits \<Rightarrow> WorkerOptions \<Rightarrow> (Frame \<times> bool) list \<Rightarrow> Frame list \<times> bool" where
  "worker_serve limits p [] = ([], True)"
| "worker_serve limits p ((frame, sent) # turns) =
     (case worker_turn limits p frame of
        Leave \<Rightarrow> ([], False)
      | Ignore \<Rightarrow> worker_serve limits p turns
      | Answer answer \<Rightarrow> if sent then apfst (Cons answer) (worker_serve limits p turns) else ([], False))"

end
