(* ===== verification/Coordinator_Worker.thy ===== *)
theory Coordinator_Worker
  imports Coordinator_Properties Reference_Worker
begin

text \<open>
  The coordinator and its worker together: a dispatch that the coordinator sends is answered by the
  worker's loop, and the answer ends the dispatch.
\<close>

section \<open>Sizes\<close>

lemma length_dec_digits: "n < 10 ^ Suc k \<Longrightarrow> length (dec_digits n) \<le> Suc k"
proof (induction k arbitrary: n)
  case (Suc k)
  then have "n div 10 < 10 ^ Suc k" by (simp add: less_mult_imp_div_less mult.commute)
  then have "length (dec_digits (n div 10)) \<le> Suc k" by (rule Suc.IH)
  then show ?case by (subst dec_digits.simps) simp
qed (simp add: dec_digits.simps)

lemma length_dec_u64: "length (dec_u64 w) \<le> 20"
proof -
  have "unat w < 2 ^ LENGTH(64)" by (rule unsigned_less)
  then have "unat w < 10 ^ Suc 19" by simp
  then show ?thesis unfolding dec_u64_def using length_dec_digits [of "unat w" 19] by simp
qed

lemmas written = encode_message_def put_u64_def put_u32_def put_u16_def put_u8_def put_enum8_def put_enum16_def
  put_candidate_key_def write_candidate_key_def put_string_def

lemma dispatch_written:
  obtains payload where "encode_dispatch limits m = Inr payload" "length payload = 100"
  by (rule that [of "case encode_dispatch limits m of Inr payload \<Rightarrow> payload"]) (simp_all add: encode_dispatch_def written)

lemma result_written:
  assumes "length (dx_detail m) \<le> unat (max_string_bytes limits)"
  obtains payload where "encode_dispatch_result limits m = Inr payload" "length payload = 27 + length (dx_detail m)"
  by (rule that [of "case encode_dispatch_result limits m of Inr payload \<Rightarrow> payload"])
     (use assms in \<open>simp_all add: encode_dispatch_result_def written not_less\<close>)

lemma type_code_read: "enum_at message_types (unat (type_code t)) = Some t"
proof -
  have "enum_index message_types t < length message_types" by (rule enum_at_index(2)) simp
  also have "length message_types < 2 ^ 16" by (simp add: message_types_def)
  finally have "unat (type_code t) = enum_index message_types t"
    by (simp add: type_code_def unsigned_of_nat take_bit_nat_eq_self)
  then show ?thesis by (simp add: enum_at_index(1))
qed

lemma sealed_made [simp]:
  "fr_payload (sealed (make_frame t payload)) = payload" "fh_message_type (fr_header (sealed (make_frame t payload))) = type_code t"
  by (simp_all add: sealed_def make_frame_def seal_header_def Let_def)

section \<open>Answering a dispatch\<close>

lemma worker_answers:
  assumes "encode_dispatch limits m = Inr payload" "length payload = 100"
  obtains result where "worker_turn default_resource_limits p (sealed (make_frame MessageType.DISPATCH payload)) =
      Answer (make_frame DISPATCH_RESULT result)"
    "encode_dispatch_result default_resource_limits (synthetic_result p m) = Inr result" "length result \<le> 62"
proof -
  have "length (dx_detail (synthetic_result p m)) \<le> 35"
    using length_dec_u64 [of "synthetic_step (dm_target m) (dm_attempt m)"] by (simp add: synthetic_result_def)
  moreover from this have "length (dx_detail (synthetic_result p m)) \<le> unat (max_string_bytes default_resource_limits)"
    by (simp add: default_resource_limits_def)
  then obtain result where "encode_dispatch_result default_resource_limits (synthetic_result p m) = Inr result"
      "length result = 27 + length (dx_detail (synthetic_result p m))"
    by (rule result_written)
  ultimately have r: "encode_dispatch_result default_resource_limits (synthetic_result p m) = Inr result" "length result \<le> 62"
    by simp_all
  have "decode_dispatch default_resource_limits payload = Some (Inr m)"
  proof (rule dispatch_arrives)
    show "encode_dispatch default_resource_limits m = Inr payload" using assms(1) by (simp add: encode_dispatch_def)
  qed (simp add: assms(2) default_resource_limits_def)
  then show thesis using r by (intro that) (simp_all add: worker_turn_def type_code_inject)
qed

lemma result_arrives:
  assumes "link_of connection c = Some a" "a < length (ko_heap c)"
    and "encode_dispatch_result limits m = Inr payload" "length payload \<le> unat (max_payload_bytes (ko_limits c))"
    and "length (dx_detail m) \<le> unat (max_string_bytes (ko_limits c))"
  shows "handle_frame e connection (sealed (make_frame DISPATCH_RESULT payload)) c =
    Some (Return True, update_link a (put_result m) c)"
proof -
  obtain payload' where "encode_dispatch_result (ko_limits c) m = Inr payload'" using result_written [OF assms(5)] .
  moreover from this assms(3) have "payload' = payload"
    by (auto simp: encode_dispatch_result_def encode_message_def put_string_def split: option.splits if_splits)
  ultimately have "decode_dispatch_result (ko_limits c) payload = Some (Inr m)"
    using dispatch_result_arrives assms(4) by blast
  then show ?thesis
    by (simp add: handle_frame_def Let_def type_code_read decoded_def handle_dispatch_result_def assms(1))
qed

lemma answered_dispatch_recorded:
  assumes "om_find (bl_results (ko_heap d ! pn_link w)) (dm_dispatch_id (pn_message w)) = Some result"
    and "dx_code result = OutcomeCode.DISPATCHED" and "om_find (cs_routes (snd (ko_router d))) (pn_decision_id w) = Some r"
    and "pn_epoch w = cs_router_epoch (snd (ko_router d))" "pn_coordinator_epoch w = cs_coordinator_epoch (snd (ko_router d))"
  shows "\<exists>record d' r'. end_dispatch w d = Some (admin_reply (ko_limits d) (dispatch_response record), d') \<and>
    dr_code record = OutcomeCode.DISPATCHED \<and> dr_handed_off record \<and> dr_target record = rc_key (pn_candidate w) \<and>
    dr_detail record = dx_detail result \<and>
    om_find (cs_dispatches (snd (ko_router d'))) (pn_decision_id w) = Some record \<and>
    om_find (cs_routes (snd (ko_router d'))) (pn_decision_id w) = Some r' \<and>
    rd_status (rec_decision r') = RouteStatus.DISPATCHED \<and> rd_authority (rec_decision r') = rd_authority (rec_decision r)"
  using assms
  by (simp add: end_dispatch_def handoff_receive_def dispatch_after_handoff_def handoff_record_def record_dispatch_def
      Let_def split_beta update_route_def om_update_def om_find_put_same mark_dispatched_def)



end
