(* ===== verification/Listener.thy ===== *)
theory Listener
  imports Session
begin

text \<open>
  Listening and connecting (\<open>src/distributed/transport.cpp\<close>, the POSIX parts of \<open>FrameListener\<close> and
  \<open>FrameConnector\<close>).  What the socket calls return is an argument; the descriptors that are closed are
  part of the results.  The listener and the sessions it made share a counter of live connections.
\<close>

section \<open>Listener\<close>

record ListenerState =
  li_options :: TransportOptions
  li_active :: u32
  li_limit :: u32
  li_stopped :: bool
  li_bound_port :: u16
  li_socket :: "nat option"
  li_stop_pipe :: "(nat \<times> nat) option"

definition ListenerState_new :: "TransportOptions \<Rightarrow> ListenerState" where
  "ListenerState_new options =
     \<lparr>li_options = options, li_active = 0, li_limit = 256, li_stopped = False, li_bound_port = 0,
      li_socket = None, li_stop_pipe = None\<rparr>"

text \<open>\<open>release\<close>, with the descriptors it closes.\<close>

definition release_listener :: "ListenerState \<Rightarrow> nat list \<times> ListenerState" where
  "release_listener s =
     ((case li_socket s of None \<Rightarrow> [] | Some fd \<Rightarrow> [fd]) @
      (case li_stop_pipe s of None \<Rightarrow> [] | Some (r, w) \<Rightarrow> [r, w]),
      s\<lparr>li_socket := None, li_stop_pipe := None\<rparr>)"

definition describe_address :: "string \<Rightarrow> u16 \<Rightarrow> string" where
  "describe_address host port = host @ '':'' @ dec_digits (unat port)"

record start_calls =
  st_socket :: "nat option"
  st_address :: bool
  st_bind :: bool
  st_listen :: bool
  st_bound :: "u16 option"
  st_pipe :: "(nat \<times> nat) option"

text \<open>The error, if any, and the descriptors that are closed.\<close>

definition listener_start ::
  "string \<Rightarrow> u16 \<Rightarrow> TransportOptions \<Rightarrow> start_calls \<Rightarrow> ListenerState \<Rightarrow> (string option \<times> nat list) \<times> ListenerState" where
  "listener_start host port options k s =
     (let s0 = s\<lparr>li_options := options, li_limit := max_connections (to_limits options), li_stopped := False\<rparr> in
      case st_socket k of
        None \<Rightarrow> ((Some ''listener socket could not be created'', []), s0)
      | Some fd \<Rightarrow>
          if \<not> st_address k then ((Some ''bind address is not a valid IPv4 literal'', [fd]), s0)
          else if \<not> st_bind k then ((Some (''listener could not bind '' @ describe_address host port), [fd]), s0)
          else if \<not> st_listen k then ((Some ''listener could not listen'', [fd]), s0)
          else let s1 = s0\<lparr>li_bound_port := (case st_bound k of None \<Rightarrow> li_bound_port s0 | Some p \<Rightarrow> p), li_socket := Some fd\<rparr> in
            case st_pipe k of
              None \<Rightarrow> (case release_listener s1 of
                (closed, s2) \<Rightarrow> ((Some ''listener wake pipe could not be created'', closed), s2))
            | Some p \<Rightarrow> ((None, []), s1\<lparr>li_stop_pipe := Some p\<rparr>))"

text \<open>One turn of the loop in \<open>accept\<close>: what \<open>poll\<close> reports and the calls return.  A connection comes with
  its descriptor, its wake pipe and the text of its peer.\<close>

datatype accept_turn =
    PollFailed
  | StopReadable
  | NothingReady
  | AcceptFailed
  | AcceptedSocket nat "(nat \<times> nat) option" "string option"

datatype accept_result =
    AcceptWaits
  | AcceptRefused string "nat list"
  | AcceptedSession nat string SessionState

fun accept_loop :: "accept_turn list \<Rightarrow> ListenerState \<Rightarrow> accept_result \<times> ListenerState" where
  "accept_loop [] s = (AcceptWaits, s)"
| "accept_loop (turn # turns) s =
     (case turn of
        PollFailed \<Rightarrow> (AcceptRefused ''listener poll failed'' [], s)
      | StopReadable \<Rightarrow> (AcceptRefused ''listener is stopped'' [], s)
      | NothingReady \<Rightarrow> accept_loop turns s
      | AcceptFailed \<Rightarrow> accept_loop turns s
      | AcceptedSocket fd wake peer \<Rightarrow>
          if li_active s \<ge> li_limit s then (AcceptRefused ''connection limit reached'' [fd], s)
          else if wake = None then (AcceptRefused ''session wake pipe could not be created'' [fd], s)
          else (AcceptedSession fd (case peer of None \<Rightarrow> [] | Some text \<Rightarrow> text) (SessionState_new (li_options s)),
                s\<lparr>li_active := li_active s + 1\<rparr>))"

definition listener_accept :: "accept_turn list \<Rightarrow> ListenerState \<Rightarrow> accept_result \<times> ListenerState" where
  "listener_accept turns s =
     (if li_stopped s then (AcceptRefused ''listener is stopped'' [], s) else accept_loop turns s)"

text \<open>\<open>stop\<close> wakes a waiting \<open>accept\<close> once and closes the listener's descriptors; the first component says
  whether it wrote to the stop pipe.\<close>

definition listener_stop :: "ListenerState \<Rightarrow> (bool \<times> nat list) \<times> ListenerState" where
  "listener_stop s =
     (case release_listener (s\<lparr>li_stopped := True\<rparr>) of
        (closed, s') \<Rightarrow> ((\<not> li_stopped s \<and> li_stop_pipe s \<noteq> None, closed), s'))"

text \<open>The part of \<open>mark_closed\<close> that touches the counter, for the first close of a connection.\<close>

definition uncount :: "ListenerState \<Rightarrow> ListenerState" where
  "uncount s = (if li_active s > 0 then s\<lparr>li_active := li_active s - 1\<rparr> else s)"

section \<open>Connector\<close>

record connect_calls =
  cc_socket :: "nat option"
  cc_address :: bool
  cc_connect :: bool
  cc_pipe :: "(nat \<times> nat) option"

text \<open>The error and the descriptors closed, or the session with its descriptor and peer.\<close>

definition connector_connect ::
  "string \<Rightarrow> u16 \<Rightarrow> TransportOptions \<Rightarrow> connect_calls \<Rightarrow> (string \<times> nat list) + nat \<times> string \<times> SessionState" where
  "connector_connect host port options k =
     (case cc_socket k of
        None \<Rightarrow> Inl (''connector socket could not be created'', [])
      | Some fd \<Rightarrow>
          if \<not> cc_address k then Inl (''connect host is not a valid IPv4 literal'', [fd])
          else if \<not> cc_connect k then Inl (''connect failed'', [fd])
          else if cc_pipe k = None then Inl (''session wake pipe could not be created'', [fd])
          else Inr (fd, describe_address host port, SessionState_new options))"

section \<open>Connections are counted\<close>

text \<open>The listener with the sessions it made.  A session changes by a pass of its loop, by an operation on
  its queues, or by being closed at this end; the counter goes down when it becomes closed.\<close>

type_synonym listening = "ListenerState \<times> (nat, SessionState) omap"

definition set_session_state :: "nat \<Rightarrow> SessionState \<Rightarrow> SessionState \<Rightarrow> listening \<Rightarrow> listening" where
  "set_session_state n old new x =
     (if ss_closed new \<and> \<not> ss_closed old then uncount (fst x) else fst x, om_put n new (snd x))"

definition session_moves :: "SessionState \<Rightarrow> SessionState \<Rightarrow> bool" where
  "session_moves old new \<longleftrightarrow>
     (\<exists>p. new = fst (session_pass p old)) \<or> (\<exists>frame. connection_send frame old = Queued new) \<or>
     new = snd (connection_receive old) \<or> new = request_close old \<or> new = mark_closed LOCAL_CLOSE [] old"

inductive listening_step :: "listening \<Rightarrow> listening \<Rightarrow> bool" where
  accepted: "listener_accept turns s = (AcceptedSession fd peer session, s') \<Longrightarrow> om_find sessions n = None \<Longrightarrow>
    listening_step (s, sessions) (s', om_put n session sessions)"
| refused: "listener_accept turns s = (r, s') \<Longrightarrow> (\<And>fd peer session. r \<noteq> AcceptedSession fd peer session) \<Longrightarrow>
    listening_step (s, sessions) (s', sessions)"
| moved: "om_find sessions n = Some old \<Longrightarrow> session_moves old new \<Longrightarrow>
    listening_step (s, sessions) (set_session_state n old new (s, sessions))"
| stopped: "listening_step (s, sessions) (snd (listener_stop s), sessions)"

definition alive :: "SessionState \<Rightarrow> nat" where
  "alive session = (if ss_closed session then 0 else 1)"

definition live_connections :: "(nat, SessionState) omap \<Rightarrow> nat" where
  "live_connections sessions = sum_list (map (alive \<circ> snd) sessions)"

definition counted :: "listening \<Rightarrow> bool" where
  "counted x \<longleftrightarrow> unat (li_active (fst x)) = live_connections (snd x) \<and> li_active (fst x) \<le> li_limit (fst x)"

lemma session_stays_closed: "session_moves old new \<Longrightarrow> ss_closed old \<Longrightarrow> ss_closed new"
proof -
  have "\<not> ss_closed old" if "connection_send frame old = Queued new" for frame
    using that by (cases "encode_frame frame (ss_limits old)") (auto simp: connection_send_def split: if_splits)
  then show "session_moves old new \<Longrightarrow> ss_closed old \<Longrightarrow> ss_closed new"
    by (auto simp: session_moves_def session_pass_def connection_receive_def request_close_def mark_closed_def
        split: list.splits)
qed

lemma uncount_active: "li_active s > 0 \<Longrightarrow> unat (li_active (uncount s)) = unat (li_active s) - 1"
  by (simp add: uncount_def unat_sub_if_size word_less_nat_alt)

lemma uncount_le: "li_active s \<le> li_limit s \<Longrightarrow> li_active (uncount s) \<le> li_limit (uncount s)"
  using uncount_active [of s] by (cases "li_active s > 0") (simp_all add: uncount_def word_le_nat_alt)

lemma accept_loop_session:
  "accept_loop turns s = (r, s') \<Longrightarrow>
   (case r of AcceptedSession fd peer session \<Rightarrow>
      li_active s < li_limit s \<and> s' = s\<lparr>li_active := li_active s + 1\<rparr> \<and> session = SessionState_new (li_options s)
    | _ \<Rightarrow> s' = s)"
  by (induction turns s rule: accept_loop.induct) (auto split: accept_turn.splits if_splits)

lemma listening_step_counted:
  assumes "listening_step x y" and "counted x"
  shows "counted y \<and> li_limit (fst y) = li_limit (fst x)"
  using assms
proof (induction rule: listening_step.induct)
  case (accepted turns s fd peer session s' sessions n)
  then have s: "li_active s < li_limit s" "s' = s\<lparr>li_active := li_active s + 1\<rparr>" "session = SessionState_new (li_options s)"
    using accept_loop_session [of turns s] by (auto simp: listener_accept_def split: if_splits)
  moreover have "unat (li_limit s) < 2 ^ LENGTH(32)" by (rule unsigned_less)
  ultimately have "unat (li_active s + 1) = Suc (unat (li_active s))"
    by (simp add: unat_word_ariths(1) word_less_nat_alt)
  then show ?case using accepted s
    by (auto simp: counted_def live_connections_def sum_om_put_new alive_def SessionState_new_def word_less_nat_alt word_le_nat_alt)
next
  case (refused turns s r s' sessions)
  then have "s' = s" using accept_loop_session [of turns s] by (cases r) (auto simp: listener_accept_def split: if_splits)
  then show ?case using refused by simp
next
  case (moved sessions n old new s)
  have sum: "live_connections (om_put n new sessions) + alive old = live_connections sessions + alive new"
    unfolding live_connections_def by (rule sum_om_put [OF moved.hyps(1)])
  show ?case
  proof (cases "ss_closed new \<and> \<not> ss_closed old")
    case True
    then have "live_connections sessions \<noteq> 0" using sum by (simp add: alive_def)
    then have "li_active s > 0" using moved.prems by (auto simp: counted_def word_less_nat_alt)
    then show ?thesis
      using True sum uncount_active uncount_le [of s] moved.prems
      by (simp add: counted_def set_session_state_def alive_def) (simp add: uncount_def)
  next
    case False
    then have "alive new = alive old" using session_stays_closed [OF moved.hyps(2)] by (auto simp: alive_def)
    then show ?thesis using False sum moved.prems by (auto simp: counted_def set_session_state_def)
  qed
next
  case (stopped s sessions)
  then show ?case by (simp add: counted_def listener_stop_def release_listener_def)
qed

text \<open>
  (C32) A listener never has more connections open than its limit.  Started once, however its accepts, the
  passes and operations of the sessions it made, their closing and its own stop interleave, the counter
  is the number of sessions that are not closed, and it does not exceed \<open>max_connections\<close>.
\<close>

theorem listener_bounds_connections:
  assumes "fst (listener_start host port options k (ListenerState_new initial)) = (None, closed)"
    and "listening_step\<^sup>*\<^sup>* (snd (listener_start host port options k (ListenerState_new initial)), om_empty) (s, sessions)"
  shows "unat (li_active s) = live_connections sessions \<and>
    live_connections sessions \<le> unat (max_connections (to_limits options))"
proof -
  let ?s = "snd (listener_start host port options k (ListenerState_new initial))"
  have start: "counted (?s, om_empty)" "li_limit ?s = max_connections (to_limits options)"
    using assms(1) by (auto simp: listener_start_def ListenerState_new_def counted_def live_connections_def om_empty_def
        Let_def split: option.splits if_splits prod.splits)
  have "counted y \<and> li_limit (fst y) = max_connections (to_limits options)"
    if "listening_step\<^sup>*\<^sup>* (?s, om_empty) y" for y
    using that by (induction rule: rtranclp_induct) (use start listening_step_counted in \<open>auto\<close>)
  from this [OF assms(2)] show ?thesis unfolding counted_def word_le_nat_alt by (metis fst_conv snd_conv)
qed

definition sample_start :: start_calls where
  "sample_start = \<lparr>st_socket = Some 3, st_address = True, st_bind = True, st_listen = True, st_bound = Some 9000,
     st_pipe = Some (4, 5)\<rparr>"

definition sample_listening :: TransportOptions where
  "sample_listening = \<lparr>to_limits = default_resource_limits\<lparr>max_connections := 1\<rparr>, to_max_send_queue_frames = 8,
     to_max_receive_queue_frames = 8\<rparr>"

theorem listener_bounds_connections_witness:
  "\<exists>s sessions. live_connections sessions = 1 \<and> unat (li_active s) = 1 \<and>
     listening_step\<^sup>*\<^sup>* (snd (listener_start ''127.0.0.1'' 0 sample_listening sample_start (ListenerState_new sample_listening)), om_empty)
       (s, sessions) \<and> fst (accept_loop [AcceptedSocket 8 (Some (9, 10)) None] s) = AcceptRefused ''connection limit reached'' [8]"
proof -
  let ?s = "snd (listener_start ''127.0.0.1'' 0 sample_listening sample_start (ListenerState_new sample_listening))"
  let ?session = "SessionState_new sample_listening"
  have start: "listener_start ''127.0.0.1'' 0 sample_listening sample_start (ListenerState_new sample_listening) = ((None, []), ?s)"
    and s: "?s = \<lparr>li_options = sample_listening, li_active = 0, li_limit = 1, li_stopped = False, li_bound_port = 9000,
      li_socket = Some 3, li_stop_pipe = Some (4, 5)\<rparr>"
    by (simp_all add: listener_start_def sample_start_def ListenerState_new_def sample_listening_def)
  have "listener_accept [AcceptedSocket 6 (Some (7, 8)) None] ?s = (AcceptedSession 6 [] ?session, ?s\<lparr>li_active := 1\<rparr>)"
    unfolding s by (simp add: listener_accept_def)
  then have "listening_step\<^sup>*\<^sup>* (?s, om_empty) (?s\<lparr>li_active := 1\<rparr>, om_put 0 ?session om_empty)"
    by (intro r_into_rtranclp listening_step.accepted) (simp_all add: om_empty_def)
  moreover from this have "unat (li_active (?s\<lparr>li_active := 1\<rparr>)) = live_connections (om_put 0 ?session om_empty)"
    using listener_bounds_connections [OF arg_cong [of _ _ fst, OF start, unfolded fst_conv]] by blast
  ultimately show ?thesis
    by (intro exI [of _ "?s\<lparr>li_active := 1\<rparr>"] exI [of _ "om_put 0 ?session om_empty"]) (simp add: s)
qed

section \<open>What the code does not guarantee\<close>

text \<open>A second start forgets the descriptors of the first.\<close>

lemma second_start_leaks:
  assumes "li_socket s = Some fd" "st_socket k = Some fd'" "st_address k" "st_bind k" "st_listen k" "st_pipe k = Some p"
  shows "snd (fst (listener_start host port options k s)) = [] \<and> li_socket (snd (listener_start host port options k s)) = Some fd'"
  using assms by (simp add: listener_start_def Let_def)

text \<open>A later start replaces the limit, whatever is open.\<close>

lemma restart_below_open_connections:
  "\<exists>options. li_active s > 0 \<longrightarrow> \<not> li_active s \<le> li_limit (snd (listener_start host port options k s))"
  by (rule exI [of _ "\<lparr>to_limits = default_resource_limits\<lparr>max_connections := 0\<rparr>, to_max_send_queue_frames = 0,
     to_max_receive_queue_frames = 0\<rparr>"])
     (auto simp: listener_start_def release_listener_def Let_def split: option.splits)

end
