(* ===== verification/Inspect_Tool.thy ===== *)
theory Inspect_Tool
  imports Coordinator_Admin Explanation_Text
begin

text \<open>
  The inspection tool (\<open>tools/model_router_inspect.cpp\<close>): its command line, the sections it prints and
  its exit codes.  What reading the state file gives is an argument, once for each of the three times the
  tool reads it; what goes to the error stream is left out.
\<close>

section \<open>Command line\<close>

record InspectOptions =
  io_has_state :: bool
  io_state_path :: string
  io_validate :: bool
  io_summary :: bool
  io_models :: bool
  io_backends :: bool
  io_routes :: bool
  io_fenced :: bool
  io_json :: bool
  io_explain :: bool
  io_explain_id :: u64
  io_version :: bool
  io_help :: bool

definition InspectOptions_default :: InspectOptions where
  "InspectOptions_default =
     \<lparr>io_has_state = False, io_state_path = [], io_validate = False, io_summary = False, io_models = False,
      io_backends = False, io_routes = False, io_fenced = False, io_json = False, io_explain = False,
      io_explain_id = 0, io_version = False, io_help = False\<rparr>"

definition any_section :: "InspectOptions \<Rightarrow> bool" where
  "any_section p \<longleftrightarrow> io_validate p \<or> io_summary p \<or> io_models p \<or> io_backends p \<or> io_routes p \<or> io_fenced p \<or> io_explain p"

definition parse_u64 :: "string \<Rightarrow> u64 option" where
  "parse_u64 text =
     (if text = [] \<or> list_ex (\<lambda>c. c < CHR ''0'' \<or> CHR ''9'' < c) text then None
      else Some (foldl (\<lambda>value c. value * 10 + of_nat (of_char c - 48)) 0 text))"

definition split_option :: "string \<Rightarrow> string \<times> string option" where
  "split_option argument =
     (let name = takeWhile (\<lambda>c. c \<noteq> CHR ''='') argument in
      if name = argument then (argument, None) else (name, Some (drop (Suc (length name)) argument)))"

text \<open>The options that take no value; one that is given is not looked at.\<close>

definition inspect_toggle :: "string \<Rightarrow> InspectOptions \<Rightarrow> InspectOptions option" where
  "inspect_toggle name p =
     (if name = ''--help'' then Some (p\<lparr>io_help := True\<rparr>)
      else if name = ''--version'' then Some (p\<lparr>io_version := True\<rparr>)
      else if name = ''--json'' then Some (p\<lparr>io_json := True\<rparr>)
      else if name = ''--validate'' then Some (p\<lparr>io_validate := True\<rparr>)
      else if name = ''--summary'' then Some (p\<lparr>io_summary := True\<rparr>)
      else if name = ''--models'' then Some (p\<lparr>io_models := True\<rparr>)
      else if name = ''--backends'' then Some (p\<lparr>io_backends := True\<rparr>)
      else if name = ''--routes'' then Some (p\<lparr>io_routes := True\<rparr>)
      else if name = ''--fenced'' then Some (p\<lparr>io_fenced := True\<rparr>)
      else None)"

definition inspect_value :: "string \<Rightarrow> string \<Rightarrow> InspectOptions \<Rightarrow> InspectOptions option" where
  "inspect_value name value p =
     (if name = ''--state'' then
        if value = [] then None else Some (p\<lparr>io_has_state := True, io_state_path := value\<rparr>)
      else case parse_u64 value of
          None \<Rightarrow> None
        | Some i \<Rightarrow> Some (p\<lparr>io_explain_id := i, io_explain := True\<rparr>))"

text \<open>\<open>None\<close> is a usage error.\<close>

fun inspect_parse :: "string list \<Rightarrow> InspectOptions \<Rightarrow> InspectOptions option" where
  "inspect_parse [] p = Some p"
| "inspect_parse (argument # rest) p =
     (case split_option argument of
        (name, given) \<Rightarrow>
          (case inspect_toggle name p of
             Some p' \<Rightarrow> inspect_parse rest p'
           | None \<Rightarrow>
               if name \<noteq> ''--state'' \<and> name \<noteq> ''--explain-route'' then None
               else (case given of
                   Some value \<Rightarrow> Option.bind (inspect_value name value p) (inspect_parse rest)
                 | None \<Rightarrow>
                     (case rest of
                        [] \<Rightarrow> None
                      | value # rest' \<Rightarrow> Option.bind (inspect_value name value p) (inspect_parse rest')))))"

section \<open>Sections\<close>

definition or_none :: "string \<Rightarrow> string" where
  "or_none text = (if text = [] then ''(none)'' else text)"

definition load_report :: "InspectOptions \<Rightarrow> PersistenceLoad \<Rightarrow> string" where
  "load_report p l =
     (if io_json p
      then ''{\"state\":{\"path\":\"'' @ escape_json (io_state_path p) @ ''\",\"code\":\"'' @ outcome_to_string (ld_code l) @
        ''\",\"format_version\":'' @ dec_u32 (ld_format_version l) @ '',\"records\":'' @ dec_u32 (ld_record_count l) @
        '',\"detail\":\"'' @ escape_json (ld_detail l) @ ''\"}}'' @ [CHR 0x0A]
      else ''state path='' @ io_state_path p @ '' code='' @ outcome_to_string (ld_code l) @ '' format='' @
        dec_u32 (ld_format_version l) @ '' records='' @ dec_u32 (ld_record_count l) @ '' detail='' @ ld_detail l @ [CHR 0x0A])"

definition print_summary :: "InspectOptions \<Rightarrow> CanonicalState \<Rightarrow> string" where
  "print_summary p s =
     (if io_json p then RouterSummary_to_json (summary s) @ [CHR 0x0A] else RouterSummary_to_text (summary s))"

text \<open>Without a state file the models are those that the registered backends bind.\<close>

definition inspected_models :: "unix_millis \<Rightarrow> PersistenceLoad option \<Rightarrow> CanonicalState \<Rightarrow> ModelDescriptor list" where
  "inspected_models now loaded s =
     (case loaded of
        Some l \<Rightarrow> sp_models (the (ld_state l))
      | None \<Rightarrow>
          List.map_filter (\<lambda>i. find_model i s)
            (sort_ids (concat (map (\<lambda>b. case find_backend (sb_backend_id b) s of
                 None \<Rightarrow> [] | Some d \<Rightarrow> map mb_model_id (bd_model_bindings d))
               (sn_backends (snapshot now s))))))"

definition model_json :: "ModelDescriptor \<Rightarrow> string" where
  "model_json m =
     ''{\"model_id\":'' @ dec_u64 (md_model_id m) @ '',\"model_generation\":'' @ dec_u64 (md_model_generation m) @
     '',\"artifact_generation\":'' @ dec_u64 (md_artifact_generation m) @ '',\"family_id\":'' @ dec_u64 (md_family_id m) @
     '',\"context_limit_tokens\":'' @ dec_u32 (md_context_limit_tokens m) @ '',\"max_output_tokens\":'' @
     dec_u32 (md_max_output_tokens m) @ '',\"quality_class\":'' @ dec_u32 (md_quality_class m) @ '',\"lifecycle\":\"'' @
     ModelLifecycle_to_string (md_lifecycle m) @ ''\",\"provenance\":\"'' @ Provenance_to_string (md_provenance m) @
     ''\",\"capabilities\":'' @ dec_digits (length (cp_entries (md_capabilities m))) @ '',\"display_name\":\"'' @
     escape_json (md_display_name m) @ ''\"}''"

definition model_text :: "ModelDescriptor \<Rightarrow> string" where
  "model_text m =
     ''  model id='' @ dec_u64 (md_model_id m) @ '' generation='' @ dec_u64 (md_model_generation m) @ '' artifact='' @
     dec_u64 (md_artifact_generation m) @ '' family='' @ dec_u64 (md_family_id m) @ '' context='' @
     dec_u32 (md_context_limit_tokens m) @ '' max_output='' @ dec_u32 (md_max_output_tokens m) @ '' quality='' @
     dec_u32 (md_quality_class m) @ '' lifecycle='' @ ModelLifecycle_to_string (md_lifecycle m) @ '' provenance='' @
     Provenance_to_string (md_provenance m) @ '' capabilities='' @ dec_digits (length (cp_entries (md_capabilities m))) @
     '' name='' @ or_none (md_display_name m) @ [CHR 0x0A]"

text \<open>The frame that all listings share.\<close>

definition listing :: "InspectOptions \<Rightarrow> string \<Rightarrow> ('a \<Rightarrow> string) \<Rightarrow> ('a \<Rightarrow> string) \<Rightarrow> 'a list \<Rightarrow> string" where
  "listing p name json text xs =
     (if io_json p then ''{\"'' @ name @ ''\":['' @ comma_separated (map json xs) @ '']}'' @ [CHR 0x0A]
      else name @ '' count='' @ dec_digits (length xs) @ [CHR 0x0A] @ concat (map text xs))"

definition print_models :: "InspectOptions \<Rightarrow> unix_millis \<Rightarrow> PersistenceLoad option \<Rightarrow> CanonicalState \<Rightarrow> string" where
  "print_models p now loaded s = listing p ''models'' model_json model_text (inspected_models now loaded s)"

definition inspected_backend_json :: "BackendSummary \<Rightarrow> string" where
  "inspected_backend_json b =
     ''{\"backend_id\":'' @ dec_u64 (sb_backend_id b) @ '',\"backend_generation\":'' @
     dec_u64 (sb_backend_generation b) @ '',\"backend_boot\":'' @ dec_u64 (sb_backend_boot b) @
     '',\"provider_id\":'' @ dec_u64 (sb_provider_id b) @ '',\"endpoint_id\":'' @ dec_u64 (sb_endpoint_id b) @
     '',\"endpoint_generation\":'' @ dec_u64 (sb_endpoint_generation b) @ '',\"trust_domain\":\"'' @
     TrustDomain_to_string (sb_trust_domain b) @ ''\",\"locality\":\"'' @ escape_json (sb_locality b) @
     ''\",\"health\":\"'' @ HealthState_to_string (sb_health b) @
     ''\",\"availability\":\"'' @ AvailabilityState_to_string (sb_availability b) @ ''\",\"readiness\":\"'' @
     ReadinessState_to_string (sb_readiness b) @ ''\",\"residency\":\"'' @
     ResidencyState_to_string (sb_residency b) @ ''\",\"capacity\":\"'' @ CapacityState_to_string (sb_capacity b) @
     ''\",\"bound_models\":'' @ dec_u32 (sb_bound_model_count b) @ '',\"fenced\":'' @ json_bool (sb_fenced b) @
     '',\"evidence_current\":'' @ json_bool (sb_evidence_current b) @ '',\"provenance\":\"'' @
     Provenance_to_string (sb_provenance b) @ ''\"}''"

definition inspected_backend_text :: "BackendSummary \<Rightarrow> string" where
  "inspected_backend_text b =
     ''  backend id='' @ dec_u64 (sb_backend_id b) @ '' generation='' @ dec_u64 (sb_backend_generation b) @ '' boot='' @
     dec_u64 (sb_backend_boot b) @ '' provider='' @ dec_u64 (sb_provider_id b) @ '' endpoint='' @
     dec_u64 (sb_endpoint_id b) @ ''@'' @ dec_u64 (sb_endpoint_generation b) @ '' trust='' @
     TrustDomain_to_string (sb_trust_domain b) @ '' locality='' @ or_none (sb_locality b) @ '' health='' @
     HealthState_to_string (sb_health b) @ '' availability='' @ AvailabilityState_to_string (sb_availability b) @
     '' readiness='' @ ReadinessState_to_string (sb_readiness b) @ '' residency='' @
     ResidencyState_to_string (sb_residency b) @ '' capacity='' @ CapacityState_to_string (sb_capacity b) @
     '' models='' @ dec_u32 (sb_bound_model_count b) @ '' fenced='' @ dec_bool (sb_fenced b) @ '' evidence_current='' @
     dec_bool (sb_evidence_current b) @ '' provenance='' @ Provenance_to_string (sb_provenance b) @ [CHR 0x0A]"

definition print_backends :: "InspectOptions \<Rightarrow> RouterSnapshot \<Rightarrow> string" where
  "print_backends p n = listing p ''backends'' inspected_backend_json inspected_backend_text (sn_backends n)"

definition decision_json :: "RouteDecision \<Rightarrow> string" where
  "decision_json d =
     ''{\"decision_id\":'' @ dec_u64 (rd_decision_id d) @ '',\"decision_generation\":'' @
     dec_u64 (rd_decision_generation d) @ '',\"request_id\":'' @ dec_u64 (rd_request_id d) @
     '',\"request_generation\":'' @ dec_u64 (rd_request_generation d) @ '',\"status\":\"'' @
     RouteStatus_to_string (rd_status d) @ ''\",\"code\":\"'' @ outcome_to_string (rd_code d) @ ''\",\"currentness\":\"'' @
     Currentness_to_string (xp_currentness (rd_explanation d)) @ ''\",\"fallbacks\":'' @
     dec_digits (length (rd_fallbacks d)) @ '',\"created_at\":'' @ dec_int (rd_created_at d) @ '',\"winner\":\"'' @
     escape_json (CandidateKey_to_string (xp_winner (rd_explanation d))) @ ''\",\"semantic_digest\":\"'' @
     xp_semantic_digest (rd_explanation d) @ ''\",\"explanation\":'' @ RouteExplanation_to_json (rd_explanation d) @ ''}''"

definition decision_text :: "RouteDecision \<Rightarrow> string" where
  "decision_text d =
     ''  decision id='' @ dec_u64 (rd_decision_id d) @ '' generation='' @ dec_u64 (rd_decision_generation d) @
     '' request='' @ dec_u64 (rd_request_id d) @ '' request_generation='' @ dec_u64 (rd_request_generation d) @
     '' status='' @ RouteStatus_to_string (rd_status d) @ '' code='' @ outcome_to_string (rd_code d) @ '' currentness='' @
     Currentness_to_string (xp_currentness (rd_explanation d)) @ '' fallbacks='' @ dec_digits (length (rd_fallbacks d)) @
     '' created_at='' @ dec_int (rd_created_at d) @ '' winner='' @ CandidateKey_to_string (xp_winner (rd_explanation d)) @
     '' digest='' @ xp_semantic_digest (rd_explanation d) @ [CHR 0x0A]"

definition print_routes :: "InspectOptions \<Rightarrow> CanonicalState \<Rightarrow> string" where
  "print_routes p s = listing p ''routes'' decision_json decision_text (route_history s)"

definition fence_json :: "FencedBootRecord \<Rightarrow> string" where
  "fence_json f =
     ''{\"backend_id\":'' @ dec_u64 (fb_backend_id f) @ '',\"backend_generation\":'' @ dec_u64 (fb_backend_generation f) @
     '',\"backend_boot\":'' @ dec_u64 (fb_backend_boot f) @ '',\"reason\":\"'' @ outcome_to_string (fb_reason f) @
     ''\",\"fenced_at\":'' @ dec_int (fb_fenced_at f) @ ''}''"

definition fence_text :: "FencedBootRecord \<Rightarrow> string" where
  "fence_text f =
     ''  fenced backend='' @ dec_u64 (fb_backend_id f) @ '' generation='' @ dec_u64 (fb_backend_generation f) @ '' boot='' @
     dec_u64 (fb_backend_boot f) @ '' reason='' @ outcome_to_string (fb_reason f) @ '' at='' @ dec_int (fb_fenced_at f) @
     [CHR 0x0A]"

definition print_fenced :: "InspectOptions \<Rightarrow> CanonicalState \<Rightarrow> string" where
  "print_fenced p s = listing p ''fenced'' fence_json fence_text (fenced_boots s)"

text \<open>\<open>None\<close> when the decision is not retained.\<close>

definition print_explain :: "InspectOptions \<Rightarrow> CanonicalState \<Rightarrow> string option" where
  "print_explain p s =
     (case find_decision (io_explain_id p) s of
        None \<Rightarrow> None
      | Some d \<Rightarrow> Some (if io_json p
          then ''{\"explain\":{\"decision_id\":'' @ dec_u64 (rd_decision_id d) @ '',\"decision_generation\":'' @
            dec_u64 (rd_decision_generation d) @ '',\"status\":\"'' @ RouteStatus_to_string (rd_status d) @
            ''\",\"code\":\"'' @ outcome_to_string (rd_code d) @ ''\",\"semantic_digest\":\"'' @
            xp_semantic_digest (rd_explanation d) @ ''\",\"explanation\":'' @
            RouteExplanation_to_json (rd_explanation d) @ ''}}'' @ [CHR 0x0A]
          else ''explain decision='' @ dec_u64 (io_explain_id p) @ [CHR 0x0A] @ explain_route (io_explain_id p) s @ [CHR 0x0A]))"

definition validate_text :: "InspectOptions \<Rightarrow> OutcomeCode \<times> string \<Rightarrow> InvariantReport \<Rightarrow> string" where
  "validate_text p file report =
     (if io_json p
      then ''{\"validate\":{\"path\":\"'' @ escape_json (if io_has_state p then io_state_path p else []) @
        ''\",\"file_code\":\"'' @ outcome_to_string (fst file) @ ''\",\"file_detail\":\"'' @ escape_json (snd file) @
        ''\",\"invariants\":'' @ InvariantReport_to_json report @ ''}}'' @ [CHR 0x0A]
      else ''validate file='' @ (if io_has_state p then io_state_path p else ''(none)'') @ '' code='' @
        outcome_to_string (fst file) @ '' detail='' @ snd file @ [CHR 0x0A] @ InvariantReport_to_text report)"

section \<open>Running\<close>

definition inspect_router_options :: ModelRouterOptions where
  "inspect_router_options =
     \<lparr>mo_router_id = 0, mo_router_generation = 0, mo_limits = default_resource_limits,
      mo_weights = RankingWeights_default, mo_scales = RankingScales_default, mo_persistence_path = [],
      mo_load_on_start = False, mo_save_on_shutdown = False, mo_use_catalog_adapters = True\<rparr>"

text \<open>The sections that were asked for, with the exit code.\<close>

definition inspect_sections ::
  "InspectOptions \<Rightarrow> unix_millis \<Rightarrow> PersistenceLoad option \<Rightarrow> OutcomeCode \<times> string \<Rightarrow> CanonicalState \<Rightarrow> nat \<times> string" where
  "inspect_sections p now loaded file s =
     (let report = check_invariants now s; explained = print_explain p s in
      (if (io_validate p \<and> (fst file \<noteq> ACCEPTED \<or> \<not> InvariantReport_ok report)) \<or> (io_explain p \<and> explained = None) then 1 else 0,
       (if io_validate p then validate_text p file report else []) @
       (if io_summary p then print_summary p s else []) @
       (if io_models p then print_models p now loaded s else []) @
       (if io_backends p then print_backends p (snapshot now s) else []) @
       (if io_routes p then print_routes p s else []) @
       (if io_fenced p then print_fenced p s else []) @
       (if io_explain p then (case explained of None \<Rightarrow> [] | Some text \<Rightarrow> text) else [])))"

text \<open>After parsing.  \<open>first\<close>, \<open>second\<close> and \<open>third\<close> are what the calls give when the file is loaded, imported
  and validated.\<close>

definition inspect_run ::
  "unix_millis \<Rightarrow> InspectOptions \<Rightarrow> read_calls \<Rightarrow> read_calls \<Rightarrow> read_calls \<Rightarrow> u64 \<Rightarrow> (nat \<times> string) option" where
  "inspect_run now p first second third ids =
     (let x = Impl_new inspect_router_options ids; limits = default_resource_limits in
      if \<not> io_has_state p then Some (inspect_sections p now None (ACCEPTED, ''no state file'') (snd x))
      else case load first (io_state_path p) limits of
          None \<Rightarrow> None
        | Some loaded \<Rightarrow>
            if \<not> PersistenceLoad_ok loaded then Some (1, load_report p loaded)
            else if \<not> any_section p then Some (0, load_report p loaded)
            else (case router_load second (io_state_path p) x of
                None \<Rightarrow> None
              | Some ((code, _), x') \<Rightarrow>
                  if code \<noteq> ACCEPTED then Some (1, load_report p loaded)
                  else case (if io_validate p then validate_file third (io_state_path p) limits else Some (ACCEPTED, [])) of
                      None \<Rightarrow> None
                    | Some file \<Rightarrow> Some (apsnd ((@) (load_report p loaded))
                        (inspect_sections p now (Some loaded) file (snd x')))))"

definition inspect_usage :: string where
  "inspect_usage = concat (map (\<lambda>line. line @ [CHR 0x0A])
     [''Model Router inspection tool 1.0.0'', [],
      ''usage: model_router_inspect [options]'', [],
      ''options:'',
      ''  --state <file>        load a persisted router state file'',
      ''  --validate            validate the state file integrity and print the result'',
      ''  --summary             print the router summary'',
      ''  --models              print registered models'',
      ''  --backends            print registered backends'',
      ''  --routes              print retained route decisions'',
      ''  --fenced              print fenced backend incarnations'',
      ''  --explain-route <id>  print the canonical explanation of one retained decision'',
      ''  --json                emit JSON instead of text where a JSON form exists'',
      ''  --version             print the product version string'',
      ''  --help                print this usage'', [],
      ''Without --state the tool inspects a fresh, unloaded router.'',
      ''Exit codes: 0 success, 1 validation or load failure, 2 usage error.''])"

definition inspect_main ::
  "unix_millis \<Rightarrow> string list \<Rightarrow> read_calls \<Rightarrow> read_calls \<Rightarrow> read_calls \<Rightarrow> u64 \<Rightarrow> (nat \<times> string) option" where
  "inspect_main now arguments first second third ids =
     (case inspect_parse arguments InspectOptions_default of
        None \<Rightarrow> Some (2, [])
      | Some p \<Rightarrow>
          if io_help p then Some (0, inspect_usage)
          else if io_version p then Some (0, ''Model Router 1.0.0'' @ [CHR 0x0A])
          else if \<not> io_has_state p \<and> \<not> any_section p then Some (2, [])
          else inspect_run now p first second third ids)"

section \<open>What the exit code says\<close>

lemma parse_digits:
  "foldl (\<lambda>value c. value * 10 + of_nat (of_char c - 48)) (0 :: u64) (dec_digits n) = of_nat n \<and>
   \<not> list_ex (\<lambda>c. c < CHR ''0'' \<or> CHR ''9'' < c) (dec_digits n) \<and> dec_digits n \<noteq> []"
proof (induction n rule: dec_digits.induct)
  case (1 n)
  have digit: "\<not> char_of (48 + d) < CHR ''0'' \<and> \<not> CHR ''9'' < char_of (48 + d) \<and> of_char (char_of (48 + d)) - 48 = d"
    if "d < 10" for d :: nat
    using that by (simp add: less_char_def)
  show ?case
  proof (cases "n < 10")
    case True
    then show ?thesis using digit [OF True] by (simp add: dec_digits.simps [of n])
  next
    case False
    have "of_nat (n div 10) * 10 + of_nat (n mod 10) = (of_nat n :: u64)"
      by (metis div_mult_mod_eq of_nat_add of_nat_mult of_nat_numeral)
    then show ?thesis using False 1 digit [of "n mod 10"] by (simp add: dec_digits.simps [of n])
  qed
qed

text \<open>An identity that is printed is read back, but a longer number is not refused: it wraps.\<close>

lemma parse_u64_printed: "parse_u64 (dec_u64 i) = Some i"
  using parse_digits [of "unat i"] by (simp add: parse_u64_def dec_u64_def)

lemma parse_u64_wraps: "parse_u64 ''18446744073709551621'' = Some 5"
  by (simp add: parse_u64_def)

text \<open>The tool never reports a state file as valid unless it was loaded, imported and validated, and the
  invariant scan found nothing in the state that came of it.\<close>

lemma inspect_validation_sound:
  assumes "inspect_run now p first second third ids = Some (0, out)" and "io_has_state p" "io_validate p"
  shows "\<exists>loaded detail x detail'. load first (io_state_path p) default_resource_limits = Some loaded \<and> PersistenceLoad_ok loaded \<and>
    router_load second (io_state_path p) (Impl_new inspect_router_options ids) = Some ((ACCEPTED, detail), x) \<and>
    validate_file third (io_state_path p) default_resource_limits = Some (ACCEPTED, detail') \<and>
    ir_violations (check_invariants now (snd x)) = []"
  using assms
  by (auto simp: inspect_run_def inspect_sections_def Let_def any_section_def InvariantReport_ok_def
      split: option.splits if_splits prod.splits)

end
