(* ===== verification/Spec2Isabelle.thy ===== *)
theory Spec2Isabelle
  imports Identity Outcome Capability Limits Evidence Sha256 Catalog Request Candidate Authority
    Policy Eligibility Ranking Decision Backend_Index Router_State Mutation_Contract Router_Samples
    Router_Catalog Adapters Router_Route Route_Selection Route_Commit Route_Liveness Router_Dispatch
    Record_Sound Route_Lifecycle Dispatch_Safety Router_Persist Router_System Router_Recovery Crc32c
    Byte_Codec Record_Codec Durable_Codec Durable_Image Durable_Store Byte_Damage Wire_Frame Wire_Parts
    Wire_Messages Session Link Router_Control Invariant_Check Snapshot Reference_Catalog Policy_Builder
    Coordinator Coordinator_Admin Coordinator_System Coordinator_Safety Coordinator_Properties Coordinator_Stop
    Explanation_Text Coordinator_Worker Listener Inspect_Tool
begin

text \<open>
  Model Router: a verification development.

  The program (\<open>src/\<close>, C++) is a deterministic router for model requests: it keeps a catalog of
  models, providers and backends with evidence about them, decides for a request which backend runs
  it, and hands the decision off.  It never acts on stale authority: every decision carries a vector
  of the generations it was made under, a lost backend incarnation is fenced, and a decision is
  revalidated before it is dispatched.

  \<^bold>\<open>Parts and theories\<close>

  \<^item> Vocabulary.  \<open>Prelude\<close> (words, decimal text, ordered maps as the locale \<open>ordered_map\<close>, sorting,
    chains of checks), \<open>Identity\<close> (\<open>ids.hpp\<close>, \<open>ids.cpp\<close>, \<open>clock\<close>), \<open>Outcome_Codes\<close> and \<open>Outcome\<close>
    (\<open>outcome\<close>), \<open>Capability\<close>, \<open>Limits\<close>, \<open>Evidence\<close>, \<open>Catalog\<close>, \<open>Request\<close>, \<open>Candidate\<close>, \<open>Authority\<close>,
    \<open>Decision\<close>, \<open>Sha256\<close>, \<open>Crc32c\<close>: the files of the same names.  A \<open>struct\<close> is a record whose fields
    carry a prefix, an \<open>enum\<close> a datatype, a \<open>std::map\<close> an ordered map, an integer a word of its width or,
    for times and signed quantities, an \<open>int\<close>.
  \<^item> Deciding.  \<open>Policy\<close> and \<open>Policy_Builder\<close> (\<open>policy.cpp\<close>), \<open>Eligibility\<close> (\<open>eligibility.cpp\<close>) with the
    declarative \<open>hard_eligible\<close>, \<open>Ranking\<close> (\<open>ranking.cpp\<close>); the total order of candidates is the locale
    \<open>ranking_order\<close> of \<open>Candidate\<close>.
  \<^item> The canonical state.  \<open>Backend_Index\<close> (the derived indexes, locale \<open>derived_index\<close>), \<open>Router_State\<close>
    (\<open>router_impl.hpp\<close>: dispatchability, the stale passes), \<open>Mutation_Contract\<close> (the invariant \<open>state_ok\<close>
    and the locales \<open>catalog_mutation\<close> and \<open>authority_mutation\<close>), \<open>Router_Catalog\<close> (\<open>router.cpp\<close>: every
    registration, publication, evidence and policy operation, interpreted as those locales).
  \<^item> Routing.  \<open>Adapters\<close> (\<open>providers.hpp\<close>; the adapters are arguments), \<open>Router_Route\<close>
    (\<open>router_route.cpp\<close>) in stages, \<open>Route_Selection\<close>, \<open>Route_Commit\<close> and \<open>Route_Liveness\<close> about them.
  \<^item> Using a decision.  \<open>Router_Dispatch\<close> (\<open>router_dispatch.cpp\<close>), with \<open>Record_Sound\<close>, \<open>Route_Lifecycle\<close>
    (the step relation of a decision's status) and \<open>Dispatch_Safety\<close>.
  \<^item> Durability.  \<open>Router_Persist\<close> (\<open>router_persist.cpp\<close>, start and shutdown), \<open>Router_Recovery\<close>;
    \<open>Byte_Codec\<close>, \<open>Record_Codec\<close>, \<open>Durable_Codec\<close>, \<open>Durable_Image\<close> and \<open>Durable_Store\<close> (\<open>persistence.cpp\<close>).
    Readers and writers meet in the locales \<open>codec\<close>, \<open>checked_codec\<close> and \<open>record_section\<close>.
  \<^item> The whole router.  \<open>Router_System\<close>: each public operation is a command (locale \<open>router_operation\<close>);
    \<open>reachable\<close> is what any sequence of commands can lead to.  \<open>Router_Control\<close> adds what no operation
    but start and shutdown touches.
  \<^item> Looking.  \<open>Invariant_Check\<close> (\<open>router_inspect.cpp\<close>), \<open>Snapshot\<close> (\<open>router_snapshot.cpp\<close>),
    \<open>Explanation_Text\<close> (\<open>explanation.cpp\<close>), \<open>Inspect_Tool\<close> (\<open>tools/model_router_inspect.cpp\<close>).
  \<^item> The wire.  \<open>Byte_Damage\<close>, \<open>Wire_Frame\<close>, \<open>Wire_Parts\<close>, \<open>Wire_Messages\<close> (\<open>protocol.cpp\<close>);
    \<open>Session\<close>, \<open>Link\<close> and \<open>Listener\<close> (\<open>transport.cpp\<close>), where the locale \<open>simulation\<close> states the refinement.
  \<^item> The reference system.  \<open>Reference_Catalog\<close> (\<open>reference_backends.cpp\<close>); \<open>Coordinator\<close>,
    \<open>Coordinator_Admin\<close>, \<open>Coordinator_System\<close>, \<open>Coordinator_Safety\<close>, \<open>Coordinator_Properties\<close> and
    \<open>Coordinator_Stop\<close> (\<open>reference/coordinator.cpp\<close>); \<open>Reference_Worker\<close> and \<open>Coordinator_Worker\<close>
    (\<open>reference/backend_worker_main.cpp\<close>).

  \<^bold>\<open>What the lemmas show\<close>

  Each catalog operation keeps \<open>state_ok\<close>, leaves the state alone when it refuses, and, when it changes
  authority, leaves no live decision that is not dispatchable.  Eligibility, policy, dispatchability and
  the comparison of authorities hold exactly under declarative conditions.  A routing pass selects
  exactly the eligible candidates and the best of them, whatever the order of discovery; its commit keeps
  the history a bounded window.  A handoff happens only for a decision whose authority is current, to
  the registered incarnation, after every hard requirement has been checked again.  From construction
  on, over all sequences of operations, the invariants hold, fences last and ends are final.  Export,
  import, encoding, decoding, saving, framing and messages are inverse to each other up to what is
  stated, damage is detected, and a crash leaves an old or a new image.  Two sessions over a byte stream
  refine a queue, and a listener never has more connections open than its limit.  The coordinator keeps all this while its sessions interleave: a dispatch reaches only
  the worker it was decided for, a lost worker is fenced, no dispatch outlives its worker, a running
  worker completes its dispatches, and stopping ends.

  \<^bold>\<open>Choices\<close>

  Time is an argument of every operation.  The lock-protected stages of \<open>route\<close>, \<open>dispatch\<close> and
  \<open>revalidate\<close> are definitions of their own over the state each sees; the operations compose them on one
  state, and the lemmas about the commit take the states as independent.  The coordinator cuts a dispatch
  at its wait, where other sessions run; the turns of sessions are atomic otherwise, and the end of a
  session (closing, erasing and fencing, each under its own lock in the code) is one turn.  Its links
  live in a heap, because the table, the sessions and the waiting dispatches share them.

  No definition uses fuel: loops are structural or come with a measure (binary search, block hashing,
  the session's write and decode loops, the record decoder).  The identity allocator returns the same
  identity for ever at its ceiling, so \<open>reachable\<close> and \<open>co_reach\<close> ask that identities are left; \<open>co_reach\<close>
  also asks that no waiting dispatch is overtaken, which the code does not prevent
  (\<open>overtaken_dispatch_recorded\<close>).  A cast of a number from outside to an enumeration without a range
  check, outside the enumeration, is \<open>None\<close>.

  \<^bold>\<open>Not modelled\<close>

  Socket options and the Windows event loop (operating-system calls); the harness, process control, the
  coordinator's command line, examples, benchmarks and the CUDA probe, which only call the library; \<open>last_error\<close> and printing; the public wrapper class, which forwards.  Results of sends,
  receives, polls and file calls are arguments.  Data races are not modelled: \<open>evidence_generations_\<close> of
  the coordinator is written by several threads without a lock.
\<close>

section \<open>The router as a whole\<close>

lemma sample_reaches:
  "reachable providers x (perform providers (now, c) x)" if "unat (fst x) + command_need c (snd x) < 2 ^ 64"
  using reachable.command [OF reachable.here that] .

lemma fenced_not_revalidated:
  assumes "router_ok (ids, s)" and "mr_accepted (fst (revalidate now i tenant ns s))"
    and "om_find (cs_routes s) i = Some r"
  shows "\<not> is_fenced s (ra_backend_id (rd_authority (rec_decision r))) (ra_backend_boot (rd_authority (rec_decision r)))"
proof (rule revalidate_accepted [OF assms(1,2)])
  fix r' assume "om_find (cs_routes s) i = Some r'" "is_authority_dispatchable s (rd_authority (rec_decision r')) now"
  then show ?thesis using assms(3) by (simp add: dispatchable_iff)
qed

text \<open>Samples: a router just constructed, and one whose only backend incarnation has been fenced.\<close>

definition sample_options :: ModelRouterOptions where
  "sample_options =
     \<lparr>mo_router_id = 1, mo_router_generation = 1, mo_limits = default_resource_limits,
      mo_weights = RankingWeights_default, mo_scales = RankingScales_default, mo_persistence_path = [],
      mo_load_on_start = False, mo_save_on_shutdown = False, mo_use_catalog_adapters = True\<rparr>"

definition sample_fence :: "unix_millis \<times> router_command" where
  "sample_fence = (60, Catalog (Authority (FenceBackendBoot 7 1 1 REJECT_STALE_BACKEND_BOOT)))"

lemma sample_fence_effect:
  "router_ok (perform sample_handler sample_fence (100, sample_state)) \<and>
   is_fenced (snd (perform sample_handler sample_fence (100, sample_state))) 7 1 \<and>
   (\<exists>r. om_find (cs_routes (snd (perform sample_handler sample_fence (100, sample_state)))) 40 = Some r \<and>
      rd_authority (rec_decision r) = sample_authority)"
proof -
  let ?s = "snd (perform sample_handler sample_fence (100, sample_state))"
  have e: "evolves (100, sample_state) (perform sample_handler sample_fence (100, sample_state))"
    by (rule router_run.advances [OF sample_router_ok]) (simp add: sample_fence_def)
  have run: "?s = snd (execute 60 (Authority (FenceBackendBoot 7 1 1 REJECT_STALE_BACKEND_BOOT)) sample_state)"
    by (simp add: perform_def sample_fence_def catalog_step_of_def)
  have "state_ok sample_state" using sample_router_ok by (simp add: router_ok_def)
  then have "catalog_step sample_state ?s" unfolding run by (rule catalog_ops.makes_catalog_step)
  then have "rel_option only_staled (Some sample_record) (om_find (cs_routes ?s) 40)"
    using sample_lookup unfolding catalog_step_def by metis
  then obtain r where r: "om_find (cs_routes ?s) 40 = Some r" by (auto simp: option_rel_Some1)
  then have "rd_authority (rec_decision r) = sample_authority"
    using evolves_record [OF e _ r] sample_lookup by (simp add: record_evolves_def sample_record_fields)
  moreover have "is_fenced ?s 7 1"
  proof -
    have "\<not> is_fenced sample_state 7 1" "cs_fenced_boots sample_state = []"
      "0 < unat (max_backend_incarnations (cs_limits sample_state))"
      by (simp_all add: is_fenced_def sample_state_def sample_state_with_def CanonicalState_default_def om_empty_def
          default_resource_limits_def)
    then show ?thesis
      unfolding run
      by (simp add: fence_backend_boot_def attempt_def valid_id_def accept_def Let_def is_fenced_def put_fence_def
          stale_decisions_for_authority_change_def stale_decisions_for_backend_def drop_backend_frame split: option.split)
  qed
  ultimately show ?thesis using e r by (auto simp: evolves_def)
qed







end
